(* ===== verification/Prelude.thy ===== *)
theory Prelude
  imports Main "HOL-Library.List_Lexorder" "HOL-Library.Char_ord"
begin

text \<open>
  Shared vocabulary of the development: identifiers, instants, JSON values, the
  error classes of \<^verbatim>\<open>src/shared/errors/app-errors.ts\<close>, the outcome of an
  \<^verbatim>\<open>async\<close> function (an error thrown or a value returned), the few SQL
  forms the repositories use, and JavaScript's string helpers.  A table is the list
  of its rows in insertion order; \<^verbatim>\<open>SELECT ... LIMIT 1\<close> is \<open>List.find\<close>,
  \<^verbatim>\<open>UPDATE ... WHERE\<close> is \<open>update_where\<close>, \<^verbatim>\<open>DELETE ... WHERE\<close> is
  \<open>delete_where\<close>.  The lemmas on these forms are collected in \<open>sql\<close>.
\<close>

named_theorems sql \<open>rewrite rules for the SQL forms\<close>

section \<open>Identifiers, instants, JSON\<close>

text \<open>UUIDs are strings; an instant is a number of milliseconds since the epoch.\<close>

type_synonym uuid = string
type_synonym timestamp = int

datatype json =
    JNull
  | JBool bool
  | JNum int
  | JStr string
  | JArr "json list"
  | JObj "(string \<times> json) list"

definition json_field :: "string \<Rightarrow> json \<Rightarrow> json option" where
  "json_field k j = (case j of JObj fs \<Rightarrow> map_of fs k | _ \<Rightarrow> None)"

definition json_opt :: "string option \<Rightarrow> json" where
  "json_opt x = (case x of None \<Rightarrow> JNull | Some s \<Rightarrow> JStr s)"

text \<open>A JavaScript string used as a condition: \<^verbatim>\<open>null\<close>, \<^verbatim>\<open>undefined\<close> and the
  empty string are falsy.\<close>

definition truthy :: "string option \<Rightarrow> bool" where
  "truthy x = (case x of None \<Rightarrow> False | Some s \<Rightarrow> s \<noteq> '''')"

lemma truthy_simps [simp]:
  "truthy None = False" "truthy (Some s) = (s \<noteq> '''')"
  by (simp_all add: truthy_def)

section \<open>Errors and outcomes\<close>

text \<open>
  A thrown value: an \<^verbatim>\<open>AppError\<close> with its HTTP status, its code and the values
  interpolated into its message (the fixed text of the message decides nothing),
  a PostgreSQL error with its SQLSTATE, or any other JavaScript error.
\<close>

datatype error =
    AppError (statusCode: nat) (err_code: string) (err_args: "string list")
  | PgError string
  | JsError string

type_synonym 'a outcome = "error + 'a"

definition BadRequestError :: "string \<Rightarrow> error" where
  "BadRequestError c = AppError 400 c []"

definition UnauthorizedError :: "string \<Rightarrow> error" where
  "UnauthorizedError c = AppError 401 c []"

definition ForbiddenError :: "string \<Rightarrow> error" where
  "ForbiddenError c = AppError 403 c []"

definition NotFoundError :: "string \<Rightarrow> error" where
  "NotFoundError resource = AppError 404 ''NOT_FOUND'' [resource]"

definition ConflictError :: "string \<Rightarrow> error" where
  "ConflictError c = AppError 409 c []"

definition UnprocessableError :: "string \<Rightarrow> error" where
  "UnprocessableError c = AppError 422 c []"

definition TooManyRequestsError :: error where
  "TooManyRequestsError = AppError 429 ''RATE_LIMIT_EXCEEDED'' []"

definition ValidationError :: error where
  "ValidationError = BadRequestError ''VALIDATION_ERROR''"

lemmas error_class_defs =
  ValidationError_def BadRequestError_def UnauthorizedError_def ForbiddenError_def NotFoundError_def
  ConflictError_def UnprocessableError_def TooManyRequestsError_def

text \<open>
  \<^verbatim>\<open>errorHandlerMiddleware\<close> turns a thrown value into the HTTP status and code
  of the response.  A body-parser error is a JavaScript error whose \<^verbatim>\<open>type\<close> is
  \<^verbatim>\<open>entity.parse.failed\<close> or \<^verbatim>\<open>entity.too.large\<close>.
\<close>

definition errorHandlerMiddleware :: "error \<Rightarrow> nat \<times> string" where
  "errorHandlerMiddleware err =
     (case err of
        AppError st c _ \<Rightarrow> (st, c)
      | PgError sqlstate \<Rightarrow>
          (if sqlstate = ''23505'' then (409, ''DUPLICATE_ENTRY'')
           else (500, ''INTERNAL_ERROR''))
      | JsError ty \<Rightarrow>
          (if ty = ''ZodError'' then (400, ''VALIDATION_ERROR'')
           else if ty = ''entity.parse.failed'' \<or> ty = ''SyntaxError'' then (400, ''INVALID_JSON'')
           else if ty = ''entity.too.large'' then (413, ''PAYLOAD_TOO_LARGE'')
           else (500, ''INTERNAL_ERROR'')))"

section \<open>Stateful outcomes and transactions\<close>

text \<open>
  A fallible stateful operation returns its outcome and the state it leaves, also
  when it throws: statements that ran before the error are kept unless a
  transaction rolls them back.
\<close>

definition and_then ::
    "'a outcome \<times> 's \<Rightarrow> ('a \<Rightarrow> 's \<Rightarrow> 'b outcome \<times> 's) \<Rightarrow> 'b outcome \<times> 's" where
  "and_then r k = (case r of (Inl e, s) \<Rightarrow> (Inl e, s) | (Inr a, s) \<Rightarrow> k a s)"

text \<open>\<^verbatim>\<open>withTransaction\<close>: the writes of the body are kept exactly when it returns.\<close>

definition withTransaction :: "('s \<Rightarrow> 'a outcome \<times> 's) \<Rightarrow> 's \<Rightarrow> 'a outcome \<times> 's" where
  "withTransaction fn s =
     (case fn s of (Inr result, s') \<Rightarrow> (Inr result, s') | (Inl err, _) \<Rightarrow> (Inl err, s))"

lemma and_then_simps [simp]:
  "and_then (Inl e, s) k = (Inl e, s)"
  "and_then (Inr a, s) k = k a s"
  by (simp_all add: and_then_def)

lemma and_then_Inr:
  "and_then r k = (Inr b, t) \<longleftrightarrow> (\<exists>a s. r = (Inr a, s) \<and> k a s = (Inr b, t))"
  by (auto simp: and_then_def split: prod.splits sum.splits)

lemma withTransaction_Inr [simp]:
  "withTransaction fn s = (Inr a, t) \<longleftrightarrow> fn s = (Inr a, t)"
  by (auto simp: withTransaction_def split: prod.splits sum.splits)

lemma withTransaction_Inl:
  "withTransaction fn s = (Inl e, t) \<Longrightarrow> t = s"
  by (auto simp: withTransaction_def split: prod.splits sum.splits)

section \<open>SQL forms\<close>

definition update_where :: "('r \<Rightarrow> bool) \<Rightarrow> ('r \<Rightarrow> 'r) \<Rightarrow> 'r list \<Rightarrow> 'r list" where
  "update_where P f rs = map (\<lambda>r. if P r then f r else r) rs"

definition delete_where :: "('r \<Rightarrow> bool) \<Rightarrow> 'r list \<Rightarrow> 'r list" where
  "delete_where P rs = filter (\<lambda>r. \<not> P r) rs"

text \<open>\<^verbatim>\<open>UPDATE ... RETURNING\<close>: the first updated row.\<close>

definition returning :: "('r \<Rightarrow> bool) \<Rightarrow> ('r \<Rightarrow> 'r) \<Rightarrow> 'r list \<Rightarrow> 'r option" where
  "returning P f rs = map_option f (List.find P rs)"

text \<open>\<^verbatim>\<open>LIMIT n OFFSET m\<close>.\<close>

definition limit_offset :: "nat \<Rightarrow> nat \<Rightarrow> 'r list \<Rightarrow> 'r list" where
  "limit_offset n m rs = take n (drop m rs)"

lemma update_where_Nil [simp, sql]: "update_where P f [] = []"
  by (simp add: update_where_def)

lemma update_where_Cons [simp, sql]:
  "update_where P f (r # rs) = (if P r then f r else r) # update_where P f rs"
  by (simp add: update_where_def)

lemma update_where_append [simp, sql]:
  "update_where P f (rs @ ss) = update_where P f rs @ update_where P f ss"
  by (simp add: update_where_def)

lemma length_update_where [simp, sql]: "length (update_where P f rs) = length rs"
  by (simp add: update_where_def)

lemma set_update_where: "set (update_where P f rs) = (\<lambda>r. if P r then f r else r) ` set rs"
  by (simp add: update_where_def)

lemma in_update_where:
  "s \<in> set (update_where P f rs) \<longleftrightarrow> (\<exists>r \<in> set rs. s = (if P r then f r else r))"
  by (auto simp: set_update_where)

lemma update_where_none [simp]:
  "(\<And>r. r \<in> set rs \<Longrightarrow> \<not> P r) \<Longrightarrow> update_where P f rs = rs"
  by (induction rs) auto

lemma map_update_where_same:
  "(\<And>r. P r \<Longrightarrow> g (f r) = g r) \<Longrightarrow> map g (update_where P f rs) = map g rs"
  by (induction rs) auto

lemma image_update_where_same:
  "(\<And>r. P r \<Longrightarrow> g (f r) = g r) \<Longrightarrow> g ` set (update_where P f rs) = g ` set rs"
  by (metis list.set_map map_update_where_same)

lemma list_all_update_where:
  "list_all P rs \<Longrightarrow> (\<And>r. r \<in> set rs \<Longrightarrow> Q r \<Longrightarrow> P r \<Longrightarrow> P (f r)) \<Longrightarrow> list_all P (update_where Q f rs)"
  by (auto simp: list_all_iff in_update_where)

lemma filter_update_where_same:
  "(\<And>r. P r \<Longrightarrow> \<not> Q r \<and> \<not> Q (f r)) \<Longrightarrow> filter Q (update_where P f rs) = filter Q rs"
  by (induction rs) auto

lemma filter_update_where_clears:
  assumes "\<And>r. Q r \<Longrightarrow> P r" and "\<And>r. P r \<Longrightarrow> \<not> Q (f r)"
  shows "filter Q (update_where P f rs) = []"
  using assms by (induction rs) auto

lemma set_delete_where [simp, sql]: "set (delete_where P rs) = {r \<in> set rs. \<not> P r}"
  by (auto simp: delete_where_def)

lemma delete_where_Nil [simp]: "delete_where P [] = []"
  by (simp add: delete_where_def)

lemma delete_where_Cons [simp]:
  "delete_where P (r # rs) = (if P r then delete_where P rs else r # delete_where P rs)"
  by (simp add: delete_where_def)

lemma find_SomeD: "List.find P xs = Some x \<Longrightarrow> x \<in> set xs \<and> P x"
  by (auto simp: find_Some_iff)

lemma find_append: "List.find P (xs @ ys) =
    (case List.find P xs of Some x \<Rightarrow> Some x | None \<Rightarrow> List.find P ys)"
  by (induction xs) auto

lemma find_update_where_keep:
  assumes "\<And>r. P r \<Longrightarrow> Q (f r) = Q r"
  shows "List.find Q (update_where P f rs) =
    map_option (\<lambda>r. if P r then f r else r) (List.find Q rs)"
  using assms by (induction rs) auto

lemma find_update_where_other:
  assumes "\<And>r. P r \<Longrightarrow> \<not> Q r \<and> \<not> Q (f r)"
  shows "List.find Q (update_where P f rs) = List.find Q rs"
  using assms by (induction rs) auto

lemma find_update_where_clears:
  assumes "\<And>r. Q r \<Longrightarrow> P r" and "\<And>r. P r \<Longrightarrow> \<not> Q (f r)"
  shows "List.find Q (update_where P f rs) = None"
  using assms by (induction rs) auto

lemma map_filter_update_where_same:
  assumes "\<And>r. P r \<Longrightarrow> Q (f r) = Q r \<and> k (f r) = k r"
  shows "map k (filter Q (update_where P f rs)) = map k (filter Q rs)"
  using assms by (induction rs) auto

lemma distinct_filter_update_where_drop:
  assumes "\<And>r. P r \<Longrightarrow> \<not> Q (f r)" and "distinct (map k (filter Q rs))"
  shows "distinct (map k (filter Q (update_where P f rs)))"
proof -
  have "filter Q (update_where P f rs) = filter (\<lambda>r. \<not> P r) (filter Q rs)"
    using assms(1) by (induction rs) auto
  then show ?thesis using distinct_map_filter [OF assms(2), of "\<lambda>r. \<not> P r"] by simp
qed

lemma find_upsert:
  "List.find P rs = Some m \<Longrightarrow> P (f m) \<Longrightarrow> List.find P (update_where P f rs) = Some (f m)"
  by (induction rs) (auto split: if_splits)

text \<open>With a key that is unique in the table, a row is found by its key.\<close>

lemma find_by_key:
  assumes "distinct (map k rs)" and "r \<in> set rs" and "Q r"
  shows "List.find (\<lambda>x. k x = k r \<and> Q x) rs = Some r"
  using assms by (induction rs) (force simp: image_iff)+

lemma inj_on_key: "distinct (map k rs) \<Longrightarrow> r \<in> set rs \<Longrightarrow> s \<in> set rs \<Longrightarrow> k r = k s \<Longrightarrow> r = s"
  by (auto simp: distinct_map dest: inj_onD)

section \<open>JavaScript strings\<close>

text \<open>Decimal digits of a natural number.\<close>

fun show_nat :: "nat \<Rightarrow> string" where
  "show_nat n = (if n < 10 then [char_of (48 + n)] else show_nat (n div 10) @ [char_of (48 + n mod 10)])"

declare show_nat.simps [simp del]

lemma show_nat_digits: "c \<in> set (show_nat n) \<Longrightarrow> 48 \<le> (of_char c :: nat) \<and> (of_char c :: nat) \<le> 57"
proof (induction n rule: show_nat.induct)
  case (1 n)
  show ?case
  proof (cases "n < 10")
    case True
    with 1 show ?thesis by (auto simp: show_nat.simps [of n])
  next
    case False
    have "n mod 10 < 10" by simp
    with False 1 show ?thesis by (auto simp: show_nat.simps [of n])
  qed
qed

text \<open>The number a decimal string denotes, read from the left.\<close>

definition read_nat :: "string \<Rightarrow> nat" where
  "read_nat s = fold (\<lambda>c n. 10 * n + (of_char c - 48)) s 0"

lemma read_show_nat [simp]: "read_nat (show_nat n) = n"
proof (induction n rule: show_nat.induct)
  case (1 n)
  show ?case
  proof (cases "n < 10")
    case True
    then show ?thesis by (simp add: show_nat.simps [of n] read_nat_def)
  next
    case False
    have "n mod 10 < 10" by simp
    with False 1 show ?thesis by (simp add: show_nat.simps [of n] read_nat_def)
  qed
qed

lemma show_nat_inj [simp]: "show_nat m = show_nat n \<longleftrightarrow> m = n"
  by (metis read_show_nat)

text \<open>Two strings that are joined by a separator the first ones do not contain.\<close>

lemma join_inj:
  assumes "c \<notin> set a" and "c \<notin> set b" and "a @ c # x = b @ c # y"
  shows "a = b \<and> x = y"
  using assms
proof (induction a arbitrary: b)
  case Nil
  then show ?case by (cases b) auto
next
  case (Cons d a)
  then show ?case by (cases b) auto
qed

text \<open>\<^verbatim>\<open>s.split(sep)\<close> for a one-character separator.\<close>

fun split_on :: "char \<Rightarrow> string \<Rightarrow> string list" where
  "split_on c [] = [[]]"
| "split_on c (x # xs) = (if x = c then [] # split_on c xs
     else case split_on c xs of [] \<Rightarrow> [[x]] | p # ps \<Rightarrow> (x # p) # ps)"

lemma split_on_free [simp]: "c \<notin> set s \<Longrightarrow> split_on c s = [s]"
  by (induction s) auto

lemma split_on_join [simp]: "c \<notin> set a \<Longrightarrow> split_on c (a @ c # s) = a # split_on c s"
  by (induction a) auto

text \<open>\<^verbatim>\<open>toLowerCase\<close> and \<^verbatim>\<open>trim\<close> on the ASCII range.\<close>

definition lower_char :: "char \<Rightarrow> char" where
  "lower_char c =
     (if 65 \<le> (of_char c :: nat) \<and> (of_char c :: nat) \<le> 90 then char_of (of_char c + 32 :: nat) else c)"

definition toLowerCase :: "string \<Rightarrow> string" where
  "toLowerCase s = map lower_char s"

definition is_space :: "char \<Rightarrow> bool" where
  "is_space c = ((of_char c :: nat) = 32 \<or> (9 \<le> (of_char c :: nat) \<and> (of_char c :: nat) \<le> 13))"

definition trim :: "string \<Rightarrow> string" where
  "trim s = rev (dropWhile is_space (rev (dropWhile is_space s)))"

definition normalize_email :: "string \<Rightarrow> string" where
  "normalize_email email = trim (toLowerCase email)"

lemma of_char_lower:
  "(of_char (lower_char c) :: nat) =
    (if 65 \<le> (of_char c :: nat) \<and> (of_char c :: nat) \<le> 90 then of_char c + 32 else of_char c)"
  by (simp add: lower_char_def)

lemma lower_char_idem [simp]: "lower_char (lower_char c) = lower_char c"
  using of_char_lower [of c] by (auto simp: lower_char_def [of "lower_char c"])

lemma dropWhile_rev_dropWhile:
  "dropWhile p (rev (dropWhile p (rev (dropWhile p xs)))) = rev (dropWhile p (rev (dropWhile p xs)))"
proof (cases "dropWhile p xs")
  case (Cons y ys)
  then have "\<not> p y" by (metis hd_dropWhile list.distinct(1) list.sel(1))
  then have "dropWhile p (rev ys @ [y]) = dropWhile p (rev ys) @ [y]"
    by (simp add: dropWhile_append)
  with Cons \<open>\<not> p y\<close> show ?thesis by simp
next
  case Nil
  show ?thesis by (simp only: Nil rev.simps dropWhile.simps)
qed

lemma trim_idem [simp]: "trim (trim s) = trim s"
  by (simp add: trim_def dropWhile_rev_dropWhile)

lemma map_lower_dropWhile:
  "dropWhile is_space (map lower_char s) = map lower_char (dropWhile is_space s)"
proof -
  have "is_space (lower_char c) = is_space c" for c
    using of_char_lower [of c]
    by (cases "65 \<le> (of_char c :: nat) \<and> (of_char c :: nat) \<le> 90")
       (auto simp: is_space_def lower_char_def)
  then show ?thesis by (induction s) auto
qed

lemma toLowerCase_trim: "toLowerCase (trim s) = trim (toLowerCase s)"
  by (simp add: toLowerCase_def trim_def map_lower_dropWhile rev_map)

lemma normalize_email_idem [simp]: "normalize_email (normalize_email e) = normalize_email e"
  by (simp add: normalize_email_def toLowerCase_trim) (simp add: toLowerCase_def o_def)

end
