(* ===== verification/Platform_Base.thy ===== *)
theory Platform_Base
  imports Prelude
begin

text \<open>
  The part of the platform's state every module uses: the \<^verbatim>\<open>outbox_events\<close> and
  \<^verbatim>\<open>audit_logs\<close> tables, the BullMQ queues, the general-purpose Redis client
  (string keys with an expiry, and what was published on its channels) and the
  entropy that \<^verbatim>\<open>gen_random_uuid()\<close>, \<^verbatim>\<open>uuidv4()\<close> and \<^verbatim>\<open>crypto.randomBytes\<close> draw
  from.  The record is extensible: each module's theory adds its own tables to it,
  so that an operation of this theory runs unchanged in the state of every module.
\<close>

section \<open>State\<close>

datatype outbox_status = OPending | OPublished | OFailed

record outbox_event =
  oe_id :: uuid
  oe_org_id :: "uuid option"
  oe_event_type :: string
  oe_entity_type :: string
  oe_entity_id :: string
  oe_actor_user_id :: "uuid option"
  oe_payload :: json
  oe_status :: outbox_status
  oe_occurred_at :: timestamp
  oe_published_at :: "timestamp option"
  oe_created_at :: timestamp

datatype actor_type = ActorUser | ActorSystem | ActorPlatformAdmin

record audit_row =
  al_org_id :: "uuid option"
  al_actor_id :: "uuid option"
  al_actor_type :: actor_type
  al_event_type :: string
  al_entity_type :: "string option"
  al_entity_id :: "string option"
  al_payload :: json
  al_occurred_at :: timestamp

record job =
  j_queue :: string
  j_name :: string
  j_data :: json
  j_delay :: int

text \<open>A Redis string: its value and the instant it expires at, if any.\<close>

type_synonym redis_store = "string \<Rightarrow> (json \<times> timestamp option) option"

record base =
  outbox_events :: "outbox_event list"
  audit_logs :: "audit_row list"
  jobs :: "job list"
  redis :: redis_store
  pubsub :: "(string \<times> json) list"
  entropy :: "nat \<Rightarrow> string"
  drawn :: nat

section \<open>Entropy\<close>

definition draw :: "'a base_scheme \<Rightarrow> string \<times> 'a base_scheme" where
  "draw w = (entropy w (drawn w), w\<lparr>drawn := Suc (drawn w)\<rparr>)"

section \<open>Redis\<close>

definition live_at :: "timestamp \<Rightarrow> timestamp option \<Rightarrow> bool" where
  "live_at now e = (case e of None \<Rightarrow> True | Some t \<Rightarrow> now < t)"

definition redis_get :: "timestamp \<Rightarrow> string \<Rightarrow> 'a base_scheme \<Rightarrow> json option" where
  "redis_get now k w =
     (case redis w k of None \<Rightarrow> None | Some (v, e) \<Rightarrow> if live_at now e then Some v else None)"

text \<open>\<^verbatim>\<open>SET key value EX ttl\<close> and \<^verbatim>\<open>SETEX\<close>; the ttl is in seconds.\<close>

definition redis_setex :: "timestamp \<Rightarrow> string \<Rightarrow> json \<Rightarrow> int \<Rightarrow> 'a base_scheme \<Rightarrow> 'a base_scheme" where
  "redis_setex now k v ttl w = w\<lparr>redis := (redis w)(k \<mapsto> (v, Some (now + ttl * 1000)))\<rparr>"

definition redis_del :: "string \<Rightarrow> 'a base_scheme \<Rightarrow> 'a base_scheme" where
  "redis_del k w = w\<lparr>redis := (redis w)(k := None)\<rparr>"

text \<open>\<^verbatim>\<open>SET key value EX ttl NX\<close>: sets the key and answers true only if it is absent.\<close>

definition redis_setnx ::
    "timestamp \<Rightarrow> string \<Rightarrow> json \<Rightarrow> int \<Rightarrow> 'a base_scheme \<Rightarrow> bool \<times> 'a base_scheme" where
  "redis_setnx now k v ttl w =
     (case redis_get now k w of
        None \<Rightarrow> (True, redis_setex now k v ttl w)
      | Some _ \<Rightarrow> (False, w))"

definition redis_publish :: "string \<Rightarrow> json \<Rightarrow> 'a base_scheme \<Rightarrow> 'a base_scheme" where
  "redis_publish ch msg w = w\<lparr>pubsub := pubsub w @ [(ch, msg)]\<rparr>"

text \<open>\<^verbatim>\<open>src/shared/redis/cache.ts\<close>; the hit and miss counters are metrics only.\<close>

definition cacheGet :: "timestamp \<Rightarrow> string \<Rightarrow> 'a base_scheme \<Rightarrow> json option" where
  "cacheGet now k w = redis_get now k w"

definition cacheSet ::
    "timestamp \<Rightarrow> string \<Rightarrow> json \<Rightarrow> int option \<Rightarrow> 'a base_scheme \<Rightarrow> 'a base_scheme" where
  "cacheSet now k v ttlSeconds w =
     (case ttlSeconds of
        Some t \<Rightarrow> (if t \<noteq> 0 then redis_setex now k v t w else w\<lparr>redis := (redis w)(k \<mapsto> (v, None))\<rparr>)
      | None \<Rightarrow> w\<lparr>redis := (redis w)(k \<mapsto> (v, None))\<rparr>)"

definition cacheDel :: "string \<Rightarrow> 'a base_scheme \<Rightarrow> 'a base_scheme" where
  "cacheDel k w = redis_del k w"

section \<open>Outbox, audit log, queues\<close>

text \<open>
  \<^verbatim>\<open>INSERT INTO outbox_events (...)\<close>, the statement behind every module's
  \<^verbatim>\<open>writeOutboxEvent\<close>: the id is drawn, the row is pending.
\<close>

definition insert_outbox ::
    "timestamp \<Rightarrow> uuid option \<Rightarrow> string \<Rightarrow> string \<Rightarrow> string \<Rightarrow> uuid option \<Rightarrow> json
     \<Rightarrow> 'a base_scheme \<Rightarrow> 'a base_scheme" where
  "insert_outbox now org ev etype eid actor payload w =
     (let (i, w1) = draw w in
      w1\<lparr>outbox_events := outbox_events w1 @
           [\<lparr>oe_id = i, oe_org_id = org, oe_event_type = ev, oe_entity_type = etype,
             oe_entity_id = eid, oe_actor_user_id = actor, oe_payload = payload,
             oe_status = OPending, oe_occurred_at = now, oe_published_at = None,
             oe_created_at = now\<rparr>]\<rparr>)"

definition persistAuditLog ::
    "timestamp \<Rightarrow> uuid option \<Rightarrow> uuid option \<Rightarrow> actor_type \<Rightarrow> string \<Rightarrow> string option
     \<Rightarrow> string option \<Rightarrow> json \<Rightarrow> 'a base_scheme \<Rightarrow> 'a base_scheme" where
  "persistAuditLog now org actor aty ev etype eid payload w =
     w\<lparr>audit_logs := audit_logs w @
        [\<lparr>al_org_id = (if truthy org then org else None),
          al_actor_id = (if truthy actor then actor else None),
          al_actor_type = aty, al_event_type = ev,
          al_entity_type = (if truthy etype then etype else None),
          al_entity_id = (if truthy eid then eid else None),
          al_payload = payload, al_occurred_at = now\<rparr>]\<rparr>"

definition enqueue :: "string \<Rightarrow> string \<Rightarrow> json \<Rightarrow> int \<Rightarrow> 'a base_scheme \<Rightarrow> 'a base_scheme" where
  "enqueue queueName jobName dta delay w =
     w\<lparr>jobs := jobs w @ [\<lparr>j_queue = queueName, j_name = jobName, j_data = dta, j_delay = delay\<rparr>]\<rparr>"

section \<open>Frame lemmas\<close>

lemmas base_op_defs =
  draw_def redis_setex_def redis_del_def redis_publish_def insert_outbox_def
  persistAuditLog_def enqueue_def

text \<open>Each operation above changes only the fields it names.\<close>

lemma draw_frame [simp]:
  "fst (draw w) = entropy w (drawn w)"
  "outbox_events (snd (draw w)) = outbox_events w"
  "audit_logs (snd (draw w)) = audit_logs w"
  "jobs (snd (draw w)) = jobs w"
  "redis (snd (draw w)) = redis w"
  "pubsub (snd (draw w)) = pubsub w"
  "entropy (snd (draw w)) = entropy w"
  "drawn (snd (draw w)) = Suc (drawn w)"
  "base.more (snd (draw w)) = base.more w"
  by (simp_all add: draw_def)

lemma insert_outbox_frame [simp]:
  "audit_logs (insert_outbox now org ev et eid ac pl w) = audit_logs w"
  "jobs (insert_outbox now org ev et eid ac pl w) = jobs w"
  "redis (insert_outbox now org ev et eid ac pl w) = redis w"
  "pubsub (insert_outbox now org ev et eid ac pl w) = pubsub w"
  "entropy (insert_outbox now org ev et eid ac pl w) = entropy w"
  "drawn (insert_outbox now org ev et eid ac pl w) = Suc (drawn w)"
  "base.more (insert_outbox now org ev et eid ac pl w) = base.more w"
  by (simp_all add: insert_outbox_def draw_def)

lemma persistAuditLog_frame [simp]:
  "outbox_events (persistAuditLog now org ac aty ev et eid pl w) = outbox_events w"
  "jobs (persistAuditLog now org ac aty ev et eid pl w) = jobs w"
  "redis (persistAuditLog now org ac aty ev et eid pl w) = redis w"
  "pubsub (persistAuditLog now org ac aty ev et eid pl w) = pubsub w"
  "entropy (persistAuditLog now org ac aty ev et eid pl w) = entropy w"
  "drawn (persistAuditLog now org ac aty ev et eid pl w) = drawn w"
  "base.more (persistAuditLog now org ac aty ev et eid pl w) = base.more w"
  by (simp_all add: persistAuditLog_def)

lemma enqueue_frame [simp]:
  "outbox_events (enqueue q n d dl w) = outbox_events w"
  "audit_logs (enqueue q n d dl w) = audit_logs w"
  "redis (enqueue q n d dl w) = redis w"
  "pubsub (enqueue q n d dl w) = pubsub w"
  "entropy (enqueue q n d dl w) = entropy w"
  "drawn (enqueue q n d dl w) = drawn w"
  "base.more (enqueue q n d dl w) = base.more w"
  by (simp_all add: enqueue_def)

lemma redis_frame [simp]:
  "base.more (redis_setex now k v ttl w) = base.more w"
  "base.more (redis_del k w) = base.more w"
  "outbox_events (redis_setex now k v ttl w) = outbox_events w"
  "outbox_events (redis_del k w) = outbox_events w"
  "entropy (redis_setex now k v ttl w) = entropy w"
  "entropy (redis_del k w) = entropy w"
  "drawn (redis_setex now k v ttl w) = drawn w"
  "drawn (redis_del k w) = drawn w"
  by (simp_all add: redis_setex_def redis_del_def)

section \<open>Laws of the Redis commands\<close>

lemma redis_get_setex [simp]:
  "redis_get t k (redis_setex now k' v ttl w) =
     (if k = k' then (if t < now + ttl * 1000 then Some v else None) else redis_get t k w)"
  by (simp add: redis_get_def redis_setex_def live_at_def)

lemma redis_get_del [simp]:
  "redis_get t k (redis_del k' w) = (if k = k' then None else redis_get t k w)"
  by (simp add: redis_get_def redis_del_def)

lemma redis_get_other_ops [simp]:
  "redis_get t k (insert_outbox now org ev et eid ac pl w) = redis_get t k w"
  "redis_get t k (persistAuditLog now org ac aty ev et' eid' pl w) = redis_get t k w"
  "redis_get t k (enqueue q n d dl w) = redis_get t k w"
  "redis_get t k (snd (draw w)) = redis_get t k w"
  by (simp_all add: redis_get_def)

text \<open>A value does not outlive its expiry, and does not come back.\<close>

lemma redis_get_mono: "redis_get t' k w = Some v \<Longrightarrow> t \<le> t' \<Longrightarrow> redis_get t k w = Some v"
  by (auto simp: redis_get_def live_at_def split: option.splits if_splits)

text \<open>A cached value is read back until its time to live has passed, and not after it.\<close>

lemma cacheGet_cacheSet:
  "cacheGet t k (cacheSet now k v ttl w) =
     (case ttl of None \<Rightarrow> Some v
      | Some s \<Rightarrow> if s = 0 \<or> t < now + s * 1000 then Some v else None)"
  by (simp add: cacheGet_def cacheSet_def redis_get_def live_at_def redis_setex_def split: option.split)

lemma cacheGet_cacheDel: "cacheGet t k (cacheDel k' w) = (if k = k' then None else cacheGet t k w)"
  by (simp add: cacheGet_def cacheDel_def)

end
