(* ===== verification/Directory.thy ===== *)
theory Directory
  imports Platform_Base
begin

text \<open>
  The tables every module reads: users, organizations, memberships, and the rows that the
  creation of an organization adds (its workspace, the notification preferences of the
  owner, the subscription).  The repositories \<^verbatim>\<open>organization.repository.ts\<close> and
  \<^verbatim>\<open>membership.repository.ts\<close> are the operations on them.  Columns that no statement of
  the program reads or writes are left out of the rows.  Referential integrity is a
  precondition: identifiers passed as foreign keys name existing rows.
\<close>

section \<open>Rows\<close>

datatype user_status = UActive | USuspended | UDeleted

record user =
  u_id :: uuid
  u_email :: string
  u_email_verified :: bool
  u_email_verified_at :: "timestamp option"
  u_password_hash :: "string option"
  u_name :: string
  u_avatar_url :: "string option"
  u_phone :: "string option"
  u_totp_secret :: "string option"
  u_totp_enabled :: bool
  u_mfa_backup_codes :: "string list"
  u_mfa_backup_codes_generated_at :: "timestamp option"
  u_is_platform_admin :: bool
  u_status :: user_status
  u_failed_login_attempts :: int
  u_locked_until :: "timestamp option"
  u_last_login_at :: "timestamp option"
  u_password_changed_at :: "timestamp option"
  u_last_seen_at :: "timestamp option"
  u_deleted_at :: "timestamp option"
  u_created_at :: timestamp
  u_updated_at :: timestamp

datatype org_status = OrgActive | OrgSuspended | OrgOffboarding | OrgDeleted

datatype plan_tier = Free | Pro | Business | Enterprise

record org =
  o_id :: uuid
  o_name :: string
  o_slug :: string
  o_status :: org_status
  o_plan_tier :: plan_tier
  o_plan_started_at :: timestamp
  o_plan_expires_at :: "timestamp option"
  o_grace_period_ends_at :: "timestamp option"
  o_offboarding_started_at :: "timestamp option"
  o_deleted_at :: "timestamp option"
  o_max_members :: int
  o_storage_quota_bytes :: int
  o_storage_used_bytes :: int
  o_saml_enabled :: bool
  o_saml_metadata_url :: "string option"
  o_mfa_required :: bool
  o_account_lockout_attempts :: int
  o_retention_audit_days :: int
  o_retention_chat_days :: "int option"
  o_timezone :: string
  o_locale :: string
  o_created_at :: timestamp
  o_updated_at :: timestamp
  o_version :: int

datatype role = OrgOwner | OrgAdmin | Member | Guest

datatype membership_status = MActive | MSuspended | MRemoved

record membership =
  m_id :: uuid
  m_org_id :: uuid
  m_user_id :: uuid
  m_role :: role
  m_status :: membership_status
  m_invited_by :: "uuid option"
  m_joined_at :: "timestamp option"
  m_removed_at :: "timestamp option"
  m_deleted_at :: "timestamp option"
  m_created_at :: timestamp
  m_updated_at :: timestamp

datatype workspace_status = WsActive | WsArchived

record workspace =
  ws_id :: uuid
  ws_org_id :: uuid
  ws_name :: string
  ws_description :: "string option"
  ws_status :: workspace_status
  ws_owner_user_id :: uuid
  ws_deleted_at :: "timestamp option"
  ws_created_at :: timestamp
  ws_updated_at :: timestamp
  ws_version :: int

datatype digest_mode = Realtime | DailyDigest

text \<open>A \<^verbatim>\<open>TIME\<close> column is the number of minutes since midnight.\<close>

record notif_pref =
  np_id :: uuid
  np_org_id :: uuid
  np_user_id :: uuid
  np_event_type :: string
  np_channel_inapp :: bool
  np_channel_email :: bool
  np_channel_push :: bool
  np_digest_mode :: digest_mode
  np_quiet_hours_start :: "int option"
  np_quiet_hours_end :: "int option"

datatype subscription_status = SubActive | SubHalted | SubCancelled | SubExpired | SubPending

record subscription =
  sb_id :: uuid
  sb_org_id :: uuid
  sb_razorpay_subscription_id :: "string option"
  sb_plan_tier :: plan_tier
  sb_status :: subscription_status
  sb_current_period_start :: "timestamp option"
  sb_current_period_end :: "timestamp option"
  sb_cancel_at_period_end :: bool
  sb_cancelled_at :: "timestamp option"

record dir = base +
  users :: "user list"
  organizations :: "org list"
  org_memberships :: "membership list"
  workspaces :: "workspace list"
  notification_preferences :: "notif_pref list"
  subscriptions :: "subscription list"

definition role_name :: "role \<Rightarrow> string" where
  "role_name r = (case r of OrgOwner \<Rightarrow> ''org_owner'' | OrgAdmin \<Rightarrow> ''org_admin''
                  | Member \<Rightarrow> ''member'' | Guest \<Rightarrow> ''guest'')"

definition org_status_name :: "org_status \<Rightarrow> string" where
  "org_status_name s = (case s of OrgActive \<Rightarrow> ''active'' | OrgSuspended \<Rightarrow> ''suspended''
                        | OrgOffboarding \<Rightarrow> ''offboarding'' | OrgDeleted \<Rightarrow> ''deleted'')"

definition plan_name :: "plan_tier \<Rightarrow> string" where
  "plan_name p = (case p of Free \<Rightarrow> ''free'' | Pro \<Rightarrow> ''pro'' | Business \<Rightarrow> ''business''
                  | Enterprise \<Rightarrow> ''enterprise'')"

section \<open>The plans are ordered\<close>

definition plan_rank :: "plan_tier \<Rightarrow> nat" where
  "plan_rank p = (case p of Free \<Rightarrow> 0 | Pro \<Rightarrow> 1 | Business \<Rightarrow> 2 | Enterprise \<Rightarrow> 3)"

lemma plan_rank_inj: "plan_rank p = plan_rank q \<Longrightarrow> p = q"
  by (cases p; cases q) (simp_all add: plan_rank_def)

instantiation plan_tier :: linorder
begin

definition less_eq_plan_tier :: "plan_tier \<Rightarrow> plan_tier \<Rightarrow> bool" where
  "less_eq_plan_tier p q = (plan_rank p \<le> plan_rank q)"

definition less_plan_tier :: "plan_tier \<Rightarrow> plan_tier \<Rightarrow> bool" where
  "less_plan_tier p q = (plan_rank p < plan_rank q)"

instance
  by standard (auto simp: less_eq_plan_tier_def less_plan_tier_def intro: plan_rank_inj)

end

section \<open>Membership repository\<close>

definition live_membership :: "uuid \<Rightarrow> uuid \<Rightarrow> membership \<Rightarrow> bool" where
  "live_membership orgId userId m =
     (m_org_id m = orgId \<and> m_user_id m = userId \<and> m_deleted_at m = None)"

definition findMembership :: "uuid \<Rightarrow> uuid \<Rightarrow> 'a dir_scheme \<Rightarrow> membership option" where
  "findMembership orgId userId w = List.find (live_membership orgId userId) (org_memberships w)"

text \<open>The upsert: a live membership of the pair is updated in place, otherwise a row is added.\<close>

definition createMembership ::
    "timestamp \<Rightarrow> uuid \<Rightarrow> uuid \<Rightarrow> role \<Rightarrow> uuid option \<Rightarrow> timestamp option
     \<Rightarrow> 'a dir_scheme \<Rightarrow> membership \<times> 'a dir_scheme" where
  "createMembership now orgId userId r invitedBy joinedAt w =
     (let joined = Some (case joinedAt of None \<Rightarrow> now | Some t \<Rightarrow> t);
          upd = (\<lambda>m. m\<lparr>m_role := r, m_status := MActive, m_deleted_at := None,
                        m_joined_at := joined, m_updated_at := now\<rparr>)
      in case findMembership orgId userId w of
           Some m \<Rightarrow> (upd m, w\<lparr>org_memberships :=
                        update_where (live_membership orgId userId) upd (org_memberships w)\<rparr>)
         | None \<Rightarrow>
             (let (i, w1) = draw w;
                  m = \<lparr>m_id = i, m_org_id = orgId, m_user_id = userId, m_role = r, m_status = MActive,
                       m_invited_by = invitedBy, m_joined_at = joined, m_removed_at = None,
                       m_deleted_at = None, m_created_at = now, m_updated_at = now\<rparr>
              in (m, w1\<lparr>org_memberships := org_memberships w1 @ [m]\<rparr>)))"

definition updateRole ::
    "timestamp \<Rightarrow> uuid \<Rightarrow> uuid \<Rightarrow> role \<Rightarrow> 'a dir_scheme \<Rightarrow> membership option \<times> 'a dir_scheme" where
  "updateRole now orgId userId r w =
     (let P = live_membership orgId userId; f = (\<lambda>m. m\<lparr>m_role := r, m_updated_at := now\<rparr>)
      in (returning P f (org_memberships w),
          w\<lparr>org_memberships := update_where P f (org_memberships w)\<rparr>))"

definition removeMembership :: "timestamp \<Rightarrow> uuid \<Rightarrow> uuid \<Rightarrow> 'a dir_scheme \<Rightarrow> 'a dir_scheme" where
  "removeMembership now orgId userId w =
     w\<lparr>org_memberships := update_where (live_membership orgId userId)
         (\<lambda>m. m\<lparr>m_status := MRemoved, m_deleted_at := Some now, m_removed_at := Some now,
                 m_updated_at := now\<rparr>) (org_memberships w)\<rparr>"

definition countActiveMembers :: "uuid \<Rightarrow> 'a dir_scheme \<Rightarrow> nat" where
  "countActiveMembers orgId w =
     length (filter (\<lambda>m. m_org_id m = orgId \<and> m_status m = MActive \<and> m_deleted_at m = None)
               (org_memberships w))"

definition findMembersByOrg :: "uuid \<Rightarrow> 'a dir_scheme \<Rightarrow> membership list" where
  "findMembersByOrg orgId w =
     sort_key m_created_at
       (filter (\<lambda>m. m_org_id m = orgId \<and> m_deleted_at m = None) (org_memberships w))"

section \<open>Organization repository\<close>

definition org_findById :: "uuid \<Rightarrow> 'a dir_scheme \<Rightarrow> org option" where
  "org_findById i w = List.find (\<lambda>r. o_id r = i \<and> o_deleted_at r = None) (organizations w)"

definition findBySlug :: "string \<Rightarrow> 'a dir_scheme \<Rightarrow> org option" where
  "findBySlug slug w = List.find (\<lambda>r. o_slug r = slug \<and> o_deleted_at r = None) (organizations w)"

record create_org_data =
  co_name :: string
  co_slug :: string
  co_plan_tier :: "plan_tier option"
  co_timezone :: "string option"
  co_locale :: "string option"

text \<open>The row that \<^verbatim>\<open>INSERT INTO organizations\<close> makes from the given columns and the
  defaults of the table.\<close>

definition new_org :: "timestamp \<Rightarrow> uuid \<Rightarrow> create_org_data \<Rightarrow> org" where
  "new_org now i d =
     \<lparr>o_id = i, o_name = co_name d, o_slug = co_slug d, o_status = OrgActive,
      o_plan_tier = case_option Free id (co_plan_tier d), o_plan_started_at = now,
      o_plan_expires_at = None, o_grace_period_ends_at = None, o_offboarding_started_at = None,
      o_deleted_at = None, o_max_members = 5, o_storage_quota_bytes = 1073741824,
      o_storage_used_bytes = 0, o_saml_enabled = False, o_saml_metadata_url = None,
      o_mfa_required = False, o_account_lockout_attempts = 5, o_retention_audit_days = 365,
      o_retention_chat_days = None, o_timezone = case_option ''UTC'' id (co_timezone d),
      o_locale = case_option ''en-US'' id (co_locale d), o_created_at = now, o_updated_at = now,
      o_version = 1\<rparr>"

text \<open>The slug is unique over all rows, the deleted ones included.\<close>

definition org_create ::
    "timestamp \<Rightarrow> create_org_data \<Rightarrow> 'a dir_scheme \<Rightarrow> org outcome \<times> 'a dir_scheme" where
  "org_create now d w =
     (if co_slug d \<in> o_slug ` set (organizations w) then (Inl (PgError ''23505''), w)
      else let (i, w1) = draw w; r = new_org now i d
           in (Inr r, w1\<lparr>organizations := organizations w1 @ [r]\<rparr>))"

record update_org_data =
  uo_name :: "string option"
  uo_slug :: "string option"
  uo_timezone :: "string option"
  uo_locale :: "string option"
  uo_mfa_required :: "bool option"
  uo_account_lockout_attempts :: "int option"
  uo_retention_chat_days :: "int option option"
  uo_saml_enabled :: "bool option"
  uo_saml_metadata_url :: "string option option"
  uo_max_members :: "int option"

definition org_has_clauses :: "update_org_data \<Rightarrow> bool" where
  "org_has_clauses d =
     (uo_name d \<noteq> None \<or> uo_slug d \<noteq> None \<or> uo_timezone d \<noteq> None \<or> uo_locale d \<noteq> None \<or>
      uo_mfa_required d \<noteq> None \<or> uo_account_lockout_attempts d \<noteq> None \<or>
      uo_retention_chat_days d \<noteq> None \<or> uo_saml_enabled d \<noteq> None \<or>
      uo_saml_metadata_url d \<noteq> None \<or> uo_max_members d \<noteq> None)"

text \<open>A column is set when the field of the patch is present.\<close>

definition patched :: "'b \<Rightarrow> 'b option \<Rightarrow> 'b" where
  "patched old new = (case new of None \<Rightarrow> old | Some v \<Rightarrow> v)"

definition org_set :: "timestamp \<Rightarrow> update_org_data \<Rightarrow> org \<Rightarrow> org" where
  "org_set now d r = r\<lparr>
     o_name := patched (o_name r) (uo_name d), o_slug := patched (o_slug r) (uo_slug d),
     o_timezone := patched (o_timezone r) (uo_timezone d),
     o_locale := patched (o_locale r) (uo_locale d),
     o_mfa_required := patched (o_mfa_required r) (uo_mfa_required d),
     o_account_lockout_attempts := patched (o_account_lockout_attempts r) (uo_account_lockout_attempts d),
     o_retention_chat_days := patched (o_retention_chat_days r) (uo_retention_chat_days d),
     o_saml_enabled := patched (o_saml_enabled r) (uo_saml_enabled d),
     o_saml_metadata_url := patched (o_saml_metadata_url r) (uo_saml_metadata_url d),
     o_max_members := patched (o_max_members r) (uo_max_members d),
     o_version := o_version r + 1, o_updated_at := now\<rparr>"

definition org_update ::
    "timestamp \<Rightarrow> uuid \<Rightarrow> update_org_data \<Rightarrow> int \<Rightarrow> 'a dir_scheme
     \<Rightarrow> org option outcome \<times> 'a dir_scheme" where
  "org_update now orgId d expectedVersion w =
     (if \<not> org_has_clauses d then (Inr (org_findById orgId w), w)
      else let P = (\<lambda>r. o_id r = orgId \<and> o_version r = expectedVersion \<and> o_deleted_at r = None)
      in case List.find P (organizations w) of
           None \<Rightarrow> (Inr None, w)
         | Some r \<Rightarrow>
             (if (case uo_slug d of None \<Rightarrow> False
                  | Some s \<Rightarrow> s \<noteq> o_slug r \<and> s \<in> o_slug ` set (organizations w))
              then (Inl (PgError ''23505''), w)
              else (Inr (Some (org_set now d r)),
                    w\<lparr>organizations := update_where P (org_set now d) (organizations w)\<rparr>)))"

text \<open>\<^verbatim>\<open>updateStatus\<close>: \<open>off\<close> and \<open>del\<close> are the columns that \<^verbatim>\<open>extra\<close> names.\<close>

definition org_updateStatus ::
    "timestamp \<Rightarrow> uuid \<Rightarrow> org_status \<Rightarrow> timestamp option option \<Rightarrow> timestamp option option
     \<Rightarrow> 'a dir_scheme \<Rightarrow> org option \<times> 'a dir_scheme" where
  "org_updateStatus now orgId st off del w =
     (let P = (\<lambda>r. o_id r = orgId \<and> o_deleted_at r = None);
          f = (\<lambda>r. r\<lparr>o_status := st,
                      o_offboarding_started_at := patched (o_offboarding_started_at r) off,
                      o_deleted_at := patched (o_deleted_at r) del, o_updated_at := now\<rparr>)
      in (returning P f (organizations w),
          w\<lparr>organizations := update_where P f (organizations w)\<rparr>))"

definition updateStorageUsed ::
    "timestamp \<Rightarrow> uuid \<Rightarrow> int \<Rightarrow> 'a dir_scheme \<Rightarrow> org option \<times> 'a dir_scheme" where
  "updateStorageUsed now orgId delta w =
     (let P = (\<lambda>r. o_id r = orgId \<and> o_storage_used_bytes r + delta \<le> o_storage_quota_bytes r);
          f = (\<lambda>r. r\<lparr>o_storage_used_bytes := o_storage_used_bytes r + delta, o_updated_at := now\<rparr>)
      in (returning P f (organizations w),
          w\<lparr>organizations := update_where P f (organizations w)\<rparr>))"

section \<open>Frame lemmas\<close>

lemma dir_draw_frame [simp]:
  "users (snd (draw w)) = users w" "organizations (snd (draw w)) = organizations w"
  "org_memberships (snd (draw w)) = org_memberships w" "workspaces (snd (draw w)) = workspaces w"
  "notification_preferences (snd (draw w)) = notification_preferences w"
  "subscriptions (snd (draw w)) = subscriptions w"
  by (simp_all add: draw_def)

lemma dir_insert_outbox_frame [simp]:
  "users (insert_outbox now g ev et eid ac pl w) = users w"
  "organizations (insert_outbox now g ev et eid ac pl w) = organizations w"
  "org_memberships (insert_outbox now g ev et eid ac pl w) = org_memberships w"
  "workspaces (insert_outbox now g ev et eid ac pl w) = workspaces w"
  "notification_preferences (insert_outbox now g ev et eid ac pl w) = notification_preferences w"
  "subscriptions (insert_outbox now g ev et eid ac pl w) = subscriptions w"
  by (simp_all add: insert_outbox_def draw_def)

lemma dir_audit_frame [simp]:
  "users (persistAuditLog now g ac aty ev et eid pl w) = users w"
  "organizations (persistAuditLog now g ac aty ev et eid pl w) = organizations w"
  "org_memberships (persistAuditLog now g ac aty ev et eid pl w) = org_memberships w"
  "workspaces (persistAuditLog now g ac aty ev et eid pl w) = workspaces w"
  "notification_preferences (persistAuditLog now g ac aty ev et eid pl w) = notification_preferences w"
  "subscriptions (persistAuditLog now g ac aty ev et eid pl w) = subscriptions w"
  by (simp_all add: persistAuditLog_def)

lemma dir_enqueue_frame [simp]:
  "users (enqueue q n d dl w) = users w" "organizations (enqueue q n d dl w) = organizations w"
  "org_memberships (enqueue q n d dl w) = org_memberships w"
  "workspaces (enqueue q n d dl w) = workspaces w"
  "notification_preferences (enqueue q n d dl w) = notification_preferences w"
  "subscriptions (enqueue q n d dl w) = subscriptions w"
  by (simp_all add: enqueue_def)

lemma dir_redis_frame [simp]:
  "users (redis_setex now k v ttl w) = users w" "users (redis_del k w) = users w"
  "organizations (redis_setex now k v ttl w) = organizations w"
  "organizations (redis_del k w) = organizations w"
  "org_memberships (redis_setex now k v ttl w) = org_memberships w"
  "org_memberships (redis_del k w) = org_memberships w"
  by (simp_all add: redis_setex_def redis_del_def)

lemma patched_simps [simp]: "patched old None = old" "patched old (Some v) = v"
  by (simp_all add: patched_def)

lemma live_membership_iff [simp]:
  "live_membership g u m \<longleftrightarrow> m_org_id m = g \<and> m_user_id m = u \<and> m_deleted_at m = None"
  by (simp add: live_membership_def)

section \<open>At most one live membership per user and organization\<close>

text \<open>The partial unique index on \<^verbatim>\<open>org_memberships\<close>, as an invariant of the table.\<close>

definition unique_memberships :: "membership list \<Rightarrow> bool" where
  "unique_memberships ms =
     distinct (map (\<lambda>m. (m_org_id m, m_user_id m)) (filter (\<lambda>m. m_deleted_at m = None) ms))"

lemma createMembership_unique:
  assumes "unique_memberships (org_memberships w)"
  shows "unique_memberships (org_memberships (snd (createMembership now g u r ib jn w)))"
proof (cases "findMembership g u w")
  case None
  then have "\<not> live_membership g u m" if "m \<in> set (org_memberships w)" for m
    using that by (auto simp: findMembership_def find_None_iff)
  with None assms show ?thesis
    by (fastforce simp: createMembership_def unique_memberships_def draw_def Let_def)
next
  case (Some m)
  with assms show ?thesis
    by (simp add: createMembership_def unique_memberships_def Let_def)
       (subst map_filter_update_where_same; simp)
qed

lemma removeMembership_unique:
  assumes "unique_memberships (org_memberships w)"
  shows "unique_memberships (org_memberships (removeMembership now g u w))"
  using assms
  by (auto simp: removeMembership_def unique_memberships_def intro!: distinct_filter_update_where_drop)

lemma findMembership_createMembership:
  "findMembership g u (snd (createMembership now g u r ib jn w)) =
     Some (fst (createMembership now g u r ib jn w))"
proof (cases "findMembership g u w")
  case None
  then have "List.find (live_membership g u) (org_memberships w) = None"
    by (simp add: findMembership_def)
  with None show ?thesis
    by (simp add: createMembership_def findMembership_def draw_def find_append Let_def split: option.split)
next
  case (Some m)
  then have "List.find (live_membership g u) (org_memberships w) = Some m"
    by (simp add: findMembership_def)
  moreover from this have "live_membership g u m" by (rule find_SomeD [THEN conjunct2])
  ultimately show ?thesis
    using Some
    by (simp add: createMembership_def findMembership_def Let_def find_upsert)
qed

lemma findMembership_removeMembership: "findMembership g u (removeMembership now g u w) = None"
  unfolding findMembership_def removeMembership_def
  by (simp, rule find_update_where_clears) auto

section \<open>The storage quota\<close>

definition quota_ok :: "org list \<Rightarrow> bool" where
  "quota_ok rs = list_all (\<lambda>r. o_storage_used_bytes r \<le> o_storage_quota_bytes r) rs"

lemma updateStorageUsed_quota:
  "quota_ok (organizations w) \<Longrightarrow> quota_ok (organizations (snd (updateStorageUsed now g d w)))"
  by (auto simp: quota_ok_def updateStorageUsed_def list_all_iff in_update_where Let_def)

end
