(* ===== verification/Interfaces.thy ===== *)
theory Interfaces
  imports Prelude
begin

text \<open>
  The contracts that several components share, each stated once as a locale and
  interpreted on the definitions of every component that provides it:
  \<open>tenant_lookup\<close> (a row is reachable only from its own organization),
  \<open>versioned_store\<close> (an update under an optimistic lock), \<open>one_time_token\<close> (a token that
  is accepted once), \<open>fresh_insert\<close>
  (a table whose key stays unique).
\<close>

section \<open>Lookups scoped to a tenant\<close>

locale tenant_lookup =
  fixes rows :: "'s \<Rightarrow> 'r list"
    and rid :: "'r \<Rightarrow> uuid"
    and rorg :: "'r \<Rightarrow> uuid"
    and live :: "'r \<Rightarrow> bool"
    and get :: "uuid \<Rightarrow> uuid \<Rightarrow> 's \<Rightarrow> 'r outcome"
    and resource :: string
  assumes get_sound: "get g i s = Inr r \<Longrightarrow> r \<in> set (rows s) \<and> rid r = i \<and> rorg r = g \<and> live r"
    and get_error: "get g i s = Inl e \<Longrightarrow> e = NotFoundError resource"
    and get_complete: "distinct (map rid (rows s)) \<Longrightarrow> r \<in> set (rows s) \<Longrightarrow> live r \<Longrightarrow>
           get (rorg r) (rid r) s = Inr r"
begin

text \<open>A row of another organization answers exactly as a row that does not exist.\<close>

lemma foreign_row_hidden:
  assumes "distinct (map rid (rows s))" and "r \<in> set (rows s)" and "rorg r \<noteq> g"
  shows "get g (rid r) s = Inl (NotFoundError resource)"
proof (cases "get g (rid r) s")
  case (Inl e)
  then show ?thesis using get_error by simp
next
  case (Inr r')
  from get_sound [OF this] have "r' \<in> set (rows s)" "rid r' = rid r" "rorg r' = g" by auto
  with assms inj_on_key [OF assms(1)] show ?thesis by metis
qed

lemma get_iff:
  assumes "distinct (map rid (rows s))"
  shows "get g i s = Inr r \<longleftrightarrow> r \<in> set (rows s) \<and> rid r = i \<and> rorg r = g \<and> live r"
  using get_sound [of g i s r] get_complete [OF assms, of r] by blast

lemma get_dead: "(\<And>r. r \<in> set (rows s) \<Longrightarrow> rid r = i \<Longrightarrow> \<not> live r) \<Longrightarrow> get g i s = Inl (NotFoundError resource)"
  using get_sound [of g i s] get_error [of g i s] by (cases "get g i s") auto

end

section \<open>Updates under an optimistic lock\<close>

text \<open>
  \<open>upd d v i s\<close> applies the patch \<open>d\<close> to the row \<open>i\<close> if its version is \<open>v\<close>;
  \<open>effective d\<close> says that the patch sets at least one column.
\<close>

locale versioned_store =
  fixes rows :: "'s \<Rightarrow> 'r list"
    and rid :: "'r \<Rightarrow> uuid"
    and version :: "'r \<Rightarrow> int"
    and effective :: "'d \<Rightarrow> bool"
    and upd :: "'d \<Rightarrow> int \<Rightarrow> uuid \<Rightarrow> 's \<Rightarrow> 'r option \<times> 's"
  assumes upd_ids: "upd d v i s = (res, s') \<Longrightarrow> map rid (rows s') = map rid (rows s)"
    and upd_some: "effective d \<Longrightarrow> upd d v i s = (Some r, s') \<Longrightarrow>
           r \<in> set (rows s') \<and> rid r = i \<and> version r = v + 1"
    and upd_match: "effective d \<Longrightarrow> upd d v i s = (Some r, s') \<Longrightarrow>
           \<exists>r0 \<in> set (rows s). rid r0 = i \<and> version r0 = v"
    and upd_none: "effective d \<Longrightarrow> upd d v i s = (None, s') \<Longrightarrow> s' = s"
begin

text \<open>Writers that read the same version, one after the other.\<close>

fun run_writers :: "'d list \<Rightarrow> int \<Rightarrow> uuid \<Rightarrow> 's \<Rightarrow> 'r option list" where
  "run_writers [] v i s = []"
| "run_writers (d # ds) v i s = (let (res, s') = upd d v i s in res # run_writers ds v i s')"

definition stale :: "int \<Rightarrow> uuid \<Rightarrow> 's \<Rightarrow> bool" where
  "stale v i s = (\<forall>r \<in> set (rows s). rid r = i \<longrightarrow> version r \<noteq> v)"

lemma stale_fails: "effective d \<Longrightarrow> stale v i s \<Longrightarrow> upd d v i s = (None, s)"
proof (cases "upd d v i s")
  case (Pair res s')
  assume "effective d" "stale v i s"
  with Pair upd_match [of d v i s] upd_none [of d v i s] show ?thesis
    by (cases res) (auto simp: stale_def)
qed

lemma success_makes_stale:
  assumes "distinct (map rid (rows s))" and "effective d" and "upd d v i s = (Some r, s')"
  shows "stale v i s'"
proof -
  have "distinct (map rid (rows s'))" using assms(1) upd_ids [OF assms(3)] by simp
  with upd_some [OF assms(2,3)] inj_on_key [of rid "rows s'" r] show ?thesis
    unfolding stale_def by force
qed

text \<open>No lost update: the second of two writers that read the same version fails.\<close>

lemma second_writer_fails:
  assumes "distinct (map rid (rows s))" and "effective d" and "effective d'"
    and "upd d v i s = (Some r, s')"
  shows "upd d' v i s' = (None, s')"
  using stale_fails [OF assms(3) success_makes_stale [OF assms(1,2,4)]] .

lemma stale_run: "list_all effective ds \<Longrightarrow> stale v i s \<Longrightarrow> run_writers ds v i s = replicate (length ds) None"
  by (induction ds) (auto simp: stale_fails)

lemma at_most_one_writer:
  assumes "distinct (map rid (rows s))" and "list_all effective ds"
  shows "length (filter (\<lambda>r. r \<noteq> None) (run_writers ds v i s)) \<le> 1"
  using assms
proof (induction ds arbitrary: s)
  case (Cons d ds)
  obtain res s' where u: "upd d v i s = (res, s')" by fastforce
  show ?case
  proof (cases res)
    case None
    with u Cons upd_none [of d v i s s'] show ?thesis by simp
  next
    case (Some r)
    with u have "run_writers ds v i s' = replicate (length ds) None"
      using Cons.prems success_makes_stale [of s d v i r s'] by (simp add: stale_run)
    with u Some show ?thesis by simp
  qed
qed simp

end

section \<open>Tokens that are used once\<close>

text \<open>\<open>present t tok s\<close>: the token is stored and not expired at \<open>t\<close>.\<close>

locale one_time_token =
  fixes present :: "timestamp \<Rightarrow> string \<Rightarrow> 's \<Rightarrow> bool"
    and consume :: "timestamp \<Rightarrow> string \<Rightarrow> 's \<Rightarrow> 'r outcome \<times> 's"
    and refusal :: error
  assumes absent_refused: "\<not> present t tok s \<Longrightarrow> consume t tok s = (Inl refusal, s)"
    and consumed_absent: "consume t tok s = (Inr r, s') \<Longrightarrow> \<not> present t' tok s'"
begin

lemma second_use_refused:
  "consume t tok s = (Inr r, s') \<Longrightarrow> consume t' tok s' = (Inl refusal, s')"
  by (rule absent_refused, rule consumed_absent)

text \<open>Attempts with one token at the given instants, and how many of them succeed.\<close>

fun successes :: "timestamp list \<Rightarrow> string \<Rightarrow> 's \<Rightarrow> nat" where
  "successes [] tok s = 0"
| "successes (t # ts) tok s =
     (case consume t tok s of
        (Inl _, s') \<Rightarrow> successes ts tok s'
      | (Inr _, s') \<Rightarrow> Suc (successes ts tok s'))"

lemma absent_no_success: "(\<And>t. \<not> present t tok s) \<Longrightarrow> successes ts tok s = 0"
  by (induction ts) (simp_all add: absent_refused)

lemma at_most_one_success: "successes ts tok s \<le> 1"
proof (induction ts arbitrary: s)
  case (Cons t ts)
  show ?case
  proof (cases "consume t tok s")
    case (Pair res s')
    then show ?thesis using Cons.IH [of s'] absent_no_success [of tok s' ts] consumed_absent [of t tok s]
      by (cases res) auto
  qed
qed simp

end

section \<open>Tables with a unique key\<close>

text \<open>An operation that either leaves the keys of a table as they are or appends one row
  whose key is new keeps the key unique.\<close>

locale fresh_insert =
  fixes rows :: "'s \<Rightarrow> 'r list" and key :: "'r \<Rightarrow> 'k" and step :: "'i \<Rightarrow> 's \<Rightarrow> 's"
  assumes step_keys: "map key (rows (step i s)) = map key (rows s) \<or>
      (\<exists>k. k \<notin> key ` set (rows s) \<and> map key (rows (step i s)) = map key (rows s) @ [k])"
begin

lemma step_distinct: "distinct (map key (rows s)) \<Longrightarrow> distinct (map key (rows (step i s)))"
  using step_keys [of i s] by auto

lemma run_distinct: "distinct (map key (rows s)) \<Longrightarrow> distinct (map key (rows (fold step is s)))"
  by (induction "is" arbitrary: s) (auto intro: step_distinct)

lemma step_length: "length (rows (step i s)) \<le> Suc (length (rows s))"
  using step_keys [of i s] by (metis length_map length_append_singleton le_Suc_eq order_refl)

end

end
