(* ===== verification/Organization.thy ===== *)
theory Organization
  imports Directory Interfaces
begin

text \<open>
  \<^verbatim>\<open>src/modules/organization/services/organization.service.ts\<close>: creation of an organization
  with the rows that come with it, settings under an optimistic lock, and the life cycle
  active, suspended, offboarding.
\<close>

section \<open>Creation\<close>

definition NOTIFICATION_EVENT_TYPES :: "string list" where
  "NOTIFICATION_EVENT_TYPES =
     [''task.assigned'', ''task.updated'', ''task.status_changed'', ''task.commented'',
      ''task.mentioned'', ''task.due_soon'', ''message.received'', ''mention.created'',
      ''member.joined'', ''member.removed'', ''file.quarantined'', ''org.suspended'',
      ''payment.failed'', ''invitation.created'']"

definition writeOrgEvent ::
    "timestamp \<Rightarrow> string \<Rightarrow> uuid \<Rightarrow> uuid \<Rightarrow> uuid option \<Rightarrow> json \<Rightarrow> 'a base_scheme \<Rightarrow> 'a base_scheme" where
  "writeOrgEvent now eventType orgId entityId actor payload w =
     insert_outbox now (Some orgId) eventType ''org'' entityId actor payload w"

text \<open>\<^verbatim>\<open>INSERT INTO notification_preferences ... ON CONFLICT DO NOTHING\<close> with the defaults of the
  table.\<close>

definition pref_key :: "notif_pref \<Rightarrow> uuid \<times> uuid \<times> string" where
  "pref_key p = (np_org_id p, np_user_id p, np_event_type p)"

definition insert_preference :: "uuid \<Rightarrow> uuid \<Rightarrow> string \<Rightarrow> 'a dir_scheme \<Rightarrow> 'a dir_scheme" where
  "insert_preference orgId userId ev w =
     (if list_ex (\<lambda>p. pref_key p = (orgId, userId, ev)) (notification_preferences w) then w
      else let (i, w1) = draw w
           in w1\<lparr>notification_preferences := notification_preferences w1 @
                [\<lparr>np_id = i, np_org_id = orgId, np_user_id = userId, np_event_type = ev,
                  np_channel_inapp = True, np_channel_email = True, np_channel_push = False,
                  np_digest_mode = Realtime, np_quiet_hours_start = None, np_quiet_hours_end = None\<rparr>]\<rparr>)"

definition seedNotificationPreferences :: "uuid \<Rightarrow> uuid \<Rightarrow> 'a dir_scheme \<Rightarrow> 'a dir_scheme" where
  "seedNotificationPreferences orgId userId w =
     fold (insert_preference orgId userId) NOTIFICATION_EVENT_TYPES w"

definition insert_default_workspace :: "timestamp \<Rightarrow> uuid \<Rightarrow> uuid \<Rightarrow> 'a dir_scheme \<Rightarrow> 'a dir_scheme" where
  "insert_default_workspace now orgId userId w =
     (let (i, w1) = draw w
      in w1\<lparr>workspaces := workspaces w1 @
           [\<lparr>ws_id = i, ws_org_id = orgId, ws_name = ''Default Workspace'', ws_description = None,
             ws_status = WsActive, ws_owner_user_id = userId, ws_deleted_at = None,
             ws_created_at = now, ws_updated_at = now, ws_version = 1\<rparr>]\<rparr>)"

text \<open>An organization has at most one subscription.\<close>

definition insert_free_subscription :: "uuid \<Rightarrow> 'a dir_scheme \<Rightarrow> unit outcome \<times> 'a dir_scheme" where
  "insert_free_subscription orgId w =
     (if orgId \<in> sb_org_id ` set (subscriptions w) then (Inl (PgError ''23505''), w)
      else let (i, w1) = draw w
           in (Inr (), w1\<lparr>subscriptions := subscriptions w1 @
                [\<lparr>sb_id = i, sb_org_id = orgId, sb_razorpay_subscription_id = None, sb_plan_tier = Free,
                  sb_status = SubActive, sb_current_period_start = None, sb_current_period_end = None,
                  sb_cancel_at_period_end = False, sb_cancelled_at = None\<rparr>]\<rparr>))"

record create_org_input =
  ci_name :: string
  ci_slug :: string
  ci_timezone :: "string option"
  ci_locale :: "string option"

definition create_org_tx ::
    "timestamp \<Rightarrow> uuid \<Rightarrow> create_org_input \<Rightarrow> 'a dir_scheme \<Rightarrow> org outcome \<times> 'a dir_scheme" where
  "create_org_tx now userId d w =
     and_then (org_create now \<lparr>co_name = ci_name d, co_slug = ci_slug d, co_plan_tier = None,
                               co_timezone = ci_timezone d, co_locale = ci_locale d\<rparr> w)
       (\<lambda>r w1. let w2 = insert_default_workspace now (o_id r) userId w1;
                   w3 = snd (createMembership now (o_id r) userId OrgOwner None (Some now) w2);
                   w4 = seedNotificationPreferences (o_id r) userId w3
               in and_then (insert_free_subscription (o_id r) w4) (\<lambda>_ w5. (Inr r, w5)))"

definition createOrg ::
    "timestamp \<Rightarrow> uuid \<Rightarrow> create_org_input \<Rightarrow> 'a dir_scheme \<Rightarrow> org outcome \<times> 'a dir_scheme" where
  "createOrg now userId d w =
     (case findBySlug (ci_slug d) w of
        Some _ \<Rightarrow> (Inl (ConflictError ''SLUG_TAKEN''), w)
      | None \<Rightarrow>
          and_then (withTransaction (create_org_tx now userId d) w)
            (\<lambda>r w1. (Inr r, writeOrgEvent now ''org.created'' (o_id r) (o_id r) (Some userId)
                       (JObj [(''orgId'', JStr (o_id r)), (''name'', JStr (o_name r)), (''userId'', JStr userId)]) w1)))"

section \<open>Settings and life cycle\<close>

definition getOrg :: "uuid \<Rightarrow> 'a dir_scheme \<Rightarrow> org outcome" where
  "getOrg orgId w = (case org_findById orgId w of None \<Rightarrow> Inl (NotFoundError ''Organization'') | Some r \<Rightarrow> Inr r)"

definition updateOrg ::
    "timestamp \<Rightarrow> uuid \<Rightarrow> update_org_data \<Rightarrow> int \<Rightarrow> 'a dir_scheme \<Rightarrow> org outcome \<times> 'a dir_scheme" where
  "updateOrg now orgId d expectedVersion w =
     and_then (org_update now orgId d expectedVersion w)
       (\<lambda>updated w1. case updated of
            Some r \<Rightarrow> (Inr r, w1)
          | None \<Rightarrow> (case org_findById orgId w1 of
                       None \<Rightarrow> (Inl (NotFoundError ''Organization''), w1)
                     | Some _ \<Rightarrow> (Inl (ConflictError ''VERSION_CONFLICT''), w1)))"

definition actor_kind :: "uuid option \<Rightarrow> actor_type" where
  "actor_kind actor = (if truthy actor then ActorUser else ActorSystem)"

definition suspendOrg ::
    "timestamp \<Rightarrow> uuid \<Rightarrow> string \<Rightarrow> uuid option \<Rightarrow> 'a dir_scheme \<Rightarrow> unit outcome \<times> 'a dir_scheme" where
  "suspendOrg now orgId reason actor w =
     (case org_findById orgId w of
        None \<Rightarrow> (Inl (NotFoundError ''Organization''), w)
      | Some r \<Rightarrow>
          if o_status r \<noteq> OrgActive then (Inr (), w)
          else let w1 = snd (org_updateStatus now orgId OrgSuspended None None w);
                   w2 = writeOrgEvent now ''org.suspended'' orgId orgId actor
                          (JObj [(''orgId'', JStr orgId), (''reason'', JStr reason)]) w1
               in (Inr (), persistAuditLog now (Some orgId) actor (actor_kind actor) ''org.suspended''
                             (Some ''org'') (Some orgId) (JObj [(''reason'', JStr reason)]) w2))"

definition reactivateOrg ::
    "timestamp \<Rightarrow> uuid \<Rightarrow> uuid option \<Rightarrow> 'a dir_scheme \<Rightarrow> unit outcome \<times> 'a dir_scheme" where
  "reactivateOrg now orgId actor w =
     (case org_findById orgId w of
        None \<Rightarrow> (Inl (NotFoundError ''Organization''), w)
      | Some r \<Rightarrow>
          if o_status r \<noteq> OrgSuspended then (Inl (ForbiddenError ''INVALID_STATUS_TRANSITION''), w)
          else let w1 = snd (org_updateStatus now orgId OrgActive None None w);
                   w2 = writeOrgEvent now ''org.reactivated'' orgId orgId actor (JObj [(''orgId'', JStr orgId)]) w1
               in (Inr (), persistAuditLog now (Some orgId) actor (actor_kind actor) ''org.reactivated''
                             (Some ''org'') (Some orgId) (JObj []) w2))"

definition startOffboarding ::
    "timestamp \<Rightarrow> uuid \<Rightarrow> uuid option \<Rightarrow> 'a dir_scheme \<Rightarrow> unit outcome \<times> 'a dir_scheme" where
  "startOffboarding now orgId actor w =
     (case org_findById orgId w of
        None \<Rightarrow> (Inl (NotFoundError ''Organization''), w)
      | Some r \<Rightarrow>
          if o_status r \<noteq> OrgActive \<and> o_status r \<noteq> OrgSuspended
          then (Inl (ForbiddenError ''INVALID_STATUS_TRANSITION''), w)
          else let w1 = snd (org_updateStatus now orgId OrgOffboarding (Some (Some now)) None w);
                   w2 = writeOrgEvent now ''org.offboarding_started'' orgId orgId actor (JObj [(''orgId'', JStr orgId)]) w1
               in (Inr (), persistAuditLog now (Some orgId) actor (actor_kind actor) ''org.offboarding_started''
                             (Some ''org'') (Some orgId) (JObj []) w2))"

section \<open>Frame lemmas\<close>

lemma writeOrgEvent_frame [simp]:
  "organizations (writeOrgEvent now ev g i ac pl w) = organizations w"
  "org_memberships (writeOrgEvent now ev g i ac pl w) = org_memberships w"
  "workspaces (writeOrgEvent now ev g i ac pl w) = workspaces w"
  "notification_preferences (writeOrgEvent now ev g i ac pl w) = notification_preferences w"
  "subscriptions (writeOrgEvent now ev g i ac pl w) = subscriptions w"
  "redis (writeOrgEvent now ev g i ac pl v) = redis v"
  by (simp_all add: writeOrgEvent_def)

lemma insert_preference_frame [simp]:
  "organizations (insert_preference g u ev w) = organizations w"
  "org_memberships (insert_preference g u ev w) = org_memberships w"
  "workspaces (insert_preference g u ev w) = workspaces w"
  "subscriptions (insert_preference g u ev w) = subscriptions w"
  by (simp_all add: insert_preference_def draw_def Let_def)

lemma seed_frame [simp]:
  "organizations (seedNotificationPreferences g u w) = organizations w"
  "org_memberships (seedNotificationPreferences g u w) = org_memberships w"
  "workspaces (seedNotificationPreferences g u w) = workspaces w"
  "subscriptions (seedNotificationPreferences g u w) = subscriptions w"
proof -
  have "organizations (fold (insert_preference g u) evs w) = organizations w \<and>
      org_memberships (fold (insert_preference g u) evs w) = org_memberships w \<and>
      workspaces (fold (insert_preference g u) evs w) = workspaces w \<and>
      subscriptions (fold (insert_preference g u) evs w) = subscriptions w" for evs
    by (induction evs arbitrary: w) simp_all
  then show "organizations (seedNotificationPreferences g u w) = organizations w"
    "org_memberships (seedNotificationPreferences g u w) = org_memberships w"
    "workspaces (seedNotificationPreferences g u w) = workspaces w"
    "subscriptions (seedNotificationPreferences g u w) = subscriptions w"
    by (simp_all add: seedNotificationPreferences_def)
qed

lemma createMembership_frame [simp]:
  "organizations (snd (createMembership now g u r ib jn w)) = organizations w"
  "workspaces (snd (createMembership now g u r ib jn w)) = workspaces w"
  "notification_preferences (snd (createMembership now g u r ib jn w)) = notification_preferences w"
  "subscriptions (snd (createMembership now g u r ib jn w)) = subscriptions w"
  by (simp_all add: createMembership_def draw_def Let_def split: option.split)

lemma insert_default_workspace_frame [simp]:
  "organizations (insert_default_workspace now g u w) = organizations w"
  "org_memberships (insert_default_workspace now g u w) = org_memberships w"
  "notification_preferences (insert_default_workspace now g u w) = notification_preferences w"
  "subscriptions (insert_default_workspace now g u w) = subscriptions w"
  by (simp_all add: insert_default_workspace_def draw_def)

section \<open>Preferences are unique per user and event\<close>

definition insert_pref_input :: "uuid \<times> uuid \<times> string \<Rightarrow> 'a dir_scheme \<Rightarrow> 'a dir_scheme" where
  "insert_pref_input inp w = (case inp of (g, u, ev) \<Rightarrow> insert_preference g u ev w)"

lemma insert_preference_keys:
  "map pref_key (notification_preferences (insert_preference g u ev w)) =
     map pref_key (notification_preferences w) @
       (if (g, u, ev) \<in> pref_key ` set (notification_preferences w) then [] else [(g, u, ev)])"
proof (cases "list_ex (\<lambda>p. pref_key p = (g, u, ev)) (notification_preferences w)")
  case True
  then have "(g, u, ev) \<in> pref_key ` set (notification_preferences w)" by (force simp: list_ex_iff)
  with True show ?thesis by (simp add: insert_preference_def)
next
  case False
  then have "(g, u, ev) \<notin> pref_key ` set (notification_preferences w)" by (force simp: list_ex_iff)
  with False show ?thesis by (simp add: insert_preference_def draw_def Let_def) (simp add: pref_key_def)
qed

interpretation preference_unique: fresh_insert notification_preferences pref_key insert_pref_input
  by unfold_locales (simp add: insert_pref_input_def insert_preference_keys split: prod.split)

text \<open>Seeding adds the events that have no preference yet.\<close>

lemma fold_insert_preference_keys:
  "distinct evs \<Longrightarrow>
   map pref_key (notification_preferences (fold (insert_preference g u) evs w)) =
     map pref_key (notification_preferences w) @
       map (\<lambda>ev. (g, u, ev)) (filter (\<lambda>ev. (g, u, ev) \<notin> pref_key ` set (notification_preferences w)) evs)"
proof (induction evs arbitrary: w)
  case (Cons ev evs)
  have keys: "pref_key ` set (notification_preferences (insert_preference g u ev w)) =
      insert (g, u, ev) (pref_key ` set (notification_preferences w))"
    using arg_cong [OF insert_preference_keys [of g u ev w], of set] by auto
  have "filter (\<lambda>e. (g, u, e) \<notin> insert (g, u, ev) (pref_key ` set (notification_preferences w))) evs =
      filter (\<lambda>e. (g, u, e) \<notin> pref_key ` set (notification_preferences w)) evs"
    using Cons.prems by (intro filter_cong) auto
  with Cons keys show ?case by (simp add: insert_preference_keys)
qed simp

lemma seed_keys:
  "map pref_key (notification_preferences (seedNotificationPreferences g u w)) =
     map pref_key (notification_preferences w) @
       map (\<lambda>ev. (g, u, ev)) (filter (\<lambda>ev. (g, u, ev) \<notin> pref_key ` set (notification_preferences w)) NOTIFICATION_EVENT_TYPES)"
  unfolding seedNotificationPreferences_def
  by (rule fold_insert_preference_keys) (simp add: NOTIFICATION_EVENT_TYPES_def)

section \<open>The optimistic lock of the settings\<close>

definition org_try_update ::
    "timestamp \<Rightarrow> update_org_data \<Rightarrow> int \<Rightarrow> uuid \<Rightarrow> 'a dir_scheme \<Rightarrow> org option \<times> 'a dir_scheme" where
  "org_try_update now d v i w =
     (case org_update now i d v w of (Inl e, w') \<Rightarrow> (None, w') | (Inr r, w') \<Rightarrow> (r, w'))"

lemma org_set_simps [simp]: "o_id (org_set now d r) = o_id r" "o_version (org_set now d r) = o_version r + 1"
  by (simp_all add: org_set_def)

interpretation org_lock: versioned_store organizations o_id o_version org_has_clauses "org_try_update now" for now
proof unfold_locales
  fix d v i and s s' :: "'a dir_scheme" and res
  assume "org_try_update now d v i s = (res, s')"
  then show "map o_id (organizations s') = map o_id (organizations s)"
    by (auto simp: org_try_update_def org_update_def Let_def map_update_where_same split: if_splits option.splits prod.splits sum.splits)
next
  fix d v i and s s' :: "'a dir_scheme" and r
  assume "org_has_clauses d" "org_try_update now d v i s = (Some r, s')"
  then obtain r0 where r0: "List.find (\<lambda>r. o_id r = i \<and> o_version r = v \<and> o_deleted_at r = None) (organizations s) = Some r0"
      "r = org_set now d r0"
      "organizations s' = update_where (\<lambda>r. o_id r = i \<and> o_version r = v \<and> o_deleted_at r = None) (org_set now d) (organizations s)"
    by (auto simp: org_try_update_def org_update_def Let_def split: if_splits option.splits prod.splits sum.splits)
  from find_SomeD [OF r0(1)] r0(2,3) show "r \<in> set (organizations s') \<and> o_id r = i \<and> o_version r = v + 1"
    by (auto simp: in_update_where)
  from find_SomeD [OF r0(1)] show "\<exists>r0 \<in> set (organizations s). o_id r0 = i \<and> o_version r0 = v" by auto
next
  fix d v i and s s' :: "'a dir_scheme"
  assume "org_has_clauses d" "org_try_update now d v i s = (None, s')"
  then show "s' = s"
    by (auto simp: org_try_update_def org_update_def Let_def split: if_splits option.splits prod.splits sum.splits)
qed

section \<open>Creation, success and failure\<close>

lemma findBySlug_taken: "findBySlug s w = Some r \<Longrightarrow> s \<in> o_slug ` set (organizations w)"
  by (auto simp: findBySlug_def dest: find_SomeD)

lemma org_create_cases:
  "org_create now d w =
     (if co_slug d \<in> o_slug ` set (organizations w) then (Inl (PgError ''23505''), w)
      else (Inr (new_org now (entropy w (drawn w)) d),
            (snd (draw w))\<lparr>organizations := organizations w @ [new_org now (entropy w (drawn w)) d]\<rparr>))"
  by (simp add: org_create_def draw_def Let_def)

lemma new_org_simps [simp]:
  "o_id (new_org now i d) = i" "o_slug (new_org now i d) = co_slug d" "o_status (new_org now i d) = OrgActive"
  "o_deleted_at (new_org now i d) = None" "o_plan_tier (new_org now i d) = case_option Free id (co_plan_tier d)"
  by (simp_all add: new_org_def)

text \<open>What a committed creation leaves.\<close>

lemma create_org_tx_success:
  assumes "create_org_tx now u d w = (Inr r, w')"
  shows "ci_slug d \<notin> o_slug ` set (organizations w)"
    and "o_id r = entropy w (drawn w)" and "o_status r = OrgActive" and "o_plan_tier r = Free" and "o_deleted_at r = None"
    and "organizations w' = organizations w @ [r]"
    and "org_memberships w' = org_memberships (snd (createMembership now (o_id r) u OrgOwner None (Some now)
          (insert_default_workspace now (o_id r) u ((snd (draw w))\<lparr>organizations := organizations w @ [r]\<rparr>))))"
    and "map pref_key (notification_preferences w') = map pref_key (notification_preferences w) @
          map (\<lambda>ev. (o_id r, u, ev))
            (filter (\<lambda>ev. (o_id r, u, ev) \<notin> pref_key ` set (notification_preferences w)) NOTIFICATION_EVENT_TYPES)"
    and "\<exists>b. subscriptions w' = subscriptions w @ [b] \<and> sb_org_id b = o_id r \<and> sb_plan_tier b = Free \<and> sb_status b = SubActive"
    and "\<exists>x. workspaces w' = workspaces w @ [x] \<and> ws_org_id x = o_id r \<and> ws_name x = ''Default Workspace'' \<and>
           ws_owner_user_id x = u \<and> ws_deleted_at x = None"
    and "o_id r \<notin> sb_org_id ` set (subscriptions w)"
  using assms
  by (auto simp: create_org_tx_def and_then_Inr org_create_cases Let_def insert_free_subscription_def seed_keys
      insert_default_workspace_def draw_def split: if_splits)

lemma createOrg_outcome:
  "createOrg now u d w =
     (case findBySlug (ci_slug d) w of
        Some _ \<Rightarrow> (Inl (ConflictError ''SLUG_TAKEN''), w)
      | None \<Rightarrow> (case create_org_tx now u d w of
                   (Inl e, _) \<Rightarrow> (Inl e, w)
                 | (Inr r, w1) \<Rightarrow> (Inr r, writeOrgEvent now ''org.created'' (o_id r) (o_id r) (Some u)
                     (JObj [(''orgId'', JStr (o_id r)), (''name'', JStr (o_name r)), (''userId'', JStr u)]) w1)))"
  by (simp add: createOrg_def withTransaction_def and_then_def split: option.split prod.split sum.split)

lemma createOrg_Inr:
  assumes "createOrg now u d w = (Inr r, w')"
  obtains w1 where "create_org_tx now u d w = (Inr r, w1)" "organizations w' = organizations w1"
    "org_memberships w' = org_memberships w1" "notification_preferences w' = notification_preferences w1"
    "subscriptions w' = subscriptions w1" "workspaces w' = workspaces w1"
  using assms by (auto simp: createOrg_outcome split: option.splits prod.splits sum.splits)

text \<open>The members of a new organization.\<close>

lemma createMembership_new:
  assumes "g \<notin> m_org_id ` set (org_memberships w)"
  shows "\<exists>m. org_memberships (snd (createMembership now g u r ib jn w)) = org_memberships w @ [m] \<and>
      m_org_id m = g \<and> m_user_id m = u \<and> m_role m = r \<and> m_status m = MActive \<and> m_deleted_at m = None"
proof -
  have "findMembership g u w = None"
    using assms unfolding findMembership_def find_None_iff by (force simp: image_iff)
  then show ?thesis by (simp add: createMembership_def draw_def Let_def)
qed

lemma find_append_fresh:
  "(\<And>x. x \<in> set xs \<Longrightarrow> \<not> P x) \<Longrightarrow> P y \<Longrightarrow> List.find P (xs @ [y]) = Some y"
  by (simp add: find_append find_None_iff [THEN iffD2])

lemma filter_none: "(\<And>x. x \<in> set xs \<Longrightarrow> \<not> P x) \<Longrightarrow> filter P xs = []"
  by (simp add: filter_empty_conv)

section \<open>The life cycle of an organization\<close>

definition org_status_of :: "uuid \<Rightarrow> 'a dir_scheme \<Rightarrow> org_status option" where
  "org_status_of g w = map_option o_status (org_findById g w)"

text \<open>A call of one of the services on the organization.\<close>

inductive org_step :: "uuid \<Rightarrow> 'a dir_scheme \<Rightarrow> 'a dir_scheme \<Rightarrow> bool" for g where
  suspend: "org_step g w (snd (suspendOrg now g reason actor w))"
| reactivate: "org_step g w (snd (reactivateOrg now g actor w))"
| offboard: "org_step g w (snd (startOffboarding now g actor w))"
| settings: "org_step g w (snd (updateOrg now g d v w))"

inductive_cases org_stepE: "org_step g w w'"

definition LIFE_CYCLE :: "(org_status \<times> org_status) list" where
  "LIFE_CYCLE = [(OrgActive, OrgSuspended), (OrgSuspended, OrgActive), (OrgActive, OrgOffboarding),
                 (OrgSuspended, OrgOffboarding)]"

lemma org_findById_updateStatus:
  "org_findById g (snd (org_updateStatus now g st off None w)) =
     map_option (\<lambda>r. r\<lparr>o_status := st, o_offboarding_started_at := patched (o_offboarding_started_at r) off,
                        o_updated_at := now\<rparr>) (org_findById g w)"
proof (cases "org_findById g w")
  case None
  then have f: "List.find (\<lambda>r. o_id r = g \<and> o_deleted_at r = None) (organizations w) = None"
    by (simp add: org_findById_def)
  then have "update_where (\<lambda>r. o_id r = g \<and> o_deleted_at r = None) h (organizations w) = organizations w" for h
    by (intro update_where_none) (auto simp: find_None_iff)
  with f show ?thesis by (simp add: org_updateStatus_def Let_def org_findById_def)
next
  case (Some r)
  then have f: "List.find (\<lambda>r. o_id r = g \<and> o_deleted_at r = None) (organizations w) = Some r"
    by (simp add: org_findById_def)
  from find_SomeD [OF f] have "o_id r = g" "o_deleted_at r = None" by auto
  with Some show ?thesis
    by (simp add: org_updateStatus_def Let_def org_findById_def find_upsert [OF f])
qed

lemma org_updateStatus_logs [simp]:
  "outbox_events (snd (org_updateStatus now g st off del w)) = outbox_events w"
  "audit_logs (snd (org_updateStatus now g st off del w)) = audit_logs w"
  by (simp_all add: org_updateStatus_def Let_def)

lemma org_findById_frame [simp]:
  "org_findById g (writeOrgEvent now ev h i ac pl w) = org_findById g w"
  "org_findById g (persistAuditLog now h' ac aty ev et eid pl w) = org_findById g w"
  by (simp_all add: org_findById_def)

lemma writeOrgEvent_logs [simp]:
  "length (outbox_events (writeOrgEvent now ev h i ac pl w)) = Suc (length (outbox_events w))"
  "audit_logs (writeOrgEvent now ev h i ac pl w) = audit_logs w"
  by (simp_all add: writeOrgEvent_def insert_outbox_def draw_def)

lemma persistAuditLog_length [simp]:
  "length (audit_logs (persistAuditLog now h ac aty ev et eid pl w)) = Suc (length (audit_logs w))"
  by (simp add: persistAuditLog_def)

lemmas org_op_defs = suspendOrg_def reactivateOrg_def startOffboarding_def

lemma updateOrg_status: "org_status_of g (snd (updateOrg now g d v w)) = org_status_of g w"
proof (cases "snd (updateOrg now g d v w) = w")
  case False
  then have "organizations (snd (updateOrg now g d v w)) =
      update_where (\<lambda>r. o_id r = g \<and> o_version r = v \<and> o_deleted_at r = None) (org_set now d) (organizations w)"
    by (auto simp: updateOrg_def org_update_def and_then_def Let_def split: if_splits option.splits prod.splits sum.splits)
  then show ?thesis
    unfolding org_status_of_def org_findById_def
    by (simp, subst find_update_where_keep)
       (auto simp: org_set_def option.map_comp o_def map_option_case split: option.split)
qed simp

section \<open>Properties\<close>


definition ex_dir :: dir where
  "ex_dir = \<lparr>outbox_events = [], audit_logs = [], jobs = [], redis = (\<lambda>_. None), pubsub = [],
     entropy = (\<lambda>n. CHR ''i'' # replicate n CHR ''x''), drawn = 0, users = [], organizations = [],
     org_memberships = [], workspaces = [], notification_preferences = [], subscriptions = []\<rparr>"

definition ex_org_input :: create_org_input where
  "ex_org_input = \<lparr>ci_name = ''Acme'', ci_slug = ''acme'', ci_timezone = None, ci_locale = None\<rparr>"


text \<open>The services move an organization only along its life cycle: each call leaves its status or takes
  one of the four allowed edges, and takes an edge together with exactly one outbox event and one
  audit row.\<close>

theorem org_lifecycle:
  assumes "org_step g w w'" and "org_status_of g w = Some s"
  shows "\<exists>s'. org_status_of g w' = Some s' \<and>
    (s' = s \<or> (s, s') \<in> set LIFE_CYCLE \<and> length (outbox_events w') = Suc (length (outbox_events w)) \<and>
               length (audit_logs w') = Suc (length (audit_logs w)))"
proof -
  obtain r where r: "org_findById g w = Some r" "o_status r = s" using assms(2) by (auto simp: org_status_of_def)
  show ?thesis
  proof (cases "w' = w")
    case False
    from assms(1) show ?thesis
    proof (cases rule: org_step.cases)
      case (suspend now reason actor)
      with r False show ?thesis
        by (cases s) (auto simp: suspendOrg_def Let_def org_status_of_def org_findById_updateStatus LIFE_CYCLE_def)
    next
      case (reactivate now actor)
      with r False show ?thesis
        by (cases s) (auto simp: reactivateOrg_def Let_def org_status_of_def org_findById_updateStatus LIFE_CYCLE_def)
    next
      case (offboard now actor)
      with r False show ?thesis
        by (cases s) (auto simp: startOffboarding_def Let_def org_status_of_def org_findById_updateStatus LIFE_CYCLE_def)
    next
      case (settings now d v)
      with assms(2) show ?thesis by (simp add: updateOrg_status)
    qed
  qed (use assms(2) in simp)
qed

theorem org_lifecycle_witness:
  "\<exists>w :: dir. org_status_of ''i'' w = Some OrgActive \<and>
     org_status_of ''i'' (snd (suspendOrg 7 ''i'' ''unpaid'' None w)) = Some OrgSuspended \<and>
     length (audit_logs (snd (suspendOrg 7 ''i'' ''unpaid'' None w))) = Suc (length (audit_logs w))"
proof -
  let ?o = "new_org 0 ''i'' \<lparr>co_name = ''A'', co_slug = ''a'', co_plan_tier = None, co_timezone = None, co_locale = None\<rparr>"
  let ?w = "ex_dir\<lparr>organizations := [?o]\<rparr>"
  have s: "org_status_of ''i'' ?w = Some OrgActive" by (simp add: org_status_of_def org_findById_def)
  have st: "org_step ''i'' ?w (snd (suspendOrg 7 ''i'' ''unpaid'' None ?w))" by (rule suspend)
  have f: "org_findById ''i'' ?w = Some ?o" by (simp add: org_findById_def)
  then have "org_status_of ''i'' (snd (suspendOrg 7 ''i'' ''unpaid'' None ?w)) = Some OrgSuspended"
    by (simp add: suspendOrg_def org_status_of_def org_findById_updateStatus Let_def)
  with org_lifecycle [OF st s] s show ?thesis by (metis option.inject org_status.distinct(1))
qed

end
