(* ===== verification/Auth_Repository.thy ===== *)
theory Auth_Repository
  imports Directory Interfaces
begin

text \<open>
  \<^verbatim>\<open>src/modules/auth/repositories/auth.repository.ts\<close>: users, refresh tokens, identity
  providers and preferences.  A live user's e-mail, a refresh token's hash and the pair of
  provider and provider identifier are unique.
\<close>

section \<open>Rows\<close>

record refresh_token =
  rt_id :: uuid
  rt_user_id :: uuid
  rt_org_id :: "uuid option"
  rt_token_hash :: string
  rt_family_id :: uuid
  rt_last_access_token_jti :: "string option"
  rt_is_revoked :: bool
  rt_revoked_at :: "timestamp option"
  rt_expires_at :: timestamp
  rt_created_at :: timestamp

datatype provider = ProvEmail | ProvGoogle | ProvSaml | ProvMagicLink

record auth_provider =
  ap_id :: uuid
  ap_user_id :: uuid
  ap_provider :: provider
  ap_provider_user_id :: string
  ap_org_id :: "uuid option"
  ap_metadata :: json

record user_preferences_row =
  up_user_id :: uuid
  up_timezone :: string
  up_locale :: string
  up_theme :: string
  up_updated_at :: timestamp

record auth_db = dir +
  refresh_tokens :: "refresh_token list"
  auth_providers :: "auth_provider list"
  user_preferences :: "user_preferences_row list"
  saml_used_assertions :: "(string \<times> uuid \<times> timestamp) list"

section \<open>Users\<close>

definition user_live :: "user \<Rightarrow> bool" where
  "user_live u = (u_deleted_at u = None)"

definition findUserByEmail :: "string \<Rightarrow> 'a dir_scheme \<Rightarrow> user option" where
  "findUserByEmail email w =
     List.find (\<lambda>u. u_email u = normalize_email email \<and> user_live u) (users w)"

definition findUserById :: "uuid \<Rightarrow> 'a dir_scheme \<Rightarrow> user option" where
  "findUserById i w = List.find (\<lambda>u. u_id u = i \<and> user_live u) (users w)"

record create_user_data =
  cu_email :: string
  cu_name :: string
  cu_password_hash :: "string option"
  cu_email_verified :: "bool option"
  cu_avatar_url :: "string option"

definition new_user :: "timestamp \<Rightarrow> uuid \<Rightarrow> create_user_data \<Rightarrow> user" where
  "new_user now i d =
     \<lparr>u_id = i, u_email = normalize_email (cu_email d),
      u_email_verified = case_option False id (cu_email_verified d), u_email_verified_at = None,
      u_password_hash = cu_password_hash d, u_name = cu_name d, u_avatar_url = cu_avatar_url d,
      u_phone = None, u_totp_secret = None, u_totp_enabled = False, u_mfa_backup_codes = [],
      u_mfa_backup_codes_generated_at = None, u_is_platform_admin = False, u_status = UActive,
      u_failed_login_attempts = 0, u_locked_until = None, u_last_login_at = None,
      u_password_changed_at = None, u_last_seen_at = None, u_deleted_at = None,
      u_created_at = now, u_updated_at = now\<rparr>"

definition email_taken :: "string \<Rightarrow> user list \<Rightarrow> bool" where
  "email_taken email us = list_ex (\<lambda>u. u_email u = email \<and> user_live u) us"

definition createUser ::
    "timestamp \<Rightarrow> create_user_data \<Rightarrow> 'a dir_scheme \<Rightarrow> user outcome \<times> 'a dir_scheme" where
  "createUser now d w =
     (if email_taken (normalize_email (cu_email d)) (users w) then (Inl (PgError ''23505''), w)
      else let (i, w1) = draw w; u = new_user now i d
           in (Inr u, w1\<lparr>users := users w1 @ [u]\<rparr>))"

record update_user_data =
  uu_email :: "string option"
  uu_name :: "string option"
  uu_password_hash :: "string option option"
  uu_email_verified :: "bool option"
  uu_email_verified_at :: "timestamp option option"
  uu_avatar_url :: "string option option"
  uu_totp_secret :: "string option option"
  uu_totp_enabled :: "bool option"
  uu_mfa_backup_codes :: "string list option"
  uu_mfa_backup_codes_generated_at :: "timestamp option option"
  uu_status :: "user_status option"
  uu_last_login_at :: "timestamp option option"
  uu_password_changed_at :: "timestamp option option"
  uu_deleted_at :: "timestamp option option"
  uu_locked_until :: "timestamp option option"
  uu_failed_login_attempts :: "int option"

definition no_user_change :: update_user_data where
  "no_user_change =
     \<lparr>uu_email = None, uu_name = None, uu_password_hash = None, uu_email_verified = None,
      uu_email_verified_at = None, uu_avatar_url = None, uu_totp_secret = None, uu_totp_enabled = None,
      uu_mfa_backup_codes = None, uu_mfa_backup_codes_generated_at = None, uu_status = None,
      uu_last_login_at = None, uu_password_changed_at = None, uu_deleted_at = None,
      uu_locked_until = None, uu_failed_login_attempts = None\<rparr>"

definition user_set :: "timestamp \<Rightarrow> update_user_data \<Rightarrow> user \<Rightarrow> user" where
  "user_set now d u = u\<lparr>
     u_email := patched (u_email u) (map_option normalize_email (uu_email d)),
     u_name := patched (u_name u) (uu_name d),
     u_password_hash := patched (u_password_hash u) (uu_password_hash d),
     u_email_verified := patched (u_email_verified u) (uu_email_verified d),
     u_email_verified_at := patched (u_email_verified_at u) (uu_email_verified_at d),
     u_avatar_url := patched (u_avatar_url u) (uu_avatar_url d),
     u_totp_secret := patched (u_totp_secret u) (uu_totp_secret d),
     u_totp_enabled := patched (u_totp_enabled u) (uu_totp_enabled d),
     u_mfa_backup_codes := patched (u_mfa_backup_codes u) (uu_mfa_backup_codes d),
     u_mfa_backup_codes_generated_at :=
       patched (u_mfa_backup_codes_generated_at u) (uu_mfa_backup_codes_generated_at d),
     u_status := patched (u_status u) (uu_status d),
     u_last_login_at := patched (u_last_login_at u) (uu_last_login_at d),
     u_password_changed_at := patched (u_password_changed_at u) (uu_password_changed_at d),
     u_deleted_at := patched (u_deleted_at u) (uu_deleted_at d),
     u_locked_until := patched (u_locked_until u) (uu_locked_until d),
     u_failed_login_attempts := patched (u_failed_login_attempts u) (uu_failed_login_attempts d),
     u_updated_at := now\<rparr>"

definition updateUser ::
    "timestamp \<Rightarrow> uuid \<Rightarrow> update_user_data \<Rightarrow> 'a dir_scheme \<Rightarrow> user option outcome \<times> 'a dir_scheme" where
  "updateUser now i d w =
     (let P = (\<lambda>u. u_id u = i \<and> user_live u) in
      if d = no_user_change then (Inr (findUserById i w), w)
      else if (case uu_email d of None \<Rightarrow> False
               | Some e \<Rightarrow> list_ex P (users w) \<and>
                   email_taken (normalize_email e) (filter (\<lambda>u. u_id u \<noteq> i) (users w)))
      then (Inl (PgError ''23505''), w)
      else (Inr (returning P (user_set now d) (users w)),
            w\<lparr>users := update_where P (user_set now d) (users w)\<rparr>))"

definition incrementFailedLoginAttempts :: "timestamp \<Rightarrow> uuid \<Rightarrow> 'a dir_scheme \<Rightarrow> 'a dir_scheme" where
  "incrementFailedLoginAttempts now i w =
     w\<lparr>users := update_where (\<lambda>u. u_id u = i)
         (\<lambda>u. u\<lparr>u_failed_login_attempts := u_failed_login_attempts u + 1, u_updated_at := now\<rparr>) (users w)\<rparr>"

definition resetFailedLoginAttempts :: "timestamp \<Rightarrow> uuid \<Rightarrow> 'a dir_scheme \<Rightarrow> 'a dir_scheme" where
  "resetFailedLoginAttempts now i w =
     w\<lparr>users := update_where (\<lambda>u. u_id u = i)
         (\<lambda>u. u\<lparr>u_failed_login_attempts := 0, u_locked_until := None, u_updated_at := now\<rparr>) (users w)\<rparr>"

definition lockUser :: "timestamp \<Rightarrow> uuid \<Rightarrow> timestamp \<Rightarrow> 'a dir_scheme \<Rightarrow> 'a dir_scheme" where
  "lockUser now i until w =
     w\<lparr>users := update_where (\<lambda>u. u_id u = i)
         (\<lambda>u. u\<lparr>u_locked_until := Some until, u_updated_at := now\<rparr>) (users w)\<rparr>"

section \<open>Refresh tokens\<close>

definition findRefreshToken :: "string \<Rightarrow> 'a auth_db_scheme \<Rightarrow> refresh_token option" where
  "findRefreshToken h w = List.find (\<lambda>r. rt_token_hash r = h) (refresh_tokens w)"

definition createRefreshToken ::
    "timestamp \<Rightarrow> uuid \<Rightarrow> uuid option \<Rightarrow> string \<Rightarrow> uuid \<Rightarrow> string option \<Rightarrow> timestamp
     \<Rightarrow> 'a auth_db_scheme \<Rightarrow> refresh_token outcome \<times> 'a auth_db_scheme" where
  "createRefreshToken now userId orgId h family jti expiresAt w =
     (if h \<in> rt_token_hash ` set (refresh_tokens w) then (Inl (PgError ''23505''), w)
      else let (i, w1) = draw w;
               r = \<lparr>rt_id = i, rt_user_id = userId, rt_org_id = orgId, rt_token_hash = h,
                    rt_family_id = family, rt_last_access_token_jti = jti, rt_is_revoked = False,
                    rt_revoked_at = None, rt_expires_at = expiresAt, rt_created_at = now\<rparr>
           in (Inr r, w1\<lparr>refresh_tokens := refresh_tokens w1 @ [r]\<rparr>))"

definition updateRefreshTokenJti :: "uuid \<Rightarrow> string \<Rightarrow> 'a auth_db_scheme \<Rightarrow> 'a auth_db_scheme" where
  "updateRefreshTokenJti i jti w =
     w\<lparr>refresh_tokens := update_where (\<lambda>r. rt_id r = i)
         (\<lambda>r. r\<lparr>rt_last_access_token_jti := Some jti\<rparr>) (refresh_tokens w)\<rparr>"

definition rt_revoke :: "timestamp \<Rightarrow> refresh_token \<Rightarrow> refresh_token" where
  "rt_revoke now r = r\<lparr>rt_is_revoked := True, rt_revoked_at := Some now\<rparr>"

definition revokeRefreshToken :: "timestamp \<Rightarrow> uuid \<Rightarrow> 'a auth_db_scheme \<Rightarrow> 'a auth_db_scheme" where
  "revokeRefreshToken now i w =
     w\<lparr>refresh_tokens := update_where (\<lambda>r. rt_id r = i) (rt_revoke now) (refresh_tokens w)\<rparr>"

definition revokeTokenFamily :: "timestamp \<Rightarrow> uuid \<Rightarrow> 'a auth_db_scheme \<Rightarrow> 'a auth_db_scheme" where
  "revokeTokenFamily now f w =
     w\<lparr>refresh_tokens := update_where (\<lambda>r. rt_family_id r = f) (rt_revoke now) (refresh_tokens w)\<rparr>"

definition revokeAllUserTokens :: "timestamp \<Rightarrow> uuid \<Rightarrow> 'a auth_db_scheme \<Rightarrow> 'a auth_db_scheme" where
  "revokeAllUserTokens now u w =
     w\<lparr>refresh_tokens := update_where (\<lambda>r. rt_user_id r = u \<and> \<not> rt_is_revoked r) (rt_revoke now) (refresh_tokens w)\<rparr>"

section \<open>Providers and preferences\<close>

definition findAuthProvider :: "provider \<Rightarrow> string \<Rightarrow> 'a auth_db_scheme \<Rightarrow> auth_provider option" where
  "findAuthProvider p i w =
     List.find (\<lambda>a. ap_provider a = p \<and> ap_provider_user_id a = i) (auth_providers w)"

definition createAuthProvider ::
    "uuid \<Rightarrow> provider \<Rightarrow> string \<Rightarrow> uuid option \<Rightarrow> json \<Rightarrow> 'a auth_db_scheme
     \<Rightarrow> auth_provider outcome \<times> 'a auth_db_scheme" where
  "createAuthProvider userId p pid orgId meta w =
     (if (p, pid) \<in> (\<lambda>a. (ap_provider a, ap_provider_user_id a)) ` set (auth_providers w)
      then (Inl (PgError ''23505''), w)
      else let (i, w1) = draw w;
               a = \<lparr>ap_id = i, ap_user_id = userId, ap_provider = p, ap_provider_user_id = pid,
                    ap_org_id = orgId, ap_metadata = meta\<rparr>
           in (Inr a, w1\<lparr>auth_providers := auth_providers w1 @ [a]\<rparr>))"

definition getUserPreferences :: "uuid \<Rightarrow> 'a auth_db_scheme \<Rightarrow> user_preferences_row option" where
  "getUserPreferences i w = List.find (\<lambda>p. up_user_id p = i) (user_preferences w)"

definition createUserPreferences :: "timestamp \<Rightarrow> uuid \<Rightarrow> 'a auth_db_scheme \<Rightarrow> 'a auth_db_scheme" where
  "createUserPreferences now i w =
     (if list_ex (\<lambda>p. up_user_id p = i) (user_preferences w)
      then w\<lparr>user_preferences := update_where (\<lambda>p. up_user_id p = i) (\<lambda>p. p\<lparr>up_updated_at := now\<rparr>)
                                  (user_preferences w)\<rparr>
      else w\<lparr>user_preferences := user_preferences w @
              [\<lparr>up_user_id = i, up_timezone = ''UTC'', up_locale = ''en-US'', up_theme = ''system'',
                up_updated_at = now\<rparr>]\<rparr>)"

section \<open>Frame lemmas\<close>

lemma auth_base_frame [simp]:
  "refresh_tokens (snd (draw w)) = refresh_tokens w"
  "refresh_tokens (insert_outbox now g ev et eid ac pl w) = refresh_tokens w"
  "refresh_tokens (persistAuditLog now g ac aty ev et' eid' pl w) = refresh_tokens w"
  "refresh_tokens (redis_setex now k v ttl w) = refresh_tokens w"
  "refresh_tokens (redis_del k w) = refresh_tokens w"
  "auth_providers (insert_outbox now g ev et eid ac pl w) = auth_providers w"
  "auth_providers (persistAuditLog now g ac aty ev et' eid' pl w) = auth_providers w"
  "auth_providers (redis_setex now k v ttl w) = auth_providers w"
  "saml_used_assertions (persistAuditLog now g ac aty ev et' eid' pl w) = saml_used_assertions w"
  by (simp_all add: base_op_defs)

lemma rt_revoke_simps [simp]:
  "rt_id (rt_revoke now r) = rt_id r" "rt_token_hash (rt_revoke now r) = rt_token_hash r"
  "rt_family_id (rt_revoke now r) = rt_family_id r" "rt_is_revoked (rt_revoke now r)"
  "rt_user_id (rt_revoke now r) = rt_user_id r"
  "rt_last_access_token_jti (rt_revoke now r) = rt_last_access_token_jti r"
  by (simp_all add: rt_revoke_def)

lemma user_set_simps [simp]:
  "u_id (user_set now d u) = u_id u"
  "u_password_changed_at (user_set now d u) = patched (u_password_changed_at u) (uu_password_changed_at d)"
  "u_password_hash (user_set now d u) = patched (u_password_hash u) (uu_password_hash d)"
  "u_email_verified (user_set now d u) = patched (u_email_verified u) (uu_email_verified d)"
  "u_deleted_at (user_set now d u) = patched (u_deleted_at u) (uu_deleted_at d)"
  "u_mfa_backup_codes (user_set now d u) = patched (u_mfa_backup_codes u) (uu_mfa_backup_codes d)"
  by (simp_all add: user_set_def)

lemma findUserById_SomeD: "findUserById i w = Some u \<Longrightarrow> u \<in> set (users w) \<and> u_id u = i \<and> user_live u"
  by (auto simp: findUserById_def dest: find_SomeD)

lemma findUserByEmail_SomeD:
  "findUserByEmail e w = Some u \<Longrightarrow> u \<in> set (users w) \<and> u_email u = normalize_email e \<and> user_live u"
  by (auto simp: findUserByEmail_def dest: find_SomeD)

lemma findRefreshToken_SomeD:
  "findRefreshToken h w = Some r \<Longrightarrow> r \<in> set (refresh_tokens w) \<and> rt_token_hash r = h"
  by (auto simp: findRefreshToken_def dest: find_SomeD)

section \<open>The unique indexes\<close>

text \<open>An insertion that the index refuses changes nothing, one that it accepts adds a new key;
  so the keys stay unique under any sequence of insertions.\<close>

definition insert_refresh_token ::
    "timestamp \<times> uuid \<times> uuid option \<times> string \<times> uuid \<times> string option \<times> timestamp
     \<Rightarrow> 'a auth_db_scheme \<Rightarrow> 'a auth_db_scheme" where
  "insert_refresh_token inp w =
     (case inp of (now, u, g, h, f, jti, e) \<Rightarrow> snd (createRefreshToken now u g h f jti e w))"

lemma createRefreshToken_hashes:
  "map rt_token_hash (refresh_tokens (snd (createRefreshToken now u g h f jti e w))) =
     map rt_token_hash (refresh_tokens w) @ (if h \<in> rt_token_hash ` set (refresh_tokens w) then [] else [h])"
  by (simp add: createRefreshToken_def draw_def Let_def)

interpretation refresh_unique: fresh_insert refresh_tokens rt_token_hash insert_refresh_token
  by unfold_locales (simp add: insert_refresh_token_def createRefreshToken_hashes split: prod.split)

definition insert_provider ::
    "uuid \<times> provider \<times> string \<times> uuid option \<times> json \<Rightarrow> 'a auth_db_scheme \<Rightarrow> 'a auth_db_scheme" where
  "insert_provider inp w = (case inp of (u, p, i, g, m) \<Rightarrow> snd (createAuthProvider u p i g m w))"

definition provider_key :: "auth_provider \<Rightarrow> provider \<times> string" where
  "provider_key a = (ap_provider a, ap_provider_user_id a)"

lemma createAuthProvider_keys:
  "map provider_key (auth_providers (snd (createAuthProvider u p i g m w))) =
     map provider_key (auth_providers w) @ (if (p, i) \<in> provider_key ` set (auth_providers w) then [] else [(p, i)])"
  unfolding provider_key_def by (simp add: createAuthProvider_def draw_def Let_def)

interpretation provider_unique: fresh_insert auth_providers provider_key insert_provider
  by unfold_locales (simp add: insert_provider_def createAuthProvider_keys split: prod.split)

definition live_users :: "'a dir_scheme \<Rightarrow> user list" where
  "live_users w = filter user_live (users w)"

definition insert_user :: "timestamp \<times> create_user_data \<Rightarrow> 'a dir_scheme \<Rightarrow> 'a dir_scheme" where
  "insert_user inp w = (case inp of (now, d) \<Rightarrow> snd (createUser now d w))"

interpretation email_unique: fresh_insert live_users u_email insert_user
proof unfold_locales
  fix i :: "timestamp \<times> create_user_data" and s :: "'a dir_scheme"
  obtain now d where i: "i = (now, d)" by fastforce
  show "map u_email (live_users (insert_user i s)) = map u_email (live_users s) \<or>
    (\<exists>k. k \<notin> u_email ` set (live_users s) \<and>
       map u_email (live_users (insert_user i s)) = map u_email (live_users s) @ [k])"
  proof (cases "email_taken (normalize_email (cu_email d)) (users s)")
    case True
    then show ?thesis by (simp add: i insert_user_def createUser_def)
  next
    case False
    then have "normalize_email (cu_email d) \<notin> u_email ` set (live_users s)"
      by (auto simp: email_taken_def live_users_def list_ex_iff)
    moreover have "map u_email (live_users (insert_user i s)) =
        map u_email (live_users s) @ [normalize_email (cu_email d)]"
      using False by (simp add: i insert_user_def createUser_def draw_def Let_def live_users_def
          new_user_def user_live_def)
    ultimately show ?thesis by blast
  qed
qed

end
