(* ===== verification/Auth.thy ===== *)
theory Auth
  imports Auth_Repository
begin

text \<open>
  \<^verbatim>\<open>src/modules/auth\<close> and the JWT middleware: tokens (\<^verbatim>\<open>utils/token.ts\<close>,
  \<^verbatim>\<open>services/jwt.service.ts\<close>), registration, login, e-mail verification and password
  reset (\<^verbatim>\<open>services/auth.service.ts\<close>), second factor, magic links, Google login and
  \<^verbatim>\<open>shared/auth-middleware\<close>.  The cryptographic packages are the fields of a record:
  SHA-256, bcrypt, JWT signing and verification, AES-GCM, TOTP and Google's token check;
  what a property needs of them is among its hypotheses.
\<close>

section \<open>Libraries and claims\<close>

record jwt_claims =
  jc_sub :: uuid
  jc_orgId :: string
  jc_role :: string
  jc_isPlatformAdmin :: bool
  jc_mfaVerifiedAt :: "int option"
  jc_auth_time :: int
  jc_jti :: string
  jc_iat :: int
  jc_exp :: int

record google_payload =
  gp_sub :: string
  gp_email :: string
  gp_name :: "string option"
  gp_picture :: "string option"

text \<open>\<open>bcrypt_hash salt plain\<close>; \<open>jwt_verify key now token\<close> is \<open>None\<close> when the
  signature or the expiry check fails; \<open>jwt_kid\<close> is the key id in the header.\<close>

record crypto_lib =
  sha256 :: "string \<Rightarrow> string"
  bcrypt_hash :: "string \<Rightarrow> string \<Rightarrow> string"
  bcrypt_compare :: "string \<Rightarrow> string \<Rightarrow> bool"
  jwt_sign :: "jwt_claims \<Rightarrow> string"
  jwt_verify :: "string \<Rightarrow> timestamp \<Rightarrow> string \<Rightarrow> jwt_claims option"
  jwt_kid :: "string \<Rightarrow> string option"
  aes_encrypt :: "string \<Rightarrow> string \<Rightarrow> string"
  aes_decrypt :: "string \<Rightarrow> string option"
  totp_verify :: "timestamp \<Rightarrow> string \<Rightarrow> string \<Rightarrow> bool"
  google_verify :: "string \<Rightarrow> google_payload option"
  jwtAccessTokenTtl :: int

section \<open>Tokens\<close>

definition hashToken :: "crypto_lib \<Rightarrow> string \<Rightarrow> string" where
  "hashToken cr t = sha256 cr t"

definition generateAccessToken ::
    "crypto_lib \<Rightarrow> timestamp \<Rightarrow> uuid \<Rightarrow> string \<Rightarrow> string \<Rightarrow> bool \<Rightarrow> int option \<Rightarrow> 'a base_scheme
     \<Rightarrow> jwt_claims \<times> 'a base_scheme" where
  "generateAccessToken cr now sub orgId role admin mfa w =
     (let (jti, w1) = draw w
      in (\<lparr>jc_sub = sub, jc_orgId = orgId, jc_role = role, jc_isPlatformAdmin = admin,
           jc_mfaVerifiedAt = mfa, jc_auth_time = now div 1000, jc_jti = jti,
           jc_iat = now div 1000, jc_exp = now div 1000 + jwtAccessTokenTtl cr\<rparr>, w1))"

text \<open>The three generators of one-time tokens draw 32 random bytes and return the hash; they
  differ in the lifetime only.  The raw token is dropped by every caller.\<close>

definition generate_one_time_token :: "crypto_lib \<Rightarrow> 'a base_scheme \<Rightarrow> string \<times> string \<times> 'a base_scheme" where
  "generate_one_time_token cr w = (let (tok, w1) = draw w in (tok, hashToken cr tok, w1))"

definition blacklist_key :: "string \<Rightarrow> string" where
  "blacklist_key jti = ''blacklist:token:'' @ jti"

text \<open>Redis refuses an expiry that is not positive.\<close>

definition blacklistToken ::
    "timestamp \<Rightarrow> string \<Rightarrow> int \<Rightarrow> 'a base_scheme \<Rightarrow> unit outcome \<times> 'a base_scheme" where
  "blacklistToken now jti ttl w =
     (if ttl \<le> 0 then (Inl (JsError ''ReplyError''), w)
      else (Inr (), redis_setex now (blacklist_key jti) (JStr ''1'') ttl w))"

definition REFRESH_TOKEN_TTL_MS :: int where
  "REFRESH_TOKEN_TTL_MS = 30 * 24 * 60 * 60 * 1000"

record token_pair =
  tp_accessToken :: string
  tp_refreshToken :: string
  tp_expiresIn :: int

definition issueTokenPair ::
    "crypto_lib \<Rightarrow> timestamp \<Rightarrow> uuid \<Rightarrow> string \<Rightarrow> string \<Rightarrow> bool \<Rightarrow> int option \<Rightarrow> 'a auth_db_scheme
     \<Rightarrow> token_pair outcome \<times> 'a auth_db_scheme" where
  "issueTokenPair cr now userId orgId role admin mfa w =
     (let (c, w1) = generateAccessToken cr now userId orgId role admin mfa w;
          (raw, w2) = draw w1;
          (familyId, w3) = draw w2
      in case createRefreshToken now userId (if orgId = '''' then None else Some orgId) (hashToken cr raw)
                familyId (Some (jc_jti c)) (now + REFRESH_TOKEN_TTL_MS) w3 of
           (Inl e, w4) \<Rightarrow> (Inl e, w4)
         | (Inr _, w4) \<Rightarrow>
             (Inr \<lparr>tp_accessToken = jwt_sign cr c, tp_refreshToken = raw,
                   tp_expiresIn = jwtAccessTokenTtl cr\<rparr>, w4))"

definition active_role :: "uuid \<Rightarrow> uuid \<Rightarrow> 'a dir_scheme \<Rightarrow> role option" where
  "active_role userId orgId w =
     map_option m_role (List.find (\<lambda>m. m_user_id m = userId \<and> m_org_id m = orgId \<and> m_status m = MActive)
                          (org_memberships w))"

text \<open>The second half of \<^verbatim>\<open>refreshTokenPair\<close>: the row is valid and its user exists.\<close>

definition rotate_token ::
    "crypto_lib \<Rightarrow> timestamp \<Rightarrow> refresh_token \<Rightarrow> bool \<Rightarrow> 'a auth_db_scheme
     \<Rightarrow> token_pair outcome \<times> 'a auth_db_scheme" where
  "rotate_token cr now row admin w =
     (let role = (if truthy (rt_org_id row)
                  then case_option ''member'' role_name
                         (active_role (rt_user_id row) (case_option '''' id (rt_org_id row)) w)
                  else ''member'');
          w1 = revokeRefreshToken now (rt_id row) w;
          (c, w2) = generateAccessToken cr now (rt_user_id row) (case_option '''' id (rt_org_id row))
                      role admin None w1;
          (newRaw, w3) = draw w2
      in case createRefreshToken now (rt_user_id row) (rt_org_id row) (hashToken cr newRaw)
                (rt_family_id row) (Some (jc_jti c)) (now + REFRESH_TOKEN_TTL_MS) w3 of
           (Inl e, w4) \<Rightarrow> (Inl e, w4)
         | (Inr newRow, w4) \<Rightarrow>
             (Inr \<lparr>tp_accessToken = jwt_sign cr c, tp_refreshToken = newRaw,
                   tp_expiresIn = jwtAccessTokenTtl cr\<rparr>,
              updateRefreshTokenJti (rt_id newRow) (jc_jti c) w4))"

definition refreshTokenPair ::
    "crypto_lib \<Rightarrow> timestamp \<Rightarrow> string \<Rightarrow> 'a auth_db_scheme \<Rightarrow> token_pair outcome \<times> 'a auth_db_scheme" where
  "refreshTokenPair cr now raw w =
     (case findRefreshToken (hashToken cr raw) w of
        None \<Rightarrow> (Inl (UnauthorizedError ''TOKEN_NOT_FOUND''), w)
      | Some row \<Rightarrow>
          if rt_is_revoked row then
            (let w1 = revokeTokenFamily now (rt_family_id row) w
             in if truthy (rt_last_access_token_jti row)
                then (case blacklistToken now (case_option '''' id (rt_last_access_token_jti row))
                             (jwtAccessTokenTtl cr) w1 of
                        (Inl e, w2) \<Rightarrow> (Inl e, w2)
                      | (Inr _, w2) \<Rightarrow> (Inl (UnauthorizedError ''TOKEN_FAMILY_REVOKED''), w2))
                else (Inl (UnauthorizedError ''TOKEN_FAMILY_REVOKED''), w1))
          else if rt_expires_at row < now then (Inl (UnauthorizedError ''TOKEN_EXPIRED''), w)
          else case List.find (\<lambda>u. u_id u = rt_user_id row \<and> user_live u) (users w) of
                 None \<Rightarrow> (Inl (UnauthorizedError ''USER_NOT_FOUND''), w)
               | Some u \<Rightarrow> rotate_token cr now row (u_is_platform_admin u) w)"

definition revokeTokens ::
    "crypto_lib \<Rightarrow> timestamp \<Rightarrow> string \<Rightarrow> string \<Rightarrow> int \<Rightarrow> 'a auth_db_scheme \<Rightarrow> unit outcome \<times> 'a auth_db_scheme" where
  "revokeTokens cr now raw jti remainingTtl w =
     (let w1 = (case findRefreshToken (hashToken cr raw) w of
                  None \<Rightarrow> w | Some row \<Rightarrow> revokeRefreshToken now (rt_id row) w)
      in blacklistToken now jti remainingTtl w1)"

section \<open>Registration and login\<close>

definition LOCK_DURATION_MS :: int where
  "LOCK_DURATION_MS = 30 * 60 * 1000"

definition DEFAULT_LOCKOUT_ATTEMPTS :: int where
  "DEFAULT_LOCKOUT_ATTEMPTS = 5"

record safe_user =
  su_id :: uuid
  su_email :: string
  su_email_verified :: bool
  su_name :: string
  su_avatar_url :: "string option"
  su_is_platform_admin :: bool
  su_status :: user_status
  su_created_at :: timestamp
  su_updated_at :: timestamp

definition sanitizeUser :: "user \<Rightarrow> safe_user" where
  "sanitizeUser u =
     \<lparr>su_id = u_id u, su_email = u_email u, su_email_verified = u_email_verified u, su_name = u_name u,
      su_avatar_url = u_avatar_url u, su_is_platform_admin = u_is_platform_admin u,
      su_status = u_status u, su_created_at = u_created_at u, su_updated_at = u_updated_at u\<rparr>"

definition writeAuthEvent ::
    "timestamp \<Rightarrow> string \<Rightarrow> uuid \<Rightarrow> json \<Rightarrow> 'a base_scheme \<Rightarrow> 'a base_scheme" where
  "writeAuthEvent now eventType userId payload w =
     insert_outbox now None eventType ''user'' userId (Some userId) payload w"

definition email_verify_key :: "string \<Rightarrow> string" where
  "email_verify_key h = ''email_verify:'' @ h"

definition register ::
    "crypto_lib \<Rightarrow> timestamp \<Rightarrow> string \<Rightarrow> string \<Rightarrow> string \<Rightarrow> 'a auth_db_scheme
     \<Rightarrow> safe_user outcome \<times> 'a auth_db_scheme" where
  "register cr now email password name w =
     (let e = normalize_email email in
      case findUserByEmail e w of
        Some _ \<Rightarrow> (Inl (ConflictError ''EMAIL_ALREADY_EXISTS''), w)
      | None \<Rightarrow>
          (let (salt, w1) = draw w
           in case createUser now \<lparr>cu_email = e, cu_name = name,
                     cu_password_hash = Some (bcrypt_hash cr salt password),
                     cu_email_verified = Some False, cu_avatar_url = None\<rparr> w1 of
                (Inl err, w2) \<Rightarrow> (Inl err, w2)
              | (Inr u, w2) \<Rightarrow>
                  (case createAuthProvider (u_id u) ProvEmail e None (JObj [])
                          (createUserPreferences now (u_id u) w2) of
                     (Inl err, w3) \<Rightarrow> (Inl err, w3)
                   | (Inr _, w3) \<Rightarrow>
                       (let (tok, h, w4) = generate_one_time_token cr w3;
                            w5 = writeAuthEvent now ''user.email_verification_requested'' (u_id u)
                                   (JObj [(''userId'', JStr (u_id u)), (''email'', JStr e),
                                          (''tokenHash'', JStr h), (''expiresAt'', JNum (now + 86400000))]) w4;
                            w6 = redis_setex now (email_verify_key h) (JStr (u_id u)) 86400 w5
                        in (Inr (sanitizeUser u),
                            persistAuditLog now None None ActorSystem ''user.registered'' (Some ''user'')
                              (Some (u_id u)) (JObj []) w6)))))"

definition lockout_threshold :: "uuid option \<Rightarrow> 'a dir_scheme \<Rightarrow> int" where
  "lockout_threshold orgId w =
     (if truthy orgId
      then case List.find (\<lambda>r. Some (o_id r) = orgId \<and> o_deleted_at r = None) (organizations w) of
             None \<Rightarrow> DEFAULT_LOCKOUT_ATTEMPTS
           | Some r \<Rightarrow> o_account_lockout_attempts r
      else DEFAULT_LOCKOUT_ATTEMPTS)"

definition password_valid :: "crypto_lib \<Rightarrow> string \<Rightarrow> user \<Rightarrow> bool" where
  "password_valid cr password u =
     (case u_password_hash u of None \<Rightarrow> False
      | Some h \<Rightarrow> h \<noteq> '''' \<and> bcrypt_compare cr password h)"

definition login ::
    "crypto_lib \<Rightarrow> timestamp \<Rightarrow> string \<Rightarrow> string \<Rightarrow> uuid option \<Rightarrow> 'a auth_db_scheme
     \<Rightarrow> (token_pair \<times> safe_user) outcome \<times> 'a auth_db_scheme" where
  "login cr now email password orgId w =
     (case findUserByEmail (normalize_email email) w of
        None \<Rightarrow> (Inl (UnauthorizedError ''INVALID_CREDENTIALS''), w)
      | Some u \<Rightarrow>
          if \<not> u_email_verified u then (Inl (ForbiddenError ''EMAIL_NOT_VERIFIED''), w)
          else if (case u_locked_until u of None \<Rightarrow> False | Some t \<Rightarrow> now < t)
          then (Inl (ForbiddenError ''ACCOUNT_LOCKED''), w)
          else if \<not> password_valid cr password u then
            (let lockoutAttempts = lockout_threshold orgId w;
                 newCount = u_failed_login_attempts u + 1;
                 w1 = incrementFailedLoginAttempts now (u_id u) w
             in if lockoutAttempts \<le> newCount
                then (Inl (ForbiddenError ''ACCOUNT_LOCKED''), lockUser now (u_id u) (now + LOCK_DURATION_MS) w1)
                else (Inl (UnauthorizedError ''INVALID_CREDENTIALS''), w1))
          else
            (let w1 = resetFailedLoginAttempts now (u_id u) w;
                 w2 = snd (updateUser now (u_id u) (no_user_change\<lparr>uu_last_login_at := Some (Some now)\<rparr>) w1);
                 member = (if truthy orgId then active_role (u_id u) (case_option '''' id orgId) w2 else Some Member)
             in case member of
                  None \<Rightarrow> (Inl (ForbiddenError ''NOT_ORG_MEMBER''), w2)
                | Some r \<Rightarrow>
                    (case issueTokenPair cr now (u_id u) (case_option '''' id orgId) (role_name r)
                            (u_is_platform_admin u) None w2 of
                       (Inl e, w3) \<Rightarrow> (Inl e, w3)
                     | (Inr tokens, w3) \<Rightarrow>
                         (Inr (tokens, sanitizeUser u),
                          persistAuditLog now orgId (Some (u_id u)) ActorUser ''user.login'' (Some ''user'')
                            (Some (u_id u)) (JObj []) w3))))"

section \<open>E-mail verification and password reset\<close>

text \<open>A string stored in Redis; the empty string is falsy.\<close>

definition redis_string :: "timestamp \<Rightarrow> string \<Rightarrow> 'a base_scheme \<Rightarrow> string option" where
  "redis_string now k w =
     (case redis_get now k w of Some (JStr s) \<Rightarrow> (if s = '''' then None else Some s) | _ \<Rightarrow> None)"

definition verifyEmail ::
    "crypto_lib \<Rightarrow> timestamp \<Rightarrow> string \<Rightarrow> 'a auth_db_scheme \<Rightarrow> unit outcome \<times> 'a auth_db_scheme" where
  "verifyEmail cr now token w =
     (let key = email_verify_key (hashToken cr token)
      in case redis_string now key w of
           None \<Rightarrow> (Inl (UnauthorizedError ''INVALID_OR_EXPIRED_TOKEN''), w)
         | Some userId \<Rightarrow>
             (let w1 = snd (updateUser now userId (no_user_change\<lparr>uu_email_verified := Some True,
                              uu_email_verified_at := Some (Some now)\<rparr>) w);
                  w2 = redis_del key w1
              in (Inr (), persistAuditLog now None (Some userId) ActorUser ''user.email_verified''
                            (Some ''user'') (Some userId) (JObj []) w2)))"

definition findUserByEmailForResend :: "string \<Rightarrow> 'a auth_db_scheme \<Rightarrow> uuid option" where
  "findUserByEmailForResend email w =
     (case findUserByEmail (normalize_email email) w of
        None \<Rightarrow> None
      | Some u \<Rightarrow> if u_email_verified u then None else Some (u_id u))"

definition resendVerificationEmail ::
    "crypto_lib \<Rightarrow> timestamp \<Rightarrow> uuid \<Rightarrow> 'a auth_db_scheme \<Rightarrow> 'a auth_db_scheme" where
  "resendVerificationEmail cr now userId w =
     (let (tok, h, w1) = generate_one_time_token cr w;
          w2 = redis_setex now (email_verify_key h) (JStr userId) 86400 w1
      in writeAuthEvent now ''user.email_verification_requested'' userId
           (JObj [(''userId'', JStr userId), (''tokenHash'', JStr h), (''expiresAt'', JNum (now + 86400000))]) w2)"

definition pwd_reset_key :: "string \<Rightarrow> string" where
  "pwd_reset_key h = ''pwd_reset:'' @ h"

definition user_cache_key :: "uuid \<Rightarrow> string" where
  "user_cache_key u = ''user:cache:'' @ u"

definition requestPasswordReset ::
    "crypto_lib \<Rightarrow> timestamp \<Rightarrow> string \<Rightarrow> 'a auth_db_scheme \<Rightarrow> 'a auth_db_scheme" where
  "requestPasswordReset cr now email w =
     (let e = normalize_email email in
      case findUserByEmail e w of
        None \<Rightarrow> w
      | Some u \<Rightarrow>
          (let (tok, h, w1) = generate_one_time_token cr w;
               w2 = redis_setex now (pwd_reset_key h) (JStr (u_id u)) 3600 w1
           in writeAuthEvent now ''user.password_reset_requested'' (u_id u)
                (JObj [(''userId'', JStr (u_id u)), (''email'', JStr e), (''tokenHash'', JStr h),
                       (''expiresAt'', JNum (now + 3600000))]) w2))"

definition confirmPasswordReset ::
    "crypto_lib \<Rightarrow> timestamp \<Rightarrow> string \<Rightarrow> string \<Rightarrow> 'a auth_db_scheme \<Rightarrow> unit outcome \<times> 'a auth_db_scheme" where
  "confirmPasswordReset cr now token newPassword w =
     (let key = pwd_reset_key (hashToken cr token)
      in case redis_string now key w of
           None \<Rightarrow> (Inl (UnauthorizedError ''INVALID_OR_EXPIRED_TOKEN''), w)
         | Some userId \<Rightarrow>
             (let (salt, w0) = draw w;
                  w1 = snd (updateUser now userId
                              (no_user_change\<lparr>uu_password_hash := Some (Some (bcrypt_hash cr salt newPassword)),
                                              uu_password_changed_at := Some (Some now)\<rparr>) w0);
                  w2 = redis_del (user_cache_key userId) w1;
                  w3 = revokeAllUserTokens now userId w2;
                  w4 = redis_del key w3
              in (Inr (), persistAuditLog now None (Some userId) ActorUser ''user.password_reset''
                            (Some ''user'') (Some userId) (JObj []) w4)))"

definition logout ::
    "crypto_lib \<Rightarrow> timestamp \<Rightarrow> string \<Rightarrow> string \<Rightarrow> int \<Rightarrow> 'a auth_db_scheme \<Rightarrow> unit outcome \<times> 'a auth_db_scheme" where
  "logout cr now raw jti remainingTtl w = revokeTokens cr now raw jti remainingTtl w"

text \<open>\<^verbatim>\<open>logoutHandler\<close>: the remaining lifetime of the access token.\<close>

definition logoutHandler ::
    "crypto_lib \<Rightarrow> timestamp \<Rightarrow> string \<Rightarrow> jwt_claims \<Rightarrow> 'a auth_db_scheme \<Rightarrow> unit outcome \<times> 'a auth_db_scheme" where
  "logoutHandler cr now raw c w = logout cr now raw (jc_jti c) (max 0 (jc_exp c - now div 1000)) w"

section \<open>Second factor\<close>

definition enableTotp :: "crypto_lib \<Rightarrow> timestamp \<Rightarrow> uuid \<Rightarrow> string \<Rightarrow> 'a auth_db_scheme \<Rightarrow> 'a auth_db_scheme" where
  "enableTotp cr now userId secret w =
     (let (iv, w1) = draw w
      in snd (updateUser now userId (no_user_change\<lparr>uu_totp_secret := Some (Some (aes_encrypt cr iv secret)),
                                       uu_totp_enabled := Some True\<rparr>) w1))"

definition verifyUserTotp :: "crypto_lib \<Rightarrow> timestamp \<Rightarrow> uuid \<Rightarrow> string \<Rightarrow> 'a auth_db_scheme \<Rightarrow> bool outcome" where
  "verifyUserTotp cr now userId token w =
     (case findUserById userId w of
        None \<Rightarrow> Inr False
      | Some u \<Rightarrow>
          if \<not> u_totp_enabled u \<or> \<not> truthy (u_totp_secret u) then Inr False
          else case aes_decrypt cr (case_option '''' id (u_totp_secret u)) of
                 None \<Rightarrow> Inl (JsError ''Error'')
               | Some secret \<Rightarrow> Inr (totp_verify cr now token secret))"

definition BACKUP_CODE_COUNT :: nat where
  "BACKUP_CODE_COUNT = 8"

text \<open>\<open>gen\<close> is \<^verbatim>\<open>generateAlphanumericCode\<close> of the random bytes drawn.\<close>

fun generate_codes :: "crypto_lib \<Rightarrow> (string \<Rightarrow> string) \<Rightarrow> nat \<Rightarrow> 'a base_scheme
     \<Rightarrow> (string \<times> string) list \<times> 'a base_scheme" where
  "generate_codes cr gen 0 w = ([], w)"
| "generate_codes cr gen (Suc n) w =
     (let (bytes, w1) = draw w; (salt, w2) = draw w1; code = gen bytes;
          (rest, w3) = generate_codes cr gen n w2
      in ((code, bcrypt_hash cr salt code) # rest, w3))"

definition generateBackupCodes ::
    "crypto_lib \<Rightarrow> (string \<Rightarrow> string) \<Rightarrow> timestamp \<Rightarrow> uuid \<Rightarrow> 'a auth_db_scheme \<Rightarrow> string list \<times> 'a auth_db_scheme" where
  "generateBackupCodes cr gen now userId w =
     (let (cs, w1) = generate_codes cr gen BACKUP_CODE_COUNT w
      in (map fst cs,
          snd (updateUser now userId (no_user_change\<lparr>uu_mfa_backup_codes := Some (map snd cs),
                 uu_mfa_backup_codes_generated_at := Some (Some now)\<rparr>) w1)))"

fun match_index :: "crypto_lib \<Rightarrow> string \<Rightarrow> string list \<Rightarrow> nat option" where
  "match_index cr code [] = None"
| "match_index cr code (h # hs) =
     (if bcrypt_compare cr code h then Some 0 else map_option Suc (match_index cr code hs))"

definition verifyBackupCode ::
    "crypto_lib \<Rightarrow> timestamp \<Rightarrow> uuid \<Rightarrow> string \<Rightarrow> 'a auth_db_scheme \<Rightarrow> bool \<times> 'a auth_db_scheme" where
  "verifyBackupCode cr now userId code w =
     (case findUserById userId w of
        None \<Rightarrow> (False, w)
      | Some u \<Rightarrow>
          (case match_index cr code (u_mfa_backup_codes u) of
             None \<Rightarrow> (False, w)
           | Some i \<Rightarrow>
               (let codes = take i (u_mfa_backup_codes u) @ drop (Suc i) (u_mfa_backup_codes u);
                    w1 = snd (updateUser now userId (no_user_change\<lparr>uu_mfa_backup_codes := Some codes\<rparr>) w)
                in (True, persistAuditLog now None (Some userId) ActorUser ''user.backup_code_used''
                            (Some ''user'') (Some userId) (JObj []) w1))))"

section \<open>Magic links and Google\<close>

definition magic_key :: "string \<Rightarrow> string" where
  "magic_key h = ''magic:'' @ h"

definition requestLink ::
    "crypto_lib \<Rightarrow> timestamp \<Rightarrow> string \<Rightarrow> uuid option \<Rightarrow> 'a auth_db_scheme \<Rightarrow> 'a auth_db_scheme" where
  "requestLink cr now email orgId w =
     (let e = normalize_email email in
      case findUserByEmail e w of
        None \<Rightarrow> w
      | Some u \<Rightarrow>
          (let (tok, h, w1) = generate_one_time_token cr w;
               w2 = redis_setex now (magic_key h)
                      (JObj [(''userId'', JStr (u_id u)), (''orgId'', json_opt orgId)]) 900 w1
           in writeAuthEvent now ''user.magic_link_requested'' (u_id u)
                (JObj [(''userId'', JStr (u_id u)), (''email'', JStr e), (''tokenHash'', JStr h),
                       (''expiresAt'', JNum (now + 900000)), (''orgId'', json_opt orgId)]) w2))"

definition json_string :: "json option \<Rightarrow> string" where
  "json_string j = (case j of Some (JStr s) \<Rightarrow> s | _ \<Rightarrow> '''')"

definition verifyLink ::
    "crypto_lib \<Rightarrow> timestamp \<Rightarrow> string \<Rightarrow> 'a auth_db_scheme \<Rightarrow> token_pair outcome \<times> 'a auth_db_scheme" where
  "verifyLink cr now token w =
     (let key = magic_key (hashToken cr token)
      in case redis_get now key w of
           None \<Rightarrow> (Inl (UnauthorizedError ''INVALID_OR_EXPIRED_TOKEN''), w)
         | Some raw \<Rightarrow>
             (let userId = json_string (json_field ''userId'' raw);
                  orgId = json_string (json_field ''orgId'' raw);
                  w1 = redis_del key w
              in case findUserById userId w1 of
                   None \<Rightarrow> (Inl (UnauthorizedError ''USER_NOT_FOUND''), w1)
                 | Some u \<Rightarrow>
                     (let w2 = (if u_email_verified u then w1
                                else snd (updateUser now userId (no_user_change\<lparr>uu_email_verified := Some True,
                                            uu_email_verified_at := Some (Some now)\<rparr>) w1))
                      in issueTokenPair cr now userId orgId ''member'' (u_is_platform_admin u) None w2)))"

text \<open>\<open>google_verify\<close> answers \<open>None\<close> for an invalid token and for a payload without
  subject or e-mail.\<close>

definition loginWithGoogle ::
    "crypto_lib \<Rightarrow> timestamp \<Rightarrow> string \<Rightarrow> 'a auth_db_scheme \<Rightarrow> token_pair outcome \<times> 'a auth_db_scheme" where
  "loginWithGoogle cr now idToken w =
     (case google_verify cr idToken of
        None \<Rightarrow> (Inl (UnauthorizedError ''INVALID_GOOGLE_TOKEN''), w)
      | Some p \<Rightarrow>
          (let e = normalize_email (gp_email p);
               name = case_option e id (gp_name p);
               finish = (\<lambda>userId w. issueTokenPair cr now userId '''' ''member'' False None
                          (persistAuditLog now None (Some userId) ActorUser ''user.login_google''
                             (Some ''user'') (Some userId) (JObj []) w));
               link = (\<lambda>userId w.
                  case createAuthProvider userId ProvGoogle (gp_sub p) None
                         (JObj ([(''email'', JStr e), (''name'', JStr name)] @
                                case_option [] (\<lambda>u. [(''picture'', JStr u)]) (gp_picture p))) w of
                    (Inl err, w2) \<Rightarrow> (Inl err, w2)
                  | (Inr _, w2) \<Rightarrow> finish userId (writeAuthEvent now ''user.oauth_linked'' userId
                                     (JObj [(''provider'', JStr ''google''), (''userId'', JStr userId)]) w2))
           in case findAuthProvider ProvGoogle (gp_sub p) w of
                Some a \<Rightarrow> finish (ap_user_id a) w
              | None \<Rightarrow>
                  (case findUserByEmail e w of
                     None \<Rightarrow>
                       (case createUser now \<lparr>cu_email = e, cu_name = name, cu_password_hash = None,
                               cu_email_verified = Some True, cu_avatar_url = gp_picture p\<rparr> w of
                          (Inl err, w1) \<Rightarrow> (Inl err, w1)
                        | (Inr u, w1) \<Rightarrow> link (u_id u) (createUserPreferences now (u_id u) w1))
                   | Some u \<Rightarrow>
                       link (u_id u)
                         (if u_email_verified u then w
                          else snd (updateUser now (u_id u) (no_user_change\<lparr>uu_email_verified := Some True,
                                      uu_email_verified_at := Some (Some now)\<rparr>) w)))))"

section \<open>The JWT middleware\<close>

type_synonym key_store = "string \<Rightarrow> string option"

definition DEFAULT_KID :: string where
  "DEFAULT_KID = ''default''"

definition getPublicKey :: "key_store \<Rightarrow> string option \<Rightarrow> string outcome" where
  "getPublicKey ks kid =
     (case (if truthy kid then ks (case_option '''' id kid) else None) of
        Some k \<Rightarrow> Inr k
      | None \<Rightarrow> (case ks DEFAULT_KID of
                   Some k \<Rightarrow> if k = '''' then Inl (JsError ''Error'') else Inr k
                 | None \<Rightarrow> Inl (JsError ''Error'')))"

definition registerPublicKey :: "string \<Rightarrow> string \<Rightarrow> key_store \<Rightarrow> key_store" where
  "registerPublicKey kid pem ks = ks(kid \<mapsto> pem)"

record cached_user =
  cq_id :: uuid
  cq_status :: user_status
  cq_password_changed_at :: "timestamp option"

definition user_status_name :: "user_status \<Rightarrow> string" where
  "user_status_name s = (case s of UActive \<Rightarrow> ''active'' | USuspended \<Rightarrow> ''suspended'' | UDeleted \<Rightarrow> ''deleted'')"

definition cached_user_json :: "cached_user \<Rightarrow> json" where
  "cached_user_json c = JObj [(''id'', JStr (cq_id c)), (''status'', JStr (user_status_name (cq_status c))),
     (''password_changed_at'', case_option JNull JNum (cq_password_changed_at c))]"

definition parse_cached_user :: "json \<Rightarrow> cached_user" where
  "parse_cached_user j =
     \<lparr>cq_id = json_string (json_field ''id'' j),
      cq_status = (let s = json_string (json_field ''status'' j)
                   in if s = ''deleted'' then UDeleted else if s = ''suspended'' then USuspended else UActive),
      cq_password_changed_at = (case json_field ''password_changed_at'' j of Some (JNum t) \<Rightarrow> Some t | _ \<Rightarrow> None)\<rparr>"

definition USER_CACHE_TTL :: int where
  "USER_CACHE_TTL = 60"

text \<open>\<open>redis_up\<close> says whether the Redis commands of the request succeed.\<close>

definition resolveUser ::
    "bool \<Rightarrow> timestamp \<Rightarrow> uuid \<Rightarrow> 'a dir_scheme \<Rightarrow> cached_user outcome \<times> 'a dir_scheme" where
  "resolveUser redis_up now userId w =
     (case (if redis_up then redis_get now (user_cache_key userId) w else None) of
        Some j \<Rightarrow> (Inr (parse_cached_user j), w)
      | None \<Rightarrow>
          (case List.find (\<lambda>u. u_id u = userId) (users w) of
             None \<Rightarrow> (Inl (UnauthorizedError ''USER_NOT_FOUND''), w)
           | Some u \<Rightarrow>
               (let c = \<lparr>cq_id = u_id u, cq_status = u_status u, cq_password_changed_at = u_password_changed_at u\<rparr>
                in (Inr c, if redis_up
                           then redis_setex now (user_cache_key userId) (cached_user_json c) USER_CACHE_TTL w
                           else w))))"

definition verifyToken :: "crypto_lib \<Rightarrow> key_store \<Rightarrow> timestamp \<Rightarrow> string \<Rightarrow> jwt_claims option" where
  "verifyToken cr ks now token =
     (case getPublicKey ks (jwt_kid cr token) of
        Inl _ \<Rightarrow> None
      | Inr key \<Rightarrow> jwt_verify cr key now token)"

record req_user =
  ru_userId :: uuid
  ru_orgId :: string
  ru_role :: string
  ru_isPlatformAdmin :: bool
  ru_jti :: string
  ru_exp :: int
  ru_authTime :: "int option"
  ru_mfaVerifiedAt :: "int option"

text \<open>The middleware reads the claim \<^verbatim>\<open>authTime\<close>; tokens carry \<^verbatim>\<open>auth_time\<close>, so the field of
  the request is always undefined.\<close>

definition authenticate ::
    "crypto_lib \<Rightarrow> key_store \<Rightarrow> bool \<Rightarrow> timestamp \<Rightarrow> string option \<Rightarrow> 'a dir_scheme
     \<Rightarrow> req_user outcome \<times> 'a dir_scheme" where
  "authenticate cr ks redis_up now header w =
     (case header of
        None \<Rightarrow> (Inl (UnauthorizedError ''MISSING_TOKEN''), w)
      | Some h \<Rightarrow>
          if take 7 h \<noteq> ''Bearer '' then (Inl (UnauthorizedError ''MISSING_TOKEN''), w)
          else case verifyToken cr ks now (drop 7 h) of
                 None \<Rightarrow> (Inl (UnauthorizedError ''INVALID_TOKEN''), w)
               | Some p \<Rightarrow>
                   if redis_up \<and> redis_get now (blacklist_key (jc_jti p)) w \<noteq> None
                   then (Inl (UnauthorizedError ''TOKEN_BLACKLISTED''), w)
                   else case resolveUser redis_up now (jc_sub p) w of
                          (Inl e, w1) \<Rightarrow> (Inl e, w1)
                        | (Inr u, w1) \<Rightarrow>
                            if cq_status u = UDeleted then (Inl (UnauthorizedError ''USER_DELETED''), w1)
                            else if (case cq_password_changed_at u of None \<Rightarrow> False
                                     | Some t \<Rightarrow> jc_iat p < t div 1000)
                            then (Inl (UnauthorizedError ''SESSION_INVALIDATED''), w1)
                            else (Inr \<lparr>ru_userId = jc_sub p, ru_orgId = jc_orgId p, ru_role = jc_role p,
                                       ru_isPlatformAdmin = jc_isPlatformAdmin p, ru_jti = jc_jti p,
                                       ru_exp = jc_exp p, ru_authTime = None,
                                       ru_mfaVerifiedAt = jc_mfaVerifiedAt p\<rparr>, w1))"

text \<open>\<^verbatim>\<open>optionalJwtMiddleware\<close>: a missing or rejected token leaves the request anonymous.\<close>

definition optionalJwt ::
    "crypto_lib \<Rightarrow> key_store \<Rightarrow> bool \<Rightarrow> timestamp \<Rightarrow> string option \<Rightarrow> 'a dir_scheme
     \<Rightarrow> req_user option \<times> 'a dir_scheme" where
  "optionalJwt cr ks redis_up now header w =
     (case header of
        None \<Rightarrow> (None, w)
      | Some h \<Rightarrow>
          if take 7 h \<noteq> ''Bearer '' then (None, w)
          else case authenticate cr ks redis_up now header w of
                 (Inl _, w1) \<Rightarrow> (None, w1)
               | (Inr u, w1) \<Rightarrow> (Some u, w1))"

end
