(* ===== verification/Auth_Properties.thy ===== *)
theory Auth_Properties
  imports Auth
begin

text \<open>
  What the authentication module promises: rotation of refresh tokens with detection of
  reuse, the login lockout, the effect of a password reset, revocation at logout, and
  tokens and codes that work once.
\<close>

section \<open>Frame lemmas\<close>

lemma updateUser_frame [simp]:
  "redis (snd (updateUser now i d w)) = redis w"
  "refresh_tokens (snd (updateUser now i d v)) = refresh_tokens v"
  "org_memberships (snd (updateUser now i d w)) = org_memberships w"
  "drawn (snd (updateUser now i d w)) = drawn w" "entropy (snd (updateUser now i d w)) = entropy w"
  by (simp_all add: updateUser_def Let_def)

lemma rt_ops_frame [simp]:
  "redis (revokeAllUserTokens now u w) = redis w" "users (revokeAllUserTokens now u w) = users w"
  "redis (revokeTokenFamily now f w) = redis w" "redis (revokeRefreshToken now i w) = redis w"
  "users (revokeRefreshToken now i w) = users w" "entropy (revokeRefreshToken now i w) = entropy w"
  "drawn (revokeRefreshToken now i w) = drawn w" "redis (updateRefreshTokenJti i j w) = redis w"
  by (simp_all add: revokeAllUserTokens_def revokeTokenFamily_def revokeRefreshToken_def updateRefreshTokenJti_def)

lemma redis_string_None: "redis w k = None \<Longrightarrow> redis_string t k w = None"
  by (simp add: redis_string_def redis_get_def)

lemma redis_del_None [simp]: "redis (redis_del k w) k = None"
  by (simp add: redis_del_def)

lemma redis_persist [simp]: "redis (persistAuditLog now g a ty ev et i p w) = redis w"
  by simp

section \<open>Tokens that work once\<close>

definition email_token_present :: "crypto_lib \<Rightarrow> timestamp \<Rightarrow> string \<Rightarrow> 'a auth_db_scheme \<Rightarrow> bool" where
  "email_token_present cr t tok w = (redis_string t (email_verify_key (hashToken cr tok)) w \<noteq> None)"

interpretation email_token:
  one_time_token "email_token_present cr" "verifyEmail cr" "UnauthorizedError ''INVALID_OR_EXPIRED_TOKEN''" for cr
proof unfold_locales
  fix t tok and s :: "'a auth_db_scheme"
  assume "\<not> email_token_present cr t tok s"
  then show "verifyEmail cr t tok s = (Inl (UnauthorizedError ''INVALID_OR_EXPIRED_TOKEN''), s)"
    by (simp add: email_token_present_def verifyEmail_def)
next
  fix t t' tok and s s' :: "'a auth_db_scheme" and r
  assume "verifyEmail cr t tok s = (Inr r, s')"
  then have "redis s' (email_verify_key (hashToken cr tok)) = None"
    by (auto simp: verifyEmail_def Let_def split: option.splits)
  then show "\<not> email_token_present cr t' tok s'" by (simp add: email_token_present_def redis_string_None)
qed

definition reset_token_present :: "crypto_lib \<Rightarrow> timestamp \<Rightarrow> string \<Rightarrow> 'a auth_db_scheme \<Rightarrow> bool" where
  "reset_token_present cr t tok w = (redis_string t (pwd_reset_key (hashToken cr tok)) w \<noteq> None)"

definition reset_with :: "crypto_lib \<Rightarrow> string \<Rightarrow> timestamp \<Rightarrow> string \<Rightarrow> 'a auth_db_scheme
    \<Rightarrow> unit outcome \<times> 'a auth_db_scheme" where
  "reset_with cr pw t tok w = confirmPasswordReset cr t tok pw w"

interpretation reset_token:
  one_time_token "reset_token_present cr" "reset_with cr pw" "UnauthorizedError ''INVALID_OR_EXPIRED_TOKEN''" for cr pw
proof unfold_locales
  fix t tok and s :: "'a auth_db_scheme"
  assume "\<not> reset_token_present cr t tok s"
  then show "reset_with cr pw t tok s = (Inl (UnauthorizedError ''INVALID_OR_EXPIRED_TOKEN''), s)"
    by (simp add: reset_token_present_def reset_with_def confirmPasswordReset_def)
next
  fix t t' tok and s s' :: "'a auth_db_scheme" and r
  assume "reset_with cr pw t tok s = (Inr r, s')"
  then have "redis s' (pwd_reset_key (hashToken cr tok)) = None"
    by (auto simp: reset_with_def confirmPasswordReset_def Let_def split: option.splits prod.splits)
  then show "\<not> reset_token_present cr t' tok s'" by (simp add: reset_token_present_def redis_string_None)
qed

definition magic_token_present :: "crypto_lib \<Rightarrow> timestamp \<Rightarrow> string \<Rightarrow> 'a auth_db_scheme \<Rightarrow> bool" where
  "magic_token_present cr t tok w = (redis_get t (magic_key (hashToken cr tok)) w \<noteq> None)"

lemma issueTokenPair_redis: "redis (snd (issueTokenPair cr now u g r a m w)) = redis w"
  by (simp add: issueTokenPair_def generateAccessToken_def createRefreshToken_def draw_def Let_def)

interpretation magic_token:
  one_time_token "magic_token_present cr" "verifyLink cr" "UnauthorizedError ''INVALID_OR_EXPIRED_TOKEN''" for cr
proof unfold_locales
  fix t tok and s :: "'a auth_db_scheme"
  assume "\<not> magic_token_present cr t tok s"
  then show "verifyLink cr t tok s = (Inl (UnauthorizedError ''INVALID_OR_EXPIRED_TOKEN''), s)"
    by (simp add: magic_token_present_def verifyLink_def)
next
  fix t t' tok and s s' :: "'a auth_db_scheme" and r
  assume v: "verifyLink cr t tok s = (Inr r, s')"
  let ?k = "magic_key (hashToken cr tok)"
  obtain u g ro ad w2 where "s' = snd (issueTokenPair cr t u g ro ad None w2)" "redis w2 ?k = None"
    using v by (auto simp: verifyLink_def Let_def split: option.splits if_splits
        dest!: arg_cong [where f = snd])
  then have "redis s' ?k = None" by (simp add: issueTokenPair_redis)
  then show "\<not> magic_token_present cr t' tok s'" by (simp add: magic_token_present_def redis_get_def)
qed

section \<open>Rotation of refresh tokens\<close>

lemma find_hash_update:
  assumes "\<And>r. P r \<Longrightarrow> rt_token_hash (f r) = rt_token_hash r"
  shows "List.find (\<lambda>r. rt_token_hash r = h) (update_where P f rs) =
    map_option (\<lambda>r. if P r then f r else r) (List.find (\<lambda>r. rt_token_hash r = h) rs)"
  by (rule find_update_where_keep) (simp add: assms)

lemma revokeRefreshToken_hashes [simp]:
  "rt_token_hash ` set (refresh_tokens (revokeRefreshToken t i w)) = rt_token_hash ` set (refresh_tokens w)"
proof -
  have "map rt_token_hash (refresh_tokens (revokeRefreshToken t i w)) = map rt_token_hash (refresh_tokens w)"
    unfolding revokeRefreshToken_def by (simp add: map_update_where_same)
  then show ?thesis by (metis list.set_map)
qed

text \<open>What a rotation leaves.\<close>

lemma rotate_success:
  assumes "rotate_token cr t row a w = (Inr tp, w1)"
  shows "tp_refreshToken tp = entropy w (drawn w + 1)"
    and "\<exists>c. tp_accessToken tp = jwt_sign cr c \<and> jc_jti c = entropy w (drawn w)"
    and "redis w1 = redis w"
    and "hashToken cr (entropy w (drawn w + 1)) \<notin> rt_token_hash ` set (refresh_tokens w)"
    and "refresh_tokens w1 =
       update_where (\<lambda>r. rt_id r = entropy w (drawn w + 2)) (\<lambda>r. r\<lparr>rt_last_access_token_jti := Some (entropy w (drawn w))\<rparr>)
       (refresh_tokens (revokeRefreshToken t (rt_id row) w) @
        [\<lparr>rt_id = entropy w (drawn w + 2), rt_user_id = rt_user_id row, rt_org_id = rt_org_id row,
          rt_token_hash = hashToken cr (entropy w (drawn w + 1)), rt_family_id = rt_family_id row,
          rt_last_access_token_jti = Some (entropy w (drawn w)), rt_is_revoked = False,
          rt_revoked_at = None, rt_expires_at = t + REFRESH_TOKEN_TTL_MS, rt_created_at = t\<rparr>])"
  using assms
  by (auto simp: rotate_token_def generateAccessToken_def createRefreshToken_def draw_def Let_def
      updateRefreshTokenJti_def split: if_splits)

lemma refresh_success:
  assumes "refreshTokenPair cr t raw w = (Inr tp, w1)"
  obtains row a where "findRefreshToken (hashToken cr raw) w = Some row" "\<not> rt_is_revoked row"
    "rotate_token cr t row a w = (Inr tp, w1)"
  using assms
  by (auto simp: refreshTokenPair_def blacklistToken_def Let_def split: option.splits if_splits)

text \<open>After a refresh: the presented token is revoked, its successor is in the same family.\<close>

lemma refresh_rows:
  assumes "findRefreshToken (hashToken cr raw) w = Some row" and "rotate_token cr t row a w = (Inr tp, w1)"
  shows "\<exists>old. findRefreshToken (hashToken cr raw) w1 = Some old \<and> rt_is_revoked old \<and>
           rt_family_id old = rt_family_id row \<and>
           (rt_last_access_token_jti old = rt_last_access_token_jti row \<or> rt_id row = entropy w (drawn w + 2))"
    and "\<exists>new. findRefreshToken (hashToken cr (tp_refreshToken tp)) w1 = Some new \<and>
           rt_family_id new = rt_family_id row"
proof -
  note r = rotate_success [OF assms(2)]
  let ?h = "hashToken cr raw" and ?nh = "hashToken cr (entropy w (drawn w + 1))"
  have f1: "List.find (\<lambda>x. rt_token_hash x = ?h) (refresh_tokens w) = Some row"
    using assms(1) by (simp add: findRefreshToken_def)
  have f2: "List.find (\<lambda>x. rt_token_hash x = ?nh) (refresh_tokens w) = None"
    using r(4) unfolding find_None_iff by (force simp: image_iff)
  have rv: "List.find (\<lambda>x. rt_token_hash x = h) (refresh_tokens (revokeRefreshToken t (rt_id row) w)) =
      map_option (\<lambda>x. if rt_id x = rt_id row then rt_revoke t x else x)
        (List.find (\<lambda>x. rt_token_hash x = h) (refresh_tokens w))" for h
    by (simp add: revokeRefreshToken_def find_hash_update)
  have "findRefreshToken ?h w1 = Some (if rt_id row = entropy w (drawn w + 2)
      then (rt_revoke t row)\<lparr>rt_last_access_token_jti := Some (entropy w (drawn w))\<rparr> else rt_revoke t row)"
    unfolding findRefreshToken_def r(5) by (subst find_hash_update) (simp_all add: find_append rv f1)
  then show "\<exists>old. findRefreshToken ?h w1 = Some old \<and> rt_is_revoked old \<and>
      rt_family_id old = rt_family_id row \<and>
      (rt_last_access_token_jti old = rt_last_access_token_jti row \<or> rt_id row = entropy w (drawn w + 2))"
    by auto
  have "findRefreshToken ?nh w1 = Some \<lparr>rt_id = entropy w (drawn w + 2), rt_user_id = rt_user_id row,
      rt_org_id = rt_org_id row, rt_token_hash = ?nh, rt_family_id = rt_family_id row,
      rt_last_access_token_jti = Some (entropy w (drawn w)), rt_is_revoked = False,
      rt_revoked_at = None, rt_expires_at = t + REFRESH_TOKEN_TTL_MS, rt_created_at = t\<rparr>"
    unfolding findRefreshToken_def r(5) by (subst find_hash_update) (simp_all add: find_append rv f2 [simplified])
  then show "\<exists>new. findRefreshToken (hashToken cr (tp_refreshToken tp)) w1 = Some new \<and>
      rt_family_id new = rt_family_id row"
    by (simp add: r(1))
qed

text \<open>Presenting a revoked token revokes its family.\<close>

lemma refresh_revoked:
  assumes "findRefreshToken (hashToken cr raw) w = Some row" and "rt_is_revoked row" and "0 < jwtAccessTokenTtl cr"
  shows "fst (refreshTokenPair cr t raw w) = Inl (UnauthorizedError ''TOKEN_FAMILY_REVOKED'')"
    and "refresh_tokens (snd (refreshTokenPair cr t raw w)) =
           update_where (\<lambda>r. rt_family_id r = rt_family_id row) (rt_revoke t) (refresh_tokens w)"
    and "rt_last_access_token_jti row \<noteq> Some j \<Longrightarrow>
           redis (snd (refreshTokenPair cr t raw w)) (blacklist_key j) = redis w (blacklist_key j)"
  using assms
  by (auto simp: refreshTokenPair_def blacklistToken_def blacklist_key_def revokeTokenFamily_def
      redis_setex_def Let_def split: option.splits)

text \<open>Reuse: the token of a completed rotation is presented again.\<close>

lemma refresh_reuse:
  assumes "refreshTokenPair cr t raw w = (Inr tp, w1)" and "0 < jwtAccessTokenTtl cr"
  obtains old new where "findRefreshToken (hashToken cr raw) w1 = Some old" "rt_is_revoked old"
    "findRefreshToken (hashToken cr (tp_refreshToken tp)) w1 = Some new" "rt_family_id new = rt_family_id old"
    "redis w1 = redis w"
proof -
  from assms(1) obtain row a where row: "findRefreshToken (hashToken cr raw) w = Some row"
    and rot: "rotate_token cr t row a w = (Inr tp, w1)" by (rule refresh_success)
  from refresh_rows [OF row rot] rotate_success(3) [OF rot] that show thesis by metis
qed

lemma find_revoked_family:
  assumes "findRefreshToken (hashToken cr raw) w = Some row" and "rt_is_revoked row" and "0 < jwtAccessTokenTtl cr"
    and "findRefreshToken h w = Some r" and "rt_family_id r = rt_family_id row"
  shows "findRefreshToken h (snd (refreshTokenPair cr t raw w)) = Some (rt_revoke t r)"
  using assms(4,5) unfolding findRefreshToken_def refresh_revoked(2) [OF assms(1,2,3)]
  by (subst find_hash_update) simp_all

section \<open>Lockout\<close>

lemma findUserByEmail_normalize [simp]: "findUserByEmail (normalize_email e) w = findUserByEmail e w"
  by (simp add: findUserByEmail_def)

lemma findUserByEmail_update:
  assumes "findUserByEmail e w = Some u"
    and "\<And>x. u_email (f x) = u_email x \<and> u_deleted_at (f x) = u_deleted_at x"
  shows "findUserByEmail e (w\<lparr>users := update_where (\<lambda>x. u_id x = u_id u) f (users w)\<rparr>) = Some (f u)"
  using assms unfolding findUserByEmail_def
  by (simp, subst find_update_where_keep) (simp_all add: user_live_def)

definition locked_at :: "timestamp \<Rightarrow> user \<Rightarrow> bool" where
  "locked_at t u = (case u_locked_until u of None \<Rightarrow> False | Some l \<Rightarrow> t < l)"

lemma login_wrong_step:
  assumes "findUserByEmail e w = Some u" and "u_email_verified u" and "\<not> locked_at t u"
    and "\<not> password_valid cr p u"
  shows "\<exists>u'. findUserByEmail e (snd (login cr t e p g w)) = Some u' \<and> u_email_verified u' \<and>
      u_password_hash u' = u_password_hash u \<and> u_failed_login_attempts u' = u_failed_login_attempts u + 1 \<and>
      u_locked_until u' = (if lockout_threshold g w \<le> u_failed_login_attempts u + 1
                           then Some (t + LOCK_DURATION_MS) else u_locked_until u)"
    and "organizations (snd (login cr t e p g w)) = organizations w"
proof -
  let ?f = "\<lambda>u. u\<lparr>u_failed_login_attempts := u_failed_login_attempts u + 1, u_updated_at := t\<rparr>"
  have inc: "findUserByEmail e (incrementFailedLoginAttempts t (u_id u) w) = Some (?f u)"
    unfolding incrementFailedLoginAttempts_def by (rule findUserByEmail_update [OF assms(1)]) simp
  let ?l = "\<lambda>u. u\<lparr>u_locked_until := Some (t + LOCK_DURATION_MS), u_updated_at := t\<rparr>"
  have lck: "findUserByEmail e (lockUser t (u_id u) (t + LOCK_DURATION_MS)
      (incrementFailedLoginAttempts t (u_id u) w)) = Some (?l (?f u))"
    unfolding lockUser_def using findUserByEmail_update [OF inc, of ?l] by simp
  have nl: "(case u_locked_until u of None \<Rightarrow> False | Some l \<Rightarrow> t < l) = False"
    using assms(3) by (simp add: locked_at_def)
  show "\<exists>u'. findUserByEmail e (snd (login cr t e p g w)) = Some u' \<and> u_email_verified u' \<and>
      u_password_hash u' = u_password_hash u \<and> u_failed_login_attempts u' = u_failed_login_attempts u + 1 \<and>
      u_locked_until u' = (if lockout_threshold g w \<le> u_failed_login_attempts u + 1
                           then Some (t + LOCK_DURATION_MS) else u_locked_until u)"
    unfolding login_def using assms(1,2,4) inc lck by (simp add: nl Let_def)
  show "organizations (snd (login cr t e p g w)) = organizations w"
    unfolding login_def using assms(1,2,4)
    by (simp add: nl Let_def incrementFailedLoginAttempts_def lockUser_def)
qed

text \<open>Login attempts with one password at the given instants.\<close>

definition login_attempts ::
    "crypto_lib \<Rightarrow> string \<Rightarrow> string \<Rightarrow> uuid option \<Rightarrow> timestamp list \<Rightarrow> 'a auth_db_scheme \<Rightarrow> 'a auth_db_scheme" where
  "login_attempts cr e p g ts w = fold (\<lambda>t w. snd (login cr t e p g w)) ts w"

lemma lockout_threshold_cong: "organizations w' = organizations w \<Longrightarrow> lockout_threshold g w' = lockout_threshold g w"
  by (simp add: lockout_threshold_def)

lemma wrong_logins:
  assumes "findUserByEmail e w = Some u" and "u_email_verified u" and "u_locked_until u = None"
    and "\<not> password_valid cr p u" and "u_failed_login_attempts u + int (length ts) < lockout_threshold g w"
  shows "\<exists>u'. findUserByEmail e (login_attempts cr e p g ts w) = Some u' \<and> u_email_verified u' \<and>
      u_password_hash u' = u_password_hash u \<and> u_locked_until u' = None \<and>
      u_failed_login_attempts u' = u_failed_login_attempts u + int (length ts)"
    and "organizations (login_attempts cr e p g ts w) = organizations w"
proof -
  have "(\<exists>u'. findUserByEmail e (login_attempts cr e p g ts w) = Some u' \<and> u_email_verified u' \<and>
      u_password_hash u' = u_password_hash u \<and> u_locked_until u' = None \<and>
      u_failed_login_attempts u' = u_failed_login_attempts u + int (length ts)) \<and>
      organizations (login_attempts cr e p g ts w) = organizations w"
    using assms
  proof (induction ts arbitrary: w u)
    case Nil
    then show ?case by (simp add: login_attempts_def)
  next
    case (Cons t ts)
    let ?w = "snd (login cr t e p g w)"
    have nl: "\<not> locked_at t u" using Cons.prems by (simp add: locked_at_def)
    note st = login_wrong_step [OF Cons.prems(1,2) nl Cons.prems(4), of g]
    have thr: "lockout_threshold g ?w = lockout_threshold g w" using st(2) by (rule lockout_threshold_cong)
    from st(1) Cons.prems obtain u' where u': "findUserByEmail e ?w = Some u'" "u_email_verified u'"
      "u_password_hash u' = u_password_hash u" "u_failed_login_attempts u' = u_failed_login_attempts u + 1"
      "u_locked_until u' = None" by auto
    have "\<not> password_valid cr p u'" using Cons.prems(4) u'(3) by (simp add: password_valid_def)
    from Cons.IH [OF u'(1,2,5) this] Cons.prems(5) thr u' st(2) show ?case
      by (auto simp: login_attempts_def)
  qed
  then show "\<exists>u'. findUserByEmail e (login_attempts cr e p g ts w) = Some u' \<and> u_email_verified u' \<and>
      u_password_hash u' = u_password_hash u \<and> u_locked_until u' = None \<and>
      u_failed_login_attempts u' = u_failed_login_attempts u + int (length ts)"
    and "organizations (login_attempts cr e p g ts w) = organizations w" by auto
qed

section \<open>Sessions after a password reset and after a logout\<close>

lemma find_user_password_changed:
  assumes "distinct (map u_id (users w))" and "findUserById i w = Some u"
    and "uu_password_changed_at d = Some (Some t)" and "uu_email d = None"
  shows "\<exists>x. List.find (\<lambda>x. u_id x = i) (users (snd (updateUser now i d w))) = Some x \<and>
      u_password_changed_at x = Some t \<and> u_password_hash x = patched (u_password_hash u) (uu_password_hash d)"
proof -
  from findUserById_SomeD [OF assms(2)] have u: "u \<in> set (users w)" "u_id u = i" "user_live u" by auto
  have f: "List.find (\<lambda>x. u_id x = i) (users w) = Some u"
    using find_by_key [OF assms(1) u(1), of "\<lambda>_. True"] u(2) by simp
  have "d \<noteq> no_user_change" using assms(3) by (auto simp: no_user_change_def)
  then have "users (snd (updateUser now i d w)) = update_where (\<lambda>u. u_id u = i \<and> user_live u) (user_set now d) (users w)"
    using assms(4) by (simp add: updateUser_def Let_def)
  with f u assms(3) show ?thesis
    by (simp, subst find_update_where_keep) simp_all
qed

lemma confirmPasswordReset_effect:
  assumes "redis_string t (pwd_reset_key (hashToken cr tok)) w = Some i"
  shows "fst (confirmPasswordReset cr t tok pw w) = Inr ()"
    and "users (snd (confirmPasswordReset cr t tok pw w)) =
          users (snd (updateUser t i (no_user_change\<lparr>uu_password_hash :=
            Some (Some (bcrypt_hash cr (entropy w (drawn w)) pw)), uu_password_changed_at := Some (Some t)\<rparr>) w))"
    and "refresh_tokens (snd (confirmPasswordReset cr t tok pw w)) =
          update_where (\<lambda>r. rt_user_id r = i \<and> \<not> rt_is_revoked r) (rt_revoke t) (refresh_tokens w)"
    and "redis (snd (confirmPasswordReset cr t tok pw w)) (user_cache_key i) = None"
  using assms
  by (simp_all add: confirmPasswordReset_def draw_def Let_def updateUser_def revokeAllUserTokens_def
      redis_del_def persistAuditLog_def no_user_change_def)

lemma resolveUser_uncached:
  assumes "redis w (user_cache_key i) = None" and "List.find (\<lambda>x. u_id x = i) (users w) = Some x"
  shows "fst (resolveUser up t i w) = Inr \<lparr>cq_id = u_id x, cq_status = u_status x,
      cq_password_changed_at = u_password_changed_at x\<rparr>"
  using assms by (simp add: resolveUser_def redis_get_def Let_def)

lemma authenticate_stale_session:
  assumes "verifyToken cr ks t2 tok = Some p"
    and "fst (resolveUser up t2 (jc_sub p) w) = Inr c"
    and "cq_password_changed_at c = Some t" and "jc_iat p < t div 1000"
  shows "\<exists>e. fst (authenticate cr ks up t2 (Some (''Bearer '' @ tok)) w) = Inl e"
proof -
  obtain w1 where "resolveUser up t2 (jc_sub p) w = (Inr c, w1)" using assms(2) by (metis fst_conv surj_pair)
  with assms(1,3,4) show ?thesis by (simp add: authenticate_def)
qed

section \<open>Backup codes\<close>

lemma match_index_Some:
  "match_index cr code hs = Some i \<Longrightarrow> i < length hs \<and> bcrypt_compare cr code (hs ! i) \<and>
     filter (bcrypt_compare cr code) (take i hs) = []"
  by (induction hs arbitrary: i) (auto split: if_splits)

lemma match_index_None: "match_index cr code hs = None \<longleftrightarrow> filter (bcrypt_compare cr code) hs = []"
  by (induction hs) auto

lemma verifyBackupCode_users:
  assumes "findUserById i w = Some u" and "match_index cr code (u_mfa_backup_codes u) = Some k"
  shows "fst (verifyBackupCode cr t i code w) = True"
    and "findUserById i (snd (verifyBackupCode cr t i code w)) =
      Some (user_set t (no_user_change\<lparr>uu_mfa_backup_codes := Some (take k (u_mfa_backup_codes u) @
              drop (Suc k) (u_mfa_backup_codes u))\<rparr>) u)"
proof -
  let ?cs = "take k (u_mfa_backup_codes u) @ drop (Suc k) (u_mfa_backup_codes u)"
  let ?d = "no_user_change\<lparr>uu_mfa_backup_codes := Some ?cs\<rparr>"
  show "fst (verifyBackupCode cr t i code w) = True" using assms by (simp add: verifyBackupCode_def Let_def)
  have "?d \<noteq> no_user_change" "uu_email ?d = None" "uu_deleted_at ?d = None" by (simp_all add: no_user_change_def)
  then have us: "users (snd (updateUser t i ?d w)) =
      update_where (\<lambda>u. u_id u = i \<and> user_live u) (user_set t ?d) (users w)"
    by (simp add: updateUser_def Let_def)
  have "findUserById i (snd (updateUser t i ?d w)) = Some (user_set t ?d u)"
    unfolding findUserById_def us
    by (rule find_upsert) (use assms(1) findUserById_SomeD [OF assms(1)] in
        \<open>simp_all add: findUserById_def user_live_def no_user_change_def\<close>)
  with assms show "findUserById i (snd (verifyBackupCode cr t i code w)) = Some (user_set t ?d u)"
    by (simp add: verifyBackupCode_def Let_def findUserById_def)
qed

section \<open>An example state\<close>

definition ex_claims :: jwt_claims where
  "ex_claims = \<lparr>jc_sub = ''u1'', jc_orgId = '''', jc_role = ''member'', jc_isPlatformAdmin = False,
     jc_mfaVerifiedAt = None, jc_auth_time = 0, jc_jti = ''j0'', jc_iat = 0, jc_exp = 900\<rparr>"

definition ex_crypto :: crypto_lib where
  "ex_crypto = \<lparr>sha256 = (\<lambda>s. CHR ''h'' # s), bcrypt_hash = (\<lambda>salt s. s), bcrypt_compare = (\<lambda>p h. p = h),
     jwt_sign = jc_jti, jwt_verify = (\<lambda>key now tok. if tok = ''tok'' then Some ex_claims else None),
     jwt_kid = (\<lambda>_. None), aes_encrypt = (\<lambda>iv s. s), aes_decrypt = Some, totp_verify = (\<lambda>now t s. t = s),
     google_verify = (\<lambda>_. None), jwtAccessTokenTtl = 900\<rparr>"

definition ex_user :: user where
  "ex_user = (new_user 0 ''u1'' \<lparr>cu_email = ''a@x.io'', cu_name = ''A'', cu_password_hash = Some ''pw'',
     cu_email_verified = Some True, cu_avatar_url = None\<rparr>)\<lparr>u_mfa_backup_codes := [''c1'', ''c2'']\<rparr>"

definition ex_rt :: refresh_token where
  "ex_rt = \<lparr>rt_id = ''r1'', rt_user_id = ''u1'', rt_org_id = None, rt_token_hash = ''hraw'',
     rt_family_id = ''f1'', rt_last_access_token_jti = Some ''j0'', rt_is_revoked = False,
     rt_revoked_at = None, rt_expires_at = 1000, rt_created_at = 0\<rparr>"

definition ex_auth :: auth_db where
  "ex_auth = \<lparr>outbox_events = [], audit_logs = [], jobs = [],
     redis = [''pwd_reset:hr'' \<mapsto> (JStr ''u1'', Some 5000000)], pubsub = [],
     entropy = (\<lambda>n. replicate n CHR ''x''), drawn = 1, users = [ex_user], organizations = [],
     org_memberships = [], workspaces = [], notification_preferences = [], subscriptions = [],
     refresh_tokens = [ex_rt], auth_providers = [], user_preferences = [], saml_used_assertions = []\<rparr>"

definition ex_keys :: key_store where
  "ex_keys = registerPublicKey DEFAULT_KID ''pem'' (\<lambda>_. None)"

lemma ex_verifyToken: "verifyToken ex_crypto ex_keys t ''tok'' = Some ex_claims"
  by (simp add: verifyToken_def getPublicKey_def ex_keys_def registerPublicKey_def ex_crypto_def)

lemma ex_email: "normalize_email ''a@x.io'' = ''a@x.io''"
  by code_simp

lemma ex_findUser: "findUserByEmail ''a@x.io'' ex_auth = Some ex_user" "findUserById ''u1'' ex_auth = Some ex_user"
  by (simp_all add: findUserByEmail_def findUserById_def ex_auth_def ex_user_def new_user_def user_live_def ex_email)

lemma ex_refresh: "\<exists>tp w1. refreshTokenPair ex_crypto 500 ''raw'' ex_auth = (Inr tp, w1)"
  by (simp add: refreshTokenPair_def rotate_token_def ex_auth_def ex_crypto_def hashToken_def findRefreshToken_def
      ex_rt_def ex_user_def new_user_def user_live_def generateAccessToken_def draw_def createRefreshToken_def
      revokeRefreshToken_def rt_revoke_def Let_def)

section \<open>The properties\<close>

text \<open>C4. Reuse of a refresh token ends its family: after a successful refresh, presenting the old
  token again is answered \<^verbatim>\<open>TOKEN_FAMILY_REVOKED\<close>, no token of the family is left unrevoked, and
  the successor handed out by the first refresh is refused from then on.\<close>

theorem refresh_reuse_revokes_family:
  assumes "refreshTokenPair cr t raw w = (Inr tp, w1)" and "0 < jwtAccessTokenTtl cr"
    and "refreshTokenPair cr t' raw w1 = (res, w2)"
  shows "res = Inl (UnauthorizedError ''TOKEN_FAMILY_REVOKED'') \<and>
    fst (refreshTokenPair cr t'' (tp_refreshToken tp) w2) = Inl (UnauthorizedError ''TOKEN_FAMILY_REVOKED'') \<and>
    (\<exists>old. findRefreshToken (hashToken cr raw) w2 = Some old \<and>
       filter (\<lambda>r. rt_family_id r = rt_family_id old \<and> \<not> rt_is_revoked r) (refresh_tokens w2) = [])"
proof -
  from assms(1,2) obtain old new where rows: "findRefreshToken (hashToken cr raw) w1 = Some old" "rt_is_revoked old"
    "findRefreshToken (hashToken cr (tp_refreshToken tp)) w1 = Some new" "rt_family_id new = rt_family_id old"
    by (rule refresh_reuse)
  have w2: "w2 = snd (refreshTokenPair cr t' raw w1)" and res: "res = fst (refreshTokenPair cr t' raw w1)"
    using assms(3) by simp_all
  note rev = refresh_revoked [OF rows(1,2) assms(2), where t = t']
  note fam = find_revoked_family [OF rows(1,2) assms(2), where t = t']
  have "fst (refreshTokenPair cr t'' (tp_refreshToken tp) w2) = Inl (UnauthorizedError ''TOKEN_FAMILY_REVOKED'')"
    unfolding w2 by (rule refresh_revoked(1) [OF fam [OF rows(3,4)] _ assms(2)]) simp
  moreover have "filter (\<lambda>r. rt_family_id r = rt_family_id old \<and> \<not> rt_is_revoked r) (refresh_tokens w2) = []"
    unfolding w2 rev(2) by (rule filter_update_where_clears) simp_all
  ultimately show ?thesis using rev(1) fam [OF rows(1) refl] by (simp add: w2 res)
qed

theorem refresh_reuse_revokes_family_witness:
  "\<exists>tp w1 w2. refreshTokenPair ex_crypto 500 ''raw'' ex_auth = (Inr tp, w1) \<and>
     refreshTokenPair ex_crypto 600 ''raw'' w1 = (Inl (UnauthorizedError ''TOKEN_FAMILY_REVOKED''), w2) \<and>
     fst (refreshTokenPair ex_crypto 700 (tp_refreshToken tp) w2) = Inl (UnauthorizedError ''TOKEN_FAMILY_REVOKED'')"
proof -
  obtain tp w1 where r: "refreshTokenPair ex_crypto 500 ''raw'' ex_auth = (Inr tp, w1)" using ex_refresh by blast
  obtain res w2 where s: "refreshTokenPair ex_crypto 600 ''raw'' w1 = (res, w2)" by fastforce
  have "0 < jwtAccessTokenTtl ex_crypto" by (simp add: ex_crypto_def)
  from refresh_reuse_revokes_family [OF r this s] r s show ?thesis by blast
qed

text \<open>The access token issued by the last refresh stays valid when reuse is detected: the
  blacklist entry of its identifier is what it was before, because the identifier that is
  blacklisted is the one stored with the presented, older row.\<close>

theorem reuse_keeps_newest_access_token:
  assumes "refreshTokenPair cr t raw w = (Inr tp, w1)" and "0 < jwtAccessTokenTtl cr"
    and "findRefreshToken (hashToken cr raw) w1 = Some old"
    and "rt_last_access_token_jti old \<noteq> Some (entropy w (drawn w))"
  shows "(\<exists>c. tp_accessToken tp = jwt_sign cr c \<and> jc_jti c = entropy w (drawn w)) \<and>
    redis_get t'' (blacklist_key (entropy w (drawn w))) (snd (refreshTokenPair cr t' raw w1)) =
    redis_get t'' (blacklist_key (entropy w (drawn w))) w"
proof -
  from assms(1) obtain row a where rot: "rotate_token cr t row a w = (Inr tp, w1)" by (rule refresh_success)
  from assms(1,2) have "rt_is_revoked old" and "redis w1 = redis w"
    by (rule refresh_reuse; use assms(3) in simp)+
  with refresh_revoked(3) [OF assms(3) _ assms(2,4)] rotate_success(2) [OF rot] show ?thesis
    by (simp add: redis_get_def)
qed

theorem reuse_keeps_newest_access_token_witness:
  "\<exists>tp w1. refreshTokenPair ex_crypto 500 ''raw'' ex_auth = (Inr tp, w1) \<and>
     redis_get 700 (blacklist_key ''x'') (snd (refreshTokenPair ex_crypto 600 ''raw'' w1)) = None"
proof -
  obtain tp w1 where r: "refreshTokenPair ex_crypto 500 ''raw'' ex_auth = (Inr tp, w1)" using ex_refresh by blast
  have old: "\<exists>old. findRefreshToken (hashToken ex_crypto ''raw'') w1 = Some old \<and>
      rt_last_access_token_jti old \<noteq> Some (entropy ex_auth (drawn ex_auth))"
    using r [symmetric] by (simp add: refreshTokenPair_def rotate_token_def ex_auth_def ex_crypto_def hashToken_def
        findRefreshToken_def ex_rt_def ex_user_def new_user_def user_live_def generateAccessToken_def draw_def
        createRefreshToken_def revokeRefreshToken_def updateRefreshTokenJti_def rt_revoke_def Let_def)
  have "0 < jwtAccessTokenTtl ex_crypto" by (simp add: ex_crypto_def)
  with old reuse_keeps_newest_access_token [OF r, of _ 700 600] r show ?thesis
    by (auto simp: ex_auth_def redis_get_def blacklist_key_def)
qed

text \<open>C10. Lockout: when as many wrong passwords as the threshold still allows have been tried, at any
  instants, the account is locked for thirty minutes after the last one, for the right password too.\<close>

theorem login_lockout:
  assumes "findUserByEmail e w = Some u" and "u_email_verified u" and "u_locked_until u = None"
    and "\<not> password_valid cr p u"
    and "u_failed_login_attempts u + int (length ts) + 1 = lockout_threshold g w"
    and "t' < t + 30 * 60 * 1000"
  shows "login cr t' e p' g' (login_attempts cr e p g (ts @ [t]) w) =
    (Inl (ForbiddenError ''ACCOUNT_LOCKED''), login_attempts cr e p g (ts @ [t]) w)"
proof -
  let ?w = "login_attempts cr e p g ts w"
  have lt: "u_failed_login_attempts u + int (length ts) < lockout_threshold g w" using assms(5) by simp
  note wl = wrong_logins [OF assms(1-4) lt]
  from wl(1) obtain u1 where u1: "findUserByEmail e ?w = Some u1" "u_email_verified u1"
    "u_password_hash u1 = u_password_hash u" "u_locked_until u1 = None"
    "u_failed_login_attempts u1 = u_failed_login_attempts u + int (length ts)" by auto
  have thr: "lockout_threshold g ?w = lockout_threshold g w" using wl(2) by (rule lockout_threshold_cong)
  have "\<not> password_valid cr p u1" "\<not> locked_at t u1"
    using assms(4) u1(3,4) by (simp_all add: password_valid_def locked_at_def)
  from login_wrong_step(1) [OF u1(1,2) this(2,1), of g] u1(5) thr assms(5)
  obtain u2 where "findUserByEmail e (snd (login cr t e p g ?w)) = Some u2" "u_email_verified u2"
    "u_locked_until u2 = Some (t + LOCK_DURATION_MS)" by auto
  with assms(6) show ?thesis by (simp add: login_attempts_def login_def LOCK_DURATION_MS_def)
qed

theorem login_lockout_witness:
  "fst (login ex_crypto 1000 ''a@x.io'' ''pw'' None
     (login_attempts ex_crypto ''a@x.io'' ''no'' None ([1, 2, 3, 4] @ [5]) ex_auth)) =
   Inl (ForbiddenError ''ACCOUNT_LOCKED'')"
proof -
  have "u_email_verified ex_user" "u_locked_until ex_user = None" "\<not> password_valid ex_crypto ''no'' ex_user"
    "u_failed_login_attempts ex_user + int (length [1, 2, 3, 4 :: int]) + 1 = lockout_threshold None ex_auth"
    by (simp_all add: ex_user_def new_user_def password_valid_def ex_crypto_def lockout_threshold_def
        DEFAULT_LOCKOUT_ATTEMPTS_def)
  from login_lockout [OF ex_findUser(1) this, of 1000 5] show ?thesis by simp
qed

text \<open>C9. A password reset ends every session: it stores the hash of the new password, leaves no
  unrevoked refresh token of the user, and every access token issued in an earlier second is refused
  by the middleware, whether Redis answers or not; the reset token is spent.\<close>

theorem password_reset_ends_sessions:
  assumes "redis_string t (pwd_reset_key (hashToken cr tok)) w = Some i"
    and "distinct (map u_id (users w))" and "findUserById i w = Some u"
    and "verifyToken cr ks t2 access = Some p" and "jc_sub p = i" and "jc_iat p < t div 1000"
    and "w' = snd (confirmPasswordReset cr t tok pw w)"
  shows "fst (confirmPasswordReset cr t tok pw w) = Inr () \<and>
    filter (\<lambda>r. rt_user_id r = i \<and> \<not> rt_is_revoked r) (refresh_tokens w') = [] \<and>
    (\<exists>x. List.find (\<lambda>x. u_id x = i) (users w') = Some x \<and>
         u_password_hash x = Some (bcrypt_hash cr (entropy w (drawn w)) pw)) \<and>
    (\<exists>e. fst (authenticate cr ks up t2 (Some (''Bearer '' @ access)) w') = Inl e) \<and>
    confirmPasswordReset cr t3 tok pw' w' = (Inl (UnauthorizedError ''INVALID_OR_EXPIRED_TOKEN''), w')"
proof -
  note ef = confirmPasswordReset_effect [OF assms(1), of pw]
  let ?d = "no_user_change\<lparr>uu_password_hash := Some (Some (bcrypt_hash cr (entropy w (drawn w)) pw)),
              uu_password_changed_at := Some (Some t)\<rparr>"
  have "\<exists>x. List.find (\<lambda>x. u_id x = i) (users (snd (updateUser t i ?d w))) = Some x \<and>
      u_password_changed_at x = Some t \<and> u_password_hash x = patched (u_password_hash u) (uu_password_hash ?d)"
    by (rule find_user_password_changed [OF assms(2,3)]) (simp_all add: no_user_change_def)
  then obtain x where x: "List.find (\<lambda>x. u_id x = i) (users w') = Some x" "u_password_changed_at x = Some t"
    "u_password_hash x = Some (bcrypt_hash cr (entropy w (drawn w)) pw)"
    by (auto simp: assms(7) ef(2))
  have "fst (resolveUser up t2 (jc_sub p) w') = Inr \<lparr>cq_id = u_id x, cq_status = u_status x, cq_password_changed_at = Some t\<rparr>"
    using resolveUser_uncached [OF _ x(1)] x(2) ef(4) assms(5,7) by simp
  from authenticate_stale_session [OF assms(4) this _ assms(6)]
  have au: "\<exists>e. fst (authenticate cr ks up t2 (Some (''Bearer '' @ access)) w') = Inl e" by simp
  have rt: "filter (\<lambda>r. rt_user_id r = i \<and> \<not> rt_is_revoked r) (refresh_tokens w') = []"
    unfolding assms(7) ef(3) by (rule filter_update_where_clears) simp_all
  have "redis w' (pwd_reset_key (hashToken cr tok)) = None"
    using assms(1) by (simp add: assms(7) confirmPasswordReset_def Let_def split: prod.splits)
  then have "confirmPasswordReset cr t3 tok pw' w' = (Inl (UnauthorizedError ''INVALID_OR_EXPIRED_TOKEN''), w')"
    by (simp add: confirmPasswordReset_def redis_string_None)
  with x au rt ef(1) show ?thesis by blast
qed

theorem password_reset_ends_sessions_witness:
  "\<exists>e. fst (authenticate ex_crypto ex_keys True 4000000 (Some (''Bearer '' @ ''tok''))
     (snd (confirmPasswordReset ex_crypto 3000 ''r'' ''new'' ex_auth))) = Inl e"
proof -
  have k: "redis_string 3000 (pwd_reset_key (hashToken ex_crypto ''r'')) ex_auth = Some ''u1''"
    by (simp add: redis_string_def redis_get_def pwd_reset_key_def hashToken_def ex_crypto_def ex_auth_def live_at_def)
  have d: "distinct (map u_id (users ex_auth))" "jc_sub ex_claims = ''u1''" "jc_iat ex_claims < 3000 div 1000"
    by (simp_all add: ex_auth_def ex_claims_def)
  from password_reset_ends_sessions [OF k d(1) ex_findUser(2) ex_verifyToken d(2,3) refl] show ?thesis by blast
qed



text \<open>C16. Verification, reset and magic-link tokens work once: of any sequence of attempts with one
  token, whatever the instants, at most one succeeds.\<close>

theorem one_time_tokens:
  "one_time_token.successes (verifyEmail cr) ts tok w \<le> 1 \<and>
   one_time_token.successes (\<lambda>t tok w. confirmPasswordReset cr t tok pw w) ts tok w \<le> 1 \<and>
   one_time_token.successes (verifyLink cr) ts tok w \<le> 1"
  using email_token.at_most_one_success [of cr ts tok w] reset_token.at_most_one_success [of cr pw ts tok w]
    magic_token.at_most_one_success [of cr ts tok w]
  by (simp add: reset_with_def [abs_def])

text \<open>A backup code is consumed: a success removes one stored hash, the first one that matches;
  when no other stored hash matches the code, it is refused the second time.\<close>

theorem backup_code_consumed:
  assumes "findUserById i w = Some u" and "verifyBackupCode cr t i code w = (True, w')"
    and "length (filter (bcrypt_compare cr code) (u_mfa_backup_codes u)) = 1"
  shows "(\<exists>u'. findUserById i w' = Some u' \<and>
            Suc (length (u_mfa_backup_codes u')) = length (u_mfa_backup_codes u) \<and>
            filter (\<lambda>h. \<not> bcrypt_compare cr code h) (u_mfa_backup_codes u') =
              filter (\<lambda>h. \<not> bcrypt_compare cr code h) (u_mfa_backup_codes u)) \<and>
         verifyBackupCode cr t' i code w' = (False, w')"
proof -
  let ?cs = "u_mfa_backup_codes u" and ?P = "bcrypt_compare cr code"
  from assms(1,2) obtain k where k: "match_index cr code ?cs = Some k"
    by (auto simp: verifyBackupCode_def split: option.splits)
  let ?rest = "take k ?cs @ drop (Suc k) ?cs"
  from match_index_Some [OF k] have kl: "k < length ?cs" and kp: "?P (?cs ! k)" by auto
  have cs: "?cs = take k ?cs @ ?cs ! k # drop (Suc k) ?cs" using kl by (rule id_take_nth_drop)
  have f1: "filter ?P ?cs = filter ?P (take k ?cs) @ ?cs ! k # filter ?P (drop (Suc k) ?cs)"
    by (subst cs) (simp add: kp)
  have "filter ?P ?rest = []" using assms(3) by (simp add: f1)
  moreover have "filter (\<lambda>h. \<not> ?P h) ?rest = filter (\<lambda>h. \<not> ?P h) ?cs"
    by (subst (3) cs) (simp add: kp)
  moreover have "Suc (length ?rest) = length ?cs" using kl by simp
  moreover have "findUserById i w' = Some (user_set t (no_user_change\<lparr>uu_mfa_backup_codes := Some ?rest\<rparr>) u)"
    using verifyBackupCode_users(2) [OF assms(1) k, of t] assms(2) by simp
  ultimately show ?thesis
    by (simp add: verifyBackupCode_def match_index_None [THEN iffD2])
qed

theorem backup_code_consumed_witness:
  "\<exists>w'. verifyBackupCode ex_crypto 10 ''u1'' ''c2'' ex_auth = (True, w') \<and>
     verifyBackupCode ex_crypto 20 ''u1'' ''c2'' w' = (False, w')"
proof -
  have m: "match_index ex_crypto ''c2'' (u_mfa_backup_codes ex_user) = Some 1"
    "length (filter (bcrypt_compare ex_crypto ''c2'') (u_mfa_backup_codes ex_user)) = 1"
    by (simp_all add: ex_crypto_def ex_user_def)
  obtain w' where "verifyBackupCode ex_crypto 10 ''u1'' ''c2'' ex_auth = (True, w')"
    using verifyBackupCode_users(1) [OF ex_findUser(2) m(1), of 10] by (metis prod.collapse)
  with backup_code_consumed [OF ex_findUser(2) this m(2)] show ?thesis by blast
qed

text \<open>The event that a password reset request leaves for the mailer carries the hash of the token and
  not the token; the hash is not accepted as a token (hashing it again gives another key), so the
  value the user can be sent does not reset the password.\<close>

theorem reset_event_carries_hash_only:
  assumes "findUserByEmail e w = Some u" and "h = hashToken cr (entropy w (drawn w))"
    and "hashToken cr h \<noteq> h" and "redis w (pwd_reset_key (hashToken cr h)) = None"
    and "w' = requestPasswordReset cr t e w"
  shows "(\<exists>ev. outbox_events w' = outbox_events w @ [ev] \<and> json_field ''tokenHash'' (oe_payload ev) = Some (JStr h) \<and>
      oe_payload ev = JObj [(''userId'', JStr (u_id u)), (''email'', JStr (normalize_email e)),
                            (''tokenHash'', JStr h), (''expiresAt'', JNum (t + 3600000))]) \<and>
    confirmPasswordReset cr t' h pw w' = (Inl (UnauthorizedError ''INVALID_OR_EXPIRED_TOKEN''), w')"
proof -
  have "redis w' (pwd_reset_key (hashToken cr h)) = None"
    using assms by (simp add: requestPasswordReset_def generate_one_time_token_def writeAuthEvent_def
        redis_setex_def draw_def pwd_reset_key_def Let_def)
  then have "confirmPasswordReset cr t' h pw w' = (Inl (UnauthorizedError ''INVALID_OR_EXPIRED_TOKEN''), w')"
    by (simp add: confirmPasswordReset_def redis_string_None)
  with assms(1,2,5) show ?thesis
    by (simp add: requestPasswordReset_def generate_one_time_token_def writeAuthEvent_def insert_outbox_def
        redis_setex_def draw_def json_field_def Let_def)
qed

theorem reset_event_carries_hash_only_witness:
  "fst (confirmPasswordReset ex_crypto 20 ''hx'' ''new'' (requestPasswordReset ex_crypto 10 ''a@x.io'' ex_auth)) =
     Inl (UnauthorizedError ''INVALID_OR_EXPIRED_TOKEN'')"
proof -
  have "''hx'' = hashToken ex_crypto (entropy ex_auth (drawn ex_auth))" "hashToken ex_crypto ''hx'' \<noteq> ''hx''"
    "redis ex_auth (pwd_reset_key (hashToken ex_crypto ''hx'')) = None"
    by (simp_all add: hashToken_def ex_crypto_def ex_auth_def pwd_reset_key_def)
  from reset_event_carries_hash_only [OF ex_findUser(1) this refl] show ?thesis by simp
qed

end
