(* ===== verification/Org_Access.thy ===== *)
theory Org_Access
  imports Organization Auth_Properties
begin

text \<open>
  Who may do what in an organization: the middlewares of \<^verbatim>\<open>src/shared/auth-middleware\<close> that
  follow authentication (membership with its 30 s cache, status of the organization, role), the
  handlers of \<^verbatim>\<open>organization.router.ts\<close> that change state, and \<^verbatim>\<open>src/modules/platform-admin\<close>.
\<close>

section \<open>Organization context\<close>

record org_context =
  oc_orgId :: uuid
  oc_orgStatus :: string
  oc_memberRole :: string

definition SESSION_CACHE_TTL :: int where
  "SESSION_CACHE_TTL = 30"

definition session_key :: "uuid \<Rightarrow> uuid \<Rightarrow> string" where
  "session_key userId orgId = ''session:'' @ userId @ '':'' @ orgId"

definition org_context_json :: "org_context \<Rightarrow> json" where
  "org_context_json c = JObj [(''orgId'', JStr (oc_orgId c)), (''orgStatus'', JStr (oc_orgStatus c)),
                              (''memberRole'', JStr (oc_memberRole c))]"

definition parse_org_context :: "json \<Rightarrow> org_context" where
  "parse_org_context j = \<lparr>oc_orgId = json_string (json_field ''orgId'' j),
     oc_orgStatus = json_string (json_field ''orgStatus'' j), oc_memberRole = json_string (json_field ''memberRole'' j)\<rparr>"

text \<open>The query over memberships and organizations: the first active membership with the status of
  its organization.\<close>

definition member_and_status :: "uuid \<Rightarrow> uuid \<Rightarrow> 'a dir_scheme \<Rightarrow> (role \<times> org_status) option" where
  "member_and_status userId orgId w =
     (case List.find (\<lambda>m. m_org_id m = orgId \<and> m_user_id m = userId \<and> m_status m = MActive \<and> m_deleted_at m = None)
             (org_memberships w) of
        None \<Rightarrow> None
      | Some m \<Rightarrow> map_option (\<lambda>r. (m_role m, o_status r)) (List.find (\<lambda>r. o_id r = orgId) (organizations w)))"

definition resolveOrgContext ::
    "bool \<Rightarrow> timestamp \<Rightarrow> uuid \<Rightarrow> uuid \<Rightarrow> 'a dir_scheme \<Rightarrow> org_context outcome \<times> 'a dir_scheme" where
  "resolveOrgContext redis_up now userId orgId w =
     (case (if redis_up then redis_get now (session_key userId orgId) w else None) of
        Some j \<Rightarrow> (Inr (parse_org_context j), w)
      | None \<Rightarrow>
          (case member_and_status userId orgId w of
             None \<Rightarrow>
               (case List.find (\<lambda>r. o_id r = orgId) (organizations w) of
                  None \<Rightarrow> (Inl (ForbiddenError ''ORG_DELETED''), w)
                | Some r \<Rightarrow> if o_status r = OrgDeleted then (Inl (ForbiddenError ''ORG_DELETED''), w)
                           else (Inl (ForbiddenError ''NOT_ORG_MEMBER''), w))
           | Some (role, st) \<Rightarrow>
               if st = OrgDeleted then (Inl (ForbiddenError ''ORG_DELETED''), w)
               else let c = \<lparr>oc_orgId = orgId, oc_orgStatus = org_status_name st, oc_memberRole = role_name role\<rparr>
                    in (Inr c, if redis_up
                               then redis_setex now (session_key userId orgId) (org_context_json c) SESSION_CACHE_TTL w
                               else w)))"

definition orgContextMiddleware ::
    "bool \<Rightarrow> timestamp \<Rightarrow> req_user option \<Rightarrow> string option \<Rightarrow> 'a dir_scheme \<Rightarrow> org_context outcome \<times> 'a dir_scheme" where
  "orgContextMiddleware redis_up now user header w =
     (case user of
        None \<Rightarrow> (Inl (UnauthorizedError ''MISSING_TOKEN''), w)
      | Some u \<Rightarrow>
          if \<not> truthy header then (Inl (UnauthorizedError ''MISSING_ORG_ID''), w)
          else let orgId = case_option '''' id header
               in if \<not> ru_isPlatformAdmin u \<and> ru_orgId u \<noteq> orgId then (Inl (ForbiddenError ''ORG_MISMATCH''), w)
                  else resolveOrgContext redis_up now (ru_userId u) orgId w)"

section \<open>Status of the organization and role\<close>

definition WRITE_METHODS :: "string list" where
  "WRITE_METHODS = [''POST'', ''PUT'', ''PATCH'', ''DELETE'']"

definition SUSPENDED_BYPASS_PREFIXES :: "string list" where
  "SUSPENDED_BYPASS_PREFIXES = [''/api/v1/auth'']"

definition startsWith :: "string \<Rightarrow> string \<Rightarrow> bool" where
  "startsWith s p = (take (length p) s = p)"

definition isSuspendedBypass :: "string \<Rightarrow> string \<Rightarrow> bool" where
  "isSuspendedBypass meth path =
     (meth \<notin> set WRITE_METHODS \<or> list_ex (startsWith path) SUSPENDED_BYPASS_PREFIXES)"

definition orgStatusMiddleware :: "string \<Rightarrow> string \<Rightarrow> org_context option \<Rightarrow> unit outcome" where
  "orgStatusMiddleware meth path ctx =
     (case ctx of
        None \<Rightarrow> Inr ()
      | Some c \<Rightarrow>
          if oc_orgStatus c = ''deleted'' then Inl (ForbiddenError ''ORG_DELETED'')
          else if oc_orgStatus c = ''offboarding'' then
            (if meth \<in> set WRITE_METHODS then Inl (ForbiddenError ''ORG_OFFBOARDING'') else Inr ())
          else if oc_orgStatus c = ''suspended'' then
            (if \<not> isSuspendedBypass meth path then Inl (ForbiddenError ''ORG_SUSPENDED'') else Inr ())
          else Inr ())"

definition requireRole :: "string list \<Rightarrow> org_context option \<Rightarrow> unit outcome" where
  "requireRole roles ctx =
     (case ctx of
        None \<Rightarrow> Inl (AppError 403 ''INSUFFICIENT_ROLE'' roles)
      | Some c \<Rightarrow> if oc_memberRole c = '''' \<or> oc_memberRole c \<notin> set roles
                  then Inl (AppError 403 ''INSUFFICIENT_ROLE'' roles) else Inr ())"

section \<open>Requests\<close>

record request =
  rq_method :: string
  rq_path :: string
  rq_authorization :: "string option"
  rq_org_id :: "string option"

text \<open>\<^verbatim>\<open>orgMiddleware\<close>: authentication, context, status.\<close>

definition orgMiddleware ::
    "crypto_lib \<Rightarrow> key_store \<Rightarrow> bool \<Rightarrow> timestamp \<Rightarrow> request \<Rightarrow> 'a dir_scheme
     \<Rightarrow> (req_user \<times> org_context) outcome \<times> 'a dir_scheme" where
  "orgMiddleware cr ks redis_up now rq w =
     and_then (authenticate cr ks redis_up now (rq_authorization rq) w)
       (\<lambda>u w1. and_then (orgContextMiddleware redis_up now (Some u) (rq_org_id rq) w1)
          (\<lambda>c w2. case orgStatusMiddleware (rq_method rq) (rq_path rq) (Some c) of
                    Inl e \<Rightarrow> (Inl e, w2)
                  | Inr _ \<Rightarrow> (Inr (u, c), w2)))"

definition admin_or_owner :: "org_context \<Rightarrow> bool" where
  "admin_or_owner c = (oc_memberRole c = ''org_owner'' \<or> oc_memberRole c = ''org_admin'')"

text \<open>The handlers behind \<^verbatim>\<open>orgMiddleware\<close>.\<close>

definition update_org_handler ::
    "timestamp \<Rightarrow> org_context \<Rightarrow> update_org_data \<Rightarrow> int \<Rightarrow> 'a dir_scheme \<Rightarrow> org outcome \<times> 'a dir_scheme" where
  "update_org_handler now c d version w =
     (if \<not> admin_or_owner c then (Inl (ForbiddenError ''INSUFFICIENT_ROLE''), w)
      else updateOrg now (oc_orgId c) d version w)"

definition suspend_org_handler ::
    "timestamp \<Rightarrow> req_user \<Rightarrow> org_context \<Rightarrow> string \<Rightarrow> 'a dir_scheme \<Rightarrow> unit outcome \<times> 'a dir_scheme" where
  "suspend_org_handler now u c reason w =
     (if \<not> ru_isPlatformAdmin u \<and> oc_memberRole c \<noteq> ''org_owner'' then (Inl (ForbiddenError ''INSUFFICIENT_ROLE''), w)
      else suspendOrg now (oc_orgId c) reason (Some (ru_userId u)) w)"

definition reactivate_org_handler ::
    "timestamp \<Rightarrow> req_user \<Rightarrow> org_context \<Rightarrow> 'a dir_scheme \<Rightarrow> unit outcome \<times> 'a dir_scheme" where
  "reactivate_org_handler now u c w =
     (if \<not> ru_isPlatformAdmin u \<and> oc_memberRole c \<noteq> ''org_owner'' then (Inl (ForbiddenError ''INSUFFICIENT_ROLE''), w)
      else reactivateOrg now (oc_orgId c) (Some (ru_userId u)) w)"

text \<open>The body schema allows every role but the owner's.\<close>

definition update_role_handler ::
    "timestamp \<Rightarrow> org_context \<Rightarrow> uuid \<Rightarrow> role \<Rightarrow> 'a dir_scheme \<Rightarrow> membership outcome \<times> 'a dir_scheme" where
  "update_role_handler now c userId r w =
     (if r = OrgOwner then (Inl ValidationError, w)
      else if \<not> admin_or_owner c then (Inl (ForbiddenError ''INSUFFICIENT_ROLE''), w)
      else case updateRole now (oc_orgId c) userId r w of
             (None, w1) \<Rightarrow> (Inl (NotFoundError ''Membership''), w1)
           | (Some m, w1) \<Rightarrow> (Inr m, w1))"

definition remove_member_handler ::
    "timestamp \<Rightarrow> org_context \<Rightarrow> uuid \<Rightarrow> 'a dir_scheme \<Rightarrow> unit outcome \<times> 'a dir_scheme" where
  "remove_member_handler now c userId w =
     (if \<not> admin_or_owner c then (Inl (ForbiddenError ''INSUFFICIENT_ROLE''), w)
      else (Inr (), removeMembership now (oc_orgId c) userId w))"

definition orgs_mine :: "uuid \<Rightarrow> 'a dir_scheme \<Rightarrow> org list" where
  "orgs_mine userId w =
     sort_key o_created_at
       (concat (map (\<lambda>r. map (\<lambda>_. r) (filter (\<lambda>m. m_org_id m = o_id r \<and> m_user_id m = userId \<and>
                                               m_status m = MActive \<and> m_deleted_at m = None) (org_memberships w)))
               (filter (\<lambda>r. o_deleted_at r = None \<and> o_status r = OrgActive) (organizations w))))"

definition reactivate_route ::
    "crypto_lib \<Rightarrow> key_store \<Rightarrow> bool \<Rightarrow> timestamp \<Rightarrow> request \<Rightarrow> 'a dir_scheme \<Rightarrow> unit outcome \<times> 'a dir_scheme" where
  "reactivate_route cr ks redis_up now rq w =
     and_then (orgMiddleware cr ks redis_up now rq w) (\<lambda>(u, c) w1. reactivate_org_handler now u c w1)"

section \<open>Platform administration\<close>

text \<open>\<open>ip_match ip range prefix\<close> is the comparison of the package \<^verbatim>\<open>ipaddr.js\<close>; \<open>None\<close> when it throws.\<close>

definition ipInCidr :: "(string \<Rightarrow> string \<Rightarrow> string \<Rightarrow> bool option) \<Rightarrow> string \<Rightarrow> string \<Rightarrow> bool" where
  "ipInCidr ip_match ip cidr =
     (case split_on (CHR ''/'') cidr of
        rng # prefix # _ \<Rightarrow> case_option False id (ip_match ip rng prefix)
      | _ \<Rightarrow> False)"

definition platformAdminMiddleware ::
    "(string \<Rightarrow> string \<Rightarrow> string \<Rightarrow> bool option) \<Rightarrow> string option \<Rightarrow> timestamp \<Rightarrow> string option \<Rightarrow> req_user option
     \<Rightarrow> unit outcome" where
  "platformAdminMiddleware ip_match allowlist now ip user =
     (case user of
        None \<Rightarrow> Inl (ForbiddenError ''UNAUTHENTICATED'')
      | Some u \<Rightarrow>
          if \<not> ru_isPlatformAdmin u then Inl (ForbiddenError ''PLATFORM_ADMIN_REQUIRED'')
          else if truthy allowlist \<and>
             \<not> list_ex (\<lambda>cidr. if CHR ''/'' \<in> set cidr then ipInCidr ip_match (case_option '''' id ip) cidr
                               else case_option '''' id ip = cidr)
                 (map trim (split_on (CHR '','') (case_option '''' id allowlist)))
          then Inl (ForbiddenError ''IP_NOT_ALLOWED'')
          else (case ru_mfaVerifiedAt u of
                  None \<Rightarrow> Inl (ForbiddenError ''MFA_REQUIRED'')
                | Some m \<Rightarrow>
                    if m = 0 then Inl (ForbiddenError ''MFA_REQUIRED'')
                    else if 3600 < now div 1000 - m then Inl (ForbiddenError ''MFA_SESSION_EXPIRED'')
                    else Inr ()))"

definition listOrganizations :: "nat \<Rightarrow> nat \<Rightarrow> 'a dir_scheme \<Rightarrow> org list" where
  "listOrganizations n m w =
     limit_offset n m (rev (sort_key o_created_at (filter (\<lambda>r. o_deleted_at r = None) (organizations w))))"

definition adminAudit ::
    "timestamp \<Rightarrow> uuid option \<Rightarrow> uuid \<Rightarrow> string \<Rightarrow> string \<Rightarrow> string \<Rightarrow> json \<Rightarrow> 'a base_scheme \<Rightarrow> 'a base_scheme" where
  "adminAudit now orgId actorId ev etype eid payload w =
     persistAuditLog now orgId (Some actorId) ActorPlatformAdmin ev (Some etype) (Some eid) payload w"

definition admin_suspendOrg ::
    "timestamp \<Rightarrow> uuid \<Rightarrow> string \<Rightarrow> uuid \<Rightarrow> 'a dir_scheme \<Rightarrow> unit outcome \<times> 'a dir_scheme" where
  "admin_suspendOrg now orgId reason actorId w =
     suspendOrg now orgId reason (Some actorId)
       (adminAudit now (Some orgId) actorId ''admin.org.suspended'' ''org'' orgId (JObj [(''reason'', JStr reason)]) w)"

definition admin_reactivateOrg :: "timestamp \<Rightarrow> uuid \<Rightarrow> uuid \<Rightarrow> 'a dir_scheme \<Rightarrow> unit outcome \<times> 'a dir_scheme" where
  "admin_reactivateOrg now orgId actorId w =
     reactivateOrg now orgId (Some actorId)
       (adminAudit now (Some orgId) actorId ''admin.org.reactivated'' ''org'' orgId (JObj []) w)"

definition admin_offboardOrg :: "timestamp \<Rightarrow> uuid \<Rightarrow> uuid \<Rightarrow> 'a dir_scheme \<Rightarrow> unit outcome \<times> 'a dir_scheme" where
  "admin_offboardOrg now orgId actorId w =
     startOffboarding now orgId (Some actorId)
       (adminAudit now (Some orgId) actorId ''admin.org.offboard_initiated'' ''org'' orgId (JObj []) w)"

definition unlockUser :: "timestamp \<Rightarrow> uuid \<Rightarrow> uuid \<Rightarrow> 'a dir_scheme \<Rightarrow> 'a dir_scheme" where
  "unlockUser now userId actorId w =
     resetFailedLoginAttempts now userId
       (adminAudit now None actorId ''admin.user.unlocked'' ''user'' userId (JObj []) w)"

definition resetUserMfa :: "timestamp \<Rightarrow> uuid \<Rightarrow> uuid \<Rightarrow> 'a dir_scheme \<Rightarrow> 'a dir_scheme" where
  "resetUserMfa now userId actorId w =
     (let w1 = adminAudit now None actorId ''admin.user.mfa_reset'' ''user'' userId (JObj []) w
      in w1\<lparr>users := update_where (\<lambda>u. u_id u = userId)
            (\<lambda>u. u\<lparr>u_totp_enabled := False, u_mfa_backup_codes := [], u_totp_secret := None, u_updated_at := now\<rparr>)
            (users w1)\<rparr>)"

definition triggerPaymentRecovery :: "timestamp \<Rightarrow> uuid \<Rightarrow> uuid \<Rightarrow> 'a base_scheme \<Rightarrow> 'a base_scheme" where
  "triggerPaymentRecovery now orgId actorId w =
     enqueue ''payments'' ''handle-payment-failure'' (JObj [(''orgId'', JStr orgId)]) 0
       (adminAudit now (Some orgId) actorId ''admin.payment.recovery_triggered'' ''org'' orgId (JObj []) w)"

definition replayOutboxEvent :: "timestamp \<Rightarrow> uuid \<Rightarrow> uuid \<Rightarrow> 'a base_scheme \<Rightarrow> 'a base_scheme" where
  "replayOutboxEvent now eventId actorId w =
     (let w1 = adminAudit now None actorId ''admin.outbox.event_replayed'' ''outbox_event'' eventId (JObj []) w
      in w1\<lparr>outbox_events := update_where (\<lambda>e. oe_id e = eventId)
            (\<lambda>e. e\<lparr>oe_status := OPending, oe_published_at := None\<rparr>) (outbox_events w1)\<rparr>)"

definition triggerSearchReindex :: "timestamp \<Rightarrow> uuid \<Rightarrow> uuid \<Rightarrow> 'a base_scheme \<Rightarrow> 'a base_scheme" where
  "triggerSearchReindex now orgId actorId w =
     enqueue ''search'' ''index-entity''
       (JObj [(''action'', JStr ''reindex''), (''orgId'', JStr orgId), (''entityType'', JStr ''org'')]) 0
       (adminAudit now (Some orgId) actorId ''admin.search.reindex_triggered'' ''org'' orgId (JObj []) w)"

definition rotateJwtKeys ::
    "timestamp \<Rightarrow> string \<Rightarrow> string \<Rightarrow> uuid \<Rightarrow> key_store \<Rightarrow> 'a base_scheme \<Rightarrow> key_store \<times> 'a base_scheme" where
  "rotateJwtKeys now newPublicKey newKid actorId ks w =
     (registerPublicKey newKid newPublicKey ks,
      adminAudit now None actorId ''admin.jwt.key_rotated'' ''system'' newKid (JObj [(''kid'', JStr newKid)]) w)"

section \<open>Facts\<close>

text \<open>Authentication writes at most the cache entry of the user.\<close>

lemma resolveUser_frame:
  "resolveUser up t i w = (res, w') \<Longrightarrow>
     org_memberships w' = org_memberships w \<and> organizations w' = organizations w \<and>
     redis w' (session_key u g) = redis w (session_key u g)"
  by (auto simp: resolveUser_def Let_def redis_setex_def user_cache_key_def session_key_def split: option.splits if_splits)

lemma authenticate_frame:
  "authenticate cr ks up t h w = (res, w') \<Longrightarrow>
     org_memberships w' = org_memberships w \<and> organizations w' = organizations w \<and>
     redis w' (session_key u g) = redis w (session_key u g)"
  by (auto simp: authenticate_def dest: resolveUser_frame split: option.splits if_splits prod.splits sum.splits)

lemma member_and_status_cong:
  "org_memberships w' = org_memberships w \<Longrightarrow> organizations w' = organizations w \<Longrightarrow>
   member_and_status u g w' = member_and_status u g w"
  by (simp add: member_and_status_def split: option.split)

lemma member_and_status_SomeD:
  "member_and_status u g w = Some (r, st) \<Longrightarrow>
     (\<exists>m \<in> set (org_memberships w). m_org_id m = g \<and> m_user_id m = u \<and> m_status m = MActive \<and>
        m_deleted_at m = None \<and> m_role m = r) \<and>
     (\<exists>x. List.find (\<lambda>r. o_id r = g) (organizations w) = Some x \<and> o_status x = st)"
  unfolding member_and_status_def
  by (cases "List.find (\<lambda>r. o_id r = g) (organizations w)") (auto split: option.splits dest!: find_SomeD)

lemma resolve_uncached:
  assumes "resolveOrgContext up t u g w = (Inr c, w')" and "redis w (session_key u g) = None"
  obtains r st where "member_and_status u g w = Some (r, st)" "st \<noteq> OrgDeleted"
    "c = \<lparr>oc_orgId = g, oc_orgStatus = org_status_name st, oc_memberRole = role_name r\<rparr>"
    "organizations w' = organizations w" "org_memberships w' = org_memberships w"
  using assms
  by (auto simp: resolveOrgContext_def redis_get_def Let_def split: option.splits if_splits prod.splits)

lemma orgContext_Inr:
  "orgContextMiddleware up t (Some u) h w = (Inr c, w') \<Longrightarrow>
     \<exists>g. h = Some g \<and> g \<noteq> '''' \<and> (ru_isPlatformAdmin u \<or> ru_orgId u = g) \<and>
        resolveOrgContext up t (ru_userId u) g w = (Inr c, w')"
  by (cases h) (auto simp: orgContextMiddleware_def Let_def split: if_splits)

lemma orgContext_state:
  "orgContextMiddleware up t (Some u) h w = (res, w') \<Longrightarrow> organizations w' = organizations w"
  by (auto simp: orgContextMiddleware_def resolveOrgContext_def Let_def split: if_splits option.splits prod.splits)

lemma orgMiddleware_Inr:
  assumes "orgMiddleware cr ks up t rq w = (Inr (u, c), w')"
  obtains w1 where "authenticate cr ks up t (rq_authorization rq) w = (Inr u, w1)"
    "orgContextMiddleware up t (Some u) (rq_org_id rq) w1 = (Inr c, w')"
    "orgStatusMiddleware (rq_method rq) (rq_path rq) (Some c) = Inr ()"
proof -
  from assms obtain v w1 where a: "authenticate cr ks up t (rq_authorization rq) w = (Inr v, w1)"
    and k: "and_then (orgContextMiddleware up t (Some v) (rq_org_id rq) w1)
          (\<lambda>c w2. case orgStatusMiddleware (rq_method rq) (rq_path rq) (Some c) of
                    Inl e \<Rightarrow> (Inl e, w2) | Inr _ \<Rightarrow> (Inr (v, c), w2)) = (Inr (u, c), w')"
    by (auto simp: orgMiddleware_def and_then_Inr)
  from k obtain d w2 where x: "orgContextMiddleware up t (Some v) (rq_org_id rq) w1 = (Inr d, w2)"
    and s: "(case orgStatusMiddleware (rq_method rq) (rq_path rq) (Some d) of
               Inl e \<Rightarrow> (Inl e, w2) | Inr _ \<Rightarrow> (Inr (v, d), w2)) = (Inr (u, c), w')"
    by (auto simp: and_then_Inr)
  from s have "orgStatusMiddleware (rq_method rq) (rq_path rq) (Some d) = Inr ()" "v = u" "d = c" "w2 = w'"
    by (cases "orgStatusMiddleware (rq_method rq) (rq_path rq) (Some d)"; simp)+
  with that a x show thesis by metis
qed

lemma orgMiddleware_state:
  "orgMiddleware cr ks up t rq w = (res, w') \<Longrightarrow> organizations w' = organizations w"
  by (auto simp: orgMiddleware_def and_then_def split: prod.splits sum.splits
      dest!: authenticate_frame orgContext_state)

text \<open>A request that passes, when no session is cached, comes from an active member.\<close>

lemma orgMiddleware_uncached:
  assumes "orgMiddleware cr ks up t rq w = (Inr (u, c), w')" and "\<And>i g. redis w (session_key i g) = None"
  obtains g r st where "rq_org_id rq = Some g" "ru_isPlatformAdmin u \<or> ru_orgId u = g"
    "member_and_status (ru_userId u) g w = Some (r, st)" "st \<noteq> OrgDeleted"
    "c = \<lparr>oc_orgId = g, oc_orgStatus = org_status_name st, oc_memberRole = role_name r\<rparr>"
    "orgStatusMiddleware (rq_method rq) (rq_path rq) (Some c) = Inr ()"
proof -
  from assms(1) obtain w1 where a: "authenticate cr ks up t (rq_authorization rq) w = (Inr u, w1)"
    and x: "orgContextMiddleware up t (Some u) (rq_org_id rq) w1 = (Inr c, w')"
    and s: "orgStatusMiddleware (rq_method rq) (rq_path rq) (Some c) = Inr ()" by (rule orgMiddleware_Inr)
  from orgContext_Inr [OF x] obtain g where g: "rq_org_id rq = Some g" "ru_isPlatformAdmin u \<or> ru_orgId u = g"
    "resolveOrgContext up t (ru_userId u) g w1 = (Inr c, w')" by blast
  have "redis w1 (session_key (ru_userId u) g) = None" using authenticate_frame [OF a] assms(2) by metis
  from resolve_uncached [OF g(3) this] obtain r st where r: "member_and_status (ru_userId u) g w1 = Some (r, st)"
    "st \<noteq> OrgDeleted" "c = \<lparr>oc_orgId = g, oc_orgStatus = org_status_name st, oc_memberRole = role_name r\<rparr>" by metis
  have "member_and_status (ru_userId u) g w = Some (r, st)"
    using r(1) authenticate_frame [OF a] member_and_status_cong [of w1 w] by metis
  from that [OF g(1,2) this r(2,3) s] show thesis .
qed

lemma status_write_refused:
  assumes "orgStatusMiddleware meth path (Some c) = Inr ()" and "meth \<in> set WRITE_METHODS"
    and "\<not> startsWith path ''/api/v1/auth''"
  shows "oc_orgStatus c \<notin> {''deleted'', ''offboarding'', ''suspended''}"
  using assms by (auto simp: orgStatusMiddleware_def isSuspendedBypass_def SUSPENDED_BYPASS_PREFIXES_def split: if_splits)

text \<open>The owners of an organization.\<close>

definition owners :: "uuid \<Rightarrow> 'a dir_scheme \<Rightarrow> membership list" where
  "owners g w = filter (\<lambda>m. m_org_id m = g \<and> m_role m = OrgOwner \<and> m_deleted_at m = None) (org_memberships w)"

lemma owners_updateRole_subset:
  assumes "r \<noteq> OrgOwner"
  shows "set (owners g (snd (updateRole now h u r w))) \<subseteq> set (owners g w)"
  using assms by (auto simp: owners_def updateRole_def Let_def in_update_where split: if_splits)

lemma owners_handler_subset: "set (owners g (snd (update_role_handler now c u r w))) \<subseteq> set (owners g w)"
  using owners_updateRole_subset [of r g now "oc_orgId c" u w]
  by (auto simp: update_role_handler_def split: prod.splits option.splits)

lemma resolve_after_removal:
  assumes "up \<Longrightarrow> case redis w (session_key u g) of None \<Rightarrow> True | Some (v, e) \<Rightarrow> \<not> live_at t e"
  shows "\<exists>e. fst (resolveOrgContext up t u g (removeMembership now g u w)) = Inl e \<and> statusCode e = 403"
proof -
  have "(if up then redis_get t (session_key u g) (removeMembership now g u w) else None) = None"
    using assms by (auto simp: redis_get_def removeMembership_def split: option.splits)
  moreover have "member_and_status u g (removeMembership now g u w) = None"
  proof -
    have "List.find (\<lambda>m. m_org_id m = g \<and> m_user_id m = u \<and> m_status m = MActive \<and> m_deleted_at m = None)
        (org_memberships (removeMembership now g u w)) = None"
      unfolding removeMembership_def by (simp, rule find_update_where_clears) auto
    then show ?thesis by (simp add: member_and_status_def)
  qed
  ultimately show ?thesis
    by (simp add: resolveOrgContext_def ForbiddenError_def split: option.split)
qed

section \<open>Example\<close>

definition ex_member :: "uuid \<Rightarrow> uuid \<Rightarrow> role \<Rightarrow> membership" where
  "ex_member g u r = \<lparr>m_id = u @ g, m_org_id = g, m_user_id = u, m_role = r, m_status = MActive, m_invited_by = None,
     m_joined_at = Some 0, m_removed_at = None, m_deleted_at = None, m_created_at = 0, m_updated_at = 0\<rparr>"

definition ex_org :: "uuid \<Rightarrow> org_status \<Rightarrow> org" where
  "ex_org g st = (new_org 0 g \<lparr>co_name = g, co_slug = g, co_plan_tier = None, co_timezone = None,
     co_locale = None\<rparr>)\<lparr>o_status := st\<rparr>"

definition ex_org_claims :: jwt_claims where
  "ex_org_claims = ex_claims\<lparr>jc_orgId := ''g''\<rparr>"

definition ex_org_crypto :: crypto_lib where
  "ex_org_crypto = ex_crypto\<lparr>jwt_verify := (\<lambda>key now tok. if tok = ''tok'' then Some ex_org_claims else None)\<rparr>"

definition ex_org_db :: "org_status \<Rightarrow> auth_db" where
  "ex_org_db st = ex_auth\<lparr>redis := (\<lambda>_. None), organizations := [ex_org ''g'' st],
     org_memberships := [ex_member ''g'' ''u1'' OrgOwner, ex_member ''g'' ''u2'' OrgAdmin]\<rparr>"

definition ex_request :: "string \<Rightarrow> request" where
  "ex_request meth = \<lparr>rq_method = meth, rq_path = ''/orgs/g/reactivate'', rq_authorization = Some ''Bearer tok'',
     rq_org_id = Some ''g''\<rparr>"

lemma ex_org_auth:
  "authenticate ex_org_crypto ex_keys False 0 (Some ''Bearer tok'') (ex_org_db st) =
     (Inr \<lparr>ru_userId = ''u1'', ru_orgId = ''g'', ru_role = ''member'', ru_isPlatformAdmin = False, ru_jti = ''j0'',
           ru_exp = 900, ru_authTime = None, ru_mfaVerifiedAt = None\<rparr>, ex_org_db st)"
  by (simp add: authenticate_def verifyToken_def getPublicKey_def ex_keys_def registerPublicKey_def ex_org_crypto_def
      ex_crypto_def ex_org_claims_def ex_claims_def resolveUser_def ex_org_db_def ex_auth_def ex_user_def new_user_def Let_def)

lemma ex_org_member: "member_and_status ''u1'' ''g'' (ex_org_db st) = Some (OrgOwner, st)"
  by (simp add: member_and_status_def ex_org_db_def ex_member_def ex_org_def)

lemma ex_org_get:
  "orgMiddleware ex_org_crypto ex_keys False 0 (ex_request ''GET'') (ex_org_db OrgSuspended) =
     (Inr (\<lparr>ru_userId = ''u1'', ru_orgId = ''g'', ru_role = ''member'', ru_isPlatformAdmin = False, ru_jti = ''j0'',
            ru_exp = 900, ru_authTime = None, ru_mfaVerifiedAt = None\<rparr>,
           \<lparr>oc_orgId = ''g'', oc_orgStatus = ''suspended'', oc_memberRole = ''org_owner''\<rparr>), ex_org_db OrgSuspended)"
  by (simp add: orgMiddleware_def ex_request_def ex_org_auth orgContextMiddleware_def resolveOrgContext_def
      ex_org_member orgStatusMiddleware_def org_status_name_def role_name_def isSuspendedBypass_def WRITE_METHODS_def Let_def)

section \<open>Properties\<close>

lemma orgMiddleware_member:
  assumes "orgMiddleware cr ks up t rq w = (Inr (u, c), w')" and "\<And>i g. redis w (session_key i g) = None"
  shows "rq_org_id rq = Some (oc_orgId c) \<and> (ru_isPlatformAdmin u \<or> ru_orgId u = oc_orgId c) \<and>
    (\<exists>m \<in> set (org_memberships w). m_org_id m = oc_orgId c \<and> m_user_id m = ru_userId u \<and> m_status m = MActive \<and>
       m_deleted_at m = None \<and> oc_memberRole c = role_name (m_role m)) \<and>
    (\<exists>x. List.find (\<lambda>r. o_id r = oc_orgId c) (organizations w) = Some x \<and> o_status x \<noteq> OrgDeleted \<and>
       (o_status x = OrgActive \<or> rq_method rq \<notin> set WRITE_METHODS \<or>
        o_status x = OrgSuspended \<and> startsWith (rq_path rq) ''/api/v1/auth''))"
proof -
  obtain g r st where a: "rq_org_id rq = Some g" "ru_isPlatformAdmin u \<or> ru_orgId u = g"
    "member_and_status (ru_userId u) g w = Some (r, st)" "st \<noteq> OrgDeleted"
    "c = \<lparr>oc_orgId = g, oc_orgStatus = org_status_name st, oc_memberRole = role_name r\<rparr>"
    "orgStatusMiddleware (rq_method rq) (rq_path rq) (Some c) = Inr ()"
    using orgMiddleware_uncached [OF assms] by metis
  from member_and_status_SomeD [OF a(3)] obtain x where x: "List.find (\<lambda>r. o_id r = g) (organizations w) = Some x"
    "o_status x = st" by blast
  have "st = OrgActive \<or> rq_method rq \<notin> set WRITE_METHODS \<or>
      st = OrgSuspended \<and> startsWith (rq_path rq) ''/api/v1/auth''"
    using a(4,5,6) by (cases st) (auto simp: orgStatusMiddleware_def org_status_name_def isSuspendedBypass_def
        SUSPENDED_BYPASS_PREFIXES_def split: if_splits)
  with a x member_and_status_SomeD [OF a(3)] show ?thesis by auto
qed

text \<open>C8. Tenant isolation at the door: a request that passes the middlewares without a cached session names
  an organization in which its user is an active member with the role the handlers see, the token
  was issued for that organization (or its user is a platform administrator), the organization is
  not deleted, and it is active when the request writes outside the authentication paths.\<close>

theorem org_access_requires_membership:
  assumes "orgMiddleware cr ks up t rq w = (Inr (u, c), w')" and "\<And>i g. redis w (session_key i g) = None"
  shows "rq_org_id rq = Some (oc_orgId c) \<and> (ru_isPlatformAdmin u \<or> ru_orgId u = oc_orgId c) \<and>
    (\<exists>m \<in> set (org_memberships w). m_org_id m = oc_orgId c \<and> m_user_id m = ru_userId u \<and> m_status m = MActive \<and>
       m_deleted_at m = None \<and> oc_memberRole c = role_name (m_role m)) \<and>
    (\<exists>x. List.find (\<lambda>r. o_id r = oc_orgId c) (organizations w) = Some x \<and> o_status x \<noteq> OrgDeleted \<and>
       (o_status x = OrgActive \<or> rq_method rq \<notin> set WRITE_METHODS \<or>
        o_status x = OrgSuspended \<and> startsWith (rq_path rq) ''/api/v1/auth''))"
  by (rule orgMiddleware_member [OF assms])

theorem org_access_requires_membership_witness:
  "\<exists>u c w'. orgMiddleware ex_org_crypto ex_keys False 0 (ex_request ''GET'') (ex_org_db OrgSuspended) = (Inr (u, c), w') \<and>
     oc_orgId c = ''g'' \<and> oc_memberRole c = ''org_owner''"
  using org_access_requires_membership [OF ex_org_get] ex_org_get by (simp add: ex_org_db_def)

text \<open>A member who is removed loses access within the lifetime of the session cache: if the cached
  session was stored no later than the removal, it is refused from thirty seconds after it, and at
  once when nothing is cached or Redis is down.\<close>

theorem removed_member_loses_access:
  assumes "remove_member_handler now c u w = (Inr (), w')" and "g = oc_orgId c"
    and "case redis w (session_key u g) of None \<Rightarrow> True
         | Some (v, e) \<Rightarrow> (case e of None \<Rightarrow> False | Some x \<Rightarrow> x \<le> now + SESSION_CACHE_TTL * 1000)"
    and "now + SESSION_CACHE_TTL * 1000 \<le> t \<or> \<not> up \<or> redis w (session_key u g) = None"
  shows "\<exists>e. fst (resolveOrgContext up t u g w') = Inl e \<and> statusCode e = 403"
proof -
  have w': "w' = removeMembership now g u w"
    using assms(1,2) by (auto simp: remove_member_handler_def split: if_splits)
  show ?thesis unfolding w'
    by (rule resolve_after_removal) (use assms(3,4) in \<open>auto simp: live_at_def split: option.splits\<close>)
qed

theorem removed_member_loses_access_witness:
  "\<exists>w'. remove_member_handler 5 \<lparr>oc_orgId = ''g'', oc_orgStatus = ''active'', oc_memberRole = ''org_admin''\<rparr> ''u1''
       (ex_org_db OrgActive) = (Inr (), w') \<and>
     (\<exists>e. fst (resolveOrgContext True 6 ''u1'' ''g'' w') = Inl e \<and> statusCode e = 403)"
proof -
  let ?c = "\<lparr>oc_orgId = ''g'', oc_orgStatus = ''active'', oc_memberRole = ''org_admin''\<rparr>"
  have "\<exists>w'. remove_member_handler 5 ?c ''u1'' (ex_org_db OrgActive) = (Inr (), w')"
    by (simp add: remove_member_handler_def admin_or_owner_def)
  then obtain w' where r: "remove_member_handler 5 ?c ''u1'' (ex_org_db OrgActive) = (Inr (), w')" by blast
  from removed_member_loses_access [OF r, of "''g''" 6 True] r show ?thesis by (simp add: ex_org_db_def)
qed

text \<open>A suspended organization cannot be reactivated through its own route: the status guard refuses the
  request (a write outside the authentication paths) before the handler runs, for every user, so
  the owner that the handler would allow never reaches it.\<close>

theorem reactivate_route_unreachable:
  assumes "\<And>i g. redis w (session_key i g) = None" and "rq_method rq = ''POST''"
    and "\<not> startsWith (rq_path rq) ''/api/v1/auth''" and "rq_org_id rq = Some g"
    and "List.find (\<lambda>r. o_id r = g) (organizations w) = Some x" and "o_status x = OrgSuspended"
  shows "(\<exists>e. fst (reactivate_route cr ks up t rq w) = Inl e) \<and>
    organizations (snd (reactivate_route cr ks up t rq w)) = organizations w"
proof (cases "orgMiddleware cr ks up t rq w")
  case (Pair res w')
  then have org: "organizations w' = organizations w" by (rule orgMiddleware_state)
  show ?thesis
  proof (cases res)
    case (Inl e)
    with Pair org show ?thesis by (simp add: reactivate_route_def)
  next
    case (Inr uc)
    obtain u c where "uc = (u, c)" by fastforce
    with Pair Inr have m: "orgMiddleware cr ks up t rq w = (Inr (u, c), w')" by simp
    obtain g' r st where a: "rq_org_id rq = Some g'" "member_and_status (ru_userId u) g' w = Some (r, st)"
      "c = \<lparr>oc_orgId = g', oc_orgStatus = org_status_name st, oc_memberRole = role_name r\<rparr>"
      "orgStatusMiddleware (rq_method rq) (rq_path rq) (Some c) = Inr ()"
      using orgMiddleware_uncached [OF m assms(1)] by metis
    from member_and_status_SomeD [OF a(2)] assms(4,5,6) a(1) have "st = OrgSuspended" by auto
    moreover from status_write_refused [OF a(4) _ assms(3)] assms(2)
    have "oc_orgStatus c \<noteq> ''suspended''" by (simp add: WRITE_METHODS_def)
    ultimately show ?thesis using a(3) by (simp add: org_status_name_def)
  qed
qed

theorem reactivate_route_unreachable_witness:
  "\<exists>e. fst (reactivate_route ex_org_crypto ex_keys False 0 (ex_request ''POST'') (ex_org_db OrgSuspended)) = Inl e"
proof -
  have "\<And>i g. redis (ex_org_db OrgSuspended) (session_key i g) = None" "rq_method (ex_request ''POST'') = ''POST''"
    "\<not> startsWith (rq_path (ex_request ''POST'')) ''/api/v1/auth''" "rq_org_id (ex_request ''POST'') = Some ''g''"
    "List.find (\<lambda>r. o_id r = ''g'') (organizations (ex_org_db OrgSuspended)) = Some (ex_org ''g'' OrgSuspended)"
    "o_status (ex_org ''g'' OrgSuspended) = OrgSuspended"
    by (simp_all add: ex_org_db_def ex_request_def startsWith_def ex_org_def)
  from reactivate_route_unreachable [OF this] show ?thesis by blast
qed

lemma issueTokenPair_claims:
  "issueTokenPair cr now u g r a mfa w = (Inr tp, w') \<Longrightarrow>
     \<exists>c. tp_accessToken tp = jwt_sign cr c \<and> jc_mfaVerifiedAt c = mfa"
  by (auto simp: issueTokenPair_def generateAccessToken_def draw_def Let_def split: prod.splits sum.splits)

lemma rotate_claims:
  "rotate_token cr now row a w = (Inr tp, w') \<Longrightarrow> \<exists>c. tp_accessToken tp = jwt_sign cr c \<and> jc_mfaVerifiedAt c = None"
  by (auto simp: rotate_token_def generateAccessToken_def draw_def Let_def split: prod.splits sum.splits)

lemma login_blocked:
  assumes "findUserByEmail (normalize_email e) w = Some x"
    and "\<not> u_email_verified x \<or> locked_at now x \<or> \<not> password_valid cr pw x"
  shows "\<exists>err. fst (login cr now e pw g w) = Inl err"
proof -
  consider "\<not> u_email_verified x" | "u_email_verified x" "locked_at now x" |
    "u_email_verified x" "\<not> locked_at now x" "\<not> password_valid cr pw x" using assms(2) by blast
  then show ?thesis
  proof cases
    case 3
    then show ?thesis using assms(1) unfolding login_def locked_at_def by (simp only: option.case if_False if_True Let_def) simp
  qed (use assms(1) in \<open>simp_all add: login_def locked_at_def\<close>)
qed

lemma login_success:
  assumes "login cr now e pw g w = (Inr (tp, su), w')"
  shows "\<exists>c. tp_accessToken tp = jwt_sign cr c \<and> jc_mfaVerifiedAt c = None"
proof -
  obtain x where x: "findUserByEmail (normalize_email e) w = Some x"
    using assms by (cases "findUserByEmail (normalize_email e) w") (auto simp: login_def)
  from login_blocked [OF x, of now cr pw g] assms
  have ok: "u_email_verified x" "\<not> locked_at now x" "password_valid cr pw x" by auto
  define w2 where "w2 = snd (updateUser now (u_id x) (no_user_change\<lparr>uu_last_login_at := Some (Some now)\<rparr>)
      (resetFailedLoginAttempts now (u_id x) w))"
  define m where "m = (if truthy g then active_role (u_id x) (case_option '''' id g) w2 else Some Member)"
  have l: "login cr now e pw g w =
      (case m of None \<Rightarrow> (Inl (ForbiddenError ''NOT_ORG_MEMBER''), w2)
       | Some r \<Rightarrow> (case issueTokenPair cr now (u_id x) (case_option '''' id g) (role_name r) (u_is_platform_admin x) None w2 of
                       (Inl e, w3) \<Rightarrow> (Inl e, w3)
                     | (Inr tokens, w3) \<Rightarrow> (Inr (tokens, sanitizeUser x),
                          persistAuditLog now g (Some (u_id x)) ActorUser ''user.login'' (Some ''user'') (Some (u_id x)) (JObj []) w3)))"
    using x ok unfolding login_def m_def w2_def locked_at_def by (simp only: option.case if_False if_True Let_def not_True_eq_False)
  then obtain r where r: "m = Some r" using assms by (cases m) auto
  obtain res w3 where i: "issueTokenPair cr now (u_id x) (case_option '''' id g) (role_name r) (u_is_platform_admin x) None w2 = (res, w3)"
    by fastforce
  have "res = Inr tp" using assms unfolding l r by (cases res) (use i in auto)
  with i show ?thesis by (intro issueTokenPair_claims) simp
qed

text \<open>No session reaches the platform administration: access tokens from a login or a refresh carry no
  time of second-factor verification, and the administration guard refuses a user without one.
  (A verified token decodes to the claims it was signed with.)\<close>

theorem admin_api_unreachable:
  assumes "\<And>c p. verifyToken cr ks t (jwt_sign cr c) = Some p \<Longrightarrow> p = c"
    and "(\<exists>e pw g su w0 w1 t0. login cr t0 e pw g w0 = (Inr (tp, su), w1)) \<or>
         (\<exists>raw w0 w1 t0. refreshTokenPair cr t0 raw w0 = (Inr tp, w1))"
    and "authenticate cr ks up t (Some (''Bearer '' @ tp_accessToken tp)) w = (Inr u, w')"
  shows "\<exists>e. platformAdminMiddleware ip_match allowlist t' ip (Some u) = Inl e"
proof -
  have "\<exists>c. tp_accessToken tp = jwt_sign cr c \<and> jc_mfaVerifiedAt c = None"
    using assms(2)
  proof
    assume "\<exists>e pw g su w0 w1 t0. login cr t0 e pw g w0 = (Inr (tp, su), w1)"
    then show ?thesis using login_success by metis
  next
    assume "\<exists>raw w0 w1 t0. refreshTokenPair cr t0 raw w0 = (Inr tp, w1)"
    then show ?thesis using refresh_success rotate_claims by metis
  qed
  then obtain c where c: "tp_accessToken tp = jwt_sign cr c" "jc_mfaVerifiedAt c = None" by blast
  from assms(3) obtain p where p: "verifyToken cr ks t (tp_accessToken tp) = Some p" "ru_mfaVerifiedAt u = jc_mfaVerifiedAt p"
    by (auto simp: authenticate_def split: option.splits if_splits prod.splits sum.splits)
  have "p = c" using assms(1) p(1) c(1) by metis
  with p(2) c(2) show ?thesis by (simp add: platformAdminMiddleware_def)
qed

definition ex_admin_claims :: jwt_claims where
  "ex_admin_claims = \<lparr>jc_sub = ''u1'', jc_orgId = '''', jc_role = ''member'', jc_isPlatformAdmin = True,
     jc_mfaVerifiedAt = None, jc_auth_time = 0, jc_jti = ''x'', jc_iat = 0, jc_exp = 900\<rparr>"

definition ex_sign_crypto :: crypto_lib where
  "ex_sign_crypto = ex_crypto\<lparr>jwt_sign := (\<lambda>c. if c = ex_admin_claims then ''tok'' else ''bad''),
     jwt_verify := (\<lambda>key now tok. if tok = ''tok'' then Some ex_admin_claims else None)\<rparr>"

definition ex_admin_db :: auth_db where
  "ex_admin_db = ex_auth\<lparr>users := [ex_user\<lparr>u_is_platform_admin := True\<rparr>]\<rparr>"

lemma ex_admin_refresh:
  "\<exists>w1. refreshTokenPair ex_sign_crypto 500 ''raw'' ex_admin_db =
     (Inr \<lparr>tp_accessToken = ''tok'', tp_refreshToken = ''xx'', tp_expiresIn = 900\<rparr>, w1)"
  by (simp add: refreshTokenPair_def rotate_token_def ex_admin_db_def ex_auth_def ex_sign_crypto_def ex_crypto_def hashToken_def
      findRefreshToken_def ex_rt_def ex_user_def new_user_def user_live_def generateAccessToken_def draw_def createRefreshToken_def
      revokeRefreshToken_def rt_revoke_def ex_admin_claims_def Let_def)

lemma ex_admin_auth:
  "authenticate ex_sign_crypto ex_keys False 600 (Some (''Bearer '' @ ''tok'')) ex_admin_db =
     (Inr \<lparr>ru_userId = ''u1'', ru_orgId = '''', ru_role = ''member'', ru_isPlatformAdmin = True, ru_jti = ''x'',
           ru_exp = 900, ru_authTime = None, ru_mfaVerifiedAt = None\<rparr>, ex_admin_db)"
  by (simp add: authenticate_def verifyToken_def getPublicKey_def ex_keys_def registerPublicKey_def ex_sign_crypto_def
      ex_crypto_def ex_admin_claims_def resolveUser_def ex_admin_db_def ex_auth_def ex_user_def new_user_def Let_def)

theorem admin_api_unreachable_witness:
  "\<exists>u w' e. authenticate ex_sign_crypto ex_keys False 600 (Some (''Bearer '' @ ''tok'')) ex_admin_db = (Inr u, w') \<and>
     ru_isPlatformAdmin u \<and> platformAdminMiddleware (\<lambda>_ _ _. Some True) None 600 (Some ''1.2.3.4'') (Some u) = Inl e"
proof -
  let ?tp = "\<lparr>tp_accessToken = ''tok'', tp_refreshToken = ''xx'', tp_expiresIn = 900\<rparr>"
  have rt: "p = c" if "verifyToken ex_sign_crypto ex_keys 600 (jwt_sign ex_sign_crypto c) = Some p" for c p
    using that by (auto simp: verifyToken_def ex_sign_crypto_def split: sum.splits if_splits)
  have iss: "(\<exists>e pw g su (w0 :: auth_db) w1 t0. login ex_sign_crypto t0 e pw g w0 = (Inr (?tp, su), w1)) \<or>
      (\<exists>raw (w0 :: auth_db) w1 t0. refreshTokenPair ex_sign_crypto t0 raw w0 = (Inr ?tp, w1))"
    using ex_admin_refresh by blast
  have au: "authenticate ex_sign_crypto ex_keys False 600 (Some (''Bearer '' @ tp_accessToken ?tp)) ex_admin_db =
      (Inr \<lparr>ru_userId = ''u1'', ru_orgId = '''', ru_role = ''member'', ru_isPlatformAdmin = True, ru_jti = ''x'',
           ru_exp = 900, ru_authTime = None, ru_mfaVerifiedAt = None\<rparr>, ex_admin_db)"
    using ex_admin_auth by simp
  have "\<exists>e. platformAdminMiddleware (\<lambda>_ _ _. Some True) None 600 (Some ''1.2.3.4'')
      (Some \<lparr>ru_userId = ''u1'', ru_orgId = '''', ru_role = ''member'', ru_isPlatformAdmin = True, ru_jti = ''x'',
           ru_exp = 900, ru_authTime = None, ru_mfaVerifiedAt = None\<rparr>) = Inl e"
    by (rule admin_api_unreachable [OF _ iss au]) (rule rt)
  with ex_admin_auth show ?thesis by fastforce
qed

text \<open>An administrator of an organization can depose its only owner: changing the owner's role succeeds,
  afterwards the organization has no owner, and no later role change, by anybody, appoints one.\<close>

theorem org_admin_can_depose_owner:
  assumes "oc_memberRole c = ''org_admin''" and "oc_orgId c = g" and "findMembership g u w = Some m"
    and "owners g w = [m]" and "w' = snd (update_role_handler now c u Guest w)"
  shows "(\<exists>m'. fst (update_role_handler now c u Guest w) = Inr m' \<and> m_role m' = Guest) \<and> owners g w' = [] \<and>
    (\<forall>t d v r. owners g (snd (update_role_handler t d v r w')) = [])"
proof -
  let ?f = "\<lambda>m. m\<lparr>m_role := Guest, m_updated_at := now\<rparr>"
  have f: "List.find (live_membership g u) (org_memberships w) = Some m" using assms(3) by (simp add: findMembership_def)
  from find_SomeD [OF f] have m: "m_org_id m = g" "m_user_id m = u" "m_deleted_at m = None" by auto
  have w': "org_memberships w' = update_where (live_membership g u) ?f (org_memberships w)"
    and ok: "fst (update_role_handler now c u Guest w) = Inr (?f m)"
    using assms(1,2,5) f by (simp_all add: update_role_handler_def admin_or_owner_def updateRole_def returning_def Let_def)
  have "x \<notin> set (owners g w')" for x
  proof
    assume "x \<in> set (owners g w')"
    then obtain y where y: "y \<in> set (org_memberships w)" "x = (if live_membership g u y then ?f y else y)"
      "m_org_id x = g" "m_role x = OrgOwner" "m_deleted_at x = None"
      unfolding owners_def w' in_update_where set_filter by blast
    then have "y \<in> set (owners g w)" by (auto simp: owners_def split: if_splits)
    with assms(4) y m show False by (auto split: if_splits)
  qed
  then have "owners g w' = []" by (cases "owners g w'") auto
  with ok owners_handler_subset [of g _ _ _ _ w'] show ?thesis by fastforce
qed

theorem org_admin_can_depose_owner_witness:
  "owners ''g'' (snd (update_role_handler 7 \<lparr>oc_orgId = ''g'', oc_orgStatus = ''active'', oc_memberRole = ''org_admin''\<rparr>
     ''u1'' Guest (ex_org_db OrgActive))) = []"
proof -
  have "findMembership ''g'' ''u1'' (ex_org_db OrgActive) = Some (ex_member ''g'' ''u1'' OrgOwner)"
    "owners ''g'' (ex_org_db OrgActive) = [ex_member ''g'' ''u1'' OrgOwner]"
    by (simp_all add: findMembership_def owners_def ex_org_db_def ex_member_def)
  from org_admin_can_depose_owner [OF _ _ this refl] show ?thesis by simp
qed

end
