(* ===== verification/Idempotency.thy ===== *)
theory Idempotency
  imports Prelude
begin

text \<open>
  \<^verbatim>\<open>src/shared/idempotency\<close>: the keys that make mutating requests repeatable, and the middleware that
  records and replays responses.  The state of the routes behind the middleware is a type variable: the
  theorems hold for every handler.
\<close>

section \<open>The key table\<close>

record idem_row =
  ik_key_hash :: string
  ik_org_id :: uuid
  ik_user_id :: uuid
  ik_endpoint :: string
  ik_response_status :: "nat option"
  ik_response_body :: "json option"
  ik_expires_at :: timestamp

definition TTL_HOURS :: int where
  "TTL_HOURS = 24"

datatype idem_result = Cached string nat json | NotCached string

section \<open>Service\<close>

text \<open>\<open>hashToken\<close> is an argument.\<close>

definition computeKeyHash :: "(string \<Rightarrow> string) \<Rightarrow> uuid \<Rightarrow> uuid \<Rightarrow> string \<Rightarrow> string \<Rightarrow> string" where
  "computeKeyHash hashToken orgId userId endpoint clientKey =
     hashToken (orgId @ '':'' @ userId @ '':'' @ endpoint @ '':'' @ clientKey)"

text \<open>The two statements of \<^verbatim>\<open>checkAndStore\<close>, which other requests can run between.\<close>

definition idem_lookup :: "timestamp \<Rightarrow> string \<Rightarrow> idem_row list \<Rightarrow> idem_result option outcome" where
  "idem_lookup now h ks =
     (case List.find (\<lambda>r. ik_key_hash r = h \<and> now < ik_expires_at r) ks of
        None \<Rightarrow> Inr None
      | Some r \<Rightarrow>
          (case (ik_response_status r, ik_response_body r) of
             (Some st, Some b) \<Rightarrow> Inr (Some (Cached h st b))
           | _ \<Rightarrow> Inl (ConflictError ''IDEMPOTENCY_IN_PROGRESS'')))"

definition idem_insert :: "timestamp \<Rightarrow> string \<Rightarrow> uuid \<Rightarrow> uuid \<Rightarrow> string \<Rightarrow> idem_row list \<Rightarrow> idem_row list" where
  "idem_insert now h orgId userId endpoint ks =
     (if h \<in> ik_key_hash ` set ks then ks
      else ks @ [\<lparr>ik_key_hash = h, ik_org_id = orgId, ik_user_id = userId, ik_endpoint = endpoint,
                   ik_response_status = None, ik_response_body = None, ik_expires_at = now + TTL_HOURS * 3600000\<rparr>])"

definition checkAndStore ::
    "(string \<Rightarrow> string) \<Rightarrow> timestamp \<Rightarrow> string \<Rightarrow> uuid \<Rightarrow> uuid \<Rightarrow> string \<Rightarrow> idem_row list \<Rightarrow> idem_result outcome \<times> idem_row list" where
  "checkAndStore hashToken now clientKey orgId userId endpoint ks =
     (let h = computeKeyHash hashToken orgId userId endpoint clientKey in
      case idem_lookup now h ks of
        Inl e \<Rightarrow> (Inl e, ks)
      | Inr (Some r) \<Rightarrow> (Inr r, ks)
      | Inr None \<Rightarrow> (Inr (NotCached h), idem_insert now h orgId userId endpoint ks))"

definition saveResponse :: "string \<Rightarrow> nat \<Rightarrow> json \<Rightarrow> idem_row list \<Rightarrow> idem_row list" where
  "saveResponse h st b ks =
     update_where (\<lambda>r. ik_key_hash r = h) (\<lambda>r. r\<lparr>ik_response_status := Some st, ik_response_body := Some b\<rparr>) ks"

section \<open>Middleware\<close>

record idem_request =
  ir_method :: string
  ir_key :: "string option"
  ir_userId :: "string option"
  ir_contextOrg :: "string option"
  ir_userOrg :: "string option"
  ir_path :: string

text \<open>The answer to a request: the status and body given to \<^verbatim>\<open>res.json\<close>, or an error passed on to the
  error handler.  The handler answers every request through \<^verbatim>\<open>res.json\<close>.\<close>

definition IDEMPOTENCY_METHODS :: "string list" where
  "IDEMPOTENCY_METHODS = [''POST'', ''PUT'', ''PATCH'']"

definition or_else :: "string option \<Rightarrow> string option \<Rightarrow> string option" where
  "or_else a b = (if truthy a then a else b)"

definition idempotencyMiddleware ::
    "(string \<Rightarrow> string) \<Rightarrow> timestamp \<Rightarrow> idem_request \<Rightarrow> ('s \<Rightarrow> (nat \<times> json) \<times> 's) \<Rightarrow> idem_row list \<times> 's
     \<Rightarrow> (nat \<times> json) outcome \<times> idem_row list \<times> 's" where
  "idempotencyMiddleware hashToken now req handler st =
     (let (ks, s) = st;
          pass = (let (r, s') = handler s in (Inr r, ks, s'));
          orgId = or_else (ir_contextOrg req) (or_else (ir_userOrg req) (ir_userId req))
      in if ir_method req \<notin> set IDEMPOTENCY_METHODS then pass
         else if \<not> truthy (ir_key req) then (Inl (BadRequestError ''MISSING_IDEMPOTENCY_KEY''), ks, s)
         else if \<not> truthy (ir_userId req) \<or> \<not> truthy orgId then pass
         else case checkAndStore hashToken now (the (ir_key req)) (the orgId) (the (ir_userId req)) (ir_path req) ks of
                (Inl e, ks1) \<Rightarrow> (Inl e, ks1, s)
              | (Inr (Cached h status body), ks1) \<Rightarrow> (Inr (status, body), ks1, s)
              | (Inr (NotCached h), ks1) \<Rightarrow>
                  (let ((status, body), s') = handler s in (Inr (status, body), saveResponse h status body ks1, s')))"

section \<open>Properties\<close>

text \<open>The scope of a request and the hash of its key.\<close>

definition request_scope :: "idem_request \<Rightarrow> string" where
  "request_scope req = the (or_else (ir_contextOrg req) (or_else (ir_userOrg req) (ir_userId req)))"

definition request_hash :: "(string \<Rightarrow> string) \<Rightarrow> idem_request \<Rightarrow> string" where
  "request_hash hashToken req =
     computeKeyHash hashToken (request_scope req) (the (ir_userId req)) (ir_path req) (the (ir_key req))"

definition keyed :: "idem_request \<Rightarrow> bool" where
  "keyed req = (ir_method req \<in> set IDEMPOTENCY_METHODS \<and> truthy (ir_key req) \<and> truthy (ir_userId req))"

lemma keyed_scope: "keyed req \<Longrightarrow> truthy (or_else (ir_contextOrg req) (or_else (ir_userOrg req) (ir_userId req)))"
  by (auto simp: keyed_def or_else_def)

lemma middleware_keyed:
  assumes "keyed req"
  shows "idempotencyMiddleware hashToken now req handler (ks, s) =
    (case checkAndStore hashToken now (the (ir_key req)) (request_scope req) (the (ir_userId req)) (ir_path req) ks of
       (Inl e, ks1) \<Rightarrow> (Inl e, ks1, s)
     | (Inr (Cached h status body), ks1) \<Rightarrow> (Inr (status, body), ks1, s)
     | (Inr (NotCached h), ks1) \<Rightarrow>
         (let ((status, body), s') = handler s in (Inr (status, body), saveResponse h status body ks1, s')))"
  using assms keyed_scope [OF assms]
  by (auto simp: idempotencyMiddleware_def keyed_def request_scope_def Let_def)

text \<open>What the table says of a hash at an instant.\<close>

lemma middleware_runs:
  assumes "keyed req" and "idem_lookup now (request_hash hashToken req) ks = Inr None"
  shows "idempotencyMiddleware hashToken now req handler (ks, s) =
    (Inr (fst (handler s)),
     saveResponse (request_hash hashToken req) (fst (fst (handler s))) (snd (fst (handler s)))
       (idem_insert now (request_hash hashToken req) (request_scope req) (the (ir_userId req)) (ir_path req) ks),
     snd (handler s))"
  using assms by (simp add: middleware_keyed checkAndStore_def request_hash_def Let_def split_def)

lemma middleware_replays:
  assumes "keyed req" and "idem_lookup now (request_hash hashToken req) ks = Inr (Some (Cached h status body))"
  shows "idempotencyMiddleware hashToken now req handler (ks, s) = (Inr (status, body), ks, s)"
  using assms by (simp add: middleware_keyed checkAndStore_def request_hash_def Let_def)

lemma lookup_absent: "h \<notin> ik_key_hash ` set ks \<Longrightarrow> idem_lookup now h ks = Inr None"
  by (auto simp: idem_lookup_def dest!: find_SomeD split: option.split)

lemma lookup_saved:
  assumes "h \<notin> ik_key_hash ` set ks" and "now' < now + TTL_HOURS * 3600000"
  shows "idem_lookup now' h (saveResponse h st b (idem_insert now h g u ep ks)) = Inr (Some (Cached h st b))"
proof -
  have "List.find (\<lambda>r. ik_key_hash r = h \<and> now' < ik_expires_at r) (saveResponse h st b ks) = None"
    using assms(1) by (subst saveResponse_def, subst update_where_none) (auto simp: find_None_iff)
  with assms show ?thesis
    by (simp add: idem_lookup_def saveResponse_def idem_insert_def find_append)
qed


text \<open>A key whose row has expired but was not purged yet gives no protection: the insertion does nothing,
  so the handler runs for every repetition of the request.\<close>

theorem expired_key_runs_again:
  assumes "keyed req" and "list_all (\<lambda>r. ik_key_hash r = request_hash hashToken req \<longrightarrow> ik_expires_at r \<le> now) ks"
    and "request_hash hashToken req \<in> ik_key_hash ` set ks"
    and "idempotencyMiddleware hashToken now req handler (ks, s) = (answer, ks', s')" and "now \<le> now'"
  shows "s' = snd (handler s) \<and>
    snd (snd (idempotencyMiddleware hashToken now' req handler (ks', s'))) = snd (handler s')"
proof -
  let ?h = "request_hash hashToken req"
  have l: "idem_lookup u ?h xs = Inr None"
    if "list_all (\<lambda>r. ik_key_hash r = ?h \<longrightarrow> ik_expires_at r \<le> now) xs" "now \<le> u" for u xs
  proof -
    have "List.find (\<lambda>r. ik_key_hash r = ?h \<and> u < ik_expires_at r) xs = None"
      using that by (fastforce simp: find_None_iff list_all_iff)
    then show ?thesis by (simp add: idem_lookup_def)
  qed
  from middleware_runs [OF assms(1) l [OF assms(2) order_refl], where handler = handler and s = s] assms(3,4)
  have ks': "ks' = saveResponse ?h (fst (fst (handler s))) (snd (fst (handler s))) ks" and s': "s' = snd (handler s)"
    by (auto simp: idem_insert_def)
  have "list_all (\<lambda>r. ik_key_hash r = ?h \<longrightarrow> ik_expires_at r \<le> now) ks'"
    using assms(2) by (auto simp: ks' saveResponse_def list_all_iff in_update_where)
  from middleware_runs [OF assms(1) l [OF this assms(5)], where handler = handler and s = s'] s'
  show ?thesis by simp
qed

text \<open>Two requests that both look the key up before either inserts it both run.\<close>

lemma concurrent_requests_both_run:
  assumes "h \<notin> ik_key_hash ` set ks"
  shows "idem_lookup now h ks = Inr None \<and>
    idem_insert now' h g u ep (idem_insert now h g u ep ks) = idem_insert now h g u ep ks"
  using lookup_absent [OF assms] by (auto simp: idem_insert_def)

text \<open>With an injective hash, and identifiers without a colon, requests of different users or
  organizations have different hashes.\<close>

lemma request_hash_scoped:
  assumes "inj hashToken" and "request_hash hashToken req = request_hash hashToken req'"
    and "CHR '':'' \<notin> set (request_scope req)" "CHR '':'' \<notin> set (request_scope req')"
    and "CHR '':'' \<notin> set (the (ir_userId req))" "CHR '':'' \<notin> set (the (ir_userId req'))"
  shows "request_scope req = request_scope req' \<and> the (ir_userId req) = the (ir_userId req')"
proof -
  have "request_scope req @ CHR '':'' # the (ir_userId req) @ CHR '':'' # ir_path req @ CHR '':'' # the (ir_key req) =
      request_scope req' @ CHR '':'' # the (ir_userId req') @ CHR '':'' # ir_path req' @ CHR '':'' # the (ir_key req')"
    using injD [OF assms(1) assms(2) [unfolded request_hash_def computeKeyHash_def]] by simp
  from join_inj [OF assms(3,4) this] join_inj [OF assms(5,6)] show ?thesis by blast
qed

section \<open>Example\<close>

definition ex_idem_request :: idem_request where
  "ex_idem_request = \<lparr>ir_method = ''POST'', ir_key = Some ''k1'', ir_userId = Some ''u1'', ir_contextOrg = None,
     ir_userOrg = Some '''', ir_path = ''/orgs''\<rparr>"

definition ex_counter :: "nat \<Rightarrow> (nat \<times> json) \<times> nat" where
  "ex_counter n = ((201, JNum (int n)), Suc n)"

lemma ex_idem_keyed: "keyed ex_idem_request"
  by (simp add: keyed_def ex_idem_request_def IDEMPOTENCY_METHODS_def)


theorem expired_key_runs_again_witness:
  "\<exists>ks ks'. snd (snd (idempotencyMiddleware id 100 ex_idem_request ex_counter (ks, 0))) = 1 \<and>
    fst (snd (idempotencyMiddleware id 100 ex_idem_request ex_counter (ks, 0))) = ks' \<and>
    snd (snd (idempotencyMiddleware id 101 ex_idem_request ex_counter (ks', 1))) = 2"
proof -
  let ?ks = "[\<lparr>ik_key_hash = request_hash id ex_idem_request, ik_org_id = ''u1'', ik_user_id = ''u1'', ik_endpoint = ''/orgs'',
    ik_response_status = Some 201, ik_response_body = Some JNull, ik_expires_at = 100\<rparr>]"
  obtain a ks' s' where m: "idempotencyMiddleware id 100 ex_idem_request ex_counter (?ks, 0) = (a, ks', s')"
    by (metis prod_cases3)
  from expired_key_runs_again [OF ex_idem_keyed _ _ this, of 101] m
  show ?thesis by (intro exI [of _ ?ks] exI [of _ ks']) (auto simp: ex_counter_def)
qed

end
