(* ===== verification/Http.thy ===== *)
theory Http
  imports Org_Access Idempotency "HOL-Library.Monad_Syntax"
begin

text \<open>
  What every router shares: request validation (\<^verbatim>\<open>shared/validation/validate.middleware.ts\<close> over the
  schema language of zod), the response envelope (\<^verbatim>\<open>shared/response/response.middleware.ts\<close>), and the
  chain of middlewares in front of a handler.  zod and the path matcher of Express are arguments; the
  law on zod is the locale \<open>schema_validator\<close>.  A string is a list of code units here, as in
  JavaScript.
\<close>

section \<open>Instants as text\<close>

definition digit_char :: "char \<Rightarrow> bool" where
  "digit_char c = (let n = (of_char c :: nat) in 48 \<le> n \<and> n \<le> 57)"

definition is_leap :: "int \<Rightarrow> bool" where
  "is_leap y = (y mod 4 = 0 \<and> (y mod 100 \<noteq> 0 \<or> y mod 400 = 0))"

definition month_days :: "int \<Rightarrow> int \<Rightarrow> int" where
  "month_days y m = (if m = 2 then (if is_leap y then 29 else 28) else if m \<in> {4, 6, 9, 11} then 30 else 31)"

text \<open>Days from 1970-01-01 to a day of the proleptic Gregorian calendar.\<close>

definition days_from_civil :: "int \<Rightarrow> int \<Rightarrow> int \<Rightarrow> int" where
  "days_from_civil y m d =
     (let y' = (if m \<le> 2 then y - 1 else y);
          mp = (m + 9) mod 12
      in 365 * y' + y' div 4 - y' div 100 + y' div 400 + (153 * mp + 2) div 5 + d - 1 - 719468)"

text \<open>The first three digits of a fraction of a second, as milliseconds.\<close>

definition fraction_ms :: "string \<Rightarrow> int" where
  "fraction_ms f = int (read_nat (take 3 (f @ ''000'')))"

text \<open>The part after the minutes: an optional number of seconds with an optional fraction, and \<^verbatim>\<open>Z\<close>.\<close>

definition parse_seconds :: "string \<Rightarrow> int option" where
  "parse_seconds s =
     (if s = ''Z'' then Some 0
      else case s of
        c # a # b # r \<Rightarrow>
          if c = CHR '':'' \<and> digit_char a \<and> digit_char b \<and> read_nat [a, b] < 60 then
            (if r = ''Z'' then Some (int (read_nat [a, b]) * 1000)
             else case r of
               p # f \<Rightarrow>
                 if p = CHR ''.'' \<and> 2 \<le> length f \<and> last f = CHR ''Z'' \<and> list_all digit_char (butlast f)
                 then Some (int (read_nat [a, b]) * 1000 + fraction_ms (butlast f)) else None
             | [] \<Rightarrow> None)
          else None
      | _ \<Rightarrow> None)"

text \<open>\<^verbatim>\<open>new Date(s)\<close> on the form that \<^verbatim>\<open>z.string().datetime()\<close> accepts,
  \<^verbatim>\<open>YYYY-MM-DDThh:mm[:ss[.f]]Z\<close>; \<open>None\<close> on every other string.\<close>

definition parse_datetime :: "string \<Rightarrow> timestamp option" where
  "parse_datetime s =
     (let ds = take 4 s @ take 2 (drop 5 s) @ take 2 (drop 8 s) @ take 2 (drop 11 s) @ take 2 (drop 14 s);
          y = int (read_nat (take 4 s)); m = int (read_nat (take 2 (drop 5 s)));
          d = int (read_nat (take 2 (drop 8 s))); h = int (read_nat (take 2 (drop 11 s)));
          mi = int (read_nat (take 2 (drop 14 s)))
      in if 16 < length s \<and> list_all digit_char ds \<and> s ! 4 = CHR ''-'' \<and> s ! 7 = CHR ''-'' \<and> s ! 10 = CHR ''T'' \<and>
            s ! 13 = CHR '':'' \<and> 1 \<le> m \<and> m \<le> 12 \<and> 1 \<le> d \<and> d \<le> month_days y m \<and> h < 24 \<and> mi < 60
         then map_option (\<lambda>ms. ((days_from_civil y m d * 24 + h) * 60 + mi) * 60000 + ms) (parse_seconds (drop 16 s))
         else None)"

definition hex_char :: "char \<Rightarrow> bool" where
  "hex_char c = (let n = (of_char c :: nat) in digit_char c \<or> (97 \<le> n \<and> n \<le> 102) \<or> (65 \<le> n \<and> n \<le> 70))"

definition is_uuid :: "string \<Rightarrow> bool" where
  "is_uuid s = (length s = 36 \<and>
     list_all (\<lambda>i. if i \<in> {8, 13, 18, 23} then s ! i = CHR ''-'' else hex_char (s ! i)) [0..<36])"

section \<open>Schemas\<close>

datatype string_check = Min nat | Max nat | Uuid | DateTime | Url | Email | Slug

datatype schema =
    ZString "string_check list"
  | ZEnum "string list"
  | ZBoolean
  | ZInt "int option" "int option"
  | ZCoerceInt "int option" "int option"
  | ZRecord
  | ZUnknown
  | ZArray schema "nat option" "nat option"
  | ZNullable schema
  | ZOptional schema
  | ZDefault schema json
  | ZObject "(string \<times> schema) list"

fun check_string :: "string_check \<Rightarrow> string \<Rightarrow> bool" where
  "check_string (Min n) s = (n \<le> length s)"
| "check_string (Max n) s = (length s \<le> n)"
| "check_string Uuid s = is_uuid s"
| "check_string DateTime s = (parse_datetime s \<noteq> None)"
| "check_string Url s = (CHR '':'' \<in> set s)"
| "check_string Email s = (CHR ''@'' \<in> set s)"
| "check_string Slug s = (s \<noteq> '''' \<and> list_all (\<lambda>c. let n = (of_char c :: nat) in
     (97 \<le> n \<and> n \<le> 122) \<or> digit_char c \<or> c = CHR ''-'') s)"

definition within :: "'n::linorder option \<Rightarrow> 'n option \<Rightarrow> 'n \<Rightarrow> bool" where
  "within lo hi n = (case_option True (\<lambda>l. l \<le> n) lo \<and> case_option True (\<lambda>h. n \<le> h) hi)"

text \<open>Which schemas accept an absent field.\<close>

fun accepts_absent :: "schema \<Rightarrow> bool" where
  "accepts_absent (ZOptional _) = True"
| "accepts_absent (ZNullable s) = accepts_absent s"
| "accepts_absent ZUnknown = True"
| "accepts_absent _ = False"

text \<open>What the documentation of zod promises of the data of a successful parse: \<open>conforms s j\<close>.\<close>

primrec conforms :: "schema \<Rightarrow> json \<Rightarrow> bool" where
  "conforms (ZString cs) = (\<lambda>j. case j of JStr s \<Rightarrow> list_all (\<lambda>c. check_string c s) cs | _ \<Rightarrow> False)"
| "conforms (ZEnum vs) = (\<lambda>j. case j of JStr s \<Rightarrow> s \<in> set vs | _ \<Rightarrow> False)"
| "conforms ZBoolean = (\<lambda>j. case j of JBool _ \<Rightarrow> True | _ \<Rightarrow> False)"
| "conforms (ZInt lo hi) = (\<lambda>j. case j of JNum n \<Rightarrow> within lo hi n | _ \<Rightarrow> False)"
| "conforms (ZCoerceInt lo hi) = (\<lambda>j. case j of JNum n \<Rightarrow> within lo hi n | _ \<Rightarrow> False)"
| "conforms ZRecord = (\<lambda>j. case j of JObj _ \<Rightarrow> True | _ \<Rightarrow> False)"
| "conforms ZUnknown = (\<lambda>_. True)"
| "conforms (ZArray s lo hi) = (\<lambda>j. case j of JArr vs \<Rightarrow> within lo hi (length vs) \<and> list_all (conforms s) vs | _ \<Rightarrow> False)"
| "conforms (ZNullable s) = (\<lambda>j. j = JNull \<or> conforms s j)"
| "conforms (ZOptional s) = conforms s"
| "conforms (ZDefault s d) = conforms s"
| "conforms (ZObject fs) = (\<lambda>j. case j of
       JObj vs \<Rightarrow>
         list_all (\<lambda>((k, s), _, p). case map_of vs k of None \<Rightarrow> accepts_absent s | Some v \<Rightarrow> p v)
           (zip fs (map (map_prod id conforms) fs)) \<and>
         list_all (\<lambda>(k, _). k \<in> fst ` set fs) vs
     | _ \<Rightarrow> False)"

lemma conforms_object:
  "conforms (ZObject fs) j \<longleftrightarrow>
     (\<exists>vs. j = JObj vs \<and> (\<forall>(k, s) \<in> set fs. case map_of vs k of None \<Rightarrow> accepts_absent s | Some v \<Rightarrow> conforms s v) \<and>
        fst ` set vs \<subseteq> fst ` set fs)"
proof -
  have "list_all (\<lambda>((k, s), _, p). case map_of vs k of None \<Rightarrow> accepts_absent s | Some v \<Rightarrow> p v)
      (zip gs (map (map_prod id conforms) gs)) \<longleftrightarrow>
    (\<forall>(k, s) \<in> set gs. case map_of vs k of None \<Rightarrow> accepts_absent s | Some v \<Rightarrow> conforms s v)"
    for vs and gs :: "(string \<times> schema) list"
    by (induction gs) auto
  moreover have "list_all (\<lambda>(k, _). k \<in> fst ` set fs) vs \<longleftrightarrow> fst ` set vs \<subseteq> fst ` set fs" for vs :: "(string \<times> json) list"
    by (simp add: list_all_iff image_subset_iff split_def)
  ultimately show ?thesis by (cases j) simp_all
qed

declare conforms.simps(12) [simp del]

lemma conforms_field:
  assumes "conforms (ZObject fs) j" and "(k, s) \<in> set fs"
  shows "case json_field k j of None \<Rightarrow> accepts_absent s | Some v \<Rightarrow> conforms s v"
  using assms by (auto simp: conforms_object json_field_def)

text \<open>\<open>safeParse s j\<close> is the data of a successful parse, \<open>None\<close> a failed one.\<close>

locale schema_validator =
  fixes safeParse :: "schema \<Rightarrow> json \<Rightarrow> json option"
  assumes sound: "safeParse s j = Some d \<Longrightarrow> conforms s d"
begin

lemma field:
  "safeParse (ZObject fs) j = Some d \<Longrightarrow> (k, s) \<in> set fs \<Longrightarrow>
     case json_field k d of None \<Rightarrow> accepts_absent s | Some v \<Rightarrow> conforms s v"
  using sound conforms_field by blast

end

subsection \<open>A parser\<close>

text \<open>An executable parser with the law: it strips unknown fields, fills in defaults and coerces digits.  An
  absent value is \<open>None\<close>.\<close>

primrec zparse :: "schema \<Rightarrow> json option \<Rightarrow> json option option" where
  "zparse (ZString cs) = (\<lambda>x. case x of Some (JStr s) \<Rightarrow> if list_all (\<lambda>c. check_string c s) cs then Some x else None | _ \<Rightarrow> None)"
| "zparse (ZEnum vs) = (\<lambda>x. case x of Some (JStr s) \<Rightarrow> if s \<in> set vs then Some x else None | _ \<Rightarrow> None)"
| "zparse ZBoolean = (\<lambda>x. case x of Some (JBool _) \<Rightarrow> Some x | _ \<Rightarrow> None)"
| "zparse (ZInt lo hi) = (\<lambda>x. case x of Some (JNum n) \<Rightarrow> if within lo hi n then Some x else None | _ \<Rightarrow> None)"
| "zparse (ZCoerceInt lo hi) = (\<lambda>x. case x of
       Some (JNum n) \<Rightarrow> if within lo hi n then Some x else None
     | Some (JStr s) \<Rightarrow> if s \<noteq> '''' \<and> list_all digit_char s \<and> within lo hi (int (read_nat s))
                       then Some (Some (JNum (int (read_nat s)))) else None
     | _ \<Rightarrow> None)"
| "zparse ZRecord = (\<lambda>x. case x of Some (JObj _) \<Rightarrow> Some x | _ \<Rightarrow> None)"
| "zparse ZUnknown = (\<lambda>x. Some x)"
| "zparse (ZArray s lo hi) = (\<lambda>x. case x of
       Some (JArr vs) \<Rightarrow>
         if within lo hi (length vs) then
           (let ps = map (\<lambda>v. zparse s (Some v)) vs
            in if list_all (\<lambda>p. case p of Some (Some _) \<Rightarrow> True | _ \<Rightarrow> False) ps
               then Some (Some (JArr (map (\<lambda>p. the (the p)) ps))) else None)
         else None
     | _ \<Rightarrow> None)"
| "zparse (ZNullable s) = (\<lambda>x. if x = Some JNull then Some x else zparse s x)"
| "zparse (ZOptional s) = (\<lambda>x. if x = None then Some None else zparse s x)"
| "zparse (ZDefault s d) = (\<lambda>x. zparse s (if x = None then Some d else x))"
| "zparse (ZObject fs) = (\<lambda>x. case x of
       Some (JObj vs) \<Rightarrow>
         (let ps = map (\<lambda>(k, p). (k, p (map_of vs k))) (map (map_prod id zparse) fs)
          in if distinct (map fst fs) \<and> list_all (\<lambda>(_, p). p \<noteq> None) ps
             then Some (Some (JObj (map (\<lambda>(k, p). (k, the (the p))) (filter (\<lambda>(_, p). p \<noteq> Some None) ps)))) else None)
     | _ \<Rightarrow> None)"

definition zod_safeParse :: "schema \<Rightarrow> json \<Rightarrow> json option" where
  "zod_safeParse s j = (case zparse s (Some j) of Some (Some d) \<Rightarrow> Some d | _ \<Rightarrow> None)"

lemma map_of_parsed:
  assumes "distinct (map fst fs)" and "(k, s) \<in> set fs"
  shows "map_of (map (\<lambda>(k, p). (k, the (the p))) (filter (\<lambda>(_, p). p \<noteq> Some None) (map (\<lambda>(k, s). (k, q s k)) fs))) k =
    (if q s k = Some None then None else Some (the (the (q s k))))"
  using assms
proof (induction fs)
  case (Cons f fs)
  have "map_of (map (\<lambda>(k, p). (k, the (the p))) (filter (\<lambda>(_, p). p \<noteq> Some None) (map (\<lambda>(k, s). (k, q s k)) gs))) k = None"
    if "k \<notin> fst ` set gs" for gs using that by (induction gs) auto
  with Cons show ?case by (cases f) (auto simp: image_iff)
qed simp

lemma zparse_object:
  "zparse (ZObject fs) x = Some y \<longleftrightarrow>
     (\<exists>vs. x = Some (JObj vs) \<and> distinct (map fst fs) \<and> (\<forall>(k, s) \<in> set fs. zparse s (map_of vs k) \<noteq> None) \<and>
        y = Some (JObj (map (\<lambda>(k, p). (k, the (the p)))
              (filter (\<lambda>(_, p). p \<noteq> Some None) (map (\<lambda>(k, s). (k, zparse s (map_of vs k))) fs)))))"
proof -
  have "map (\<lambda>(k, p). (k, p (map_of vs k))) (map (map_prod id zparse) fs) = map (\<lambda>(k, s). (k, zparse s (map_of vs k))) fs"
    for vs by (induction fs) auto
  then show ?thesis
    by (cases x; cases "the x") (auto simp: list_all_iff split_def simp del: map_map)
qed

lemma zparse_present: "zparse s (Some v) \<noteq> Some None"
  by (induction s arbitrary: v) (simp_all add: zparse_object Let_def split: option.splits json.splits if_splits del: zparse.simps(12))

lemma zparse_conforms:
  "(zparse s x = Some (Some d) \<longrightarrow> conforms s d) \<and> (zparse s x = Some None \<longrightarrow> accepts_absent s)"
proof (induction s arbitrary: x d)
  case (ZArray s lo hi)
  have "conforms s (the (the (zparse s (Some v))))" if "case zparse s (Some v) of Some (Some _) \<Rightarrow> True | _ \<Rightarrow> False" for v
    using that ZArray [of "Some v"] by (auto split: option.splits)
  then show ?case by (auto simp: Let_def list_all_iff comp_def split: option.splits json.splits if_splits)
next
  case (ZObject fs)
  show ?case
  proof (intro conjI impI)
    assume "zparse (ZObject fs) x = Some (Some d)"
    then obtain vs where d: "distinct (map fst fs)" and ok: "\<forall>(k, s) \<in> set fs. zparse s (map_of vs k) \<noteq> None"
      and y: "d = JObj (map (\<lambda>(k, p). (k, the (the p)))
              (filter (\<lambda>(_, p). p \<noteq> Some None) (map (\<lambda>(k, s). (k, zparse s (map_of vs k))) fs)))" (is "d = JObj ?ws")
      unfolding zparse_object by blast
    have "case map_of ?ws k of None \<Rightarrow> accepts_absent s | Some v \<Rightarrow> conforms s v" if ks: "(k, s) \<in> set fs" for k s
    proof -
      have "zparse s (map_of vs k) \<noteq> None" using ok ks by blast
      with ZObject [OF ks, of s "map_of vs k"] show ?thesis
        unfolding map_of_parsed [OF d ks, of "\<lambda>s k. zparse s (map_of vs k)"] by (auto split: option.splits)
    qed
    moreover have "fst ` set ?ws \<subseteq> fst ` set fs" by (force simp: split_def)
    ultimately show "conforms (ZObject fs) d" unfolding y conforms_object by auto
  next
    assume "zparse (ZObject fs) x = Some None"
    then show "accepts_absent (ZObject fs)" unfolding zparse_object by simp
  qed
qed (auto split: option.splits json.splits if_splits simp: within_def zparse_present)

interpretation zod: schema_validator zod_safeParse
  by unfold_locales (auto simp: zod_safeParse_def dest!: zparse_conforms [THEN conjunct1, rule_format] split: option.splits)

section \<open>Reading validated data\<close>

text \<open>
  The handlers cast the validated body to the input type of a service.  The cast is a function that
  gives \<open>None\<close> where a field does not have the type the cast claims; the type theorems show that
  this never happens behind \<open>validate\<close>.
\<close>

definition as_str :: "json \<Rightarrow> string option" where
  "as_str j = (case j of JStr s \<Rightarrow> Some s | _ \<Rightarrow> None)"

definition as_bool :: "json \<Rightarrow> bool option" where
  "as_bool j = (case j of JBool b \<Rightarrow> Some b | _ \<Rightarrow> None)"

definition as_int :: "json \<Rightarrow> int option" where
  "as_int j = (case j of JNum n \<Rightarrow> Some n | _ \<Rightarrow> None)"

definition as_object :: "json \<Rightarrow> json option" where
  "as_object j = (case j of JObj _ \<Rightarrow> Some j | _ \<Rightarrow> None)"

definition as_list :: "(json \<Rightarrow> 'a option) \<Rightarrow> json \<Rightarrow> 'a list option" where
  "as_list f j = (case j of JArr vs \<Rightarrow> those (map f vs) | _ \<Rightarrow> None)"

definition as_enum :: "(string \<times> 'a) list \<Rightarrow> json \<Rightarrow> 'a option" where
  "as_enum names j = Option.bind (as_str j) (map_of names)"

definition as_nullable :: "(json \<Rightarrow> 'a option) \<Rightarrow> json \<Rightarrow> 'a option option" where
  "as_nullable f j = (if j = JNull then Some None else map_option Some (f j))"

definition required :: "(json \<Rightarrow> 'a option) \<Rightarrow> string \<Rightarrow> json \<Rightarrow> 'a option" where
  "required f k j = Option.bind (json_field k j) f"

definition optional :: "(json \<Rightarrow> 'a option) \<Rightarrow> string \<Rightarrow> json \<Rightarrow> 'a option option" where
  "optional f k j = (case json_field k j of None \<Rightarrow> Some None | Some v \<Rightarrow> map_option Some (f v))"

text \<open>A field that may be absent or \<^verbatim>\<open>null\<close>, where the service treats both alike.\<close>

definition nullish_field :: "(json \<Rightarrow> 'a option) \<Rightarrow> string \<Rightarrow> json \<Rightarrow> 'a option option" where
  "nullish_field f k j = map_option (case_option None id) (optional (as_nullable f) k j)"

text \<open>\<open>reads s f\<close>: on data that conforms to the schema the cast succeeds.\<close>

definition reads :: "schema \<Rightarrow> (json \<Rightarrow> 'a option) \<Rightarrow> bool" where
  "reads s f = (\<forall>j. conforms s j \<longrightarrow> f j \<noteq> None)"

named_theorems casts

lemma reads_basic [casts]:
  "reads (ZString cs) as_str" "reads ZBoolean as_bool" "reads (ZInt lo hi) as_int" "reads (ZCoerceInt lo hi) as_int"
  "reads ZRecord as_object"
  by (auto simp: reads_def as_str_def as_bool_def as_int_def as_object_def split: json.splits)

lemma reads_enum [casts]: "list_all (\<lambda>v. map_of names v \<noteq> None) vs \<Longrightarrow> reads (ZEnum vs) (as_enum names)"
  by (auto simp: reads_def as_enum_def as_str_def list_all_iff split: json.splits)

lemma those_Some: "(\<And>x. x \<in> set xs \<Longrightarrow> f x \<noteq> None) \<Longrightarrow> those (map f xs) = Some (map (\<lambda>x. the (f x)) xs)"
  by (induction xs) (fastforce split: option.split)+

lemma reads_list [casts]: "reads s f \<Longrightarrow> reads (ZArray s lo hi) (as_list f)"
  by (auto simp: reads_def as_list_def list_all_iff those_Some split: json.splits)

lemma reads_nullable [casts]: "reads s f \<Longrightarrow> reads (ZNullable s) (as_nullable f)"
  by (auto simp: reads_def as_nullable_def)

lemma reads_optional [casts]: "reads s f \<Longrightarrow> reads (ZOptional s) f" "reads s f \<Longrightarrow> reads (ZDefault s d) f"
  by (simp_all add: reads_def)

lemma reads_required:
  assumes "reads s f" and "conforms (ZObject fs) j" and "(k, s) \<in> set fs" and "\<not> accepts_absent s"
  shows "required f k j \<noteq> None"
  using conforms_field [OF assms(2,3)] assms(1,4) by (auto simp: required_def reads_def split: option.splits)

lemma reads_optional_field:
  assumes "reads s f" and "conforms (ZObject fs) j" and "(k, s) \<in> set fs"
  shows "optional f k j \<noteq> None"
  using conforms_field [OF assms(2,3)] assms(1) by (auto simp: optional_def reads_def split: option.splits)

lemma reads_nullish:
  assumes "reads s (as_nullable f)" and "conforms (ZObject fs) j" and "(k, s) \<in> set fs"
  shows "nullish_field f k j \<noteq> None"
  using reads_optional_field [OF assms] by (auto simp: nullish_field_def)

lemma bind_defined: "f \<noteq> None \<Longrightarrow> (\<And>x. f = Some x \<Longrightarrow> g x \<noteq> None) \<Longrightarrow> Option.bind f g \<noteq> None"
  by (cases f) auto

text \<open>What a successful cast says of the value.\<close>

lemma required_str:
  assumes "required as_str k j = Some x" and "conforms (ZObject fs) j" and "(k, ZString cs) \<in> set fs" and "c \<in> set cs"
  shows "check_string c x"
  using conforms_field [OF assms(2,3)] assms(1,4)
  by (auto simp: required_def as_str_def list_all_iff split: option.splits json.splits bind_splits)

lemma optional_str:
  assumes "optional as_str k j = Some (Some x)" and "conforms (ZObject fs) j"
    and "(k, ZOptional (ZString cs)) \<in> set fs" and "c \<in> set cs"
  shows "check_string c x"
  using conforms_field [OF assms(2,3)] assms(1,4)
  by (auto simp: optional_def as_str_def list_all_iff split: option.splits json.splits)

lemma nullish_str:
  assumes "nullish_field as_str k j = Some (Some x)" and "conforms (ZObject fs) j"
    and "(k, ZOptional (ZNullable (ZString cs))) \<in> set fs" and "c \<in> set cs"
  shows "check_string c x"
  using conforms_field [OF assms(2,3)] assms(1,4)
  by (auto simp: nullish_field_def optional_def as_nullable_def as_str_def list_all_iff split: option.splits json.splits if_splits)

section \<open>Requests and answers\<close>

record http_request = request +
  rq_idempotency_key :: "string option"
  rq_correlation_id :: "string option"
  rq_query :: json
  rq_body :: json

type_synonym answer = "nat \<times> json"

text \<open>\<^verbatim>\<open>responseEnvelopeMiddleware\<close>: the identifiers of a request, and the three ways to answer it.\<close>

definition responseEnvelope :: "timestamp \<Rightarrow> 'b http_request_scheme \<Rightarrow> 'a base_scheme \<Rightarrow> json \<times> 'a base_scheme" where
  "responseEnvelope now rq w =
     (let (c, w1) = (if truthy (rq_correlation_id rq) then (the (rq_correlation_id rq), w) else draw w);
          (i, w2) = draw w1
      in (JObj [(''correlation_id'', JStr c), (''request_id'', JStr i), (''timestamp'', JNum now)], w2))"

definition res_success :: "json \<Rightarrow> json \<Rightarrow> answer" where
  "res_success meta d = (200, JObj [(''data'', d), (''error'', JNull), (''meta'', meta)])"

definition res_created :: "json \<Rightarrow> json \<Rightarrow> answer" where
  "res_created meta d = (201, JObj [(''data'', d), (''error'', JNull), (''meta'', meta)])"

definition res_accepted :: "json \<Rightarrow> json \<Rightarrow> answer" where
  "res_accepted meta d = (202, JObj [(''data'', d), (''error'', JNull), (''meta'', meta)])"

definition error_answer :: "error \<Rightarrow> answer" where
  "error_answer e = (let (st, c) = errorHandlerMiddleware e in (st, JObj [(''error'', JObj [(''code'', JStr c)])]))"

text \<open>What a handler does with the outcome of the service: \<^verbatim>\<open>catch (err) { next(err); }\<close>.\<close>

definition answer_with :: "('a \<Rightarrow> answer) \<Rightarrow> 'a outcome \<times> 's \<Rightarrow> answer \<times> 's" where
  "answer_with f r = (case r of (Inl e, s) \<Rightarrow> (error_answer e, s) | (Inr a, s) \<Rightarrow> (f a, s))"

text \<open>\<^verbatim>\<open>validate\<close> and \<^verbatim>\<open>validateQuery\<close>: the continuation receives the data of the parse.\<close>

definition validate ::
    "(schema \<Rightarrow> json \<Rightarrow> json option) \<Rightarrow> schema \<Rightarrow> json \<Rightarrow> (json \<Rightarrow> 's \<Rightarrow> answer \<times> 's) \<Rightarrow> 's \<Rightarrow> answer \<times> 's" where
  "validate safeParse schema input next s =
     (case safeParse schema input of None \<Rightarrow> (error_answer ValidationError, s) | Some d \<Rightarrow> next d s)"

text \<open>A cast that fails would let the service run on data of another type; this is the value of the model for it.\<close>

definition cast_to :: "(json \<Rightarrow> 'a option) \<Rightarrow> json \<Rightarrow> ('a \<Rightarrow> 's \<Rightarrow> answer \<times> 's) \<Rightarrow> 's \<Rightarrow> answer \<times> 's" where
  "cast_to f d k s = (case f d of None \<Rightarrow> (error_answer (JsError ''TypeError''), s) | Some x \<Rightarrow> k x s)"

section \<open>Routes\<close>

text \<open>
  The environment of a request: cryptography and keys, whether Redis answers, the instant, zod, the
  path matcher of Express, which gives the parameters of a path that matches a pattern, and the texts
  that PostgreSQL accepts as a UUID.
\<close>

record http_env =
  he_crypto :: crypto_lib
  he_keys :: key_store
  he_redis_up :: bool
  he_now :: timestamp
  he_safeParse :: "schema \<Rightarrow> json \<Rightarrow> json option"
  he_match :: "string \<Rightarrow> string \<Rightarrow> (string \<Rightarrow> string) option"
  he_pg_uuid :: "string \<Rightarrow> bool"

text \<open>A parameter of the path goes into a statement as a UUID; \<open>he_pg_uuid\<close> says whether PostgreSQL reads it
  as one.  \<open>checks\<close> is what the service tests before that statement.\<close>

definition with_uuid ::
    "http_env \<Rightarrow> string \<Rightarrow> ('s \<Rightarrow> unit outcome) \<Rightarrow> ('s \<Rightarrow> 'a outcome \<times> 's) \<Rightarrow> 's \<Rightarrow> 'a outcome \<times> 's" where
  "with_uuid env p checks k s =
     (if he_pg_uuid env p then k s
      else case checks s of Inl e \<Rightarrow> (Inl e, s) | Inr _ \<Rightarrow> (Inl (PgError ''22P02''), s))"

definition no_checks :: "'s \<Rightarrow> unit outcome" where
  "no_checks s = Inr ()"

text \<open>A read leaves the state alone.\<close>

definition read_only :: "('s \<Rightarrow> 'a outcome) \<Rightarrow> 's \<Rightarrow> 'a outcome \<times> 's" where
  "read_only f s = (f s, s)"

text \<open>A handler behind \<open>orgMiddleware\<close>: it gets the parameters of the path, the metadata of the response,
  the user and the organization.\<close>

type_synonym 'w handler = "(string \<Rightarrow> string) \<Rightarrow> http_request \<Rightarrow> json \<Rightarrow> req_user \<Rightarrow> org_context \<Rightarrow> 'w \<Rightarrow> answer \<times> 'w"

record 'w route =
  ro_method :: string
  ro_path :: string
  ro_idempotent :: bool
  ro_handler :: "'w handler"

definition mk_route :: "string \<Rightarrow> string \<Rightarrow> bool \<Rightarrow> 'w handler \<Rightarrow> 'w route" where
  "mk_route m p idem h = \<lparr>ro_method = m, ro_path = p, ro_idempotent = idem, ro_handler = h\<rparr>"

definition idem_request_of :: "http_request \<Rightarrow> req_user \<Rightarrow> org_context \<Rightarrow> idem_request" where
  "idem_request_of rq u c =
     \<lparr>ir_method = rq_method rq, ir_key = rq_idempotency_key rq, ir_userId = Some (ru_userId u),
      ir_contextOrg = Some (oc_orgId c), ir_userOrg = Some (ru_orgId u), ir_path = rq_path rq\<rparr>"

definition run_route ::
    "http_env \<Rightarrow> 'a dir_scheme route \<Rightarrow> (string \<Rightarrow> string) \<Rightarrow> http_request \<Rightarrow> json \<Rightarrow> idem_row list \<times> 'a dir_scheme
     \<Rightarrow> answer \<times> idem_row list \<times> 'a dir_scheme" where
  "run_route env r params rq meta st =
     (let (ks, w) = st in
      case orgMiddleware (he_crypto env) (he_keys env) (he_redis_up env) (he_now env) (request.truncate rq) w of
        (Inl e, w1) \<Rightarrow> (error_answer e, ks, w1)
      | (Inr (u, c), w1) \<Rightarrow>
          if ro_idempotent r then
            (case idempotencyMiddleware (hashToken (he_crypto env)) (he_now env) (idem_request_of rq u c)
                    (ro_handler r params rq meta u c) (ks, w1) of
               (Inl e, st') \<Rightarrow> (error_answer e, st')
             | (Inr a, st') \<Rightarrow> (a, st'))
          else (let (a, w2) = ro_handler r params rq meta u c w1 in (a, ks, w2)))"

text \<open>Express runs the first route, in the order of registration, whose method and path match.\<close>

fun find_route ::
    "(string \<Rightarrow> string \<Rightarrow> (string \<Rightarrow> string) option) \<Rightarrow> string \<Rightarrow> string \<Rightarrow> 'w route list
     \<Rightarrow> ('w route \<times> (string \<Rightarrow> string)) option" where
  "find_route match meth path [] = None"
| "find_route match meth path (r # rs) =
     (if ro_method r = meth \<and> match (ro_path r) path \<noteq> None then Some (r, the (match (ro_path r) path))
      else find_route match meth path rs)"

definition serve ::
    "http_env \<Rightarrow> 'a dir_scheme route list \<Rightarrow> http_request \<Rightarrow> idem_row list \<times> 'a dir_scheme
     \<Rightarrow> answer option \<times> idem_row list \<times> 'a dir_scheme" where
  "serve env routes rq st =
     (let (meta, w1) = responseEnvelope (he_now env) rq (snd st) in
      case find_route (he_match env) (rq_method rq) (rq_path rq) routes of
        None \<Rightarrow> (None, fst st, w1)
      | Some (r, params) \<Rightarrow> (let (a, st') = run_route env r params rq meta (fst st, w1) in (Some a, st')))"

lemma snd_answer_with [simp]: "snd (answer_with f r) = snd r"
  by (auto simp: answer_with_def split: prod.splits sum.splits)

lemma snd_read_uuid [simp]: "snd (with_uuid env p ch (read_only f) w) = w"
  by (auto simp: with_uuid_def read_only_def split: sum.splits)

lemma snd_validate_read:
  "(\<And>i. snd (k i w) = w) \<Longrightarrow> snd (validate sp s j (\<lambda>d. cast_to f d k) w) = w"
  by (auto simp: validate_def cast_to_def split: option.splits)

lemma find_route_mem: "find_route m meth path rs = Some (r, ps) \<Longrightarrow> r \<in> set rs \<and> ro_method r = meth \<and> m (ro_path r) path = Some ps"
  by (induction rs) (auto split: if_splits)

section \<open>What serving a request does to the state\<close>

text \<open>Before the handler runs, only identifiers are drawn and the Redis caches change.\<close>

lemma authenticate_redis: "authenticate cr ks up t h w = (r, w') \<Longrightarrow> \<exists>f. w' = w\<lparr>redis := f\<rparr>"
proof -
  assume a: "authenticate cr ks up t h w = (r, w')"
  have u: "\<exists>f. snd (resolveUser up t i w) = w\<lparr>redis := f\<rparr>" for i
    by (auto simp: resolveUser_def redis_setex_def Let_def split: option.splits intro: exI [of _ "redis w"])
  have s: "\<exists>f. w = w\<lparr>redis := f\<rparr>" by (rule exI [of _ "redis w"]) simp
  show ?thesis
  proof (cases "\<exists>i. w' = snd (resolveUser up t i w)")
    case False
    with a have "w' = w"
      by (auto simp: authenticate_def split: option.splits if_splits prod.splits sum.splits) (metis snd_conv)+
    with s show ?thesis by simp
  qed (use u in blast)
qed

lemma orgContext_redis: "orgContextMiddleware up t u h w = (r, w') \<Longrightarrow> \<exists>f. w' = w\<lparr>redis := f\<rparr>"
proof -
  assume a: "orgContextMiddleware up t u h w = (r, w')"
  have "\<exists>f. snd (resolveOrgContext up t i g w) = w\<lparr>redis := f\<rparr>" for i g
    by (auto simp: resolveOrgContext_def redis_setex_def Let_def split: option.splits prod.splits intro: exI [of _ "redis w"])
  moreover have "w' = w \<or> (\<exists>i g. w' = snd (resolveOrgContext up t i g w))"
    using a by (auto simp: orgContextMiddleware_def Let_def split: option.splits if_splits) (metis snd_conv)+
  moreover have "w = w\<lparr>redis := redis w\<rparr>" by simp
  ultimately show ?thesis by metis
qed

lemma orgMiddleware_redis: "orgMiddleware cr ks up t rq w = (r, w') \<Longrightarrow> \<exists>f. w' = w\<lparr>redis := f\<rparr>"
proof -
  assume a: "orgMiddleware cr ks up t rq w = (r, w')"
  obtain r1 w1 where 1: "authenticate cr ks up t (rq_authorization rq) w = (r1, w1)" by (cases "authenticate cr ks up t (rq_authorization rq) w")
  from authenticate_redis [OF 1] obtain f where f: "w1 = w\<lparr>redis := f\<rparr>" ..
  show ?thesis
  proof (cases r1)
    case (Inl e)
    with a 1 f show ?thesis by (auto simp: orgMiddleware_def)
  next
    case (Inr u)
    obtain r2 w2 where 2: "orgContextMiddleware up t (Some u) (rq_org_id rq) w1 = (r2, w2)"
      by (cases "orgContextMiddleware up t (Some u) (rq_org_id rq) w1")
    from orgContext_redis [OF 2] obtain g where "w2 = w1\<lparr>redis := g\<rparr>" ..
    moreover have "w' = w2" using a 1 2 Inr by (cases r2) (auto simp: orgMiddleware_def split: sum.splits)
    ultimately show ?thesis using f by auto
  qed
qed

lemma authenticate_drawn:
  "fst (authenticate cr ks up t h (w\<lparr>drawn := n\<rparr>)) = fst (authenticate cr ks up t h w)"
  by (simp add: authenticate_def resolveUser_def redis_get_def Let_def split: option.split prod.split)

lemma responseEnvelope_draws:
  "responseEnvelope now rq w = (meta, w') \<Longrightarrow> \<exists>n. drawn w \<le> n \<and> w' = w\<lparr>drawn := n\<rparr>"
  by (auto simp: responseEnvelope_def draw_def Let_def split: if_splits
        intro: exI [of _ "Suc (drawn w)"] exI [of _ "Suc (Suc (drawn w))"])

lemma idempotency_effect:
  "idempotencyMiddleware hash now req handler (ks, s) = (r, ks', s') \<Longrightarrow> s' = s \<or> s' = snd (handler s)"
  by (auto simp: idempotencyMiddleware_def Let_def split: if_splits prod.splits sum.splits idem_result.splits)

lemma serve_cases:
  assumes "serve env routes rq (ks, w) = (a, ks', w')"
  obtains
    (no_handler) n f where "drawn w \<le> n" "w' = w\<lparr>drawn := n, redis := f\<rparr>"
  | (handled) n f r params meta u c x where "drawn w \<le> n" "r \<in> set routes" "ro_method r = rq_method rq"
      "orgMiddleware (he_crypto env) (he_keys env) (he_redis_up env) (he_now env) (request.truncate rq) (w\<lparr>drawn := n\<rparr>) =
         (Inr (u, c), w\<lparr>drawn := n, redis := f\<rparr>)"
      "ro_handler r params rq meta u c (w\<lparr>drawn := n, redis := f\<rparr>) = (x, w')"
proof -
  obtain meta w0 where m: "responseEnvelope (he_now env) rq w = (meta, w0)" by (cases "responseEnvelope (he_now env) rq w")
  from responseEnvelope_draws [OF m] obtain n where n: "drawn w \<le> n" "w0 = w\<lparr>drawn := n\<rparr>" by blast
  show thesis
  proof (cases "find_route (he_match env) (rq_method rq) (rq_path rq) routes")
    case None
    with assms m n show thesis by (intro no_handler [of n "redis w"]) (auto simp: serve_def)
  next
    case (Some rp)
    obtain r params where rp: "rp = (r, params)" by (cases rp)
    from Some rp find_route_mem have r: "r \<in> set routes" "ro_method r = rq_method rq" by blast+
    obtain o1 w1 where 1: "orgMiddleware (he_crypto env) (he_keys env) (he_redis_up env) (he_now env) (request.truncate rq) w0 = (o1, w1)"
      by (cases "orgMiddleware (he_crypto env) (he_keys env) (he_redis_up env) (he_now env) (request.truncate rq) w0")
    from orgMiddleware_redis [OF 1] n obtain f where f: "w1 = w\<lparr>drawn := n, redis := f\<rparr>" by auto
    have run: "run_route env r params rq meta (ks, w0) = (the a, ks', w')"
      using assms m Some rp by (auto simp: serve_def split: prod.splits)
    show thesis
    proof (cases o1)
      case (Inl e)
      with run 1 f have "w' = w\<lparr>drawn := n, redis := f\<rparr>" by (auto simp: run_route_def)
      with n(1) show thesis by (rule no_handler)
    next
      case (Inr uc)
      obtain u c where uc: "uc = (u, c)" by (cases uc)
      have "w' = w1 \<or> w' = snd (ro_handler r params rq meta u c w1)"
        using run 1 Inr uc
        by (auto simp: run_route_def split: if_splits prod.splits sum.splits dest!: idempotency_effect)
      then show thesis
      proof
        assume "w' = w1"
        with n(1) f show thesis by (intro no_handler) auto
      next
        assume "w' = snd (ro_handler r params rq meta u c w1)"
        then have "ro_handler r params rq meta u c (w\<lparr>drawn := n, redis := f\<rparr>) =
            (fst (ro_handler r params rq meta u c w1), w')" using f by simp
        with n r 1 f Inr uc show thesis by (intro handled) auto
      qed
    qed
  qed
qed

section \<open>Invariants of an API\<close>

text \<open>
  What a router promises of the tables behind it: the invariant \<open>P\<close> does not depend on what the
  middlewares write, and every handler keeps it when the data it is given was validated.  Then every
  request keeps it.
\<close>

locale api_invariant =
  fixes routes :: "http_env \<Rightarrow> 'a dir_scheme route list" and P :: "'a dir_scheme \<Rightarrow> bool"
  assumes frame: "P w \<Longrightarrow> drawn w \<le> n \<Longrightarrow> P (w\<lparr>drawn := n, redis := f\<rparr>)"
    and handler: "schema_validator (he_safeParse env) \<Longrightarrow> r \<in> set (routes env) \<Longrightarrow> P w \<Longrightarrow>
      P (snd (ro_handler r params rq meta u c w))"
begin

lemma serve_keeps:
  assumes "schema_validator (he_safeParse env)" and "serve env (routes env) rq (ks, w) = (a, ks', w')" and "P w"
  shows "P w'"
  using assms(2)
proof (cases rule: serve_cases)
  case (no_handler n f)
  with frame [OF assms(3)] show ?thesis by simp
next
  case (handled n f r params meta u c x)
  with handler [OF assms(1) handled(2) frame [OF assms(3) handled(1), of f], where params = params and rq = rq and meta = meta and u = u and c = c]
  show ?thesis by simp
qed

end

end
