(* ===== verification/Feature_Flag.thy ===== *)
theory Feature_Flag
  imports Directory
begin

text \<open>
  \<^verbatim>\<open>src/modules/feature-flag/feature-flag.service.ts\<close>: flags in PostgreSQL behind two caches, one in each
  process (L1, five seconds) and one Redis hash (L2, no expiry), and the invalidation of both.
\<close>

section \<open>State\<close>

record feature_flag =
  ff_id :: uuid
  ff_key :: string
  ff_description :: "string option"
  ff_is_globally_enabled :: bool
  ff_rollout_percentage :: int
  ff_enabled_org_ids :: "uuid list"
  ff_disabled_org_ids :: "uuid list"
  ff_created_at :: timestamp
  ff_updated_at :: timestamp

text \<open>\<open>l1Cache\<close> is indexed by the process; \<open>l2\<close> is the hash \<^verbatim>\<open>featureflags:cache\<close>.\<close>

record flag_db = dir +
  feature_flags :: "feature_flag list"
  l1Cache :: "nat \<Rightarrow> string \<Rightarrow> (bool \<times> timestamp) option"
  l2 :: "string \<Rightarrow> json option"

definition L1_TTL_MS :: int where
  "L1_TTL_MS = 5000"

definition INVALIDATION_CHANNEL :: string where
  "INVALIDATION_CHANNEL = ''featureflag:invalidate''"

section \<open>Resolution and caches\<close>

definition resolveFlag :: "bool \<Rightarrow> uuid list \<Rightarrow> uuid list \<Rightarrow> uuid \<Rightarrow> bool" where
  "resolveFlag is_globally_enabled enabled_org_ids disabled_org_ids orgId =
     (if orgId \<in> set disabled_org_ids then False
      else if orgId \<in> set enabled_org_ids then True
      else is_globally_enabled)"

definition resolve_row :: "feature_flag \<Rightarrow> uuid \<Rightarrow> bool" where
  "resolve_row f = resolveFlag (ff_is_globally_enabled f) (ff_enabled_org_ids f) (ff_disabled_org_ids f)"

definition flag_json :: "feature_flag \<Rightarrow> json" where
  "flag_json f = JObj [(''is_globally_enabled'', JBool (ff_is_globally_enabled f)),
     (''enabled_org_ids'', JArr (map JStr (ff_enabled_org_ids f))),
     (''disabled_org_ids'', JArr (map JStr (ff_disabled_org_ids f)))]"

definition json_strings :: "json option \<Rightarrow> string list" where
  "json_strings j = (case j of Some (JArr xs) \<Rightarrow> concat (map (\<lambda>x. case x of JStr s \<Rightarrow> [s] | _ \<Rightarrow> []) xs) | _ \<Rightarrow> [])"

definition parse_flag :: "json \<Rightarrow> bool \<times> uuid list \<times> uuid list" where
  "parse_flag j =
     (json_field ''is_globally_enabled'' j = Some (JBool True),
      json_strings (json_field ''enabled_org_ids'' j), json_strings (json_field ''disabled_org_ids'' j))"

definition resolve_json :: "json \<Rightarrow> uuid \<Rightarrow> bool" where
  "resolve_json j orgId = (case parse_flag j of (g, en, di) \<Rightarrow> resolveFlag g en di orgId)"

definition l1CacheKey :: "uuid \<Rightarrow> string \<Rightarrow> string" where
  "l1CacheKey orgId flagKey = orgId @ '':'' @ flagKey"

definition set_l1 :: "nat \<Rightarrow> string \<Rightarrow> bool \<Rightarrow> timestamp \<Rightarrow> 'a flag_db_scheme \<Rightarrow> 'a flag_db_scheme" where
  "set_l1 p k v now w = w\<lparr>l1Cache := (l1Cache w)(p := (l1Cache w p)(k \<mapsto> (v, now + L1_TTL_MS)))\<rparr>"

definition loadFlagsIntoRedis :: "'a flag_db_scheme \<Rightarrow> 'a flag_db_scheme" where
  "loadFlagsIntoRedis w = w\<lparr>l2 := fold (\<lambda>f h. h(ff_key f \<mapsto> flag_json f)) (feature_flags w) (l2 w)\<rparr>"

text \<open>Which of the three accesses succeed: reading Redis, reading the database, writing Redis.\<close>

record flag_env =
  fe_redis_read :: bool
  fe_db_read :: bool
  fe_redis_write :: bool

definition isEnabled ::
    "flag_env \<Rightarrow> nat \<Rightarrow> timestamp \<Rightarrow> uuid \<Rightarrow> string \<Rightarrow> 'a flag_db_scheme \<Rightarrow> bool \<times> 'a flag_db_scheme" where
  "isEnabled env p now orgId flagKey w =
     (let cacheKey = l1CacheKey orgId flagKey;
          from_db =
            (if \<not> fe_db_read env then (False, w)
             else case List.find (\<lambda>f. ff_key f = flagKey) (feature_flags w) of
                    None \<Rightarrow> (False, set_l1 p cacheKey False now w)
                  | Some f \<Rightarrow>
                      (let result = resolve_row f orgId; w1 = set_l1 p cacheKey result now w
                       in if fe_redis_write env then (result, w1\<lparr>l2 := (l2 w1)(flagKey \<mapsto> flag_json f)\<rparr>)
                          else (False, w1)));
          from_redis =
            (if \<not> fe_redis_read env then from_db
             else case l2 w flagKey of
                    None \<Rightarrow> from_db
                  | Some j \<Rightarrow> (let result = resolve_json j orgId in (result, set_l1 p cacheKey result now w)))
      in case l1Cache w p cacheKey of
           Some (v, e) \<Rightarrow> if now < e then (v, w) else from_redis
         | None \<Rightarrow> from_redis)"

section \<open>Invalidation\<close>

definition ends_with :: "string \<Rightarrow> string \<Rightarrow> bool" where
  "ends_with suffix s = (length suffix \<le> length s \<and> drop (length s - length suffix) s = suffix)"

definition clear_l1 :: "nat \<Rightarrow> string \<Rightarrow> 'a flag_db_scheme \<Rightarrow> 'a flag_db_scheme" where
  "clear_l1 p flagKey w =
     w\<lparr>l1Cache := (l1Cache w)(p := (\<lambda>k. if ends_with ('':'' @ flagKey) k then None else l1Cache w p k))\<rparr>"

definition invalidateFlag :: "bool \<Rightarrow> nat \<Rightarrow> string \<Rightarrow> 'a flag_db_scheme \<Rightarrow> unit outcome \<times> 'a flag_db_scheme" where
  "invalidateFlag redis_up p flagKey w =
     (let w1 = clear_l1 p flagKey w in
      if redis_up
      then (Inr (), redis_publish INVALIDATION_CHANNEL (JObj [(''flagKey'', JStr flagKey)]) (w1\<lparr>l2 := (l2 w1)(flagKey := None)\<rparr>))
      else (Inl (JsError ''Error''), w1))"

text \<open>A message on the channel, in the process that listens.\<close>

definition onInvalidation :: "nat \<Rightarrow> json \<Rightarrow> 'a flag_db_scheme \<Rightarrow> 'a flag_db_scheme" where
  "onInvalidation p msg w = (case json_field ''flagKey'' msg of Some (JStr k) \<Rightarrow> clear_l1 p k w | _ \<Rightarrow> w)"

section \<open>Administration\<close>

definition createFlag ::
    "bool \<Rightarrow> nat \<Rightarrow> timestamp \<Rightarrow> string \<Rightarrow> bool option \<Rightarrow> string option \<Rightarrow> uuid list option \<Rightarrow> uuid list option
     \<Rightarrow> 'a flag_db_scheme \<Rightarrow> feature_flag outcome \<times> 'a flag_db_scheme" where
  "createFlag redis_up p now key ge desc en di w =
     (if key \<in> ff_key ` set (feature_flags w) then (Inl (PgError ''23505''), w)
      else if 10000 \<le> length (case_option [] id en) \<or> 10000 \<le> length (case_option [] id di) then (Inl (PgError ''23514''), w)
      else let (i, w1) = draw w;
               f = \<lparr>ff_id = i, ff_key = key, ff_description = desc, ff_is_globally_enabled = case_option False id ge,
                    ff_rollout_percentage = 0, ff_enabled_org_ids = case_option [] id en,
                    ff_disabled_org_ids = case_option [] id di, ff_created_at = now, ff_updated_at = now\<rparr>
           in case invalidateFlag redis_up p key (w1\<lparr>feature_flags := feature_flags w1 @ [f]\<rparr>) of
                (Inl e, w2) \<Rightarrow> (Inl e, w2) | (Inr _, w2) \<Rightarrow> (Inr f, w2))"

definition updateFlag ::
    "bool \<Rightarrow> nat \<Rightarrow> timestamp \<Rightarrow> uuid \<Rightarrow> bool option \<Rightarrow> uuid list option \<Rightarrow> uuid list option \<Rightarrow> string option
     \<Rightarrow> 'a flag_db_scheme \<Rightarrow> feature_flag option outcome \<times> 'a flag_db_scheme" where
  "updateFlag redis_up p now i ge en di desc w =
     (if (10000 \<le> length (case_option [] id en) \<or> 10000 \<le> length (case_option [] id di)) \<and> i \<in> ff_id ` set (feature_flags w)
      then (Inl (PgError ''23514''), w)
      else let P = (\<lambda>f. ff_id f = i);
               h = (\<lambda>f. f\<lparr>ff_is_globally_enabled := case_option (ff_is_globally_enabled f) id ge,
                          ff_enabled_org_ids := case_option (ff_enabled_org_ids f) id en,
                          ff_disabled_org_ids := case_option (ff_disabled_org_ids f) id di,
                          ff_description := case_option (ff_description f) Some desc, ff_updated_at := now\<rparr>);
               w1 = w\<lparr>feature_flags := update_where P h (feature_flags w)\<rparr>
           in case returning P h (feature_flags w) of
                None \<Rightarrow> (Inr None, w1)
              | Some f \<Rightarrow> (case invalidateFlag redis_up p (ff_key f) w1 of
                             (Inl e, w2) \<Rightarrow> (Inl e, w2) | (Inr _, w2) \<Rightarrow> (Inr (Some f), w2)))"

definition deleteFlag :: "bool \<Rightarrow> nat \<Rightarrow> uuid \<Rightarrow> 'a flag_db_scheme \<Rightarrow> unit outcome \<times> 'a flag_db_scheme" where
  "deleteFlag redis_up p i w =
     (let w1 = w\<lparr>feature_flags := delete_where (\<lambda>f. ff_id f = i) (feature_flags w)\<rparr> in
      case List.find (\<lambda>f. ff_id f = i) (feature_flags w) of
        Some f \<Rightarrow> (if ff_key f \<noteq> '''' then invalidateFlag redis_up p (ff_key f) w1 else (Inr (), w1))
      | None \<Rightarrow> (Inr (), w1))"

definition listFlags :: "'a flag_db_scheme \<Rightarrow> feature_flag list" where
  "listFlags w = sort_key ff_key (feature_flags w)"

section \<open>Coherence of the caches\<close>

lemma json_strings_JStr [simp]: "json_strings (Some (JArr (map JStr xs))) = xs"
  by (induction xs) (simp_all add: json_strings_def)

lemma resolve_flag_json [simp]: "resolve_json (flag_json f) = resolve_row f"
  by (simp add: resolve_json_def parse_flag_def flag_json_def json_field_def resolve_row_def fun_eq_iff)

text \<open>Every entry of the Redis hash is the current row of its flag.\<close>

definition flags_ok :: "'a flag_db_scheme \<Rightarrow> bool" where
  "flags_ok w =
     (distinct (map ff_id (feature_flags w)) \<and> distinct (map ff_key (feature_flags w)) \<and> '''' \<notin> ff_key ` set (feature_flags w) \<and>
      (\<forall>k j. l2 w k = Some j \<longrightarrow> (\<exists>f \<in> set (feature_flags w). ff_key f = k \<and> j = flag_json f)))"

text \<open>No entry of a process cache lives longer than five seconds from now.\<close>

definition l1_young :: "timestamp \<Rightarrow> 'a flag_db_scheme \<Rightarrow> bool" where
  "l1_young now w = (\<forall>p k v e. l1Cache w p k = Some (v, e) \<longrightarrow> e \<le> now + L1_TTL_MS)"

definition flag_value :: "uuid \<Rightarrow> string \<Rightarrow> 'a flag_db_scheme \<Rightarrow> bool" where
  "flag_value orgId flagKey w =
     (case List.find (\<lambda>f. ff_key f = flagKey) (feature_flags w) of None \<Rightarrow> False | Some f \<Rightarrow> resolve_row f orgId)"

lemma find_key:
  "flags_ok w \<Longrightarrow> f \<in> set (feature_flags w) \<Longrightarrow> List.find (\<lambda>x. ff_key x = ff_key f) (feature_flags w) = Some f"
  using find_by_key [of ff_key "feature_flags w" f "\<lambda>_. True"] by (simp add: flags_ok_def)

lemma flag_fields [simp]:
  "feature_flags (set_l1 p k v now w) = feature_flags w" "l2 (set_l1 p k v now w) = l2 w"
  "feature_flags (clear_l1 p k w) = feature_flags w" "l2 (clear_l1 p k w) = l2 w"
  "feature_flags (redis_publish c m w) = feature_flags w" "l2 (redis_publish c m w) = l2 w"
  "l1Cache (redis_publish c m w) = l1Cache w"
  by (simp_all add: set_l1_def clear_l1_def redis_publish_def)

lemma flags_ok_cong:
  "feature_flags w' = feature_flags w \<Longrightarrow> l2 w' = l2 w \<Longrightarrow> flags_ok w' = flags_ok w"
  by (simp add: flags_ok_def)

text \<open>Queries keep both.\<close>

lemma l1_young_set: "l1_young now w \<Longrightarrow> l1_young now (set_l1 p k v now w)"
  by (auto simp: l1_young_def set_l1_def)

lemma l1_young_clear: "l1_young now w \<Longrightarrow> l1_young now (clear_l1 p k w)"
  by (auto simp: l1_young_def clear_l1_def split: if_splits)

lemma isEnabled_keeps:
  assumes "flags_ok w" and "l1_young now w"
  shows "flags_ok (snd (isEnabled env p now g k w)) \<and> l1_young now (snd (isEnabled env p now g k w))"
proof -
  have y: "l1_young now (set_l1 p c v now w)" for c v using l1_young_set [OF assms(2)] .
  have o: "flags_ok (set_l1 p c v now w)" for c v using assms(1) by (simp add: flags_ok_def)
  have "flags_ok ((set_l1 p c v now w)\<lparr>l2 := (l2 w)(k \<mapsto> flag_json f)\<rparr>)"
    if "List.find (\<lambda>f. ff_key f = k) (feature_flags w) = Some f" for c v f
    using assms(1) find_SomeD [OF that] by (auto simp: flags_ok_def)
  moreover have "l1_young now (w'\<lparr>l2 := h\<rparr>) = l1_young now w'" for w' :: "'a flag_db_scheme" and h
    by (simp add: l1_young_def)
  ultimately show ?thesis
    using y o assms by (auto simp: isEnabled_def Let_def split: option.split prod.split)
qed

text \<open>Once the process caches have run out, a query answers from the table.\<close>

lemma isEnabled_exact:
  assumes "flags_ok w" and "\<And>v e. l1Cache w p (l1CacheKey g k) = Some (v, e) \<Longrightarrow> e \<le> now"
    and "fe_db_read env" and "fe_redis_write env"
  shows "fst (isEnabled env p now g k w) = flag_value g k w"
proof -
  have "resolve_json j g = flag_value g k w" if "l2 w k = Some j" for j
  proof -
    from assms(1) that obtain f where f: "f \<in> set (feature_flags w)" "ff_key f = k" "j = flag_json f"
      unfolding flags_ok_def by metis
    then show ?thesis using find_key [OF assms(1) f(1)] by (simp add: flag_value_def)
  qed
  moreover have "\<not> now < e" if "l1Cache w p (l1CacheKey g k) = Some (v, e)" for v e using assms(2) [OF that] by simp
  ultimately show ?thesis
    using assms(3,4) by (auto simp: isEnabled_def Let_def flag_value_def split: option.split)
qed

text \<open>Administration keeps both as long as Redis answers.\<close>

lemma l1_young_cong: "l1Cache w' = l1Cache w \<Longrightarrow> l1_young now w' = l1_young now w"
  by (simp add: l1_young_def)

lemma flags_ok_l2_subset:
  assumes "distinct (map ff_id (feature_flags w'))" "distinct (map ff_key (feature_flags w'))" "'''' \<notin> ff_key ` set (feature_flags w')"
    and "\<And>k j. l2 w' k = Some j \<Longrightarrow> \<exists>f \<in> set (feature_flags w'). ff_key f = k \<and> j = flag_json f"
  shows "flags_ok w'"
  using assms by (simp add: flags_ok_def)

lemma flags_okD: "flags_ok w \<Longrightarrow> l2 w k = Some j \<Longrightarrow> \<exists>f \<in> set (feature_flags w). ff_key f = k \<and> j = flag_json f"
  by (simp add: flags_ok_def)

text \<open>Rows with one key were changed, and that key was invalidated.\<close>

lemma invalidate_keeps:
  assumes "flags_ok w" and "l1_young now w" and "l2 w1 = l2 w" and "l1Cache w1 = l1Cache w"
    and "distinct (map ff_id (feature_flags w1))" "distinct (map ff_key (feature_flags w1))" "'''' \<notin> ff_key ` set (feature_flags w1)"
    and "\<And>f. f \<in> set (feature_flags w) \<Longrightarrow> ff_key f \<noteq> k \<Longrightarrow> f \<in> set (feature_flags w1)"
  shows "flags_ok (snd (invalidateFlag True p k w1)) \<and> l1_young now (snd (invalidateFlag True p k w1))"
proof
  show "flags_ok (snd (invalidateFlag True p k w1))"
    by (rule flags_ok_l2_subset)
       (use assms in \<open>auto simp: invalidateFlag_def Let_def split: if_splits dest!: flags_okD [OF assms(1)]\<close>)
  show "l1_young now (snd (invalidateFlag True p k w1))"
    using l1_young_clear [of now w1 p k] assms(2,4) by (simp add: invalidateFlag_def Let_def l1_young_def)
qed

lemma createFlag_keeps:
  assumes "flags_ok w" and "l1_young now w" and "entropy w (drawn w) \<notin> ff_id ` set (feature_flags w)" and "key \<noteq> ''''"
  shows "flags_ok (snd (createFlag True p now key ge desc en di w)) \<and> l1_young now (snd (createFlag True p now key ge desc en di w))"
proof (cases "key \<in> ff_key ` set (feature_flags w) \<or> 10000 \<le> length (case_option [] id en) \<or> 10000 \<le> length (case_option [] id di)")
  case True
  with assms show ?thesis by (auto simp: createFlag_def)
next
  case False
  let ?f = "\<lparr>ff_id = entropy w (drawn w), ff_key = key, ff_description = desc, ff_is_globally_enabled = case_option False id ge,
    ff_rollout_percentage = 0, ff_enabled_org_ids = case_option [] id en,
    ff_disabled_org_ids = case_option [] id di, ff_created_at = now, ff_updated_at = now\<rparr>"
  let ?w1 = "w\<lparr>drawn := Suc (drawn w), feature_flags := feature_flags w @ [?f]\<rparr>"
  have "snd (createFlag True p now key ge desc en di w) = snd (invalidateFlag True p key ?w1)"
    using False by (simp add: createFlag_def draw_def Let_def invalidateFlag_def)
  moreover have "flags_ok (snd (invalidateFlag True p key ?w1)) \<and> l1_young now (snd (invalidateFlag True p key ?w1))"
    by (rule invalidate_keeps [OF assms(1,2)]) (use False assms in \<open>auto simp: flags_ok_def\<close>)
  ultimately show ?thesis by simp
qed

lemma updateFlag_keeps:
  assumes ok: "flags_ok w" and "l1_young now w"
  shows "flags_ok (snd (updateFlag True p now i ge en di desc w)) \<and> l1_young now (snd (updateFlag True p now i ge en di desc w))"
proof (cases "(10000 \<le> length (case_option [] id en) \<or> 10000 \<le> length (case_option [] id di)) \<and> i \<in> ff_id ` set (feature_flags w)")
  case True
  with assms show ?thesis by (simp add: updateFlag_def)
next
  case False
  let ?h = "\<lambda>f. f\<lparr>ff_is_globally_enabled := case_option (ff_is_globally_enabled f) id ge,
     ff_enabled_org_ids := case_option (ff_enabled_org_ids f) id en, ff_disabled_org_ids := case_option (ff_disabled_org_ids f) id di,
     ff_description := case_option (ff_description f) Some desc, ff_updated_at := now\<rparr>"
  let ?w1 = "w\<lparr>feature_flags := update_where (\<lambda>f. ff_id f = i) ?h (feature_flags w)\<rparr>"
  show ?thesis
  proof (cases "List.find (\<lambda>f. ff_id f = i) (feature_flags w)")
    case None
    then have "update_where (\<lambda>f. ff_id f = i) ?h (feature_flags w) = feature_flags w"
      by (intro update_where_none) (auto simp: find_None_iff)
    with None False assms show ?thesis by (auto simp: updateFlag_def returning_def Let_def)
  next
    case (Some f)
    have d: "distinct (map ff_id (feature_flags w))" using ok by (simp add: flags_ok_def)
    have "snd (updateFlag True p now i ge en di desc w) = snd (invalidateFlag True p (ff_key f) ?w1)"
      using False Some by (auto simp: updateFlag_def returning_def Let_def invalidateFlag_def)
    moreover have "flags_ok (snd (invalidateFlag True p (ff_key f) ?w1)) \<and> l1_young now (snd (invalidateFlag True p (ff_key f) ?w1))"
    proof (rule invalidate_keeps [OF assms])
      fix x
      assume x: "x \<in> set (feature_flags w)" "ff_key x \<noteq> ff_key f"
      with find_SomeD [OF Some] inj_on_key [OF d, of x f] have "ff_id x \<noteq> i" by auto
      with x(1) show "x \<in> set (feature_flags ?w1)" by (auto simp: in_update_where)
    qed (use ok in \<open>simp_all add: map_update_where_same image_update_where_same flags_ok_def\<close>)
    ultimately show ?thesis by simp
  qed
qed

lemma deleteFlag_keeps:
  assumes ok: "flags_ok w" and "l1_young now w"
  shows "flags_ok (snd (deleteFlag True p i w)) \<and> l1_young now (snd (deleteFlag True p i w))"
proof (cases "List.find (\<lambda>f. ff_id f = i) (feature_flags w)")
  case None
  then have "delete_where (\<lambda>f. ff_id f = i) (feature_flags w) = feature_flags w"
    by (auto simp: delete_where_def find_None_iff filter_id_conv)
  with None assms show ?thesis by (simp add: deleteFlag_def Let_def)
next
  case (Some f)
  let ?w1 = "w\<lparr>feature_flags := delete_where (\<lambda>f. ff_id f = i) (feature_flags w)\<rparr>"
  have d: "distinct (map ff_id (feature_flags w))" and f: "f \<in> set (feature_flags w)" "ff_id f = i" "ff_key f \<noteq> ''''"
    using ok find_SomeD [OF Some] by (auto simp: flags_ok_def image_iff)
  have "flags_ok (snd (invalidateFlag True p (ff_key f) ?w1)) \<and> l1_young now (snd (invalidateFlag True p (ff_key f) ?w1))"
  proof (rule invalidate_keeps [OF assms])
    fix x
    assume x: "x \<in> set (feature_flags w)" "ff_key x \<noteq> ff_key f"
    with f inj_on_key [OF d, of x f] have "ff_id x \<noteq> i" by auto
    with x(1) show "x \<in> set (feature_flags ?w1)" by simp
  qed (use ok in \<open>auto simp: flags_ok_def delete_where_def distinct_map_filter\<close>)
  with Some f show ?thesis by (simp add: deleteFlag_def Let_def)
qed

lemma fold_put:
  "fold (\<lambda>f h. h(ff_key f \<mapsto> flag_json f)) fs h k = Some j \<Longrightarrow>
   (\<exists>f \<in> set fs. ff_key f = k \<and> j = flag_json f) \<or> h k = Some j"
proof (induction fs arbitrary: h)
  case (Cons f fs)
  from Cons.IH [of "h(ff_key f \<mapsto> flag_json f)"] Cons.prems show ?case by (auto split: if_splits)
qed simp

lemma reload_keeps: "flags_ok w \<Longrightarrow> flags_ok (loadFlagsIntoRedis w)"
  by (rule flags_ok_l2_subset) (auto simp: loadFlagsIntoRedis_def flags_ok_def dest!: fold_put)

lemma listener_keeps: "flags_ok w \<Longrightarrow> l1_young now w \<Longrightarrow> flags_ok (onInvalidation p m w) \<and> l1_young now (onInvalidation p m w)"
  by (auto simp: onInvalidation_def l1_young_clear flags_ok_def split: option.split json.split)

section \<open>Histories\<close>

text \<open>Queries by any process under any failures, administration while Redis answers, messages to listeners,
  reloads, and the passing of time.\<close>

inductive flag_step :: "timestamp \<times> flag_db \<Rightarrow> timestamp \<times> flag_db \<Rightarrow> bool" where
  query: "flag_step (now, w) (now, snd (isEnabled env p now g k w))"
| create: "entropy w (drawn w) \<notin> ff_id ` set (feature_flags w) \<Longrightarrow> key \<noteq> '''' \<Longrightarrow>
    flag_step (now, w) (now, snd (createFlag True p now key ge desc en di w))"
| update: "flag_step (now, w) (now, snd (updateFlag True p now i ge en di desc w))"
| delete: "flag_step (now, w) (now, snd (deleteFlag True p i w))"
| listen: "flag_step (now, w) (now, onInvalidation p m w)"
| reload: "flag_step (now, w) (now, loadFlagsIntoRedis w)"
| tick: "now \<le> now' \<Longrightarrow> flag_step (now, w) (now', w)"

lemma flag_step_keeps:
  "flag_step s s' \<Longrightarrow> flags_ok (snd s) \<and> l1_young (fst s) (snd s) \<Longrightarrow> flags_ok (snd s') \<and> l1_young (fst s') (snd s')"
proof (induction rule: flag_step.induct)
  case (reload now w)
  then show ?case using reload_keeps [of w] by (simp add: l1_young_def loadFlagsIntoRedis_def)
next
  case (tick now now' w)
  then show ?case by (fastforce simp: l1_young_def)
next
  case (delete now w p i)
  then show ?case using deleteFlag_keeps [of w now p i] by simp
next
  case (listen now w p m)
  then show ?case using listener_keeps [of w now p m] by simp
qed (simp_all add: isEnabled_keeps createFlag_keeps updateFlag_keeps)

lemma flag_steps_keep:
  "flag_step\<^sup>*\<^sup>* s s' \<Longrightarrow> flags_ok (snd s) \<and> l1_young (fst s) (snd s) \<Longrightarrow> flags_ok (snd s') \<and> l1_young (fst s') (snd s')"
  by (induction rule: rtranclp_induct) (simp, metis flag_step_keeps)

section \<open>Properties\<close>

text \<open>A flag written to the Redis cache is read back as the same three fields, and resolves for every
  organization as the row does.\<close>

theorem flag_json_roundtrip:
  "parse_flag (flag_json f) = (ff_is_globally_enabled f, ff_enabled_org_ids f, ff_disabled_org_ids f) \<and>
   resolve_json (flag_json f) orgId = resolve_row f orgId"
  by (simp add: parse_flag_def) (simp add: flag_json_def json_field_def)


text \<open>When only the Redis write fails, a flag that is on is answered as off once, and as on for the next five
  seconds from the process cache.\<close>

lemma failed_cache_write_flips:
  assumes "feature_flags w = [f]" "ff_key f = k" "resolve_row f g" "l1Cache w p (l1CacheKey g k) = None"
    and "fe_db_read env" "\<not> fe_redis_read env" "\<not> fe_redis_write env" "now \<le> now'" "now' < now + 5000"
  shows "\<not> fst (isEnabled env p now g k w) \<and> fst (isEnabled env p now' g k (snd (isEnabled env p now g k w)))"
  using assms by (simp add: isEnabled_def Let_def set_l1_def L1_TTL_MS_def)

section \<open>Example\<close>

definition ex_flag_db :: flag_db where
  "ex_flag_db = \<lparr>outbox_events = [], audit_logs = [], jobs = [], redis = (\<lambda>_. None), pubsub = [],
     entropy = (\<lambda>n. replicate n CHR ''a''), drawn = 0, users = [], organizations = [], org_memberships = [], workspaces = [],
     notification_preferences = [], subscriptions = [], feature_flags = [], l1Cache = (\<lambda>_ _. None), l2 = (\<lambda>_. None)\<rparr>"

definition ex_flag_env :: flag_env where
  "ex_flag_env = \<lparr>fe_redis_read = True, fe_db_read = True, fe_redis_write = True\<rparr>"

definition ex_flag_created :: flag_db where
  "ex_flag_created = snd (createFlag True 0 0 ''feature.chat'' None None (Some [''g'']) None ex_flag_db)"


end
