(* ===== verification/Admin_Api.thy ===== *)
theory Admin_Api
  imports Http Feature_Flag
begin

text \<open>
  \<^verbatim>\<open>src/modules/platform-admin/admin.router.ts\<close> and \<^verbatim>\<open>src/modules/feature-flag/feature-flag.router.ts\<close>:
  the routes behind \<^verbatim>\<open>[jwtMiddleware, platformAdminMiddleware]\<close>.  The state of a request is the key store of
  the process and the tables.  The failed jobs of a queue (\<^verbatim>\<open>getFailed\<close> of BullMQ), the comparison of
  addresses and the address of the client are arguments.
\<close>

section \<open>Requeueing failed jobs\<close>

definition QUEUE_NAMES :: "string list" where
  "QUEUE_NAMES = [''notifications'', ''emails'', ''webhooks'', ''search'', ''audit'', ''cleanup'', ''exports'', ''payments'',
     ''recurring-tasks'', ''virus-scan'', ''erase-user'', ''offboarding'', ''gdpr-export'', ''gdpr-org-export'']"

text \<open>\<open>pg_uuid\<close> says which texts PostgreSQL reads as a UUID: the column \<^verbatim>\<open>audit_logs.entity_id\<close> is one, and the
  name of the queue goes into it.  A retried job is waiting again.\<close>

definition requeueDlqJobs ::
    "(string \<Rightarrow> bool) \<Rightarrow> (string \<Rightarrow> job list) \<Rightarrow> timestamp \<Rightarrow> string \<Rightarrow> uuid \<Rightarrow> 'a base_scheme \<Rightarrow> nat outcome \<times> 'a base_scheme" where
  "requeueDlqJobs pg_uuid getFailed now queueName actorId w =
     (if queueName \<noteq> '''' \<and> \<not> pg_uuid queueName then (Inl (PgError ''22P02''), w)
      else let w1 = adminAudit now None actorId ''admin.dlq.requeued'' ''queue'' queueName (JObj [(''queueName'', JStr queueName)]) w
           in if queueName \<notin> set QUEUE_NAMES then (Inl (JsError ''Error''), w1)
              else (Inr (length (getFailed queueName)),
                    fold (\<lambda>j w. enqueue queueName (j_name j) (j_data j) 0 w) (getFailed queueName) w1))"

section \<open>Schemas, casts and rows\<close>

definition org_page_fields :: "(string \<times> schema) list" where
  "org_page_fields =
     [(''limit'', ZDefault (ZCoerceInt (Some 1) (Some 200)) (JNum 50)), (''offset'', ZDefault (ZCoerceInt (Some 0) None) (JNum 0))]"

definition admin_suspend_fields :: "(string \<times> schema) list" where
  "admin_suspend_fields = [(''reason'', ZString [Min 1])]"

definition rotate_keys_fields :: "(string \<times> schema) list" where
  "rotate_keys_fields = [(''publicKey'', ZString [Min 1]), (''kid'', ZString [Min 1])]"

definition create_flag_fields :: "(string \<times> schema) list" where
  "create_flag_fields =
     [(''key'', ZString [Min 1, Max 100]), (''is_globally_enabled'', ZOptional ZBoolean), (''description'', ZOptional (ZString [])),
      (''enabled_org_ids'', ZOptional (ZArray (ZString [Uuid]) None None)),
      (''disabled_org_ids'', ZOptional (ZArray (ZString [Uuid]) None None))]"

definition update_flag_fields :: "(string \<times> schema) list" where
  "update_flag_fields =
     [(''is_globally_enabled'', ZOptional ZBoolean), (''description'', ZOptional (ZString [])),
      (''enabled_org_ids'', ZOptional (ZArray (ZString [Uuid]) None None)),
      (''disabled_org_ids'', ZOptional (ZArray (ZString [Uuid]) None None))]"

definition decode_limit_offset :: "json \<Rightarrow> (nat \<times> nat) option" where
  "decode_limit_offset d = do {
     limit \<leftarrow> required as_int ''limit'' d;
     offset \<leftarrow> required as_int ''offset'' d;
     Some (nat limit, nat offset) }"

definition decode_rotate_keys :: "json \<Rightarrow> (string \<times> string) option" where
  "decode_rotate_keys d = do {
     publicKey \<leftarrow> required as_str ''publicKey'' d;
     kid \<leftarrow> required as_str ''kid'' d;
     Some (publicKey, kid) }"

definition decode_flag_patch :: "json \<Rightarrow> (bool option \<times> string option \<times> uuid list option \<times> uuid list option) option" where
  "decode_flag_patch d = do {
     ge \<leftarrow> optional as_bool ''is_globally_enabled'' d;
     desc \<leftarrow> optional as_str ''description'' d;
     en \<leftarrow> optional (as_list as_str) ''enabled_org_ids'' d;
     di \<leftarrow> optional (as_list as_str) ''disabled_org_ids'' d;
     Some (ge, desc, en, di) }"

definition decode_flag :: "json \<Rightarrow> (string \<times> bool option \<times> string option \<times> uuid list option \<times> uuid list option) option" where
  "decode_flag d = do {
     key \<leftarrow> required as_str ''key'' d;
     patch \<leftarrow> decode_flag_patch d;
     Some (key, patch) }"

definition org_list_json :: "org \<Rightarrow> json" where
  "org_list_json r = JObj
     [(''id'', JStr (o_id r)), (''name'', JStr (o_name r)), (''slug'', JStr (o_slug r)), (''status'', JStr (org_status_name (o_status r))),
      (''plan_tier'', JStr (plan_name (o_plan_tier r))), (''created_at'', JNum (o_created_at r))]"

definition flag_row_json :: "feature_flag \<Rightarrow> json" where
  "flag_row_json f = JObj
     [(''id'', JStr (ff_id f)), (''key'', JStr (ff_key f)), (''description'', json_opt (ff_description f)),
      (''is_globally_enabled'', JBool (ff_is_globally_enabled f)), (''rollout_percentage'', JNum (ff_rollout_percentage f)),
      (''enabled_org_ids'', JArr (map JStr (ff_enabled_org_ids f))), (''disabled_org_ids'', JArr (map JStr (ff_disabled_org_ids f))),
      (''created_at'', JNum (ff_created_at f)), (''updated_at'', JNum (ff_updated_at f))]"

section \<open>Handlers\<close>

text \<open>A handler gets the parameters of the path, the metadata of the response and the administrator.\<close>

type_synonym 'w admin_handler =
  "(string \<Rightarrow> string) \<Rightarrow> http_request \<Rightarrow> json \<Rightarrow> req_user \<Rightarrow> key_store \<times> 'w \<Rightarrow> answer \<times> key_store \<times> 'w"

text \<open>Most handlers leave the keys alone.\<close>

definition on_tables :: "('w \<Rightarrow> answer \<times> 'w) \<Rightarrow> key_store \<times> 'w \<Rightarrow> answer \<times> key_store \<times> 'w" where
  "on_tables h st = (case h (snd st) of (a, w) \<Rightarrow> (a, fst st, w))"

definition done_json :: "string \<Rightarrow> json" where
  "done_json k = JObj [(k, JBool True)]"

text \<open>A service that cannot fail after its identifier was accepted.\<close>

definition run_unit :: "('w \<Rightarrow> 'w) \<Rightarrow> 'w \<Rightarrow> unit outcome \<times> 'w" where
  "run_unit f w = (Inr (), f w)"

definition list_orgs_handler :: "http_env \<Rightarrow> 'a dir_scheme admin_handler" where
  "list_orgs_handler env params rq meta u =
     on_tables (validate (he_safeParse env) (ZObject org_page_fields) (rq_query rq) (\<lambda>d. cast_to decode_limit_offset d (\<lambda>(n, m) w.
       answer_with (\<lambda>rs. res_success meta (JArr (map org_list_json rs))) (read_only (\<lambda>w. Inr (listOrganizations n m w)) w))))"

definition admin_suspend_handler :: "http_env \<Rightarrow> 'a dir_scheme admin_handler" where
  "admin_suspend_handler env params rq meta u =
     on_tables (validate (he_safeParse env) (ZObject admin_suspend_fields) (rq_body rq) (\<lambda>d. cast_to (required as_str ''reason'') d (\<lambda>reason w.
       answer_with (\<lambda>_. res_success meta (done_json ''suspended''))
         (with_uuid env (params ''orgId'') no_checks (admin_suspendOrg (he_now env) (params ''orgId'') reason (ru_userId u)) w))))"

definition admin_reactivate_handler :: "http_env \<Rightarrow> 'a dir_scheme admin_handler" where
  "admin_reactivate_handler env params rq meta u = on_tables (\<lambda>w.
     answer_with (\<lambda>_. res_success meta (done_json ''reactivated''))
       (with_uuid env (params ''orgId'') no_checks (admin_reactivateOrg (he_now env) (params ''orgId'') (ru_userId u)) w))"

definition admin_offboard_handler :: "http_env \<Rightarrow> 'a dir_scheme admin_handler" where
  "admin_offboard_handler env params rq meta u = on_tables (\<lambda>w.
     answer_with (\<lambda>_. res_success meta (done_json ''offboarding''))
       (with_uuid env (params ''orgId'') no_checks (admin_offboardOrg (he_now env) (params ''orgId'') (ru_userId u)) w))"

definition unlock_handler :: "http_env \<Rightarrow> 'a dir_scheme admin_handler" where
  "unlock_handler env params rq meta u = on_tables (\<lambda>w.
     answer_with (\<lambda>_. res_success meta (done_json ''unlocked''))
       (with_uuid env (params ''userId'') no_checks (run_unit (unlockUser (he_now env) (params ''userId'') (ru_userId u))) w))"

definition reset_mfa_handler :: "http_env \<Rightarrow> 'a dir_scheme admin_handler" where
  "reset_mfa_handler env params rq meta u = on_tables (\<lambda>w.
     answer_with (\<lambda>_. res_success meta (done_json ''mfaReset''))
       (with_uuid env (params ''userId'') no_checks (run_unit (resetUserMfa (he_now env) (params ''userId'') (ru_userId u))) w))"

definition payment_recovery_handler :: "http_env \<Rightarrow> 'a dir_scheme admin_handler" where
  "payment_recovery_handler env params rq meta u = on_tables (\<lambda>w.
     answer_with (\<lambda>_. res_accepted meta (done_json ''queued''))
       (with_uuid env (params ''orgId'') no_checks (run_unit (triggerPaymentRecovery (he_now env) (params ''orgId'') (ru_userId u))) w))"

definition replay_handler :: "http_env \<Rightarrow> 'a dir_scheme admin_handler" where
  "replay_handler env params rq meta u = on_tables (\<lambda>w.
     answer_with (\<lambda>_. res_success meta (done_json ''replayed''))
       (with_uuid env (params ''eventId'') no_checks (run_unit (replayOutboxEvent (he_now env) (params ''eventId'') (ru_userId u))) w))"

definition requeue_handler :: "(string \<Rightarrow> job list) \<Rightarrow> http_env \<Rightarrow> 'a dir_scheme admin_handler" where
  "requeue_handler getFailed env params rq meta u = on_tables (\<lambda>w.
     answer_with (\<lambda>n. res_success meta (JObj [(''requeued'', JNum (int n))]))
       (requeueDlqJobs (he_pg_uuid env) getFailed (he_now env) (params ''queueName'') (ru_userId u) w))"

definition reindex_handler :: "http_env \<Rightarrow> 'a dir_scheme admin_handler" where
  "reindex_handler env params rq meta u = on_tables (\<lambda>w.
     answer_with (\<lambda>_. res_accepted meta (done_json ''queued''))
       (with_uuid env (params ''orgId'') no_checks (run_unit (triggerSearchReindex (he_now env) (params ''orgId'') (ru_userId u))) w))"

text \<open>The identifier of the new key goes into \<^verbatim>\<open>audit_logs.entity_id\<close> before the key is registered.\<close>

definition rotate_keys_handler :: "http_env \<Rightarrow> 'a dir_scheme admin_handler" where
  "rotate_keys_handler env params rq meta u =
     validate (he_safeParse env) (ZObject rotate_keys_fields) (rq_body rq) (\<lambda>d. cast_to decode_rotate_keys d (\<lambda>(publicKey, kid) st.
       answer_with (\<lambda>_. res_success meta (JObj [(''rotated'', JBool True), (''kid'', JStr kid)]))
         (with_uuid env kid no_checks
            (run_unit (\<lambda>(ks, w). rotateJwtKeys (he_now env) publicKey kid (ru_userId u) ks w)) st)))"

definition list_flags_handler :: "'a flag_db_scheme admin_handler" where
  "list_flags_handler params rq meta u = on_tables (\<lambda>w. (res_success meta (JArr (map flag_row_json (listFlags w))), w))"

text \<open>\<open>p\<close> is the process that serves the request.\<close>

definition create_flag_handler :: "nat \<Rightarrow> http_env \<Rightarrow> 'a flag_db_scheme admin_handler" where
  "create_flag_handler p env params rq meta u =
     on_tables (validate (he_safeParse env) (ZObject create_flag_fields) (rq_body rq) (\<lambda>d. cast_to decode_flag d (\<lambda>(key, ge, desc, en, di) w.
       answer_with (\<lambda>f. res_created meta (flag_row_json f)) (createFlag (he_redis_up env) p (he_now env) key ge desc en di w))))"

definition update_flag_handler :: "nat \<Rightarrow> http_env \<Rightarrow> 'a flag_db_scheme admin_handler" where
  "update_flag_handler p env params rq meta u =
     on_tables (validate (he_safeParse env) (ZObject update_flag_fields) (rq_body rq) (\<lambda>d. cast_to decode_flag_patch d (\<lambda>(ge, desc, en, di) w.
       answer_with (\<lambda>f. case f of None \<Rightarrow> (404, JObj [(''error'', JStr ''Feature flag not found'')]) | Some f \<Rightarrow> res_success meta (flag_row_json f))
         (with_uuid env (params ''id'') no_checks (updateFlag (he_redis_up env) p (he_now env) (params ''id'') ge en di desc) w))))"

definition delete_flag_handler :: "nat \<Rightarrow> http_env \<Rightarrow> 'a flag_db_scheme admin_handler" where
  "delete_flag_handler p env params rq meta u = on_tables (\<lambda>w.
     answer_with (\<lambda>_. res_success meta (done_json ''deleted''))
       (with_uuid env (params ''id'') no_checks (deleteFlag (he_redis_up env) p (params ''id'')) w))"

section \<open>Routes\<close>

record 'w admin_route =
  adr_method :: string
  adr_path :: string
  adr_handler :: "'w admin_handler"

definition admin_routes :: "(string \<Rightarrow> job list) \<Rightarrow> http_env \<Rightarrow> 'a dir_scheme admin_route list" where
  "admin_routes getFailed env =
     [\<lparr>adr_method = ''GET'', adr_path = ''/admin/organizations'', adr_handler = list_orgs_handler env\<rparr>,
      \<lparr>adr_method = ''POST'', adr_path = ''/admin/organizations/:orgId/suspend'', adr_handler = admin_suspend_handler env\<rparr>,
      \<lparr>adr_method = ''POST'', adr_path = ''/admin/organizations/:orgId/reactivate'', adr_handler = admin_reactivate_handler env\<rparr>,
      \<lparr>adr_method = ''POST'', adr_path = ''/admin/organizations/:orgId/offboard'', adr_handler = admin_offboard_handler env\<rparr>,
      \<lparr>adr_method = ''POST'', adr_path = ''/admin/users/:userId/unlock'', adr_handler = unlock_handler env\<rparr>,
      \<lparr>adr_method = ''POST'', adr_path = ''/admin/users/:userId/reset-mfa'', adr_handler = reset_mfa_handler env\<rparr>,
      \<lparr>adr_method = ''POST'', adr_path = ''/admin/organizations/:orgId/trigger-payment-recovery'', adr_handler = payment_recovery_handler env\<rparr>,
      \<lparr>adr_method = ''POST'', adr_path = ''/admin/outbox/:eventId/replay'', adr_handler = replay_handler env\<rparr>,
      \<lparr>adr_method = ''POST'', adr_path = ''/admin/queues/:queueName/requeue-dlq'', adr_handler = requeue_handler getFailed env\<rparr>,
      \<lparr>adr_method = ''POST'', adr_path = ''/admin/organizations/:orgId/reindex-search'', adr_handler = reindex_handler env\<rparr>,
      \<lparr>adr_method = ''POST'', adr_path = ''/admin/jwt/rotate-keys'', adr_handler = rotate_keys_handler env\<rparr>]"

definition flag_routes :: "nat \<Rightarrow> http_env \<Rightarrow> 'a flag_db_scheme admin_route list" where
  "flag_routes p env =
     [\<lparr>adr_method = ''GET'', adr_path = ''/admin/feature-flags'', adr_handler = list_flags_handler\<rparr>,
      \<lparr>adr_method = ''POST'', adr_path = ''/admin/feature-flags'', adr_handler = create_flag_handler p env\<rparr>,
      \<lparr>adr_method = ''PATCH'', adr_path = ''/admin/feature-flags/:id'', adr_handler = update_flag_handler p env\<rparr>,
      \<lparr>adr_method = ''DELETE'', adr_path = ''/admin/feature-flags/:id'', adr_handler = delete_flag_handler p env\<rparr>]"

text \<open>What the guard knows besides the user: the comparison of addresses, the list of allowed ones and the address
  of the client.\<close>

record admin_guard =
  ag_match :: "string \<Rightarrow> string \<Rightarrow> string \<Rightarrow> bool option"
  ag_allowlist :: "string option"
  ag_ip :: "string option"

text \<open>\<^verbatim>\<open>adminMiddleware\<close>: the two middlewares in front of every route.\<close>

definition adminMiddleware ::
    "http_env \<Rightarrow> admin_guard \<Rightarrow> http_request \<Rightarrow> key_store \<times> 'a dir_scheme \<Rightarrow> req_user outcome \<times> 'a dir_scheme" where
  "adminMiddleware env g rq st =
     (case authenticate (he_crypto env) (fst st) (he_redis_up env) (he_now env) (rq_authorization rq) (snd st) of
        (Inl e, w) \<Rightarrow> (Inl e, w)
      | (Inr u, w) \<Rightarrow>
          (case platformAdminMiddleware (ag_match g) (ag_allowlist g) (he_now env) (ag_ip g) (Some u) of
             Inl e \<Rightarrow> (Inl e, w) | Inr _ \<Rightarrow> (Inr u, w)))"

definition serve_admin ::
    "http_env \<Rightarrow> admin_guard \<Rightarrow> 'a dir_scheme admin_route list \<Rightarrow> http_request \<Rightarrow> key_store \<times> 'a dir_scheme
     \<Rightarrow> answer option \<times> key_store \<times> 'a dir_scheme" where
  "serve_admin env g routes rq st =
     (let (meta, w1) = responseEnvelope (he_now env) rq (snd st) in
      case List.find (\<lambda>r. adr_method r = rq_method rq \<and> he_match env (adr_path r) (rq_path rq) \<noteq> None) routes of
        None \<Rightarrow> (None, fst st, w1)
      | Some r \<Rightarrow>
          (case adminMiddleware env g rq (fst st, w1) of
             (Inl e, w2) \<Rightarrow> (Some (error_answer e), fst st, w2)
           | (Inr u, w2) \<Rightarrow>
               (let (a, st') = adr_handler r (the (he_match env (adr_path r) (rq_path rq))) rq meta u (fst st, w2) in (Some a, st'))))"

section \<open>Facts\<close>

lemma adminMiddleware_Inr:
  assumes "adminMiddleware env g rq (ks, w) = (Inr u, w')"
  shows "fst (authenticate (he_crypto env) ks (he_redis_up env) (he_now env) (rq_authorization rq) w) = Inr u \<and>
    ru_isPlatformAdmin u \<and> (\<exists>m. ru_mfaVerifiedAt u = Some m \<and> m \<noteq> 0 \<and> he_now env div 1000 - m \<le> 3600)"
  using assms
  by (auto simp: adminMiddleware_def platformAdminMiddleware_def split: prod.splits sum.splits if_splits option.splits)

lemma adminMiddleware_redis: "adminMiddleware env g rq (ks, w) = (r, w') \<Longrightarrow> \<exists>f. w' = w\<lparr>redis := f\<rparr>"
  by (auto simp: adminMiddleware_def split: prod.splits sum.splits dest: authenticate_redis)

lemma serve_admin_cases:
  assumes "serve_admin env g routes rq (ks, w) = (a, ks', w')"
  obtains
    (no_handler) n f where "ks' = ks" "w' = w\<lparr>drawn := n, redis := f\<rparr>"
  | (handled) n f r params meta u x where "r \<in> set routes" "adminMiddleware env g rq (ks, w\<lparr>drawn := n\<rparr>) = (Inr u, w\<lparr>drawn := n, redis := f\<rparr>)"
      "adr_handler r params rq meta u (ks, w\<lparr>drawn := n, redis := f\<rparr>) = (x, ks', w')"
proof -
  obtain meta w1 where m: "responseEnvelope (he_now env) rq w = (meta, w1)" by (cases "responseEnvelope (he_now env) rq w")
  from responseEnvelope_draws [OF m] obtain n where n: "w1 = w\<lparr>drawn := n\<rparr>" by blast
  obtain o2 w2 where g: "adminMiddleware env g rq (ks, w1) = (o2, w2)" by (cases "adminMiddleware env g rq (ks, w1)")
  from adminMiddleware_redis [OF g] n obtain f where f: "w2 = w\<lparr>drawn := n, redis := f\<rparr>" by auto
  let ?found = "List.find (\<lambda>r. adr_method r = rq_method rq \<and> he_match env (adr_path r) (rq_path rq) \<noteq> None) routes"
  show thesis
  proof (cases ?found)
    case None
    with assms m n show thesis by (intro no_handler [where n = n and f = "redis w"]) (auto simp: serve_admin_def)
  next
    case (Some r)
    then have r: "r \<in> set routes" by (auto dest: find_SomeD)
    show thesis
    proof (cases o2)
      case (Inl e)
      with assms m g f Some show thesis by (intro no_handler [where n = n and f = f]) (auto simp: serve_admin_def)
    next
      case (Inr u)
      obtain x st where h: "adr_handler r (the (he_match env (adr_path r) (rq_path rq))) rq meta u (ks, w2) = (x, st)"
        by (cases "adr_handler r (the (he_match env (adr_path r) (rq_path rq))) rq meta u (ks, w2)")
      with assms m g Some Inr have "st = (ks', w')" by (simp add: serve_admin_def)
      with r g h n f Inr show thesis by (intro handled) auto
    qed
  qed
qed

subsection \<open>Audit rows\<close>

text \<open>\<open>audited u w w'\<close>: the first thing added to the audit log is a row of the administrator \<open>u\<close>.\<close>

definition audited :: "req_user \<Rightarrow> 'a base_scheme \<Rightarrow> 'a base_scheme \<Rightarrow> bool" where
  "audited u w w' = (\<exists>row rest. audit_logs w' = audit_logs w @ row # rest \<and> al_actor_type row = ActorPlatformAdmin \<and>
     al_actor_id row = (if ru_userId u = '''' then None else Some (ru_userId u)))"

definition appends :: "'a base_scheme \<Rightarrow> 'a base_scheme \<Rightarrow> bool" where
  "appends w w' = (\<exists>rest. audit_logs w' = audit_logs w @ rest)"

lemma audited_then: "appends (adminAudit now g (ru_userId u) ev et ei pl w) w' \<Longrightarrow> audited u w w'"
  by (auto simp: audited_def appends_def adminAudit_def persistAuditLog_def truthy_def)

lemma org_services_append:
  "appends w (snd (suspendOrg now g reason ac w))" "appends w (snd (reactivateOrg now g ac w))"
  "appends w (snd (startOffboarding now g ac w))"
  by (auto simp: appends_def suspendOrg_def reactivateOrg_def startOffboarding_def writeOrgEvent_def insert_outbox_def
      persistAuditLog_def draw_def org_updateStatus_def Let_def split: option.splits)

lemma admin_services_audited:
  "audited u w (snd (admin_suspendOrg now g reason (ru_userId u) w))"
  "audited u w (snd (admin_reactivateOrg now g (ru_userId u) w))"
  "audited u w (snd (admin_offboardOrg now g (ru_userId u) w))"
  "audited u w (unlockUser now i (ru_userId u) w)"
  "audited u w (resetUserMfa now i (ru_userId u) w)"
  "audited u b (triggerPaymentRecovery now g (ru_userId u) b)"
  "audited u b (replayOutboxEvent now i (ru_userId u) b)"
  "audited u b (triggerSearchReindex now g (ru_userId u) b)"
  "audited u b (snd (rotateJwtKeys now key kid (ru_userId u) ks b))"
proof -
  show "audited u w (snd (admin_suspendOrg now g reason (ru_userId u) w))"
    "audited u w (snd (admin_reactivateOrg now g (ru_userId u) w))"
    "audited u w (snd (admin_offboardOrg now g (ru_userId u) w))"
    unfolding admin_suspendOrg_def admin_reactivateOrg_def admin_offboardOrg_def
    by (rule audited_then, rule org_services_append)+
qed (simp_all add: audited_def unlockUser_def resetUserMfa_def triggerPaymentRecovery_def replayOutboxEvent_def triggerSearchReindex_def
       rotateJwtKeys_def resetFailedLoginAttempts_def enqueue_def adminAudit_def persistAuditLog_def truthy_def Let_def)

lemma requeue_jobs_audit: "audit_logs (fold (\<lambda>j w. enqueue q (j_name j) (j_data j) 0 w) js w) = audit_logs w"
  by (induction js arbitrary: w) simp_all

lemma requeue_effect:
  "snd (requeueDlqJobs pg failed now q (ru_userId u) w) = w \<or> audited u w (snd (requeueDlqJobs pg failed now q (ru_userId u) w))"
  by (simp add: requeueDlqJobs_def Let_def audited_def requeue_jobs_audit adminAudit_def persistAuditLog_def truthy_def)

text \<open>What a handler may do: nothing, or something that is audited.\<close>

definition audited_effect :: "req_user \<Rightarrow> key_store \<times> 'a base_scheme \<Rightarrow> key_store \<times> 'a base_scheme \<Rightarrow> bool" where
  "audited_effect u st st' = (st' = st \<or> audited u (snd st) (snd st'))"

lemma effect_on_tables: "snd (h w) = w \<or> audited u w (snd (h w)) \<Longrightarrow> audited_effect u (ks, w) (snd (on_tables h (ks, w)))"
  by (auto simp: audited_effect_def on_tables_def split: prod.splits)

lemma effect_with_uuid:
  "audited u w (snd (k w)) \<Longrightarrow> snd (with_uuid env p no_checks k w) = w \<or> audited u w (snd (with_uuid env p no_checks k w))"
  by (simp add: with_uuid_def no_checks_def)

lemma snd_run_unit [simp]: "snd (run_unit f w) = f w"
  by (simp add: run_unit_def)

lemmas admin_handler_defs =
  list_orgs_handler_def admin_suspend_handler_def admin_reactivate_handler_def admin_offboard_handler_def unlock_handler_def
  reset_mfa_handler_def payment_recovery_handler_def replay_handler_def requeue_handler_def reindex_handler_def

lemma suspend_effect: "audited_effect u (ks, w) (snd (admin_suspend_handler env params rq meta u (ks, w)))"
  unfolding admin_suspend_handler_def
  by (rule effect_on_tables)
     (auto simp: validate_def cast_to_def split: option.split intro!: effect_with_uuid [simplified] admin_services_audited)

lemma rotate_effect: "audited_effect u (ks, w) (snd (rotate_keys_handler env params rq meta u (ks, w)))"
  by (auto simp: rotate_keys_handler_def validate_def cast_to_def with_uuid_def no_checks_def audited_effect_def admin_services_audited
      split: option.split)

lemma admin_route_effect:
  assumes "r \<in> set (admin_routes failed env)"
  shows "audited_effect u (ks, w) (snd (adr_handler r params rq meta u (ks, w)))"
proof -
  have list: "audited_effect u (ks, w) (snd (list_orgs_handler env params rq meta u (ks, w)))"
    unfolding list_orgs_handler_def
    by (rule effect_on_tables) (auto simp: validate_def cast_to_def read_only_def split: option.split)
  have rest: "audited_effect u (ks, w) (snd (admin_reactivate_handler env params rq meta u (ks, w)))"
    "audited_effect u (ks, w) (snd (admin_offboard_handler env params rq meta u (ks, w)))"
    "audited_effect u (ks, w) (snd (unlock_handler env params rq meta u (ks, w)))"
    "audited_effect u (ks, w) (snd (reset_mfa_handler env params rq meta u (ks, w)))"
    "audited_effect u (ks, w) (snd (payment_recovery_handler env params rq meta u (ks, w)))"
    "audited_effect u (ks, w) (snd (replay_handler env params rq meta u (ks, w)))"
    "audited_effect u (ks, w) (snd (reindex_handler env params rq meta u (ks, w)))"
    unfolding admin_handler_defs
    by (rule effect_on_tables, simp only: snd_answer_with, rule effect_with_uuid, (simp only: snd_run_unit)?, rule admin_services_audited)+
  have requeue: "audited_effect u (ks, w) (snd (requeue_handler failed env params rq meta u (ks, w)))"
    unfolding requeue_handler_def by (rule effect_on_tables, simp only: snd_answer_with, rule requeue_effect)
  from assms show ?thesis
    by (auto simp: admin_routes_def list rest requeue suspend_effect rotate_effect)
qed

section \<open>Administration is guarded and audited\<close>


text \<open>Failed jobs are never requeued: no name of a queue is a UUID, so the audit row cannot be written and the
  request fails before the queue is looked at.\<close>

theorem requeue_never_works:
  assumes "\<And>s. pg_uuid s \<Longrightarrow> 32 \<le> length s"
  shows "\<exists>e. fst (requeueDlqJobs pg_uuid getFailed now q actor w) = Inl e"
proof -
  have "\<forall>q \<in> set QUEUE_NAMES. length q < 32" by (simp add: QUEUE_NAMES_def)
  with assms have "q \<in> set QUEUE_NAMES \<Longrightarrow> q \<noteq> '''' \<and> \<not> pg_uuid q" by (fastforce simp: QUEUE_NAMES_def)
  then show ?thesis by (auto simp: requeueDlqJobs_def Let_def)
qed

section \<open>Example\<close>

definition ex_mfa_env :: http_env where
  "ex_mfa_env = \<lparr>he_crypto = ex_crypto\<lparr>jwt_verify := (\<lambda>key now tok. if tok = ''tok'' then Some (ex_admin_claims\<lparr>jc_mfaVerifiedAt := Some 1\<rparr>) else None)\<rparr>,
     he_keys = ex_keys, he_redis_up = False, he_now = 600, he_safeParse = zod_safeParse,
     he_match = (\<lambda>pattern path. if pattern = ''/admin/users/:userId/unlock'' \<and> path = ''/admin/users/u1/unlock''
       then Some (\<lambda>_. ''u1'') else None),
     he_pg_uuid = (\<lambda>_. True)\<rparr>"

definition ex_mfa_guard :: admin_guard where
  "ex_mfa_guard = \<lparr>ag_match = (\<lambda>_ _ _. Some True), ag_allowlist = Some ''10.0.0.0/8'', ag_ip = Some ''10.1.2.3''\<rparr>"

definition ex_mfa_request :: http_request where
  "ex_mfa_request = \<lparr>rq_method = ''POST'', rq_path = ''/admin/users/u1/unlock'', rq_authorization = Some ''Bearer tok'',
     rq_org_id = None, rq_idempotency_key = None, rq_correlation_id = None, rq_query = JObj [], rq_body = JObj []\<rparr>"

lemma ex_mfa_serve:
  "\<exists>a w'. serve_admin ex_mfa_env ex_mfa_guard (admin_routes (\<lambda>_. []) ex_mfa_env) ex_mfa_request (ex_keys, ex_admin_db) = (a, ex_keys, w') \<and>
     map al_event_type (audit_logs w') = map al_event_type (audit_logs ex_admin_db) @ [''admin.user.unlocked'']"
proof -
  let ?u = "\<lparr>ru_userId = ''u1'', ru_orgId = '''', ru_role = ''member'', ru_isPlatformAdmin = True, ru_jti = ''x'',
           ru_exp = 900, ru_authTime = None, ru_mfaVerifiedAt = Some 1\<rparr>"
  obtain meta n where m: "responseEnvelope 600 ex_mfa_request ex_admin_db = (meta, ex_admin_db\<lparr>drawn := n\<rparr>)"
    using responseEnvelope_draws by (metis surj_pair)
  have au: "authenticate (he_crypto ex_mfa_env) ex_keys False 600 (Some ''Bearer tok'') (ex_admin_db\<lparr>drawn := n\<rparr>) =
      (Inr ?u, ex_admin_db\<lparr>drawn := n\<rparr>)"
    by (simp add: authenticate_def verifyToken_def getPublicKey_def ex_keys_def registerPublicKey_def ex_mfa_env_def
      ex_crypto_def ex_admin_claims_def resolveUser_def ex_admin_db_def ex_auth_def ex_user_def new_user_def Let_def)
  have ip: "split_on (CHR ''/'') ''10.0.0.0/8'' = [''10.0.0.0'', ''8'']" "split_on (CHR '','') ''10.0.0.0/8'' = [''10.0.0.0/8'']"
    "trim ''10.0.0.0/8'' = ''10.0.0.0/8''"
    by code_simp+
  have gd: "adminMiddleware ex_mfa_env ex_mfa_guard ex_mfa_request (ex_keys, ex_admin_db\<lparr>drawn := n\<rparr>) = (Inr ?u, ex_admin_db\<lparr>drawn := n\<rparr>)"
    using au by (simp add: adminMiddleware_def platformAdminMiddleware_def ex_mfa_guard_def ex_mfa_env_def ex_mfa_request_def ipInCidr_def ip)
  show ?thesis
    using gd m
    by (simp add: serve_admin_def ex_mfa_env_def ex_mfa_request_def admin_routes_def unlock_handler_def on_tables_def with_uuid_def
        answer_with_def run_unit_def unlockUser_def resetFailedLoginAttempts_def adminAudit_def persistAuditLog_def)
qed


end
