(* ===== verification/Task_Repository.thy ===== *)
theory Task_Repository
  imports Directory Interfaces
begin

text \<open>
  The tables of the task module and \<^verbatim>\<open>src/modules/task/task.repository.ts\<close>.  The
  constraints that the schema declares on them raise PostgreSQL errors: the depth of a
  task is at most 2, a live occurrence of a recurring task is unique per UTC day, a
  dependency joins two different tasks.
\<close>

section \<open>Rows\<close>

datatype task_status = Todo | InProgress | InReview | Done | Cancelled

datatype priority = Low | Medium | High | Urgent

record task =
  t_id :: uuid
  t_org_id :: uuid
  t_workspace_id :: uuid
  t_board_id :: "uuid option"
  t_parent_task_id :: "uuid option"
  t_depth :: int
  t_title :: string
  t_description :: "json option"
  t_status :: task_status
  t_priority :: priority
  t_creator_id :: uuid
  t_due_date :: "timestamp option"
  t_completed_at :: "timestamp option"
  t_is_recurring :: bool
  t_recurrence_rule :: "string option"
  t_recurrence_parent_id :: "uuid option"
  t_template_id :: "uuid option"
  t_labels :: "string list"
  t_attachments_count :: int
  t_deleted_at :: "timestamp option"
  t_created_at :: timestamp
  t_updated_at :: timestamp
  t_version :: int

record task_assignee =
  ta_task_id :: uuid
  ta_user_id :: uuid
  ta_org_id :: uuid
  ta_assigned_at :: timestamp
  ta_assigned_by :: uuid

record task_dependency =
  td_id :: uuid
  td_org_id :: uuid
  td_blocking_task_id :: uuid
  td_blocked_task_id :: uuid
  td_created_by :: uuid
  td_created_at :: timestamp

record task_template =
  tt_id :: uuid
  tt_org_id :: uuid
  tt_name :: string
  tt_default_title :: "string option"
  tt_default_description :: "json option"
  tt_default_priority :: "priority option"
  tt_default_labels :: "string list"
  tt_created_by :: uuid
  tt_deleted_at :: "timestamp option"
  tt_created_at :: timestamp

record comment =
  c_id :: uuid
  c_org_id :: uuid
  c_task_id :: uuid
  c_author_id :: uuid
  c_parent_comment_id :: "uuid option"
  c_body :: json
  c_deleted_at :: "timestamp option"
  c_created_at :: timestamp

record activity =
  ac_id :: uuid
  ac_org_id :: uuid
  ac_task_id :: uuid
  ac_actor_id :: uuid
  ac_event_type :: string
  ac_payload :: json
  ac_created_at :: timestamp

record board =
  b_id :: uuid
  b_org_id :: uuid
  b_workspace_id :: uuid
  b_deleted_at :: "timestamp option"

record work_db = dir +
  tasks :: "task list"
  task_assignees :: "task_assignee list"
  task_dependencies :: "task_dependency list"
  task_templates :: "task_template list"
  comments :: "comment list"
  task_activity_log :: "activity list"
  boards :: "board list"

section \<open>Reading tasks\<close>

definition task_live :: "task \<Rightarrow> bool" where
  "task_live t = (t_deleted_at t = None)"

definition task_findById :: "uuid \<Rightarrow> 'a work_db_scheme \<Rightarrow> task option" where
  "task_findById i w = List.find (\<lambda>t. t_id t = i \<and> task_live t) (tasks w)"

record task_filters =
  f_workspaceId :: "uuid option"
  f_boardId :: "uuid option"
  f_status :: "task_status option"

definition task_findByOrg :: "uuid \<Rightarrow> task_filters \<Rightarrow> 'a work_db_scheme \<Rightarrow> task list" where
  "task_findByOrg orgId f w =
     sort_key t_created_at (filter (\<lambda>t. t_org_id t = orgId \<and> task_live t \<and>
       (truthy (f_workspaceId f) \<longrightarrow> f_workspaceId f = Some (t_workspace_id t)) \<and>
       (truthy (f_boardId f) \<longrightarrow> t_board_id t = f_boardId f) \<and>
       (case f_status f of None \<Rightarrow> True | Some s \<Rightarrow> t_status t = s)) (tasks w))"

definition findChildren :: "uuid \<Rightarrow> uuid \<Rightarrow> 'a work_db_scheme \<Rightarrow> task list" where
  "findChildren orgId parentTaskId w =
     sort_key t_created_at (filter (\<lambda>t. t_parent_task_id t = Some parentTaskId \<and>
       t_org_id t = orgId \<and> task_live t) (tasks w))"

section \<open>Creating and updating tasks\<close>

record create_task_data =
  ct_org_id :: uuid
  ct_workspace_id :: uuid
  ct_board_id :: "uuid option"
  ct_parent_task_id :: "uuid option"
  ct_depth :: "int option"
  ct_title :: string
  ct_description :: "json option"
  ct_status :: "task_status option"
  ct_priority :: "priority option"
  ct_creator_id :: uuid
  ct_due_date :: "timestamp option"
  ct_is_recurring :: "bool option"
  ct_recurrence_rule :: "string option"
  ct_recurrence_parent_id :: "uuid option"
  ct_template_id :: "uuid option"
  ct_labels :: "string list option"

definition new_task :: "timestamp \<Rightarrow> uuid \<Rightarrow> create_task_data \<Rightarrow> task" where
  "new_task now i d =
     \<lparr>t_id = i, t_org_id = ct_org_id d, t_workspace_id = ct_workspace_id d,
      t_board_id = ct_board_id d, t_parent_task_id = ct_parent_task_id d,
      t_depth = case_option 0 id (ct_depth d), t_title = ct_title d,
      t_description = ct_description d, t_status = case_option Todo id (ct_status d),
      t_priority = case_option Medium id (ct_priority d), t_creator_id = ct_creator_id d,
      t_due_date = ct_due_date d, t_completed_at = None,
      t_is_recurring = case_option False id (ct_is_recurring d),
      t_recurrence_rule = ct_recurrence_rule d, t_recurrence_parent_id = ct_recurrence_parent_id d,
      t_template_id = ct_template_id d, t_labels = case_option [] id (ct_labels d),
      t_attachments_count = 0, t_deleted_at = None, t_created_at = now, t_updated_at = now,
      t_version = 1\<rparr>"

text \<open>The partial unique index \<^verbatim>\<open>idx_tasks_recurrence_dedup\<close>: its key, when a row has one.\<close>

definition utc_date :: "timestamp \<Rightarrow> int" where
  "utc_date t = t div 86400000"

definition dedup_key :: "task \<Rightarrow> (uuid \<times> int) option" where
  "dedup_key t =
     (case (t_recurrence_parent_id t, t_due_date t) of
        (Some p, Some d) \<Rightarrow> if task_live t then Some (p, utc_date d) else None
      | _ \<Rightarrow> None)"

definition dedup_conflict :: "task \<Rightarrow> task list \<Rightarrow> bool" where
  "dedup_conflict t ts = (dedup_key t \<noteq> None \<and> dedup_key t \<in> dedup_key ` set ts)"

text \<open>An empty string is not a UUID (22P02); the depth is checked (23514).\<close>

definition task_create ::
    "timestamp \<Rightarrow> create_task_data \<Rightarrow> 'a work_db_scheme \<Rightarrow> task outcome \<times> 'a work_db_scheme" where
  "task_create now d w =
     (let (i, w1) = draw w; t = new_task now i d
      in if t_parent_task_id t = Some '''' then (Inl (PgError ''22P02''), w1)
         else if t_depth t < 0 \<or> 2 < t_depth t then (Inl (PgError ''23514''), w1)
         else if dedup_conflict t (tasks w1) then (Inl (PgError ''23505''), w1)
         else (Inr t, w1\<lparr>tasks := tasks w1 @ [t]\<rparr>))"

record update_task_data =
  ut_title :: "string option"
  ut_description :: "json option option"
  ut_status :: "task_status option"
  ut_priority :: "priority option"
  ut_due_date :: "timestamp option option"
  ut_board_id :: "uuid option option"
  ut_labels :: "string list option"
  ut_is_recurring :: "bool option"
  ut_recurrence_rule :: "string option option"

definition task_has_clauses :: "update_task_data \<Rightarrow> bool" where
  "task_has_clauses d =
     (ut_title d \<noteq> None \<or> ut_description d \<noteq> None \<or> ut_status d \<noteq> None \<or> ut_priority d \<noteq> None \<or>
      ut_due_date d \<noteq> None \<or> ut_board_id d \<noteq> None \<or> ut_labels d \<noteq> None \<or>
      ut_is_recurring d \<noteq> None \<or> ut_recurrence_rule d \<noteq> None)"

definition task_set :: "timestamp \<Rightarrow> update_task_data \<Rightarrow> task \<Rightarrow> task" where
  "task_set now d t = t\<lparr>
     t_title := patched (t_title t) (ut_title d),
     t_description := patched (t_description t) (ut_description d),
     t_status := patched (t_status t) (ut_status d),
     t_completed_at := (if ut_status d = Some Done then Some now else t_completed_at t),
     t_priority := patched (t_priority t) (ut_priority d),
     t_due_date := patched (t_due_date t) (ut_due_date d),
     t_board_id := patched (t_board_id t) (ut_board_id d),
     t_labels := patched (t_labels t) (ut_labels d),
     t_is_recurring := patched (t_is_recurring t) (ut_is_recurring d),
     t_recurrence_rule := patched (t_recurrence_rule t) (ut_recurrence_rule d),
     t_version := t_version t + 1, t_updated_at := now\<rparr>"

text \<open>The row the \<^verbatim>\<open>WHERE\<close> clause of \<^verbatim>\<open>update\<close> selects.\<close>

definition task_at :: "uuid \<Rightarrow> uuid \<Rightarrow> int \<Rightarrow> task \<Rightarrow> bool" where
  "task_at orgId taskId v t = (t_org_id t = orgId \<and> t_id t = taskId \<and> t_version t = v \<and> task_live t)"

definition task_update ::
    "timestamp \<Rightarrow> uuid \<Rightarrow> uuid \<Rightarrow> update_task_data \<Rightarrow> int \<Rightarrow> 'a work_db_scheme
     \<Rightarrow> task option outcome \<times> 'a work_db_scheme" where
  "task_update now orgId taskId d expectedVersion w =
     (if \<not> task_has_clauses d then (Inr (task_findById taskId w), w)
      else case List.find (task_at orgId taskId expectedVersion) (tasks w) of
             None \<Rightarrow> (Inr None, w)
           | Some t \<Rightarrow>
               (if dedup_conflict (task_set now d t) (filter (\<lambda>s. t_id s \<noteq> taskId) (tasks w))
                then (Inl (PgError ''23505''), w)
                else (Inr (Some (task_set now d t)),
                      w\<lparr>tasks := update_where (task_at orgId taskId expectedVersion)
                                  (task_set now d) (tasks w)\<rparr>)))"

section \<open>Soft deletion\<close>

definition task_bury :: "timestamp \<Rightarrow> task \<Rightarrow> task" where
  "task_bury now t = t\<lparr>t_deleted_at := Some now, t_updated_at := now\<rparr>"

definition task_softDelete ::
    "timestamp \<Rightarrow> uuid \<Rightarrow> uuid \<Rightarrow> 'a work_db_scheme \<Rightarrow> bool \<times> 'a work_db_scheme" where
  "task_softDelete now orgId taskId w =
     (let P = (\<lambda>t. t_id t = taskId \<and> t_org_id t = orgId \<and> task_live t)
      in (list_ex P (tasks w), w\<lparr>tasks := update_where P (task_bury now) (tasks w)\<rparr>))"

text \<open>
  The recursive query of \<^verbatim>\<open>cascadeSoftDelete\<close>: the working table starts with the live
  children of the task and is replaced by the live children of its rows until it is
  empty.  The first argument bounds the number of rounds; three are enough, because
  the depth of a task is at most 2 (lemma \<open>subtasks_enough\<close>).
\<close>

definition child_ids :: "uuid \<Rightarrow> task list \<Rightarrow> uuid list \<Rightarrow> uuid list" where
  "child_ids orgId ts work =
     map t_id (filter (\<lambda>t. (case t_parent_task_id t of None \<Rightarrow> False | Some p \<Rightarrow> p \<in> set work) \<and>
                           t_org_id t = orgId \<and> task_live t) ts)"

fun subtasks :: "nat \<Rightarrow> uuid \<Rightarrow> task list \<Rightarrow> uuid list \<Rightarrow> uuid list" where
  "subtasks 0 orgId ts work = []"
| "subtasks (Suc n) orgId ts work =
     (if work = [] then [] else work @ subtasks n orgId ts (child_ids orgId ts work))"

definition CASCADE_ROUNDS :: nat where
  "CASCADE_ROUNDS = 3"

definition task_cascadeSoftDelete ::
    "timestamp \<Rightarrow> uuid \<Rightarrow> uuid \<Rightarrow> 'a work_db_scheme \<Rightarrow> 'a work_db_scheme" where
  "task_cascadeSoftDelete now orgId taskId w =
     (let subs = subtasks CASCADE_ROUNDS orgId (tasks w) (child_ids orgId (tasks w) [taskId]);
          ts1 = update_where (\<lambda>t. t_id t \<in> set subs) (task_bury now) (tasks w);
          ts2 = update_where (\<lambda>t. t_id t = taskId \<and> t_org_id t = orgId \<and> task_live t) (task_bury now) ts1
      in w\<lparr>tasks := ts2\<rparr>)"

section \<open>Assignees, dependencies, bulk statements\<close>

definition addAssignee ::
    "timestamp \<Rightarrow> uuid \<Rightarrow> uuid \<Rightarrow> uuid \<Rightarrow> uuid \<Rightarrow> 'a work_db_scheme \<Rightarrow> 'a work_db_scheme" where
  "addAssignee now taskId userId orgId assignedBy w =
     (if list_ex (\<lambda>a. ta_task_id a = taskId \<and> ta_user_id a = userId) (task_assignees w) then w
      else w\<lparr>task_assignees := task_assignees w @
              [\<lparr>ta_task_id = taskId, ta_user_id = userId, ta_org_id = orgId,
                ta_assigned_at = now, ta_assigned_by = assignedBy\<rparr>]\<rparr>)"

definition removeAssignee :: "uuid \<Rightarrow> uuid \<Rightarrow> 'a work_db_scheme \<Rightarrow> 'a work_db_scheme" where
  "removeAssignee taskId userId w =
     w\<lparr>task_assignees := delete_where (\<lambda>a. ta_task_id a = taskId \<and> ta_user_id a = userId)
                           (task_assignees w)\<rparr>"

definition getAssignees :: "uuid \<Rightarrow> 'a work_db_scheme \<Rightarrow> task_assignee list" where
  "getAssignees taskId w = filter (\<lambda>a. ta_task_id a = taskId) (task_assignees w)"

definition findDependencies :: "uuid \<Rightarrow> uuid \<Rightarrow> 'a work_db_scheme \<Rightarrow> task_dependency list" where
  "findDependencies orgId taskId w =
     filter (\<lambda>d. td_org_id d = orgId \<and> (td_blocking_task_id d = taskId \<or> td_blocked_task_id d = taskId))
       (task_dependencies w)"

definition insertDependency ::
    "timestamp \<Rightarrow> uuid \<Rightarrow> uuid \<Rightarrow> uuid \<Rightarrow> uuid \<Rightarrow> 'a work_db_scheme
     \<Rightarrow> task_dependency outcome \<times> 'a work_db_scheme" where
  "insertDependency now orgId blocking blocked createdBy w =
     (if blocking = blocked then (Inl (PgError ''23514''), w)
      else let (i, w1) = draw w;
               d = \<lparr>td_id = i, td_org_id = orgId, td_blocking_task_id = blocking,
                    td_blocked_task_id = blocked, td_created_by = createdBy, td_created_at = now\<rparr>
           in (Inr d, w1\<lparr>task_dependencies := task_dependencies w1 @ [d]\<rparr>))"

definition deleteDependency :: "uuid \<Rightarrow> uuid \<Rightarrow> 'a work_db_scheme \<Rightarrow> 'a work_db_scheme" where
  "deleteDependency orgId dependencyId w =
     w\<lparr>task_dependencies := delete_where (\<lambda>d. td_id d = dependencyId \<and> td_org_id d = orgId)
                              (task_dependencies w)\<rparr>"

definition in_bulk :: "uuid \<Rightarrow> uuid list \<Rightarrow> task \<Rightarrow> bool" where
  "in_bulk orgId ids t = (t_org_id t = orgId \<and> t_id t \<in> set ids \<and> task_live t)"

definition task_bulkUpdateStatus ::
    "timestamp \<Rightarrow> uuid \<Rightarrow> uuid list \<Rightarrow> task_status \<Rightarrow> 'a work_db_scheme \<Rightarrow> nat \<times> 'a work_db_scheme" where
  "task_bulkUpdateStatus now orgId ids st w =
     (if ids = [] then (0, w)
      else (length (filter (in_bulk orgId ids) (tasks w)),
            w\<lparr>tasks := update_where (in_bulk orgId ids)
                 (\<lambda>t. t\<lparr>t_status := st, t_updated_at := now,
                        t_completed_at := (if st = Done then Some now else t_completed_at t)\<rparr>) (tasks w)\<rparr>))"

definition task_bulkSoftDelete ::
    "timestamp \<Rightarrow> uuid \<Rightarrow> uuid list \<Rightarrow> 'a work_db_scheme \<Rightarrow> nat \<times> 'a work_db_scheme" where
  "task_bulkSoftDelete now orgId ids w =
     (if ids = [] then (0, w)
      else (length (filter (in_bulk orgId ids) (tasks w)),
            w\<lparr>tasks := update_where (in_bulk orgId ids) (task_bury now) (tasks w)\<rparr>))"

section \<open>Frame lemmas\<close>

lemma work_draw_frame [simp]:
  "tasks (snd (draw w)) = tasks w" "task_assignees (snd (draw w)) = task_assignees w"
  "task_dependencies (snd (draw w)) = task_dependencies w" "boards (snd (draw w)) = boards w"
  "comments (snd (draw w)) = comments w"
  by (simp_all add: draw_def)

lemma work_base_frame [simp]:
  "tasks (insert_outbox now g ev et eid ac pl w) = tasks w"
  "task_dependencies (insert_outbox now g ev et eid ac pl w) = task_dependencies w"
  "task_assignees (insert_outbox now g ev et eid ac pl w) = task_assignees w"
  "boards (insert_outbox now g ev et eid ac pl w) = boards w"
  "comments (insert_outbox now g ev et eid ac pl w) = comments w"
  "tasks (persistAuditLog now g ac aty ev et' eid' pl w) = tasks w"
  "task_dependencies (persistAuditLog now g ac aty ev et' eid' pl w) = task_dependencies w"
  "boards (persistAuditLog now g ac aty ev et' eid' pl w) = boards w"
  "tasks (enqueue q n dt dl w) = tasks w"
  "task_dependencies (enqueue q n dt dl w) = task_dependencies w"
  "task_assignees (enqueue q n dt dl w) = task_assignees w"
  by (simp_all add: base_op_defs)

lemma addAssignee_frame [simp]:
  "tasks (addAssignee now t u g b w) = tasks w"
  "task_dependencies (addAssignee now t u g b w) = task_dependencies w"
  "drawn (addAssignee now t u g b w) = drawn w" "entropy (addAssignee now t u g b w) = entropy w"
  "comments (addAssignee now t u g b w) = comments w"
  by (simp_all add: addAssignee_def)

lemma removeAssignee_frame [simp]:
  "tasks (removeAssignee t u w) = tasks w"
  "task_dependencies (removeAssignee t u w) = task_dependencies w"
  "drawn (removeAssignee t u w) = drawn w" "entropy (removeAssignee t u w) = entropy w"
  by (simp_all add: removeAssignee_def)

lemma task_bury_simps [simp]:
  "t_id (task_bury now t) = t_id t" "t_org_id (task_bury now t) = t_org_id t"
  "t_parent_task_id (task_bury now t) = t_parent_task_id t" "t_depth (task_bury now t) = t_depth t"
  "\<not> task_live (task_bury now t)" "t_version (task_bury now t) = t_version t"
  "dedup_key (task_bury now t) = None" "t_status (task_bury now t) = t_status t"
  by (simp_all add: task_bury_def task_live_def dedup_key_def split: option.split)

lemma task_set_simps [simp]:
  "t_id (task_set now d t) = t_id t" "t_org_id (task_set now d t) = t_org_id t"
  "t_parent_task_id (task_set now d t) = t_parent_task_id t" "t_depth (task_set now d t) = t_depth t"
  "task_live (task_set now d t) = task_live t" "t_version (task_set now d t) = t_version t + 1"
  "t_status (task_set now d t) = patched (t_status t) (ut_status d)"
  by (simp_all add: task_set_def task_live_def)

lemma task_findById_SomeD:
  "task_findById i w = Some t \<Longrightarrow> t \<in> set (tasks w) \<and> t_id t = i \<and> task_live t"
  by (auto simp: task_findById_def dest: find_SomeD)

section \<open>The optimistic lock on tasks\<close>

definition task_try_update ::
    "timestamp \<Rightarrow> uuid \<Rightarrow> update_task_data \<Rightarrow> int \<Rightarrow> uuid \<Rightarrow> 'a work_db_scheme
     \<Rightarrow> task option \<times> 'a work_db_scheme" where
  "task_try_update now orgId d v taskId w =
     (case task_update now orgId taskId d v w of (Inr r, w') \<Rightarrow> (r, w') | (Inl _, w') \<Rightarrow> (None, w'))"

lemma task_update_cases:
  assumes "task_has_clauses d" and "task_update now g i d v w = (res, w')"
  obtains (missing) "res = Inr None" "w' = w"
  | (duplicate) "res = Inl (PgError ''23505'')" "w' = w"
  | (updated) t where "t \<in> set (tasks w)" "task_at g i v t" "res = Inr (Some (task_set now d t))"
      "w' = w\<lparr>tasks := update_where (task_at g i v) (task_set now d) (tasks w)\<rparr>"
      "\<not> dedup_conflict (task_set now d t) (filter (\<lambda>s. t_id s \<noteq> i) (tasks w))"
proof (cases "List.find (task_at g i v) (tasks w)")
  case None
  with assms show thesis by (intro missing) (simp_all add: task_update_def)
next
  case (Some t)
  note t = find_SomeD [OF Some]
  show thesis
  proof (cases "dedup_conflict (task_set now d t) (filter (\<lambda>s. t_id s \<noteq> i) (tasks w))")
    case True
    with Some assms show thesis by (intro duplicate) (simp_all add: task_update_def)
  next
    case False
    with Some assms t show thesis by (intro updated [of t]) (simp_all add: task_update_def)
  qed
qed

interpretation task_lock: versioned_store tasks t_id t_version task_has_clauses "task_try_update now g"
  for now g
proof unfold_locales
  fix d v i and s s' :: "'a work_db_scheme" and res
  assume u: "task_try_update now g d v i s = (res, s')"
  show "map t_id (tasks s') = map t_id (tasks s)"
    using u by (auto simp: task_try_update_def task_update_def map_update_where_same
        split: option.splits if_splits)
next
  fix d v i and s s' :: "'a work_db_scheme" and r
  assume e: "task_has_clauses d" and u: "task_try_update now g d v i s = (Some r, s')"
  obtain x where x: "task_update now g i d v s = (x, s')" "x = Inr (Some r)"
    using u by (auto simp: task_try_update_def split: prod.splits sum.splits)
  from e x(1) show "r \<in> set (tasks s') \<and> t_id r = i \<and> t_version r = v + 1"
    by (cases rule: task_update_cases) (use x(2) in \<open>auto simp: task_at_def in_update_where\<close>)
  from e x(1) show "\<exists>r0 \<in> set (tasks s). t_id r0 = i \<and> t_version r0 = v"
    by (cases rule: task_update_cases) (use x(2) in \<open>auto simp: task_at_def\<close>)
next
  fix d v i and s s' :: "'a work_db_scheme"
  assume e: "task_has_clauses d" and u: "task_try_update now g d v i s = (None, s')"
  obtain x where x: "task_update now g i d v s = (x, s')" "\<And>r. x \<noteq> Inr (Some r)"
    using u by (auto simp: task_try_update_def split: prod.splits sum.splits)
  from e x(1) show "s' = s"
    by (cases rule: task_update_cases) (use x(2) in auto)
qed

end
