(* ===== verification/Task_Tree.thy ===== *)
theory Task_Tree
  imports Task_Repository
begin

text \<open>
  The invariant of the task table: identifiers are unique, a subtask lies one level below
  an existing task of the same organization, and the depth stays between 0 and 2.  From
  it: the recursive query of \<^verbatim>\<open>cascadeSoftDelete\<close> ends after two rounds and reaches
  exactly the live descendants of the task.
\<close>

section \<open>The invariant\<close>

definition tree_key :: "task \<Rightarrow> uuid \<times> uuid \<times> uuid option \<times> int" where
  "tree_key t = (t_id t, t_org_id t, t_parent_task_id t, t_depth t)"

definition parent_ok :: "task list \<Rightarrow> task \<Rightarrow> bool" where
  "parent_ok ts t =
     (case t_parent_task_id t of
        None \<Rightarrow> t_depth t = 0
      | Some p \<Rightarrow> list_ex (\<lambda>s. t_id s = p \<and> t_org_id s = t_org_id t \<and> t_depth t = t_depth s + 1) ts)"

definition task_tree :: "task list \<Rightarrow> bool" where
  "task_tree ts = (distinct (map t_id ts) \<and> list_all (\<lambda>t. 0 \<le> t_depth t \<and> t_depth t \<le> 2 \<and> parent_ok ts t) ts)"

text \<open>No live task under a deleted one.\<close>

definition orphan_free :: "task list \<Rightarrow> bool" where
  "orphan_free ts = list_all (\<lambda>t. task_live t \<longrightarrow>
     (case t_parent_task_id t of None \<Rightarrow> True | Some p \<Rightarrow> list_ex (\<lambda>s. t_id s = p \<and> task_live s) ts)) ts"

inductive descendant :: "task list \<Rightarrow> uuid \<Rightarrow> task \<Rightarrow> bool" for ts r where
  child: "t \<in> set ts \<Longrightarrow> t_parent_task_id t = Some r \<Longrightarrow> descendant ts r t"
| step: "descendant ts r s \<Longrightarrow> t \<in> set ts \<Longrightarrow> t_parent_task_id t = Some (t_id s) \<Longrightarrow> descendant ts r t"


section \<open>The invariant depends on four columns\<close>

lemma tree_key_eq:
  "tree_key s = tree_key t \<longleftrightarrow>
     t_id s = t_id t \<and> t_org_id s = t_org_id t \<and> t_parent_task_id s = t_parent_task_id t \<and> t_depth s = t_depth t"
  by (simp add: tree_key_def)

definition key_ok :: "(uuid \<times> uuid \<times> uuid option \<times> int) list \<Rightarrow> uuid \<times> uuid \<times> uuid option \<times> int \<Rightarrow> bool" where
  "key_ok ks k = (case k of (i, g, p, d) \<Rightarrow> 0 \<le> d \<and> d \<le> 2 \<and>
     (case p of None \<Rightarrow> d = 0 | Some q \<Rightarrow> list_ex (\<lambda>(j, h, _, e). j = q \<and> h = g \<and> d = e + 1) ks))"

lemma key_ok_tree_key:
  "key_ok (map tree_key ts) (tree_key t) \<longleftrightarrow> 0 \<le> t_depth t \<and> t_depth t \<le> 2 \<and> parent_ok ts t"
  by (simp add: key_ok_def tree_key_def parent_ok_def list_ex_iff split: option.split)

lemma task_tree_alt:
  "task_tree ts \<longleftrightarrow>
     distinct (map fst (map tree_key ts)) \<and> list_all (key_ok (map tree_key ts)) (map tree_key ts)"
proof -
  have "map fst (map tree_key ts) = map t_id ts" by (simp add: tree_key_def)
  moreover have "list_all (key_ok (map tree_key ts)) (map tree_key ts) \<longleftrightarrow>
      list_all (\<lambda>t. 0 \<le> t_depth t \<and> t_depth t \<le> 2 \<and> parent_ok ts t) ts"
    by (simp add: list_all_iff key_ok_tree_key)
  ultimately show ?thesis by (simp only: task_tree_def)
qed

lemma task_tree_cong: "map tree_key ts = map tree_key us \<Longrightarrow> task_tree ts = task_tree us"
  by (simp only: task_tree_alt)

lemma task_tree_update_where:
  assumes "\<And>t. P t \<Longrightarrow> tree_key (f t) = tree_key t"
  shows "task_tree (update_where P f ts) = task_tree ts"
  by (rule task_tree_cong, rule map_update_where_same) (rule assms)

lemma tree_key_bury [simp]: "tree_key (task_bury now t) = tree_key t"
  by (simp add: tree_key_eq)

lemma tree_key_set [simp]: "tree_key (task_set now d t) = tree_key t"
  by (simp add: tree_key_eq)

lemma task_tree_snoc:
  assumes "task_tree ts" and "t_id t \<notin> t_id ` set ts" and "0 \<le> t_depth t" and "t_depth t \<le> 2"
    and "parent_ok ts t"
  shows "task_tree (ts @ [t])"
  using assms by (auto simp: task_tree_def parent_ok_def list_all_iff list_ex_iff split: option.splits)

lemma task_treeD:
  assumes "task_tree ts" and "t \<in> set ts"
  shows "0 \<le> t_depth t" and "t_depth t \<le> 2"
    and "t_parent_task_id t = Some p \<Longrightarrow>
           \<exists>s \<in> set ts. t_id s = p \<and> t_org_id s = t_org_id t \<and> t_depth t = t_depth s + 1"
  using assms by (auto simp: task_tree_def list_all_iff list_ex_iff parent_ok_def)

lemma task_tree_ids: "task_tree ts \<Longrightarrow> s \<in> set ts \<Longrightarrow> t \<in> set ts \<Longrightarrow> t_id s = t_id t \<Longrightarrow> s = t"
  by (auto simp: task_tree_def intro: inj_on_key)

lemma task_parent_in_tree:
  assumes "task_tree ts" and "s \<in> set ts" and "t \<in> set ts" and "t_parent_task_id t = Some (t_id s)"
  shows "t_org_id t = t_org_id s" and "t_depth t = t_depth s + 1"
  using task_treeD(3) [OF assms(1,3,4)] task_tree_ids [OF assms(1)] assms(2) by metis+

section \<open>The subtree of a task\<close>

lemma descendant_in: "descendant ts r t \<Longrightarrow> t \<in> set ts"
  by (induction rule: descendant.induct) auto

lemma descendant_below:
  assumes "task_tree ts" and "r \<in> set ts" and "descendant ts (t_id r) t"
  shows "t_depth r < t_depth t \<and> t_org_id t = t_org_id r"
  using assms(3)
proof (induction rule: descendant.induct)
  case (child t)
  then show ?case using task_parent_in_tree [OF assms(1,2)] by auto
next
  case (step s t)
  then show ?case
    using task_parent_in_tree [OF assms(1) descendant_in [OF step.hyps(1)] step.hyps(2,3)] by auto
qed

text \<open>A descendant is a child or a grandchild.\<close>

lemma descendant_two_levels:
  assumes "task_tree ts" and "r \<in> set ts" and "descendant ts (t_id r) t"
  shows "t_parent_task_id t = Some (t_id r) \<or>
    (\<exists>s \<in> set ts. t_parent_task_id s = Some (t_id r) \<and> t_parent_task_id t = Some (t_id s))"
  using assms(3)
proof (cases rule: descendant.cases)
  case s: (step s)
  from s(1) show ?thesis
  proof (cases rule: descendant.cases)
    case child
    then show ?thesis using s by blast
  next
    case u: (step u)
    have "t_depth r < t_depth u" using descendant_below [OF assms(1,2) u(1)] by simp
    moreover have "t_depth s = t_depth u + 1"
      by (rule task_parent_in_tree(2) [OF assms(1) descendant_in [OF u(1)] u(2,3)])
    moreover have "t_depth t = t_depth s + 1"
      by (rule task_parent_in_tree(2) [OF assms(1) descendant_in [OF s(1)] s(2,3)])
    ultimately show ?thesis
      using task_treeD(1) [OF assms(1,2)] task_treeD(2) [OF assms(1) s(2)] by simp
  qed
qed blast

lemma orphan_free_parent:
  assumes "orphan_free ts" and "t \<in> set ts" and "task_live t" and "t_parent_task_id t = Some p"
  shows "\<exists>s \<in> set ts. t_id s = p \<and> task_live s"
proof -
  have "list_ex (\<lambda>s. t_id s = p \<and> task_live s) ts"
    using bspec [OF assms(1) [unfolded orphan_free_def list_all_iff] assms(2)] assms(3,4) by simp
  then show ?thesis by (simp add: list_ex_iff)
qed

lemma orphan_freeD:
  assumes "task_tree ts" and "orphan_free ts" and "s \<in> set ts" and "t \<in> set ts"
    and "t_parent_task_id t = Some (t_id s)" and "task_live t"
  shows "task_live s"
proof -
  from orphan_free_parent [OF assms(2,4,6,5)] obtain s' where "s' \<in> set ts" "t_id s' = t_id s" "task_live s'"
    by blast
  with task_tree_ids [OF assms(1)] assms(3) show ?thesis by metis
qed

section \<open>What the recursive query returns\<close>

lemma in_child_ids:
  "i \<in> set (child_ids g ts work) \<longleftrightarrow>
     (\<exists>t \<in> set ts. t_id t = i \<and> t_org_id t = g \<and> task_live t \<and> (\<exists>p \<in> set work. t_parent_task_id t = Some p))"
  by (auto simp: child_ids_def split: option.splits)

lemma child_ids_Nil [simp]: "child_ids g ts [] = []"
  by (simp add: child_ids_def filter_False split: option.split)

lemma subtasks_Nil [simp]: "subtasks n g ts [] = []"
  by (cases n) simp_all

lemma child_ids_descend:
  assumes "task_tree ts"
  shows "i \<in> set ((child_ids g ts ^^ Suc n) [t_id r]) \<Longrightarrow> r \<in> set ts \<Longrightarrow>
    \<exists>t \<in> set ts. t_id t = i \<and> task_live t \<and> t_depth t = t_depth r + 1 + int n \<and> descendant ts (t_id r) t"
proof (induction n arbitrary: i)
  case 0
  then show ?case
    using task_parent_in_tree(2) [OF assms] by (auto simp: in_child_ids intro: descendant.child)
next
  case (Suc n)
  from Suc.prems(1) obtain t p where t: "t \<in> set ts" "t_id t = i" "task_live t"
      "p \<in> set ((child_ids g ts ^^ Suc n) [t_id r])" "t_parent_task_id t = Some p"
    by (auto simp: in_child_ids)
  from Suc.IH [OF t(4) Suc.prems(2)] obtain s where s: "s \<in> set ts" "t_id s = p"
      "t_depth s = t_depth r + 1 + int n" "descendant ts (t_id r) s"
    by blast
  with t task_parent_in_tree(2) [OF assms s(1) t(1)] have "t_depth t = t_depth r + 1 + int (Suc n)" by simp
  with t s show ?case using descendant.step [OF s(4) t(1)] by auto
qed

text \<open>Two rounds find everything: the third working table is empty.\<close>

lemma subtasks_enough:
  assumes "task_tree ts" and "r \<in> set ts"
  shows "subtasks (CASCADE_ROUNDS + n) g ts (child_ids g ts [t_id r]) =
     child_ids g ts [t_id r] @ child_ids g ts (child_ids g ts [t_id r])"
proof -
  have "(child_ids g ts ^^ Suc 2) [t_id r] = []"
  proof (rule ccontr)
    assume "(child_ids g ts ^^ Suc 2) [t_id r] \<noteq> []"
    then obtain i where "i \<in> set ((child_ids g ts ^^ Suc 2) [t_id r])" by (metis ex_in_conv set_empty)
    from child_ids_descend [OF assms(1) this assms(2)] obtain t
      where "t \<in> set ts" "t_depth t = t_depth r + 1 + int 2" by blast
    with task_treeD(1) [OF assms] task_treeD(2) [OF assms(1)] show False by fastforce
  qed
  then have e: "child_ids g ts (child_ids g ts (child_ids g ts [t_id r])) = []"
    by (simp add: numeral_2_eq_2)
  have r3: "CASCADE_ROUNDS + n = Suc (Suc (Suc n))" by (simp add: CASCADE_ROUNDS_def)
  show ?thesis
    unfolding r3 using e by simp
qed

lemma subtasks_are_descendants:
  assumes "task_tree ts" and "orphan_free ts" and "r \<in> set ts" and "t \<in> set ts"
  shows "t_id t \<in> set (subtasks CASCADE_ROUNDS (t_org_id r) ts (child_ids (t_org_id r) ts [t_id r])) \<longleftrightarrow>
     task_live t \<and> descendant ts (t_id r) t" (is "?L \<longleftrightarrow> ?R")
proof
  assume ?L
  then have "t_id t \<in> set ((child_ids (t_org_id r) ts ^^ Suc 0) [t_id r]) \<or>
      t_id t \<in> set ((child_ids (t_org_id r) ts ^^ Suc 1) [t_id r])"
    using subtasks_enough [OF assms(1,3), of 0] by auto
  then obtain t' where "t' \<in> set ts" "t_id t' = t_id t" "task_live t'" "descendant ts (t_id r) t'"
    using child_ids_descend [OF assms(1) _ assms(3)] by metis
  with task_tree_ids [OF assms(1) _ assms(4)] show ?R by metis
next
  assume R: ?R
  have g: "t_org_id t = t_org_id r" using descendant_below [OF assms(1,3)] R by simp
  from descendant_two_levels [OF assms(1,3)] R
  consider "t_parent_task_id t = Some (t_id r)"
    | s where "s \<in> set ts" "t_parent_task_id s = Some (t_id r)" "t_parent_task_id t = Some (t_id s)"
    by blast
  then have "t_id t \<in> set (child_ids (t_org_id r) ts [t_id r]) \<or>
      t_id t \<in> set (child_ids (t_org_id r) ts (child_ids (t_org_id r) ts [t_id r]))"
  proof cases
    case 1
    then show ?thesis using R g assms(4) by (auto simp: in_child_ids)
  next
    case 2
    have "task_live s" using orphan_freeD [OF assms(1,2) 2(1) assms(4) 2(3)] R by simp
    moreover have "t_org_id s = t_org_id r" using task_parent_in_tree(1) [OF assms(1,3) 2(1,2)] .
    ultimately have "t_id s \<in> set (child_ids (t_org_id r) ts [t_id r])"
      using 2 by (auto simp: in_child_ids)
    with 2 R g assms(4) show ?thesis by (subst (2) in_child_ids) blast
  qed
  then show ?L using subtasks_enough [OF assms(1,3), of 0] by auto
qed

text \<open>The whole effect of the cascade: the task and its live descendants are buried.\<close>

lemma cascade_effect:
  assumes "task_tree (tasks w)" and "orphan_free (tasks w)" and "r \<in> set (tasks w)"
  shows "task_cascadeSoftDelete now (t_org_id r) (t_id r) w =
    w\<lparr>tasks := update_where (\<lambda>t. task_live t \<and> (t_id t = t_id r \<or> descendant (tasks w) (t_id r) t))
                (task_bury now) (tasks w)\<rparr>"
proof -
  let ?S = "set (subtasks CASCADE_ROUNDS (t_org_id r) (tasks w) (child_ids (t_org_id r) (tasks w) [t_id r]))"
  have self: "\<not> descendant (tasks w) (t_id r) r"
    using descendant_below [OF assms(1,3), of r] by auto
  have own: "t_id t = t_id r \<longleftrightarrow> t = r" if "t \<in> set (tasks w)" for t
    using task_tree_ids [OF assms(1) that assms(3)] by auto
  have eq: "update_where (\<lambda>t. t_id t = t_id r \<and> t_org_id t = t_org_id r \<and> task_live t) (task_bury now)
        (update_where (\<lambda>t. t_id t \<in> ?S) (task_bury now) (tasks w)) =
      update_where (\<lambda>t. task_live t \<and> (t_id t = t_id r \<or> descendant (tasks w) (t_id r) t)) (task_bury now) (tasks w)"
    unfolding update_where_def map_map o_def
  proof (rule map_cong [OF refl])
    fix t assume t: "t \<in> set (tasks w)"
    have S: "t_id t \<in> ?S \<longleftrightarrow> task_live t \<and> descendant (tasks w) (t_id r) t"
      by (rule subtasks_are_descendants [OF assms t])
    show "(if t_id (if t_id t \<in> ?S then task_bury now t else t) = t_id r \<and>
            t_org_id (if t_id t \<in> ?S then task_bury now t else t) = t_org_id r \<and>
            task_live (if t_id t \<in> ?S then task_bury now t else t)
         then task_bury now (if t_id t \<in> ?S then task_bury now t else t)
         else (if t_id t \<in> ?S then task_bury now t else t)) =
        (if task_live t \<and> (t_id t = t_id r \<or> descendant (tasks w) (t_id r) t) then task_bury now t else t)"
      using S own [OF t] self by auto
  qed
  show ?thesis by (simp add: task_cascadeSoftDelete_def Let_def eq)
qed

lemma cascade_tree:
  "task_tree (tasks w) \<Longrightarrow> task_tree (tasks (task_cascadeSoftDelete now g i w))"
  by (simp add: task_cascadeSoftDelete_def Let_def task_tree_update_where)

lemma cascade_orphan_free:
  assumes "task_tree (tasks w)" and "orphan_free (tasks w)" and "r \<in> set (tasks w)"
  shows "orphan_free (tasks (task_cascadeSoftDelete now (t_org_id r) (t_id r) w))"
proof -
  let ?P = "\<lambda>t. task_live t \<and> (t_id t = t_id r \<or> descendant (tasks w) (t_id r) t)"
  have "\<exists>s' \<in> set (update_where ?P (task_bury now) (tasks w)). t_id s' = p \<and> task_live s'"
    if t: "t \<in> set (tasks w)" "\<not> ?P t" "task_live t" "t_parent_task_id t = Some p" for t p
  proof -
    obtain s where s: "s \<in> set (tasks w)" "t_id s = p" "task_live s"
      using orphan_free_parent [OF assms(2) t(1,3,4)] by blast
    have "\<not> ?P s"
      using t s descendant.child [of t "tasks w" "t_id r"] descendant.step [of "tasks w" "t_id r" s t] by auto
    with s(1) have "s \<in> set (update_where ?P (task_bury now) (tasks w))"
      unfolding in_update_where by (intro bexI [of _ s]) auto
    with s show ?thesis by blast
  qed
  note kept = this
  have "\<exists>s' \<in> set (update_where ?P (task_bury now) (tasks w)). t_id s' = p \<and> task_live s'"
    if "u \<in> set (update_where ?P (task_bury now) (tasks w))" "task_live u" "t_parent_task_id u = Some p" for u p
  proof -
    from that(1) obtain t where t: "t \<in> set (tasks w)" "u = (if ?P t then task_bury now t else t)"
      unfolding in_update_where by blast
    with that(2) have "\<not> ?P t" by (auto split: if_splits)
    with t that kept [OF t(1) this] show ?thesis by simp
  qed
  then show ?thesis
    by (simp add: cascade_effect [OF assms] orphan_free_def list_all_iff list_ex_iff split: option.split)
qed

end
