(* ===== verification/Task.thy ===== *)
theory Task
  imports Task_Tree
begin

text \<open>
  \<^verbatim>\<open>src/modules/task/task.service.ts\<close> with \<^verbatim>\<open>activity-log.service.ts\<close>: creating,
  updating, deleting and reading tasks, with the errors of each branch and the order of
  the writes.  Statements run one after the other on the shared database; a service that
  throws half-way keeps the writes already made, as the code does outside a transaction.
\<close>

section \<open>Activity log\<close>

definition log_activity ::
    "timestamp \<Rightarrow> uuid \<Rightarrow> uuid \<Rightarrow> string \<Rightarrow> uuid \<Rightarrow> json \<Rightarrow> 'a work_db_scheme \<Rightarrow> 'a work_db_scheme" where
  "log_activity now orgId actorId eventType taskId payload w =
     (let (i, w1) = draw w in
      w1\<lparr>task_activity_log := task_activity_log w1 @
        [\<lparr>ac_id = i, ac_org_id = orgId, ac_task_id = taskId, ac_actor_id = actorId,
          ac_event_type = eventType, ac_payload = payload, ac_created_at = now\<rparr>]\<rparr>)"

definition listForTask :: "uuid \<Rightarrow> uuid \<Rightarrow> 'a work_db_scheme \<Rightarrow> activity list" where
  "listForTask orgId taskId w =
     sort_key ac_created_at
       (filter (\<lambda>a. ac_org_id a = orgId \<and> ac_task_id a = taskId) (task_activity_log w))"

definition listForOrg :: "uuid \<Rightarrow> nat \<Rightarrow> nat \<Rightarrow> 'a work_db_scheme \<Rightarrow> activity list" where
  "listForOrg orgId limit offset w =
     limit_offset limit offset
       (sort_key (\<lambda>a. - ac_created_at a) (filter (\<lambda>a. ac_org_id a = orgId) (task_activity_log w)))"

section \<open>The service\<close>

definition MAX_TASK_DEPTH :: int where
  "MAX_TASK_DEPTH = 2"

fun ALLOWED_TRANSITIONS :: "task_status \<Rightarrow> task_status list" where
  "ALLOWED_TRANSITIONS Todo = [InProgress, Cancelled]"
| "ALLOWED_TRANSITIONS InProgress = [InReview, Done, Cancelled, Todo]"
| "ALLOWED_TRANSITIONS InReview = [InProgress, Done, Cancelled]"
| "ALLOWED_TRANSITIONS Done = [Todo]"
| "ALLOWED_TRANSITIONS Cancelled = [Todo]"

definition status_name :: "task_status \<Rightarrow> string" where
  "status_name s = (case s of Todo \<Rightarrow> ''todo'' | InProgress \<Rightarrow> ''in_progress'' | InReview \<Rightarrow> ''in_review''
                    | Done \<Rightarrow> ''done'' | Cancelled \<Rightarrow> ''cancelled'')"

definition priority_name :: "priority \<Rightarrow> string" where
  "priority_name p = (case p of Low \<Rightarrow> ''low'' | Medium \<Rightarrow> ''medium'' | High \<Rightarrow> ''high'' | Urgent \<Rightarrow> ''urgent'')"

definition writeTaskEvent ::
    "timestamp \<Rightarrow> string \<Rightarrow> uuid \<Rightarrow> uuid \<Rightarrow> uuid option \<Rightarrow> json \<Rightarrow> 'a work_db_scheme \<Rightarrow> 'a work_db_scheme" where
  "writeTaskEvent now eventType orgId entityId actor payload w =
     insert_outbox now (Some orgId) eventType ''task'' entityId actor payload w"

record create_task_input =
  ci_workspace_id :: uuid
  ci_board_id :: "uuid option"
  ci_parent_task_id :: "uuid option"
  ci_title :: string
  ci_description :: "json option"
  ci_status :: "task_status option"
  ci_priority :: "priority option"
  ci_due_date :: "timestamp option"
  ci_is_recurring :: "bool option"
  ci_recurrence_rule :: "string option"
  ci_template_id :: "uuid option"
  ci_labels :: "string list option"
  ci_assignee_ids :: "uuid list option"

record update_task_input = update_task_data +
  ui_assignee_ids :: "uuid list option"
  ui_version :: int

text \<open>The depth of the new task, or the error of the parent check.\<close>

definition check_parent :: "uuid \<Rightarrow> uuid option \<Rightarrow> 'a work_db_scheme \<Rightarrow> int outcome" where
  "check_parent orgId parentId w =
     (case parentId of
        None \<Rightarrow> Inr 0
      | Some p \<Rightarrow>
          if p = '''' then Inr 0
          else case task_findById p w of
                 None \<Rightarrow> Inl (NotFoundError ''ParentTask'')
               | Some parent \<Rightarrow>
                   if t_org_id parent \<noteq> orgId then Inl (NotFoundError ''ParentTask'')
                   else if t_depth parent + 1 > MAX_TASK_DEPTH
                        then Inl (AppError 422 ''TASK_DEPTH_EXCEEDED'' [''2''])
                        else Inr (t_depth parent + 1))"

fun check_assignees :: "uuid \<Rightarrow> uuid list \<Rightarrow> 'a work_db_scheme \<Rightarrow> unit outcome" where
  "check_assignees orgId [] w = Inr ()"
| "check_assignees orgId (a # as) w =
     (case findMembership orgId a w of
        None \<Rightarrow> Inl (AppError 422 ''ASSIGNEE_NOT_IN_ORG'' [a])
      | Some _ \<Rightarrow> check_assignees orgId as w)"

definition create_data :: "uuid \<Rightarrow> uuid \<Rightarrow> int \<Rightarrow> create_task_input \<Rightarrow> create_task_data" where
  "create_data orgId userId depth input =
     \<lparr>ct_org_id = orgId, ct_workspace_id = ci_workspace_id input, ct_board_id = ci_board_id input,
      ct_parent_task_id = ci_parent_task_id input, ct_depth = Some depth, ct_title = ci_title input,
      ct_description = ci_description input,
      ct_status = Some (case_option Todo id (ci_status input)),
      ct_priority = Some (case_option Medium id (ci_priority input)), ct_creator_id = userId,
      ct_due_date = ci_due_date input,
      ct_is_recurring = Some (case_option False id (ci_is_recurring input)),
      ct_recurrence_rule = ci_recurrence_rule input, ct_recurrence_parent_id = None,
      ct_template_id = ci_template_id input,
      ct_labels = Some (case_option [] id (ci_labels input))\<rparr>"

definition add_assignees ::
    "timestamp \<Rightarrow> uuid \<Rightarrow> uuid \<Rightarrow> uuid \<Rightarrow> uuid list \<Rightarrow> 'a work_db_scheme \<Rightarrow> 'a work_db_scheme" where
  "add_assignees now taskId orgId userId as w = fold (\<lambda>a. addAssignee now taskId a orgId userId) as w"

definition createTask ::
    "timestamp \<Rightarrow> uuid \<Rightarrow> uuid \<Rightarrow> create_task_input \<Rightarrow> 'a work_db_scheme
     \<Rightarrow> task outcome \<times> 'a work_db_scheme" where
  "createTask now orgId userId input w =
     (case check_parent orgId (ci_parent_task_id input) w of
        Inl e \<Rightarrow> (Inl e, w)
      | Inr depth \<Rightarrow>
          (let assignees = case_option [] id (ci_assignee_ids input)
           in case check_assignees orgId assignees w of
                Inl e \<Rightarrow> (Inl e, w)
              | Inr _ \<Rightarrow>
                  (case task_create now (create_data orgId userId depth input) w of
                     (Inl e, w1) \<Rightarrow> (Inl e, w1)
                   | (Inr t, w1) \<Rightarrow>
                       (let w2 = add_assignees now (t_id t) orgId userId assignees w1;
                            w3 = writeTaskEvent now ''task.created'' orgId (t_id t) (Some userId)
                                   (JObj [(''taskId'', JStr (t_id t)), (''orgId'', JStr orgId),
                                          (''workspaceId'', JStr (ci_workspace_id input)),
                                          (''title'', JStr (ci_title input))]) w2
                        in (Inr t, log_activity now orgId userId ''task.created'' (t_id t) (JObj []) w3)))))"

definition isAdmin :: "membership option \<Rightarrow> bool" where
  "isAdmin m = (case m of None \<Rightarrow> False | Some r \<Rightarrow> m_role r = OrgOwner \<or> m_role r = OrgAdmin)"

definition transition_ok :: "task_status \<Rightarrow> task_status option \<Rightarrow> bool" where
  "transition_ok cur new =
     (case new of None \<Rightarrow> True | Some s \<Rightarrow> s = cur \<or> s \<in> set (ALLOWED_TRANSITIONS cur))"

text \<open>\<^verbatim>\<open>JSON.stringify\<close> of the patch: absent fields do not appear.\<close>

definition patch_json :: "update_task_data \<Rightarrow> json" where
  "patch_json d = JObj (concat
     [case_option [] (\<lambda>v. [(''title'', JStr v)]) (ut_title d),
      case_option [] (\<lambda>v. [(''description'', case_option JNull id v)]) (ut_description d),
      case_option [] (\<lambda>v. [(''status'', JStr (status_name v))]) (ut_status d),
      case_option [] (\<lambda>v. [(''priority'', JStr (priority_name v))]) (ut_priority d),
      case_option [] (\<lambda>v. [(''due_date'', case_option JNull JNum v)]) (ut_due_date d),
      case_option [] (\<lambda>v. [(''board_id'', json_opt v)]) (ut_board_id d),
      case_option [] (\<lambda>v. [(''labels'', JArr (map JStr v))]) (ut_labels d),
      case_option [] (\<lambda>v. [(''is_recurring'', JBool v)]) (ut_is_recurring d),
      case_option [] (\<lambda>v. [(''recurrence_rule'', json_opt v)]) (ut_recurrence_rule d)])"

definition replace_assignees ::
    "timestamp \<Rightarrow> uuid \<Rightarrow> uuid \<Rightarrow> uuid \<Rightarrow> uuid list option \<Rightarrow> 'a work_db_scheme \<Rightarrow> 'a work_db_scheme" where
  "replace_assignees now taskId orgId userId new w =
     (case new of
        None \<Rightarrow> w
      | Some as \<Rightarrow>
          add_assignees now taskId orgId userId as
            (fold (\<lambda>a. removeAssignee taskId (ta_user_id a)) (getAssignees taskId w) w))"

definition updateTask ::
    "timestamp \<Rightarrow> uuid \<Rightarrow> uuid \<Rightarrow> uuid \<Rightarrow> update_task_input \<Rightarrow> 'a work_db_scheme
     \<Rightarrow> task outcome \<times> 'a work_db_scheme" where
  "updateTask now orgId taskId userId input w =
     (case task_findById taskId w of
        None \<Rightarrow> (Inl (NotFoundError ''Task''), w)
      | Some existing \<Rightarrow>
          if t_org_id existing \<noteq> orgId then (Inl (NotFoundError ''Task''), w)
          else if t_creator_id existing \<noteq> userId \<and> \<not> isAdmin (findMembership orgId userId w)
          then (Inl (ForbiddenError ''INSUFFICIENT_ROLE''), w)
          else if \<not> transition_ok (t_status existing) (ut_status input)
          then (Inl (AppError 422 ''INVALID_STATUS_TRANSITION''
                  [status_name (t_status existing), status_name (case_option Todo id (ut_status input))]), w)
          else let updateData = update_task_data.truncate input
          in case task_update now orgId taskId updateData (ui_version input) w of
               (Inl e, w1) \<Rightarrow> (Inl e, w1)
             | (Inr None, w1) \<Rightarrow>
                 (case task_findById taskId w1 of
                    None \<Rightarrow> (Inl (NotFoundError ''Task''), w1)
                  | Some s \<Rightarrow> if t_org_id s \<noteq> orgId then (Inl (NotFoundError ''Task''), w1)
                             else (Inl (ConflictError ''VERSION_CONFLICT''), w1))
             | (Inr (Some updated), w1) \<Rightarrow>
                 (let w2 = replace_assignees now taskId orgId userId (ui_assignee_ids input) w1;
                      w3 = writeTaskEvent now ''task.updated'' orgId taskId (Some userId)
                             (JObj [(''taskId'', JStr taskId), (''orgId'', JStr orgId),
                                    (''changes'', patch_json updateData)]) w2;
                      w4 = log_activity now orgId userId ''task.updated'' taskId (patch_json updateData) w3;
                      w5 = (if ut_status input = Some Done \<and> t_is_recurring updated
                            then enqueue ''recurring-tasks'' ''spawn-next-occurrence''
                                   (JObj [(''parentTaskId'', JStr taskId), (''orgId'', JStr orgId)]) 0 w4
                            else w4)
                  in (Inr updated, w5)))"

definition deleteTask ::
    "timestamp \<Rightarrow> uuid \<Rightarrow> uuid \<Rightarrow> uuid \<Rightarrow> 'a work_db_scheme \<Rightarrow> unit outcome \<times> 'a work_db_scheme" where
  "deleteTask now orgId taskId userId w =
     (case task_findById taskId w of
        None \<Rightarrow> (Inl (NotFoundError ''Task''), w)
      | Some existing \<Rightarrow>
          if t_org_id existing \<noteq> orgId then (Inl (NotFoundError ''Task''), w)
          else if t_creator_id existing \<noteq> userId \<and> \<not> isAdmin (findMembership orgId userId w)
          then (Inl (ForbiddenError ''INSUFFICIENT_ROLE''), w)
          else let payload = JObj [(''taskId'', JStr taskId), (''orgId'', JStr orgId)];
                   w1 = task_cascadeSoftDelete now orgId taskId w;
                   w2 = writeTaskEvent now ''task.deleted'' orgId taskId (Some userId) payload w1
               in (Inr (), persistAuditLog now (Some orgId) (Some userId) ActorUser ''task.deleted''
                             (Some ''task'') (Some taskId) payload w2))"

definition getTask :: "uuid \<Rightarrow> uuid \<Rightarrow> 'a work_db_scheme \<Rightarrow> task outcome" where
  "getTask orgId taskId w =
     (case task_findById taskId w of
        None \<Rightarrow> Inl (NotFoundError ''Task'')
      | Some t \<Rightarrow> if t_org_id t \<noteq> orgId then Inl (NotFoundError ''Task'') else Inr t)"

definition listTasks :: "uuid \<Rightarrow> task_filters \<Rightarrow> 'a work_db_scheme \<Rightarrow> task list" where
  "listTasks orgId filters w = task_findByOrg orgId filters w"

text \<open>
  The handler of \<^verbatim>\<open>GET /orgs/:orgId/tasks\<close>: the validated query has the fields
  \<^verbatim>\<open>workspace_id\<close>, \<^verbatim>\<open>board_id\<close> and \<^verbatim>\<open>status\<close>; it is passed on by a type cast, so that
  the fields \<^verbatim>\<open>workspaceId\<close> and \<^verbatim>\<open>boardId\<close> that the repository reads are undefined.
\<close>

record list_tasks_query =
  q_workspace_id :: "uuid option"
  q_board_id :: "uuid option"
  q_status :: "task_status option"

definition list_tasks_route :: "uuid \<Rightarrow> list_tasks_query \<Rightarrow> 'a work_db_scheme \<Rightarrow> task list" where
  "list_tasks_route orgId q w =
     listTasks orgId \<lparr>f_workspaceId = None, f_boardId = None, f_status = q_status q\<rparr> w"

section \<open>Frame lemmas\<close>

lemma log_activity_frame [simp]:
  "tasks (log_activity now g a ev t pl w) = tasks w"
  "task_dependencies (log_activity now g a ev t pl w) = task_dependencies w"
  "task_assignees (log_activity now g a ev t pl w) = task_assignees w"
  "drawn (log_activity now g a ev t pl w) = Suc (drawn w)"
  "entropy (log_activity now g a ev t pl w) = entropy w"
  by (simp_all add: log_activity_def draw_def)

lemma writeTaskEvent_frame [simp]:
  "tasks (writeTaskEvent now ev g i ac pl w) = tasks w"
  "task_dependencies (writeTaskEvent now ev g i ac pl w) = task_dependencies w"
  "task_assignees (writeTaskEvent now ev g i ac pl w) = task_assignees w"
  "drawn (writeTaskEvent now ev g i ac pl w) = Suc (drawn w)"
  "entropy (writeTaskEvent now ev g i ac pl w) = entropy w"
  by (simp_all add: writeTaskEvent_def)

lemma add_assignees_frame [simp]:
  "tasks (add_assignees now t g u as w) = tasks w"
  "task_dependencies (add_assignees now t g u as w) = task_dependencies w"
  "drawn (add_assignees now t g u as w) = drawn w" "entropy (add_assignees now t g u as w) = entropy w"
  by (induction "as" arbitrary: w) (simp_all add: add_assignees_def)

lemma remove_assignees_frame [simp]:
  "tasks (fold (\<lambda>a. removeAssignee t (ta_user_id a)) rs w) = tasks w"
  "task_dependencies (fold (\<lambda>a. removeAssignee t (ta_user_id a)) rs w) = task_dependencies w"
  "drawn (fold (\<lambda>a. removeAssignee t (ta_user_id a)) rs w) = drawn w"
  "entropy (fold (\<lambda>a. removeAssignee t (ta_user_id a)) rs w) = entropy w"
  by (induction rs arbitrary: w) simp_all

lemma replace_assignees_frame [simp]:
  "tasks (replace_assignees now t g u as w) = tasks w"
  "task_dependencies (replace_assignees now t g u as w) = task_dependencies w"
  "drawn (replace_assignees now t g u as w) = drawn w" "entropy (replace_assignees now t g u as w) = entropy w"
  by (simp_all add: replace_assignees_def split: option.split)

section \<open>Tasks are read within their organization\<close>

interpretation task_tenant: tenant_lookup tasks t_id t_org_id task_live getTask "''Task''"
proof unfold_locales
  fix g i and s :: "'a work_db_scheme" and r
  assume "getTask g i s = Inr r"
  then show "r \<in> set (tasks s) \<and> t_id r = i \<and> t_org_id r = g \<and> task_live r"
    by (auto simp: getTask_def split: option.splits if_splits dest: task_findById_SomeD)
next
  fix g i and s :: "'a work_db_scheme" and e
  assume "getTask g i s = Inl e"
  then show "e = NotFoundError ''Task''"
    by (auto simp: getTask_def split: option.splits if_splits)
next
  fix s :: "'a work_db_scheme" and r
  assume "distinct (map t_id (tasks s))" "r \<in> set (tasks s)" "task_live r"
  then show "getTask (t_org_id r) (t_id r) s = Inr r"
    by (simp add: getTask_def task_findById_def find_by_key)
qed

section \<open>The ways each operation ends\<close>

lemma check_parent_InrD:
  assumes "check_parent g p w = Inr d" and "p \<noteq> Some ''''"
  shows "0 = d \<and> p = None \<or> (\<exists>i t. p = Some i \<and> t \<in> set (tasks w) \<and> t_id t = i \<and> t_org_id t = g \<and>
           task_live t \<and> d = t_depth t + 1 \<and> d \<le> 2)"
  using assms
  by (auto simp: check_parent_def MAX_TASK_DEPTH_def split: option.splits if_splits dest: task_findById_SomeD)

lemma new_task_simps [simp]:
  "t_id (new_task now i d) = i" "t_org_id (new_task now i d) = ct_org_id d"
  "t_parent_task_id (new_task now i d) = ct_parent_task_id d"
  "t_depth (new_task now i d) = case_option 0 id (ct_depth d)" "task_live (new_task now i d)"
  "t_recurrence_parent_id (new_task now i d) = ct_recurrence_parent_id d"
  "t_due_date (new_task now i d) = ct_due_date d" "t_version (new_task now i d) = 1"
  by (simp_all add: new_task_def task_live_def)

lemma create_data_simps [simp]:
  "ct_org_id (create_data g u d inp) = g" "ct_parent_task_id (create_data g u d inp) = ci_parent_task_id inp"
  "ct_depth (create_data g u d inp) = Some d" "ct_recurrence_parent_id (create_data g u d inp) = None"
  by (simp_all add: create_data_def)

lemma createTask_cases:
  assumes "createTask now g u inp w = (res, w')"
  obtains (rejected) e where "res = Inl e" "tasks w' = tasks w" "task_dependencies w' = task_dependencies w"
      "entropy w' = entropy w" "drawn w \<le> drawn w'"
  | (created) d where "check_parent g (ci_parent_task_id inp) w = Inr d"
      "check_assignees g (case_option [] id (ci_assignee_ids inp)) w = Inr ()"
      "ci_parent_task_id inp \<noteq> Some ''''" "0 \<le> d" "d \<le> 2"
      "res = Inr (new_task now (entropy w (drawn w)) (create_data g u d inp))"
      "tasks w' = tasks w @ [new_task now (entropy w (drawn w)) (create_data g u d inp)]"
      "task_dependencies w' = task_dependencies w" "entropy w' = entropy w" "drawn w < drawn w'"
proof (cases "check_parent g (ci_parent_task_id inp) w")
  case (Inl e)
  with assms show thesis by (intro rejected [of e]) (auto simp: createTask_def)
next
  case d: (Inr d)
  let ?as = "case_option [] id (ci_assignee_ids inp)"
  let ?t = "new_task now (entropy w (drawn w)) (create_data g u d inp)"
  have dd: "\<not> dedup_conflict ?t (tasks w)" by (simp add: dedup_conflict_def dedup_key_def)
  show thesis
  proof (cases "check_assignees g ?as w")
    case (Inl e)
    with d assms show thesis by (intro rejected [of e]) (auto simp: createTask_def Let_def)
  next
    case as: (Inr x)
    show thesis
    proof (cases "ci_parent_task_id inp = Some '''' \<or> d < 0 \<or> 2 < d")
      case True
      with d as assms show thesis
        by (auto simp: createTask_def task_create_def Let_def draw_def split: if_splits intro!: rejected)
    next
      case False
      with d as assms dd show thesis
        by (auto simp: createTask_def task_create_def Let_def draw_def intro!: created)
    qed
  qed
qed

lemma updateTask_cases:
  assumes "updateTask now g i u inp w = (res, w')"
  obtains (rejected) e where "res = Inl e" "w' = w"
  | (accepted) t t' w1 where "task_findById i w = Some t" "t_org_id t = g"
      "t_creator_id t = u \<or> isAdmin (findMembership g u w)"
      "transition_ok (t_status t) (ut_status inp)"
      "task_update now g i (update_task_data.truncate inp) (ui_version inp) w = (Inr (Some t'), w1)"
      "res = Inr t'" "tasks w' = tasks w1" "task_dependencies w' = task_dependencies w1"
      "entropy w' = entropy w1" "drawn w1 < drawn w'"
proof (cases "task_findById i w")
  case None
  with assms show thesis by (intro rejected) (auto simp: updateTask_def)
next
  case (Some t)
  let ?d = "update_task_data.truncate inp"
  obtain x w1 where x: "task_update now g i ?d (ui_version inp) w = (x, w1)" by fastforce
  have w1: "w1 = w" if "\<And>t'. x \<noteq> Inr (Some t')"
    using x that by (auto simp: task_update_def split: if_splits option.splits)
  show thesis
  proof (cases "t_org_id t = g \<and> (t_creator_id t = u \<or> isAdmin (findMembership g u w)) \<and>
      transition_ok (t_status t) (ut_status inp)")
    case False
    with Some assms have "\<exists>e. res = Inl e \<and> w' = w" by (auto simp: updateTask_def split: if_splits)
    then show thesis using rejected by blast
  next
    case True
    show thesis
    proof (cases "\<exists>t'. x = Inr (Some t')")
      case False
      then consider e where "x = Inl e" | "x = Inr None" by (metis option.exhaust sum.exhaust)
      then show thesis
        using Some True x w1 assms
        by cases (auto simp: updateTask_def Let_def split: option.splits if_splits intro!: rejected)
    next
      case yes: True
      then obtain t' where t': "x = Inr (Some t')" by blast
      have r: "res = Inr t'" "tasks w' = tasks w1" "task_dependencies w' = task_dependencies w1"
          "entropy w' = entropy w1" "drawn w1 < drawn w'"
        using Some True x t' assms by (auto simp: updateTask_def Let_def)
      show thesis by (rule accepted [OF Some _ _ _ x [unfolded t'] r]) (use True in auto)
    qed
  qed
qed

lemma deleteTask_cases:
  assumes "deleteTask now g i u w = (res, w')"
  obtains (rejected) e where "res = Inl e" "w' = w"
  | (deleted) t where "task_findById i w = Some t" "t_org_id t = g" "res = Inr ()"
      "t_creator_id t = u \<or> isAdmin (findMembership g u w)"
      "tasks w' = tasks (task_cascadeSoftDelete now g i w)" "task_dependencies w' = task_dependencies w"
      "entropy w' = entropy w" "drawn w < drawn w'"
proof (cases "task_findById i w")
  case None
  with assms show thesis by (intro rejected) (auto simp: deleteTask_def)
next
  case (Some t)
  show thesis
  proof (cases "t_org_id t = g \<and> (t_creator_id t = u \<or> isAdmin (findMembership g u w))")
    case False
    with Some assms have "\<exists>e. res = Inl e \<and> w' = w" by (auto simp: deleteTask_def split: if_splits)
    then show thesis using rejected by blast
  next
    case True
    have "task_dependencies (task_cascadeSoftDelete now g i w) = task_dependencies w"
      "entropy (task_cascadeSoftDelete now g i w) = entropy w" "drawn (task_cascadeSoftDelete now g i w) = drawn w"
      by (simp_all add: task_cascadeSoftDelete_def Let_def)
    with Some True assms show thesis
      by (intro deleted [of t]) (auto simp: deleteTask_def Let_def)
  qed
qed

end
