(* ===== verification/Task_Dependency.thy ===== *)
theory Task_Dependency
  imports Task
begin

text \<open>
  \<^verbatim>\<open>src/modules/task/dependency.service.ts\<close>: the depth-first search for a cycle, with
  its stack and its set of visited tasks, and the services around it.  The search decides
  reachability, so that dependencies added one after the other stay acyclic.
\<close>

section \<open>The search\<close>

text \<open>The rows \<^verbatim>\<open>(blocking, blocked)\<close> of an organization, in table order.\<close>

definition dep_edges :: "uuid \<Rightarrow> 'a work_db_scheme \<Rightarrow> (uuid \<times> uuid) list" where
  "dep_edges orgId w =
     map (\<lambda>d. (td_blocking_task_id d, td_blocked_task_id d))
       (filter (\<lambda>d. td_org_id d = orgId) (task_dependencies w))"

definition blocked_by :: "(uuid \<times> uuid) list \<Rightarrow> uuid \<Rightarrow> uuid list" where
  "blocked_by es v = map snd (filter (\<lambda>e. fst e = v) es)"

text \<open>The loop: the stack is a list with its top first, so the rows pushed in order appear
  reversed in front of it.\<close>

function cycle_loop :: "uuid \<Rightarrow> (uuid \<times> uuid) list \<Rightarrow> uuid list \<Rightarrow> uuid list \<Rightarrow> bool" where
  "cycle_loop target es [] visited = False"
| "cycle_loop target es (current # stack) visited =
     (if current = target then True
      else if current \<in> set visited then cycle_loop target es stack visited
      else cycle_loop target es (rev (blocked_by es current) @ stack) (current # visited))"
  by pat_completeness auto

lemma blocked_by_Nil: "v \<notin> set (map fst es) \<Longrightarrow> blocked_by es v = []"
  by (force simp: blocked_by_def filter_empty_conv)

text \<open>Each task is expanded once; one that blocks nothing pushes nothing.\<close>

termination cycle_loop
proof (relation "(\<lambda>(t, es, stack, visited). card (set (map fst es) - set visited)) <*mlex*>
                 measure (\<lambda>(t, es, stack, visited). length stack)", goal_cases)
  case 1
  show ?case by (intro wf_mlex) simp
next
  case (2 target es current stack visited)
  then show ?case by (intro mlex_leq) simp_all
next
  case (3 target es current stack visited)
  show ?case
  proof (cases "current \<in> set (map fst es)")
    case True
    with 3 have "set (map fst es) - set (current # visited) \<subset> set (map fst es) - set visited" by auto
    then show ?thesis by (intro mlex_less) (simp add: psubset_card_mono)
  next
    case False
    then have "set (map fst es) - set (current # visited) = set (map fst es) - set visited" by auto
    with False show ?thesis by (intro mlex_leq) (simp_all add: blocked_by_Nil)
  qed
qed

definition wouldCreateCycle :: "uuid \<Rightarrow> uuid \<Rightarrow> uuid \<Rightarrow> 'a work_db_scheme \<Rightarrow> bool" where
  "wouldCreateCycle orgId blocking blocked w =
     cycle_loop blocking (dep_edges orgId w) [blocked] []"

section \<open>The services\<close>

text \<open>The checks before the insertion.\<close>

definition dep_check :: "uuid \<Rightarrow> uuid \<Rightarrow> uuid \<Rightarrow> 'a work_db_scheme \<Rightarrow> unit outcome" where
  "dep_check orgId blocking blocked w =
     (if blocking = blocked then Inl (AppError 422 ''SELF_DEPENDENCY'' [])
      else case (task_findById blocking w, task_findById blocked w) of
             (None, _) \<Rightarrow> Inl (NotFoundError ''BlockingTask'')
           | (Some b, r) \<Rightarrow>
               if t_org_id b \<noteq> orgId then Inl (NotFoundError ''BlockingTask'')
               else (case r of
                       None \<Rightarrow> Inl (NotFoundError ''BlockedTask'')
                     | Some d \<Rightarrow>
                         if t_org_id d \<noteq> orgId then Inl (NotFoundError ''BlockedTask'')
                         else if t_workspace_id b \<noteq> t_workspace_id d
                         then Inl (AppError 422 ''CROSS_WORKSPACE_DEPENDENCY'' [])
                         else if wouldCreateCycle orgId blocking blocked w
                         then Inl (AppError 422 ''DEPENDENCY_CYCLE'' [])
                         else Inr ()))"

definition addDependency ::
    "timestamp \<Rightarrow> uuid \<Rightarrow> uuid \<Rightarrow> uuid \<Rightarrow> uuid \<Rightarrow> 'a work_db_scheme
     \<Rightarrow> task_dependency outcome \<times> 'a work_db_scheme" where
  "addDependency now orgId blocking blocked createdBy w =
     (case dep_check orgId blocking blocked w of
        Inl e \<Rightarrow> (Inl e, w)
      | Inr _ \<Rightarrow> insertDependency now orgId blocking blocked createdBy w)"

definition removeDependency :: "uuid \<Rightarrow> uuid \<Rightarrow> 'a work_db_scheme \<Rightarrow> 'a work_db_scheme" where
  "removeDependency orgId dependencyId w = deleteDependency orgId dependencyId w"

definition listDependencies :: "uuid \<Rightarrow> uuid \<Rightarrow> 'a work_db_scheme \<Rightarrow> task_dependency list" where
  "listDependencies orgId taskId w = findDependencies orgId taskId w"

section \<open>The search decides reachability\<close>

lemma in_blocked_by: "b \<in> set (blocked_by es a) \<longleftrightarrow> (a, b) \<in> set es"
  by (force simp: blocked_by_def)

text \<open>What the loop keeps: the target is not visited, and what a visited task blocks is
  visited or on the stack.\<close>

definition search_inv :: "uuid \<Rightarrow> (uuid \<times> uuid) list \<Rightarrow> uuid set \<Rightarrow> uuid set \<Rightarrow> bool" where
  "search_inv target es visited stack \<longleftrightarrow>
     target \<notin> visited \<and> (\<forall>(a, b) \<in> set es. a \<in> visited \<longrightarrow> b \<in> visited \<union> stack)"

lemma search_inv_exit:
  assumes "search_inv target es V S" and "v \<in> V" and "(v, target) \<in> (set es)\<^sup>*"
  shows "\<exists>s \<in> S. (s, target) \<in> (set es)\<^sup>*"
  using assms(3,2)
proof (induction rule: converse_rtrancl_induct)
  case base
  then show ?case using assms(1) by (simp add: search_inv_def)
next
  case (step a b)
  have "b \<in> V \<or> b \<in> S" using step.hyps(1) step.prems assms(1) by (auto simp: search_inv_def)
  then show ?case using step.IH step.hyps(2) by blast
qed

lemma search_inv_pop: "search_inv t es V (insert c S) \<Longrightarrow> c \<in> V \<Longrightarrow> search_inv t es V S"
  by (auto simp: search_inv_def)

lemma search_inv_expand:
  "search_inv t es V (insert c S) \<Longrightarrow> c \<noteq> t \<Longrightarrow> search_inv t es (insert c V) (set (blocked_by es c) \<union> S)"
  by (force simp: search_inv_def in_blocked_by)

lemma reach_expand:
  "c \<noteq> t \<Longrightarrow> (c, t) \<in> (set es)\<^sup>* \<longleftrightarrow> (\<exists>b \<in> set (blocked_by es c). (b, t) \<in> (set es)\<^sup>*)"
  by (meson converse_rtranclE converse_rtrancl_into_rtrancl in_blocked_by)

lemma cycle_loop_reach:
  "search_inv target es (set visited) (set stack) \<Longrightarrow>
     cycle_loop target es stack visited \<longleftrightarrow> (\<exists>s \<in> set stack. (s, target) \<in> (set es)\<^sup>*)"
proof (induction target es stack visited rule: cycle_loop.induct)
  case (1 target es visited)
  then show ?case by simp
next
  case (2 target es c stack visited)
  have inv: "search_inv target es (set visited) (insert c (set stack))" using 2(3) by simp
  consider "c = target" | "c \<noteq> target" "c \<in> set visited" | "c \<noteq> target" "c \<notin> set visited" by blast
  then show ?case
  proof cases
    case 1
    then show ?thesis by auto
  next
    case seen: 2
    have i: "search_inv target es (set visited) (set stack)" by (rule search_inv_pop [OF inv seen(2)])
    show ?thesis using 2(1) [OF seen i] seen search_inv_exit [OF i seen(2)] by auto
  next
    case new: 3
    have "search_inv target es (set (c # visited)) (set (rev (blocked_by es c) @ stack))"
      using search_inv_expand [OF inv new(1)] by simp
    from 2(2) [OF new this] show ?thesis using new reach_expand [OF new(1), of es] by auto
  qed
qed

lemma wouldCreateCycle_iff:
  "wouldCreateCycle g a b w \<longleftrightarrow> (b, a) \<in> (set (dep_edges g w))\<^sup>*"
  using cycle_loop_reach [of a "dep_edges g w" "[]" "[b]"]
  by (simp add: wouldCreateCycle_def search_inv_def)

section \<open>Acyclicity\<close>

definition deps_acyclic :: "uuid \<Rightarrow> 'a work_db_scheme \<Rightarrow> bool" where
  "deps_acyclic g w = acyclic (set (dep_edges g w))"

lemma deps_acyclic_cong: "task_dependencies w' = task_dependencies w \<Longrightarrow> deps_acyclic g w' = deps_acyclic g w"
  by (simp add: deps_acyclic_def dep_edges_def)

lemma insertDependency_edges:
  assumes "insertDependency now g a b u w = (Inr d, w')"
  shows "dep_edges h w' = dep_edges h w @ (if h = g then [(a, b)] else [])"
    and "tasks w' = tasks w" and "entropy w' = entropy w" and "drawn w' = Suc (drawn w)"
  using assms by (auto simp: insertDependency_def dep_edges_def draw_def Let_def split: if_splits)

lemma addDependency_cases:
  assumes "addDependency now g a b u w = (res, w')"
  obtains (rejected) e where "res = Inl e" "w' = w"
  | (added) d where "dep_check g a b w = Inr ()" "insertDependency now g a b u w = (Inr d, w')" "res = Inr d"
proof (cases "dep_check g a b w")
  case (Inl e)
  with assms show thesis by (intro rejected) (auto simp: addDependency_def)
next
  case (Inr x)
  then have "a \<noteq> b" by (auto simp: dep_check_def)
  then obtain d w1 where "insertDependency now g a b u w = (Inr d, w1)"
    by (auto simp: insertDependency_def draw_def Let_def)
  with Inr assms show thesis by (intro added [of d]) (auto simp: addDependency_def)
qed

lemma dep_check_InrD:
  assumes "dep_check g a b w = Inr ()"
  shows "a \<noteq> b" and "\<not> wouldCreateCycle g a b w"
    and "\<exists>s t. task_findById a w = Some s \<and> task_findById b w = Some t \<and> t_org_id s = g \<and>
           t_org_id t = g \<and> t_workspace_id s = t_workspace_id t"
  using assms by (auto simp: dep_check_def split: if_splits option.splits)

lemma addDependency_acyclic:
  assumes "deps_acyclic h w" and "addDependency now g a b u w = (res, w')"
  shows "deps_acyclic h w'"
  using assms(2)
proof (cases rule: addDependency_cases)
  case rejected
  with assms(1) show ?thesis by simp
next
  case (added d)
  have "(b, a) \<notin> (set (dep_edges g w))\<^sup>*"
    using dep_check_InrD(2) [OF added(1)] by (simp add: wouldCreateCycle_iff)
  with assms(1) show ?thesis
    using insertDependency_edges(1) [OF added(2), of h]
    by (cases "h = g") (simp_all add: deps_acyclic_def acyclic_insert)
qed

lemma removeDependency_acyclic: "deps_acyclic h w \<Longrightarrow> deps_acyclic h (removeDependency g i w)"
  by (auto simp: deps_acyclic_def dep_edges_def removeDependency_def deleteDependency_def delete_where_def
      elim!: acyclic_subset)

end
