(* ===== verification/Task_Extras.thy ===== *)
theory Task_Extras
  imports Task
begin

text \<open>
  The other services of the task module: bulk operations, templates, comments with their
  mentions, and the worker that creates the next occurrence of a recurring task.
\<close>

section \<open>Bulk operations\<close>

definition BULK_MAX :: nat where
  "BULK_MAX = 100"

definition assertAdminOrOwner :: "uuid \<Rightarrow> uuid \<Rightarrow> 'a work_db_scheme \<Rightarrow> unit outcome" where
  "assertAdminOrOwner orgId userId w =
     (case findMembership orgId userId w of
        None \<Rightarrow> Inl (ForbiddenError ''INSUFFICIENT_ROLE'')
      | Some m \<Rightarrow> if m_role m \<noteq> OrgOwner \<and> m_role m \<noteq> OrgAdmin
                  then Inl (ForbiddenError ''INSUFFICIENT_ROLE'') else Inr ())"

definition bulkUpdateStatus ::
    "timestamp \<Rightarrow> uuid \<Rightarrow> uuid \<Rightarrow> uuid list \<Rightarrow> task_status \<Rightarrow> 'a work_db_scheme
     \<Rightarrow> nat outcome \<times> 'a work_db_scheme" where
  "bulkUpdateStatus now orgId userId ids st w =
     (if ids = [] \<or> length ids > BULK_MAX then (Inl (AppError 422 ''BULK_SIZE_INVALID'' [''100'']), w)
      else case assertAdminOrOwner orgId userId w of
             Inl e \<Rightarrow> (Inl e, w)
           | Inr _ \<Rightarrow> withTransaction (\<lambda>w. let (n, w1) = task_bulkUpdateStatus now orgId ids st w
                                           in (Inr n, w1)) w)"

definition bulkDelete ::
    "timestamp \<Rightarrow> uuid \<Rightarrow> uuid \<Rightarrow> uuid list \<Rightarrow> 'a work_db_scheme \<Rightarrow> nat outcome \<times> 'a work_db_scheme" where
  "bulkDelete now orgId userId ids w =
     (if ids = [] \<or> length ids > BULK_MAX then (Inl (AppError 422 ''BULK_SIZE_INVALID'' [''100'']), w)
      else case assertAdminOrOwner orgId userId w of
             Inl e \<Rightarrow> (Inl e, w)
           | Inr _ \<Rightarrow> withTransaction (\<lambda>w. let (n, w1) = task_bulkSoftDelete now orgId ids w
                                           in (Inr n, w1)) w)"

section \<open>Templates\<close>

record create_template_input =
  cti_name :: string
  cti_default_title :: "string option"
  cti_default_description :: "json option"
  cti_default_priority :: "priority option"
  cti_default_labels :: "string list option"

definition createTemplate ::
    "timestamp \<Rightarrow> uuid \<Rightarrow> uuid \<Rightarrow> create_template_input \<Rightarrow> 'a work_db_scheme
     \<Rightarrow> task_template outcome \<times> 'a work_db_scheme" where
  "createTemplate now orgId userId inp w =
     (case assertAdminOrOwner orgId userId w of
        Inl e \<Rightarrow> (Inl e, w)
      | Inr _ \<Rightarrow>
          let (i, w1) = draw w;
              t = \<lparr>tt_id = i, tt_org_id = orgId, tt_name = cti_name inp,
                   tt_default_title = cti_default_title inp,
                   tt_default_description = cti_default_description inp,
                   tt_default_priority = cti_default_priority inp,
                   tt_default_labels = case_option [] id (cti_default_labels inp),
                   tt_created_by = userId, tt_deleted_at = None, tt_created_at = now\<rparr>
          in (Inr t, w1\<lparr>task_templates := task_templates w1 @ [t]\<rparr>))"

definition template_live :: "task_template \<Rightarrow> bool" where
  "template_live t = (tt_deleted_at t = None)"

definition listTemplates :: "uuid \<Rightarrow> 'a work_db_scheme \<Rightarrow> task_template list" where
  "listTemplates orgId w =
     sort_key tt_created_at (filter (\<lambda>t. tt_org_id t = orgId \<and> template_live t) (task_templates w))"

definition getTemplate :: "uuid \<Rightarrow> uuid \<Rightarrow> 'a work_db_scheme \<Rightarrow> task_template outcome" where
  "getTemplate orgId templateId w =
     (case List.find (\<lambda>t. tt_id t = templateId \<and> tt_org_id t = orgId \<and> template_live t) (task_templates w) of
        None \<Rightarrow> Inl (NotFoundError ''TaskTemplate'')
      | Some t \<Rightarrow> Inr t)"

definition deleteTemplate ::
    "timestamp \<Rightarrow> uuid \<Rightarrow> uuid \<Rightarrow> uuid \<Rightarrow> 'a work_db_scheme \<Rightarrow> unit outcome \<times> 'a work_db_scheme" where
  "deleteTemplate now orgId templateId userId w =
     (case assertAdminOrOwner orgId userId w of
        Inl e \<Rightarrow> (Inl e, w)
      | Inr _ \<Rightarrow>
          let P = (\<lambda>t. tt_id t = templateId \<and> tt_org_id t = orgId \<and> template_live t);
              w1 = w\<lparr>task_templates := update_where P (\<lambda>t. t\<lparr>tt_deleted_at := Some now\<rparr>) (task_templates w)\<rparr>
          in if list_ex P (task_templates w) then (Inr (), w1)
             else (Inl (NotFoundError ''TaskTemplate''), w1))"

section \<open>Mentions\<close>

text \<open>The characters of \<^verbatim>\<open>[a-zA-Z0-9_.-]\<close>.\<close>

definition handle_char :: "char \<Rightarrow> bool" where
  "handle_char c = (let n = (of_char c :: nat)
     in (97 \<le> n \<and> n \<le> 122) \<or> (65 \<le> n \<and> n \<le> 90) \<or> (48 \<le> n \<and> n \<le> 57) \<or> n = 95 \<or> n = 46 \<or> n = 45)"

text \<open>All matches of \<^verbatim>\<open>/@([a-zA-Z0-9_.-]+)/g\<close>, from left to right.\<close>

function scan_mentions :: "string \<Rightarrow> string list" where
  "scan_mentions [] = []"
| "scan_mentions (c # cs) =
     (if c = CHR ''@'' \<and> takeWhile handle_char cs \<noteq> []
      then takeWhile handle_char cs # scan_mentions (dropWhile handle_char cs)
      else scan_mentions cs)"
  by pat_completeness auto

termination scan_mentions
  by (relation "measure length") (simp_all add: length_dropWhile_le le_imp_less_Suc)

text \<open>\<^verbatim>\<open>[...new Set(xs)]\<close> keeps the first of equal elements.\<close>

definition unique_first :: "'b list \<Rightarrow> 'b list" where
  "unique_first xs = rev (remdups (rev xs))"

definition extractMentionHandles :: "json \<Rightarrow> string list" where
  "extractMentionHandles body =
     (case json_field ''ops'' body of
        Some (JArr ops) \<Rightarrow>
          unique_first (concat (map (\<lambda>op. case json_field ''insert'' op of
                                        Some (JStr s) \<Rightarrow> map toLowerCase (scan_mentions s)
                                      | _ \<Rightarrow> []) ops))
      | _ \<Rightarrow> [])"

definition handle_of_name :: "string \<Rightarrow> string" where
  "handle_of_name n = toLowerCase (filter (\<lambda>c. c \<noteq> CHR '' '') n)"

definition handle_of_email :: "string \<Rightarrow> string" where
  "handle_of_email e = toLowerCase (takeWhile (\<lambda>c. c \<noteq> CHR ''@'') e)"

definition find_mentioned :: "uuid \<Rightarrow> string \<Rightarrow> 'a work_db_scheme \<Rightarrow> user option" where
  "find_mentioned orgId handle w =
     List.find (\<lambda>u. list_ex (\<lambda>m. m_user_id m = u_id u \<and> m_org_id m = orgId \<and> m_deleted_at m = None)
                      (org_memberships w) \<and>
                    u_deleted_at u = None \<and>
                    (handle_of_name (u_name u) = handle \<or> handle_of_email (u_email u) = handle)) (users w)"

fun create_mentions ::
    "timestamp \<Rightarrow> uuid \<Rightarrow> uuid \<Rightarrow> uuid \<Rightarrow> uuid \<Rightarrow> string list \<Rightarrow> 'a work_db_scheme
     \<Rightarrow> (uuid \<times> string) list \<times> 'a work_db_scheme" where
  "create_mentions now orgId taskId commentId authorId [] w = ([], w)"
| "create_mentions now orgId taskId commentId authorId (h # hs) w =
     (case find_mentioned orgId h w of
        None \<Rightarrow> create_mentions now orgId taskId commentId authorId hs w
      | Some u \<Rightarrow>
          let w1 = insert_outbox now (Some orgId) ''mention.created'' ''comment'' commentId (Some authorId)
                     (JObj [(''orgId'', JStr orgId), (''taskId'', JStr taskId), (''commentId'', JStr commentId),
                            (''mentionedUserId'', JStr (u_id u)), (''handle'', JStr h)]) w;
              (rs, w2) = create_mentions now orgId taskId commentId authorId hs w1
          in ((u_id u, h) # rs, w2))"

definition parseAndCreate ::
    "timestamp \<Rightarrow> uuid \<Rightarrow> uuid \<Rightarrow> uuid \<Rightarrow> uuid \<Rightarrow> json \<Rightarrow> 'a work_db_scheme
     \<Rightarrow> (uuid \<times> string) list \<times> 'a work_db_scheme" where
  "parseAndCreate now orgId taskId commentId authorId body w =
     create_mentions now orgId taskId commentId authorId (extractMentionHandles body) w"

section \<open>Comments\<close>

definition find_comment :: "uuid \<Rightarrow> uuid \<Rightarrow> 'a work_db_scheme \<Rightarrow> comment option" where
  "find_comment orgId i w =
     List.find (\<lambda>c. c_id c = i \<and> c_org_id c = orgId \<and> c_deleted_at c = None) (comments w)"

definition check_thread :: "uuid \<Rightarrow> uuid option \<Rightarrow> 'a work_db_scheme \<Rightarrow> unit outcome" where
  "check_thread orgId parentId w =
     (case parentId of
        None \<Rightarrow> Inr ()
      | Some p \<Rightarrow>
          if p = '''' then Inr ()
          else case find_comment orgId p w of
                 None \<Rightarrow> Inl (NotFoundError ''ParentComment'')
               | Some c \<Rightarrow> if c_parent_comment_id c \<noteq> None
                           then Inl (AppError 422 ''THREADING_DEPTH_EXCEEDED'' []) else Inr ())"

definition createComment ::
    "timestamp \<Rightarrow> uuid \<Rightarrow> uuid \<Rightarrow> uuid \<Rightarrow> json \<Rightarrow> uuid option \<Rightarrow> 'a work_db_scheme
     \<Rightarrow> comment outcome \<times> 'a work_db_scheme" where
  "createComment now orgId authorId taskId body parentId w =
     (case check_thread orgId parentId w of
        Inl e \<Rightarrow> (Inl e, w)
      | Inr _ \<Rightarrow>
          if parentId = Some '''' then (Inl (PgError ''22P02''), w)
          else let (i, w1) = draw w;
              c = \<lparr>c_id = i, c_org_id = orgId, c_task_id = taskId, c_author_id = authorId,
                   c_parent_comment_id = parentId, c_body = body, c_deleted_at = None, c_created_at = now\<rparr>;
              w2 = w1\<lparr>comments := comments w1 @ [c]\<rparr>;
              w3 = insert_outbox now (Some orgId) ''comment.created'' ''comment'' i (Some authorId)
                     (JObj [(''commentId'', JStr i), (''taskId'', JStr taskId), (''orgId'', JStr orgId)]) w2;
              (_, w4) = parseAndCreate now orgId taskId i authorId body w3
          in (Inr c, w4))"

definition listComments :: "uuid \<Rightarrow> uuid \<Rightarrow> 'a work_db_scheme \<Rightarrow> comment list" where
  "listComments orgId taskId w =
     sort_key c_created_at
       (filter (\<lambda>c. c_org_id c = orgId \<and> c_task_id c = taskId \<and> c_deleted_at c = None) (comments w))"

definition deleteComment ::
    "timestamp \<Rightarrow> uuid \<Rightarrow> uuid \<Rightarrow> uuid \<Rightarrow> 'a work_db_scheme \<Rightarrow> unit outcome \<times> 'a work_db_scheme" where
  "deleteComment now orgId commentId userId w =
     (case find_comment orgId commentId w of
        None \<Rightarrow> (Inl (NotFoundError ''Comment''), w)
      | Some c \<Rightarrow>
          if c_author_id c \<noteq> userId then (Inl (ForbiddenError ''NOT_COMMENT_AUTHOR''), w)
          else (Inr (), w\<lparr>comments := update_where (\<lambda>c. c_id c = commentId)
                                      (\<lambda>c. c\<lparr>c_deleted_at := Some now\<rparr>) (comments w)\<rparr>))"

section \<open>Recurring tasks\<close>

text \<open>
  The next occurrence comes from the \<^verbatim>\<open>rrule\<close> package: \<open>rrule_after rule now\<close> is
  \<open>None\<close> when parsing throws, \<open>Some None\<close> when the recurrence has ended.
  \<open>session_date\<close> is \<^verbatim>\<open>::date\<close> in the time zone of the database session.
\<close>

definition occurrence_exists ::
    "(timestamp \<Rightarrow> int) \<Rightarrow> uuid \<Rightarrow> timestamp \<Rightarrow> task list \<Rightarrow> bool" where
  "occurrence_exists session_date parentId due ts =
     list_ex (\<lambda>t. t_recurrence_parent_id t = Some parentId \<and> task_live t \<and>
                  (case t_due_date t of None \<Rightarrow> False | Some d \<Rightarrow> session_date d = session_date due)) ts"

definition occurrence_of :: "uuid \<Rightarrow> task \<Rightarrow> timestamp \<Rightarrow> create_task_data" where
  "occurrence_of orgId parent due =
     \<lparr>ct_org_id = orgId, ct_workspace_id = t_workspace_id parent, ct_board_id = None,
      ct_parent_task_id = None, ct_depth = Some 0, ct_title = t_title parent,
      ct_description = t_description parent, ct_status = Some Todo, ct_priority = Some (t_priority parent),
      ct_creator_id = t_creator_id parent, ct_due_date = Some due, ct_is_recurring = Some False,
      ct_recurrence_rule = None, ct_recurrence_parent_id = Some (t_id parent), ct_template_id = None,
      ct_labels = None\<rparr>"

definition runRecurringTaskJob ::
    "(string \<Rightarrow> timestamp \<Rightarrow> timestamp option option) \<Rightarrow> (timestamp \<Rightarrow> int) \<Rightarrow> timestamp \<Rightarrow> uuid \<Rightarrow> uuid
     \<Rightarrow> 'a work_db_scheme \<Rightarrow> unit outcome \<times> 'a work_db_scheme" where
  "runRecurringTaskJob rrule_after session_date now parentTaskId orgId w =
     (case task_findById parentTaskId w of
        None \<Rightarrow> (Inr (), w)
      | Some parent \<Rightarrow>
          if \<not> t_is_recurring parent \<or> \<not> truthy (t_recurrence_rule parent) then (Inr (), w)
          else case rrule_after (case_option '''' id (t_recurrence_rule parent)) now of
                 None \<Rightarrow> (Inr (), w)
               | Some None \<Rightarrow> (Inr (), w)
               | Some (Some due) \<Rightarrow>
                   if occurrence_exists session_date parentTaskId due (tasks w) then (Inr (), w)
                   else let assignees = map ta_user_id (getAssignees parentTaskId w)
                   in case task_create now (occurrence_of orgId parent due) w of
                        (Inl e, w1) \<Rightarrow> (Inl e, w1)
                      | (Inr t, w1) \<Rightarrow>
                          let w2 = add_assignees now (t_id t) orgId (t_creator_id parent) assignees w1
                          in (Inr (), insert_outbox now (Some orgId) ''task.created'' ''task'' (t_id t) None
                                (JObj [(''taskId'', JStr (t_id t)), (''parentTaskId'', JStr parentTaskId),
                                       (''orgId'', JStr orgId)]) w2))"

section \<open>Facts\<close>

interpretation template_tenant:
  tenant_lookup task_templates tt_id tt_org_id template_live getTemplate "''TaskTemplate''"
proof unfold_locales
  fix g i and s :: "'a work_db_scheme" and r
  assume "getTemplate g i s = Inr r"
  then show "r \<in> set (task_templates s) \<and> tt_id r = i \<and> tt_org_id r = g \<and> template_live r"
    by (auto simp: getTemplate_def split: option.splits dest: find_SomeD)
next
  fix g i and s :: "'a work_db_scheme" and e
  assume "getTemplate g i s = Inl e"
  then show "e = NotFoundError ''TaskTemplate''" by (auto simp: getTemplate_def split: option.splits)
next
  fix s :: "'a work_db_scheme" and r
  assume "distinct (map tt_id (task_templates s))" "r \<in> set (task_templates s)" "template_live r"
  then show "getTemplate (tt_org_id r) (tt_id r) s = Inr r"
    by (simp add: getTemplate_def find_by_key [where k = tt_id and Q = "\<lambda>t. tt_org_id t = tt_org_id r \<and> template_live t"])
qed

lemma bulk_cases:
  "bulkUpdateStatus now g u ids st w = (res, w') \<Longrightarrow>
     w' = w \<or> tasks w' = tasks (snd (task_bulkUpdateStatus now g ids st w)) \<and>
       task_dependencies w' = task_dependencies w \<and> entropy w' = entropy w \<and> drawn w' = drawn w"
  "bulkDelete now g u ids w = (res, w') \<Longrightarrow>
     w' = w \<or> tasks w' = tasks (snd (task_bulkSoftDelete now g ids w)) \<and>
       task_dependencies w' = task_dependencies w \<and> entropy w' = entropy w \<and> drawn w' = drawn w"
  by (auto simp: bulkUpdateStatus_def bulkDelete_def withTransaction_def task_bulkUpdateStatus_def
      task_bulkSoftDelete_def split: if_splits sum.splits)

lemma bulk_tree:
  "task_tree (tasks w) \<Longrightarrow> task_tree (tasks (snd (task_bulkUpdateStatus now g ids st w)))"
  "task_tree (tasks w) \<Longrightarrow> task_tree (tasks (snd (task_bulkSoftDelete now g ids w)))"
  by (simp_all add: task_bulkUpdateStatus_def task_bulkSoftDelete_def task_tree_update_where tree_key_eq)

lemma occurrence_of_simps [simp]:
  "ct_org_id (occurrence_of g p due) = g" "ct_parent_task_id (occurrence_of g p due) = None"
  "ct_depth (occurrence_of g p due) = Some 0" "ct_due_date (occurrence_of g p due) = Some due"
  "ct_recurrence_parent_id (occurrence_of g p due) = Some (t_id p)"
  by (simp_all add: occurrence_of_def)

lemma runRecurringTaskJob_cases:
  assumes "runRecurringTaskJob rr sd now p g w = (res, w')"
  obtains (skipped) "tasks w' = tasks w" "task_dependencies w' = task_dependencies w"
      "entropy w' = entropy w" "drawn w \<le> drawn w'"
  | (spawned) t due where "task_findById p w = Some t" "t_is_recurring t"
      "rr (case_option '''' id (t_recurrence_rule t)) now = Some (Some due)"
      "\<not> occurrence_exists sd p due (tasks w)"
      "\<not> dedup_conflict (new_task now (entropy w (drawn w)) (occurrence_of g t due)) (tasks w)"
      "tasks w' = tasks w @ [new_task now (entropy w (drawn w)) (occurrence_of g t due)]"
      "task_dependencies w' = task_dependencies w" "entropy w' = entropy w" "drawn w < drawn w'"
      "res = Inr ()"
proof (cases "task_findById p w")
  case None
  with assms show thesis by (intro skipped) (auto simp: runRecurringTaskJob_def)
next
  case (Some t)
  let ?r = "rr (case_option '''' id (t_recurrence_rule t)) now"
  show thesis
  proof (cases "t_is_recurring t \<and> truthy (t_recurrence_rule t) \<and>
      (\<exists>due. ?r = Some (Some due) \<and> \<not> occurrence_exists sd p due (tasks w))")
    case False
    with Some assms show thesis
      by (intro skipped) (auto simp: runRecurringTaskJob_def split: option.splits if_splits)
  next
    case True
    then obtain due where due: "?r = Some (Some due)" "\<not> occurrence_exists sd p due (tasks w)" by blast
    let ?t = "new_task now (entropy w (drawn w)) (occurrence_of g t due)"
    show thesis
    proof (cases "dedup_conflict ?t (tasks w)")
      case yes: True
      with Some True due assms show thesis
        by (intro skipped) (auto simp: runRecurringTaskJob_def task_create_def Let_def draw_def)
    next
      case no: False
      with Some True due assms show thesis
        by (intro spawned [of t due]) (auto simp: runRecurringTaskJob_def task_create_def Let_def draw_def)
    qed
  qed
qed

end
