(* ===== verification/Task_System.thy ===== *)
theory Task_System
  imports Task_Dependency Task_Extras
begin

text \<open>
  The task module as a transition system: a step is one call of a service or of the
  recurring-task worker, or anything that leaves the task tables alone.  The invariant of
  its reachable states, and the properties of the single operations.
\<close>

section \<open>Steps and invariant\<close>

inductive task_step :: "'a work_db_scheme \<Rightarrow> 'a work_db_scheme \<Rightarrow> bool" where
  create: "createTask now g u inp w = (res, w') \<Longrightarrow> task_step w w'"
| update: "updateTask now g i u upd w = (res, w') \<Longrightarrow> task_step w w'"
| delete: "deleteTask now g i u w = (dres, w') \<Longrightarrow> task_step w w'"
| bulk_status: "bulkUpdateStatus now g u ids st w = (bres, w') \<Longrightarrow> task_step w w'"
| bulk_delete: "bulkDelete now g u ids w = (bres, w') \<Longrightarrow> task_step w w'"
| add_dep: "addDependency now g a b u w = (ares, w') \<Longrightarrow> task_step w w'"
| remove_dep: "task_step w (removeDependency g i w)"
| recur: "runRecurringTaskJob rr sd now p g w = (rres, w') \<Longrightarrow> task_step w w'"
| other: "tasks w' = tasks w \<Longrightarrow> task_dependencies w' = task_dependencies w \<Longrightarrow>
    entropy w' = entropy w \<Longrightarrow> drawn w \<le> drawn w' \<Longrightarrow> task_step w w'"

text \<open>At most one live occurrence of a recurring task per UTC day.\<close>

definition same_slot :: "task \<Rightarrow> task \<Rightarrow> bool" where
  "same_slot s t = (dedup_key s \<noteq> None \<and> dedup_key s = dedup_key t)"

definition dedup_ok :: "task list \<Rightarrow> bool" where
  "dedup_ok ts = (\<forall>s \<in> set ts. \<forall>t \<in> set ts. same_slot s t \<longrightarrow> t_id s = t_id t)"

definition ids_drawn :: "'a work_db_scheme \<Rightarrow> bool" where
  "ids_drawn w = (t_id ` set (tasks w) \<subseteq> entropy w ` {..<drawn w})"

definition task_inv :: "'a work_db_scheme \<Rightarrow> bool" where
  "task_inv w \<longleftrightarrow> inj (entropy w) \<and> ids_drawn w \<and> task_tree (tasks w) \<and> dedup_ok (tasks w) \<and>
     (\<forall>g. deps_acyclic g w)"

section \<open>Each step keeps the invariant\<close>

lemma ids_drawn_mono:
  "ids_drawn w \<Longrightarrow> map t_id (tasks w') = map t_id (tasks w) \<Longrightarrow> entropy w' = entropy w \<Longrightarrow>
     drawn w \<le> drawn w' \<Longrightarrow> ids_drawn w'"
proof -
  assume a: "ids_drawn w" "map t_id (tasks w') = map t_id (tasks w)" "entropy w' = entropy w" "drawn w \<le> drawn w'"
  have "t_id ` set (tasks w') = t_id ` set (tasks w)" using a(2) by (metis set_map)
  moreover have "entropy w ` {..<drawn w} \<subseteq> entropy w ` {..<drawn w'}" using a(4) by auto
  ultimately show ?thesis using a(1,3) by (auto simp: ids_drawn_def)
qed

lemma fresh_id: "inj (entropy w) \<Longrightarrow> ids_drawn w \<Longrightarrow> entropy w (drawn w) \<notin> t_id ` set (tasks w)"
  by (auto simp: ids_drawn_def dest: injD)

lemma same_slot_sym: "same_slot s t \<Longrightarrow> same_slot t s"
  unfolding same_slot_def by metis

lemma dedup_conflict_iff: "dedup_conflict t ts \<longleftrightarrow> (\<exists>s \<in> set ts. same_slot t s)"
  by (auto simp: dedup_conflict_def same_slot_def)

lemma dedup_okI: "(\<And>s t. s \<in> set ts \<Longrightarrow> t \<in> set ts \<Longrightarrow> same_slot s t \<Longrightarrow> t_id s = t_id t) \<Longrightarrow> dedup_ok ts"
  by (simp add: dedup_ok_def)

lemma dedup_okD: "dedup_ok ts \<Longrightarrow> s \<in> set ts \<Longrightarrow> t \<in> set ts \<Longrightarrow> same_slot s t \<Longrightarrow> t_id s = t_id t"
  by (simp add: dedup_ok_def)

lemma dedup_ok_snoc:
  assumes "dedup_ok ts" and "\<not> dedup_conflict x ts"
  shows "dedup_ok (ts @ [x])"
proof (rule dedup_okI)
  fix s t assume st: "s \<in> set (ts @ [x])" "t \<in> set (ts @ [x])" "same_slot s t"
  have no: "\<not> same_slot x r" "\<not> same_slot r x" if "r \<in> set ts" for r
    using assms(2) that same_slot_sym by (auto simp: dedup_conflict_iff)
  from st show "t_id s = t_id t" using no dedup_okD [OF assms(1)] by auto
qed

lemma dedup_ok_update_where:
  assumes "dedup_ok ts" and "\<And>t. P t \<Longrightarrow> t_id (f t) = t_id t"
    and "\<And>t. P t \<Longrightarrow> dedup_key (f t) \<in> {None, dedup_key t}"
  shows "dedup_ok (update_where P f ts)"
proof (rule dedup_okI)
  fix s t assume "s \<in> set (update_where P f ts)" "t \<in> set (update_where P f ts)" and k: "same_slot s t"
  then obtain s0 t0 where 0: "s0 \<in> set ts" "t0 \<in> set ts"
    "s = (if P s0 then f s0 else s0)" "t = (if P t0 then f t0 else t0)"
    unfolding in_update_where by blast
  have nn: "dedup_key s \<noteq> None" "dedup_key t \<noteq> None" using k unfolding same_slot_def by metis+
  have ks: "dedup_key s0 = dedup_key s" "t_id s0 = t_id s"
    using 0(3) nn(1) assms(2,3) [of s0] by (cases "P s0"; fastforce)+
  have kt: "dedup_key t0 = dedup_key t" "t_id t0 = t_id t"
    using 0(4) nn(2) assms(2,3) [of t0] by (cases "P t0"; fastforce)+
  have "same_slot s0 t0" using k unfolding same_slot_def ks kt .
  with dedup_okD [OF assms(1) 0(1,2)] ks kt show "t_id s = t_id t" by simp
qed

lemma dedup_ok_update_row:
  assumes "dedup_ok ts" and "\<not> dedup_conflict t' (filter (\<lambda>s. t_id s \<noteq> i) ts)"
    and "\<And>s. s \<in> set ts \<Longrightarrow> P s \<Longrightarrow> f s = t'" and "t_id t' = i"
  shows "dedup_ok (update_where P f ts)"
proof (rule dedup_okI)
  fix r s assume rs: "r \<in> set (update_where P f ts)" "s \<in> set (update_where P f ts)" and k: "same_slot r s"
  have row: "x \<in> set ts \<or> x = t'" if "x \<in> set (update_where P f ts)" for x
  proof -
    from that obtain y where y: "y \<in> set ts" "x = (if P y then f y else y)"
      unfolding in_update_where by blast
    then show ?thesis using assms(3) [OF y(1)] by (cases "P y") simp_all
  qed
  have new: "t_id x = i" if "x \<in> set ts" "same_slot t' x \<or> same_slot x t'" for x
    using that assms(2) same_slot_sym by (auto simp: dedup_conflict_iff)
  show "t_id r = t_id s"
    using row [OF rs(1)] row [OF rs(2)] k new [of r] new [of s] assms(4) dedup_okD [OF assms(1), of r s]
    by metis
qed

lemma task_update_inv:
  assumes "task_tree (tasks w)" and "dedup_ok (tasks w)" and "task_update now g i d v w = (Inr (Some t'), w1)"
  shows "task_tree (tasks w1)" and "dedup_ok (tasks w1)" and "map t_id (tasks w1) = map t_id (tasks w)"
    and "task_dependencies w1 = task_dependencies w" and "entropy w1 = entropy w" and "drawn w1 = drawn w"
proof -
  have "task_tree (tasks w1) \<and> dedup_ok (tasks w1) \<and> map t_id (tasks w1) = map t_id (tasks w) \<and>
    task_dependencies w1 = task_dependencies w \<and> entropy w1 = entropy w \<and> drawn w1 = drawn w"
  proof (cases "task_has_clauses d")
    case False
    with assms show ?thesis by (auto simp: task_update_def)
  next
    case True
    from True assms(3) show ?thesis
    proof (cases rule: task_update_cases)
      case (updated t)
      have uniq: "s = t" if "s \<in> set (tasks w)" "task_at g i v s" for s
        using that updated(1,2) task_tree_ids [OF assms(1)] by (auto simp: task_at_def)
      have "t_id t = i" using updated(2) by (simp add: task_at_def)
      then have "dedup_ok (update_where (task_at g i v) (task_set now d) (tasks w))"
        by (intro dedup_ok_update_row [where t' = "task_set now d t" and i = i] assms(2) updated(5))
           (auto dest: uniq)
      with updated assms(1) show ?thesis by (simp add: task_tree_update_where map_update_where_same)
    qed simp_all
  qed
  then show "task_tree (tasks w1)" and "dedup_ok (tasks w1)" and "map t_id (tasks w1) = map t_id (tasks w)"
    and "task_dependencies w1 = task_dependencies w" and "entropy w1 = entropy w" and "drawn w1 = drawn w"
    by simp_all
qed

lemma task_inv_append:
  assumes "task_inv w" and "tasks w' = tasks w @ [t]" and "t_id t = entropy w (drawn w)"
    and "task_dependencies w' = task_dependencies w" and "entropy w' = entropy w" and "drawn w < drawn w'"
    and "0 \<le> t_depth t" and "t_depth t \<le> 2" and "parent_ok (tasks w) t" and "\<not> dedup_conflict t (tasks w)"
  shows "task_inv w'"
proof -
  have inv: "inj (entropy w)" "ids_drawn w" "task_tree (tasks w)" "dedup_ok (tasks w)" "\<forall>g. deps_acyclic g w"
    using assms(1) by (simp_all add: task_inv_def)
  have "t_id t \<notin> t_id ` set (tasks w)" using fresh_id [OF inv(1,2)] assms(3) by simp
  then have tree: "task_tree (tasks w')" using task_tree_snoc [OF inv(3) _ assms(7-9)] assms(2) by simp
  have "entropy w ` {..<drawn w} \<subseteq> entropy w ` {..<drawn w'}" using assms(6) by auto
  then have "ids_drawn w'"
    using inv(2) assms(2,3,5,6) by (auto simp: ids_drawn_def)
  with inv tree assms(2,4,5) dedup_ok_snoc [OF inv(4) assms(10)] show ?thesis
    by (simp add: task_inv_def deps_acyclic_cong [OF assms(4)])
qed

lemma task_inv_same_ids:
  assumes "task_inv w" and "map t_id (tasks w') = map t_id (tasks w)" and "task_tree (tasks w')"
    and "dedup_ok (tasks w')" and "task_dependencies w' = task_dependencies w"
    and "entropy w' = entropy w" and "drawn w \<le> drawn w'"
  shows "task_inv w'"
  using assms ids_drawn_mono [of w w'] by (simp add: task_inv_def deps_acyclic_cong [OF assms(5)])

lemma createTask_inv: "task_inv w \<Longrightarrow> createTask now g u inp w = (res, w') \<Longrightarrow> task_inv w'"
proof (erule createTask_cases)
  assume i: "task_inv w" and "tasks w' = tasks w" "task_dependencies w' = task_dependencies w"
    "entropy w' = entropy w" "drawn w \<le> drawn w'"
  then show "task_inv w'" by (intro task_inv_same_ids [OF i]) (simp_all add: task_inv_def)
next
  fix d
  let ?t = "new_task now (entropy w (drawn w)) (create_data g u d inp)"
  assume i: "task_inv w" and c: "check_parent g (ci_parent_task_id inp) w = Inr d" "ci_parent_task_id inp \<noteq> Some ''''"
    and d: "0 \<le> d" "d \<le> 2" and t: "tasks w' = tasks w @ [?t]" "task_dependencies w' = task_dependencies w"
    "entropy w' = entropy w" "drawn w < drawn w'"
  have "parent_ok (tasks w) ?t"
    using check_parent_InrD [OF c] by (auto simp: parent_ok_def list_ex_iff)
  then show "task_inv w'"
    by (intro task_inv_append [OF i t(1) _ t(2-4)])
       (simp_all add: d dedup_conflict_def dedup_key_def)
qed

lemma dedup_key_status:
  "dedup_key (t\<lparr>t_status := st, t_updated_at := n, t_completed_at := c\<rparr>) = dedup_key t"
  by (simp add: dedup_key_def task_live_def split: option.split)

lemma bulk_inv:
  "task_inv w \<Longrightarrow> bulkUpdateStatus now g u ids st w = (res, w') \<Longrightarrow> task_inv w'"
  "task_inv w \<Longrightarrow> bulkDelete now g u ids w = (res, w') \<Longrightarrow> task_inv w'"
proof -
  assume i: "task_inv w"
  have d: "dedup_ok (tasks (snd (task_bulkUpdateStatus now g ids st w)))"
    "dedup_ok (tasks (snd (task_bulkSoftDelete now g ids w)))"
    using i by (auto simp: task_inv_def task_bulkUpdateStatus_def task_bulkSoftDelete_def dedup_key_status
        intro!: dedup_ok_update_where)
  have ids: "map t_id (tasks (snd (task_bulkUpdateStatus now g ids st w))) = map t_id (tasks w)"
    "map t_id (tasks (snd (task_bulkSoftDelete now g ids w))) = map t_id (tasks w)"
    by (simp_all add: task_bulkUpdateStatus_def task_bulkSoftDelete_def map_update_where_same)
  have tree: "task_tree (tasks (snd (task_bulkUpdateStatus now g ids st w)))"
    "task_tree (tasks (snd (task_bulkSoftDelete now g ids w)))"
    using i bulk_tree by (auto simp: task_inv_def)
  show "task_inv w'" if "bulkUpdateStatus now g u ids st w = (res, w')"
    using bulk_cases(1) [OF that] i d(1) ids(1) tree(1)
    by (auto intro: task_inv_same_ids [OF i])
  show "task_inv w'" if "bulkDelete now g u ids w = (res, w')"
    using bulk_cases(2) [OF that] i d(2) ids(2) tree(2)
    by (auto intro: task_inv_same_ids [OF i])
qed

lemma task_step_inv: "task_step w w' \<Longrightarrow> task_inv w \<Longrightarrow> task_inv w'"
proof (induction rule: task_step.induct)
  case (create now g u inp w res w')
  then show ?case using createTask_inv by blast
next
  case (update now g i u upd w res w')
  from update(1) show ?case
  proof (cases rule: updateTask_cases)
    case rejected
    with update(2) show ?thesis by simp
  next
    case (accepted t t' w1)
    have "task_tree (tasks w)" "dedup_ok (tasks w)" using update(2) by (simp_all add: task_inv_def)
    from task_update_inv [OF this accepted(5)] accepted show ?thesis
      by (intro task_inv_same_ids [OF update(2)]) simp_all
  qed
next
  case (delete now g i u w dres w')
  have inv: "task_tree (tasks w)" "dedup_ok (tasks w)" using delete(2) by (simp_all add: task_inv_def)
  from delete(1) show ?case
  proof (cases rule: deleteTask_cases)
    case rejected
    with delete(2) show ?thesis by simp
  next
    case (deleted t)
    have "dedup_ok (tasks (task_cascadeSoftDelete now g i w))"
      unfolding task_cascadeSoftDelete_def Let_def using inv(2) by (simp add: dedup_ok_update_where)
    moreover have "map t_id (tasks (task_cascadeSoftDelete now g i w)) = map t_id (tasks w)"
      by (simp add: task_cascadeSoftDelete_def Let_def map_update_where_same)
    ultimately show ?thesis
      using deleted cascade_tree [OF inv(1)] by (intro task_inv_same_ids [OF delete(2)]) simp_all
  qed
next
  case (bulk_status now g u ids st w bres w')
  then show ?case using bulk_inv(1) by blast
next
  case (bulk_delete now g u ids w bres w')
  then show ?case using bulk_inv(2) by blast
next
  case (add_dep now g a b u w ares w')
  have "deps_acyclic h w'" for h
    using addDependency_acyclic [OF _ add_dep(1)] add_dep(2) by (simp add: task_inv_def)
  moreover from add_dep(1) have "tasks w' = tasks w \<and> entropy w' = entropy w \<and> drawn w \<le> drawn w'"
    by (cases rule: addDependency_cases) (auto dest: insertDependency_edges)
  ultimately show ?case
    using add_dep(2) ids_drawn_mono [of w w'] by (simp add: task_inv_def)
next
  case (remove_dep w g i)
  then show ?case
    using removeDependency_acyclic [of _ w g i] ids_drawn_mono [of w "removeDependency g i w"]
    by (simp add: task_inv_def removeDependency_def deleteDependency_def)
next
  case (recur rr sd now p g w rres w')
  from recur(1) show ?case
  proof (cases rule: runRecurringTaskJob_cases)
    case skipped
    then show ?thesis using recur(2) by (intro task_inv_same_ids [OF recur(2)]) (simp_all add: task_inv_def)
  next
    case (spawned t due)
    show ?thesis
      by (rule task_inv_append [OF recur(2) spawned(6) _ spawned(7-9)])
         (use spawned(5) in \<open>simp_all add: parent_ok_def\<close>)
  qed
next
  case (other w' w)
  then show ?case by (intro task_inv_same_ids [of w w']) (simp_all add: task_inv_def)
qed

section \<open>A small database\<close>

definition ex_task :: "uuid \<Rightarrow> uuid option \<Rightarrow> int \<Rightarrow> task" where
  "ex_task i p d =
     \<lparr>t_id = i, t_org_id = ''g'', t_workspace_id = ''ws'', t_board_id = None, t_parent_task_id = p,
      t_depth = d, t_title = ''T'', t_description = None, t_status = Todo, t_priority = Medium,
      t_creator_id = ''u'', t_due_date = None, t_completed_at = None, t_is_recurring = True,
      t_recurrence_rule = Some ''FREQ=DAILY'', t_recurrence_parent_id = None, t_template_id = None,
      t_labels = [], t_attachments_count = 0, t_deleted_at = None, t_created_at = 0, t_updated_at = 0,
      t_version = 1\<rparr>"

definition ex_admin :: membership where
  "ex_admin = \<lparr>m_id = ''m'', m_org_id = ''g'', m_user_id = ''u'', m_role = OrgAdmin, m_status = MActive,
     m_invited_by = None, m_joined_at = None, m_removed_at = None, m_deleted_at = None,
     m_created_at = 0, m_updated_at = 0\<rparr>"

definition ex_work :: "task list \<Rightarrow> work_db" where
  "ex_work ts =
     \<lparr>outbox_events = [], audit_logs = [], jobs = [], redis = (\<lambda>_. None), pubsub = [],
      entropy = (\<lambda>n. replicate n CHR ''x''), drawn = 0, users = [], organizations = [],
      org_memberships = [ex_admin], workspaces = [], notification_preferences = [], subscriptions = [],
      tasks = ts, task_assignees = [], task_dependencies = [], task_templates = [], comments = [],
      task_activity_log = [], boards = []\<rparr>"

definition ex_input :: create_task_input where
  "ex_input = \<lparr>ci_workspace_id = ''ws'', ci_board_id = None, ci_parent_task_id = None, ci_title = ''T'',
     ci_description = None, ci_status = None, ci_priority = None, ci_due_date = None,
     ci_is_recurring = None, ci_recurrence_rule = None, ci_template_id = None, ci_labels = None,
     ci_assignee_ids = None\<rparr>"

definition ex_patch :: "task_status option \<Rightarrow> update_task_input" where
  "ex_patch st = \<lparr>ut_title = Some ''N'', ut_description = None, ut_status = st, ut_priority = None,
     ut_due_date = None, ut_board_id = None, ut_labels = None, ut_is_recurring = None,
     ut_recurrence_rule = None, ui_assignee_ids = None, ui_version = 1\<rparr>"

definition ex_three :: "task list" where
  "ex_three = [ex_task ''a'' None 0, ex_task ''b'' (Some ''a'') 1, ex_task ''c'' None 0]"

lemmas ex_work_eval =
  ex_work_def ex_task_def ex_admin_def ex_three_def task_findById_def task_live_def findMembership_def
  isAdmin_def

lemma replicate_inj: "inj (\<lambda>n. replicate n CHR ''x'')"
  by (rule injI) (metis length_replicate)

lemma ex_three_tree: "task_tree ex_three" and ex_three_orphan_free: "orphan_free ex_three"
  by (simp_all add: task_tree_def parent_ok_def orphan_free_def ex_three_def ex_task_def task_live_def)

section \<open>Properties\<close>

text \<open>C1. Invariant of the task module: whatever services, bulk operations and worker runs are
  executed from empty tables, task identifiers stay unique, every subtask lies one level
  below an existing task of its organization and no deeper than level 2, the dependencies
  of every organization stay acyclic, and a recurring task has at most one live occurrence
  per UTC day.\<close>

theorem task_module_invariant:
  assumes "task_step\<^sup>*\<^sup>* w0 w" and "tasks w0 = []" and "task_dependencies w0 = []" and "inj (entropy w0)"
  shows "task_tree (tasks w) \<and> (\<forall>g. acyclic (set (dep_edges g w))) \<and> dedup_ok (tasks w)"
proof -
  have "task_inv w0"
    using assms(2-4)
    by (simp add: task_inv_def ids_drawn_def task_tree_def dedup_ok_def deps_acyclic_def dep_edges_def
        acyclic_def)
  with assms(1) have "task_inv w"
    by (induction rule: rtranclp_induct) (auto intro: task_step_inv)
  then show ?thesis by (simp add: task_inv_def deps_acyclic_def)
qed

theorem task_module_invariant_witness:
  "let w1 = snd (createTask 5 ''g'' ''u'' ex_input (ex_work []));
       w2 = snd (createTask 6 ''g'' ''u'' ex_input w1);
       w3 = snd (addDependency 7 ''g'' '''' ''xxx'' ''u'' w2)
   in task_tree (tasks w3) \<and> (\<forall>g. acyclic (set (dep_edges g w3))) \<and> dedup_ok (tasks w3)"
proof -
  let ?w0 = "ex_work []"
  let ?w1 = "snd (createTask 5 ''g'' ''u'' ex_input ?w0)"
  let ?w2 = "snd (createTask 6 ''g'' ''u'' ex_input ?w1)"
  let ?w3 = "snd (addDependency 7 ''g'' '''' ''xxx'' ''u'' ?w2)"
  have "task_step ?w0 ?w1" "task_step ?w1 ?w2" "task_step ?w2 ?w3"
    by (rule task_step.create task_step.add_dep, rule surjective_pairing)+
  then have "task_step\<^sup>*\<^sup>* ?w0 ?w3" by (meson rtranclp.rtrancl_into_rtrancl rtranclp.rtrancl_refl)
  from task_module_invariant [OF this] show ?thesis by (simp add: ex_work_def replicate_inj Let_def)
qed

text \<open>C2. The cycle check is exact: for two different live tasks of one workspace, adding a
  dependency to an acyclic graph fails with DEPENDENCY_CYCLE exactly when the new edge
  would close a cycle; otherwise the edge is stored.\<close>

theorem addDependency_exact:
  assumes "acyclic (set (dep_edges g w))" and "task_findById a w = Some s" and "task_findById b w = Some t"
    and "t_org_id s = g" and "t_org_id t = g" and "t_workspace_id s = t_workspace_id t" and "a \<noteq> b"
  shows "(fst (addDependency now g a b u w) = Inl (AppError 422 ''DEPENDENCY_CYCLE'' [])) =
           (\<not> acyclic (insert (a, b) (set (dep_edges g w)))) \<and>
         dep_edges g (snd (addDependency now g a b u w)) =
           (if acyclic (insert (a, b) (set (dep_edges g w))) then dep_edges g w @ [(a, b)] else dep_edges g w)"
proof (cases "wouldCreateCycle g a b w")
  case True
  with assms have "dep_check g a b w = Inl (AppError 422 ''DEPENDENCY_CYCLE'' [])" by (simp add: dep_check_def)
  with True assms(1) show ?thesis
    by (simp add: addDependency_def acyclic_insert wouldCreateCycle_iff)
next
  case False
  with assms have c: "dep_check g a b w = Inr ()" by (simp add: dep_check_def)
  obtain d w' where i: "insertDependency now g a b u w = (Inr d, w')"
    using assms(7) by (auto simp: insertDependency_def draw_def Let_def)
  show ?thesis
    using c i False assms(1) insertDependency_edges(1) [OF i, of g]
    by (simp add: addDependency_def acyclic_insert wouldCreateCycle_iff)
qed

theorem addDependency_exact_witness:
  "let w = snd (addDependency 5 ''g'' ''a'' ''c'' ''u'' (ex_work ex_three))
   in fst (addDependency 6 ''g'' ''c'' ''a'' ''u'' w) = Inl (AppError 422 ''DEPENDENCY_CYCLE'' [])"
proof -
  let ?w = "snd (addDependency 5 ''g'' ''a'' ''c'' ''u'' (ex_work ex_three))"
  have e: "dep_edges ''g'' ?w = [(''a'', ''c'')]" "task_findById ''c'' ?w = Some (ex_task ''c'' None 0)"
    "task_findById ''a'' ?w = Some (ex_task ''a'' None 0)"
    by (simp_all add: addDependency_def dep_check_def ex_work_eval wouldCreateCycle_def dep_edges_def
        blocked_by_def insertDependency_def draw_def Let_def)
  have "acyclic {(''a'', ''c'')}" "\<not> acyclic {(''c'', ''a''), (''a'', ''c'')}"
    by (auto simp: acyclic_insert) (auto simp: acyclic_def)
  with addDependency_exact [of "''g''" ?w "''c''" "ex_task ''c'' None 0" "''a''" "ex_task ''a'' None 0" 6 "''u''"] e
  show ?thesis by (simp add: ex_task_def Let_def)
qed

text \<open>The check and the insertion are separate statements: when two requests check opposite
  edges before either inserts, both checks pass and the graph has a cycle afterwards.\<close>

theorem dependency_race_makes_cycle:
  assumes "dep_check g a b w = Inr ()" and "dep_check g b a w = Inr ()"
    and "insertDependency now g a b u w = (Inr d1, w1)" and "insertDependency now' g b a u' w1 = (Inr d2, w2)"
  shows "\<not> acyclic (set (dep_edges g w2))"
proof -
  have "(a, b) \<in> set (dep_edges g w2)" "(b, a) \<in> set (dep_edges g w2)"
    using insertDependency_edges(1) [OF assms(3), of g] insertDependency_edges(1) [OF assms(4), of g] by auto
  then have "(a, a) \<in> (set (dep_edges g w2))\<^sup>+" by (meson trancl.r_into_trancl trancl_into_trancl2)
  then show ?thesis by (auto simp: acyclic_def)
qed

theorem dependency_race_makes_cycle_witness:
  "let w = ex_work ex_three;
       w1 = snd (insertDependency 5 ''g'' ''a'' ''c'' ''u'' w);
       w2 = snd (insertDependency 6 ''g'' ''c'' ''a'' ''u'' w1)
   in \<not> acyclic (set (dep_edges ''g'' w2))"
proof -
  let ?w = "ex_work ex_three"
  obtain d1 w1 d2 w2 where i: "insertDependency 5 ''g'' ''a'' ''c'' ''u'' ?w = (Inr d1, w1)"
      "insertDependency 6 ''g'' ''c'' ''a'' ''u'' w1 = (Inr d2, w2)"
    by (auto simp: insertDependency_def draw_def Let_def)
  have "dep_check ''g'' ''a'' ''c'' ?w = Inr ()" "dep_check ''g'' ''c'' ''a'' ?w = Inr ()"
    by (simp_all add: dep_check_def ex_work_eval wouldCreateCycle_def dep_edges_def blocked_by_def)
  from dependency_race_makes_cycle [OF this i] i show ?thesis by (simp add: Let_def)
qed



text \<open>Bulk deletion does not cascade: when a listed task has a live child that is not
  listed, the call leaves that child alive under a deleted parent.\<close>

theorem bulkDelete_leaves_orphans:
  assumes "task_tree (tasks w)" and "p \<in> set (tasks w)" and "c \<in> set (tasks w)" and "task_live p" and "task_live c"
    and "t_parent_task_id c = Some (t_id p)" and "t_org_id p = g" and "t_id p \<in> set ids" and "t_id c \<notin> set ids"
    and "length ids \<le> BULK_MAX" and "assertAdminOrOwner g u w = Inr ()"
  shows "\<not> orphan_free (tasks (snd (bulkDelete now g u ids w)))"
proof
  let ?ts = "update_where (in_bulk g ids) (task_bury now) (tasks w)"
  assume o: "orphan_free (tasks (snd (bulkDelete now g u ids w)))"
  have ts: "tasks (snd (bulkDelete now g u ids w)) = ?ts"
    using assms(8,10,11) by (auto simp: bulkDelete_def withTransaction_def task_bulkSoftDelete_def)
  have "c \<in> set ?ts" using assms(3,9) unfolding in_update_where by (intro bexI [of _ c]) (auto simp: in_bulk_def)
  from orphan_free_parent [OF o [unfolded ts] this assms(5,6)] obtain s
    where s: "s \<in> set ?ts" "t_id s = t_id p" "task_live s" by blast
  then obtain s0 where s0: "s0 \<in> set (tasks w)" "s = (if in_bulk g ids s0 then task_bury now s0 else s0)"
    unfolding in_update_where by blast
  with s(2) task_tree_ids [OF assms(1) s0(1) assms(2)] have "s0 = p" by (auto split: if_splits)
  with s0(2) s(3) assms(4,7,8) show False by (simp add: in_bulk_def)
qed

theorem bulkDelete_leaves_orphans_witness:
  "\<not> orphan_free (tasks (snd (bulkDelete 9 ''g'' ''u'' [''a''] (ex_work ex_three))))"
proof (rule bulkDelete_leaves_orphans)
  show "task_tree (tasks (ex_work ex_three))" using ex_three_tree by (simp add: ex_work_def)
  show "ex_task ''a'' None 0 \<in> set (tasks (ex_work ex_three))"
    "ex_task ''b'' (Some ''a'') 1 \<in> set (tasks (ex_work ex_three))"
    by (simp_all add: ex_work_def ex_three_def)
  show "assertAdminOrOwner ''g'' ''u'' (ex_work ex_three) = Inr ()"
    by (simp add: assertAdminOrOwner_def ex_work_eval)
qed (simp_all add: ex_task_def task_live_def BULK_MAX_def)



text \<open>C5. No lost update: once an update that carries version \<open>v\<close> of a task has succeeded, every
  later update of the same task that also carries \<open>v\<close> and sets some column fails.\<close>

theorem updateTask_no_lost_update:
  assumes "updateTask now g i u inp w = (Inr t, w1)" and "distinct (map t_id (tasks w))"
    and "task_has_clauses (update_task_data.truncate inp)" and "task_has_clauses (update_task_data.truncate inp')"
    and "ui_version inp' = ui_version inp"
    and "updateTask now' g i u' inp' w1 = (res, w2)"
  shows "\<exists>e. res = Inl e \<and> w2 = w1"
  using assms(6)
proof (cases rule: updateTask_cases)
  case (rejected e)
  then show ?thesis by blast
next
  case second: (accepted s s' v2)
  let ?d = "update_task_data.truncate inp" and ?d' = "update_task_data.truncate inp'"
  obtain x where x: "task_try_update now g ?d (ui_version inp) i w = (Some t, x)" "tasks x = tasks w1"
    using assms(1) by (cases rule: updateTask_cases) (auto simp: task_try_update_def)
  have "task_lock.stale (ui_version inp) i x"
    by (rule task_lock.success_makes_stale [OF assms(2,3) x(1)])
  then have "task_lock.stale (ui_version inp) i w1" by (simp add: task_lock.stale_def x(2))
  from task_lock.stale_fails [OF assms(4) this, of now' g] second(5) assms(5) show ?thesis
    by (simp add: task_try_update_def)
qed

theorem updateTask_no_lost_update_witness:
  "\<exists>t w1 e. updateTask 9 ''g'' ''c'' ''u'' (ex_patch (Some InProgress)) (ex_work ex_three) = (Inr t, w1) \<and>
     updateTask 10 ''g'' ''c'' ''u'' (ex_patch None) w1 = (Inl e, w1)"
proof -
  let ?w = "ex_work ex_three"
  obtain t w1 where u: "updateTask 9 ''g'' ''c'' ''u'' (ex_patch (Some InProgress)) ?w = (Inr t, w1)"
    by (simp add: updateTask_def ex_work_eval ex_patch_def task_update_def task_has_clauses_def
        update_task_data.truncate_def transition_ok_def task_at_def task_set_def dedup_conflict_def dedup_key_def Let_def)
  obtain res w2 where u2: "updateTask 10 ''g'' ''c'' ''u'' (ex_patch None) w1 = (res, w2)" by fastforce
  have "distinct (map t_id (tasks ?w))" using ex_three_tree by (simp add: ex_work_def task_tree_def)
  from updateTask_no_lost_update [OF u this _ _ _ u2] u u2 show ?thesis
    by (auto simp: ex_patch_def task_has_clauses_def update_task_data.truncate_def)
qed

text \<open>A bulk status change is not bound by the allowed transitions: any live task of the
  organization takes any status, and its version does not move, so that a concurrent
  update based on the old row is not detected.\<close>

theorem bulkUpdateStatus_bypasses_transitions:
  assumes "assertAdminOrOwner g u w = Inr ()" and "t \<in> set (tasks w)" and "task_live t" and "t_org_id t = g"
  shows "\<exists>t' \<in> set (tasks (snd (bulkUpdateStatus now g u [t_id t] st w))).
           t_id t' = t_id t \<and> t_status t' = st \<and> t_version t' = t_version t"
proof -
  let ?f = "\<lambda>t. t\<lparr>t_status := st, t_updated_at := now, t_completed_at := (if st = Done then Some now else t_completed_at t)\<rparr>"
  have "tasks (snd (bulkUpdateStatus now g u [t_id t] st w)) = update_where (in_bulk g [t_id t]) ?f (tasks w)"
    using assms(1) by (simp add: bulkUpdateStatus_def withTransaction_def task_bulkUpdateStatus_def BULK_MAX_def)
  moreover have "?f t \<in> set (update_where (in_bulk g [t_id t]) ?f (tasks w))"
    unfolding in_update_where using assms by (intro bexI [of _ t]) (simp_all add: in_bulk_def)
  ultimately show ?thesis by (intro bexI [of _ "?f t"]) simp_all
qed

theorem bulkUpdateStatus_bypasses_transitions_witness:
  "\<exists>t' \<in> set (tasks (snd (bulkUpdateStatus 9 ''g'' ''u'' [t_id (ex_task ''c'' None 0)] Done (ex_work ex_three)))).
     t_id t' = t_id (ex_task ''c'' None 0) \<and> t_status t' = Done \<and> t_version t' = t_version (ex_task ''c'' None 0)"
  by (rule bulkUpdateStatus_bypasses_transitions)
     (simp_all add: assertAdminOrOwner_def ex_work_eval)

section \<open>The recurring-task worker\<close>

text \<open>What a run decides, as a function of the task table: the recurring task and the due date
  of the occurrence it creates, if it creates one.\<close>

definition spawn_plan ::
    "(string \<Rightarrow> timestamp \<Rightarrow> timestamp option option) \<Rightarrow> (timestamp \<Rightarrow> int) \<Rightarrow> timestamp \<Rightarrow> uuid
     \<Rightarrow> task list \<Rightarrow> (task \<times> timestamp) option" where
  "spawn_plan rr sd now p ts =
     (case List.find (\<lambda>t. t_id t = p \<and> task_live t) ts of
        None \<Rightarrow> None
      | Some t \<Rightarrow>
          if \<not> t_is_recurring t \<or> \<not> truthy (t_recurrence_rule t) then None
          else case rr (case_option '''' id (t_recurrence_rule t)) now of
                 Some (Some due) \<Rightarrow>
                   if occurrence_exists sd p due ts \<or> Some (t_id t, utc_date due) \<in> dedup_key ` set ts
                   then None else Some (t, due)
               | _ \<Rightarrow> None)"

lemma dedup_key_occurrence:
  "dedup_key (new_task now i (occurrence_of g t due)) = Some (t_id t, utc_date due)"
  by (simp add: dedup_key_def)

lemma runRecurringTaskJob_tasks:
  "tasks (snd (runRecurringTaskJob rr sd now p g w)) =
     (case spawn_plan rr sd now p (tasks w) of
        None \<Rightarrow> tasks w
      | Some (t, due) \<Rightarrow> tasks w @ [new_task now (entropy w (drawn w)) (occurrence_of g t due)])"
  by (auto simp: runRecurringTaskJob_def spawn_plan_def task_findById_def task_create_def draw_def Let_def
      dedup_conflict_def dedup_key_occurrence split: option.split)

lemma spawn_plan_once:
  assumes "spawn_plan rr sd now p ts = Some (t, due)"
  shows "spawn_plan rr sd now p (ts @ [new_task now i (occurrence_of g t due)]) = None"
proof -
  have f: "List.find (\<lambda>t. t_id t = p \<and> task_live t) ts = Some t" "t_id t = p"
    "rr (case_option '''' id (t_recurrence_rule t)) now = Some (Some due)"
    using assms by (auto simp: spawn_plan_def split: option.splits if_splits dest: find_SomeD)
  have "occurrence_exists sd p due (ts @ [new_task now i (occurrence_of g t due)])"
    using f(2) by (simp add: occurrence_exists_def)
  then show ?thesis by (simp add: spawn_plan_def find_append f)
qed

text \<open>The worker is idempotent: when the job of a recurring task is delivered again before
  the next occurrence changes, the second run creates nothing, whatever the first did
  and whatever the time zone of the database session.\<close>

theorem recurring_job_idempotent:
  assumes "rr (case_option '''' id (t_recurrence_rule t)) now' = rr (case_option '''' id (t_recurrence_rule t)) now"
    and "task_findById p w = Some t"
    and "runRecurringTaskJob rr sd now p g w = (res, w1)"
    and "runRecurringTaskJob rr sd now' p g' w1 = (res', w2)"
  shows "tasks w2 = tasks w1"
proof -
  have f: "List.find (\<lambda>t. t_id t = p \<and> task_live t) (tasks w) = Some t"
    using assms(2) by (simp add: task_findById_def)
  have w1: "tasks w1 = (case spawn_plan rr sd now p (tasks w) of None \<Rightarrow> tasks w
      | Some (t, due) \<Rightarrow> tasks w @ [new_task now (entropy w (drawn w)) (occurrence_of g t due)])"
    using runRecurringTaskJob_tasks [of rr sd now p g w] assms(3) by simp
  have f1: "List.find (\<lambda>t. t_id t = p \<and> task_live t) (tasks w1) = Some t"
    using f by (auto simp: w1 find_append split: option.split)
  have "spawn_plan rr sd now' p (tasks w1) = spawn_plan rr sd now p (tasks w1)"
    unfolding spawn_plan_def f1 by (simp add: assms(1))
  also have "\<dots> = None"
    by (cases "spawn_plan rr sd now p (tasks w)") (auto simp: w1 spawn_plan_once)
  finally show ?thesis
    using runRecurringTaskJob_tasks [of rr sd now' p g' w1] assms(4) by simp
qed

theorem recurring_job_idempotent_witness:
  "let rr = (\<lambda>rule now. if rule = ''FREQ=DAILY'' then Some (Some ((now div 86400000 + 1) * 86400000)) else None);
       w1 = snd (runRecurringTaskJob rr utc_date 5 ''a'' ''g'' (ex_work ex_three));
       w2 = snd (runRecurringTaskJob rr utc_date 3600000 ''a'' ''g'' w1)
   in length (tasks w1) = 4 \<and> tasks w2 = tasks w1"
proof -
  let ?rr = "\<lambda>rule now. if rule = ''FREQ=DAILY'' then Some (Some ((now div 86400000 + 1) * 86400000)) else None"
  let ?w = "ex_work ex_three"
  let ?w1 = "snd (runRecurringTaskJob ?rr utc_date 5 ''a'' ''g'' ?w)"
  have "length (tasks ?w1) = 4"
    by (simp add: runRecurringTaskJob_tasks spawn_plan_def ex_work_eval occurrence_exists_def dedup_key_def)
  moreover have "tasks (snd (runRecurringTaskJob ?rr utc_date 3600000 ''a'' ''g'' ?w1)) = tasks ?w1"
    by (rule recurring_job_idempotent [where t = "ex_task ''a'' None 0", OF _ _ surjective_pairing surjective_pairing])
       (simp_all add: ex_work_eval)
  ultimately show ?thesis by (simp add: Let_def)
qed

end
