(* ===== verification/Workspace.thy ===== *)
theory Workspace
  imports Task_System
begin

text \<open>
  \<^verbatim>\<open>src/modules/workspace\<close>: the repository with its optimistic lock and its cascade over
  tasks and boards, and the service.
\<close>

section \<open>Repository\<close>

definition ws_live :: "workspace \<Rightarrow> bool" where
  "ws_live r = (ws_deleted_at r = None)"

definition ws_findById :: "uuid \<Rightarrow> 'a dir_scheme \<Rightarrow> workspace option" where
  "ws_findById i w = List.find (\<lambda>r. ws_id r = i \<and> ws_live r) (workspaces w)"

definition ws_findByOrg :: "uuid \<Rightarrow> 'a dir_scheme \<Rightarrow> workspace list" where
  "ws_findByOrg orgId w =
     sort_key ws_created_at (filter (\<lambda>r. ws_org_id r = orgId \<and> ws_live r) (workspaces w))"

record create_workspace_data =
  cw_org_id :: uuid
  cw_name :: string
  cw_description :: "string option"
  cw_owner_user_id :: uuid

definition new_workspace :: "timestamp \<Rightarrow> uuid \<Rightarrow> create_workspace_data \<Rightarrow> workspace" where
  "new_workspace now i d =
     \<lparr>ws_id = i, ws_org_id = cw_org_id d, ws_name = cw_name d, ws_description = cw_description d,
      ws_status = WsActive, ws_owner_user_id = cw_owner_user_id d, ws_deleted_at = None,
      ws_created_at = now, ws_updated_at = now, ws_version = 1\<rparr>"

definition ws_create ::
    "timestamp \<Rightarrow> create_workspace_data \<Rightarrow> 'a dir_scheme \<Rightarrow> workspace \<times> 'a dir_scheme" where
  "ws_create now d w =
     (let (i, w1) = draw w; r = new_workspace now i d
      in (r, w1\<lparr>workspaces := workspaces w1 @ [r]\<rparr>))"

record update_workspace_data =
  uw_name :: "string option"
  uw_description :: "string option option"
  uw_status :: "workspace_status option"

definition ws_has_clauses :: "update_workspace_data \<Rightarrow> bool" where
  "ws_has_clauses d = (uw_name d \<noteq> None \<or> uw_description d \<noteq> None \<or> uw_status d \<noteq> None)"

definition ws_set :: "timestamp \<Rightarrow> update_workspace_data \<Rightarrow> workspace \<Rightarrow> workspace" where
  "ws_set now d r = r\<lparr>ws_name := patched (ws_name r) (uw_name d),
     ws_description := patched (ws_description r) (uw_description d),
     ws_status := patched (ws_status r) (uw_status d),
     ws_version := ws_version r + 1, ws_updated_at := now\<rparr>"

definition ws_at :: "uuid \<Rightarrow> uuid \<Rightarrow> int \<Rightarrow> workspace \<Rightarrow> bool" where
  "ws_at orgId i v r = (ws_org_id r = orgId \<and> ws_id r = i \<and> ws_version r = v \<and> ws_live r)"

text \<open>An empty patch returns the row of that identifier without looking at the organization.\<close>

definition ws_update ::
    "timestamp \<Rightarrow> uuid \<Rightarrow> uuid \<Rightarrow> update_workspace_data \<Rightarrow> int \<Rightarrow> 'a dir_scheme
     \<Rightarrow> workspace option \<times> 'a dir_scheme" where
  "ws_update now orgId i d expectedVersion w =
     (if \<not> ws_has_clauses d then (ws_findById i w, w)
      else (returning (ws_at orgId i expectedVersion) (ws_set now d) (workspaces w),
            w\<lparr>workspaces := update_where (ws_at orgId i expectedVersion) (ws_set now d) (workspaces w)\<rparr>))"

definition ws_bury :: "timestamp \<Rightarrow> workspace \<Rightarrow> workspace" where
  "ws_bury now r = r\<lparr>ws_deleted_at := Some now, ws_updated_at := now\<rparr>"

definition ws_softDelete :: "timestamp \<Rightarrow> uuid \<Rightarrow> uuid \<Rightarrow> 'a dir_scheme \<Rightarrow> bool \<times> 'a dir_scheme" where
  "ws_softDelete now orgId i w =
     (let P = (\<lambda>r. ws_id r = i \<and> ws_org_id r = orgId \<and> ws_live r)
      in (list_ex P (workspaces w), w\<lparr>workspaces := update_where P (ws_bury now) (workspaces w)\<rparr>))"

definition ws_cascadeSoftDelete ::
    "timestamp \<Rightarrow> uuid \<Rightarrow> uuid \<Rightarrow> 'a work_db_scheme \<Rightarrow> 'a work_db_scheme" where
  "ws_cascadeSoftDelete now orgId i w =
     (let w1 = w\<lparr>tasks := update_where (\<lambda>t. t_workspace_id t = i \<and> t_org_id t = orgId \<and> task_live t)
                           (task_bury now) (tasks w)\<rparr>;
          w2 = w1\<lparr>boards := update_where (\<lambda>b. b_workspace_id b = i \<and> b_org_id b = orgId \<and> b_deleted_at b = None)
                            (\<lambda>b. b\<lparr>b_deleted_at := Some now\<rparr>) (boards w1)\<rparr>
      in w2\<lparr>workspaces := update_where (\<lambda>r. ws_id r = i \<and> ws_org_id r = orgId \<and> ws_live r)
                            (ws_bury now) (workspaces w2)\<rparr>)"

section \<open>Service\<close>

definition writeWorkspaceEvent ::
    "timestamp \<Rightarrow> string \<Rightarrow> uuid \<Rightarrow> uuid \<Rightarrow> uuid option \<Rightarrow> json \<Rightarrow> 'a base_scheme \<Rightarrow> 'a base_scheme" where
  "writeWorkspaceEvent now eventType orgId entityId actor payload w =
     insert_outbox now (Some orgId) eventType ''workspace'' entityId actor payload w"

definition createWorkspace ::
    "timestamp \<Rightarrow> uuid \<Rightarrow> create_workspace_data \<Rightarrow> 'a dir_scheme \<Rightarrow> workspace \<times> 'a dir_scheme" where
  "createWorkspace now userId d w =
     (let (r, w1) = ws_create now d w
      in (r, writeWorkspaceEvent now ''workspace.created'' (cw_org_id d) (ws_id r) (Some userId)
               (JObj [(''workspaceId'', JStr (ws_id r)), (''orgId'', JStr (cw_org_id d)),
                      (''name'', JStr (ws_name r))]) w1))"

definition getWorkspace :: "uuid \<Rightarrow> uuid \<Rightarrow> 'a dir_scheme \<Rightarrow> workspace outcome" where
  "getWorkspace orgId i w =
     (case ws_findById i w of
        None \<Rightarrow> Inl (NotFoundError ''Workspace'')
      | Some r \<Rightarrow> if ws_org_id r \<noteq> orgId then Inl (NotFoundError ''Workspace'') else Inr r)"

definition listWorkspaces :: "uuid \<Rightarrow> 'a dir_scheme \<Rightarrow> workspace list" where
  "listWorkspaces orgId w = ws_findByOrg orgId w"

definition ws_patch_json :: "update_workspace_data \<Rightarrow> json" where
  "ws_patch_json d = JObj (concat
     [case_option [] (\<lambda>v. [(''name'', JStr v)]) (uw_name d),
      case_option [] (\<lambda>v. [(''description'', json_opt v)]) (uw_description d),
      case_option [] (\<lambda>v. [(''status'', JStr (if v = WsActive then ''active'' else ''archived''))]) (uw_status d)])"

definition updateWorkspace ::
    "timestamp \<Rightarrow> uuid \<Rightarrow> uuid \<Rightarrow> update_workspace_data \<Rightarrow> int \<Rightarrow> uuid \<Rightarrow> 'a dir_scheme
     \<Rightarrow> workspace outcome \<times> 'a dir_scheme" where
  "updateWorkspace now orgId i d expectedVersion actorId w =
     (case ws_update now orgId i d expectedVersion w of
        (None, w1) \<Rightarrow>
          (case ws_findById i w1 of
             None \<Rightarrow> (Inl (NotFoundError ''Workspace''), w1)
           | Some r \<Rightarrow> if ws_org_id r \<noteq> orgId then (Inl (NotFoundError ''Workspace''), w1)
                      else (Inl (ConflictError ''VERSION_CONFLICT''), w1))
      | (Some r, w1) \<Rightarrow>
          (Inr r, writeWorkspaceEvent now ''workspace.updated'' orgId i (Some actorId)
                    (JObj [(''workspaceId'', JStr i), (''orgId'', JStr orgId), (''changes'', ws_patch_json d)]) w1))"

definition deleteWorkspace ::
    "timestamp \<Rightarrow> uuid \<Rightarrow> uuid \<Rightarrow> uuid \<Rightarrow> 'a work_db_scheme \<Rightarrow> unit outcome \<times> 'a work_db_scheme" where
  "deleteWorkspace now orgId i actorId w =
     (case ws_findById i w of
        None \<Rightarrow> (Inl (NotFoundError ''Workspace''), w)
      | Some r \<Rightarrow>
          if ws_org_id r \<noteq> orgId then (Inl (NotFoundError ''Workspace''), w)
          else let payload = JObj [(''workspaceId'', JStr i), (''orgId'', JStr orgId)];
                   w1 = ws_cascadeSoftDelete now orgId i w;
                   w2 = writeWorkspaceEvent now ''workspace.deleted'' orgId i (Some actorId) payload w1
               in (Inr (), persistAuditLog now (Some orgId) (Some actorId) ActorUser ''workspace.deleted''
                             (Some ''workspace'') (Some i) payload w2))"

section \<open>Facts\<close>

lemma ws_set_simps [simp]:
  "ws_id (ws_set now d r) = ws_id r" "ws_version (ws_set now d r) = ws_version r + 1"
  "ws_org_id (ws_set now d r) = ws_org_id r"
  by (simp_all add: ws_set_def)

lemma writeWorkspaceEvent_frame [simp]:
  "workspaces (writeWorkspaceEvent now ev g i ac pl w) = workspaces w"
  "tasks (writeWorkspaceEvent now ev g i ac pl v) = tasks v"
  "boards (writeWorkspaceEvent now ev g i ac pl v) = boards v"
  "task_dependencies (writeWorkspaceEvent now ev g i ac pl v) = task_dependencies v"
  "entropy (writeWorkspaceEvent now ev g i ac pl x) = entropy x"
  "drawn (writeWorkspaceEvent now ev g i ac pl x) = Suc (drawn x)"
  by (simp_all add: writeWorkspaceEvent_def)

lemma ws_findById_SomeD: "ws_findById i w = Some r \<Longrightarrow> r \<in> set (workspaces w) \<and> ws_id r = i \<and> ws_live r"
  by (auto simp: ws_findById_def dest: find_SomeD)

interpretation workspace_tenant:
  tenant_lookup workspaces ws_id ws_org_id ws_live getWorkspace "''Workspace''"
proof unfold_locales
  fix g i and s :: "'a dir_scheme" and r
  assume "getWorkspace g i s = Inr r"
  then show "r \<in> set (workspaces s) \<and> ws_id r = i \<and> ws_org_id r = g \<and> ws_live r"
    by (auto simp: getWorkspace_def split: option.splits if_splits dest: ws_findById_SomeD)
next
  fix g i and s :: "'a dir_scheme" and e
  assume "getWorkspace g i s = Inl e"
  then show "e = NotFoundError ''Workspace''" by (auto simp: getWorkspace_def split: option.splits if_splits)
next
  fix s :: "'a dir_scheme" and r
  assume "distinct (map ws_id (workspaces s))" "r \<in> set (workspaces s)" "ws_live r"
  then show "getWorkspace (ws_org_id r) (ws_id r) s = Inr r"
    by (simp add: getWorkspace_def ws_findById_def find_by_key)
qed

definition ws_try_update ::
    "timestamp \<Rightarrow> uuid \<Rightarrow> update_workspace_data \<Rightarrow> int \<Rightarrow> uuid \<Rightarrow> 'a dir_scheme
     \<Rightarrow> workspace option \<times> 'a dir_scheme" where
  "ws_try_update now g d v i w = ws_update now g i d v w"

interpretation workspace_lock: versioned_store workspaces ws_id ws_version ws_has_clauses "ws_try_update now g"
  for now g
proof unfold_locales
  fix d v i and s s' :: "'a dir_scheme" and res
  assume "ws_try_update now g d v i s = (res, s')"
  then show "map ws_id (workspaces s') = map ws_id (workspaces s)"
    by (auto simp: ws_try_update_def ws_update_def map_update_where_same split: if_splits)
next
  fix d v i and s s' :: "'a dir_scheme" and r
  assume "ws_has_clauses d" "ws_try_update now g d v i s = (Some r, s')"
  then obtain r0 where r0: "r0 \<in> set (workspaces s)" "ws_at g i v r0" "r = ws_set now d r0"
      "workspaces s' = update_where (ws_at g i v) (ws_set now d) (workspaces s)"
    by (auto simp: ws_try_update_def ws_update_def returning_def dest: find_SomeD)
  then show "r \<in> set (workspaces s') \<and> ws_id r = i \<and> ws_version r = v + 1"
    by (auto simp: in_update_where ws_at_def)
  show "\<exists>r0 \<in> set (workspaces s). ws_id r0 = i \<and> ws_version r0 = v"
    using r0 by (auto simp: ws_at_def)
next
  fix d v i and s s' :: "'a dir_scheme"
  assume "ws_has_clauses d" "ws_try_update now g d v i s = (None, s')"
  then show "s' = s"
    by (auto simp: ws_try_update_def ws_update_def returning_def find_None_iff)
qed

lemma ws_cascade_tree:
  "task_tree (tasks w) \<Longrightarrow> task_tree (tasks (ws_cascadeSoftDelete now g i w))"
  by (simp add: ws_cascadeSoftDelete_def Let_def task_tree_update_where)

section \<open>Properties\<close>

text \<open>Deleting a workspace leaves nothing of it alive: afterwards no live task, board or
  workspace row of the organization refers to it, rows of other organizations and
  workspaces are as before, and the task tree keeps its invariant.\<close>

theorem deleteWorkspace_cascades:
  assumes "deleteWorkspace now g i u w = (Inr (), w')" and "task_tree (tasks w)"
    and "distinct (map ws_id (workspaces w))"
  shows "task_tree (tasks w') \<and> getWorkspace g i w' = Inl (NotFoundError ''Workspace'') \<and>
     filter (\<lambda>t. t_org_id t = g \<and> t_workspace_id t = i \<and> task_live t) (tasks w') = [] \<and>
     filter (\<lambda>b. b_org_id b = g \<and> b_workspace_id b = i \<and> b_deleted_at b = None) (boards w') = [] \<and>
     filter (\<lambda>t. t_org_id t \<noteq> g \<or> t_workspace_id t \<noteq> i) (tasks w') =
       filter (\<lambda>t. t_org_id t \<noteq> g \<or> t_workspace_id t \<noteq> i) (tasks w)"
proof -
  obtain r where r: "ws_findById i w = Some r" "ws_org_id r = g"
    using assms(1) by (auto simp: deleteWorkspace_def split: option.splits if_splits)
  let ?w1 = "ws_cascadeSoftDelete now g i w"
  have w': "tasks w' = tasks ?w1" "boards w' = boards ?w1" "workspaces w' = workspaces ?w1"
    using assms(1) r by (auto simp: deleteWorkspace_def Let_def)
  have bury: "t_workspace_id (task_bury now t) = t_workspace_id t" for t by (simp add: task_bury_def)
  have "\<not> ws_live q" if q: "q \<in> set (workspaces w')" "ws_id q = i" for q
  proof -
    from q w'(3) obtain q0 where q0: "q0 \<in> set (workspaces w)"
        "q = (if ws_id q0 = i \<and> ws_org_id q0 = g \<and> ws_live q0 then ws_bury now q0 else q0)"
      by (auto simp: ws_cascadeSoftDelete_def Let_def in_update_where)
    then have "ws_id q0 = i" using q(2) by (auto simp: ws_bury_def split: if_splits)
    with q0(1) inj_on_key [OF assms(3)] ws_findById_SomeD [OF r(1)] have "q0 = r" by blast
    with q0(2) r ws_findById_SomeD [OF r(1)] show ?thesis by (auto simp: ws_bury_def ws_live_def)
  qed
  then have "getWorkspace g i w' = Inl (NotFoundError ''Workspace'')" by (rule workspace_tenant.get_dead)
  moreover have "filter (\<lambda>t. t_org_id t = g \<and> t_workspace_id t = i \<and> task_live t) (tasks w') = []"
    unfolding w' ws_cascadeSoftDelete_def Let_def by (simp, rule filter_update_where_clears) auto
  moreover have "filter (\<lambda>b. b_org_id b = g \<and> b_workspace_id b = i \<and> b_deleted_at b = None) (boards w') = []"
    unfolding w' ws_cascadeSoftDelete_def Let_def by (simp, rule filter_update_where_clears) auto
  moreover have "filter (\<lambda>t. t_org_id t \<noteq> g \<or> t_workspace_id t \<noteq> i) (tasks w') =
      filter (\<lambda>t. t_org_id t \<noteq> g \<or> t_workspace_id t \<noteq> i) (tasks w)"
    unfolding w' ws_cascadeSoftDelete_def Let_def
    by (simp, rule filter_update_where_same) (auto simp: bury)
  ultimately show ?thesis using ws_cascade_tree [OF assms(2)] w' by simp
qed

definition ex_workspace :: "uuid \<Rightarrow> uuid \<Rightarrow> workspace" where
  "ex_workspace i g = \<lparr>ws_id = i, ws_org_id = g, ws_name = ''W'', ws_description = None, ws_status = WsActive,
     ws_owner_user_id = ''u'', ws_deleted_at = None, ws_created_at = 0, ws_updated_at = 0, ws_version = 1\<rparr>"

definition ex_ws_db :: work_db where
  "ex_ws_db = (ex_work ex_three)\<lparr>workspaces := [ex_workspace ''ws'' ''g'', ex_workspace ''ws2'' ''h'']\<rparr>"

theorem deleteWorkspace_cascades_witness:
  "\<exists>w'. deleteWorkspace 9 ''g'' ''ws'' ''u'' ex_ws_db = (Inr (), w') \<and> task_tree (tasks w') \<and>
     filter (\<lambda>t. t_org_id t = ''g'' \<and> t_workspace_id t = ''ws'' \<and> task_live t) (tasks w') = []"
proof -
  obtain w' where d: "deleteWorkspace 9 ''g'' ''ws'' ''u'' ex_ws_db = (Inr (), w')"
    by (simp add: deleteWorkspace_def ws_findById_def ex_ws_db_def ex_workspace_def ws_live_def Let_def)
  have "task_tree (tasks ex_ws_db)" "distinct (map ws_id (workspaces ex_ws_db))"
    using ex_three_tree by (simp_all add: ex_ws_db_def ex_workspace_def ex_work_def)
  from deleteWorkspace_cascades [OF d this] d show ?thesis by blast
qed

text \<open>An update of a workspace with no field to set skips the organization check: it returns
  the workspace of any organization to the caller, whatever the caller's organization
  and the version sent.\<close>

theorem updateWorkspace_empty_patch_crosses_tenants:
  assumes "distinct (map ws_id (workspaces w))" and "r \<in> set (workspaces w)" and "ws_live r" and "ws_org_id r \<noteq> g"
  shows "fst (updateWorkspace now g (ws_id r) \<lparr>uw_name = None, uw_description = None, uw_status = None\<rparr> v u w) = Inr r \<and>
     getWorkspace g (ws_id r) w = Inl (NotFoundError ''Workspace'')"
  using find_by_key [of ws_id "workspaces w" r ws_live] assms workspace_tenant.foreign_row_hidden [OF assms(1,2,4)]
  by (simp add: updateWorkspace_def ws_update_def ws_has_clauses_def ws_findById_def)

theorem updateWorkspace_empty_patch_crosses_tenants_witness:
  "fst (updateWorkspace 9 ''g'' (ws_id (ex_workspace ''ws2'' ''h''))
      \<lparr>uw_name = None, uw_description = None, uw_status = None\<rparr> 77 ''u'' ex_ws_db) = Inr (ex_workspace ''ws2'' ''h'') \<and>
   getWorkspace ''g'' (ws_id (ex_workspace ''ws2'' ''h'')) ex_ws_db = Inl (NotFoundError ''Workspace'')"
  by (rule updateWorkspace_empty_patch_crosses_tenants)
     (simp_all add: ex_ws_db_def ex_workspace_def ws_live_def)

end
