(* ===== verification/File.thy ===== *)
theory File
  imports Directory Interfaces
begin

text \<open>
  \<^verbatim>\<open>src/modules/file\<close>: uploads with the reservation of storage quota, downloads, the virus scan
  worker and the hourly cleanup.  The storage provider, the detection of file types and ClamAV are
  arguments.
\<close>

section \<open>State\<close>

datatype file_status = FPending | FConfirmed | FQuarantined | FDeleted

datatype scan_status = ScanPending | ScanClean | ScanInfected

record file_row =
  f_id :: uuid
  f_org_id :: uuid
  f_uploader_id :: uuid
  f_filename :: string
  f_storage_key :: string
  f_mime_type :: string
  f_size_bytes :: int
  f_status :: file_status
  f_scan_status :: scan_status
  f_scan_completed_at :: "timestamp option"
  f_created_at :: timestamp
  f_deleted_at :: "timestamp option"

record file_db = dir +
  files :: "file_row list"

section \<open>Repository\<close>

definition file_live :: "file_row \<Rightarrow> bool" where
  "file_live f = (f_deleted_at f = None)"

definition new_file :: "timestamp \<Rightarrow> uuid \<Rightarrow> uuid \<Rightarrow> uuid \<Rightarrow> string \<Rightarrow> string \<Rightarrow> string \<Rightarrow> int \<Rightarrow> file_row" where
  "new_file now i orgId uploaderId filename storageKey mimeType sizeBytes =
     \<lparr>f_id = i, f_org_id = orgId, f_uploader_id = uploaderId, f_filename = filename, f_storage_key = storageKey,
      f_mime_type = mimeType, f_size_bytes = sizeBytes, f_status = FPending, f_scan_status = ScanPending,
      f_scan_completed_at = None, f_created_at = now, f_deleted_at = None\<rparr>"

text \<open>The storage key is unique.\<close>

definition file_create ::
    "timestamp \<Rightarrow> uuid \<Rightarrow> uuid \<Rightarrow> string \<Rightarrow> string \<Rightarrow> string \<Rightarrow> int \<Rightarrow> 'a file_db_scheme \<Rightarrow> file_row outcome \<times> 'a file_db_scheme" where
  "file_create now orgId uploaderId filename storageKey mimeType sizeBytes w =
     (if storageKey \<in> f_storage_key ` set (files w) then (Inl (PgError ''23505''), w)
      else let (i, w1) = draw w; f = new_file now i orgId uploaderId filename storageKey mimeType sizeBytes
           in (Inr f, w1\<lparr>files := files w1 @ [f]\<rparr>))"

definition file_findById :: "uuid \<Rightarrow> uuid \<Rightarrow> 'a file_db_scheme \<Rightarrow> file_row option" where
  "file_findById i orgId w = List.find (\<lambda>f. f_id f = i \<and> f_org_id f = orgId \<and> file_live f) (files w)"

definition file_findByOrg :: "uuid \<Rightarrow> nat \<Rightarrow> nat \<Rightarrow> 'a file_db_scheme \<Rightarrow> file_row list" where
  "file_findByOrg orgId n m w =
     limit_offset n m (rev (sort_key f_created_at (filter (\<lambda>f. f_org_id f = orgId \<and> file_live f) (files w))))"

definition set_file :: "uuid \<Rightarrow> (file_row \<Rightarrow> file_row) \<Rightarrow> 'a file_db_scheme \<Rightarrow> 'a file_db_scheme" where
  "set_file i h w = w\<lparr>files := update_where (\<lambda>f. f_id f = i) h (files w)\<rparr>"

definition updateScanStatus ::
    "timestamp \<Rightarrow> uuid \<Rightarrow> scan_status \<Rightarrow> file_status option \<Rightarrow> 'a file_db_scheme \<Rightarrow> 'a file_db_scheme" where
  "updateScanStatus now i sc st w =
     set_file i (\<lambda>f. f\<lparr>f_scan_status := sc, f_scan_completed_at := Some now, f_status := patched (f_status f) st\<rparr>) w"

definition file_softDelete :: "timestamp \<Rightarrow> uuid \<Rightarrow> 'a file_db_scheme \<Rightarrow> 'a file_db_scheme" where
  "file_softDelete now i w = set_file i (\<lambda>f. f\<lparr>f_deleted_at := Some now, f_status := FDeleted\<rparr>) w"

definition stale_pending :: "timestamp \<Rightarrow> file_row \<Rightarrow> bool" where
  "stale_pending now f = (f_status f = FPending \<and> file_live f \<and> f_created_at f < now - 3600000)"

definition findStalePending :: "timestamp \<Rightarrow> 'a file_db_scheme \<Rightarrow> file_row list" where
  "findStalePending now w = filter (stale_pending now) (files w)"

section \<open>Service\<close>

definition MIME_ALLOWLIST :: "string list" where
  "MIME_ALLOWLIST =
     [''image/jpeg'', ''image/png'', ''image/gif'', ''image/webp'', ''application/pdf'', ''text/plain'', ''application/zip'',
      ''application/vnd.openxmlformats-officedocument.wordprocessingml.document'']"

definition PLAN_MAX_FILE_BYTES :: "(string \<times> int) list" where
  "PLAN_MAX_FILE_BYTES =
     [(''free'', 10 * 1024 * 1024), (''pro'', 100 * 1024 * 1024), (''business'', 500 * 1024 * 1024),
      (''enterprise'', 2 * 1024 * 1024 * 1024)]"

definition DEFAULT_MAX_FILE_BYTES :: int where
  "DEFAULT_MAX_FILE_BYTES = 10 * 1024 * 1024"

definition max_file_bytes :: "string \<Rightarrow> int" where
  "max_file_bytes planTier = case_option DEFAULT_MAX_FILE_BYTES id (map_of PLAN_MAX_FILE_BYTES planTier)"

text \<open>The quota statement of the transaction: it adds the size unless that exceeds the quota.\<close>

definition reserve_quota :: "timestamp \<Rightarrow> uuid \<Rightarrow> int \<Rightarrow> 'a dir_scheme \<Rightarrow> bool \<times> 'a dir_scheme" where
  "reserve_quota now orgId sizeBytes w =
     (let P = (\<lambda>r. o_id r = orgId \<and> o_storage_used_bytes r + sizeBytes \<le> o_storage_quota_bytes r)
      in (list_ex P (organizations w),
          w\<lparr>organizations := update_where P (\<lambda>r. r\<lparr>o_storage_used_bytes := o_storage_used_bytes r + sizeBytes,
              o_updated_at := now\<rparr>) (organizations w)\<rparr>))"

definition upload_tx ::
    "timestamp \<Rightarrow> uuid \<Rightarrow> uuid \<Rightarrow> string \<Rightarrow> string \<Rightarrow> string \<Rightarrow> int \<Rightarrow> 'a file_db_scheme \<Rightarrow> file_row outcome \<times> 'a file_db_scheme" where
  "upload_tx now orgId uploaderId filename storageKey mimeType sizeBytes w =
     (case reserve_quota now orgId sizeBytes w of
        (False, w1) \<Rightarrow> (Inl (ForbiddenError ''PLAN_STORAGE_QUOTA_EXCEEDED''), w1)
      | (True, w1) \<Rightarrow> file_create now orgId uploaderId filename storageKey mimeType sizeBytes w1)"

text \<open>\<open>upload_url key mime size\<close> is the answer of the storage provider.\<close>

definition requestUploadUrl ::
    "(string \<Rightarrow> string \<Rightarrow> int \<Rightarrow> string outcome) \<Rightarrow> timestamp \<Rightarrow> uuid \<Rightarrow> uuid \<Rightarrow> string \<Rightarrow> string \<Rightarrow> int \<Rightarrow> string
     \<Rightarrow> 'a file_db_scheme \<Rightarrow> (uuid \<times> string) outcome \<times> 'a file_db_scheme" where
  "requestUploadUrl upload_url now orgId uploaderId filename mimeType sizeBytes planTier w =
     (if mimeType \<notin> set MIME_ALLOWLIST then (Inl (AppError 422 ''INVALID_MIME_TYPE'' [mimeType]), w)
      else if max_file_bytes planTier < sizeBytes then (Inl (AppError 422 ''FILE_TOO_LARGE'' [show_nat (nat (max_file_bytes planTier)), planTier]), w)
      else let (storageKey, w1) = draw w
           in case upload_url storageKey mimeType sizeBytes of
                Inl e \<Rightarrow> (Inl e, w1)
              | Inr url \<Rightarrow>
                  and_then (withTransaction (upload_tx now orgId uploaderId filename storageKey mimeType sizeBytes) w1)
                    (\<lambda>f w2. (Inr (f_id f, url), w2)))"

text \<open>A download answers with a URL, or that the scan is pending.\<close>

definition generateDownloadUrl ::
    "(string \<Rightarrow> int \<Rightarrow> string outcome) \<Rightarrow> uuid \<Rightarrow> uuid \<Rightarrow> 'a file_db_scheme \<Rightarrow> string option outcome" where
  "generateDownloadUrl download_url orgId fileId w =
     (case file_findById fileId orgId w of
        None \<Rightarrow> Inl (NotFoundError ''File'')
      | Some f \<Rightarrow>
          if f_status f = FQuarantined then Inl (UnprocessableError ''FILE_QUARANTINED'')
          else if f_scan_status f = ScanPending then Inr None
          else (case download_url (f_storage_key f) 3600 of Inl e \<Rightarrow> Inl e | Inr u \<Rightarrow> Inr (Some u)))"

definition getFile :: "uuid \<Rightarrow> uuid \<Rightarrow> 'a file_db_scheme \<Rightarrow> file_row outcome" where
  "getFile orgId fileId w =
     (case file_findById fileId orgId w of None \<Rightarrow> Inl (NotFoundError ''File'') | Some f \<Rightarrow> Inr f)"

definition listFiles :: "uuid \<Rightarrow> nat \<Rightarrow> nat \<Rightarrow> 'a file_db_scheme \<Rightarrow> file_row list" where
  "listFiles orgId n m w = file_findByOrg orgId n m w"

text \<open>The upload route does not pass the plan of the organization.\<close>

definition upload_route ::
    "(string \<Rightarrow> string \<Rightarrow> int \<Rightarrow> string outcome) \<Rightarrow> timestamp \<Rightarrow> uuid \<Rightarrow> uuid \<Rightarrow> string \<Rightarrow> string \<Rightarrow> int
     \<Rightarrow> 'a file_db_scheme \<Rightarrow> (uuid \<times> string) outcome \<times> 'a file_db_scheme" where
  "upload_route upload_url now orgId userId filename mimeType sizeBytes w =
     (if filename = '''' \<or> 255 < length filename \<or> mimeType = '''' \<or> sizeBytes \<le> 0 then (Inl ValidationError, w)
      else requestUploadUrl upload_url now orgId userId filename mimeType sizeBytes ''free'' w)"

section \<open>Virus scan and cleanup\<close>

definition MIME_MAGIC_MAP :: "(string \<times> string list) list" where
  "MIME_MAGIC_MAP =
     [(''image/jpeg'', [''image/jpeg'']), (''image/png'', [''image/png'']), (''image/gif'', [''image/gif'']),
      (''image/webp'', [''image/webp'']), (''application/pdf'', [''application/pdf'']), (''application/zip'', [''application/zip'']),
      (''application/vnd.openxmlformats-officedocument.wordprocessingml.document'',
       [''application/vnd.openxmlformats-officedocument.wordprocessingml.document'', ''application/zip''])]"

definition reclaim_quota :: "timestamp \<Rightarrow> uuid \<Rightarrow> int \<Rightarrow> 'a dir_scheme \<Rightarrow> 'a dir_scheme" where
  "reclaim_quota now orgId sizeBytes w =
     w\<lparr>organizations := update_where (\<lambda>r. o_id r = orgId)
         (\<lambda>r. r\<lparr>o_storage_used_bytes := max 0 (o_storage_used_bytes r - sizeBytes), o_updated_at := now\<rparr>) (organizations w)\<rparr>"

definition writeFileEvent :: "timestamp \<Rightarrow> string \<Rightarrow> uuid \<Rightarrow> uuid \<Rightarrow> json \<Rightarrow> 'a base_scheme \<Rightarrow> 'a base_scheme" where
  "writeFileEvent now eventType orgId entityId payload w =
     insert_outbox now (Some orgId) eventType ''file'' entityId None payload w"

text \<open>Quarantine: mark the file, give its size back, announce it.\<close>

definition quarantine :: "timestamp \<Rightarrow> uuid \<Rightarrow> uuid \<Rightarrow> json \<Rightarrow> 'a file_db_scheme \<Rightarrow> 'a file_db_scheme" where
  "quarantine now orgId fileId payload w =
     (let w1 = set_file fileId (\<lambda>f. f\<lparr>f_scan_status := ScanInfected, f_scan_completed_at := Some now, f_status := FQuarantined\<rparr>) w;
          w2 = (case List.find (\<lambda>f. f_id f = fileId) (files w1) of
                  None \<Rightarrow> w1 | Some f \<Rightarrow> reclaim_quota now orgId (f_size_bytes f) w1)
      in writeFileEvent now ''file.quarantined'' orgId fileId payload w2)"

record scan_job =
  sj_fileId :: uuid
  sj_storageKey :: string
  sj_storageUrl :: "string option"
  sj_orgId :: uuid

text \<open>What the worker observes: whether scanning is enabled, whether the download succeeds, the detected
  type of the content, and the answer of ClamAV (the viruses found in an infected file).\<close>

record scan_env =
  se_enabled :: bool
  se_download_ok :: bool
  se_detected :: "string option"
  se_infected :: "string list option outcome"

definition virusScanWorkerJob ::
    "scan_env \<Rightarrow> timestamp \<Rightarrow> scan_job \<Rightarrow> 'a file_db_scheme \<Rightarrow> unit outcome \<times> 'a file_db_scheme" where
  "virusScanWorkerJob env now j w =
     (let fileId = sj_fileId j in
      if \<not> se_enabled env
      then (Inr (), set_file fileId (\<lambda>f. f\<lparr>f_scan_status := ScanClean, f_scan_completed_at := Some now\<rparr>) w)
      else if \<not> truthy (sj_storageUrl j) then (Inr (), w)
      else if \<not> se_download_ok env then (Inl (JsError ''Error''), w)
      else let declared = map_option f_mime_type (List.find (\<lambda>f. f_id f = fileId) (files w));
               allowed = (case declared of None \<Rightarrow> None
                          | Some m \<Rightarrow> (if m = '''' then None else map_of MIME_MAGIC_MAP m));
               mismatch = (case allowed of None \<Rightarrow> False
                           | Some ms \<Rightarrow> (case se_detected env of None \<Rightarrow> True | Some d \<Rightarrow> d \<notin> set ms))
           in if mismatch
              then (Inr (), quarantine now (sj_orgId j) fileId
                      (JObj [(''fileId'', JStr fileId), (''storageKey'', JStr (sj_storageKey j)), (''reason'', JStr ''mime_mismatch''),
                             (''declared'', json_opt declared), (''detected'', JStr (case_option ''unknown'' id (se_detected env)))]) w)
              else case se_infected env of
                     Inl e \<Rightarrow> (Inl e, w)
                   | Inr (Some viruses) \<Rightarrow> (Inr (), quarantine now (sj_orgId j) fileId
                                   (JObj [(''fileId'', JStr fileId), (''storageKey'', JStr (sj_storageKey j)),
                                          (''viruses'', JArr (map JStr viruses))]) w)
                   | Inr None \<Rightarrow> (Inr (), set_file fileId (\<lambda>f. f\<lparr>f_scan_status := ScanClean, f_scan_completed_at := Some now,
                                               f_status := FConfirmed\<rparr>) w))"

definition cleanup_one :: "timestamp \<Rightarrow> file_row \<Rightarrow> 'a file_db_scheme \<Rightarrow> 'a file_db_scheme" where
  "cleanup_one now f w = file_softDelete now (f_id f) (reclaim_quota now (f_org_id f) (f_size_bytes f) w)"

definition fileCleanupWorkerJob :: "timestamp \<Rightarrow> 'a file_db_scheme \<Rightarrow> 'a file_db_scheme" where
  "fileCleanupWorkerJob now w = fold (cleanup_one now) (findStalePending now w) w"

section \<open>Tenant isolation\<close>

interpretation file_tenant: tenant_lookup files f_id f_org_id file_live getFile "''File''"
proof
  fix g i r and s :: "'a file_db_scheme"
  assume "getFile g i s = Inr r"
  then show "r \<in> set (files s) \<and> f_id r = i \<and> f_org_id r = g \<and> file_live r"
    by (auto simp: getFile_def file_findById_def dest: find_SomeD split: option.splits)
next
  fix g i e and s :: "'a file_db_scheme"
  assume "getFile g i s = Inl e"
  then show "e = NotFoundError ''File''" by (simp add: getFile_def split: option.splits)
next
  fix r and s :: "'a file_db_scheme"
  assume "distinct (map f_id (files s))" "r \<in> set (files s)" "file_live r"
  then have "file_findById (f_id r) (f_org_id r) s = Some r"
    using find_by_key [of f_id "files s" r "\<lambda>f. f_org_id f = f_org_id r \<and> file_live f"]
    by (simp add: file_findById_def)
  then show "getFile (f_org_id r) (f_id r) s = Inr r" by (simp add: getFile_def)
qed

section \<open>Storage accounting\<close>

text \<open>A file counts against the quota from its upload until it is quarantined or cleaned up.\<close>

definition charged :: "file_row \<Rightarrow> bool" where
  "charged f = (f_status f = FPending \<or> f_status f = FConfirmed)"

definition used_by :: "uuid \<Rightarrow> file_row list \<Rightarrow> int" where
  "used_by g fs = sum_list (map f_size_bytes (filter (\<lambda>f. f_org_id f = g \<and> charged f) fs))"

definition accounted :: "org list \<Rightarrow> file_row list \<Rightarrow> bool" where
  "accounted os fs = list_all (\<lambda>r. o_storage_used_bytes r = used_by (o_id r) fs) os"

definition infected_blocked :: "file_row \<Rightarrow> bool" where
  "infected_blocked f = (f_scan_status f = ScanInfected \<longrightarrow> f_status f = FQuarantined \<or> \<not> file_live f)"

definition files_ok :: "'a file_db_scheme \<Rightarrow> bool" where
  "files_ok w =
     (distinct (map f_id (files w)) \<and> distinct (map o_id (organizations w)) \<and>
      list_all (\<lambda>f. 0 < f_size_bytes f \<and> infected_blocked f) (files w) \<and>
      accounted (organizations w) (files w) \<and> quota_ok (organizations w))"

lemma used_by_simps [simp]:
  "used_by g [] = 0"
  "used_by g (f # fs) = (if f_org_id f = g \<and> charged f then f_size_bytes f else 0) + used_by g fs"
  "used_by g (fs @ fs') = used_by g fs + used_by g fs'"
  by (simp_all add: used_by_def)

lemma used_by_nonneg: "list_all (\<lambda>f. 0 \<le> f_size_bytes f) fs \<Longrightarrow> 0 \<le> used_by g fs"
  by (induction fs) auto

lemma used_by_member:
  "list_all (\<lambda>f. 0 \<le> f_size_bytes f) fs \<Longrightarrow> f \<in> set fs \<Longrightarrow> charged f \<Longrightarrow> f_size_bytes f \<le> used_by (f_org_id f) fs"
  by (induction fs) (auto dest: used_by_nonneg)

text \<open>An update of one file that keeps organization and size moves the sum by that file's size.\<close>

lemma used_by_update_other:
  assumes "i \<notin> f_id ` set fs"
  shows "used_by g (update_where (\<lambda>f. f_id f = i) h fs) = used_by g fs"
  using assms by (subst update_where_none) auto

lemma used_by_update:
  assumes "distinct (map f_id fs)" and "f \<in> set fs" and "charged f"
    and "f_org_id (h f) = f_org_id f" and "f_size_bytes (h f) = f_size_bytes f"
  shows "used_by g (update_where (\<lambda>x. f_id x = f_id f) h fs) =
    used_by g fs - (if f_org_id f = g \<and> \<not> charged (h f) then f_size_bytes f else 0)"
  using assms
proof (induction fs)
  case (Cons x xs)
  show ?case
  proof (cases "x = f")
    case True
    with Cons.prems used_by_update_other [of "f_id f" xs g h] show ?thesis by auto
  next
    case False
    with Cons show ?thesis by (auto simp: image_iff)
  qed
qed simp

lemma files_ok_set_file:
  assumes "files_ok w" and h: "\<And>f. f_id (h f) = f_id f \<and> f_org_id (h f) = f_org_id f \<and> f_size_bytes (h f) = f_size_bytes f"
    and "\<And>f. f \<in> set (files w) \<Longrightarrow> f_id f = i \<Longrightarrow> charged f \<and> charged (h f) \<and> infected_blocked (h f)"
  shows "files_ok (set_file i h w)"
proof -
  have "used_by g (update_where (\<lambda>f. f_id f = i) h (files w)) = used_by g (files w)" for g
  proof (cases "i \<in> f_id ` set (files w)")
    case True
    then obtain f where f: "f \<in> set (files w)" "i = f_id f" by blast
    with assms(3) [of f] h show ?thesis
      using assms(1) used_by_update [of "files w" f h g] by (simp add: files_ok_def)
  qed (simp add: used_by_update_other)
  moreover have "list_all (\<lambda>f. 0 < f_size_bytes f \<and> infected_blocked f) (update_where (\<lambda>f. f_id f = i) h (files w))"
    using assms by (intro list_all_update_where) (auto simp: files_ok_def)
  ultimately show ?thesis
    using assms(1) h by (simp add: files_ok_def set_file_def accounted_def map_update_where_same)
qed

text \<open>Taking a charged file out of the account and giving its size back, in either order.\<close>

lemma files_ok_uncharge:
  assumes "files_ok w" and f: "f \<in> set (files w)" "charged f"
    and h: "\<And>f. f_id (h f) = f_id f \<and> f_org_id (h f) = f_org_id f \<and> f_size_bytes (h f) = f_size_bytes f"
    and "\<not> charged (h f)" "infected_blocked (h f)"
    and w': "files w' = update_where (\<lambda>x. f_id x = f_id f) h (files w)"
      "organizations w' = organizations (reclaim_quota now (f_org_id f) (f_size_bytes f) w)"
  shows "files_ok w'"
proof -
  have d: "distinct (map f_id (files w))" "distinct (map o_id (organizations w))"
    and pos: "list_all (\<lambda>f. 0 < f_size_bytes f \<and> infected_blocked f) (files w)"
    and acc: "\<And>r. r \<in> set (organizations w) \<Longrightarrow> o_storage_used_bytes r = used_by (o_id r) (files w)"
    and q: "\<And>r. r \<in> set (organizations w) \<Longrightarrow> o_storage_used_bytes r \<le> o_storage_quota_bytes r"
    using assms(1) by (auto simp: files_ok_def accounted_def quota_ok_def list_all_iff)
  from pos have pos': "list_all (\<lambda>f. 0 \<le> f_size_bytes f) (files w)" by (auto simp: list_all_iff)
  note le = used_by_member [OF pos' f] and nn = used_by_nonneg [OF pos']
  have sz: "0 < f_size_bytes f" using pos f by (auto simp: list_all_iff)
  have "list_all (\<lambda>f. 0 < f_size_bytes f \<and> infected_blocked f) (files w')"
    unfolding w'
  proof (intro list_all_update_where [OF pos])
    fix r
    assume "r \<in> set (files w)" "f_id r = f_id f" "0 < f_size_bytes r \<and> infected_blocked r"
    moreover from this have "r = f" using inj_on_key [OF d(1) _ f(1)] by blast
    ultimately show "0 < f_size_bytes (h r) \<and> infected_blocked (h r)" using h assms(6) by simp
  qed
  moreover have "accounted (organizations w') (files w')"
    unfolding w' reclaim_quota_def accounted_def
    using used_by_update [OF d(1) f, of h] h assms(5) acc le
    by (auto simp: list_all_iff update_where_def)
  moreover have "quota_ok (organizations w')"
  proof -
    have "0 \<le> o_storage_quota_bytes r \<and> o_storage_used_bytes r - f_size_bytes f \<le> o_storage_quota_bytes r"
      if "r \<in> set (organizations w)" for r
      using q [OF that] acc [OF that] nn [of "o_id r"] sz by linarith
    with q show ?thesis
      by (auto simp: w' reclaim_quota_def quota_ok_def list_all_iff update_where_def)
  qed
  ultimately show ?thesis
    using d h w' by (simp add: files_ok_def reclaim_quota_def map_update_where_same)
qed

text \<open>The three writers.\<close>

lemma file_frame [simp]:
  "files (insert_outbox now g ev et eid ac pl w) = files w" "files (snd (draw w)) = files w"
  "files (reclaim_quota now g' s w) = files w" "organizations (set_file i h w) = organizations w"
  "files (set_file i h w) = update_where (\<lambda>f. f_id f = i) h (files w)"
  by (simp_all add: insert_outbox_def draw_def reclaim_quota_def set_file_def)

lemma find_id: "distinct (map f_id fs) \<Longrightarrow> f \<in> set fs \<Longrightarrow> List.find (\<lambda>x. f_id x = f_id f) fs = Some f"
  using find_by_key [of f_id fs f "\<lambda>_. True"] by simp

lemma files_ok_quarantine:
  assumes "files_ok w" and "\<And>f. f \<in> set (files w) \<Longrightarrow> f_id f = i \<Longrightarrow> charged f \<and> f_org_id f = g"
  shows "files_ok (quarantine now g i pl w)"
proof (cases "i \<in> f_id ` set (files w)")
  case True
  then obtain f where f: "f \<in> set (files w)" "i = f_id f" by blast
  let ?h = "\<lambda>f. f\<lparr>f_scan_status := ScanInfected, f_scan_completed_at := Some now, f_status := FQuarantined\<rparr>"
  have "List.find (\<lambda>x. f_id x = i) (files (set_file i ?h w)) = Some (?h f)"
    using assms(1) f find_id [of "files w" f]
    by (simp add: find_update_where_keep files_ok_def)
  then show ?thesis
    using assms(2) [of f] f
    by (intro files_ok_uncharge [OF assms(1) f(1), where h = ?h and now = now])
       (auto simp: quarantine_def Let_def writeFileEvent_def charged_def infected_blocked_def reclaim_quota_def)
next
  case False
  then have "List.find (\<lambda>x. f_id x = i) (files w) = None" "\<And>h. update_where (\<lambda>x. f_id x = i) h (files w) = files w"
    by (auto simp: find_None_iff intro!: update_where_none)
  then show ?thesis using assms(1) by (simp add: quarantine_def writeFileEvent_def files_ok_def)
qed

definition scan_target_ok :: "scan_job \<Rightarrow> 'a file_db_scheme \<Rightarrow> bool" where
  "scan_target_ok j w =
     list_all (\<lambda>f. f_id f = sj_fileId j \<longrightarrow> f_status f = FPending \<and> f_org_id f = sj_orgId j) (files w)"

lemma files_ok_scan:
  assumes "files_ok w" and "scan_target_ok j w"
  shows "files_ok (snd (virusScanWorkerJob env now j w))"
proof -
  have t: "\<And>f. f \<in> set (files w) \<Longrightarrow> f_id f = sj_fileId j \<Longrightarrow> f_status f = FPending \<and> f_org_id f = sj_orgId j"
    using assms(2) by (auto simp: scan_target_ok_def list_all_iff)
  have q: "files_ok (quarantine now (sj_orgId j) (sj_fileId j) pl w)" for pl
    by (rule files_ok_quarantine [OF assms(1)]) (simp add: t charged_def)
  have c: "files_ok (set_file (sj_fileId j) (\<lambda>f. f\<lparr>f_scan_status := ScanClean, f_scan_completed_at := Some now\<rparr>) w)"
    using t by (intro files_ok_set_file [OF assms(1)]) (auto simp: charged_def infected_blocked_def)
  have d: "files_ok (set_file (sj_fileId j)
      (\<lambda>f. f\<lparr>f_scan_status := ScanClean, f_scan_completed_at := Some now, f_status := FConfirmed\<rparr>) w)"
    using t by (intro files_ok_set_file [OF assms(1)]) (auto simp: charged_def infected_blocked_def)
  show ?thesis
    by (simp add: virusScanWorkerJob_def Let_def q c d assms(1) del: file_frame split: option.split sum.split)
qed

lemma files_ok_cleanup_one:
  assumes "files_ok w" and "f \<in> set (files w)" and "f_status f = FPending"
  shows "files_ok (cleanup_one now f w)"
  using assms
  by (intro files_ok_uncharge [of w f "\<lambda>f. f\<lparr>f_deleted_at := Some now, f_status := FDeleted\<rparr>" "cleanup_one now f w" now])
     (auto simp: cleanup_one_def file_softDelete_def charged_def infected_blocked_def file_live_def set_file_def)

lemma files_ok_cleanup_fold:
  assumes "files_ok w" and "distinct (map f_id fs)"
    and "list_all (\<lambda>f. f \<in> set (files w) \<and> f_status f = FPending) fs"
  shows "files_ok (fold (cleanup_one now) fs w)"
  using assms
proof (induction fs arbitrary: w)
  case (Cons f fs)
  have "list_all (\<lambda>x. x \<in> set (files (cleanup_one now f w)) \<and> f_status x = FPending) fs"
    using Cons.prems
    by (auto simp: list_all_iff cleanup_one_def file_softDelete_def set_update_where image_iff)
  with Cons files_ok_cleanup_one [of w f now] show ?case by simp
qed simp

lemma files_ok_cleanup: "files_ok w \<Longrightarrow> files_ok (fileCleanupWorkerJob now w)"
  unfolding fileCleanupWorkerJob_def
  by (rule files_ok_cleanup_fold)
     (auto simp: findStalePending_def stale_pending_def list_all_iff files_ok_def distinct_map_filter)

lemma reserve_quota_ok:
  assumes "accounted (organizations w) (files w)" and "quota_ok (organizations w)" and "distinct (map o_id (organizations w))"
    and "reserve_quota now (f_org_id f) (f_size_bytes f) w = (True, w1)" and "charged f"
  shows "accounted (organizations w1) (files w @ [f]) \<and> quota_ok (organizations w1)"
proof -
  let ?fits = "\<lambda>r. o_storage_used_bytes r + f_size_bytes f \<le> o_storage_quota_bytes r"
  from assms(4) obtain r0 where r0: "r0 \<in> set (organizations w)" "o_id r0 = f_org_id f" "?fits r0"
    by (auto simp: reserve_quota_def Let_def list_ex_iff)
  have fits: "?fits r" if "r \<in> set (organizations w)" "o_id r = f_org_id f" for r
    using inj_on_key [OF assms(3) that(1) r0(1)] that(2) r0 by simp
  have w1: "organizations w1 = update_where (\<lambda>r. o_id r = f_org_id f \<and> ?fits r)
      (\<lambda>r. r\<lparr>o_storage_used_bytes := o_storage_used_bytes r + f_size_bytes f, o_updated_at := now\<rparr>) (organizations w)"
    using assms(4) by (auto simp: reserve_quota_def Let_def)
  show ?thesis
    using assms(1,2,5) fits
    by (auto simp: w1 accounted_def quota_ok_def list_all_iff update_where_def)
qed

lemma files_ok_upload:
  assumes ok: "files_ok w" and "0 < sz"
    and fresh: "entropy w (Suc (drawn w)) \<notin> f_id ` set (files w)"
  shows "files_ok (snd (requestUploadUrl url now g u fn mime sz plan w))"
proof -
  obtain k w1 where d: "draw w = (k, w1)" by fastforce
  then have w1: "w1 = w\<lparr>drawn := Suc (drawn w)\<rparr>" by (simp add: draw_def)
  have ok1: "files_ok w1" using ok by (simp add: files_ok_def w1)
  have "files_ok w2" if tx: "upload_tx now g u fn k mime sz w1 = (Inr f, w2)" for f w2
  proof -
    obtain w3 where r: "reserve_quota now g sz w1 = (True, w3)" and c: "file_create now g u fn k mime sz w3 = (Inr f, w2)"
      using tx by (auto simp: upload_tx_def split: prod.splits bool.splits)
    have w3: "files w3 = files w" "entropy w3 = entropy w" "drawn w3 = Suc (drawn w)"
      "map o_id (organizations w3) = map o_id (organizations w)"
      using r by (auto simp: reserve_quota_def Let_def w1 map_update_where_same)
    have f: "f = new_file now (entropy w (Suc (drawn w))) g u fn k mime sz" "files w2 = files w @ [f]"
      "organizations w2 = organizations w3"
      using c w3 by (auto simp: file_create_def draw_def Let_def split: if_splits)
    have "accounted (organizations w3) (files w1 @ [f]) \<and> quota_ok (organizations w3)"
      using ok1 r by (intro reserve_quota_ok [where w = w1 and now = now])
        (auto simp: files_ok_def f new_file_def charged_def)
    moreover have "f_id f = entropy w (Suc (drawn w))" "f_size_bytes f = sz" "infected_blocked f"
      by (simp_all add: f(1) new_file_def infected_blocked_def)
    ultimately show ?thesis using ok fresh assms(2) by (simp add: files_ok_def f w3 w1)
  qed
  with ok ok1 d show ?thesis
    by (auto simp: requestUploadUrl_def withTransaction_def and_then_def split: prod.splits sum.splits)
qed

section \<open>Histories of uploads, scans and cleanups\<close>

text \<open>
  One step is an accepted or refused upload whose file id is fresh, a scan of a file that is still
  pending (or of no file), or a run of the cleanup.
\<close>

inductive file_step :: "file_db \<Rightarrow> file_db \<Rightarrow> bool" where
  upload: "entropy w (Suc (drawn w)) \<notin> f_id ` set (files w) \<Longrightarrow>
    file_step w (snd (upload_route url now g u fn mime sz w))"
| scan: "scan_target_ok j w \<Longrightarrow> file_step w (snd (virusScanWorkerJob env now j w))"
| cleanup: "file_step w (fileCleanupWorkerJob now w)"

inductive_cases file_stepE: "file_step w w'"

lemma file_step_ok: "file_step w w' \<Longrightarrow> files_ok w \<Longrightarrow> files_ok w'"
  by (auto simp: upload_route_def not_le elim!: file_stepE intro: files_ok_scan files_ok_cleanup files_ok_upload)

lemma file_steps_ok: "file_step\<^sup>*\<^sup>* w w' \<Longrightarrow> files_ok w \<Longrightarrow> files_ok w'"
  by (induction rule: rtranclp_induct) (auto intro: file_step_ok)

lemma files_ok_initial:
  "files w = [] \<Longrightarrow> distinct (map o_id (organizations w)) \<Longrightarrow>
   list_all (\<lambda>r. o_storage_used_bytes r = 0 \<and> 0 \<le> o_storage_quota_bytes r) (organizations w) \<Longrightarrow> files_ok w"
  by (auto simp: files_ok_def accounted_def quota_ok_def list_all_iff)


text \<open>Downloads: after any such history, a URL is only issued for a live file of the asking
  organization that was scanned and found clean.\<close>

theorem download_only_clean:
  assumes "file_step\<^sup>*\<^sup>* w w'" and "files w = []" and "distinct (map o_id (organizations w))"
    and "list_all (\<lambda>r. o_storage_used_bytes r = 0 \<and> 0 \<le> o_storage_quota_bytes r) (organizations w)"
    and "generateDownloadUrl url g i w' = Inr (Some u)"
  shows "\<exists>f \<in> set (files w'). f_id f = i \<and> f_org_id f = g \<and> f_deleted_at f = None \<and>
    f_scan_status f = ScanClean \<and> url (f_storage_key f) 3600 = Inr u"
proof -
  from assms(5) obtain f where f: "file_findById i g w' = Some f" "f_status f \<noteq> FQuarantined"
    "f_scan_status f \<noteq> ScanPending" "url (f_storage_key f) 3600 = Inr u"
    by (auto simp: generateDownloadUrl_def split: option.splits if_splits sum.splits)
  from f(1) have m: "f \<in> set (files w')" "f_id f = i" "f_org_id f = g" "file_live f"
    by (auto simp: file_findById_def dest!: find_SomeD)
  with file_steps_ok [OF assms(1) files_ok_initial [OF assms(2-4)]] f(2) have "f_scan_status f \<noteq> ScanInfected"
    by (auto simp: files_ok_def list_all_iff infected_blocked_def)
  with f m show ?thesis by (cases "f_scan_status f") (auto simp: file_live_def)
qed

section \<open>Deliveries outside the accounted histories\<close>

text \<open>The worker may deliver a scan twice: the second one gives the size back again.\<close>

lemma redelivered_scan_reclaims_twice:
  assumes "List.find (\<lambda>f. f_id f = i) (files w) = Some f" and "organizations w = [r]" and "o_id r = g"
  shows "map o_storage_used_bytes (organizations (quarantine now' g i pl' (quarantine now g i pl w))) =
    [max 0 (max 0 (o_storage_used_bytes r - f_size_bytes f) - f_size_bytes f)]"
  using assms
  by (simp add: quarantine_def Let_def writeFileEvent_def reclaim_quota_def set_file_def find_update_where_keep)

lemma files_fold_cleanup:
  "files (fold (cleanup_one now) fs w) =
    fold (\<lambda>f. update_where (\<lambda>x. f_id x = f_id f) (\<lambda>x. x\<lparr>f_deleted_at := Some now, f_status := FDeleted\<rparr>)) fs (files w)"
  by (induction fs arbitrary: w) (simp_all add: cleanup_one_def file_softDelete_def)

lemma fold_cleanup_keeps_dead:
  assumes "list_all (\<lambda>x. f_id x = i \<longrightarrow> \<not> file_live x) xs"
  shows "list_all (\<lambda>x. f_id x = i \<longrightarrow> \<not> file_live x) (fold (\<lambda>f. update_where (\<lambda>x. f_id x = f_id f)
    (\<lambda>x. x\<lparr>f_deleted_at := Some now, f_status := FDeleted\<rparr>)) fs xs)"
  using assms
proof (induction fs arbitrary: xs)
  case (Cons f fs)
  then show ?case by (simp, intro Cons.IH) (auto simp: list_all_iff update_where_def file_live_def)
qed simp

lemma cleanup_buries:
  assumes "f \<in> set (findStalePending now w)"
  shows "list_all (\<lambda>x. f_id x = f_id f \<longrightarrow> \<not> file_live x) (files (fileCleanupWorkerJob now w))"
proof -
  obtain fs fs' where s: "findStalePending now w = fs @ f # fs'" using assms by (meson split_list)
  show ?thesis
    unfolding fileCleanupWorkerJob_def s files_fold_cleanup
    by (simp, intro fold_cleanup_keeps_dead) (auto simp: list_all_iff update_where_def file_live_def)
qed

text \<open>With scanning disabled, the worker marks a file clean but leaves it pending: although downloads
  worked in between, the first cleanup an hour after the upload deletes it.\<close>

theorem unscanned_file_is_cleaned_up:
  assumes "distinct (map f_id (files w))" and "f \<in> set (files w)" and "f_status f = FPending" and "file_live f"
    and "f_created_at f < now' - 3600000" and "\<not> se_enabled env" and "sj_fileId j = f_id f"
    and "url (f_storage_key f) 3600 = Inr u"
  shows "let w1 = snd (virusScanWorkerJob env now j w) in
    generateDownloadUrl url (f_org_id f) (f_id f) w1 = Inr (Some u) \<and>
    generateDownloadUrl url (f_org_id f) (f_id f) (fileCleanupWorkerJob now' w1) = Inl (NotFoundError ''File'')"
proof -
  let ?h = "\<lambda>f. f\<lparr>f_scan_status := ScanClean, f_scan_completed_at := Some now\<rparr>"
  define w1 where "w1 = snd (virusScanWorkerJob env now j w)"
  then have w1: "files w1 = update_where (\<lambda>x. f_id x = f_id f) ?h (files w)"
    using assms(6,7) by (simp add: virusScanWorkerJob_def)
  have d: "distinct (map f_id (files w1))" using assms(1) by (simp add: w1 map_update_where_same)
  have m: "?h f \<in> set (files w1)" using assms(2) by (force simp: w1 in_update_where)
  have "getFile (f_org_id f) (f_id f) w1 = Inr (?h f)"
    using file_tenant.get_complete [OF d m] assms(4) by (simp add: file_live_def)
  then have "file_findById (f_id f) (f_org_id f) w1 = Some (?h f)" by (simp add: getFile_def split: option.splits)
  then have 1: "generateDownloadUrl url (f_org_id f) (f_id f) w1 = Inr (Some u)"
    using assms(3,8) by (simp add: generateDownloadUrl_def)
  have "?h f \<in> set (findStalePending now' w1)"
    using m assms(3-5) by (simp add: findStalePending_def stale_pending_def file_live_def)
  from cleanup_buries [OF this]
  have "file_findById (f_id f) (f_org_id f) (fileCleanupWorkerJob now' w1) = None"
    by (auto simp: file_findById_def find_None_iff list_all_iff)
  with 1 show ?thesis by (simp add: w1_def [symmetric] generateDownloadUrl_def Let_def)
qed

section \<open>Example\<close>

definition ex_file_db :: file_db where
  "ex_file_db = \<lparr>outbox_events = [], audit_logs = [], jobs = [], redis = (\<lambda>_. None), pubsub = [],
     entropy = (\<lambda>n. replicate n CHR ''a''), drawn = 0, users = [],
     organizations = [(new_org 0 ''g'' \<lparr>co_name = ''G'', co_slug = ''g'', co_plan_tier = None, co_timezone = None,
       co_locale = None\<rparr>)\<lparr>o_storage_used_bytes := 0, o_storage_quota_bytes := 1000\<rparr>],
     org_memberships = [], workspaces = [], notification_preferences = [], subscriptions = [], files = []\<rparr>"

definition ex_url :: "string \<Rightarrow> string \<Rightarrow> int \<Rightarrow> string outcome" where
  "ex_url k m s = Inr (''put/'' @ k)"

definition ex_uploaded :: file_db where
  "ex_uploaded = snd (upload_route ex_url 0 ''g'' ''u'' ''a.pdf'' ''application/pdf'' 600 ex_file_db)"

definition ex_scan :: "bool \<Rightarrow> string list option \<Rightarrow> scan_env" where
  "ex_scan on v = \<lparr>se_enabled = on, se_download_ok = True, se_detected = Some ''application/pdf'', se_infected = Inr v\<rparr>"

definition ex_scan_job :: scan_job where
  "ex_scan_job = \<lparr>sj_fileId = ''a'', sj_storageKey = '''', sj_storageUrl = Some ''url'', sj_orgId = ''g''\<rparr>"

definition ex_scanned :: "string list option \<Rightarrow> file_db" where
  "ex_scanned v = snd (virusScanWorkerJob (ex_scan True v) 5 ex_scan_job ex_uploaded)"

lemma ex_uploaded_files:
  "files ex_uploaded = [new_file 0 ''a'' ''g'' ''u'' ''a.pdf'' '''' ''application/pdf'' 600]"
  "map o_storage_used_bytes (organizations ex_uploaded) = [600]"
  by (simp_all add: ex_uploaded_def upload_route_def requestUploadUrl_def ex_file_db_def ex_url_def MIME_ALLOWLIST_def
      max_file_bytes_def PLAN_MAX_FILE_BYTES_def draw_def upload_tx_def reserve_quota_def file_create_def withTransaction_def
      new_org_def Let_def)

lemma ex_scanned_files:
  "files (ex_scanned v) = [(new_file 0 ''a'' ''g'' ''u'' ''a.pdf'' '''' ''application/pdf'' 600)
     \<lparr>f_scan_status := (if v = None then ScanClean else ScanInfected), f_scan_completed_at := Some 5,
      f_status := (if v = None then FConfirmed else FQuarantined)\<rparr>]"
  by (cases v) (simp_all add: ex_scanned_def virusScanWorkerJob_def ex_scan_def ex_scan_job_def ex_uploaded_files
      new_file_def MIME_MAGIC_MAP_def quarantine_def Let_def writeFileEvent_def)

lemma ex_history: "file_step\<^sup>*\<^sup>* ex_file_db (ex_scanned v)"
proof -
  have "file_step ex_file_db ex_uploaded"
    unfolding ex_uploaded_def by (rule file_step.upload) (simp add: ex_file_db_def)
  moreover have "file_step ex_uploaded (ex_scanned v)"
    unfolding ex_scanned_def by (rule file_step.scan)
      (simp add: scan_target_ok_def ex_uploaded_files new_file_def ex_scan_job_def)
  ultimately show ?thesis by (meson converse_rtranclp_into_rtranclp rtranclp.rtrancl_refl)
qed

lemma ex_file_initial:
  "files ex_file_db = []" "distinct (map o_id (organizations ex_file_db))"
  "list_all (\<lambda>r. o_storage_used_bytes r = 0 \<and> 0 \<le> o_storage_quota_bytes r) (organizations ex_file_db)"
  by (simp_all add: ex_file_db_def)

lemma ex_scanned_orgs: "map o_storage_used_bytes (organizations (ex_scanned None)) = [600]" "map o_id (organizations (ex_scanned None)) = [''g'']"
proof -
  have "organizations (ex_scanned None) = organizations ex_uploaded"
    by (simp add: ex_scanned_def virusScanWorkerJob_def ex_scan_def ex_scan_job_def ex_uploaded_files
        new_file_def MIME_MAGIC_MAP_def Let_def)
  moreover have "map o_id (organizations ex_uploaded) = [''g'']"
    by (simp add: ex_uploaded_def upload_route_def requestUploadUrl_def ex_file_db_def ex_url_def MIME_ALLOWLIST_def
      max_file_bytes_def PLAN_MAX_FILE_BYTES_def draw_def upload_tx_def reserve_quota_def file_create_def withTransaction_def
      new_org_def Let_def)
  ultimately show "map o_storage_used_bytes (organizations (ex_scanned None)) = [600]" "map o_id (organizations (ex_scanned None)) = [''g'']"
    by (simp_all add: ex_uploaded_files)
qed


theorem download_only_clean_witness:
  "generateDownloadUrl (\<lambda>k t. Inr (''get/'' @ k)) ''g'' ''a'' (ex_scanned None) = Inr (Some ''get/'') \<and>
   generateDownloadUrl (\<lambda>k t. Inr (''get/'' @ k)) ''g'' ''a'' (ex_scanned (Some [''v''])) = Inl (UnprocessableError ''FILE_QUARANTINED'') \<and>
   (\<exists>f. f \<in> set (files (ex_scanned None)) \<and> f_scan_status f = ScanClean)"
proof -
  have 1: "generateDownloadUrl (\<lambda>k t. Inr (''get/'' @ k)) ''g'' ''a'' (ex_scanned None) = Inr (Some ''get/'')"
    by (simp add: generateDownloadUrl_def file_findById_def ex_scanned_files new_file_def file_live_def)
  from download_only_clean [OF ex_history ex_file_initial this]
  have "\<exists>f. f \<in> set (files (ex_scanned None)) \<and> f_scan_status f = ScanClean" by blast
  with 1 show ?thesis
    by (simp add: generateDownloadUrl_def file_findById_def ex_scanned_files new_file_def file_live_def)
qed

theorem unscanned_file_is_cleaned_up_witness:
  "let w1 = snd (virusScanWorkerJob (ex_scan False None) 5 ex_scan_job ex_uploaded);
       url = (\<lambda>k t. Inr (''get/'' @ k))
   in generateDownloadUrl url ''g'' ''a'' w1 = Inr (Some ''get/'') \<and>
      generateDownloadUrl url ''g'' ''a'' (fileCleanupWorkerJob 3600001 w1) = Inl (NotFoundError ''File'')"
  using unscanned_file_is_cleaned_up [of ex_uploaded "new_file 0 ''a'' ''g'' ''u'' ''a.pdf'' '''' ''application/pdf'' 600" 3600001
      "ex_scan False None" ex_scan_job "\<lambda>k t. Inr (''get/'' @ k)" "''get/''" 5]
  by (simp add: ex_uploaded_files) (simp add: new_file_def file_live_def ex_scan_def ex_scan_job_def Let_def)

end
