(* ===== verification/Crypto.thy ===== *)
theory Crypto
  imports Prelude
begin

text \<open>
  \<^verbatim>\<open>src/shared/crypto/index.ts\<close>: the format of encrypted secrets and Node's base64 coding, which is part of
  it.  A string stands for its UTF-8 bytes.  AES-256-GCM, SHA-256 and HMAC are arguments.
\<close>

section \<open>Base64\<close>

type_synonym bytes = "nat list"

definition b64_char :: "nat \<Rightarrow> char" where
  "b64_char n =
     char_of (if n < 26 then n + 65 else if n < 52 then n + 71 else if n < 62 then n - 4 else if n = 62 then 43 else 47)"

text \<open>The decoder also takes the URL-safe digits, and skips what is no digit.\<close>

definition b64_digit :: "char \<Rightarrow> nat option" where
  "b64_digit c =
     (let n = of_char c :: nat in
      if 65 \<le> n \<and> n \<le> 90 then Some (n - 65)
      else if 97 \<le> n \<and> n \<le> 122 then Some (n - 71)
      else if 48 \<le> n \<and> n \<le> 57 then Some (n + 4)
      else if n = 43 \<or> n = 45 then Some 62
      else if n = 47 \<or> n = 95 then Some 63
      else None)"

fun b64_encode :: "bytes \<Rightarrow> string" where
  "b64_encode [] = []"
| "b64_encode [a] = [b64_char (a div 4), b64_char ((a mod 4) * 16), CHR ''='', CHR ''='']"
| "b64_encode [a, b] = [b64_char (a div 4), b64_char ((a mod 4) * 16 + b div 16), b64_char ((b mod 16) * 4), CHR ''='']"
| "b64_encode (a # b # c # rest) =
     b64_char (a div 4) # b64_char ((a mod 4) * 16 + b div 16) # b64_char ((b mod 16) * 4 + c div 64) # b64_char (c mod 64) #
     b64_encode rest"

fun b64_bytes :: "nat list \<Rightarrow> bytes" where
  "b64_bytes [x, y] = [x * 4 + y div 16]"
| "b64_bytes [x, y, z] = [x * 4 + y div 16, (y mod 16) * 16 + z div 4]"
| "b64_bytes (x # y # z # v # rest) =
     (x * 4 + y div 16) # ((y mod 16) * 16 + z div 4) # ((z mod 4) * 64 + v) # b64_bytes rest"
| "b64_bytes _ = []"

definition b64_decode :: "string \<Rightarrow> bytes" where
  "b64_decode s = b64_bytes (List.map_filter b64_digit (takeWhile (\<lambda>c. c \<noteq> CHR ''='') s))"

section \<open>Encryption\<close>

definition KEY_VERSION :: nat where
  "KEY_VERSION = 1"

text \<open>AES-256-GCM under the configured key: the ciphertext and the tag, and the plaintext if the tag is right.\<close>

record gcm =
  gcm_encrypt :: "bytes \<Rightarrow> bytes \<Rightarrow> bytes \<times> bytes"
  gcm_decrypt :: "bytes \<Rightarrow> bytes \<Rightarrow> bytes \<Rightarrow> bytes option"

definition to_bytes :: "string \<Rightarrow> bytes" where
  "to_bytes s = map of_char s"

definition of_bytes :: "bytes \<Rightarrow> string" where
  "of_bytes bs = map char_of bs"

definition encrypt :: "gcm \<Rightarrow> bytes \<Rightarrow> string \<Rightarrow> string" where
  "encrypt aes iv plaintext =
     (let (enc, tag) = gcm_encrypt aes iv (to_bytes plaintext)
      in ''v'' @ show_nat KEY_VERSION @ '':'' @ b64_encode iv @ '':'' @ b64_encode enc @ '':'' @ b64_encode tag)"

definition decrypt :: "gcm \<Rightarrow> string \<Rightarrow> string outcome" where
  "decrypt aes ciphertext =
     (case split_on (CHR '':'') ciphertext of
        [_, ivB64, encB64, tagB64] \<Rightarrow>
          (case gcm_decrypt aes (b64_decode ivB64) (b64_decode encB64) (b64_decode tagB64) of
             None \<Rightarrow> Inl (JsError ''Error'') | Some dec \<Rightarrow> Inr (of_bytes dec))
      | _ \<Rightarrow> Inl (JsError ''Error''))"

definition timingSafeEqual :: "string \<Rightarrow> string \<Rightarrow> bool" where
  "timingSafeEqual a b =
     (if length a \<noteq> length b then False else list_all (\<lambda>(x, y). x = y) (zip a b))"

section \<open>Round trips\<close>

lemma of_char_b64: "n < 64 \<Longrightarrow> of_char (b64_char n) =
    (if n < 26 then n + 65 else if n < 52 then n + 71 else if n < 62 then n - 4 else if n = 62 then 43 else 47)"
  by (simp add: b64_char_def)

lemma b64_digit_char [simp]:
  assumes "n < 64"
  shows "b64_digit (b64_char n) = Some n" "b64_char n \<noteq> CHR ''=''" "b64_char n \<noteq> CHR '':''"
proof -
  show "b64_digit (b64_char n) = Some n"
    using assms unfolding b64_digit_def of_char_b64 [OF assms] Let_def by auto
  have "(of_char (b64_char n) :: nat) \<noteq> of_char (CHR ''='')" "(of_char (b64_char n) :: nat) \<noteq> of_char (CHR '':'')"
    unfolding of_char_b64 [OF assms] by auto
  then show "b64_char n \<noteq> CHR ''=''" "b64_char n \<noteq> CHR '':''" by auto
qed

lemma b64_sextets:
  fixes a b c :: nat
  assumes "a < 256" "b < 256" "c < 256"
  shows "a div 4 < 64" "(a mod 4) * 16 + b div 16 < 64" "(b mod 16) * 4 + c div 64 < 64"
    "(a mod 4) * 16 < 64" "(b mod 16) * 4 < 64"
    "(a div 4) * 4 + ((a mod 4) * 16 + b div 16) div 16 = a"
    "(((a mod 4) * 16 + b div 16) mod 16) * 16 + ((b mod 16) * 4 + c div 64) div 4 = b"
    "(((b mod 16) * 4 + c div 64) mod 4) * 64 + c mod 64 = c"
    "(a div 4) * 4 + ((a mod 4) * 16) div 16 = a"
    "(((a mod 4) * 16 + b div 16) mod 16) * 16 + ((b mod 16) * 4) div 4 = b"
proof -
  have d: "a div 4 < 64" "a mod 4 < 4" "b div 16 < 16" "b mod 16 < 16" "c div 64 < 4" using assms by auto
  then show "a div 4 < 64" "(a mod 4) * 16 + b div 16 < 64" "(b mod 16) * 4 + c div 64 < 64"
    "(a mod 4) * 16 < 64" "(b mod 16) * 4 < 64" by linarith+
  have "((a mod 4) * 16 + b div 16) div 16 = a mod 4" "((a mod 4) * 16 + b div 16) mod 16 = b div 16"
    "((b mod 16) * 4 + c div 64) div 4 = b mod 16" "((b mod 16) * 4 + c div 64) mod 4 = c div 64"
    using d(2-5) by simp_all
  then show "(a div 4) * 4 + ((a mod 4) * 16 + b div 16) div 16 = a"
    "(((a mod 4) * 16 + b div 16) mod 16) * 16 + ((b mod 16) * 4 + c div 64) div 4 = b"
    "(((b mod 16) * 4 + c div 64) mod 4) * 64 + c mod 64 = c"
    "(a div 4) * 4 + ((a mod 4) * 16) div 16 = a"
    "(((a mod 4) * 16 + b div 16) mod 16) * 16 + ((b mod 16) * 4) div 4 = b"
    by simp_all
qed

lemma map_filter_Cons: "List.map_filter f (x # xs) = (case f x of None \<Rightarrow> List.map_filter f xs | Some y \<Rightarrow> y # List.map_filter f xs)"
  by (simp add: List.map_filter_def split: option.split)

lemma map_filter_Nil: "List.map_filter f [] = []"
  by (simp add: List.map_filter_def)

lemma b64_chunk:
  assumes "x < 64" "y < 64" "z < 64" "v < 64"
  shows "b64_decode (b64_char x # b64_char y # b64_char z # b64_char v # s) =
      (x * 4 + y div 16) # ((y mod 16) * 16 + z div 4) # ((z mod 4) * 64 + v) # b64_decode s"
    "b64_decode [b64_char x, b64_char y, b64_char z, CHR ''=''] = [x * 4 + y div 16, (y mod 16) * 16 + z div 4]"
    "b64_decode [b64_char x, b64_char y, CHR ''='', CHR ''=''] = [x * 4 + y div 16]"
  using assms by (simp_all add: b64_decode_def map_filter_Cons map_filter_Nil)

lemma b64_decode_encode: "list_all (\<lambda>x. x < 256) bs \<Longrightarrow> b64_decode (b64_encode bs) = bs"
proof (induction bs rule: b64_encode.induct)
  case (2 a)
  then have "a < 256" by simp
  note s = b64_sextets [OF this zero_less_numeral zero_less_numeral]
  show ?case unfolding b64_encode.simps b64_chunk(3) [OF s(1,4) s(1) s(1)] s(9) ..
next
  case (3 a b)
  then have "a < 256" "b < 256" by simp_all
  note s = b64_sextets [OF this, of 0, OF zero_less_numeral]
  show ?case unfolding b64_encode.simps b64_chunk(2) [OF s(1,2,5) s(1)] s(6,10) ..
next
  case (4 a b c rest)
  then have "a < 256" "b < 256" "c < 256" by simp_all
  note s = b64_sextets [OF this]
  have "c mod 64 < 64" by simp
  with 4 show ?case unfolding b64_encode.simps b64_chunk(1) [OF s(1-3) \<open>c mod 64 < 64\<close>] s(6-8) by simp
qed (simp add: b64_decode_def map_filter_Nil)

lemma b64_encode_chars: "list_all (\<lambda>x. x < 256) bs \<Longrightarrow> ch \<in> set (b64_encode bs) \<Longrightarrow> ch = CHR ''='' \<or> (\<exists>n < 64. ch = b64_char n)"
proof (induction bs rule: b64_encode.induct)
  case (2 a)
  then have "a < 256" by simp
  from b64_sextets(1,4) [OF this zero_less_numeral zero_less_numeral] 2(2) show ?case by (auto intro: exI [of _ "a mod 4 * 16"])
next
  case (3 a b)
  then have "a < 256" "b < 256" by simp_all
  from b64_sextets(1,2,5) [OF this zero_less_numeral] 3(2) show ?case by (auto intro: exI [of _ "b mod 16 * 4"])
next
  case (4 a b c rest)
  then have "a < 256" "b < 256" "c < 256" by simp_all
  note s = b64_sextets(1-3) [OF this]
  have "c mod 64 < 64" by simp
  with s 4 show ?case by (auto intro: exI [of _ "c mod 64"])
qed simp

lemma b64_no_colon: "list_all (\<lambda>x. x < 256) bs \<Longrightarrow> CHR '':'' \<notin> set (b64_encode bs)"
  using b64_encode_chars [of bs "CHR '':''"] b64_digit_char(3) by fastforce

lemma of_to_bytes [simp]: "of_bytes (to_bytes s) = s"
  by (simp add: of_bytes_def to_bytes_def o_def)

lemma to_bytes_range: "list_all (\<lambda>x. x < 256) (to_bytes s)"
  by (simp add: to_bytes_def list_all_iff of_char_def)

text \<open>What the format relies on of AES-GCM: it decrypts what it encrypted, and maps bytes to bytes.\<close>

lemma decrypt_encrypt:
  assumes "\<And>p c t. list_all (\<lambda>x. x < 256) p \<Longrightarrow> gcm_encrypt aes iv p = (c, t) \<Longrightarrow> gcm_decrypt aes iv c t = Some p"
    and "\<And>p c t. list_all (\<lambda>x. x < 256) p \<Longrightarrow> gcm_encrypt aes iv p = (c, t) \<Longrightarrow> list_all (\<lambda>x. x < 256) (c @ t)"
    and "list_all (\<lambda>x. x < 256) iv"
  shows "decrypt aes (encrypt aes iv s) = Inr s"
proof -
  obtain c t where e: "gcm_encrypt aes iv (to_bytes s) = (c, t)" by fastforce
  have r: "list_all (\<lambda>x. x < 256) c" "list_all (\<lambda>x. x < 256) t" using assms(2) [OF to_bytes_range e] by simp_all
  have v: "CHR '':'' \<notin> set (CHR ''v'' # show_nat KEY_VERSION)"
    using show_nat_digits [of "CHR '':''" KEY_VERSION] by auto
  have "split_on (CHR '':'') (encrypt aes iv s) =
      [CHR ''v'' # show_nat KEY_VERSION, b64_encode iv, b64_encode c, b64_encode t]"
    using split_on_join [OF v] split_on_join [OF b64_no_colon [OF assms(3)]] split_on_join [OF b64_no_colon [OF r(1)]]
      split_on_free [OF b64_no_colon [OF r(2)]]
    by (simp add: encrypt_def e)
  with assms(1) [OF to_bytes_range e] r assms(3) show ?thesis by (simp add: decrypt_def b64_decode_encode)
qed

text \<open>C23. Encryption round trip: whatever is encrypted is decrypted to the same string, given that AES-GCM
  decrypts what it encrypted and maps bytes to bytes.\<close>

theorem encrypt_roundtrip:
  assumes "\<And>p c t. list_all (\<lambda>x. x < 256) p \<Longrightarrow> gcm_encrypt aes iv p = (c, t) \<Longrightarrow> gcm_decrypt aes iv c t = Some p"
    and "\<And>p c t. list_all (\<lambda>x. x < 256) p \<Longrightarrow> gcm_encrypt aes iv p = (c, t) \<Longrightarrow> list_all (\<lambda>x. x < 256) (c @ t)"
    and "list_all (\<lambda>x. x < 256) iv"
  shows "decrypt aes (encrypt aes iv s) = Inr s"
  by (rule decrypt_encrypt [OF assms])

lemma timingSafeEqual_eq: "timingSafeEqual a b = (a = b)"
proof (cases "length a = length b")
  case True
  then show ?thesis
    by (induction a b rule: list_induct2) (auto simp: timingSafeEqual_def)
qed (auto simp: timingSafeEqual_def)

lemma decrypt_malformed: "length (split_on (CHR '':'') s) \<noteq> 4 \<Longrightarrow> decrypt aes s = Inl (JsError ''Error'')"
  by (auto simp: decrypt_def split: list.splits)

text \<open>A cipher that adds one to every byte.\<close>

definition ex_gcm :: gcm where
  "ex_gcm = \<lparr>gcm_encrypt = (\<lambda>iv p. (map (\<lambda>x. if x = 255 then 0 else x + 1) p, [length p mod 256])),
     gcm_decrypt = (\<lambda>iv c t. if t = [length c mod 256] then Some (map (\<lambda>x. if x = 0 then 255 else x - 1) c) else None)\<rparr>"

lemma ex_gcm_laws:
  "list_all (\<lambda>x. x < 256) p \<Longrightarrow> gcm_encrypt ex_gcm iv p = (c, t) \<Longrightarrow> gcm_decrypt ex_gcm iv c t = Some p"
  "list_all (\<lambda>x. x < 256) p \<Longrightarrow> gcm_encrypt ex_gcm iv p = (c, t) \<Longrightarrow> list_all (\<lambda>x. x < 256) (c @ t)"
proof -
  assume p: "list_all (\<lambda>x. x < 256) p" and e: "gcm_encrypt ex_gcm iv p = (c, t)"
  from e have c: "c = map (\<lambda>x. if x = 255 then 0 else x + 1) p" "t = [length p mod 256]" by (auto simp: ex_gcm_def)
  show "gcm_decrypt ex_gcm iv c t = Some p" by (simp add: ex_gcm_def c o_def map_idI)
  have "list_all ((\<lambda>x. x < 256) \<circ> (\<lambda>x. if x = 255 then 0 else x + 1)) p"
    using p by (fastforce simp: list_all_iff)
  then show "list_all (\<lambda>x. x < 256) (c @ t)" by (simp only: c list_all_append list.pred_map) simp
qed

theorem encrypt_roundtrip_witness: "decrypt ex_gcm (encrypt ex_gcm [1, 2, 250] ''secret'') = Inr ''secret''"
  by (rule encrypt_roundtrip [OF ex_gcm_laws]) simp_all

end
