(* ===== verification/Webhook.thy ===== *)
theory Webhook
  imports Feature_Flag Crypto Interfaces
begin

text \<open>
  \<^verbatim>\<open>src/modules/webhook\<close>: subscriptions with their secrets, and the worker that delivers events.  URL
  parsing, DNS, the classification of addresses, bcrypt, HMAC and the HTTP client are arguments; the state
  records the requests that were sent.
\<close>

section \<open>State\<close>

record webhook =
  wh_id :: uuid
  wh_org_id :: uuid
  wh_url :: string
  wh_secret_hash :: string
  wh_secret_encrypted :: string
  wh_secret_preview :: string
  wh_secret_key_version :: int
  wh_event_types :: "string list"
  wh_is_active :: bool
  wh_created_by :: uuid
  wh_created_at :: timestamp
  wh_updated_at :: timestamp
  wh_deleted_at :: "timestamp option"

datatype delivery_status = DPending | DDelivered | DFailed | DExhausted

record delivery_log =
  dl_id :: uuid
  dl_webhook_id :: uuid
  dl_org_id :: uuid
  dl_event_id :: uuid
  dl_event_type :: string
  dl_status :: delivery_status
  dl_attempt_count :: nat
  dl_response_status_code :: "nat option"
  dl_error_message :: "string option"
  dl_delivered_at :: "timestamp option"
  dl_created_at :: timestamp
  dl_updated_at :: timestamp

text \<open>A request that left the worker: the address it went to, its headers and its body.\<close>

record post =
  po_address :: string
  po_target :: string
  po_headers :: "(string \<times> string) list"
  po_body :: json

record webhook_db = flag_db +
  webhook_subscriptions :: "webhook list"
  webhook_delivery_log :: "delivery_log list"
  posts :: "post list"

section \<open>Repository\<close>

definition webhook_live :: "webhook \<Rightarrow> bool" where
  "webhook_live h = (wh_deleted_at h = None)"

definition webhook_create ::
    "timestamp \<Rightarrow> uuid \<Rightarrow> string \<Rightarrow> string \<Rightarrow> string \<Rightarrow> string \<Rightarrow> string list \<Rightarrow> uuid \<Rightarrow> 'a webhook_db_scheme \<Rightarrow> webhook \<times> 'a webhook_db_scheme" where
  "webhook_create now orgId url secretHash secretEncrypted secretPreview eventTypes createdBy w =
     (let (i, w1) = draw w;
          h = \<lparr>wh_id = i, wh_org_id = orgId, wh_url = url, wh_secret_hash = secretHash, wh_secret_encrypted = secretEncrypted,
               wh_secret_preview = secretPreview, wh_secret_key_version = 1, wh_event_types = eventTypes, wh_is_active = True,
               wh_created_by = createdBy, wh_created_at = now, wh_updated_at = now, wh_deleted_at = None\<rparr>
      in (h, w1\<lparr>webhook_subscriptions := webhook_subscriptions w1 @ [h]\<rparr>))"

definition webhook_findById :: "uuid \<Rightarrow> uuid \<Rightarrow> 'a webhook_db_scheme \<Rightarrow> webhook option" where
  "webhook_findById i orgId w =
     List.find (\<lambda>h. wh_id h = i \<and> wh_org_id h = orgId \<and> webhook_live h) (webhook_subscriptions w)"

definition webhook_findByOrg :: "uuid \<Rightarrow> 'a webhook_db_scheme \<Rightarrow> webhook list" where
  "webhook_findByOrg orgId w =
     rev (sort_key wh_created_at (filter (\<lambda>h. wh_org_id h = orgId \<and> webhook_live h) (webhook_subscriptions w)))"

definition webhook_findActive :: "uuid \<Rightarrow> 'a webhook_db_scheme \<Rightarrow> webhook list" where
  "webhook_findActive orgId w =
     filter (\<lambda>h. wh_org_id h = orgId \<and> wh_is_active h \<and> webhook_live h) (webhook_subscriptions w)"

definition updateSecret ::
    "timestamp \<Rightarrow> uuid \<Rightarrow> uuid \<Rightarrow> string \<Rightarrow> string \<Rightarrow> string \<Rightarrow> int \<Rightarrow> 'a webhook_db_scheme \<Rightarrow> 'a webhook_db_scheme" where
  "updateSecret now i orgId secretHash secretEncrypted secretPreview keyVersion w =
     w\<lparr>webhook_subscriptions := update_where (\<lambda>h. wh_id h = i \<and> wh_org_id h = orgId \<and> webhook_live h)
         (\<lambda>h. h\<lparr>wh_secret_hash := secretHash, wh_secret_encrypted := secretEncrypted, wh_secret_preview := secretPreview,
               wh_secret_key_version := keyVersion, wh_updated_at := now\<rparr>) (webhook_subscriptions w)\<rparr>"

definition webhook_softDelete :: "timestamp \<Rightarrow> uuid \<Rightarrow> uuid \<Rightarrow> 'a webhook_db_scheme \<Rightarrow> 'a webhook_db_scheme" where
  "webhook_softDelete now i orgId w =
     w\<lparr>webhook_subscriptions := update_where (\<lambda>h. wh_id h = i \<and> wh_org_id h = orgId)
         (\<lambda>h. h\<lparr>wh_deleted_at := Some now, wh_is_active := False, wh_updated_at := now\<rparr>) (webhook_subscriptions w)\<rparr>"

definition findDeliveryLog :: "uuid \<Rightarrow> uuid \<Rightarrow> 'a webhook_db_scheme \<Rightarrow> delivery_log option" where
  "findDeliveryLog webhookId eventId w =
     List.find (\<lambda>d. dl_webhook_id d = webhookId \<and> dl_event_id d = eventId) (webhook_delivery_log w)"

text \<open>The pair of webhook and event is unique.\<close>

definition createDeliveryLog ::
    "timestamp \<Rightarrow> uuid \<Rightarrow> uuid \<Rightarrow> uuid \<Rightarrow> string \<Rightarrow> 'a webhook_db_scheme \<Rightarrow> delivery_log outcome \<times> 'a webhook_db_scheme" where
  "createDeliveryLog now webhookId orgId eventId eventType w =
     (if findDeliveryLog webhookId eventId w \<noteq> None then (Inl (PgError ''23505''), w)
      else let (i, w1) = draw w;
               d = \<lparr>dl_id = i, dl_webhook_id = webhookId, dl_org_id = orgId, dl_event_id = eventId, dl_event_type = eventType,
                    dl_status = DPending, dl_attempt_count = 0, dl_response_status_code = None, dl_error_message = None,
                    dl_delivered_at = None, dl_created_at = now, dl_updated_at = now\<rparr>
           in (Inr d, w1\<lparr>webhook_delivery_log := webhook_delivery_log w1 @ [d]\<rparr>))"

definition updateDeliveryLog ::
    "timestamp \<Rightarrow> uuid \<Rightarrow> delivery_status \<Rightarrow> nat option \<Rightarrow> string option \<Rightarrow> 'a webhook_db_scheme \<Rightarrow> 'a webhook_db_scheme" where
  "updateDeliveryLog now i status code msg w =
     w\<lparr>webhook_delivery_log := update_where (\<lambda>d. dl_id d = i)
         (\<lambda>d. d\<lparr>dl_status := status, dl_response_status_code := code, dl_error_message := msg,
               dl_attempt_count := dl_attempt_count d + 1, dl_updated_at := now,
               dl_delivered_at := (if status = DDelivered then Some now else None)\<rparr>) (webhook_delivery_log w)\<rparr>"

section \<open>The world outside\<close>

record url =
  u_protocol :: string
  u_hostname :: string
  u_pathname :: string
  u_search :: string

text \<open>\<open>net_range\<close> is the class \<^verbatim>\<open>ipaddr.js\<close> gives an address, \<open>net_lookup\<close> the answer of DNS, \<open>net_post\<close> the
  status of the response, or an error of the connection.\<close>

record net =
  net_url :: "string \<Rightarrow> url option"
  net_lookup :: "string \<Rightarrow> string option"
  net_range :: "string \<Rightarrow> string option"
  net_post :: "post \<Rightarrow> nat outcome"

record secrets =
  sc_aes :: gcm
  sc_iv :: "string \<Rightarrow> bytes"
  sc_bcrypt :: "string \<Rightarrow> string"
  sc_hmac :: "string \<Rightarrow> string \<Rightarrow> string"
  sc_json :: "json \<Rightarrow> string"

section \<open>Service\<close>

definition isPrivateOrBlockedUrl :: "net \<Rightarrow> string \<Rightarrow> bool" where
  "isPrivateOrBlockedUrl n urlStr =
     (case net_url n urlStr of
        None \<Rightarrow> True
      | Some u \<Rightarrow>
          if u_protocol u \<noteq> ''https:'' then True
          else (case net_lookup n (u_hostname u) of
                  None \<Rightarrow> True
                | Some a \<Rightarrow> (case net_range n a of None \<Rightarrow> True | Some r \<Rightarrow> r \<noteq> ''unicast'')))"

definition preview :: "string \<Rightarrow> string" where
  "preview s = drop (length s - 4) s"

text \<open>The webhook without its secret columns, and the secret.\<close>

definition webhook_service_create ::
    "net \<Rightarrow> secrets \<Rightarrow> flag_env \<Rightarrow> nat \<Rightarrow> timestamp \<Rightarrow> uuid \<Rightarrow> uuid \<Rightarrow> string \<Rightarrow> string list
     \<Rightarrow> 'a webhook_db_scheme \<Rightarrow> (webhook \<times> string) outcome \<times> 'a webhook_db_scheme" where
  "webhook_service_create n sc env p now orgId userId url events w0 =
     (case isEnabled env p now orgId ''feature.webhooks'' w0 of
        (False, w) \<Rightarrow> (Inl (ForbiddenError ''FEATURE_NOT_ENABLED''), w)
      | (True, w) \<Rightarrow>
          (if isPrivateOrBlockedUrl n url then (Inl (UnprocessableError ''INVALID_WEBHOOK_URL''), w)
           else let (secret, w1) = draw w; (iv, w2) = draw w1;
                    (h, w3) = webhook_create now orgId url (sc_bcrypt sc secret) (encrypt (sc_aes sc) (sc_iv sc iv) secret)
                                (preview secret) events userId w2
                in (Inr (h\<lparr>wh_secret_hash := '''', wh_secret_encrypted := ''''\<rparr>, secret), w3)))"

definition rotateSecret ::
    "secrets \<Rightarrow> timestamp \<Rightarrow> uuid \<Rightarrow> uuid \<Rightarrow> 'a webhook_db_scheme \<Rightarrow> string outcome \<times> 'a webhook_db_scheme" where
  "rotateSecret sc now orgId webhookId w =
     (case webhook_findById webhookId orgId w of
        None \<Rightarrow> (Inl (NotFoundError ''Webhook''), w)
      | Some h \<Rightarrow>
          (let (secret, w1) = draw w; (iv, w2) = draw w1
           in (Inr secret, updateSecret now webhookId orgId (sc_bcrypt sc secret) (encrypt (sc_aes sc) (sc_iv sc iv) secret)
                 (preview secret) (wh_secret_key_version h + 1) w2)))"

definition webhook_listByOrg :: "uuid \<Rightarrow> 'a webhook_db_scheme \<Rightarrow> webhook list" where
  "webhook_listByOrg orgId w = webhook_findByOrg orgId w"

definition webhook_remove :: "timestamp \<Rightarrow> uuid \<Rightarrow> uuid \<Rightarrow> 'a webhook_db_scheme \<Rightarrow> unit outcome \<times> 'a webhook_db_scheme" where
  "webhook_remove now orgId webhookId w =
     (case webhook_findById webhookId orgId w of
        None \<Rightarrow> (Inl (NotFoundError ''Webhook''), w)
      | Some _ \<Rightarrow> (Inr (), webhook_softDelete now webhookId orgId w))"

section \<open>Delivery\<close>

definition isPrivateIp :: "net \<Rightarrow> string \<Rightarrow> bool" where
  "isPrivateIp n ip = (case net_range n ip of None \<Rightarrow> True | Some r \<Rightarrow> r \<noteq> ''unicast'')"

definition deliverWebhook ::
    "net \<Rightarrow> secrets \<Rightarrow> url \<Rightarrow> json \<Rightarrow> string \<Rightarrow> string \<Rightarrow> uuid \<Rightarrow> 'a webhook_db_scheme \<Rightarrow> nat outcome \<times> 'a webhook_db_scheme" where
  "deliverWebhook n sc u payload secret eventType eventId w =
     (case net_lookup n (u_hostname u) of
        None \<Rightarrow> (Inl (JsError ''Error''), w)
      | Some address \<Rightarrow>
          if isPrivateIp n address then (Inl (JsError ''Error''), w)
          else let po = \<lparr>po_address = address,
                         po_target = u_protocol u @ ''//'' @ address @ u_pathname u @ u_search u,
                         po_headers = [(''Host'', u_hostname u), (''X-Webhook-Signature'', ''sha256='' @ sc_hmac sc (sc_json sc payload) secret),
                                       (''X-Event-Type'', eventType), (''X-Event-ID'', eventId), (''Content-Type'', ''application/json'')],
                         po_body = payload\<rparr>
               in (net_post n po, w\<lparr>posts := posts w @ [po]\<rparr>))"

record delivery_job =
  dj_webhookId :: uuid
  dj_orgId :: uuid
  dj_eventId :: uuid
  dj_eventType :: string
  dj_payload :: json

text \<open>The body of the \<^verbatim>\<open>try\<close>: the status of the response if there was one, and the error it ends with.\<close>

definition delivery_attempt ::
    "net \<Rightarrow> secrets \<Rightarrow> timestamp \<Rightarrow> delivery_job \<Rightarrow> uuid \<Rightarrow> webhook \<Rightarrow> 'a webhook_db_scheme
     \<Rightarrow> nat option \<times> unit outcome \<times> 'a webhook_db_scheme" where
  "delivery_attempt n sc now j logId h w =
     (case net_url n (wh_url h) of
        None \<Rightarrow> (None, Inl (JsError ''Error''), w)
      | Some u \<Rightarrow>
          (case decrypt (sc_aes sc) (wh_secret_encrypted h) of
             Inl e \<Rightarrow> (None, Inl e, w)
           | Inr secret \<Rightarrow>
               (case deliverWebhook n sc u (dj_payload j) secret (dj_eventType j) (dj_eventId j) w of
                  (Inl e, w1) \<Rightarrow> (None, Inl e, w1)
                | (Inr status, w1) \<Rightarrow>
                    (let success = (200 \<le> status \<and> status < 300);
                         w2 = updateDeliveryLog now logId (if success then DDelivered else DFailed) (Some status) None w1
                     in (Some status, if success then Inr () else Inl (JsError ''Error''), w2)))))"

text \<open>The part of the job after the log row is known.\<close>

definition delivery_rest ::
    "net \<Rightarrow> secrets \<Rightarrow> timestamp \<Rightarrow> delivery_job \<Rightarrow> delivery_log \<Rightarrow> 'a webhook_db_scheme \<Rightarrow> unit outcome \<times> 'a webhook_db_scheme" where
  "delivery_rest n sc now j logRow w1 =
     (case webhook_findById (dj_webhookId j) (dj_orgId j) w1 of
        None \<Rightarrow> (Inr (), w1)
      | Some h \<Rightarrow>
          if \<not> wh_is_active h then (Inr (), w1)
          else (case delivery_attempt n sc now j (dl_id logRow) h w1 of
                  (code, Inr _, w2) \<Rightarrow> (Inr (), w2)
                | (code, Inl e, w2) \<Rightarrow> (Inl e, updateDeliveryLog now (dl_id logRow) DFailed code None w2)))"

definition webhookDeliveryWorkerJob ::
    "net \<Rightarrow> secrets \<Rightarrow> timestamp \<Rightarrow> delivery_job \<Rightarrow> 'a webhook_db_scheme \<Rightarrow> unit outcome \<times> 'a webhook_db_scheme" where
  "webhookDeliveryWorkerJob n sc now j w =
     (case findDeliveryLog (dj_webhookId j) (dj_eventId j) w of
        Some d \<Rightarrow> (if dl_status d = DDelivered then (Inr (), w) else delivery_rest n sc now j d w)
      | None \<Rightarrow> and_then (createDeliveryLog now (dj_webhookId j) (dj_orgId j) (dj_eventId j) (dj_eventType j) w)
          (delivery_rest n sc now j))"

section \<open>Tenant isolation\<close>

definition getWebhook :: "uuid \<Rightarrow> uuid \<Rightarrow> 'a webhook_db_scheme \<Rightarrow> webhook outcome" where
  "getWebhook orgId i w = (case webhook_findById i orgId w of None \<Rightarrow> Inl (NotFoundError ''Webhook'') | Some h \<Rightarrow> Inr h)"

interpretation webhook_tenant: tenant_lookup webhook_subscriptions wh_id wh_org_id webhook_live getWebhook "''Webhook''"
proof
  fix g i r and s :: "'a webhook_db_scheme"
  assume "getWebhook g i s = Inr r"
  then show "r \<in> set (webhook_subscriptions s) \<and> wh_id r = i \<and> wh_org_id r = g \<and> webhook_live r"
    by (auto simp: getWebhook_def webhook_findById_def dest: find_SomeD split: option.splits)
next
  fix g i e and s :: "'a webhook_db_scheme"
  assume "getWebhook g i s = Inl e"
  then show "e = NotFoundError ''Webhook''" by (simp add: getWebhook_def split: option.splits)
next
  fix r and s :: "'a webhook_db_scheme"
  assume "distinct (map wh_id (webhook_subscriptions s))" "r \<in> set (webhook_subscriptions s)" "webhook_live r"
  then have "webhook_findById (wh_id r) (wh_org_id r) s = Some r"
    using find_by_key [of wh_id "webhook_subscriptions s" r "\<lambda>h. wh_org_id h = wh_org_id r \<and> webhook_live h"]
    by (simp add: webhook_findById_def)
  then show "getWebhook (wh_org_id r) (wh_id r) s = Inr r" by (simp add: getWebhook_def)
qed

section \<open>Deliveries\<close>

lemma webhook_frame [simp]:
  "posts (updateDeliveryLog now i st c m w) = posts w"
  "webhook_subscriptions (updateDeliveryLog now i st c m w) = webhook_subscriptions w"
  by (simp_all add: updateDeliveryLog_def)

lemma createDeliveryLog_frame:
  "createDeliveryLog now i g ev ty w = (r, w1) \<Longrightarrow> posts w1 = posts w \<and> webhook_subscriptions w1 = webhook_subscriptions w"
  by (auto simp: createDeliveryLog_def draw_def Let_def split: if_splits)

text \<open>Every request goes to a public address.\<close>

definition public_posts :: "net \<Rightarrow> 'a webhook_db_scheme \<Rightarrow> 'a webhook_db_scheme \<Rightarrow> bool" where
  "public_posts n w w' =
     (\<exists>ps. posts w' = posts w @ ps \<and> length ps \<le> 1 \<and> list_all (\<lambda>q. net_range n (po_address q) = Some ''unicast'') ps)"

lemma public_posts_same: "posts w' = posts w \<Longrightarrow> public_posts n w w'"
  by (simp add: public_posts_def)

lemma public_posts_cong: "posts w0 = posts w \<Longrightarrow> posts w1 = posts w' \<Longrightarrow> public_posts n w0 w1 = public_posts n w w'"
  by (simp add: public_posts_def)

lemma deliverWebhook_public: "deliverWebhook n sc u pl s ty ev w = (r, w1) \<Longrightarrow> public_posts n w w1"
  by (auto simp: deliverWebhook_def isPrivateIp_def Let_def public_posts_def split: option.splits if_splits)

lemma attempt_public: "delivery_attempt n sc now j i h w = (c, r, w1) \<Longrightarrow> public_posts n w w1"
  by (auto simp: delivery_attempt_def Let_def public_posts_same public_posts_cong [OF refl webhook_frame(1)]
      dest: deliverWebhook_public split: option.splits sum.splits prod.splits)

lemma rest_public: "public_posts n w (snd (delivery_rest n sc now j d w))"
proof -
  have "public_posts n w w2" if "delivery_attempt n sc now j i h w = (c, r, w2)" for i h c r w2
    using attempt_public [OF that] .
  then show ?thesis
    by (auto simp: delivery_rest_def public_posts_same public_posts_cong [OF refl webhook_frame(1)]
        split: option.split prod.split sum.split)
qed

lemma job_public: "public_posts n w (snd (webhookDeliveryWorkerJob n sc now j w))"
proof (cases "findDeliveryLog (dj_webhookId j) (dj_eventId j) w")
  case (Some d)
  then show ?thesis by (simp add: webhookDeliveryWorkerJob_def public_posts_same rest_public)
next
  case None
  obtain r w1 where c: "createDeliveryLog now (dj_webhookId j) (dj_orgId j) (dj_eventId j) (dj_eventType j) w = (r, w1)"
    by fastforce
  from createDeliveryLog_frame [OF this] have "posts w1 = posts w" by blast
  then show ?thesis
    using None c rest_public [of n w1 sc now j]
    by (cases r) (auto simp: webhookDeliveryWorkerJob_def public_posts_same public_posts_def)
qed

text \<open>A row of the log is found again after it was updated.\<close>

lemma find_updated_log:
  assumes "findDeliveryLog i ev w = Some d"
  shows "findDeliveryLog i ev (updateDeliveryLog now (dl_id d) st c m w) =
    Some (d\<lparr>dl_status := st, dl_response_status_code := c, dl_error_message := m, dl_attempt_count := dl_attempt_count d + 1,
      dl_updated_at := now, dl_delivered_at := (if st = DDelivered then Some now else None)\<rparr>)"
  using assms by (simp add: findDeliveryLog_def updateDeliveryLog_def find_update_where_keep)

lemma created_log_found:
  "createDeliveryLog now i g ev ty w = (Inr d, w1) \<Longrightarrow> findDeliveryLog i ev w1 = Some d"
  by (auto simp: createDeliveryLog_def draw_def Let_def findDeliveryLog_def find_append split: if_splits)

lemma findDeliveryLog_posts [simp]: "findDeliveryLog i ev (w\<lparr>posts := ps\<rparr>) = findDeliveryLog i ev w"
  by (simp add: findDeliveryLog_def)

text \<open>What an attempt with an answer does.\<close>

lemma attempt_success:
  assumes "delivery_attempt n sc now j (dl_id d) h w = (c, r, w1)" and "posts w1 = posts w @ [q]"
    and "net_post n q = Inr status" and "200 \<le> status" "status < 300"
    and "findDeliveryLog i ev w = Some d"
  shows "r = Inr () \<and> (\<exists>d'. findDeliveryLog i ev w1 = Some d' \<and> dl_status d' = DDelivered)"
  using assms
  by (auto simp: delivery_attempt_def deliverWebhook_def Let_def find_updated_log split: option.splits sum.splits if_splits prod.splits)

lemma rest_success:
  assumes "delivery_rest n sc now j d w = (r, w1)" and "posts w1 = posts w @ [q]" and "net_post n q = Inr status"
    and "200 \<le> status" "status < 300" and "findDeliveryLog i ev w = Some d"
  shows "\<exists>d'. findDeliveryLog i ev w1 = Some d' \<and> dl_status d' = DDelivered"
proof -
  obtain h where h: "webhook_findById (dj_webhookId j) (dj_orgId j) w = Some h" "wh_is_active h"
    using assms(1,2) by (auto simp: delivery_rest_def split: option.splits if_splits)
  obtain c x w2 where a: "delivery_attempt n sc now j (dl_id d) h w = (c, x, w2)" by (metis prod_cases3)
  have "posts w2 = posts w1"
    using assms(1) h a by (auto simp: delivery_rest_def split: sum.splits)
  with attempt_success [OF a _ assms(3-6)] assms(2) have x: "x = Inr ()" "\<exists>d'. findDeliveryLog i ev w2 = Some d' \<and> dl_status d' = DDelivered"
    by auto
  with assms(1) h a show ?thesis by (auto simp: delivery_rest_def)
qed


text \<open>A response outside 2xx is counted twice, once with the response and once in the handler of the error.\<close>

lemma failed_response_counts_twice:
  assumes "findDeliveryLog (dj_webhookId j) (dj_eventId j) w = Some d" "dl_status d \<noteq> DDelivered"
    and "webhook_findById (dj_webhookId j) (dj_orgId j) w = Some h" "wh_is_active h"
    and "net_url n (wh_url h) = Some u" "decrypt (sc_aes sc) (wh_secret_encrypted h) = Inr secret"
    and "net_lookup n (u_hostname u) = Some a" "net_range n a = Some ''unicast''" and "\<And>q. net_post n q = Inr 500"
  shows "\<exists>d'. findDeliveryLog (dj_webhookId j) (dj_eventId j) (snd (webhookDeliveryWorkerJob n sc now j w)) = Some d' \<and>
    dl_attempt_count d' = dl_attempt_count d + 2 \<and> dl_status d' = DFailed"
proof -
  have "findDeliveryLog (dj_webhookId j) (dj_eventId j) (updateDeliveryLog now (dl_id d) DFailed (Some 500) None
      (updateDeliveryLog now (dl_id d) DFailed (Some 500) None (w\<lparr>posts := ps\<rparr>))) =
    Some (d\<lparr>dl_status := DFailed, dl_response_status_code := Some 500, dl_error_message := None,
      dl_attempt_count := dl_attempt_count d + 2, dl_updated_at := now, dl_delivered_at := None\<rparr>)" for ps
    using find_updated_log [OF find_updated_log [of "dj_webhookId j" "dj_eventId j" "w\<lparr>posts := ps\<rparr>" d now DFailed "Some 500" None], of now DFailed "Some 500" None] assms(1)
    by simp
  with assms show ?thesis
    by (simp add: webhookDeliveryWorkerJob_def delivery_rest_def delivery_attempt_def deliverWebhook_def isPrivateIp_def Let_def)
qed

lemma webhook_isEnabled_frame [simp]:
  "webhook_subscriptions (snd (isEnabled env p now g k w)) = webhook_subscriptions w"
  "posts (snd (isEnabled env p now g k w)) = posts w"
  "webhook_delivery_log (snd (isEnabled env p now g k w)) = webhook_delivery_log w"
  by (simp_all add: isEnabled_def set_l1_def Let_def split: option.split prod.split)

lemma service_create_stores:
  assumes "webhook_service_create n sc env p now g u url evs w = (Inr (h, secret), w1)"
  shows "\<exists>iv h0. webhook_subscriptions w1 = webhook_subscriptions w @ [h0] \<and> wh_id h0 = wh_id h \<and> wh_org_id h0 = g \<and>
    wh_url h0 = url \<and> wh_is_active h0 \<and> webhook_live h0 \<and> wh_secret_encrypted h0 = encrypt (sc_aes sc) (sc_iv sc iv) secret \<and>
    posts w1 = posts w \<and> webhook_delivery_log w1 = webhook_delivery_log w"
proof -
  obtain b w0 where e: "isEnabled env p now g ''feature.webhooks'' w = (b, w0)" by fastforce
  then have f: "webhook_subscriptions w0 = webhook_subscriptions w" "posts w0 = posts w" "webhook_delivery_log w0 = webhook_delivery_log w"
    using webhook_isEnabled_frame [of env p now g "''feature.webhooks''" w] by simp_all
  show ?thesis
    using assms by (cases b) (auto simp: webhook_service_create_def e f webhook_create_def draw_def Let_def webhook_live_def split: if_splits)
qed

text \<open>Signatures: the first delivery to a webhook that was just created is signed with the secret that was
  handed out at its creation.\<close>

theorem webhook_signed_with_secret:
  assumes "\<And>iv p c t. list_all (\<lambda>x. x < 256) p \<Longrightarrow> gcm_encrypt (sc_aes sc) iv p = (c, t) \<Longrightarrow> gcm_decrypt (sc_aes sc) iv c t = Some p"
    and "\<And>iv p c t. list_all (\<lambda>x. x < 256) p \<Longrightarrow> gcm_encrypt (sc_aes sc) iv p = (c, t) \<Longrightarrow> list_all (\<lambda>x. x < 256) (c @ t)"
    and "\<And>r. list_all (\<lambda>x. x < 256) (sc_iv sc r)"
    and "webhook_service_create n0 sc env p now g u url evs w = (Inr (h, secret), w1)"
    and "wh_id h \<notin> wh_id ` set (webhook_subscriptions w)" and "findDeliveryLog (wh_id h) (dj_eventId j) w1 = None"
    and "net_url n url = Some x" and "net_lookup n (u_hostname x) = Some a" and "net_range n a = Some ''unicast''"
    and "dj_webhookId j = wh_id h" and "dj_orgId j = g"
  shows "\<exists>q. posts (snd (webhookDeliveryWorkerJob n sc now' j w1)) = posts w1 @ [q] \<and> po_body q = dj_payload j \<and>
    map_of (po_headers q) ''X-Webhook-Signature'' = Some (''sha256='' @ sc_hmac sc (sc_json sc (dj_payload j)) secret)"
proof -
  obtain iv h0 where h0: "webhook_subscriptions w1 = webhook_subscriptions w @ [h0]" "wh_id h0 = wh_id h" "wh_org_id h0 = g"
    "wh_url h0 = url" "wh_is_active h0" "webhook_live h0" "wh_secret_encrypted h0 = encrypt (sc_aes sc) (sc_iv sc iv) secret"
    using service_create_stores [OF assms(4)] by blast
  have "\<exists>d w2. createDeliveryLog now' (wh_id h) g (dj_eventId j) (dj_eventType j) w1 = (Inr d, w2)"
    using assms(6) by (simp add: createDeliveryLog_def draw_def Let_def)
  then obtain d w2 where c: "createDeliveryLog now' (wh_id h) g (dj_eventId j) (dj_eventType j) w1 = (Inr d, w2)" by blast
  note fr = createDeliveryLog_frame [OF c]
  have "List.find (\<lambda>h'. wh_id h' = wh_id h \<and> wh_org_id h' = g \<and> webhook_live h') (webhook_subscriptions w) = None"
    using assms(5) by (auto simp: find_None_iff image_iff)
  then have f: "webhook_findById (wh_id h) g w2 = Some h0"
    using h0 fr by (simp add: webhook_findById_def find_append)
  have "decrypt (sc_aes sc) (wh_secret_encrypted h0) = Inr secret"
    unfolding h0(7) by (rule decrypt_encrypt [OF assms(1,2,3)])
  with assms(6-11) c f h0(4,5) fr show ?thesis
    by (auto simp: webhookDeliveryWorkerJob_def delivery_rest_def delivery_attempt_def deliverWebhook_def isPrivateIp_def
        Let_def split: sum.split)
qed

section \<open>Example\<close>

definition ex_net :: "nat \<Rightarrow> net" where
  "ex_net status = \<lparr>net_url = (\<lambda>s. Some \<lparr>u_protocol = ''https:'', u_hostname = ''h.example'', u_pathname = ''/p'', u_search = ''''\<rparr>),
     net_lookup = (\<lambda>_. Some ''93.184.216.34''), net_range = (\<lambda>_. Some ''unicast''), net_post = (\<lambda>_. Inr status)\<rparr>"

definition ex_secrets :: secrets where
  "ex_secrets = \<lparr>sc_aes = ex_gcm, sc_iv = (\<lambda>_. [1, 2, 3]), sc_bcrypt = rev, sc_hmac = (\<lambda>m k. k @ m), sc_json = (\<lambda>_. ''j'')\<rparr>"

definition ex_hook0 :: webhook_db where
  "ex_hook0 = flag_db.extend (snd (createFlag True 0 0 ''feature.webhooks'' (Some True) None None None ex_flag_db))
     \<lparr>webhook_subscriptions = [], webhook_delivery_log = [], posts = []\<rparr>"

definition ex_delivery :: delivery_job where
  "ex_delivery = \<lparr>dj_webhookId = ''aaa'', dj_orgId = ''g'', dj_eventId = ''e1'', dj_eventType = ''task.created'', dj_payload = JNull\<rparr>"

lemma ex_hook_create:
  "\<exists>h w1. webhook_service_create (ex_net 200) ex_secrets ex_flag_env 0 9000 ''g'' ''u'' ''https://h.example/p'' [''task.created''] ex_hook0 =
     (Inr (h, ''a''), w1) \<and> wh_id h = ''aaa'' \<and> webhook_delivery_log w1 = [] \<and> posts w1 = []"
  by (simp add: webhook_service_create_def ex_hook0_def flag_db.extend_def createFlag_def ex_flag_db_def invalidateFlag_def draw_def Let_def
      redis_publish_def clear_l1_def isEnabled_def ex_flag_env_def resolve_row_def resolveFlag_def isPrivateOrBlockedUrl_def ex_net_def
      webhook_create_def set_l1_def numeral_eq_Suc)

theorem webhook_signed_with_secret_witness:
  "\<exists>h w1 q. webhook_service_create (ex_net 200) ex_secrets ex_flag_env 0 9000 ''g'' ''u'' ''https://h.example/p'' [''task.created''] ex_hook0 =
     (Inr (h, ''a''), w1) \<and> posts (snd (webhookDeliveryWorkerJob (ex_net 200) ex_secrets 9001 ex_delivery w1)) = posts w1 @ [q] \<and>
     map_of (po_headers q) ''X-Webhook-Signature'' = Some ''sha256=aj''"
proof -
  obtain h w1 where c: "webhook_service_create (ex_net 200) ex_secrets ex_flag_env 0 9000 ''g'' ''u'' ''https://h.example/p'' [''task.created''] ex_hook0 =
      (Inr (h, ''a''), w1)" "wh_id h = ''aaa''" "webhook_delivery_log w1 = []" using ex_hook_create by blast
  have s: "sc_aes ex_secrets = ex_gcm" "\<And>r. list_all (\<lambda>x. x < 256) (sc_iv ex_secrets r)" by (simp_all add: ex_secrets_def)
  have e: "wh_id h \<notin> wh_id ` set (webhook_subscriptions ex_hook0)" "findDeliveryLog (wh_id h) (dj_eventId ex_delivery) w1 = None"
    "dj_webhookId ex_delivery = wh_id h" "dj_orgId ex_delivery = ''g''"
    using c(2,3) by (simp_all add: ex_hook0_def flag_db.extend_def findDeliveryLog_def ex_delivery_def)
  have n: "net_url (ex_net 200) ''https://h.example/p'' = Some \<lparr>u_protocol = ''https:'', u_hostname = ''h.example'', u_pathname = ''/p'', u_search = ''''\<rparr>"
    "net_lookup (ex_net 200) x = Some ''93.184.216.34''" "net_range (ex_net 200) y = Some ''unicast''" for x y
    by (simp_all add: ex_net_def)
  have "\<exists>q. posts (snd (webhookDeliveryWorkerJob (ex_net 200) ex_secrets 9001 ex_delivery w1)) = posts w1 @ [q] \<and>
      po_body q = dj_payload ex_delivery \<and> map_of (po_headers q) ''X-Webhook-Signature'' =
        Some (''sha256='' @ sc_hmac ex_secrets (sc_json ex_secrets (dj_payload ex_delivery)) ''a'')"
    by (rule webhook_signed_with_secret [OF _ _ s(2) c(1) e(1,2) n e(3,4)])
       (unfold s(1), rule ex_gcm_laws(1), assumption, assumption, rule ex_gcm_laws(2))
  with c(1) show ?thesis by (auto simp: ex_secrets_def)
qed


end
