(* ===== verification/Resource_Api.thy ===== *)
theory Resource_Api
  imports Http Admin_Api Workspace File Webhook
begin

text \<open>
  The routers of workspaces, files and webhooks with their schemas and casts
  (\<^verbatim>\<open>src/modules/workspace/workspace.router.ts\<close>, \<^verbatim>\<open>src/modules/file/file.router.ts\<close>,
  \<^verbatim>\<open>src/modules/webhook/webhook.router.ts\<close>), and what a request may do to the rows of other
  organizations.
\<close>

section \<open>Workspaces\<close>

definition createWorkspaceFields :: "(string \<times> schema) list" where
  "createWorkspaceFields = [(''name'', ZString [Min 1, Max 255]), (''description'', ZOptional (ZNullable (ZString [Max 1000])))]"

definition WORKSPACE_STATUS_NAMES :: "(string \<times> workspace_status) list" where
  "WORKSPACE_STATUS_NAMES = [(''active'', WsActive), (''archived'', WsArchived)]"

definition updateWorkspaceFields :: "(string \<times> schema) list" where
  "updateWorkspaceFields =
     [(''name'', ZOptional (ZString [Min 1, Max 255])), (''description'', ZOptional (ZNullable (ZString [Max 1000]))),
      (''status'', ZOptional (ZEnum [''active'', ''archived''])), (''version'', ZInt (Some 1) None)]"

definition decode_create_workspace :: "uuid \<Rightarrow> uuid \<Rightarrow> json \<Rightarrow> create_workspace_data option" where
  "decode_create_workspace orgId userId d = do {
     name \<leftarrow> required as_str ''name'' d;
     desc \<leftarrow> nullish_field as_str ''description'' d;
     Some \<lparr>cw_org_id = orgId, cw_name = name, cw_description = desc, cw_owner_user_id = userId\<rparr> }"

definition decode_update_workspace :: "json \<Rightarrow> (update_workspace_data \<times> int) option" where
  "decode_update_workspace d = do {
     name \<leftarrow> optional as_str ''name'' d;
     desc \<leftarrow> optional (as_nullable as_str) ''description'' d;
     st \<leftarrow> optional (as_enum WORKSPACE_STATUS_NAMES) ''status'' d;
     version \<leftarrow> required as_int ''version'' d;
     Some (\<lparr>uw_name = name, uw_description = desc, uw_status = st\<rparr>, version) }"

definition workspace_json :: "workspace \<Rightarrow> json" where
  "workspace_json r = JObj
     [(''id'', JStr (ws_id r)), (''org_id'', JStr (ws_org_id r)), (''name'', JStr (ws_name r)), (''description'', json_opt (ws_description r)),
      (''status'', JStr (if ws_status r = WsActive then ''active'' else ''archived'')), (''owner_user_id'', JStr (ws_owner_user_id r)),
      (''deleted_at'', case_option JNull JNum (ws_deleted_at r)), (''created_at'', JNum (ws_created_at r)),
      (''updated_at'', JNum (ws_updated_at r)), (''version'', JNum (ws_version r))]"

definition create_workspace_handler :: "http_env \<Rightarrow> 'a work_db_scheme handler" where
  "create_workspace_handler env params rq meta u c =
     validate (he_safeParse env) (ZObject createWorkspaceFields) (rq_body rq) (\<lambda>d.
       cast_to (decode_create_workspace (oc_orgId c) (ru_userId u)) d (\<lambda>input w.
         (case createWorkspace (he_now env) (ru_userId u) input w of (r, w') \<Rightarrow> (res_created meta (workspace_json r), w'))))"

definition list_workspaces_handler :: "'a work_db_scheme handler" where
  "list_workspaces_handler params rq meta u c w =
     (res_success meta (JArr (map workspace_json (listWorkspaces (oc_orgId c) w))), w)"

definition get_workspace_handler :: "http_env \<Rightarrow> 'a work_db_scheme handler" where
  "get_workspace_handler env params rq meta u c w =
     answer_with (\<lambda>r. res_success meta (workspace_json r))
       (with_uuid env (params ''workspaceId'') no_checks (read_only (getWorkspace (oc_orgId c) (params ''workspaceId''))) w)"

definition update_workspace_handler :: "http_env \<Rightarrow> 'a work_db_scheme handler" where
  "update_workspace_handler env params rq meta u c =
     validate (he_safeParse env) (ZObject updateWorkspaceFields) (rq_body rq) (\<lambda>d.
       cast_to decode_update_workspace d (\<lambda>(dta, version) w.
         answer_with (\<lambda>r. res_success meta (workspace_json r))
           (with_uuid env (params ''workspaceId'') no_checks
              (updateWorkspace (he_now env) (oc_orgId c) (params ''workspaceId'') dta version (ru_userId u)) w)))"

definition delete_workspace_handler :: "http_env \<Rightarrow> 'a work_db_scheme handler" where
  "delete_workspace_handler env params rq meta u c w =
     answer_with (\<lambda>_. res_success meta (done_json ''deleted''))
       (with_uuid env (params ''workspaceId'') no_checks
          (deleteWorkspace (he_now env) (oc_orgId c) (params ''workspaceId'') (ru_userId u)) w)"

definition workspace_routes :: "http_env \<Rightarrow> 'a work_db_scheme route list" where
  "workspace_routes env =
     [mk_route ''POST'' ''/orgs/:orgId/workspaces'' True (create_workspace_handler env),
      mk_route ''GET'' ''/orgs/:orgId/workspaces'' False list_workspaces_handler,
      mk_route ''GET'' ''/orgs/:orgId/workspaces/:workspaceId'' False (get_workspace_handler env),
      mk_route ''PATCH'' ''/orgs/:orgId/workspaces/:workspaceId'' False (update_workspace_handler env),
      mk_route ''DELETE'' ''/orgs/:orgId/workspaces/:workspaceId'' False (delete_workspace_handler env)]"

section \<open>Files\<close>

definition upload_fields :: "(string \<times> schema) list" where
  "upload_fields = [(''filename'', ZString [Min 1, Max 255]), (''mimeType'', ZString [Min 1]), (''sizeBytes'', ZInt (Some 1) None)]"

definition file_page_fields :: "(string \<times> schema) list" where
  "file_page_fields =
     [(''limit'', ZDefault (ZCoerceInt (Some 1) (Some 100)) (JNum 20)), (''offset'', ZDefault (ZCoerceInt (Some 0) None) (JNum 0))]"

definition decode_upload :: "json \<Rightarrow> (string \<times> string \<times> int) option" where
  "decode_upload d = do {
     filename \<leftarrow> required as_str ''filename'' d;
     mimeType \<leftarrow> required as_str ''mimeType'' d;
     sizeBytes \<leftarrow> required as_int ''sizeBytes'' d;
     Some (filename, mimeType, sizeBytes) }"

text \<open>The size is a \<^verbatim>\<open>BIGINT\<close>, which the driver reads as a text.\<close>

definition file_json :: "file_row \<Rightarrow> json" where
  "file_json f = JObj
     [(''id'', JStr (f_id f)), (''org_id'', JStr (f_org_id f)), (''uploader_id'', JStr (f_uploader_id f)), (''filename'', JStr (f_filename f)),
      (''storage_key'', JStr (f_storage_key f)), (''mime_type'', JStr (f_mime_type f)), (''size_bytes'', JStr (show_nat (nat (f_size_bytes f)))),
      (''status'', JStr (case f_status f of FPending \<Rightarrow> ''pending'' | FConfirmed \<Rightarrow> ''confirmed'' | FQuarantined \<Rightarrow> ''quarantined'' | FDeleted \<Rightarrow> ''deleted'')),
      (''scan_status'', JStr (case f_scan_status f of ScanPending \<Rightarrow> ''pending'' | ScanClean \<Rightarrow> ''clean'' | ScanInfected \<Rightarrow> ''infected'')),
      (''scan_completed_at'', case_option JNull JNum (f_scan_completed_at f)), (''created_at'', JNum (f_created_at f)),
      (''deleted_at'', case_option JNull JNum (f_deleted_at f))]"

text \<open>What the storage provider answers: the specification of an upload, of which the handler passes on the
  URL, the fields of the form and the expiry, and the URL of a download.\<close>

record storage_api =
  st_upload :: "string \<Rightarrow> string \<Rightarrow> int \<Rightarrow> string outcome"
  st_fields :: "string \<Rightarrow> json"
  st_expires :: "string \<Rightarrow> json"
  st_download :: "string \<Rightarrow> int \<Rightarrow> string outcome"

text \<open>The route does not pass the plan of the organization, so the limit is always that of the free plan.\<close>

definition upload_url_handler :: "storage_api \<Rightarrow> http_env \<Rightarrow> 'a file_db_scheme handler" where
  "upload_url_handler st env params rq meta u c =
     validate (he_safeParse env) (ZObject upload_fields) (rq_body rq) (\<lambda>d. cast_to decode_upload d (\<lambda>(filename, mimeType, sizeBytes) w.
       answer_with (\<lambda>(i, url). res_created meta (JObj [(''fileId'', JStr i), (''uploadUrl'', JStr url), (''uploadFields'', st_fields st url),
             (''expiresAt'', st_expires st url)]))
         (requestUploadUrl (st_upload st) (he_now env) (oc_orgId c) (ru_userId u) filename mimeType sizeBytes ''free'' w)))"

definition download_url_handler :: "storage_api \<Rightarrow> http_env \<Rightarrow> 'a file_db_scheme handler" where
  "download_url_handler st env params rq meta u c w =
     answer_with (\<lambda>r. case r of
         None \<Rightarrow> (202, JObj [(''message'', JStr ''File scan in progress, please retry later'')])
       | Some url \<Rightarrow> res_success meta (JObj [(''url'', JStr url)]))
       (with_uuid env (params ''fileId'') no_checks
          (read_only (generateDownloadUrl (st_download st) (oc_orgId c) (params ''fileId''))) w)"

definition list_files_handler :: "http_env \<Rightarrow> 'a file_db_scheme handler" where
  "list_files_handler env params rq meta u c =
     validate (he_safeParse env) (ZObject file_page_fields) (rq_query rq) (\<lambda>d. cast_to decode_limit_offset d (\<lambda>(n, m) w.
       answer_with (\<lambda>fs. res_success meta (JArr (map file_json fs))) (read_only (\<lambda>w. Inr (listFiles (oc_orgId c) n m w)) w)))"

definition get_file_handler :: "http_env \<Rightarrow> 'a file_db_scheme handler" where
  "get_file_handler env params rq meta u c w =
     answer_with (\<lambda>f. res_success meta (file_json f))
       (with_uuid env (params ''fileId'') no_checks (read_only (getFile (oc_orgId c) (params ''fileId''))) w)"

definition file_routes :: "storage_api \<Rightarrow> http_env \<Rightarrow> 'a file_db_scheme route list" where
  "file_routes st env =
     [mk_route ''POST'' ''/orgs/:orgId/files/upload-url'' False (upload_url_handler st env),
      mk_route ''GET'' ''/orgs/:orgId/files/:fileId/download-url'' False (download_url_handler st env),
      mk_route ''GET'' ''/orgs/:orgId/files'' False (list_files_handler env),
      mk_route ''GET'' ''/orgs/:orgId/files/:fileId'' False (get_file_handler env)]"

section \<open>Webhooks\<close>

definition SUPPORTED_EVENTS :: "string list" where
  "SUPPORTED_EVENTS = [''task.created'', ''task.updated'', ''task.deleted'', ''message.created'', ''file.confirmed'', ''payment.captured'',
     ''payment.failed'', ''member.invited'', ''member.removed'']"

definition webhook_fields :: "(string \<times> schema) list" where
  "webhook_fields = [(''url'', ZString [Url]), (''events'', ZArray (ZEnum SUPPORTED_EVENTS) (Some 1) None)]"

definition decode_webhook :: "json \<Rightarrow> (string \<times> string list) option" where
  "decode_webhook d = do {
     url \<leftarrow> required as_str ''url'' d;
     events \<leftarrow> required (as_list as_str) ''events'' d;
     Some (url, events) }"

text \<open>The list shows every column of a webhook; the answer to its creation leaves the two columns of the secret out.\<close>

definition webhook_json :: "bool \<Rightarrow> webhook \<Rightarrow> json" where
  "webhook_json all h = JObj (
     [(''id'', JStr (wh_id h)), (''org_id'', JStr (wh_org_id h)), (''url'', JStr (wh_url h))] @
     (if all then [(''secret_hash'', JStr (wh_secret_hash h)), (''secret_encrypted'', JStr (wh_secret_encrypted h))] else []) @
     [(''secret_preview'', JStr (wh_secret_preview h)), (''secret_key_version'', JNum (wh_secret_key_version h)),
      (''event_types'', JArr (map JStr (wh_event_types h))), (''is_active'', JBool (wh_is_active h)), (''created_by'', JStr (wh_created_by h)),
      (''created_at'', JNum (wh_created_at h)), (''updated_at'', JNum (wh_updated_at h)), (''deleted_at'', case_option JNull JNum (wh_deleted_at h))])"

text \<open>\<^verbatim>\<open>requireRole\<close> runs before the schema.\<close>

definition with_role :: "string list \<Rightarrow> 'w handler \<Rightarrow> 'w handler" where
  "with_role roles h params rq meta u c w =
     (case requireRole roles (Some c) of Inl e \<Rightarrow> (error_answer e, w) | Inr _ \<Rightarrow> h params rq meta u c w)"

definition create_webhook_handler :: "net \<Rightarrow> secrets \<Rightarrow> flag_env \<Rightarrow> nat \<Rightarrow> http_env \<Rightarrow> 'a webhook_db_scheme handler" where
  "create_webhook_handler n sc fenv p env params rq meta u c =
     validate (he_safeParse env) (ZObject webhook_fields) (rq_body rq) (\<lambda>d. cast_to decode_webhook d (\<lambda>(url, events) w.
       answer_with (\<lambda>(h, secret). res_created meta (JObj [(''webhook'', webhook_json False h), (''secret'', JStr secret)]))
         (webhook_service_create n sc fenv p (he_now env) (oc_orgId c) (ru_userId u) url events w)))"

definition delete_webhook_handler :: "http_env \<Rightarrow> 'a webhook_db_scheme handler" where
  "delete_webhook_handler env params rq meta u c w =
     answer_with (\<lambda>_. res_success meta (done_json ''deleted''))
       (with_uuid env (params ''webhookId'') no_checks (webhook_remove (he_now env) (oc_orgId c) (params ''webhookId'')) w)"

definition rotate_secret_handler :: "secrets \<Rightarrow> http_env \<Rightarrow> 'a webhook_db_scheme handler" where
  "rotate_secret_handler sc env params rq meta u c w =
     answer_with (\<lambda>secret. res_success meta (JObj [(''secret'', JStr secret)]))
       (with_uuid env (params ''webhookId'') no_checks (rotateSecret sc (he_now env) (oc_orgId c) (params ''webhookId'')) w)"

definition list_webhooks_handler :: "'a webhook_db_scheme handler" where
  "list_webhooks_handler params rq meta u c w =
     (res_success meta (JArr (map (webhook_json True) (webhook_listByOrg (oc_orgId c) w))), w)"

definition WEBHOOK_ROLES :: "string list" where
  "WEBHOOK_ROLES = [''org_owner'', ''org_admin'']"

definition webhook_routes :: "net \<Rightarrow> secrets \<Rightarrow> flag_env \<Rightarrow> nat \<Rightarrow> http_env \<Rightarrow> 'a webhook_db_scheme route list" where
  "webhook_routes n sc fenv p env =
     [mk_route ''POST'' ''/orgs/:orgId/webhooks'' False (with_role WEBHOOK_ROLES (create_webhook_handler n sc fenv p env)),
      mk_route ''GET'' ''/orgs/:orgId/webhooks'' False list_webhooks_handler,
      mk_route ''DELETE'' ''/orgs/:orgId/webhooks/:webhookId'' False (with_role WEBHOOK_ROLES (delete_webhook_handler env)),
      mk_route ''POST'' ''/orgs/:orgId/webhooks/:webhookId/rotate-secret'' False (with_role WEBHOOK_ROLES (rotate_secret_handler sc env))]"

section \<open>Rows of a tenant\<close>

text \<open>Who sent a request: the active membership of its authenticated user in the organization it names.\<close>

definition caller :: "http_env \<Rightarrow> http_request \<Rightarrow> 'a dir_scheme \<Rightarrow> membership \<Rightarrow> bool" where
  "caller env rq w m =
     (m \<in> set (org_memberships w) \<and> m_status m = MActive \<and> m_deleted_at m = None \<and> rq_org_id rq = Some (m_org_id m) \<and>
      (case fst (authenticate (he_crypto env) (he_keys env) (he_redis_up env) (he_now env) (rq_authorization rq) w) of
         Inl _ \<Rightarrow> False
       | Inr u \<Rightarrow> ru_userId u = m_user_id m \<and> (ru_isPlatformAdmin u \<or> ru_orgId u = m_org_id m)))"

lemma orgMiddleware_caller:
  assumes "orgMiddleware (he_crypto env) (he_keys env) (he_redis_up env) (he_now env) (request.truncate rq) (w\<lparr>drawn := n\<rparr>) = (Inr (u, c), w')"
    and "\<And>i g. redis w (session_key i g) = None"
  shows "\<exists>m. caller env rq w m \<and> m_org_id m = oc_orgId c \<and> m_user_id m = ru_userId u \<and> oc_memberRole c = role_name (m_role m)"
proof -
  have r: "\<And>i g. redis (w\<lparr>drawn := n\<rparr>) (session_key i g) = None" using assms(2) by simp
  obtain w2 where "authenticate (he_crypto env) (he_keys env) (he_redis_up env) (he_now env) (rq_authorization rq) (w\<lparr>drawn := n\<rparr>) = (Inr u, w2)"
    using orgMiddleware_Inr [OF assms(1)] by (auto simp: request.truncate_def)
  then have "fst (authenticate (he_crypto env) (he_keys env) (he_redis_up env) (he_now env) (rq_authorization rq) w) = Inr u"
    using authenticate_drawn [of "he_crypto env" "he_keys env" "he_redis_up env" "he_now env" "rq_authorization rq" n w] by simp
  with orgMiddleware_member [OF assms(1) r] show ?thesis
    by (fastforce simp: caller_def request.truncate_def)
qed

text \<open>
  What a router promises of a table: a handler leaves it as it is, or the role of the caller allows the
  change and only rows that belong to the caller's key change; the key is the organization, or the
  organization and the user.  Then this holds of every request.
\<close>

locale tenant_rows =
  fixes routes :: "http_env \<Rightarrow> 'a dir_scheme route list"
    and rows :: "'a dir_scheme \<Rightarrow> 'r list"
    and owner :: "'r \<Rightarrow> 'k"
    and key :: "uuid \<Rightarrow> uuid \<Rightarrow> 'k"
    and may :: "string \<Rightarrow> bool"
    and inv :: "'a dir_scheme \<Rightarrow> bool"
  assumes rows_frame: "rows (w\<lparr>drawn := n, redis := f\<rparr>) = rows w"
    and inv_frame: "inv w \<Longrightarrow> inv (w\<lparr>drawn := n, redis := f\<rparr>)"
    and handler: "r \<in> set (routes env) \<Longrightarrow> inv w \<Longrightarrow>
      rows (snd (ro_handler r params rq meta u c w)) = rows w \<or>
      (may (oc_memberRole c) \<and>
       filter (\<lambda>x. owner x \<noteq> key (oc_orgId c) (ru_userId u)) (rows (snd (ro_handler r params rq meta u c w))) =
       filter (\<lambda>x. owner x \<noteq> key (oc_orgId c) (ru_userId u)) (rows w))"
begin

lemma only_own:
  assumes "serve env (routes env) rq (ks, w) = (a, ks', w')" and "inv w" and "\<And>i g. redis w (session_key i g) = None"
  shows "rows w' = rows w \<or>
    (\<exists>m. caller env rq w m \<and> may (role_name (m_role m)) \<and>
       filter (\<lambda>x. owner x \<noteq> key (m_org_id m) (m_user_id m)) (rows w') =
       filter (\<lambda>x. owner x \<noteq> key (m_org_id m) (m_user_id m)) (rows w))"
  using assms(1)
proof (cases rule: serve_cases)
  case (no_handler n f)
  then show ?thesis by (simp add: rows_frame)
next
  case (handled n f r params meta u c x)
  from orgMiddleware_caller [OF handled(4) assms(3)] obtain m where
    m: "caller env rq w m" "m_org_id m = oc_orgId c" "m_user_id m = ru_userId u" "oc_memberRole c = role_name (m_role m)" by blast
  from handler [OF handled(2) inv_frame [OF assms(2), where n = n and f = f], where params = params and rq = rq and meta = meta and u = u and c = c] handled(5) m show ?thesis
    by (auto simp: rows_frame)
qed

end

lemma snd_with_role: "snd (with_role roles h params rq meta u c w) = w \<or>
    (oc_memberRole c \<in> set roles \<and> snd (with_role roles h params rq meta u c w) = snd (h params rq meta u c w))"
  by (auto simp: with_role_def requireRole_def split: sum.splits if_splits)

text \<open>The state after a validated and cast body is that of the continuation or the old one.\<close>

lemma snd_validate_cases:
  "snd (validate sp s j (\<lambda>d. cast_to f d k) w) = w \<or> (\<exists>i. snd (validate sp s j (\<lambda>d. cast_to f d k) w) = snd (k i w))"
  by (auto simp: validate_def cast_to_def split: option.splits)

lemma snd_with_uuid_cases: "snd (with_uuid env p ch k w) = w \<or> snd (with_uuid env p ch k w) = snd (k w)"
  by (auto simp: with_uuid_def split: sum.splits)

section \<open>Workspaces belong to their organization\<close>

lemma createWorkspace_elsewhere:
  "cw_org_id d = g \<Longrightarrow> filter (\<lambda>r. ws_org_id r \<noteq> g) (workspaces (snd (createWorkspace now u d w))) = filter (\<lambda>r. ws_org_id r \<noteq> g) (workspaces w)"
  by (simp add: createWorkspace_def ws_create_def new_workspace_def Let_def split_def)

lemma updateWorkspace_elsewhere:
  "filter (\<lambda>r. ws_org_id r \<noteq> g) (workspaces (snd (updateWorkspace now g i d v u w))) = filter (\<lambda>r. ws_org_id r \<noteq> g) (workspaces w)"
  by (auto simp: updateWorkspace_def ws_update_def ws_at_def split: option.splits prod.splits intro!: filter_update_where_same)

lemma deleteWorkspace_elsewhere:
  "filter (\<lambda>r. ws_org_id r \<noteq> g) (workspaces (snd (deleteWorkspace now g i u w))) = filter (\<lambda>r. ws_org_id r \<noteq> g) (workspaces w)"
  "filter (\<lambda>t. t_org_id t \<noteq> g) (tasks (snd (deleteWorkspace now g i u w))) = filter (\<lambda>t. t_org_id t \<noteq> g) (tasks w)"
  by (auto simp: deleteWorkspace_def ws_cascadeSoftDelete_def ws_bury_def task_bury_def Let_def split: option.splits intro!: filter_update_where_same)

lemma workspace_services_tasks:
  "tasks (snd (createWorkspace now u d w)) = tasks w" "tasks (snd (updateWorkspace now g i ud v u w)) = tasks w"
  by (auto simp: createWorkspace_def ws_create_def updateWorkspace_def ws_update_def draw_def Let_def split: option.splits prod.splits)

lemma create_workspace_cases:
  "snd (create_workspace_handler env params rq meta u c w) = w \<or>
   (\<exists>d. cw_org_id d = oc_orgId c \<and>
      snd (create_workspace_handler env params rq meta u c w) = snd (createWorkspace (he_now env) (ru_userId u) d w))"
proof -
  have "cw_org_id d = oc_orgId c" if "decode_create_workspace (oc_orgId c) (ru_userId u) j = Some d" for j d
    using that by (auto simp: decode_create_workspace_def split: bind_splits)
  then show ?thesis by (auto simp: create_workspace_handler_def validate_def cast_to_def split_def split: option.splits)
qed

lemma update_workspace_cases:
  "snd (update_workspace_handler env params rq meta u c w) = w \<or>
   (\<exists>d v. snd (update_workspace_handler env params rq meta u c w) =
      snd (updateWorkspace (he_now env) (oc_orgId c) (params ''workspaceId'') d v (ru_userId u) w))"
  by (auto simp: update_workspace_handler_def validate_def cast_to_def with_uuid_def no_checks_def split: option.splits prod.splits)

lemma delete_workspace_cases:
  "snd (delete_workspace_handler env params rq meta u c w) = w \<or>
   snd (delete_workspace_handler env params rq meta u c w) =
      snd (deleteWorkspace (he_now env) (oc_orgId c) (params ''workspaceId'') (ru_userId u) w)"
  by (auto simp: delete_workspace_handler_def with_uuid_def no_checks_def)

lemma workspace_route_cases:
  fixes w :: "'a work_db_scheme"
  assumes "r \<in> set (workspace_routes env)"
  obtains (same) "snd (ro_handler r params rq meta u c w) = w"
  | (create) d where "cw_org_id d = oc_orgId c" "snd (ro_handler r params rq meta u c w) = snd (createWorkspace (he_now env) (ru_userId u) d w)"
  | (update) d v where "snd (ro_handler r params rq meta u c w) =
      snd (updateWorkspace (he_now env) (oc_orgId c) (params ''workspaceId'') d v (ru_userId u) w)"
  | (delete) "snd (ro_handler r params rq meta u c w) =
      snd (deleteWorkspace (he_now env) (oc_orgId c) (params ''workspaceId'') (ru_userId u) w)"
proof -
  from assms consider "ro_handler r = create_workspace_handler env" | "ro_handler r = list_workspaces_handler"
    | "ro_handler r = get_workspace_handler env" | "ro_handler r = update_workspace_handler env" | "ro_handler r = delete_workspace_handler env"
    by (auto simp: workspace_routes_def mk_route_def)
  then show thesis
  proof cases
    case 1
    then show thesis using create_workspace_cases [of env params rq meta u c w] same create by auto
  next
    case 2
    then show thesis using same by (simp add: list_workspaces_handler_def)
  next
    case 3
    then show thesis using same by (simp add: get_workspace_handler_def)
  next
    case 4
    then show thesis using update_workspace_cases [of env params rq meta u c w] same update by auto
  next
    case 5
    then show thesis using delete_workspace_cases [of env params rq meta u c w] same delete by auto
  qed
qed

interpretation ws_rows: tenant_rows workspace_routes "workspaces :: 'a work_db_scheme \<Rightarrow> _" ws_org_id "\<lambda>g _. g" "\<lambda>_. True" "\<lambda>_. True"
proof
  fix r :: "'a work_db_scheme route" and env params rq meta u c and w :: "'a work_db_scheme"
  assume "r \<in> set (workspace_routes env)"
  then show "workspaces (snd (ro_handler r params rq meta u c w)) = workspaces w \<or>
      True \<and> filter (\<lambda>x. ws_org_id x \<noteq> oc_orgId c) (workspaces (snd (ro_handler r params rq meta u c w))) =
        filter (\<lambda>x. ws_org_id x \<noteq> oc_orgId c) (workspaces w)"
    by (cases rule: workspace_route_cases [where params = params and rq = rq and meta = meta and u = u and c = c and w = w])
       (simp_all add: createWorkspace_elsewhere updateWorkspace_elsewhere deleteWorkspace_elsewhere)
qed simp_all

interpretation ws_tasks: tenant_rows workspace_routes "tasks :: 'a work_db_scheme \<Rightarrow> _" t_org_id "\<lambda>g _. g" "\<lambda>_. True" "\<lambda>_. True"
proof
  fix r :: "'a work_db_scheme route" and env params rq meta u c and w :: "'a work_db_scheme"
  assume "r \<in> set (workspace_routes env)"
  then show "tasks (snd (ro_handler r params rq meta u c w)) = tasks w \<or>
      True \<and> filter (\<lambda>x. t_org_id x \<noteq> oc_orgId c) (tasks (snd (ro_handler r params rq meta u c w))) =
        filter (\<lambda>x. t_org_id x \<noteq> oc_orgId c) (tasks w)"
    by (cases rule: workspace_route_cases [where params = params and rq = rq and meta = meta and u = u and c = c and w = w])
       (simp_all add: workspace_services_tasks deleteWorkspace_elsewhere)
qed simp_all

section \<open>Files\<close>

lemma requestUploadUrl_elsewhere:
  "filter (\<lambda>f. f_org_id f \<noteq> g) (files (snd (requestUploadUrl url now g u fn mt sz plan w))) = filter (\<lambda>f. f_org_id f \<noteq> g) (files w)"
  by (auto simp: requestUploadUrl_def withTransaction_def upload_tx_def reserve_quota_def file_create_def new_file_def and_then_def draw_def Let_def
      split: sum.splits prod.splits if_splits bool.splits)

lemma file_route_cases:
  fixes w :: "'a file_db_scheme"
  assumes "r \<in> set (file_routes st env)"
  obtains (same) "snd (ro_handler r params rq meta u c w) = w"
  | (upload) d fn mt sz where "he_safeParse env (ZObject upload_fields) (rq_body rq) = Some d" "decode_upload d = Some (fn, mt, sz)"
      "snd (ro_handler r params rq meta u c w) = snd (requestUploadUrl (st_upload st) (he_now env) (oc_orgId c) (ru_userId u) fn mt sz ''free'' w)"
proof -
  from assms consider "ro_handler r = upload_url_handler st env" | "ro_handler r = download_url_handler st env"
    | "ro_handler r = list_files_handler env" | "ro_handler r = get_file_handler env"
    by (auto simp: file_routes_def mk_route_def)
  then show thesis
  proof cases
    case 1
    then show thesis using same upload
      by (cases "he_safeParse env (ZObject upload_fields) (rq_body rq)"; cases "decode_upload (the (he_safeParse env (ZObject upload_fields) (rq_body rq)))")
         (auto simp: upload_url_handler_def validate_def cast_to_def)
  next
    case 3
    then show thesis using same by (auto simp: list_files_handler_def validate_def cast_to_def read_only_def split: option.splits)
  qed (simp_all add: same download_url_handler_def get_file_handler_def)
qed

interpretation file_rows: tenant_rows "file_routes st" "files :: 'a file_db_scheme \<Rightarrow> _" f_org_id "\<lambda>g _. g" "\<lambda>_. True" "\<lambda>_. True" for st
proof
  fix r :: "'a file_db_scheme route" and env params rq meta u c and w :: "'a file_db_scheme"
  assume "r \<in> set (file_routes st env)"
  then show "files (snd (ro_handler r params rq meta u c w)) = files w \<or>
      True \<and> filter (\<lambda>x. f_org_id x \<noteq> oc_orgId c) (files (snd (ro_handler r params rq meta u c w))) =
        filter (\<lambda>x. f_org_id x \<noteq> oc_orgId c) (files w)"
    by (cases rule: file_route_cases [where params = params and rq = rq and meta = meta and u = u and c = c and w = w])
       (simp_all add: requestUploadUrl_elsewhere)
qed simp_all

section \<open>Webhooks\<close>

lemma isEnabled_webhooks:
  "isEnabled env p now g k w = (b, w') \<Longrightarrow> webhook_subscriptions w' = webhook_subscriptions w"
  by (auto simp: isEnabled_def set_l1_def Let_def split: option.splits if_splits prod.splits)

lemma webhook_services_elsewhere:
  "filter (\<lambda>h. wh_org_id h \<noteq> g) (webhook_subscriptions (snd (webhook_service_create n sc env p now g u url ev w))) =
     filter (\<lambda>h. wh_org_id h \<noteq> g) (webhook_subscriptions w)"
  "filter (\<lambda>h. wh_org_id h \<noteq> g) (webhook_subscriptions (snd (webhook_remove now g i w))) = filter (\<lambda>h. wh_org_id h \<noteq> g) (webhook_subscriptions w)"
  "filter (\<lambda>h. wh_org_id h \<noteq> g) (webhook_subscriptions (snd (rotateSecret sc now g i w))) = filter (\<lambda>h. wh_org_id h \<noteq> g) (webhook_subscriptions w)"
proof -
  show "filter (\<lambda>h. wh_org_id h \<noteq> g) (webhook_subscriptions (snd (webhook_service_create n sc env p now g u url ev w))) =
     filter (\<lambda>h. wh_org_id h \<noteq> g) (webhook_subscriptions w)"
    by (auto simp: webhook_service_create_def webhook_create_def draw_def Let_def split: prod.splits bool.splits dest: isEnabled_webhooks)
  show "filter (\<lambda>h. wh_org_id h \<noteq> g) (webhook_subscriptions (snd (webhook_remove now g i w))) = filter (\<lambda>h. wh_org_id h \<noteq> g) (webhook_subscriptions w)"
    by (auto simp: webhook_remove_def webhook_softDelete_def split: option.splits intro!: filter_update_where_same)
  show "filter (\<lambda>h. wh_org_id h \<noteq> g) (webhook_subscriptions (snd (rotateSecret sc now g i w))) = filter (\<lambda>h. wh_org_id h \<noteq> g) (webhook_subscriptions w)"
    by (auto simp: rotateSecret_def updateSecret_def draw_def Let_def split: option.splits intro!: filter_update_where_same)
qed

lemma webhook_handlers_elsewhere:
  fixes w :: "'a webhook_db_scheme"
  defines "others \<equiv> \<lambda>g (w :: 'a webhook_db_scheme). filter (\<lambda>h. wh_org_id h \<noteq> g) (webhook_subscriptions w)"
  shows "others (oc_orgId c) (snd (create_webhook_handler n sc fenv p env params rq meta u c w)) = others (oc_orgId c) w"
    "others (oc_orgId c) (snd (delete_webhook_handler env params rq meta u c w)) = others (oc_orgId c) w"
    "others (oc_orgId c) (snd (rotate_secret_handler sc env params rq meta u c w)) = others (oc_orgId c) w"
  unfolding others_def
  by (auto simp: create_webhook_handler_def delete_webhook_handler_def rotate_secret_handler_def validate_def cast_to_def with_uuid_def
      no_checks_def webhook_services_elsewhere split: option.splits prod.splits)

interpretation webhook_rows: tenant_rows "webhook_routes n sc fenv p" "webhook_subscriptions :: 'a webhook_db_scheme \<Rightarrow> _" wh_org_id
  "\<lambda>g _. g" "\<lambda>r. r \<in> set WEBHOOK_ROLES" "\<lambda>_. True" for n sc fenv p
proof
  fix r :: "'a webhook_db_scheme route" and env params rq meta u c and w :: "'a webhook_db_scheme"
  assume "r \<in> set (webhook_routes n sc fenv p env)"
  then consider "snd (ro_handler r params rq meta u c w) = w"
    | "ro_handler r = with_role WEBHOOK_ROLES (create_webhook_handler n sc fenv p env)"
    | "ro_handler r = with_role WEBHOOK_ROLES (delete_webhook_handler env)"
    | "ro_handler r = with_role WEBHOOK_ROLES (rotate_secret_handler sc env)"
    by (auto simp: webhook_routes_def mk_route_def list_webhooks_handler_def)
  then show "webhook_subscriptions (snd (ro_handler r params rq meta u c w)) = webhook_subscriptions w \<or>
      oc_memberRole c \<in> set WEBHOOK_ROLES \<and>
      filter (\<lambda>x. wh_org_id x \<noteq> oc_orgId c) (webhook_subscriptions (snd (ro_handler r params rq meta u c w))) =
        filter (\<lambda>x. wh_org_id x \<noteq> oc_orgId c) (webhook_subscriptions w)"
  proof cases
    case 2
    then show ?thesis
      using snd_with_role [of WEBHOOK_ROLES "create_webhook_handler n sc fenv p env" params rq meta u c w]
        webhook_handlers_elsewhere(1) [of c n sc fenv p env params rq meta u w] by auto
  next
    case 3
    then show ?thesis
      using snd_with_role [of WEBHOOK_ROLES "delete_webhook_handler env" params rq meta u c w]
        webhook_handlers_elsewhere(2) [of c env params rq meta u w] by auto
  next
    case 4
    then show ?thesis
      using snd_with_role [of WEBHOOK_ROLES "rotate_secret_handler sc env" params rq meta u c w]
        webhook_handlers_elsewhere(3) [of c sc env params rq meta u w] by auto
  qed simp
qed simp_all

section \<open>Storage under arbitrary requests\<close>

text \<open>The invariant of \<open>File\<close>, with what makes the identifier of a new file fresh.\<close>

definition file_inv :: "'a file_db_scheme \<Rightarrow> bool" where
  "file_inv w = (files_ok w \<and> inj (entropy w) \<and> f_id ` set (files w) \<subseteq> entropy w ` {..<drawn w})"

lemma requestUploadUrl_ids:
  "entropy (snd (requestUploadUrl url now g u fn mt sz plan w)) = entropy w \<and> drawn w \<le> drawn (snd (requestUploadUrl url now g u fn mt sz plan w)) \<and>
   f_id ` set (files (snd (requestUploadUrl url now g u fn mt sz plan w))) \<subseteq>
     f_id ` set (files w) \<union> entropy w ` {..<drawn (snd (requestUploadUrl url now g u fn mt sz plan w))}"
  by (auto simp: requestUploadUrl_def withTransaction_def upload_tx_def reserve_quota_def file_create_def new_file_def and_then_def draw_def Let_def
      split: sum.splits prod.splits if_splits bool.splits)

lemma upload_size_positive:
  assumes "conforms (ZObject upload_fields) d" and "decode_upload d = Some (fn, mt, sz)"
  shows "0 < sz"
proof -
  have r: "required as_int ''sizeBytes'' d = Some sz" using assms(2) by (auto simp: decode_upload_def split: bind_splits)
  have "(''sizeBytes'', ZInt (Some 1) None) \<in> set upload_fields" by (simp add: upload_fields_def)
  from conforms_field [OF assms(1) this] r show ?thesis
    by (auto simp: required_def as_int_def within_def split: option.splits json.splits)
qed

lemma image_absorb: "A \<subseteq> h ` X \<union> h ` Y \<Longrightarrow> X \<subseteq> Y \<Longrightarrow> A \<subseteq> h ` Y"
  by blast

lemma file_inv_upload:
  assumes "file_inv w" and "0 < sz"
  shows "file_inv (snd (requestUploadUrl url now g u fn mt sz plan w))"
proof -
  have "inj (entropy w)" "f_id ` set (files w) \<subseteq> entropy w ` {..<drawn w}" using assms(1) by (simp_all add: file_inv_def)
  moreover have "entropy w (Suc (drawn w)) \<notin> entropy w ` {..<drawn w}" if "inj (entropy w)"
    by (subst inj_image_mem_iff [OF that]) simp
  ultimately have "entropy w (Suc (drawn w)) \<notin> f_id ` set (files w)" by blast
  then have ok: "files_ok (snd (requestUploadUrl url now g u fn mt sz plan w))"
    using assms by (intro files_ok_upload) (auto simp: file_inv_def)
  from requestUploadUrl_ids [of url now g u fn mt sz plan w] assms(1)
  have "f_id ` set (files (snd (requestUploadUrl url now g u fn mt sz plan w))) \<subseteq>
      entropy w ` {..<drawn w} \<union> entropy w ` {..<drawn (snd (requestUploadUrl url now g u fn mt sz plan w))}"
    unfolding file_inv_def by blast
  moreover have "{..<drawn w} \<subseteq> {..<drawn (snd (requestUploadUrl url now g u fn mt sz plan w))}"
    using requestUploadUrl_ids [of url now g u fn mt sz plan w] by simp
  ultimately have "f_id ` set (files (snd (requestUploadUrl url now g u fn mt sz plan w))) \<subseteq>
      entropy w ` {..<drawn (snd (requestUploadUrl url now g u fn mt sz plan w))}" by (rule image_absorb)
  with ok show ?thesis
    using assms(1) requestUploadUrl_ids [of url now g u fn mt sz plan w] unfolding file_inv_def by simp
qed

interpretation file_api: api_invariant "file_routes st" "file_inv :: 'a file_db_scheme \<Rightarrow> bool" for st
proof
  fix w :: "'a file_db_scheme" and n :: nat and f
  assume "file_inv w" "drawn w \<le> n"
  moreover from this have "entropy w ` {..<drawn w} \<subseteq> entropy w ` {..<n}" by auto
  ultimately show "file_inv (w\<lparr>drawn := n, redis := f\<rparr>)" by (auto simp: file_inv_def files_ok_def)
next
  fix env and r :: "'a file_db_scheme route" and w :: "'a file_db_scheme" and params rq meta u c
  assume v: "schema_validator (he_safeParse env)" and r: "r \<in> set (file_routes st env)" and i: "file_inv w"
  from r show "file_inv (snd (ro_handler r params rq meta u c w))"
  proof (cases rule: file_route_cases [where params = params and rq = rq and meta = meta and u = u and c = c and w = w])
    case (upload d fn mt sz)
    with schema_validator.sound [OF v upload(1)] have "0 < sz" by (intro upload_size_positive)
    with upload i show ?thesis by (simp add: file_inv_upload)
  qed (simp add: i)
qed

text \<open>Whatever requests are sent to the file routes, starting from no file, an organization is charged exactly
  for its pending and confirmed files and never more than its quota.\<close>

theorem file_requests_accounted:
  assumes "schema_validator (he_safeParse env)" and "serve env (file_routes st env) rq (ks, w) = (a, ks', w')" and "file_inv w"
    and "r \<in> set (organizations w')"
  shows "o_storage_used_bytes r =
      sum_list (map f_size_bytes (filter (\<lambda>f. f_org_id f = o_id r \<and> f_status f \<in> {FPending, FConfirmed}) (files w')))
    \<and> o_storage_used_bytes r \<le> o_storage_quota_bytes r"
  using file_api.serve_keeps [OF assms(1,2,3)] assms(4)
  by (auto simp: file_inv_def files_ok_def accounted_def quota_ok_def list_all_iff used_by_def charged_def)

section \<open>Isolation\<close>

text \<open>A request to the workspace routes changes workspaces and tasks of the organization of its sender only.\<close>

theorem workspace_api_isolation:
  assumes "serve env (workspace_routes env) rq (ks, w) = (a, ks', w')" and "\<And>i g. redis w (session_key i g) = None"
  shows "workspaces w' = workspaces w \<or>
      (\<exists>m. caller env rq w m \<and> filter (\<lambda>r. ws_org_id r \<noteq> m_org_id m) (workspaces w') = filter (\<lambda>r. ws_org_id r \<noteq> m_org_id m) (workspaces w))"
    and "tasks w' = tasks w \<or>
      (\<exists>m. caller env rq w m \<and> filter (\<lambda>t. t_org_id t \<noteq> m_org_id m) (tasks w') = filter (\<lambda>t. t_org_id t \<noteq> m_org_id m) (tasks w))"
  using ws_rows.only_own [OF assms(1) TrueI assms(2)] ws_tasks.only_own [OF assms(1) TrueI assms(2)] by simp_all

text \<open>Webhooks under their owners: a request to the webhook routes leaves every webhook as it is, or its sender is an
  active member of the organization it names with the role of owner or administrator, and no webhook of any other
  organization has changed.\<close>

theorem webhook_api_guarded:
  assumes "serve env (webhook_routes n sc fenv p env) rq (ks, w) = (a, ks', w')" and "\<And>i g. redis w (session_key i g) = None"
  shows "webhook_subscriptions w' = webhook_subscriptions w \<or>
    (\<exists>m. caller env rq w m \<and> m_role m \<in> {OrgOwner, OrgAdmin} \<and>
       filter (\<lambda>h. wh_org_id h \<noteq> m_org_id m) (webhook_subscriptions w') = filter (\<lambda>h. wh_org_id h \<noteq> m_org_id m) (webhook_subscriptions w))"
proof -
  have "role_name r \<in> set WEBHOOK_ROLES \<Longrightarrow> r \<in> {OrgOwner, OrgAdmin}" for r
    by (cases r) (simp_all add: role_name_def WEBHOOK_ROLES_def)
  with webhook_rows.only_own [OF assms(1) TrueI assms(2)] show ?thesis by blast
qed

section \<open>Example\<close>

definition ex_hook :: "uuid \<Rightarrow> uuid \<Rightarrow> webhook" where
  "ex_hook i g = \<lparr>wh_id = i, wh_org_id = g, wh_url = ''https://h.example/p'', wh_secret_hash = ''h'', wh_secret_encrypted = ''e'',
     wh_secret_preview = ''p'', wh_secret_key_version = 1, wh_event_types = [''task.created''], wh_is_active = True, wh_created_by = ''u1'',
     wh_created_at = 0, wh_updated_at = 0, wh_deleted_at = None\<rparr>"

definition ex_hook_db :: webhook_db where
  "ex_hook_db = flag_db.extend (ex_flag_db\<lparr>users := [ex_user], organizations := [ex_org ''g'' OrgActive],
       org_memberships := [ex_member ''g'' ''u1'' OrgOwner]\<rparr>)
     \<lparr>webhook_subscriptions = [ex_hook ''a'' ''g'', ex_hook ''b'' ''k''], webhook_delivery_log = [], posts = []\<rparr>"

definition ex_hook_env :: http_env where
  "ex_hook_env = \<lparr>he_crypto = ex_org_crypto, he_keys = ex_keys, he_redis_up = False, he_now = 0, he_safeParse = zod_safeParse,
     he_match = (\<lambda>pattern path. if pattern = ''/orgs/:orgId/webhooks/:webhookId'' \<and> path = ''/orgs/g/webhooks/a'' then Some (\<lambda>_. ''a'') else None),
     he_pg_uuid = (\<lambda>_. True)\<rparr>"

definition ex_hook_request :: http_request where
  "ex_hook_request = \<lparr>rq_method = ''DELETE'', rq_path = ''/orgs/g/webhooks/a'', rq_authorization = Some ''Bearer tok'',
     rq_org_id = Some ''g'', rq_idempotency_key = None, rq_correlation_id = None, rq_query = JObj [], rq_body = JObj []\<rparr>"

lemma ex_hook_org:
  "orgMiddleware ex_org_crypto ex_keys False 0 (request.truncate ex_hook_request) (ex_hook_db\<lparr>drawn := n\<rparr>) =
     (Inr (\<lparr>ru_userId = ''u1'', ru_orgId = ''g'', ru_role = ''member'', ru_isPlatformAdmin = False, ru_jti = ''j0'',
            ru_exp = 900, ru_authTime = None, ru_mfaVerifiedAt = None\<rparr>,
           \<lparr>oc_orgId = ''g'', oc_orgStatus = ''active'', oc_memberRole = ''org_owner''\<rparr>), ex_hook_db\<lparr>drawn := n\<rparr>)"
  by (simp add: orgMiddleware_def ex_hook_request_def request.truncate_def authenticate_def verifyToken_def getPublicKey_def
      ex_keys_def registerPublicKey_def ex_org_crypto_def ex_crypto_def ex_org_claims_def ex_claims_def resolveUser_def
      ex_hook_db_def flag_db.extend_def ex_flag_db_def ex_user_def new_user_def orgContextMiddleware_def resolveOrgContext_def
      member_and_status_def ex_member_def ex_org_def orgStatusMiddleware_def org_status_name_def role_name_def
      isSuspendedBypass_def WRITE_METHODS_def Let_def)

lemma ex_hook_serve:
  "\<exists>a ks' w'. serve ex_hook_env (webhook_routes (ex_net 200) ex_secrets ex_flag_env 0 ex_hook_env) ex_hook_request ([], ex_hook_db) = (a, ks', w') \<and>
     map wh_is_active (webhook_subscriptions w') = [False, True]"
proof -
  obtain meta n where m: "responseEnvelope 0 ex_hook_request ex_hook_db = (meta, ex_hook_db\<lparr>drawn := n\<rparr>)"
    using responseEnvelope_draws by (metis surj_pair)
  have route: "find_route (he_match ex_hook_env) ''DELETE'' ''/orgs/g/webhooks/a'' (webhook_routes (ex_net 200) ex_secrets ex_flag_env 0 ex_hook_env) =
      Some (mk_route ''DELETE'' ''/orgs/:orgId/webhooks/:webhookId'' False (with_role WEBHOOK_ROLES (delete_webhook_handler ex_hook_env)), \<lambda>_. ''a'')"
    by (simp add: webhook_routes_def mk_route_def ex_hook_env_def)
  have rq: "rq_method ex_hook_request = ''DELETE''" "rq_path ex_hook_request = ''/orgs/g/webhooks/a''" by (simp_all add: ex_hook_request_def)
  have env: "he_crypto ex_hook_env = ex_org_crypto" "he_keys ex_hook_env = ex_keys" "he_redis_up ex_hook_env = False"
    "he_now ex_hook_env = 0" "he_pg_uuid ex_hook_env = (\<lambda>_. True)" by (simp_all add: ex_hook_env_def)
  have removed: "map wh_is_active (webhook_subscriptions (snd (webhook_remove 0 ''g'' ''a'' (ex_hook_db\<lparr>drawn := n\<rparr>)))) = [False, True]"
    by (simp add: webhook_remove_def webhook_findById_def webhook_softDelete_def webhook_live_def ex_hook_db_def ex_hook_def flag_db.extend_def)
  show ?thesis
    by (simp add: serve_def env m rq route run_route_def ex_hook_org mk_route_def with_role_def requireRole_def WEBHOOK_ROLES_def
        delete_webhook_handler_def with_uuid_def split_def removed)
qed

theorem webhook_api_guarded_witness:
  "\<exists>a ks' w'. serve ex_hook_env (webhook_routes (ex_net 200) ex_secrets ex_flag_env 0 ex_hook_env) ex_hook_request ([], ex_hook_db) = (a, ks', w') \<and>
     filter (\<lambda>h. wh_org_id h \<noteq> ''g'') (webhook_subscriptions w') = [ex_hook ''b'' ''k'']"
proof -
  obtain a ks' w' where s: "serve ex_hook_env (webhook_routes (ex_net 200) ex_secrets ex_flag_env 0 ex_hook_env) ex_hook_request ([], ex_hook_db) = (a, ks', w')"
    and l: "map wh_is_active (webhook_subscriptions w') = [False, True]" using ex_hook_serve by (elim exE conjE)
  have old: "webhook_subscriptions ex_hook_db = [ex_hook ''a'' ''g'', ex_hook ''b'' ''k'']" and red: "\<And>i g. redis ex_hook_db (session_key i g) = None"
    by (simp_all add: ex_hook_db_def flag_db.extend_def ex_flag_db_def)
  then have "webhook_subscriptions w' \<noteq> webhook_subscriptions ex_hook_db" using l by (auto simp: ex_hook_def)
  with webhook_api_guarded [OF s red] obtain m where "caller ex_hook_env ex_hook_request ex_hook_db m"
    "filter (\<lambda>h. wh_org_id h \<noteq> m_org_id m) (webhook_subscriptions w') = filter (\<lambda>h. wh_org_id h \<noteq> m_org_id m) (webhook_subscriptions ex_hook_db)"
    by blast
  moreover from this(1) have "m_org_id m = ''g''" by (simp add: caller_def ex_hook_request_def)
  ultimately have "filter (\<lambda>h. wh_org_id h \<noteq> ''g'') (webhook_subscriptions w') = [ex_hook ''b'' ''k'']"
    by (simp add: old ex_hook_def)
  with s show ?thesis by blast
qed

end
