(* ===== verification/Saml.thy ===== *)
theory Saml
  imports Auth_Properties Feature_Flag
begin

text \<open>
  \<^verbatim>\<open>src/modules/auth/services/saml.service.ts\<close>.  The validation of a response by passport-saml
  and the parser of the stored metadata are arguments; the dates of a profile are given as the
  instants they denote.  The state is the pair of the feature flags and the authentication tables.
\<close>

section \<open>Configuration and profiles\<close>

record saml_config =
  sc_entryPoint :: string
  sc_issuer :: string
  sc_cert :: string
  sc_audience :: "string option"

record saml_profile =
  sp_ID :: "string option"
  sp_id :: "string option"
  sp_notOnOrAfter :: "timestamp option"
  sp_sessionNotOnOrAfter :: "timestamp option"
  sp_email :: "string option"
  sp_nameID :: "string option"
  sp_displayName :: "string option"
  sp_cn :: "string option"

text \<open>\<open>sl_validate config audience now response\<close>: the profile of a response that the library accepts.\<close>

record saml_lib =
  sl_parse :: "string \<Rightarrow> saml_config option"
  sl_validate :: "saml_config \<Rightarrow> string \<Rightarrow> timestamp \<Rightarrow> string \<Rightarrow> saml_profile option"

text \<open>JavaScript's \<^verbatim>\<open>a ?? b\<close>.\<close>

definition nullish :: "'b option \<Rightarrow> 'b option \<Rightarrow> 'b option" where
  "nullish a b = (case a of None \<Rightarrow> b | Some x \<Rightarrow> Some x)"

definition getOrgSamlConfig :: "saml_lib \<Rightarrow> uuid \<Rightarrow> 'a dir_scheme \<Rightarrow> saml_config option" where
  "getOrgSamlConfig lib orgId w =
     (case org_findById orgId w of
        None \<Rightarrow> None
      | Some r \<Rightarrow>
          if \<not> o_saml_enabled r \<or> \<not> truthy (o_saml_metadata_url r) then None
          else sl_parse lib (case_option '''' id (o_saml_metadata_url r)))"

definition saml_audience :: "saml_config \<Rightarrow> string" where
  "saml_audience c = case_option (sc_issuer c) id (sc_audience c)"

section \<open>The callback\<close>

text \<open>The replay gate: presence of the assertion decides.  The pair of assertion and organization is the
  primary key of the table.\<close>

definition use_assertion :: "string \<Rightarrow> uuid \<Rightarrow> timestamp \<Rightarrow> 'a auth_db_scheme \<Rightarrow> unit outcome \<times> 'a auth_db_scheme" where
  "use_assertion assertionId orgId notOnOrAfter w =
     (if list_ex (\<lambda>(a, g, _). a = assertionId \<and> g = orgId) (saml_used_assertions w)
      then (Inl (UnauthorizedError ''SAML_ASSERTION_REPLAYED''), w)
      else (Inr (), w\<lparr>saml_used_assertions := saml_used_assertions w @ [(assertionId, orgId, notOnOrAfter)]\<rparr>))"

definition saml_user :: "timestamp \<Rightarrow> uuid \<Rightarrow> string \<Rightarrow> string \<Rightarrow> 'a auth_db_scheme \<Rightarrow> uuid outcome \<times> 'a auth_db_scheme" where
  "saml_user now orgId email name w =
     (let providerUserId = orgId @ '':'' @ email;
          link = (\<lambda>userId w.
             case createAuthProvider userId ProvSaml providerUserId (Some orgId)
                    (JObj [(''email'', JStr email), (''name'', JStr name), (''orgId'', JStr orgId)]) w of
               (Inl err, w1) \<Rightarrow> (Inl err, w1)
             | (Inr _, w1) \<Rightarrow> (Inr userId, w1))
      in case findAuthProvider ProvSaml providerUserId w of
           Some a \<Rightarrow> (Inr (ap_user_id a), w)
         | None \<Rightarrow>
             (case findUserByEmail email w of
                None \<Rightarrow>
                  (case createUser now \<lparr>cu_email = email, cu_name = name, cu_password_hash = None,
                          cu_email_verified = Some True, cu_avatar_url = None\<rparr> w of
                     (Inl err, w1) \<Rightarrow> (Inl err, w1)
                   | (Inr u, w1) \<Rightarrow> link (u_id u) (createUserPreferences now (u_id u) w1))
              | Some u \<Rightarrow>
                  link (u_id u)
                    (if u_email_verified u then w
                     else snd (updateUser now (u_id u) (no_user_change\<lparr>uu_email_verified := Some True,
                                 uu_email_verified_at := Some (Some now)\<rparr>) w))))"

definition saml_session ::
    "crypto_lib \<Rightarrow> timestamp \<Rightarrow> uuid \<Rightarrow> uuid \<Rightarrow> 'a auth_db_scheme \<Rightarrow> token_pair outcome \<times> 'a auth_db_scheme" where
  "saml_session cr now orgId userId w =
     issueTokenPair cr now userId orgId (case_option ''member'' role_name (active_role userId orgId w)) False None
       (persistAuditLog now (Some orgId) (Some userId) ActorUser ''user.login_saml'' (Some ''user'') (Some userId) (JObj []) w)"

definition saml_accept ::
    "crypto_lib \<Rightarrow> timestamp \<Rightarrow> uuid \<Rightarrow> saml_profile \<Rightarrow> 'a auth_db_scheme \<Rightarrow> token_pair outcome \<times> 'a auth_db_scheme" where
  "saml_accept cr now orgId p w =
     (case nullish (sp_email p) (sp_nameID p) of
        None \<Rightarrow> (Inl (JsError ''TypeError''), w)
      | Some raw \<Rightarrow>
          (let email = trim (toLowerCase raw);
               name = case_option email id (nullish (sp_displayName p) (sp_cn p));
               assertionId = nullish (sp_ID p) (sp_id p);
               notOnOrAfter = case_option (now + 3600000) id (nullish (sp_notOnOrAfter p) (sp_sessionNotOnOrAfter p))
           in if \<not> truthy assertionId then (Inl (UnauthorizedError ''SAML_MISSING_ASSERTION_ID''), w)
              else and_then (use_assertion (case_option '''' id assertionId) orgId notOnOrAfter w)
                (\<lambda>_ w1. and_then (saml_user now orgId email name w1) (saml_session cr now orgId))))"

definition handleCallback ::
    "saml_lib \<Rightarrow> crypto_lib \<Rightarrow> flag_env \<Rightarrow> nat \<Rightarrow> timestamp \<Rightarrow> uuid \<Rightarrow> string \<Rightarrow> 'b flag_db_scheme \<times> 'a auth_db_scheme
     \<Rightarrow> token_pair outcome \<times> 'b flag_db_scheme \<times> 'a auth_db_scheme" where
  "handleCallback lib cr env proc now orgId samlResponse s =
     (let (ssoEnabled, f) = isEnabled env proc now orgId ''feature.sso'' (fst s); w = snd s
      in if \<not> ssoEnabled then (Inl (ForbiddenError ''FEATURE_NOT_ENABLED''), f, w)
         else case getOrgSamlConfig lib orgId w of
                None \<Rightarrow> (Inl (UnauthorizedError ''SAML_NOT_CONFIGURED''), f, w)
              | Some c \<Rightarrow>
                  (case sl_validate lib c (saml_audience c) now samlResponse of
                     None \<Rightarrow> (Inl (UnauthorizedError ''SAML_VALIDATION_FAILED''), f, w)
                   | Some p \<Rightarrow> (case saml_accept cr now orgId p w of (r, w') \<Rightarrow> (r, f, w'))))"

definition samlCallbackHandler ::
    "saml_lib \<Rightarrow> crypto_lib \<Rightarrow> flag_env \<Rightarrow> nat \<Rightarrow> timestamp \<Rightarrow> uuid \<Rightarrow> string option \<Rightarrow> 'b flag_db_scheme \<times> 'a auth_db_scheme
     \<Rightarrow> token_pair outcome \<times> 'b flag_db_scheme \<times> 'a auth_db_scheme" where
  "samlCallbackHandler lib cr env proc now orgId samlResponse s =
     (if \<not> truthy samlResponse then (Inl (BadRequestError ''MISSING_SAML_RESPONSE''), s)
      else handleCallback lib cr env proc now orgId (case_option '''' id samlResponse) s)"

section \<open>Used assertions\<close>

lemma saml_user_keeps [simp]: "saml_used_assertions (snd (saml_user now g e n w)) = saml_used_assertions w"
  by (simp add: saml_user_def createAuthProvider_def createUser_def createUserPreferences_def draw_def updateUser_def Let_def
      split: option.split)

lemma saml_session_keeps [simp]: "saml_used_assertions (snd (saml_session cr now g u w)) = saml_used_assertions w"
  by (simp add: saml_session_def issueTokenPair_def generateAccessToken_def createRefreshToken_def draw_def persistAuditLog_def Let_def)

lemma after_user_keeps:
  assumes "and_then (saml_user now g e n v) (saml_session cr now g) = (r, w')"
  shows "saml_used_assertions w' = saml_used_assertions v"
proof -
  obtain q w1 where eq: "saml_user now g e n v = (q, w1)" by fastforce
  then have k: "saml_used_assertions w1 = saml_used_assertions v" using saml_user_keeps [of now g e n v] by simp
  show ?thesis
  proof (cases q)
    case (Inr u)
    with assms eq have "w' = snd (saml_session cr now g u w1)" by simp
    with k show ?thesis by simp
  qed (use assms eq k in simp)
qed

text \<open>What the gate leaves in the table: every attempt keeps the used assertions, a success adds its own.\<close>

lemma saml_accept_used:
  assumes "saml_accept cr now g p w = (r, w')"
  shows "set (saml_used_assertions w) \<subseteq> set (saml_used_assertions w')"
    and "r = Inr tk \<Longrightarrow> \<exists>a. nullish (sp_ID p) (sp_id p) = Some a \<and>
      (a, g, case_option (now + 3600000) id (nullish (sp_notOnOrAfter p) (sp_sessionNotOnOrAfter p))) \<in> set (saml_used_assertions w')"
proof -
  let ?e = "case_option (now + 3600000) id (nullish (sp_notOnOrAfter p) (sp_sessionNotOnOrAfter p))"
  have step: "w' = w \<and> (\<exists>err. r = Inl err) \<or> (\<exists>a. nullish (sp_ID p) (sp_id p) = Some a \<and>
      saml_used_assertions w' = saml_used_assertions w @ [(a, g, ?e)])"
    using assms by (auto simp: saml_accept_def use_assertion_def Let_def split: option.splits if_splits dest: after_user_keeps)
  then show "set (saml_used_assertions w) \<subseteq> set (saml_used_assertions w')" by auto
  show "r = Inr tk \<Longrightarrow> \<exists>a. nullish (sp_ID p) (sp_id p) = Some a \<and> (a, g, ?e) \<in> set (saml_used_assertions w')"
    using step by auto
qed

lemma saml_accept_replay:
  assumes "nullish (sp_ID p) (sp_id p) = Some a" and "(a, g, e) \<in> set (saml_used_assertions w)"
  shows "\<exists>err. saml_accept cr now g p w = (Inl err, w)"
  using assms by (auto simp: saml_accept_def use_assertion_def Let_def list_ex_iff split: option.split)

text \<open>The identity provider of any organization may name any user of the platform: the user is found by the
  e-mail alone, a membership in the organization is not required.\<close>

lemma saml_logs_in_any_user:
  assumes "findAuthProvider ProvSaml (g @ '':'' @ e) w = None" and "findUserByEmail e w = Some u"
  shows "fst (saml_user now g e n w) = Inr (u_id u)"
proof -
  let ?v = "if u_email_verified u then w
    else snd (updateUser now (u_id u) (no_user_change\<lparr>uu_email_verified := Some True, uu_email_verified_at := Some (Some now)\<rparr>) w)"
  have "(ProvSaml, g @ '':'' @ e) \<notin> (\<lambda>a. (ap_provider a, ap_provider_user_id a)) ` set (auth_providers w)"
    using assms(1) by (force simp: findAuthProvider_def find_None_iff)
  moreover have "auth_providers ?v = auth_providers w" by (simp add: updateUser_def Let_def)
  ultimately show ?thesis
    using assms by (simp add: saml_user_def createAuthProvider_def draw_def Let_def del: append_Cons append_Nil)
qed

end
