(* ===== verification/Auth_Router.thy ===== *)
theory Auth_Router
  imports Http Saml
begin

text \<open>
  \<^verbatim>\<open>src/modules/auth/auth.router.ts\<close> and its controller: the schemas, the rate limiters in front and
  the handlers.  \<open>limiter\<close> is the verdict of the rate limiter of that name (\<open>Rate_Limiter\<close>); the
  program leaves the limiters out in tests.  The route of the SAML callback works on two stores and is
  in \<open>Saml\<close>.
\<close>

section \<open>Schemas and casts\<close>

definition register_fields :: "(string \<times> schema) list" where
  "register_fields = [(''email'', ZString [Email]), (''password'', ZString [Min 8, Max 128]), (''name'', ZString [Min 1, Max 255])]"

definition login_fields :: "(string \<times> schema) list" where
  "login_fields = [(''email'', ZString [Email]), (''password'', ZString [Min 1]), (''orgId'', ZOptional (ZString [Uuid]))]"

definition refresh_fields :: "(string \<times> schema) list" where
  "refresh_fields = [(''refreshToken'', ZString [Min 1])]"

definition email_fields :: "(string \<times> schema) list" where
  "email_fields = [(''email'', ZString [Email])]"

definition reset_confirm_fields :: "(string \<times> schema) list" where
  "reset_confirm_fields = [(''token'', ZString [Min 1]), (''newPassword'', ZString [Min 8, Max 128])]"

definition google_fields :: "(string \<times> schema) list" where
  "google_fields = [(''idToken'', ZString [Min 1])]"

definition magic_request_fields :: "(string \<times> schema) list" where
  "magic_request_fields = [(''email'', ZString [Email]), (''orgId'', ZOptional (ZString [Uuid]))]"

definition magic_verify_fields :: "(string \<times> schema) list" where
  "magic_verify_fields = [(''token'', ZString [Min 1])]"

definition decode_register :: "json \<Rightarrow> (string \<times> string \<times> string) option" where
  "decode_register d = do {
     email \<leftarrow> required as_str ''email'' d;
     password \<leftarrow> required as_str ''password'' d;
     name \<leftarrow> required as_str ''name'' d;
     Some (email, password, name) }"

definition decode_login :: "json \<Rightarrow> (string \<times> string \<times> uuid option) option" where
  "decode_login d = do {
     email \<leftarrow> required as_str ''email'' d;
     password \<leftarrow> required as_str ''password'' d;
     orgId \<leftarrow> optional as_str ''orgId'' d;
     Some (email, password, orgId) }"

definition decode_reset :: "json \<Rightarrow> (string \<times> string) option" where
  "decode_reset d = do {
     token \<leftarrow> required as_str ''token'' d;
     password \<leftarrow> required as_str ''newPassword'' d;
     Some (token, password) }"

definition decode_magic :: "json \<Rightarrow> (string \<times> uuid option) option" where
  "decode_magic d = do {
     email \<leftarrow> required as_str ''email'' d;
     orgId \<leftarrow> optional as_str ''orgId'' d;
     Some (email, orgId) }"

section \<open>Answers\<close>

definition token_pair_json :: "token_pair \<Rightarrow> json" where
  "token_pair_json t = JObj [(''accessToken'', JStr (tp_accessToken t)), (''refreshToken'', JStr (tp_refreshToken t)),
     (''expiresIn'', JNum (tp_expiresIn t))]"

definition safe_user_json :: "safe_user \<Rightarrow> json" where
  "safe_user_json u = JObj
     [(''id'', JStr (su_id u)), (''email'', JStr (su_email u)), (''email_verified'', JBool (su_email_verified u)),
      (''name'', JStr (su_name u)), (''avatar_url'', json_opt (su_avatar_url u)),
      (''is_platform_admin'', JBool (su_is_platform_admin u)), (''status'', JStr (user_status_name (su_status u))),
      (''created_at'', JNum (su_created_at u)), (''updated_at'', JNum (su_updated_at u))]"

definition message_answer :: "string \<Rightarrow> json" where
  "message_answer m = JObj [(''message'', JStr m)]"

section \<open>Handlers\<close>

type_synonym 'w public_handler = "http_request \<Rightarrow> json \<Rightarrow> 'w \<Rightarrow> answer \<times> 'w"

definition registerHandler :: "http_env \<Rightarrow> 'a auth_db_scheme public_handler" where
  "registerHandler env rq meta =
     validate (he_safeParse env) (ZObject register_fields) (rq_body rq) (\<lambda>d.
       cast_to decode_register d (\<lambda>(email, password, name) w.
         answer_with (\<lambda>u. res_created meta (safe_user_json u)) (register (he_crypto env) (he_now env) email password name w)))"

definition loginHandler :: "http_env \<Rightarrow> 'a auth_db_scheme public_handler" where
  "loginHandler env rq meta =
     validate (he_safeParse env) (ZObject login_fields) (rq_body rq) (\<lambda>d.
       cast_to decode_login d (\<lambda>(email, password, orgId) w.
         answer_with (\<lambda>(tokens, u). res_success meta (JObj [(''tokens'', token_pair_json tokens), (''user'', safe_user_json u)]))
           (login (he_crypto env) (he_now env) email password orgId w)))"

definition refreshHandler :: "http_env \<Rightarrow> 'a auth_db_scheme public_handler" where
  "refreshHandler env rq meta =
     validate (he_safeParse env) (ZObject refresh_fields) (rq_body rq) (\<lambda>d.
       cast_to (required as_str ''refreshToken'') d (\<lambda>raw w.
         answer_with (\<lambda>t. res_success meta (token_pair_json t)) (refreshTokenPair (he_crypto env) (he_now env) raw w)))"

text \<open>The JWT middleware comes before the schema.\<close>

definition logout_route_handler :: "http_env \<Rightarrow> 'a auth_db_scheme public_handler" where
  "logout_route_handler env rq meta w =
     (case authenticate (he_crypto env) (he_keys env) (he_redis_up env) (he_now env) (rq_authorization rq) w of
        (Inl e, w1) \<Rightarrow> (error_answer e, w1)
      | (Inr u, w1) \<Rightarrow>
          validate (he_safeParse env) (ZObject refresh_fields) (rq_body rq) (\<lambda>d.
            cast_to (required as_str ''refreshToken'') d (\<lambda>raw w.
              answer_with (\<lambda>_. res_success meta (message_answer ''Logged out successfully''))
                (logout (he_crypto env) (he_now env) raw (ru_jti u) (max 0 (ru_exp u - he_now env div 1000)) w))) w1)"

text \<open>The token of a verification comes from the query and is not validated by a schema.\<close>

definition verifyEmailHandler :: "http_env \<Rightarrow> 'a auth_db_scheme public_handler" where
  "verifyEmailHandler env rq meta w =
     (let token = Option.bind (json_field ''token'' (rq_query rq)) as_str in
      if \<not> truthy token then ((400, JObj [(''data'', JNull), (''error'', JObj [(''code'', JStr ''MISSING_TOKEN'')]), (''meta'', JObj [])]), w)
      else answer_with (\<lambda>_. res_success meta (message_answer ''Email verified successfully''))
             (verifyEmail (he_crypto env) (he_now env) (the token) w))"

definition resendVerificationEmailHandler :: "http_env \<Rightarrow> 'a auth_db_scheme public_handler" where
  "resendVerificationEmailHandler env rq meta =
     validate (he_safeParse env) (ZObject email_fields) (rq_body rq) (\<lambda>d.
       cast_to (required as_str ''email'') d (\<lambda>email w.
         (res_success meta (message_answer ''If an account exists and is unverified, a verification email has been sent''),
          case findUserByEmailForResend email w of
            None \<Rightarrow> w
          | Some i \<Rightarrow> resendVerificationEmail (he_crypto env) (he_now env) i w)))"

definition requestPasswordResetHandler :: "http_env \<Rightarrow> 'a auth_db_scheme public_handler" where
  "requestPasswordResetHandler env rq meta =
     validate (he_safeParse env) (ZObject email_fields) (rq_body rq) (\<lambda>d.
       cast_to (required as_str ''email'') d (\<lambda>email w.
         (res_success meta (message_answer ''If an account exists, a password reset email has been sent''),
          requestPasswordReset (he_crypto env) (he_now env) email w)))"

definition confirmPasswordResetHandler :: "http_env \<Rightarrow> 'a auth_db_scheme public_handler" where
  "confirmPasswordResetHandler env rq meta =
     validate (he_safeParse env) (ZObject reset_confirm_fields) (rq_body rq) (\<lambda>d.
       cast_to decode_reset d (\<lambda>(token, password) w.
         answer_with (\<lambda>_. res_success meta (message_answer ''Password has been reset successfully''))
           (confirmPasswordReset (he_crypto env) (he_now env) token password w)))"

definition googleOAuthHandler :: "http_env \<Rightarrow> 'a auth_db_scheme public_handler" where
  "googleOAuthHandler env rq meta =
     validate (he_safeParse env) (ZObject google_fields) (rq_body rq) (\<lambda>d.
       cast_to (required as_str ''idToken'') d (\<lambda>idToken w.
         answer_with (\<lambda>t. res_success meta (token_pair_json t)) (loginWithGoogle (he_crypto env) (he_now env) idToken w)))"

definition magicLinkRequestHandler :: "http_env \<Rightarrow> 'a auth_db_scheme public_handler" where
  "magicLinkRequestHandler env rq meta =
     validate (he_safeParse env) (ZObject magic_request_fields) (rq_body rq) (\<lambda>d.
       cast_to decode_magic d (\<lambda>(email, orgId) w.
         (res_success meta (message_answer ''If an account exists, a magic link has been sent''),
          requestLink (he_crypto env) (he_now env) email orgId w)))"

definition magicLinkVerifyHandler :: "http_env \<Rightarrow> 'a auth_db_scheme public_handler" where
  "magicLinkVerifyHandler env rq meta =
     validate (he_safeParse env) (ZObject magic_verify_fields) (rq_body rq) (\<lambda>d.
       cast_to (required as_str ''token'') d (\<lambda>token w.
         answer_with (\<lambda>t. res_success meta (token_pair_json t)) (verifyLink (he_crypto env) (he_now env) token w)))"

section \<open>Routes\<close>

record 'w auth_route =
  aur_method :: string
  aur_path :: string
  aur_limiter :: "string option"
  aur_handler :: "'w public_handler"

definition auth_routes :: "http_env \<Rightarrow> 'a auth_db_scheme auth_route list" where
  "auth_routes env =
     [\<lparr>aur_method = ''POST'', aur_path = ''/register'', aur_limiter = Some ''register'', aur_handler = registerHandler env\<rparr>,
      \<lparr>aur_method = ''POST'', aur_path = ''/login'', aur_limiter = Some ''auth'', aur_handler = loginHandler env\<rparr>,
      \<lparr>aur_method = ''POST'', aur_path = ''/refresh'', aur_limiter = None, aur_handler = refreshHandler env\<rparr>,
      \<lparr>aur_method = ''POST'', aur_path = ''/logout'', aur_limiter = None, aur_handler = logout_route_handler env\<rparr>,
      \<lparr>aur_method = ''GET'', aur_path = ''/verify-email'', aur_limiter = None, aur_handler = verifyEmailHandler env\<rparr>,
      \<lparr>aur_method = ''POST'', aur_path = ''/verify-email/resend'', aur_limiter = Some ''verify-email-resend'',
        aur_handler = resendVerificationEmailHandler env\<rparr>,
      \<lparr>aur_method = ''POST'', aur_path = ''/password-reset/request'', aur_limiter = Some ''password-reset'',
        aur_handler = requestPasswordResetHandler env\<rparr>,
      \<lparr>aur_method = ''POST'', aur_path = ''/password-reset/confirm'', aur_limiter = None, aur_handler = confirmPasswordResetHandler env\<rparr>,
      \<lparr>aur_method = ''POST'', aur_path = ''/oauth/google'', aur_limiter = None, aur_handler = googleOAuthHandler env\<rparr>,
      \<lparr>aur_method = ''POST'', aur_path = ''/magic-link/request'', aur_limiter = Some ''magic-link'', aur_handler = magicLinkRequestHandler env\<rparr>,
      \<lparr>aur_method = ''POST'', aur_path = ''/magic-link/verify'', aur_limiter = None, aur_handler = magicLinkVerifyHandler env\<rparr>]"

definition serve_auth ::
    "http_env \<Rightarrow> (string \<Rightarrow> unit outcome) \<Rightarrow> http_request \<Rightarrow> 'a auth_db_scheme \<Rightarrow> answer option \<times> 'a auth_db_scheme" where
  "serve_auth env limiter rq w =
     (let (meta, w1) = responseEnvelope (he_now env) rq w in
      case List.find (\<lambda>r. aur_method r = rq_method rq \<and> he_match env (''/api/v1/auth'' @ aur_path r) (rq_path rq) \<noteq> None) (auth_routes env) of
        None \<Rightarrow> (None, w1)
      | Some r \<Rightarrow>
          (case (case aur_limiter r of None \<Rightarrow> Inr () | Some l \<Rightarrow> limiter l) of
             Inl e \<Rightarrow> (Some (error_answer e), w1)
           | Inr _ \<Rightarrow> (let (a, w2) = aur_handler r rq meta w1 in (Some a, w2))))"

section \<open>Accounts are not revealed\<close>

text \<open>The three routes anyone may call with an e-mail address (a new verification mail, a password
  reset, a magic link) answer the same whatever users exist: from the answer nobody learns whether the
  address has an account.\<close>

theorem no_account_enumeration:
  "fst (resendVerificationEmailHandler env rq meta w) = fst (resendVerificationEmailHandler env rq meta w') \<and>
   fst (requestPasswordResetHandler env rq meta w) = fst (requestPasswordResetHandler env rq meta w') \<and>
   fst (magicLinkRequestHandler env rq meta w) = fst (magicLinkRequestHandler env rq meta w')"
  by (simp add: resendVerificationEmailHandler_def requestPasswordResetHandler_def magicLinkRequestHandler_def
      validate_def cast_to_def split: option.split prod.split)

end
