(* ===== verification/Invitation.thy ===== *)
theory Invitation
  imports Org_Access
begin

text \<open>
  \<^verbatim>\<open>src/modules/organization/services/invitation.service.ts\<close>: inviting, accepting and revoking.
  The keyed hash of the invitation's payload is the argument \<open>sign_invite\<close>.
\<close>

section \<open>State\<close>

datatype invitation_status = InvPending | InvAccepted | InvExpired | InvRevoked

record invitation =
  inv_id :: uuid
  inv_org_id :: uuid
  inv_invited_by :: uuid
  inv_email :: string
  inv_role :: role
  inv_token_hash :: string
  inv_status :: invitation_status
  inv_expires_at :: timestamp
  inv_accepted_at :: "timestamp option"
  inv_revoked_at :: "timestamp option"
  inv_created_at :: timestamp

record inv_db = auth_db +
  invitations :: "invitation list"

section \<open>Services\<close>

definition INVITATION_TTL_DAYS :: int where
  "INVITATION_TTL_DAYS = 7"

definition writeInvitationEvent ::
    "timestamp \<Rightarrow> string \<Rightarrow> uuid \<Rightarrow> uuid \<Rightarrow> uuid option \<Rightarrow> json \<Rightarrow> 'a base_scheme \<Rightarrow> 'a base_scheme" where
  "writeInvitationEvent now eventType orgId entityId actor payload w =
     insert_outbox now (Some orgId) eventType ''invitation'' entityId actor payload w"

text \<open>The token hash is unique.\<close>

definition insert_invitation ::
    "timestamp \<Rightarrow> uuid \<Rightarrow> uuid \<Rightarrow> string \<Rightarrow> role \<Rightarrow> string \<Rightarrow> timestamp \<Rightarrow> 'a inv_db_scheme
     \<Rightarrow> invitation outcome \<times> 'a inv_db_scheme" where
  "insert_invitation now orgId invitedBy email role h expiresAt w =
     (if h \<in> inv_token_hash ` set (invitations w) then (Inl (PgError ''23505''), w)
      else let (i, w1) = draw w;
               r = \<lparr>inv_id = i, inv_org_id = orgId, inv_invited_by = invitedBy, inv_email = email, inv_role = role,
                    inv_token_hash = h, inv_status = InvPending, inv_expires_at = expiresAt, inv_accepted_at = None,
                    inv_revoked_at = None, inv_created_at = now\<rparr>
           in (Inr r, w1\<lparr>invitations := invitations w1 @ [r]\<rparr>))"

definition invite ::
    "crypto_lib \<Rightarrow> (json \<Rightarrow> string) \<Rightarrow> timestamp \<Rightarrow> uuid \<Rightarrow> uuid \<Rightarrow> string \<Rightarrow> role \<Rightarrow> 'a inv_db_scheme
     \<Rightarrow> invitation outcome \<times> 'a inv_db_scheme" where
  "invite cr sign_invite now orgId invitedBy email role w =
     (let e = normalize_email email in
      case org_findById orgId w of
        None \<Rightarrow> (Inl (NotFoundError ''Organization''), w)
      | Some org \<Rightarrow>
          if o_status org \<noteq> OrgActive then (Inl (ForbiddenError ''ORG_NOT_ACTIVE''), w)
          else if o_max_members org \<le> int (countActiveMembers orgId w)
          then (Inl (ForbiddenError ''PLAN_MEMBER_LIMIT_EXCEEDED''), w)
          else if list_ex (\<lambda>i. inv_org_id i = orgId \<and> inv_email i = e \<and> inv_status i = InvPending) (invitations w)
          then (Inl (ForbiddenError ''INVITATION_ALREADY_PENDING''), w)
          else let expiresAt = now + INVITATION_TTL_DAYS * 24 * 60 * 60 * 1000;
                   token = sign_invite (JObj [(''orgId'', JStr orgId), (''email'', JStr e), (''role'', JStr (role_name role)),
                                              (''invitedBy'', JStr invitedBy), (''expiresAt'', JNum expiresAt)])
               in and_then (insert_invitation now orgId invitedBy e role (hashToken cr token) expiresAt w)
                    (\<lambda>i w1. (Inr i, writeInvitationEvent now ''invitation.created'' orgId (inv_id i) (Some invitedBy)
                       (JObj [(''invitationId'', JStr (inv_id i)), (''orgId'', JStr orgId), (''email'', JStr e),
                              (''role'', JStr (role_name role)), (''token'', JStr token), (''expiresAt'', JNum expiresAt)]) w1)))"

definition set_invitation :: "uuid \<Rightarrow> (invitation \<Rightarrow> invitation) \<Rightarrow> 'a inv_db_scheme \<Rightarrow> 'a inv_db_scheme" where
  "set_invitation i f w = w\<lparr>invitations := update_where (\<lambda>r. inv_id r = i) f (invitations w)\<rparr>"

text \<open>Find or create the invited user.\<close>

definition invited_user ::
    "timestamp \<Rightarrow> string \<Rightarrow> 'a auth_db_scheme \<Rightarrow> user outcome \<times> 'a auth_db_scheme" where
  "invited_user now email w =
     (case findUserByEmail email w of
        Some u \<Rightarrow> (Inr u, w)
      | None \<Rightarrow>
          and_then (createUser now \<lparr>cu_email = email, cu_name = takeWhile (\<lambda>c. c \<noteq> CHR ''@'') email,
                     cu_password_hash = None, cu_email_verified = Some True, cu_avatar_url = None\<rparr> w)
            (\<lambda>u w1. and_then (createAuthProvider (u_id u) ProvEmail email None (JObj []) (createUserPreferences now (u_id u) w1))
               (\<lambda>_ w2. (Inr u, w2))))"

definition acceptInvitation ::
    "crypto_lib \<Rightarrow> timestamp \<Rightarrow> string \<Rightarrow> 'a inv_db_scheme \<Rightarrow> (token_pair \<times> uuid) outcome \<times> 'a inv_db_scheme" where
  "acceptInvitation cr now token w =
     (case List.find (\<lambda>i. inv_token_hash i = hashToken cr token) (invitations w) of
        None \<Rightarrow> (Inl (NotFoundError ''Invitation''), w)
      | Some i \<Rightarrow>
          if inv_status i \<noteq> InvPending then (Inl (AppError 410 ''INVITATION_GONE'' []), w)
          else if inv_expires_at i < now
          then (Inl (AppError 410 ''INVITATION_EXPIRED'' []), set_invitation (inv_id i) (\<lambda>r. r\<lparr>inv_status := InvExpired\<rparr>) w)
          else and_then (invited_user now (inv_email i) w)
            (\<lambda>u w1.
               let w2 = snd (createMembership now (inv_org_id i) (u_id u) (inv_role i) (Some (inv_invited_by i)) (Some now) w1);
                   w3 = seedNotificationPreferences (inv_org_id i) (u_id u) w2;
                   w4 = set_invitation (inv_id i) (\<lambda>r. r\<lparr>inv_status := InvAccepted, inv_accepted_at := Some now\<rparr>) w3;
                   w5 = writeInvitationEvent now ''member.joined'' (inv_org_id i) (u_id u) (Some (u_id u))
                          (JObj [(''orgId'', JStr (inv_org_id i)), (''userId'', JStr (u_id u)),
                                 (''role'', JStr (role_name (inv_role i)))]) w4
               in and_then (issueTokenPair cr now (u_id u) (inv_org_id i) (role_name (inv_role i)) (u_is_platform_admin u) None w5)
                    (\<lambda>tokens w6. (Inr (tokens, u_id u), w6))))"

definition revokeInvitation ::
    "timestamp \<Rightarrow> uuid \<Rightarrow> uuid \<Rightarrow> uuid \<Rightarrow> 'a inv_db_scheme \<Rightarrow> unit outcome \<times> 'a inv_db_scheme" where
  "revokeInvitation now orgId invitationId revokedBy w =
     (let P = (\<lambda>i. inv_id i = invitationId \<and> inv_org_id i = orgId \<and> inv_status i = InvPending);
          w1 = w\<lparr>invitations := update_where P (\<lambda>i. i\<lparr>inv_status := InvRevoked, inv_revoked_at := Some now\<rparr>) (invitations w)\<rparr>
      in if \<not> list_ex P (invitations w) then (Inl (NotFoundError ''Invitation''), w1)
         else (Inr (), writeInvitationEvent now ''invitation.revoked'' orgId invitationId (Some revokedBy)
                 (JObj [(''invitationId'', JStr invitationId), (''orgId'', JStr orgId), (''revokedBy'', JStr revokedBy)]) w1))"

text \<open>The handlers of the router check the caller's role first.\<close>

definition invite_handler ::
    "crypto_lib \<Rightarrow> (json \<Rightarrow> string) \<Rightarrow> timestamp \<Rightarrow> req_user \<Rightarrow> org_context \<Rightarrow> string \<Rightarrow> role \<Rightarrow> 'a inv_db_scheme
     \<Rightarrow> invitation outcome \<times> 'a inv_db_scheme" where
  "invite_handler cr sign_invite now u c email role w =
     (if role = OrgOwner then (Inl ValidationError, w)
      else if \<not> admin_or_owner c then (Inl (ForbiddenError ''INSUFFICIENT_ROLE''), w)
      else invite cr sign_invite now (oc_orgId c) (ru_userId u) email role w)"

definition revoke_invitation_handler ::
    "timestamp \<Rightarrow> req_user \<Rightarrow> org_context \<Rightarrow> uuid \<Rightarrow> 'a inv_db_scheme \<Rightarrow> unit outcome \<times> 'a inv_db_scheme" where
  "revoke_invitation_handler now u c invitationId w =
     (if \<not> admin_or_owner c then (Inl (ForbiddenError ''INSUFFICIENT_ROLE''), w)
      else revokeInvitation now (oc_orgId c) invitationId (ru_userId u) w)"

section \<open>Frame lemmas\<close>

lemma inv_base_frame [simp]:
  "invitations (snd (draw w)) = invitations w"
  "invitations (insert_outbox now g ev et eid ac pl w) = invitations w"
  "invitations (persistAuditLog now g ac aty ev et' eid' pl w) = invitations w"
  by (simp_all add: base_op_defs)

lemma writeInvitationEvent_frame [simp]:
  "invitations (writeInvitationEvent now ev g i ac pl w) = invitations w"
  "org_memberships (writeInvitationEvent now ev g i ac pl v) = org_memberships v"
  "organizations (writeInvitationEvent now ev g i ac pl v) = organizations v"
  by (simp_all add: writeInvitationEvent_def)

lemma set_invitation_frame [simp]:
  "org_memberships (set_invitation i f w) = org_memberships w"
  "organizations (set_invitation i f w) = organizations w"
  "invitations (set_invitation i f w) = update_where (\<lambda>r. inv_id r = i) f (invitations w)"
  by (simp_all add: set_invitation_def)

lemma issueTokenPair_frame:
  "issueTokenPair cr now u g r a m w = (res, w') \<Longrightarrow> invitations w' = invitations w \<and>
     org_memberships w' = org_memberships w \<and> organizations w' = organizations w"
  by (auto simp: issueTokenPair_def generateAccessToken_def createRefreshToken_def draw_def Let_def split: if_splits)

lemma createMembership_invitations [simp]:
  "invitations (snd (createMembership now g u r ib jn w)) = invitations w"
  by (simp add: createMembership_def draw_def Let_def split: option.split)

lemma seed_invitations [simp]: "invitations (seedNotificationPreferences g u w) = invitations w"
proof -
  have "invitations (insert_preference g u ev v) = invitations v" for ev and v :: "'a inv_db_scheme"
    by (simp add: insert_preference_def draw_def Let_def)
  then have "invitations (fold (insert_preference g u) evs w) = invitations w" for evs
    by (induction evs arbitrary: w) simp_all
  then show ?thesis by (simp add: seedNotificationPreferences_def)
qed

lemma invited_user_frame:
  "invited_user now e w = (Inr u, w') \<Longrightarrow> invitations w' = invitations w \<and>
     org_memberships w' = org_memberships w \<and> organizations w' = organizations w"
  by (auto simp: invited_user_def and_then_Inr createUser_def createAuthProvider_def createUserPreferences_def draw_def
      Let_def split: option.splits if_splits)

text \<open>What an acceptance leaves.\<close>

lemma accept_success:
  assumes "acceptInvitation cr now tok w = (Inr (tp, i), w')"
  obtains v u w1 where "List.find (\<lambda>i. inv_token_hash i = hashToken cr tok) (invitations w) = Some v"
    "inv_status v = InvPending" "now \<le> inv_expires_at v" "invited_user now (inv_email v) w = (Inr u, w1)" "i = u_id u"
    "invitations w' = update_where (\<lambda>r. inv_id r = inv_id v) (\<lambda>r. r\<lparr>inv_status := InvAccepted, inv_accepted_at := Some now\<rparr>) (invitations w)"
    "org_memberships w' = org_memberships (snd (createMembership now (inv_org_id v) (u_id u) (inv_role v)
        (Some (inv_invited_by v)) (Some now) w1))"
    "org_memberships w1 = org_memberships w" "organizations w' = organizations w"
proof -
  from assms obtain v where v: "List.find (\<lambda>i. inv_token_hash i = hashToken cr tok) (invitations w) = Some v"
    "inv_status v = InvPending" "now \<le> inv_expires_at v"
    by (auto simp: acceptInvitation_def split: option.splits if_splits)
  define rest where "rest = (\<lambda>(u :: user) w1.
      let w2 = snd (createMembership now (inv_org_id v) (u_id u) (inv_role v) (Some (inv_invited_by v)) (Some now) w1);
          w3 = seedNotificationPreferences (inv_org_id v) (u_id u) w2;
          w4 = set_invitation (inv_id v) (\<lambda>r. r\<lparr>inv_status := InvAccepted, inv_accepted_at := Some now\<rparr>) w3;
          w5 = writeInvitationEvent now ''member.joined'' (inv_org_id v) (u_id u) (Some (u_id u))
                 (JObj [(''orgId'', JStr (inv_org_id v)), (''userId'', JStr (u_id u)),
                        (''role'', JStr (role_name (inv_role v)))]) w4
      in and_then (issueTokenPair cr now (u_id u) (inv_org_id v) (role_name (inv_role v)) (u_is_platform_admin u) None w5)
           (\<lambda>tokens w6. (Inr (tokens, u_id u), w6 :: 'a inv_db_scheme)))"
  have "acceptInvitation cr now tok w = and_then (invited_user now (inv_email v) w) rest"
    using v by (simp add: acceptInvitation_def rest_def)
  with assms obtain u w1 where u: "invited_user now (inv_email v) w = (Inr u, w1)" and r: "rest u w1 = (Inr (tp, i), w')"
    by (auto simp: and_then_Inr)
  note fr = invited_user_frame [OF u]
  from r have "i = u_id u" by (auto simp: rest_def and_then_Inr Let_def)
  moreover from r have "invitations w' = update_where (\<lambda>r. inv_id r = inv_id v)
      (\<lambda>r. r\<lparr>inv_status := InvAccepted, inv_accepted_at := Some now\<rparr>) (invitations w)"
    by (auto simp: rest_def and_then_Inr Let_def fr dest!: issueTokenPair_frame)
  moreover from r have "org_memberships w' = org_memberships (snd (createMembership now (inv_org_id v) (u_id u) (inv_role v)
        (Some (inv_invited_by v)) (Some now) w1))"
    by (auto simp: rest_def and_then_Inr Let_def dest!: issueTokenPair_frame)
  moreover from r have "organizations w' = organizations w"
    by (auto simp: rest_def and_then_Inr Let_def fr dest!: issueTokenPair_frame)
  ultimately show thesis using that v u fr by metis
qed

section \<open>Properties\<close>

definition ex_invitation :: invitation where
  "ex_invitation = \<lparr>inv_id = ''v1'', inv_org_id = ''g'', inv_invited_by = ''u2'', inv_email = ''a@x.io'', inv_role = Guest,
     inv_token_hash = ''hinv'', inv_status = InvPending, inv_expires_at = 1000, inv_accepted_at = None,
     inv_revoked_at = None, inv_created_at = 0\<rparr>"

definition ex_inv_db :: "membership list \<Rightarrow> inv_db" where
  "ex_inv_db ms = auth_db.extend (ex_auth\<lparr>organizations := [(ex_org ''g'' OrgActive)\<lparr>o_max_members := 1\<rparr>], org_memberships := ms\<rparr>)
     \<lparr>invitations = [ex_invitation]\<rparr>"

lemma ex_inv_db_simps [simp]:
  "invitations (ex_inv_db ms) = [ex_invitation]" "org_memberships (ex_inv_db ms) = ms"
  "organizations (ex_inv_db ms) = [(ex_org ''g'' OrgActive)\<lparr>o_max_members := 1\<rparr>]" "users (ex_inv_db ms) = [ex_user]"
  "refresh_tokens (ex_inv_db ms) = [ex_rt]" "entropy (ex_inv_db ms) = entropy ex_auth"
  by (simp_all add: ex_inv_db_def auth_db.extend_def ex_auth_def)

lemma ex_hash: "hashToken ex_crypto t = CHR ''h'' # t"
  by (simp add: hashToken_def ex_crypto_def)

lemma createMembership_tokens [simp]:
  "refresh_tokens (snd (createMembership now g u r ib jn w)) = refresh_tokens w"
  "entropy (snd (createMembership now g u r ib jn v)) = entropy v"
  by (simp_all add: createMembership_def draw_def Let_def split: option.split)

lemma seed_tokens [simp]:
  "refresh_tokens (seedNotificationPreferences g u w) = refresh_tokens w"
  "entropy (seedNotificationPreferences g u w) = entropy w"
proof -
  have "refresh_tokens (insert_preference g u ev v) = refresh_tokens v \<and> entropy (insert_preference g u ev v) = entropy v"
    for ev and v :: "'a auth_db_scheme" by (simp add: insert_preference_def draw_def Let_def)
  then have "refresh_tokens (fold (insert_preference g u) evs w) = refresh_tokens w \<and>
      entropy (fold (insert_preference g u) evs w) = entropy w" for evs by (induction evs arbitrary: w) simp_all
  then show "refresh_tokens (seedNotificationPreferences g u w) = refresh_tokens w"
    "entropy (seedNotificationPreferences g u w) = entropy w" by (simp_all add: seedNotificationPreferences_def)
qed

lemma issueTokenPair_ok:
  assumes "hashToken cr (entropy w (Suc (drawn w))) \<notin> rt_token_hash ` set (refresh_tokens w)"
  shows "\<exists>tp w'. issueTokenPair cr now u g r a m w = (Inr tp, w')"
  using assms by (simp add: issueTokenPair_def generateAccessToken_def createRefreshToken_def draw_def Let_def)

lemma ex_accept: "\<exists>tp w'. acceptInvitation ex_crypto 500 ''inv'' (ex_inv_db ms) = (Inr (tp, ''u1''), w')"
proof -
  have u: "invited_user 500 ''a@x.io'' (ex_inv_db ms) = (Inr ex_user, ex_inv_db ms)"
    by (simp add: invited_user_def findUserByEmail_def ex_user_def new_user_def user_live_def ex_email)
  define v where "v = writeInvitationEvent 500 ''member.joined'' ''g'' ''u1'' (Some ''u1'')
      (JObj [(''orgId'', JStr ''g''), (''userId'', JStr ''u1''), (''role'', JStr (role_name Guest))])
      (set_invitation ''v1'' (\<lambda>r. r\<lparr>inv_status := InvAccepted, inv_accepted_at := Some 500\<rparr>)
        (seedNotificationPreferences ''g'' ''u1'' (snd (createMembership 500 ''g'' ''u1'' Guest (Some ''u2'') (Some 500) (ex_inv_db ms)))))"
  have "refresh_tokens v = [ex_rt]" "entropy v = entropy ex_auth"
    by (simp_all add: v_def writeInvitationEvent_def set_invitation_def)
  then have "\<exists>tp w'. issueTokenPair ex_crypto 500 ''u1'' ''g'' (role_name Guest) False None v = (Inr tp, w')"
    by (intro issueTokenPair_ok) (simp add: ex_hash ex_rt_def ex_auth_def replicate_eq_replicate [of _ _ 1, symmetric])
  with u show ?thesis
    by (auto simp: acceptInvitation_def ex_hash ex_invitation_def Let_def v_def ex_user_def new_user_def)
qed

text \<open>C14. An invitation works once: accepting it gives the invited user the membership with the invited role;
  the same token is then answered 410 and changes nothing, at any later time; so is the token of
  an invitation that was revoked.\<close>

theorem invitation_single_use:
  fixes w :: "'a inv_db_scheme"
  assumes "distinct (map inv_token_hash (invitations w))" and "distinct (map inv_id (invitations w))"
    and "v \<in> set (invitations w)" and "inv_token_hash v = hashToken cr tok"
  shows "(\<forall>tp i w'. acceptInvitation cr now tok w = (Inr (tp, i), w') \<longrightarrow>
            map_option (\<lambda>m. (m_role m, m_status m)) (findMembership (inv_org_id v) i w') = Some (inv_role v, MActive) \<and>
            acceptInvitation cr t tok w' = (Inl (AppError 410 ''INVITATION_GONE'' []), w')) \<and>
         (\<forall>w'. revokeInvitation now (inv_org_id v) (inv_id v) a w = (Inr (), w') \<longrightarrow>
            acceptInvitation cr t tok w' = (Inl (AppError 410 ''INVITATION_GONE'' []), w'))"
proof -
  let ?Q = "\<lambda>i. inv_token_hash i = hashToken cr tok"
  have f: "List.find ?Q (invitations w) = Some v"
    using find_by_key [OF assms(1,3), of "\<lambda>_. True"] assms(4) by simp
  have gone: "acceptInvitation cr t tok w' = (Inl (AppError 410 ''INVITATION_GONE'' []), w')"
    if "List.find ?Q (invitations w') = Some x" "inv_status x \<noteq> InvPending" for w' x
    using that by (simp add: acceptInvitation_def)
  show ?thesis
  proof (intro conjI allI impI)
    fix tp i w'
    assume a: "acceptInvitation cr now tok w = (Inr (tp, i), w')"
    then obtain v' and u :: user and w1 :: "'a inv_db_scheme" where s: "List.find ?Q (invitations w) = Some v'" "i = u_id u"
      "invitations w' = update_where (\<lambda>r. inv_id r = inv_id v') (\<lambda>r. r\<lparr>inv_status := InvAccepted, inv_accepted_at := Some now\<rparr>) (invitations w)"
      "org_memberships w' = org_memberships (snd (createMembership now (inv_org_id v') (u_id u) (inv_role v')
          (Some (inv_invited_by v')) (Some now) w1))"
      by (rule accept_success)
    have v': "v' = v" using s(1) f by simp
    have "findMembership (inv_org_id v) i w' = Some (fst (createMembership now (inv_org_id v) i (inv_role v)
          (Some (inv_invited_by v)) (Some now) w1))"
      using findMembership_createMembership [of "inv_org_id v" i now "inv_role v" "Some (inv_invited_by v)" "Some now" w1]
        s(2,4) v' by (simp add: findMembership_def)
    then show "map_option (\<lambda>m. (m_role m, m_status m)) (findMembership (inv_org_id v) i w') = Some (inv_role v, MActive)"
      by (simp add: createMembership_def draw_def Let_def split: option.split)
    have "List.find ?Q (invitations w') = Some (v\<lparr>inv_status := InvAccepted, inv_accepted_at := Some now\<rparr>)"
      unfolding s(3) v' by (subst find_update_where_keep) (simp_all add: f)
    then show "acceptInvitation cr t tok w' = (Inl (AppError 410 ''INVITATION_GONE'' []), w')" by (rule gone) simp
  next
    fix w'
    assume r: "revokeInvitation now (inv_org_id v) (inv_id v) a w = (Inr (), w')"
    let ?P = "\<lambda>i. inv_id i = inv_id v \<and> inv_org_id i = inv_org_id v \<and> inv_status i = InvPending"
    have inv: "invitations w' = update_where ?P (\<lambda>i. i\<lparr>inv_status := InvRevoked, inv_revoked_at := Some now\<rparr>) (invitations w)"
      and ex: "list_ex ?P (invitations w)"
      using r by (auto simp: revokeInvitation_def Let_def split: if_splits)
    from ex inj_on_key [OF assms(2) _ assms(3)] have "?P v" by (auto simp: list_ex_iff)
    then have "List.find ?Q (invitations w') = Some (v\<lparr>inv_status := InvRevoked, inv_revoked_at := Some now\<rparr>)"
      unfolding inv by (subst find_update_where_keep) (simp_all add: f)
    then show "acceptInvitation cr t tok w' = (Inl (AppError 410 ''INVITATION_GONE'' []), w')" by (rule gone) simp
  qed
qed

theorem invitation_single_use_witness:
  "\<exists>tp w'. acceptInvitation ex_crypto 500 ''inv'' (ex_inv_db []) = (Inr (tp, ''u1''), w') \<and>
     map_option (\<lambda>m. (m_role m, m_status m)) (findMembership ''g'' ''u1'' w') = Some (Guest, MActive) \<and>
     acceptInvitation ex_crypto 600 ''inv'' w' = (Inl (AppError 410 ''INVITATION_GONE'' []), w')"
proof -
  obtain tp w' where a: "acceptInvitation ex_crypto 500 ''inv'' (ex_inv_db []) = (Inr (tp, ''u1''), w')"
    using ex_accept by blast
  have "distinct (map inv_token_hash (invitations (ex_inv_db [])))" "distinct (map inv_id (invitations (ex_inv_db [])))"
    "ex_invitation \<in> set (invitations (ex_inv_db []))" "inv_token_hash ex_invitation = hashToken ex_crypto ''inv''"
    by (simp_all add: ex_hash ex_invitation_def)
  from invitation_single_use [OF this, of 500 600] a show ?thesis by (auto simp: ex_invitation_def)
qed

text \<open>The member limit is checked when an invitation is sent, not when it is accepted: in an organization
  that is full, an invited user who is not a member joins and the limit is exceeded.\<close>

theorem accept_exceeds_member_limit:
  fixes w :: "'a inv_db_scheme"
  assumes "acceptInvitation cr now tok w = (Inr (tp, i), w')"
    and "List.find (\<lambda>x. inv_token_hash x = hashToken cr tok) (invitations w) = Some v"
    and "findMembership (inv_org_id v) i w = None" and "org_findById (inv_org_id v) w = Some r"
    and "int (countActiveMembers (inv_org_id v) w) = o_max_members r"
  shows "org_findById (inv_org_id v) w' = Some r \<and> o_max_members r < int (countActiveMembers (inv_org_id v) w')"
proof -
  from assms(1) obtain v' and u :: user and w1 :: "'a inv_db_scheme" where s: "List.find (\<lambda>x. inv_token_hash x = hashToken cr tok) (invitations w) = Some v'"
      "i = u_id u" "org_memberships w' = org_memberships (snd (createMembership now (inv_org_id v') (u_id u) (inv_role v')
          (Some (inv_invited_by v')) (Some now) w1))" "org_memberships w1 = org_memberships w" "organizations w' = organizations w"
    by (rule accept_success)
  have "findMembership (inv_org_id v) i w1 = None" using assms(3) s(4) by (simp add: findMembership_def)
  then have "countActiveMembers (inv_org_id v) w' = Suc (countActiveMembers (inv_org_id v) w)"
    using s assms(2) by (simp add: countActiveMembers_def createMembership_def draw_def Let_def)
  with assms(4,5) s(5) show ?thesis by (simp add: org_findById_def)
qed

theorem accept_exceeds_member_limit_witness:
  "\<exists>tp w' r. acceptInvitation ex_crypto 500 ''inv'' (ex_inv_db [ex_member ''g'' ''u2'' OrgOwner]) = (Inr (tp, ''u1''), w') \<and>
     org_findById ''g'' w' = Some r \<and> o_max_members r < int (countActiveMembers ''g'' w')"
proof -
  let ?w = "ex_inv_db [ex_member ''g'' ''u2'' OrgOwner]" and ?r = "(ex_org ''g'' OrgActive)\<lparr>o_max_members := 1\<rparr>"
  obtain tp w' where a: "acceptInvitation ex_crypto 500 ''inv'' ?w = (Inr (tp, ''u1''), w')" using ex_accept by blast
  have "List.find (\<lambda>x. inv_token_hash x = hashToken ex_crypto ''inv'') (invitations ?w) = Some ex_invitation"
    "findMembership (inv_org_id ex_invitation) ''u1'' ?w = None" "org_findById (inv_org_id ex_invitation) ?w = Some ?r"
    "int (countActiveMembers (inv_org_id ex_invitation) ?w) = o_max_members ?r"
    by (simp_all add: ex_hash ex_invitation_def findMembership_def org_findById_def countActiveMembers_def ex_member_def ex_org_def)
  from accept_exceeds_member_limit [OF a this] a show ?thesis by (auto simp: ex_invitation_def)
qed

text \<open>Accepting an invitation overwrites the role of a user who already is a member: the owner of an
  organization who follows an invitation as a guest is a guest afterwards.\<close>

theorem accept_overwrites_role:
  fixes w :: "'a inv_db_scheme"
  assumes "acceptInvitation cr now tok w = (Inr (tp, i), w')"
    and "List.find (\<lambda>x. inv_token_hash x = hashToken cr tok) (invitations w) = Some v"
    and "findMembership (inv_org_id v) i w = Some m"
  shows "findMembership (inv_org_id v) i w' = Some (m\<lparr>m_role := inv_role v, m_status := MActive, m_joined_at := Some now,
    m_updated_at := now\<rparr>)"
proof -
  from assms(1) obtain v' and u :: user and w1 :: "'a inv_db_scheme" where s: "List.find (\<lambda>x. inv_token_hash x = hashToken cr tok) (invitations w) = Some v'"
      "i = u_id u" "org_memberships w' = org_memberships (snd (createMembership now (inv_org_id v') (u_id u) (inv_role v')
          (Some (inv_invited_by v')) (Some now) w1))" "org_memberships w1 = org_memberships w"
    by (rule accept_success)
  have m1: "findMembership (inv_org_id v) i w1 = Some m" using assms(3) s(4) by (simp add: findMembership_def)
  then have "m_deleted_at m = None" by (auto simp: findMembership_def dest: find_SomeD)
  moreover have "findMembership (inv_org_id v) i w' = Some (fst (createMembership now (inv_org_id v) i (inv_role v)
        (Some (inv_invited_by v)) (Some now) w1))"
    using findMembership_createMembership [of "inv_org_id v" i now "inv_role v" "Some (inv_invited_by v)" "Some now" w1]
      s assms(2) by (simp add: findMembership_def)
  ultimately show ?thesis using m1 by (simp add: createMembership_def Let_def)
qed

theorem accept_overwrites_role_witness:
  "\<exists>tp w' m. acceptInvitation ex_crypto 500 ''inv'' (ex_inv_db [ex_member ''g'' ''u1'' OrgOwner]) = (Inr (tp, ''u1''), w') \<and>
     findMembership ''g'' ''u1'' w' = Some m \<and> m_role m = Guest"
proof -
  let ?w = "ex_inv_db [ex_member ''g'' ''u1'' OrgOwner]"
  obtain tp w' where a: "acceptInvitation ex_crypto 500 ''inv'' ?w = (Inr (tp, ''u1''), w')" using ex_accept by blast
  have "List.find (\<lambda>x. inv_token_hash x = hashToken ex_crypto ''inv'') (invitations ?w) = Some ex_invitation"
    "findMembership (inv_org_id ex_invitation) ''u1'' ?w = Some (ex_member ''g'' ''u1'' OrgOwner)"
    by (simp_all add: ex_hash ex_invitation_def findMembership_def ex_member_def)
  from accept_overwrites_role [OF a this] a show ?thesis by (auto simp: ex_invitation_def)
qed

end
