(* ===== verification/Payment.thy ===== *)
theory Payment
  imports Organization
begin

text \<open>
  \<^verbatim>\<open>src/modules/payment\<close>: the repositories, orders and their verification, the Razorpay webhook
  and the payment worker with the grace period.  The Razorpay service is a set of arguments: the
  outcome of creating an order and the keyed hash behind its signatures.
\<close>

section \<open>State\<close>

datatype payment_status = PCreated | PAuthorized | PCaptured | PFailed | PRefunded | PDisputed

record payment =
  p_id :: uuid
  p_org_id :: uuid
  p_razorpay_order_id :: string
  p_razorpay_payment_id :: "string option"
  p_amount_paise :: int
  p_currency :: string
  p_status :: payment_status
  p_failure_reason :: "string option"
  p_captured_at :: "timestamp option"
  p_refunded_at :: "timestamp option"
  p_idempotency_key :: string
  p_metadata :: json
  p_created_at :: timestamp
  p_updated_at :: timestamp

record pay_db = dir +
  payments :: "payment list"

section \<open>Repositories\<close>

record create_payment_data =
  cp_org_id :: uuid
  cp_razorpay_order_id :: string
  cp_amount_paise :: int
  cp_currency :: "string option"
  cp_status :: payment_status
  cp_idempotency_key :: string
  cp_metadata :: "json option"

definition payment_create ::
    "timestamp \<Rightarrow> create_payment_data \<Rightarrow> 'a pay_db_scheme \<Rightarrow> payment outcome \<times> 'a pay_db_scheme" where
  "payment_create now d w =
     (if cp_razorpay_order_id d \<in> p_razorpay_order_id ` set (payments w) \<or>
         cp_idempotency_key d \<in> p_idempotency_key ` set (payments w)
      then (Inl (PgError ''23505''), w)
      else let (i, w1) = draw w;
               p = \<lparr>p_id = i, p_org_id = cp_org_id d, p_razorpay_order_id = cp_razorpay_order_id d,
                    p_razorpay_payment_id = None, p_amount_paise = cp_amount_paise d,
                    p_currency = case_option ''INR'' id (cp_currency d), p_status = cp_status d,
                    p_failure_reason = None, p_captured_at = None, p_refunded_at = None,
                    p_idempotency_key = cp_idempotency_key d, p_metadata = case_option (JObj []) id (cp_metadata d),
                    p_created_at = now, p_updated_at = now\<rparr>
           in (Inr p, w1\<lparr>payments := payments w1 @ [p]\<rparr>))"

definition findByOrderId :: "string \<Rightarrow> 'a pay_db_scheme \<Rightarrow> payment option" where
  "findByOrderId orderId w = List.find (\<lambda>p. p_razorpay_order_id p = orderId) (payments w)"

definition findByIdempotencyKey :: "string \<Rightarrow> 'a pay_db_scheme \<Rightarrow> payment option" where
  "findByIdempotencyKey key w = List.find (\<lambda>p. p_idempotency_key p = key) (payments w)"

definition payment_findByOrg :: "uuid \<Rightarrow> nat \<Rightarrow> nat \<Rightarrow> 'a pay_db_scheme \<Rightarrow> payment list" where
  "payment_findByOrg orgId n m w =
     limit_offset n m (rev (sort_key p_created_at (filter (\<lambda>p. p_org_id p = orgId) (payments w))))"

record payment_extra =
  px_razorpay_payment_id :: "string option"
  px_failure_reason :: "string option"
  px_captured_at :: "timestamp option"
  px_refunded_at :: "timestamp option"

definition no_extra :: payment_extra where
  "no_extra = \<lparr>px_razorpay_payment_id = None, px_failure_reason = None, px_captured_at = None, px_refunded_at = None\<rparr>"

definition payment_set :: "timestamp \<Rightarrow> payment_status \<Rightarrow> payment_extra \<Rightarrow> payment \<Rightarrow> payment" where
  "payment_set now st x p = p\<lparr>p_status := st,
     p_razorpay_payment_id := (case px_razorpay_payment_id x of None \<Rightarrow> p_razorpay_payment_id p | v \<Rightarrow> v),
     p_failure_reason := (case px_failure_reason x of None \<Rightarrow> p_failure_reason p | v \<Rightarrow> v),
     p_captured_at := (case px_captured_at x of None \<Rightarrow> p_captured_at p | v \<Rightarrow> v),
     p_refunded_at := (case px_refunded_at x of None \<Rightarrow> p_refunded_at p | v \<Rightarrow> v),
     p_updated_at := now\<rparr>"

text \<open>A Razorpay payment identifier belongs to one row.\<close>

definition payment_updateStatus ::
    "timestamp \<Rightarrow> string \<Rightarrow> payment_status \<Rightarrow> payment_extra \<Rightarrow> 'a pay_db_scheme
     \<Rightarrow> payment option outcome \<times> 'a pay_db_scheme" where
  "payment_updateStatus now orderId st x w =
     (let P = (\<lambda>p. p_razorpay_order_id p = orderId)
      in if list_ex P (payments w) \<and>
            (case px_razorpay_payment_id x of None \<Rightarrow> False
             | Some i \<Rightarrow> list_ex (\<lambda>p. \<not> P p \<and> p_razorpay_payment_id p = Some i) (payments w))
         then (Inl (PgError ''23505''), w)
         else (Inr (returning P (payment_set now st x) (payments w)),
               w\<lparr>payments := update_where P (payment_set now st x) (payments w)\<rparr>))"

text \<open>A UUID column compared with the empty string is an error.\<close>

definition sub_findByOrg :: "uuid \<Rightarrow> 'a dir_scheme \<Rightarrow> subscription option outcome" where
  "sub_findByOrg orgId w =
     (if orgId = '''' then Inl (PgError ''22P02'')
      else Inr (List.find (\<lambda>b. sb_org_id b = orgId) (subscriptions w)))"

record sub_data =
  sd_razorpay_subscription_id :: "string option"
  sd_plan_tier :: plan_tier
  sd_status :: "subscription_status option"
  sd_current_period_start :: "timestamp option"
  sd_current_period_end :: "timestamp option"

definition sub_upsert :: "uuid \<Rightarrow> sub_data \<Rightarrow> 'a dir_scheme \<Rightarrow> 'a dir_scheme" where
  "sub_upsert orgId d w =
     (let st = case_option SubActive id (sd_status d) in
      if list_ex (\<lambda>b. sb_org_id b = orgId) (subscriptions w)
      then w\<lparr>subscriptions := update_where (\<lambda>b. sb_org_id b = orgId)
              (\<lambda>b. b\<lparr>sb_razorpay_subscription_id :=
                        (case sd_razorpay_subscription_id d of None \<Rightarrow> sb_razorpay_subscription_id b | v \<Rightarrow> v),
                      sb_plan_tier := sd_plan_tier d, sb_status := st,
                      sb_current_period_start :=
                        (case sd_current_period_start d of None \<Rightarrow> sb_current_period_start b | v \<Rightarrow> v),
                      sb_current_period_end :=
                        (case sd_current_period_end d of None \<Rightarrow> sb_current_period_end b | v \<Rightarrow> v)\<rparr>)
              (subscriptions w)\<rparr>
      else let (i, w1) = draw w
           in w1\<lparr>subscriptions := subscriptions w1 @
                [\<lparr>sb_id = i, sb_org_id = orgId, sb_razorpay_subscription_id = sd_razorpay_subscription_id d,
                  sb_plan_tier = sd_plan_tier d, sb_status = st, sb_current_period_start = sd_current_period_start d,
                  sb_current_period_end = sd_current_period_end d, sb_cancel_at_period_end = False,
                  sb_cancelled_at = None\<rparr>]\<rparr>)"

definition sub_updateStatus ::
    "uuid \<Rightarrow> subscription_status \<Rightarrow> timestamp option option \<Rightarrow> bool option \<Rightarrow> 'a dir_scheme
     \<Rightarrow> subscription option \<times> 'a dir_scheme" where
  "sub_updateStatus orgId st cancelled_at cancel w =
     (let P = (\<lambda>b. sb_org_id b = orgId);
          f = (\<lambda>b. b\<lparr>sb_status := st, sb_cancelled_at := patched (sb_cancelled_at b) cancelled_at,
                      sb_cancel_at_period_end := patched (sb_cancel_at_period_end b) cancel\<rparr>)
      in (returning P f (subscriptions w), w\<lparr>subscriptions := update_where P f (subscriptions w)\<rparr>))"

section \<open>Signatures\<close>

text \<open>\<^verbatim>\<open>Buffer.from(s, 'hex')\<close>: pairs of hexadecimal digits up to the first pair that is not one.\<close>

definition hex_digit :: "char \<Rightarrow> nat option" where
  "hex_digit c = (let n = of_char c :: nat in
     if 48 \<le> n \<and> n \<le> 57 then Some (n - 48)
     else if 97 \<le> n \<and> n \<le> 102 then Some (n - 87)
     else if 65 \<le> n \<and> n \<le> 70 then Some (n - 55) else None)"

fun hex_bytes :: "string \<Rightarrow> nat list" where
  "hex_bytes (a # b # s) =
     (case (hex_digit a, hex_digit b) of (Some x, Some y) \<Rightarrow> (16 * x + y) # hex_bytes s | _ \<Rightarrow> [])"
| "hex_bytes s = []"

text \<open>\<open>hmac payload\<close> is the hexadecimal keyed hash.\<close>

definition verifyPaymentSignature :: "(string \<Rightarrow> string) \<Rightarrow> string \<Rightarrow> string \<Rightarrow> string \<Rightarrow> bool" where
  "verifyPaymentSignature hmac orderId paymentId signature =
     (let computed = hex_bytes (hmac (orderId @ ''|'' @ paymentId)); sig = hex_bytes signature
      in if length computed \<noteq> length sig then False else computed = sig)"

definition verifyWebhookSignature :: "(string \<Rightarrow> string) \<Rightarrow> string \<Rightarrow> string \<Rightarrow> bool" where
  "verifyWebhookSignature hmac rawBody signature =
     (let computed = hex_bytes (hmac rawBody); sig = hex_bytes signature
      in if length computed \<noteq> length sig then False else computed = sig)"

section \<open>Orders\<close>

definition PLAN_AMOUNTS :: "(string \<times> (string \<times> int) list) list" where
  "PLAN_AMOUNTS =
     [(''pro'', [(''monthly'', 99900), (''annual'', 999900)]),
      (''business'', [(''monthly'', 299900), (''annual'', 2999900)]),
      (''enterprise'', [(''monthly'', 999900), (''annual'', 9999900)])]"

definition writePaymentEvent ::
    "timestamp \<Rightarrow> string \<Rightarrow> uuid \<Rightarrow> string \<Rightarrow> json \<Rightarrow> 'a base_scheme \<Rightarrow> 'a base_scheme" where
  "writePaymentEvent now eventType orgId entityId payload w =
     insert_outbox now (Some orgId) eventType ''payment'' entityId None payload w"

definition idempotency_key :: "timestamp \<Rightarrow> uuid \<Rightarrow> string \<Rightarrow> string \<Rightarrow> string" where
  "idempotency_key now orgId planTier billingCycle =
     orgId @ '':'' @ planTier @ '':'' @ billingCycle @ '':'' @ show_nat (nat (now div 86400000))"

text \<open>\<open>create_order amount receipt\<close> is the identifier of the new order, or the error of the service.\<close>

definition createOrder ::
    "(int \<Rightarrow> string \<Rightarrow> string outcome) \<Rightarrow> timestamp \<Rightarrow> uuid \<Rightarrow> string \<Rightarrow> string \<Rightarrow> uuid \<Rightarrow> 'a pay_db_scheme
     \<Rightarrow> (string \<times> payment) outcome \<times> 'a pay_db_scheme" where
  "createOrder create_order now orgId planTier billingCycle userId w =
     (case map_of PLAN_AMOUNTS planTier of
        None \<Rightarrow> (Inl (AppError 422 ''INVALID_PLAN'' [planTier]), w)
      | Some amounts \<Rightarrow>
          (case map_of amounts billingCycle of
             None \<Rightarrow> (Inl (AppError 422 ''INVALID_BILLING_CYCLE'' [billingCycle]), w)
           | Some amount \<Rightarrow>
               (let key = idempotency_key now orgId planTier billingCycle
                in case findByIdempotencyKey key w of
                     Some p \<Rightarrow> (Inr (p_razorpay_order_id p, p), w)
                   | None \<Rightarrow>
                       (case create_order amount (take 8 orgId @ ''-'' @ billingCycle @ ''-'' @ show_nat (nat (now div 86400000))) of
                          Inl e \<Rightarrow> (Inl e, w)
                        | Inr orderId \<Rightarrow>
                            and_then (payment_create now \<lparr>cp_org_id = orgId, cp_razorpay_order_id = orderId, cp_amount_paise = amount,
                                        cp_currency = None, cp_status = PCreated, cp_idempotency_key = key,
                                        cp_metadata = Some (JObj [(''planTier'', JStr planTier), (''billingCycle'', JStr billingCycle),
                                                                  (''userId'', JStr userId)])\<rparr> w)
                              (\<lambda>p w1. (Inr (orderId, p), writePaymentEvent now ''payment.created'' orgId (p_id p)
                                 (JObj [(''paymentId'', JStr (p_id p)), (''orderId'', JStr orderId), (''amountPaise'', JNum amount),
                                        (''planTier'', JStr planTier)]) w1))))))"

definition plan_of :: "string \<Rightarrow> plan_tier option" where
  "plan_of s = (if s = ''free'' then Some Free else if s = ''pro'' then Some Pro
                else if s = ''business'' then Some Business else if s = ''enterprise'' then Some Enterprise else None)"

definition set_plan :: "timestamp \<Rightarrow> plan_tier \<Rightarrow> uuid \<Rightarrow> 'a dir_scheme \<Rightarrow> 'a dir_scheme" where
  "set_plan now tier orgId w =
     w\<lparr>organizations := update_where (\<lambda>r. o_id r = orgId) (\<lambda>r. r\<lparr>o_plan_tier := tier, o_updated_at := now\<rparr>) (organizations w)\<rparr>"

definition payment_plan :: "payment \<Rightarrow> string" where
  "payment_plan p = (case json_field ''planTier'' (p_metadata p) of Some (JStr s) \<Rightarrow> s | _ \<Rightarrow> ''pro'')"

definition verifyPayment ::
    "(string \<Rightarrow> string) \<Rightarrow> timestamp \<Rightarrow> uuid \<Rightarrow> string \<Rightarrow> string \<Rightarrow> string \<Rightarrow> 'a pay_db_scheme
     \<Rightarrow> payment outcome \<times> 'a pay_db_scheme" where
  "verifyPayment hmac now orgId orderId paymentId signature w =
     (if \<not> verifyPaymentSignature hmac orderId paymentId signature
      then (Inl (AppError 400 ''INVALID_PAYMENT_SIGNATURE'' []), w)
      else case findByOrderId orderId w of
             None \<Rightarrow> (Inl (NotFoundError ''Payment''), w)
           | Some p \<Rightarrow>
               if p_org_id p \<noteq> orgId then (Inl (NotFoundError ''Payment''), w)
               else if p_status p = PCaptured then (Inr p, w)
               else and_then (payment_updateStatus now orderId PCaptured
                                (no_extra\<lparr>px_razorpay_payment_id := Some paymentId, px_captured_at := Some now\<rparr>) w)
                 (\<lambda>updated w1. case updated of
                      None \<Rightarrow> (Inl (ConflictError ''PAYMENT_UPDATE_CONFLICT''), w1)
                    | Some q \<Rightarrow>
                        (case plan_of (payment_plan p) of
                           None \<Rightarrow> (Inl (PgError ''23514''), w1)
                         | Some tier \<Rightarrow>
                             (let w2 = sub_upsert orgId \<lparr>sd_razorpay_subscription_id = None, sd_plan_tier = tier, sd_status = None,
                                         sd_current_period_start = None, sd_current_period_end = None\<rparr> w1;
                                  w3 = set_plan now tier orgId w2
                              in (Inr q, writePaymentEvent now ''payment.captured'' orgId (p_id q)
                                   (JObj [(''paymentId'', JStr (p_id q)), (''razorpayPaymentId'', JStr paymentId),
                                          (''planTier'', JStr (payment_plan p))]) w3)))))"

section \<open>Razorpay webhook\<close>

text \<open>The events of the schema with the fields the handlers read.\<close>

datatype webhook_event =
    PaymentCaptured (we_payment: string) (we_order: "string option")
  | PaymentFailed (we_payment: string) (we_order: "string option")
  | SubscriptionCharged (we_subscription: string)
  | RefundCreated (we_refund: string) (we_payment: string)
  | DisputeCreated (we_dispute: string) (we_payment: string)

text \<open>A body: not JSON, JSON of another shape, or an event.\<close>

datatype webhook_body = NotJson | UnknownShape | Event webhook_event

definition IDEMPOTENCY_TTL :: int where
  "IDEMPOTENCY_TTL = 7 * 24 * 3600"

definition reactivate_paid :: "timestamp \<Rightarrow> uuid \<Rightarrow> 'a dir_scheme \<Rightarrow> 'a dir_scheme" where
  "reactivate_paid now orgId w =
     w\<lparr>organizations := update_where (\<lambda>r. o_id r = orgId \<and> o_status r = OrgSuspended)
         (\<lambda>r. r\<lparr>o_status := OrgActive, o_grace_period_ends_at := None, o_updated_at := now\<rparr>) (organizations w)\<rparr>"

definition webhook_paymentCaptured ::
    "timestamp \<Rightarrow> string \<Rightarrow> string option \<Rightarrow> 'a pay_db_scheme \<Rightarrow> unit outcome \<times> 'a pay_db_scheme" where
  "webhook_paymentCaptured now paymentId order w =
     (if \<not> truthy order then (Inr (), w)
      else let orderId = case_option '''' id order
      in case findByOrderId orderId w of
           None \<Rightarrow> (Inr (), w)
         | Some p \<Rightarrow>
             if p_status p = PCaptured then (Inr (), w)
             else and_then (payment_updateStatus now orderId PCaptured
                              (no_extra\<lparr>px_razorpay_payment_id := Some paymentId, px_captured_at := Some now\<rparr>) w)
               (\<lambda>_ w1. (Inr (), writePaymentEvent now ''payment.captured'' (p_org_id p) (p_id p)
                            (JObj [(''paymentId'', JStr (p_id p))]) (reactivate_paid now (p_org_id p) w1))))"

definition webhook_paymentFailed ::
    "timestamp \<Rightarrow> string option \<Rightarrow> 'a pay_db_scheme \<Rightarrow> unit outcome \<times> 'a pay_db_scheme" where
  "webhook_paymentFailed now order w =
     (if \<not> truthy order then (Inr (), w)
      else let orderId = case_option '''' id order
      in case findByOrderId orderId w of
           None \<Rightarrow> (Inr (), w)
         | Some p \<Rightarrow>
             and_then (payment_updateStatus now orderId PFailed no_extra w)
               (\<lambda>_ w1. (Inr (), enqueue ''payments'' ''handle-payment-failure'' (JObj [(''orgId'', JStr (p_org_id p))]) 0 w1)))"

definition webhook_subscriptionCharged ::
    "timestamp \<Rightarrow> string \<Rightarrow> 'a dir_scheme \<Rightarrow> unit outcome \<times> 'a dir_scheme" where
  "webhook_subscriptionCharged now subId w =
     (case sub_findByOrg '''' w of
        Inl e \<Rightarrow> (Inl e, w)
      | Inr _ \<Rightarrow>
          (case List.find (\<lambda>b. sb_razorpay_subscription_id b = Some subId) (subscriptions w) of
             None \<Rightarrow> (Inr (), w)
           | Some b \<Rightarrow>
               (Inr (), writePaymentEvent now ''payment.subscription_charged'' (sb_org_id b) subId
                  (JObj [(''subscriptionId'', JStr subId)]) (reactivate_paid now (sb_org_id b) w))))"

definition webhook_refundCreated ::
    "timestamp \<Rightarrow> string \<Rightarrow> string \<Rightarrow> 'a pay_db_scheme \<Rightarrow> unit outcome \<times> 'a pay_db_scheme" where
  "webhook_refundCreated now refundId paymentId w =
     (let P = (\<lambda>p. p_razorpay_payment_id p = Some paymentId);
          f = (\<lambda>p. p\<lparr>p_status := PRefunded, p_refunded_at := Some now, p_updated_at := now\<rparr>);
          w1 = w\<lparr>payments := update_where P f (payments w)\<rparr>
      in case returning P f (payments w) of
           None \<Rightarrow> (Inr (), w1)
         | Some p \<Rightarrow> (Inr (), writePaymentEvent now ''payment.refunded'' (p_org_id p) (p_id p)
                        (JObj [(''refundId'', JStr refundId)]) w1))"

definition webhook_disputeCreated ::
    "timestamp \<Rightarrow> string \<Rightarrow> string \<Rightarrow> 'a pay_db_scheme \<Rightarrow> unit outcome \<times> 'a pay_db_scheme" where
  "webhook_disputeCreated now disputeId paymentId w =
     (let P = (\<lambda>p. p_razorpay_payment_id p = Some paymentId);
          f = (\<lambda>p. p\<lparr>p_status := PDisputed, p_updated_at := now\<rparr>);
          w1 = w\<lparr>payments := update_where P f (payments w)\<rparr>
      in case returning P f (payments w) of
           None \<Rightarrow> (Inr (), w1)
         | Some p \<Rightarrow> (Inr (), writePaymentEvent now ''payment.disputed'' (p_org_id p) (p_id p)
                        (JObj [(''disputeId'', JStr disputeId)]) w1))"

definition event_key :: "webhook_event \<Rightarrow> string" where
  "event_key ev =
     ''webhook:razorpay:'' @
     (case ev of
        PaymentCaptured i _ \<Rightarrow> ''payment.captured:'' @ i
      | PaymentFailed i _ \<Rightarrow> ''payment.failed:'' @ i
      | SubscriptionCharged i \<Rightarrow> ''subscription.charged:'' @ i
      | RefundCreated i _ \<Rightarrow> ''refund.created:'' @ i
      | DisputeCreated i _ \<Rightarrow> ''dispute.created:'' @ i)"

definition handle_event :: "timestamp \<Rightarrow> webhook_event \<Rightarrow> 'a pay_db_scheme \<Rightarrow> unit outcome \<times> 'a pay_db_scheme" where
  "handle_event now ev w =
     (case ev of
        PaymentCaptured i ord \<Rightarrow> webhook_paymentCaptured now i ord w
      | PaymentFailed i ord \<Rightarrow> webhook_paymentFailed now ord w
      | SubscriptionCharged i \<Rightarrow> webhook_subscriptionCharged now i w
      | RefundCreated i p \<Rightarrow> webhook_refundCreated now i p w
      | DisputeCreated i p \<Rightarrow> webhook_disputeCreated now i p w)"

text \<open>The route answers with an HTTP status; \<open>parse\<close> is the JSON parser followed by the schema.\<close>

definition razorpay_webhook ::
    "(string \<Rightarrow> string) \<Rightarrow> (string \<Rightarrow> webhook_body) \<Rightarrow> timestamp \<Rightarrow> string option \<Rightarrow> string \<Rightarrow> 'a pay_db_scheme
     \<Rightarrow> nat \<times> 'a pay_db_scheme" where
  "razorpay_webhook hmac parse now signature raw w =
     (if \<not> truthy signature then (400, w)
      else if \<not> verifyWebhookSignature hmac raw (case_option '''' id signature) then (400, w)
      else case parse raw of
             NotJson \<Rightarrow> (400, w)
           | UnknownShape \<Rightarrow> (200, w)
           | Event ev \<Rightarrow>
               if redis_get now (event_key ev) w \<noteq> None then (200, w)
               else (case handle_event now ev w of
                       (Inl e, w1) \<Rightarrow> (500, w1)
                     | (Inr _, w1) \<Rightarrow> (200, redis_setex now (event_key ev) (JStr ''1'') IDEMPOTENCY_TTL w1)))"

section \<open>Payment worker\<close>

definition GRACE_PERIOD_MS :: int where
  "GRACE_PERIOD_MS = 7 * 24 * 60 * 60 * 1000"

definition handlePaymentFailure :: "timestamp \<Rightarrow> uuid \<Rightarrow> 'a dir_scheme \<Rightarrow> 'a dir_scheme" where
  "handlePaymentFailure now orgId w =
     (case org_findById orgId w of
        None \<Rightarrow> w
      | Some r \<Rightarrow>
          if o_status r = OrgSuspended \<or> o_grace_period_ends_at r \<noteq> None then w
          else let w1 = w\<lparr>organizations := update_where (\<lambda>r. o_id r = orgId \<and> o_status r = OrgActive)
                            (\<lambda>r. r\<lparr>o_grace_period_ends_at := Some (now + GRACE_PERIOD_MS), o_updated_at := now\<rparr>) (organizations w)\<rparr>;
                   w2 = writeOrgEvent now ''org.grace_period_started'' orgId orgId None
                          (JObj [(''orgId'', JStr orgId), (''grace_period_ends_at'', JNum (now + GRACE_PERIOD_MS))]) w1
               in enqueue ''payments'' ''check-grace-period'' (JObj [(''orgId'', JStr orgId)]) GRACE_PERIOD_MS w2)"

definition checkGracePeriod :: "timestamp \<Rightarrow> uuid \<Rightarrow> 'a dir_scheme \<Rightarrow> unit outcome \<times> 'a dir_scheme" where
  "checkGracePeriod now orgId w =
     (case org_findById orgId w of
        None \<Rightarrow> (Inr (), w)
      | Some r \<Rightarrow>
          if o_status r \<noteq> OrgActive then (Inr (), w)
          else case o_grace_period_ends_at r of
                 None \<Rightarrow> (Inr (), w)
               | Some e \<Rightarrow> if now < e then (Inr (), w)
                          else suspendOrg now orgId ''Payment failure - grace period expired'' None w)"

definition worker_paymentCaptured :: "timestamp \<Rightarrow> uuid \<Rightarrow> 'a dir_scheme \<Rightarrow> unit outcome \<times> 'a dir_scheme" where
  "worker_paymentCaptured now orgId w =
     (case org_findById orgId w of
        None \<Rightarrow> (Inr (), w)
      | Some r \<Rightarrow>
          and_then (if o_status r = OrgSuspended then reactivateOrg now orgId None w else (Inr (), w))
            (\<lambda>_ w1. (Inr (), w1\<lparr>organizations := update_where (\<lambda>r. o_id r = orgId)
                (\<lambda>r. r\<lparr>o_grace_period_ends_at := None, o_updated_at := now\<rparr>) (organizations w1)\<rparr>)))"

definition paymentWorkerJob :: "timestamp \<Rightarrow> string \<Rightarrow> uuid \<Rightarrow> 'a dir_scheme \<Rightarrow> unit outcome \<times> 'a dir_scheme" where
  "paymentWorkerJob now jobName orgId w =
     (if jobName = ''handle-payment-failure'' then (Inr (), handlePaymentFailure now orgId w)
      else if jobName = ''check-grace-period'' then checkGracePeriod now orgId w
      else if jobName = ''payment-captured'' then worker_paymentCaptured now orgId w
      else (Inr (), w))"

section \<open>Facts\<close>

lemma pay_frame [simp]:
  "payments (writePaymentEvent now ev g i pl w) = payments w"
  "organizations (writePaymentEvent now ev g i pl v) = organizations v"
  "subscriptions (writePaymentEvent now ev g i pl v) = subscriptions v"
  "payments (redis_setex now k j ttl w) = payments w"
  "payments (set_plan now tier g w) = payments w" "payments (reactivate_paid now g w) = payments w"
  "subscriptions (set_plan now tier g v) = subscriptions v" "subscriptions (reactivate_paid now g v) = subscriptions v"
  by (simp_all add: writePaymentEvent_def insert_outbox_def draw_def redis_setex_def set_plan_def reactivate_paid_def)

lemma sub_upsert_frame [simp]:
  "payments (sub_upsert g d w) = payments w" "organizations (sub_upsert g d v) = organizations v"
  by (simp_all add: sub_upsert_def draw_def Let_def)

lemma payment_set_simps [simp]:
  "p_razorpay_order_id (payment_set now st x p) = p_razorpay_order_id p" "p_status (payment_set now st x p) = st"
  "p_org_id (payment_set now st x p) = p_org_id p" "p_metadata (payment_set now st x p) = p_metadata p"
  "p_id (payment_set now st x p) = p_id p"
  by (simp_all add: payment_set_def)

text \<open>A status update of a known order whose payment identifier is new.\<close>

lemma payment_updateStatus_ok:
  assumes "findByOrderId ord w = Some p"
    and "case px_razorpay_payment_id x of None \<Rightarrow> True
         | Some i \<Rightarrow> \<not> list_ex (\<lambda>q. p_razorpay_order_id q \<noteq> ord \<and> p_razorpay_payment_id q = Some i) (payments w)"
  obtains w1 where "payment_updateStatus now ord st x w = (Inr (Some (payment_set now st x p)), w1)"
    "findByOrderId ord w1 = Some (payment_set now st x p)" "organizations w1 = organizations w"
    "subscriptions w1 = subscriptions w"
proof -
  let ?P = "\<lambda>p. p_razorpay_order_id p = ord" and ?f = "payment_set now st x"
  let ?w1 = "w\<lparr>payments := update_where ?P ?f (payments w)\<rparr>"
  have f: "List.find ?P (payments w) = Some p" using assms(1) by (simp add: findByOrderId_def)
  have "payment_updateStatus now ord st x w = (Inr (Some (?f p)), ?w1)"
    using assms(2) f by (auto simp: payment_updateStatus_def returning_def Let_def split: option.splits)
  moreover have "findByOrderId ord ?w1 = Some (?f p)"
    using find_SomeD [OF f] by (simp add: findByOrderId_def find_upsert [OF f])
  ultimately show thesis by (intro that [of ?w1]) simp_all
qed

lemma sub_upsert_find:
  "\<exists>b. List.find (\<lambda>b. sb_org_id b = g) (subscriptions (sub_upsert g d w)) = Some b \<and> sb_plan_tier b = sd_plan_tier d \<and>
     sb_status b = case_option SubActive id (sd_status d)"
proof (cases "List.find (\<lambda>b. sb_org_id b = g) (subscriptions w)")
  case None
  then have "\<not> list_ex (\<lambda>b. sb_org_id b = g) (subscriptions w)" by (auto simp: find_None_iff list_ex_iff)
  with None show ?thesis by (simp add: sub_upsert_def draw_def Let_def find_append)
next
  case (Some b)
  from find_SomeD [OF Some] have ex: "list_ex (\<lambda>b. sb_org_id b = g) (subscriptions w)" by (auto simp: list_ex_iff)
  show ?thesis unfolding sub_upsert_def Let_def using ex
    by (simp, subst find_update_where_keep) (use find_SomeD [OF Some] in \<open>simp_all add: Some\<close>)
qed

lemma set_plan_find:
  assumes "List.find (\<lambda>r. o_id r = g) (organizations w) = Some r"
  shows "\<exists>r'. List.find (\<lambda>r. o_id r = g) (organizations (set_plan now tier g w)) = Some r' \<and> o_plan_tier r' = tier"
  using assms find_SomeD [OF assms] unfolding set_plan_def
  by (simp, subst find_update_where_keep) simp_all

lemma plans_reactivate [simp]: "map o_plan_tier (organizations (reactivate_paid now g w)) = map o_plan_tier (organizations w)"
  by (simp add: reactivate_paid_def map_update_where_same)

text \<open>The webhook of a captured payment.\<close>

lemma webhook_captured_effect:
  assumes "findByOrderId ord w = Some p" and "p_status p \<noteq> PCaptured" and "ord \<noteq> ''''"
    and "\<not> list_ex (\<lambda>q. p_razorpay_order_id q \<noteq> ord \<and> p_razorpay_payment_id q = Some pid) (payments w)"
  obtains w1 q where "handle_event now (PaymentCaptured pid (Some ord)) w = (Inr (), w1)"
    "findByOrderId ord w1 = Some q" "p_status q = PCaptured" "p_org_id q = p_org_id p"
    "organizations w1 = organizations (reactivate_paid now (p_org_id p) w)" "subscriptions w1 = subscriptions w"
proof -
  let ?x = "no_extra\<lparr>px_razorpay_payment_id := Some pid, px_captured_at := Some now\<rparr>"
  have "case px_razorpay_payment_id ?x of None \<Rightarrow> True
         | Some i \<Rightarrow> \<not> list_ex (\<lambda>q. p_razorpay_order_id q \<noteq> ord \<and> p_razorpay_payment_id q = Some i) (payments w)"
    using assms(4) by simp
  from payment_updateStatus_ok [OF assms(1) this, of now PCaptured]
  obtain w1 where u: "payment_updateStatus now ord PCaptured ?x w = (Inr (Some (payment_set now PCaptured ?x p)), w1)"
    "findByOrderId ord w1 = Some (payment_set now PCaptured ?x p)" "organizations w1 = organizations w"
    "subscriptions w1 = subscriptions w" by metis
  let ?w2 = "writePaymentEvent now ''payment.captured'' (p_org_id p) (p_id p) (JObj [(''paymentId'', JStr (p_id p))])
      (reactivate_paid now (p_org_id p) w1)"
  have "handle_event now (PaymentCaptured pid (Some ord)) w = (Inr (), ?w2)"
    using assms(1,2,3) u(1) by (simp add: handle_event_def webhook_paymentCaptured_def)
  moreover have "findByOrderId ord ?w2 = Some (payment_set now PCaptured ?x p)"
    using u(2) by (simp add: findByOrderId_def)
  moreover have "organizations ?w2 = organizations (reactivate_paid now (p_org_id p) w)"
    using u(3) by (simp add: reactivate_paid_def)
  ultimately show thesis using u(4) by (intro that [of ?w2 "payment_set now PCaptured ?x p"]) simp_all
qed

text \<open>The grace period of one organization.\<close>

definition grace_of :: "uuid \<Rightarrow> 'a dir_scheme \<Rightarrow> timestamp option" where
  "grace_of g w = (case org_findById g w of None \<Rightarrow> None | Some r \<Rightarrow> o_grace_period_ends_at r)"

lemma checkGracePeriod_status:
  assumes "org_findById g w = Some r" and "o_status r = OrgActive"
  shows "org_status_of g (snd (checkGracePeriod t g w)) =
     Some (case o_grace_period_ends_at r of None \<Rightarrow> OrgActive | Some e \<Rightarrow> if e \<le> t then OrgSuspended else OrgActive)"
  using assms by (auto simp: checkGracePeriod_def org_status_of_def suspendOrg_def org_findById_updateStatus Let_def split: option.split)

lemma org_findById_reactivate_active:
  assumes "org_findById g w = Some r" and "o_status r = OrgActive"
  shows "org_findById g (reactivate_paid now h w) = Some r"
  unfolding org_findById_def reactivate_paid_def
  by (simp, subst find_update_where_keep) (use assms in \<open>simp_all add: org_findById_def\<close>)

lemma handlePaymentFailure_org:
  assumes "org_findById g w = Some r" and "o_status r = OrgActive" and "o_grace_period_ends_at r = None"
  shows "org_findById g (handlePaymentFailure now g w) =
     Some (r\<lparr>o_grace_period_ends_at := Some (now + GRACE_PERIOD_MS), o_updated_at := now\<rparr>)"
proof -
  let ?f = "\<lambda>r. r\<lparr>o_grace_period_ends_at := Some (now + GRACE_PERIOD_MS), o_updated_at := now\<rparr>"
  have f: "List.find (\<lambda>r. o_id r = g \<and> o_deleted_at r = None) (organizations w) = Some r"
    using assms(1) by (simp add: org_findById_def)
  have "List.find (\<lambda>r. o_id r = g \<and> o_deleted_at r = None)
      (update_where (\<lambda>r. o_id r = g \<and> o_status r = OrgActive) ?f (organizations w)) = Some (?f r)"
    by (subst find_update_where_keep) (use find_SomeD [OF f] assms(2) in \<open>simp_all add: f\<close>)
  with assms show ?thesis by (simp add: handlePaymentFailure_def Let_def org_findById_def)
qed

section \<open>Example\<close>

definition ex_payment :: payment where
  "ex_payment = \<lparr>p_id = ''p1'', p_org_id = ''g'', p_razorpay_order_id = ''o1'', p_razorpay_payment_id = None,
     p_amount_paise = 299900, p_currency = ''INR'', p_status = PCreated, p_failure_reason = None, p_captured_at = None,
     p_refunded_at = None, p_idempotency_key = ''k'', p_metadata = JObj [(''planTier'', JStr ''business'')],
     p_created_at = 0, p_updated_at = 0\<rparr>"

definition ex_pay_org :: "timestamp option \<Rightarrow> org" where
  "ex_pay_org e = (new_org 0 ''g'' \<lparr>co_name = ''G'', co_slug = ''g'', co_plan_tier = None, co_timezone = None,
     co_locale = None\<rparr>)\<lparr>o_grace_period_ends_at := e\<rparr>"

definition ex_pay_db :: "timestamp option \<Rightarrow> pay_db" where
  "ex_pay_db e = dir.extend (ex_dir\<lparr>organizations := [ex_pay_org e]\<rparr>) \<lparr>payments = [ex_payment]\<rparr>"

lemma ex_pay_db_simps [simp]:
  "payments (ex_pay_db e) = [ex_payment]" "organizations (ex_pay_db e) = [ex_pay_org e]" "redis (ex_pay_db e) = (\<lambda>_. None)"
  "subscriptions (ex_pay_db e) = []"
  by (simp_all add: ex_pay_db_def dir.extend_def ex_dir_def)

lemma ex_pay_simps [simp]:
  "p_razorpay_order_id ex_payment = ''o1''" "p_org_id ex_payment = ''g''" "p_status ex_payment = PCreated"
  "p_razorpay_payment_id ex_payment = None" "plan_of (payment_plan ex_payment) = Some Business"
  "o_id (ex_pay_org e) = ''g''" "o_status (ex_pay_org e) = OrgActive" "o_deleted_at (ex_pay_org e) = None"
  "o_grace_period_ends_at (ex_pay_org e) = e" "o_plan_tier (ex_pay_org e) = Free"
  by (simp_all add: ex_payment_def ex_pay_org_def payment_plan_def json_field_def plan_of_def)

lemma ex_pay_find: "findByOrderId ''o1'' (ex_pay_db e) = Some ex_payment" "org_findById ''g'' (ex_pay_db e) = Some (ex_pay_org e)"
  by (simp_all add: findByOrderId_def org_findById_def)

lemma ex_signature: "verifyPaymentSignature (\<lambda>_. ''0a'') o1 i ''0A''" "verifyWebhookSignature (\<lambda>_. ''0a'') raw ''0A''"
  by (simp_all add: verifyPaymentSignature_def verifyWebhookSignature_def) (code_simp, code_simp)

section \<open>Properties\<close>

text \<open>C17. Verifying a payment captures it and moves the organization and its subscription to the plan the
  order was made for; verifying it again, at any time and with any valid signature, returns the
  captured payment and changes nothing.\<close>

theorem verifyPayment_upgrades_once:
  assumes "verifyPaymentSignature hmac ord pid sig" and "findByOrderId ord w = Some p" and "p_org_id p = g"
    and "p_status p \<noteq> PCaptured" and "plan_of (payment_plan p) = Some tier"
    and "\<not> list_ex (\<lambda>q. p_razorpay_order_id q \<noteq> ord \<and> p_razorpay_payment_id q = Some pid) (payments w)"
    and "List.find (\<lambda>r. o_id r = g) (organizations w) = Some r"
    and "verifyPaymentSignature hmac ord pid' sig'"
  shows "\<exists>q w'. verifyPayment hmac now g ord pid sig w = (Inr q, w') \<and> p_status q = PCaptured \<and> findByOrderId ord w' = Some q \<and>
    (\<exists>r'. List.find (\<lambda>r. o_id r = g) (organizations w') = Some r' \<and> o_plan_tier r' = tier) \<and>
    (\<exists>b. List.find (\<lambda>b. sb_org_id b = g) (subscriptions w') = Some b \<and> sb_plan_tier b = tier \<and> sb_status b = SubActive) \<and>
    verifyPayment hmac t g ord pid' sig' w' = (Inr q, w')"
proof -
  let ?x = "no_extra\<lparr>px_razorpay_payment_id := Some pid, px_captured_at := Some now\<rparr>" and ?q = "payment_set now PCaptured
      (no_extra\<lparr>px_razorpay_payment_id := Some pid, px_captured_at := Some now\<rparr>) p"
  have "case px_razorpay_payment_id ?x of None \<Rightarrow> True
         | Some i \<Rightarrow> \<not> list_ex (\<lambda>q. p_razorpay_order_id q \<noteq> ord \<and> p_razorpay_payment_id q = Some i) (payments w)"
    using assms(6) by simp
  from payment_updateStatus_ok [OF assms(2) this, of now PCaptured]
  obtain w1 where u: "payment_updateStatus now ord PCaptured ?x w = (Inr (Some ?q), w1)"
    "findByOrderId ord w1 = Some ?q" "organizations w1 = organizations w" by metis
  let ?d = "\<lparr>sd_razorpay_subscription_id = None, sd_plan_tier = tier, sd_status = None,
             sd_current_period_start = None, sd_current_period_end = None\<rparr>"
  let ?w' = "writePaymentEvent now ''payment.captured'' g (p_id ?q) (JObj [(''paymentId'', JStr (p_id ?q)),
      (''razorpayPaymentId'', JStr pid), (''planTier'', JStr (payment_plan p))]) (set_plan now tier g (sub_upsert g ?d w1))"
  have v: "verifyPayment hmac now g ord pid sig w = (Inr ?q, ?w')"
    using assms(1-5) u(1) by (simp add: verifyPayment_def Let_def)
  have f: "findByOrderId ord ?w' = Some ?q" using u(2) by (simp add: findByOrderId_def)
  have "verifyPayment hmac t g ord pid' sig' ?w' = (Inr ?q, ?w')"
    using assms(3,8) f by (simp add: verifyPayment_def)
  moreover have "\<exists>r'. List.find (\<lambda>r. o_id r = g) (organizations ?w') = Some r' \<and> o_plan_tier r' = tier"
    using set_plan_find [of g "sub_upsert g ?d w1" r now tier] assms(7) u(3) by simp
  moreover have "\<exists>b. List.find (\<lambda>b. sb_org_id b = g) (subscriptions ?w') = Some b \<and> sb_plan_tier b = tier \<and> sb_status b = SubActive"
    using sub_upsert_find [of g ?d w1] by simp
  ultimately show ?thesis using v f by (metis payment_set_simps(2))
qed

theorem verifyPayment_upgrades_once_witness:
  "\<exists>q w' r'. verifyPayment (\<lambda>_. ''0a'') 5 ''g'' ''o1'' ''pay1'' ''0A'' (ex_pay_db None) = (Inr q, w') \<and>
     List.find (\<lambda>r. o_id r = ''g'') (organizations w') = Some r' \<and> o_plan_tier r' = Business \<and>
     verifyPayment (\<lambda>_. ''0a'') 9 ''g'' ''o1'' ''pay2'' ''0A'' w' = (Inr q, w')"
proof -
  have "\<not> list_ex (\<lambda>q. p_razorpay_order_id q \<noteq> ''o1'' \<and> p_razorpay_payment_id q = Some ''pay1'') (payments (ex_pay_db None))"
    "List.find (\<lambda>r. o_id r = ''g'') (organizations (ex_pay_db None)) = Some (ex_pay_org None)"
    "p_status ex_payment \<noteq> PCaptured" "p_org_id ex_payment = ''g''" "plan_of (payment_plan ex_payment) = Some Business" by simp_all
  from verifyPayment_upgrades_once [OF ex_signature(1) ex_pay_find(1) this(4,3,5,1,2) ex_signature(1), of 5 9] show ?thesis by metis
qed

text \<open>When the webhook of a captured payment arrives before the client's verification, the upgrade is
  lost: the verification finds the payment captured and returns, and neither the plan of any
  organization nor any subscription has changed.\<close>

theorem webhook_first_loses_upgrade:
  assumes "findByOrderId ord w = Some p" and "p_status p \<noteq> PCaptured" and "ord \<noteq> ''''" and "p_org_id p = g"
    and "\<not> list_ex (\<lambda>q. p_razorpay_order_id q \<noteq> ord \<and> p_razorpay_payment_id q = Some pid) (payments w)"
    and "verifyPaymentSignature hmac ord pid sig"
  shows "\<exists>w1 q. handle_event now (PaymentCaptured pid (Some ord)) w = (Inr (), w1) \<and>
    verifyPayment hmac t g ord pid sig w1 = (Inr q, w1) \<and> p_status q = PCaptured \<and>
    map o_plan_tier (organizations w1) = map o_plan_tier (organizations w) \<and> subscriptions w1 = subscriptions w"
proof -
  obtain w1 q where h: "handle_event now (PaymentCaptured pid (Some ord)) w = (Inr (), w1)"
    "findByOrderId ord w1 = Some q" "p_status q = PCaptured" "p_org_id q = p_org_id p"
    "organizations w1 = organizations (reactivate_paid now (p_org_id p) w)" "subscriptions w1 = subscriptions w"
    using webhook_captured_effect [OF assms(1,2,3,5)] by metis
  then have "verifyPayment hmac t g ord pid sig w1 = (Inr q, w1)"
    using assms(4,6) by (simp add: verifyPayment_def)
  with h show ?thesis by simp
qed

theorem webhook_first_loses_upgrade_witness:
  "\<exists>w1 q. handle_event 5 (PaymentCaptured ''pay1'' (Some ''o1'')) (ex_pay_db None) = (Inr (), w1) \<and>
     verifyPayment (\<lambda>_. ''0a'') 9 ''g'' ''o1'' ''pay1'' ''0A'' w1 = (Inr q, w1) \<and> p_status q = PCaptured \<and>
     map o_plan_tier (organizations w1) = [Free]"
  using webhook_first_loses_upgrade [OF ex_pay_find(1) _ _ _ _ ex_signature(1), of "''g''" "''pay1''" None 5 9] by auto

text \<open>A payment does not end the grace period of an organization that is still active: the webhook of
  the captured payment clears the period only for suspended organizations, so the check that was
  scheduled when the payment failed suspends an organization that has paid.\<close>

theorem paid_org_suspended_after_grace:
  assumes "findByOrderId ord w = Some p" and "p_status p \<noteq> PCaptured" and "ord \<noteq> ''''" and "p_org_id p = g"
    and "\<not> list_ex (\<lambda>q. p_razorpay_order_id q \<noteq> ord \<and> p_razorpay_payment_id q = Some pid) (payments w)"
    and "org_findById g w = Some r" and "o_status r = OrgActive" and "o_grace_period_ends_at r = Some e" and "e \<le> t'"
  shows "\<exists>w1. handle_event t (PaymentCaptured pid (Some ord)) w = (Inr (), w1) \<and>
    org_status_of g w1 = Some OrgActive \<and> org_status_of g (snd (paymentWorkerJob t' ''check-grace-period'' g w1)) = Some OrgSuspended"
proof -
  obtain w1 q where h: "handle_event t (PaymentCaptured pid (Some ord)) w = (Inr (), w1)"
    "organizations w1 = organizations (reactivate_paid t (p_org_id p) w)"
    using webhook_captured_effect [OF assms(1,2,3,5)] by metis
  have f: "org_findById g w1 = Some r"
    using org_findById_reactivate_active [OF assms(6,7), of t "p_org_id p"] h(2) by (simp add: org_findById_def)
  with checkGracePeriod_status [OF f assms(7), of t'] assms(7,8,9) h(1) show ?thesis
    by (simp add: paymentWorkerJob_def org_status_of_def)
qed

theorem paid_org_suspended_after_grace_witness:
  "\<exists>w1. handle_event 5 (PaymentCaptured ''pay1'' (Some ''o1'')) (ex_pay_db (Some 100)) = (Inr (), w1) \<and>
     org_status_of ''g'' w1 = Some OrgActive \<and> org_status_of ''g'' (snd (paymentWorkerJob 200 ''check-grace-period'' ''g'' w1)) = Some OrgSuspended"
  by (rule paid_org_suspended_after_grace [where e = 100, OF ex_pay_find(1) _ _ _ _ ex_pay_find(2)]) simp_all

text \<open>A webhook event is processed once: after a delivery that was processed successfully, every further
  delivery of the same event within seven days is acknowledged and changes nothing.\<close>

theorem webhook_processed_once:
  assumes "verifyWebhookSignature hmac raw sig" and "sig \<noteq> ''''" and "parse raw = Event ev"
    and "redis_get t (event_key ev) w = None" and "razorpay_webhook hmac parse t (Some sig) raw w = (200, w1)"
    and "t' < t + 7 * 24 * 3600 * 1000"
  shows "razorpay_webhook hmac parse t' (Some sig) raw w1 = (200, w1)"
proof -
  obtain x where "handle_event t ev w = (Inr (), x)" and w1: "w1 = redis_setex t (event_key ev) (JStr ''1'') IDEMPOTENCY_TTL x"
    using assms(1-5) by (auto simp: razorpay_webhook_def split: sum.splits prod.splits)
  have "redis_get t' (event_key ev) w1 = Some (JStr ''1'')" using assms(6) by (simp add: w1 IDEMPOTENCY_TTL_def)
  with assms(1,2,3) show ?thesis by (simp add: razorpay_webhook_def)
qed

theorem webhook_processed_once_witness:
  "\<exists>w1. razorpay_webhook (\<lambda>_. ''0a'') (\<lambda>_. Event (PaymentFailed ''pay1'' (Some ''o1''))) 5 (Some ''0A'') ''{}'' (ex_pay_db None) = (200, w1) \<and>
     length (jobs w1) = 1 \<and>
     razorpay_webhook (\<lambda>_. ''0a'') (\<lambda>_. Event (PaymentFailed ''pay1'' (Some ''o1''))) 9 (Some ''0A'') ''{}'' w1 = (200, w1)"
proof -
  let ?p = "\<lambda>_. Event (PaymentFailed ''pay1'' (Some ''o1''))"
  have n: "redis_get 5 (event_key (PaymentFailed ''pay1'' (Some ''o1''))) (ex_pay_db None) = None" by (simp add: redis_get_def)
  have j: "jobs (ex_pay_db None) = []" by (simp add: ex_pay_db_def dir.extend_def ex_dir_def)
  have "\<exists>v. payment_updateStatus 5 ''o1'' PFailed no_extra (ex_pay_db None) = (Inr (Some (payment_set 5 PFailed no_extra ex_payment)), v) \<and> jobs v = []"
    by (simp add: payment_updateStatus_def no_extra_def returning_def Let_def j)
  then obtain v where v: "payment_updateStatus 5 ''o1'' PFailed no_extra (ex_pay_db None) = (Inr (Some (payment_set 5 PFailed no_extra ex_payment)), v)"
    "jobs v = []" by blast
  let ?v = "enqueue ''payments'' ''handle-payment-failure'' (JObj [(''orgId'', JStr ''g'')]) 0 v"
  have h: "handle_event 5 (PaymentFailed ''pay1'' (Some ''o1'')) (ex_pay_db None) = (Inr (), ?v)"
    by (simp add: handle_event_def webhook_paymentFailed_def ex_pay_find v)
  have "razorpay_webhook (\<lambda>_. ''0a'') ?p 5 (Some ''0A'') ''{}'' (ex_pay_db None) =
      (200, redis_setex 5 (event_key (PaymentFailed ''pay1'' (Some ''o1''))) (JStr ''1'') IDEMPOTENCY_TTL ?v)"
    unfolding razorpay_webhook_def by (simp add: ex_signature(2) n h)
  moreover have "length (jobs (redis_setex 5 (event_key (PaymentFailed ''pay1'' (Some ''o1''))) (JStr ''1'') IDEMPOTENCY_TTL ?v)) = 1"
    by (simp add: redis_setex_def enqueue_def v(2))
  ultimately have "\<exists>w1. razorpay_webhook (\<lambda>_. ''0a'') ?p 5 (Some ''0A'') ''{}'' (ex_pay_db None) = (200, w1) \<and> length (jobs w1) = 1"
    by blast
  then obtain w1 where r: "razorpay_webhook (\<lambda>_. ''0a'') ?p 5 (Some ''0A'') ''{}'' (ex_pay_db None) = (200, w1)" "length (jobs w1) = 1" by blast
  have "razorpay_webhook (\<lambda>_. ''0a'') ?p 9 (Some ''0A'') ''{}'' w1 = (200, w1)"
    by (rule webhook_processed_once [OF ex_signature(2) _ _ n r(1)]) simp_all
  with r show ?thesis by blast
qed

text \<open>The webhook of a subscription charge never succeeds: the handler first looks a subscription up by an
  empty organization identifier, which the database refuses, so every delivery is answered 500 and
  a suspended organization that has paid stays suspended.\<close>

theorem subscription_charge_always_fails:
  assumes "verifyWebhookSignature hmac raw sig" and "sig \<noteq> ''''" and "parse raw = Event (SubscriptionCharged i)"
    and "redis_get t (event_key (SubscriptionCharged i)) w = None"
  shows "razorpay_webhook hmac parse t (Some sig) raw w = (500, w)"
  using assms by (simp add: razorpay_webhook_def handle_event_def webhook_subscriptionCharged_def sub_findByOrg_def)

theorem subscription_charge_always_fails_witness:
  "razorpay_webhook (\<lambda>_. ''0a'') (\<lambda>_. Event (SubscriptionCharged ''s1'')) 5 (Some ''0A'') ''{}'' (ex_pay_db None) = (500, ex_pay_db None)"
  by (rule subscription_charge_always_fails [OF ex_signature(2) _ refl]) (simp_all add: redis_get_def)

text \<open>The grace period is exactly seven days: after a failed payment of an active organization, the
  check of the worker suspends it if and only if seven days have passed since the failure was
  handled.\<close>

theorem grace_period_exact:
  assumes "org_findById g w = Some r" and "o_status r = OrgActive" and "o_grace_period_ends_at r = None"
  shows "org_status_of g (snd (paymentWorkerJob t' ''check-grace-period'' g
           (snd (paymentWorkerJob t ''handle-payment-failure'' g w)))) =
         Some (if t + 7 * 24 * 60 * 60 * 1000 \<le> t' then OrgSuspended else OrgActive)"
proof -
  note f = handlePaymentFailure_org [OF assms, of t]
  have "org_status_of g (snd (checkGracePeriod t' g (handlePaymentFailure t g w))) =
      Some (if t + GRACE_PERIOD_MS \<le> t' then OrgSuspended else OrgActive)"
    by (subst checkGracePeriod_status [OF f]) (simp_all add: assms(2))
  then show ?thesis by (simp add: paymentWorkerJob_def GRACE_PERIOD_MS_def)
qed

theorem grace_period_exact_witness:
  "org_status_of ''g'' (snd (paymentWorkerJob 604800005 ''check-grace-period'' ''g''
     (snd (paymentWorkerJob 5 ''handle-payment-failure'' ''g'' (ex_pay_db None))))) = Some OrgSuspended"
  using grace_period_exact [OF ex_pay_find(2), of None 604800005 5] by simp

end
