(* ===== verification/Notification.thy ===== *)
theory Notification
  imports Organization
begin

text \<open>
  \<^verbatim>\<open>src/modules/notification\<close>: in-app notifications and preferences, the notification,
  digest and e-mail workers, web push subscriptions, and the public unsubscribe link.  The
  template engine, the e-mail providers, the push service and time zones are arguments.
\<close>

section \<open>State\<close>

record notification =
  n_id :: uuid
  n_org_id :: uuid
  n_user_id :: uuid
  n_type :: string
  n_entity_type :: string
  n_entity_id :: uuid
  n_actor_id :: "uuid option"
  n_payload :: json
  n_is_read :: bool
  n_read_at :: "timestamp option"
  n_created_at :: timestamp
  n_digest_sent_at :: "timestamp option"

record push_subscription =
  ps_id :: uuid
  ps_user_id :: uuid
  ps_org_id :: uuid
  ps_endpoint :: string
  ps_p256dh :: string
  ps_auth :: string

text \<open>An e-mail as it is handed to a provider.\<close>

record email =
  em_to :: string
  em_subject :: string
  em_html :: string
  em_text :: string

record notif_db = dir +
  notifications :: "notification list"
  push_subscriptions :: "push_subscription list"
  emails_sent :: "(string \<times> email) list"
  pushes_sent :: "(string \<times> json) list"

section \<open>Notification repository\<close>

definition notification_channel :: "uuid \<Rightarrow> uuid \<Rightarrow> string" where
  "notification_channel orgId userId = ''notification:'' @ orgId @ '':user:'' @ userId"

definition notification_json :: "notification \<Rightarrow> json" where
  "notification_json r = JObj [(''id'', JStr (n_id r)), (''org_id'', JStr (n_org_id r)), (''user_id'', JStr (n_user_id r)),
     (''type'', JStr (n_type r)), (''entity_type'', JStr (n_entity_type r)), (''entity_id'', JStr (n_entity_id r)),
     (''actor_id'', json_opt (n_actor_id r)), (''payload'', n_payload r), (''is_read'', JBool (n_is_read r)),
     (''read_at'', case_option JNull JNum (n_read_at r)), (''created_at'', JNum (n_created_at r)),
     (''digest_sent_at'', case_option JNull JNum (n_digest_sent_at r))]"

definition notif_create ::
    "timestamp \<Rightarrow> uuid \<Rightarrow> uuid \<Rightarrow> string \<Rightarrow> string \<Rightarrow> uuid \<Rightarrow> uuid option \<Rightarrow> json
     \<Rightarrow> 'a notif_db_scheme \<Rightarrow> notification \<times> 'a notif_db_scheme" where
  "notif_create now orgId userId ty etype eid actor payload w =
     (let (i, w1) = draw w;
          r = \<lparr>n_id = i, n_org_id = orgId, n_user_id = userId, n_type = ty, n_entity_type = etype, n_entity_id = eid,
               n_actor_id = actor, n_payload = payload, n_is_read = False, n_read_at = None, n_created_at = now,
               n_digest_sent_at = None\<rparr>
      in (r, redis_publish (notification_channel orgId userId) (notification_json r)
               (w1\<lparr>notifications := notifications w1 @ [r]\<rparr>)))"

definition notif_findByUser :: "uuid \<Rightarrow> uuid \<Rightarrow> bool \<Rightarrow> nat \<Rightarrow> nat \<Rightarrow> 'a notif_db_scheme \<Rightarrow> notification list" where
  "notif_findByUser orgId userId onlyUnread limit offset w =
     limit_offset limit offset (rev (sort_key n_created_at
       (filter (\<lambda>r. n_org_id r = orgId \<and> n_user_id r = userId \<and> (onlyUnread \<longrightarrow> \<not> n_is_read r)) (notifications w))))"

definition mark :: "timestamp \<Rightarrow> notification \<Rightarrow> notification" where
  "mark now r = r\<lparr>n_is_read := True, n_read_at := Some now\<rparr>"

definition markRead ::
    "timestamp \<Rightarrow> uuid \<Rightarrow> uuid \<Rightarrow> uuid \<Rightarrow> 'a notif_db_scheme \<Rightarrow> bool \<times> 'a notif_db_scheme" where
  "markRead now orgId userId i w =
     (let P = (\<lambda>r. n_id r = i \<and> n_org_id r = orgId \<and> n_user_id r = userId \<and> \<not> n_is_read r)
      in (list_ex P (notifications w), w\<lparr>notifications := update_where P (mark now) (notifications w)\<rparr>))"

definition markAllRead :: "timestamp \<Rightarrow> uuid \<Rightarrow> uuid \<Rightarrow> 'a notif_db_scheme \<Rightarrow> nat \<times> 'a notif_db_scheme" where
  "markAllRead now orgId userId w =
     (let P = (\<lambda>r. n_org_id r = orgId \<and> n_user_id r = userId \<and> \<not> n_is_read r)
      in (length (filter P (notifications w)), w\<lparr>notifications := update_where P (mark now) (notifications w)\<rparr>))"

definition findPreference :: "uuid \<Rightarrow> uuid \<Rightarrow> string \<Rightarrow> 'a dir_scheme \<Rightarrow> notif_pref option" where
  "findPreference orgId userId eventType w =
     List.find (\<lambda>p. np_org_id p = orgId \<and> np_user_id p = userId \<and> np_event_type p = eventType) (notification_preferences w)"

record pref_patch =
  pp_channel_inapp :: "bool option"
  pp_channel_email :: "bool option"
  pp_channel_push :: "bool option"
  pp_digest_mode :: "digest_mode option"
  pp_quiet_hours_start :: "int option option"
  pp_quiet_hours_end :: "int option option"

definition pref_set :: "pref_patch \<Rightarrow> notif_pref \<Rightarrow> notif_pref" where
  "pref_set d p = p\<lparr>np_channel_inapp := patched (np_channel_inapp p) (pp_channel_inapp d),
     np_channel_email := patched (np_channel_email p) (pp_channel_email d),
     np_channel_push := patched (np_channel_push p) (pp_channel_push d),
     np_digest_mode := patched (np_digest_mode p) (pp_digest_mode d),
     np_quiet_hours_start := patched (np_quiet_hours_start p) (pp_quiet_hours_start d),
     np_quiet_hours_end := patched (np_quiet_hours_end p) (pp_quiet_hours_end d)\<rparr>"

text \<open>The values a row gets when its columns are not given.\<close>

definition default_pref :: "uuid \<Rightarrow> uuid \<Rightarrow> uuid \<Rightarrow> string \<Rightarrow> notif_pref" where
  "default_pref i orgId userId eventType =
     \<lparr>np_id = i, np_org_id = orgId, np_user_id = userId, np_event_type = eventType, np_channel_inapp = True,
      np_channel_email = True, np_channel_push = False, np_digest_mode = Realtime, np_quiet_hours_start = None,
      np_quiet_hours_end = None\<rparr>"

definition no_pref_change :: pref_patch where
  "no_pref_change = \<lparr>pp_channel_inapp = None, pp_channel_email = None, pp_channel_push = None, pp_digest_mode = None,
     pp_quiet_hours_start = None, pp_quiet_hours_end = None\<rparr>"

text \<open>The insert names only the key; the patch is in the \<^verbatim>\<open>DO UPDATE\<close> part.  For an empty patch that part is
  \<^verbatim>\<open>SET channel_inapp = channel_inapp\<close>, in which the column could be that of the row or of \<^verbatim>\<open>excluded\<close>:
  PostgreSQL refuses the statement as ambiguous.\<close>

definition upsertPreference ::
    "uuid \<Rightarrow> uuid \<Rightarrow> string \<Rightarrow> pref_patch \<Rightarrow> 'a dir_scheme \<Rightarrow> notif_pref outcome \<times> 'a dir_scheme" where
  "upsertPreference orgId userId eventType d w =
     (if d = no_pref_change then (Inl (PgError ''42702''), w)
      else case findPreference orgId userId eventType w of
        Some p \<Rightarrow>
          (Inr (pref_set d p), w\<lparr>notification_preferences := update_where
             (\<lambda>q. np_org_id q = orgId \<and> np_user_id q = userId \<and> np_event_type q = eventType) (pref_set d)
             (notification_preferences w)\<rparr>)
      | None \<Rightarrow>
          (let (i, w1) = draw w; p = default_pref i orgId userId eventType
           in (Inr p, w1\<lparr>notification_preferences := notification_preferences w1 @ [p]\<rparr>)))"

definition listPreferences :: "uuid \<Rightarrow> uuid \<Rightarrow> 'a dir_scheme \<Rightarrow> notif_pref list" where
  "listPreferences orgId userId w =
     sort_key np_event_type (filter (\<lambda>p. np_org_id p = orgId \<and> np_user_id p = userId) (notification_preferences w))"

section \<open>Preference service\<close>

definition getOrDefault :: "uuid \<Rightarrow> uuid \<Rightarrow> string \<Rightarrow> 'a dir_scheme \<Rightarrow> notif_pref" where
  "getOrDefault orgId userId eventType w =
     (case findPreference orgId userId eventType w of
        Some p \<Rightarrow> p | None \<Rightarrow> default_pref '''' orgId userId eventType)"

definition updatePreference ::
    "uuid \<Rightarrow> uuid \<Rightarrow> string \<Rightarrow> pref_patch \<Rightarrow> 'a dir_scheme \<Rightarrow> notif_pref outcome \<times> 'a dir_scheme" where
  "updatePreference orgId userId eventType d w = upsertPreference orgId userId eventType d w"

text \<open>\<open>hmac text\<close> is the hash keyed with the invitation secret.\<close>

definition unsubscribe ::
    "(string \<Rightarrow> string) \<Rightarrow> string \<Rightarrow> uuid \<Rightarrow> uuid \<Rightarrow> string \<Rightarrow> 'a dir_scheme \<Rightarrow> unit outcome \<times> 'a dir_scheme" where
  "unsubscribe hmac token userId orgId eventType w =
     (if token = '''' \<or> eventType = '''' then (Inl ValidationError, w)
      else if token \<noteq> hmac (userId @ '':'' @ orgId @ '':'' @ eventType)
      then (Inl (AppError 400 ''INVALID_UNSUBSCRIBE_TOKEN'' []), w)
      else and_then (updatePreference orgId userId eventType (no_pref_change\<lparr>pp_channel_email := Some False\<rparr>) w)
             (\<lambda>_ w1. (Inr (), w1)))"

section \<open>Notification worker\<close>

definition SUBSCRIBED_EVENT_TYPES :: "string list" where
  "SUBSCRIBED_EVENT_TYPES =
     [''task.assigned'', ''task.updated'', ''task.status_changed'', ''task.commented'', ''task.mentioned'',
      ''comment.created'', ''mention.created'', ''message.received'', ''message.created'']"

text \<open>The text of a \<^verbatim>\<open>TIME\<close> column, and \<^verbatim>\<open>start.split(':').map(Number)\<close>.\<close>

definition two_digits :: "nat \<Rightarrow> string" where
  "two_digits n = (if n < 10 then CHR ''0'' # show_nat n else show_nat n)"

definition pg_time :: "int \<Rightarrow> string" where
  "pg_time t = two_digits (nat t div 60) @ '':'' @ two_digits (nat t mod 60) @ '':00''"

definition clock_minutes :: "string \<Rightarrow> nat" where
  "clock_minutes s = (case split_on CHR '':'' s of h # m # _ \<Rightarrow> read_nat h * 60 + read_nat m | _ \<Rightarrow> 0)"

text \<open>The clock of the server: its local hour and minute.\<close>

definition isInQuietHours :: "string option \<Rightarrow> string option \<Rightarrow> nat \<times> nat \<Rightarrow> bool" where
  "isInQuietHours start finish clock =
     (if \<not> truthy start \<or> \<not> truthy finish then False
      else let nowMinutes = fst clock * 60 + snd clock;
               startMinutes = clock_minutes (case_option '''' id start);
               endMinutes = clock_minutes (case_option '''' id finish)
           in if startMinutes \<le> endMinutes then nowMinutes \<ge> startMinutes \<and> nowMinutes < endMinutes
              else nowMinutes \<ge> startMinutes \<or> nowMinutes < endMinutes)"

record notif_job =
  nj_eventType :: string
  nj_orgId :: uuid
  nj_entityType :: string
  nj_entityId :: uuid
  nj_actorUserId :: "uuid option"
  nj_targetUserIds :: "uuid list"
  nj_payload :: json

definition email_job :: "notif_job \<Rightarrow> uuid \<Rightarrow> json" where
  "email_job j u = JObj [(''orgId'', JStr (nj_orgId j)), (''userId'', JStr u), (''eventType'', JStr (nj_eventType j)),
     (''entityType'', JStr (nj_entityType j)), (''entityId'', JStr (nj_entityId j)),
     (''actorUserId'', json_opt (nj_actorUserId j)), (''payload'', nj_payload j)]"

definition notify_one :: "(timestamp \<Rightarrow> nat \<times> nat) \<Rightarrow> timestamp \<Rightarrow> notif_job \<Rightarrow> uuid \<Rightarrow> 'a notif_db_scheme \<Rightarrow> 'a notif_db_scheme" where
  "notify_one clock now j u w =
     (if truthy (nj_actorUserId j) \<and> nj_actorUserId j = Some u then w
      else let pref = getOrDefault (nj_orgId j) u (nj_eventType j) w
           in if isInQuietHours (map_option pg_time (np_quiet_hours_start pref))
                   (map_option pg_time (np_quiet_hours_end pref)) (clock now) then w
              else let w1 = (if np_channel_inapp pref
                             then snd (notif_create now (nj_orgId j) u (nj_eventType j) (nj_entityType j) (nj_entityId j)
                                    (nj_actorUserId j) (nj_payload j) w)
                             else w)
                   in if np_channel_email pref \<and> np_digest_mode pref = Realtime
                      then enqueue ''emails'' ''send-notification-email'' (email_job j u) 0 w1
                      else w1)"

definition notificationWorkerJob ::
    "(timestamp \<Rightarrow> nat \<times> nat) \<Rightarrow> timestamp \<Rightarrow> notif_job \<Rightarrow> 'a notif_db_scheme \<Rightarrow> 'a notif_db_scheme" where
  "notificationWorkerJob clock now j w =
     (if nj_eventType j \<notin> set SUBSCRIBED_EVENT_TYPES then w
      else fold (notify_one clock now j) (nj_targetUserIds j) w)"

section \<open>Digest worker\<close>

text \<open>The date of an instant in UTC, as \<^verbatim>\<open>toISOString().slice(0, 10)\<close> writes it: the
  proleptic Gregorian calendar counted in eras of 400 years that begin on 1 March.\<close>

definition iso_date :: "timestamp \<Rightarrow> string" where
  "iso_date t =
     (let z = t div 86400000 + 719468; era = z div 146097; doe = z mod 146097;
          yoe = (doe - doe div 1460 + doe div 36524 - doe div 146096) div 365;
          doy = doe - (365 * yoe + yoe div 4 - yoe div 100);
          mp = (5 * doy + 2) div 153; d = doy - (153 * mp + 2) div 5 + 1;
          m = (if mp < 10 then mp + 3 else mp - 9);
          y = yoe + era * 400 + (if m \<le> 2 then 1 else 0);
          ys = show_nat (nat y)
      in replicate (4 - length ys) CHR ''0'' @ ys @ ''-'' @ two_digits (nat m) @ ''-'' @ two_digits (nat d))"

text \<open>
  The coordinator.  Its query reads the column \<^verbatim>\<open>users.timezone\<close>: \<open>timezone\<close> is that column,
  \<open>None\<close> when the schema has none, which the database answers with the error 42703.  \<open>hour_in z t\<close>
  is the hour of the instant in a time zone.
\<close>

definition digest_due ::
    "(string \<Rightarrow> timestamp \<Rightarrow> nat) \<Rightarrow> (user \<Rightarrow> string option) \<Rightarrow> timestamp \<Rightarrow> 'a dir_scheme \<Rightarrow> user list" where
  "digest_due hour_in tz now w =
     concat (map (\<lambda>u. map (\<lambda>_. u) (filter (\<lambda>p. np_user_id p = u_id u \<and> np_digest_mode p = DailyDigest)
                                       (notification_preferences w)))
       (filter (\<lambda>u. u_status u = UActive \<and> u_deleted_at u = None \<and>
                    hour_in (case_option ''UTC'' id (tz u)) now = 8) (users w)))"

definition runDigestCoordinatorJob ::
    "(string \<Rightarrow> timestamp \<Rightarrow> nat) \<Rightarrow> (user \<Rightarrow> string option) option \<Rightarrow> timestamp \<Rightarrow> 'a dir_scheme
     \<Rightarrow> unit outcome \<times> 'a dir_scheme" where
  "runDigestCoordinatorJob hour_in timezone now w =
     (case timezone of
        None \<Rightarrow> (Inl (PgError ''42703''), w)
      | Some tz \<Rightarrow>
          (Inr (), fold (\<lambda>u. enqueue ''notifications'' ''send-user-digest''
             (JObj [(''userId'', JStr (u_id u)), (''email'', JStr (u_email u)), (''name'', JStr (u_name u))]) 0)
             (digest_due hour_in tz now w) w))"

definition digest_key :: "uuid \<Rightarrow> timestamp \<Rightarrow> string" where
  "digest_key userId now = ''digest:'' @ userId @ '':'' @ iso_date now"

definition digest_pending :: "timestamp \<Rightarrow> uuid \<Rightarrow> 'a notif_db_scheme \<Rightarrow> notification list" where
  "digest_pending now userId w =
     take 50 (rev (sort_key n_created_at (filter (\<lambda>r. n_user_id r = userId \<and> n_created_at r > now - 86400000 \<and>
       n_digest_sent_at r = None) (notifications w))))"

definition digest_row_json :: "notification \<Rightarrow> json" where
  "digest_row_json r = JObj [(''id'', JStr (n_id r)), (''type'', JStr (n_type r)), (''entity_type'', JStr (n_entity_type r)),
     (''entity_id'', JStr (n_entity_id r)), (''payload'', n_payload r), (''created_at'', JNum (n_created_at r))]"

text \<open>\<open>render name data\<close> is \<^verbatim>\<open>renderTemplate\<close>: the HTML and the text, or an error.\<close>

type_synonym renderer = "string \<Rightarrow> json \<Rightarrow> (string \<times> string) outcome"

definition runSendUserDigestJob ::
    "renderer \<Rightarrow> timestamp \<Rightarrow> uuid \<Rightarrow> string \<Rightarrow> string \<Rightarrow> 'a notif_db_scheme \<Rightarrow> unit outcome \<times> 'a notif_db_scheme" where
  "runSendUserDigestJob render now userId email name w =
     (let today = iso_date now; key = digest_key userId now; rows = digest_pending now userId w
      in if redis_get now key w \<noteq> None then (Inr (), w)
         else if rows = [] then (Inr (), redis_setex now key (JStr ''1'') 86400 w)
         else case render ''daily-digest'' (JObj [(''name'', JStr name), (''notifications'', JArr (map digest_row_json rows)),
                     (''date'', JStr today)]) of
                Inl e \<Rightarrow> (Inl e, w)
              | Inr (html, text) \<Rightarrow>
                  (let w1 = enqueue ''emails'' ''send-daily-digest''
                              (JObj [(''to'', JStr email), (''subject'', JStr (''Your daily digest '' @ [CHR 0xE2, CHR 0x80, CHR 0x94] @ '' '' @ today)),
                                     (''html'', JObj [(''html'', JStr html), (''text'', JStr text)]),
                                     (''userId'', JStr userId)]) 0 w;
                       w2 = w1\<lparr>notifications := update_where (\<lambda>r. n_id r \<in> set (map n_id rows))
                              (\<lambda>r. r\<lparr>n_digest_sent_at := Some now\<rparr>) (notifications w1)\<rparr>
                   in (Inr (), redis_setex now key (JStr ''1'') 86400 w2)))"

section \<open>E-mail\<close>

datatype email_provider = Smtp | Ses | SendGrid

text \<open>\<open>config.emailProvider\<close> picks the providers; \<open>send p m\<close> is the answer of provider \<open>p\<close>.\<close>

definition buildProviders :: "string \<Rightarrow> email_provider \<times> email_provider option" where
  "buildProviders emailProvider =
     (if emailProvider = ''smtp'' then (Smtp, None)
      else if emailProvider = ''ses'' then (Ses, Some SendGrid)
      else (SendGrid, Some Ses))"

definition provider_name :: "email_provider \<Rightarrow> string" where
  "provider_name p = (case p of Smtp \<Rightarrow> ''smtp'' | Ses \<Rightarrow> ''ses'' | SendGrid \<Rightarrow> ''sendgrid'')"

record mailer =
  ml_emailProvider :: string
  ml_send :: "email_provider \<Rightarrow> email \<Rightarrow> unit outcome"
  ml_render :: renderer

definition sent_by :: "email_provider \<Rightarrow> email \<Rightarrow> 'a notif_db_scheme \<Rightarrow> 'a notif_db_scheme" where
  "sent_by p m w = w\<lparr>emails_sent := emails_sent w @ [(provider_name p, m)]\<rparr>"

definition sendEmail :: "mailer \<Rightarrow> email \<Rightarrow> 'a notif_db_scheme \<Rightarrow> unit outcome \<times> 'a notif_db_scheme" where
  "sendEmail ml m w =
     (case buildProviders (ml_emailProvider ml) of
        (primary, secondary) \<Rightarrow>
          (case ml_send ml primary m of
             Inr _ \<Rightarrow> (Inr (), sent_by primary m w)
           | Inl err \<Rightarrow>
               (case secondary of
                  None \<Rightarrow> (Inl err, w)
                | Some second \<Rightarrow>
                    (case ml_send ml second m of
                       Inr _ \<Rightarrow> (Inr (), sent_by second m w)
                     | Inl err2 \<Rightarrow> (Inl err2, w)))))"

definition sendTemplateEmail ::
    "mailer \<Rightarrow> string \<Rightarrow> string \<Rightarrow> string \<Rightarrow> json \<Rightarrow> 'a notif_db_scheme \<Rightarrow> unit outcome \<times> 'a notif_db_scheme" where
  "sendTemplateEmail ml to subject template dta w =
     (case ml_render ml template dta of
        Inl e \<Rightarrow> (Inl e, w)
      | Inr (html, text) \<Rightarrow>
          sendEmail ml \<lparr>em_to = to, em_subject = subject, em_html = html, em_text = text\<rparr> w)"

definition EVENT_TEMPLATE_MAP :: "(string \<times> string \<times> string) list" where
  "EVENT_TEMPLATE_MAP =
     [(''task.assigned'', ''task-assigned'', ''A task has been assigned to you''),
      (''mention.created'', ''mention'', ''You were mentioned''),
      (''invitation.created'', ''invitation'', [CHR ''Y'', CHR ''o'', CHR ''u'', CHR 0x27] @ ''ve been invited''),
      (''org.suspended'', ''org-suspended'', ''Your organization has been suspended'')]"

definition email_key :: "uuid \<Rightarrow> string \<Rightarrow> uuid \<Rightarrow> string" where
  "email_key userId eventType entityId = ''email:sent:'' @ userId @ '':'' @ eventType @ '':'' @ entityId"

definition emailWorkerJob ::
    "mailer \<Rightarrow> timestamp \<Rightarrow> uuid \<Rightarrow> string \<Rightarrow> uuid \<Rightarrow> json \<Rightarrow> 'a notif_db_scheme \<Rightarrow> unit outcome \<times> 'a notif_db_scheme" where
  "emailWorkerJob ml now userId eventType entityId payload w =
     (let key = email_key userId eventType entityId
      in if redis_get now key w \<noteq> None then (Inr (), w)
         else case map_of EVENT_TEMPLATE_MAP eventType of
                None \<Rightarrow> (Inr (), w)
              | Some (template, subject) \<Rightarrow>
                  (case json_field ''recipientEmail'' payload of
                     Some (JStr recipientEmail) \<Rightarrow>
                       (if recipientEmail = '''' then (Inr (), w)
                        else and_then (sendTemplateEmail ml recipientEmail subject template payload w)
                               (\<lambda>_ w1. (Inr (), redis_setex now key (JStr ''1'') 86400 w1)))
                   | _ \<Rightarrow> (Inr (), w)))"

section \<open>Web push\<close>

definition saveSubscription ::
    "uuid \<Rightarrow> uuid \<Rightarrow> string \<Rightarrow> string \<Rightarrow> string \<Rightarrow> 'a notif_db_scheme \<Rightarrow> 'a notif_db_scheme" where
  "saveSubscription userId orgId endpoint p256dh auth w =
     (let P = (\<lambda>s. ps_user_id s = userId \<and> ps_endpoint s = endpoint)
      in if list_ex P (push_subscriptions w)
         then w\<lparr>push_subscriptions := update_where P (\<lambda>s. s\<lparr>ps_p256dh := p256dh, ps_auth := auth\<rparr>) (push_subscriptions w)\<rparr>
         else let (i, w1) = draw w
              in w1\<lparr>push_subscriptions := push_subscriptions w1 @
                   [\<lparr>ps_id = i, ps_user_id = userId, ps_org_id = orgId, ps_endpoint = endpoint, ps_p256dh = p256dh, ps_auth = auth\<rparr>]\<rparr>)"

definition removeSubscription :: "uuid \<Rightarrow> string \<Rightarrow> 'a notif_db_scheme \<Rightarrow> 'a notif_db_scheme" where
  "removeSubscription userId endpoint w =
     w\<lparr>push_subscriptions := delete_where (\<lambda>s. ps_user_id s = userId \<and> ps_endpoint s = endpoint) (push_subscriptions w)\<rparr>"

text \<open>The push service answers \<open>None\<close> when it takes the message, otherwise the status of the
  error; 410 means that the endpoint is gone.\<close>

definition push_one ::
    "(push_subscription \<Rightarrow> json \<Rightarrow> nat option) \<Rightarrow> json \<Rightarrow> push_subscription \<Rightarrow> 'a notif_db_scheme \<Rightarrow> 'a notif_db_scheme" where
  "push_one webpush payload s w =
     (case webpush s payload of
        None \<Rightarrow> w\<lparr>pushes_sent := pushes_sent w @ [(ps_endpoint s, payload)]\<rparr>
      | Some st \<Rightarrow>
          if st = 410 then w\<lparr>push_subscriptions := delete_where (\<lambda>x. ps_endpoint x = ps_endpoint s) (push_subscriptions w)\<rparr>
          else w)"

definition sendPush ::
    "(push_subscription \<Rightarrow> json \<Rightarrow> nat option) \<Rightarrow> uuid \<Rightarrow> json \<Rightarrow> 'a notif_db_scheme \<Rightarrow> 'a notif_db_scheme" where
  "sendPush webpush userId payload w =
     fold (push_one webpush payload) (filter (\<lambda>s. ps_user_id s = userId) (push_subscriptions w)) w"

section \<open>Quiet hours\<close>

lemma read_two_digits [simp]: "read_nat (two_digits n) = n"
  using read_show_nat [of n] by (simp add: two_digits_def read_nat_def)

lemma two_digits_no_colon: "CHR '':'' \<notin> set (two_digits n)"
  using show_nat_digits [of "CHR '':''" n] by (auto simp: two_digits_def)

lemma clock_minutes_pg_time:
  assumes "0 \<le> t"
  shows "clock_minutes (pg_time t) = nat t"
proof -
  have "split_on CHR '':'' (pg_time t) =
      [two_digits (nat t div 60), two_digits (nat t mod 60), ''00'']"
    using two_digits_no_colon by (simp add: pg_time_def)
  then show ?thesis by (simp add: clock_minutes_def)
qed

lemma pg_time_not_Nil [simp]: "pg_time t \<noteq> []"
  by (simp add: pg_time_def)

lemma day_offset:
  fixes a b :: int
  assumes "0 \<le> a" "a < 1440" "0 \<le> b" "b < 1440"
  shows "(a - b) mod 1440 = (if b \<le> a then a - b else a - b + 1440)"
proof (cases "b \<le> a")
  case False
  have "(a - b) mod 1440 = (a - b + 1440) mod 1440" by simp
  with False assms show ?thesis by (simp add: mod_pos_pos_trivial del: mod_add_self2)
qed (use assms in simp)

section \<open>Fan-out\<close>

lemma notif_create_fields [simp]:
  "notifications (snd (notif_create now g u ty et ei ac pl w)) =
     notifications w @ [fst (notif_create now g u ty et ei ac pl w)]"
  "pubsub (snd (notif_create now g u ty et ei ac pl w)) =
     pubsub w @ [(notification_channel g u, notification_json (fst (notif_create now g u ty et ei ac pl w)))]"
  "jobs (snd (notif_create now g u ty et ei ac pl w)) = jobs w"
  "notification_preferences (snd (notif_create now g u ty et ei ac pl w)) = notification_preferences w"
  by (simp_all add: notif_create_def draw_def redis_publish_def Let_def)

lemma notif_create_row:
  "n_user_id (fst (notif_create now g u ty et ei ac pl w)) = u" "n_org_id (fst (notif_create now g u ty et ei ac pl w)) = g"
  "n_type (fst (notif_create now g u ty et ei ac pl w)) = ty" "n_entity_id (fst (notif_create now g u ty et ei ac pl w)) = ei"
  "n_is_read (fst (notif_create now g u ty et ei ac pl w)) = False"
  "n_payload (fst (notif_create now g u ty et ei ac pl w)) = pl"
  by (simp_all add: notif_create_def draw_def Let_def)

text \<open>Whom an event reaches: not its actor, nobody in quiet hours.\<close>

definition reached :: "(timestamp \<Rightarrow> nat \<times> nat) \<Rightarrow> timestamp \<Rightarrow> notif_job \<Rightarrow> 'a dir_scheme \<Rightarrow> uuid \<Rightarrow> bool" where
  "reached clock now j w u =
     (\<not> (truthy (nj_actorUserId j) \<and> nj_actorUserId j = Some u) \<and>
      (let pref = getOrDefault (nj_orgId j) u (nj_eventType j) w
       in \<not> isInQuietHours (map_option pg_time (np_quiet_hours_start pref)) (map_option pg_time (np_quiet_hours_end pref)) (clock now)))"

definition wants_inapp :: "(timestamp \<Rightarrow> nat \<times> nat) \<Rightarrow> timestamp \<Rightarrow> notif_job \<Rightarrow> 'a dir_scheme \<Rightarrow> uuid \<Rightarrow> bool" where
  "wants_inapp clock now j w u =
     (reached clock now j w u \<and> np_channel_inapp (getOrDefault (nj_orgId j) u (nj_eventType j) w))"

definition wants_email :: "(timestamp \<Rightarrow> nat \<times> nat) \<Rightarrow> timestamp \<Rightarrow> notif_job \<Rightarrow> 'a dir_scheme \<Rightarrow> uuid \<Rightarrow> bool" where
  "wants_email clock now j w u =
     (reached clock now j w u \<and> np_channel_email (getOrDefault (nj_orgId j) u (nj_eventType j) w) \<and>
      np_digest_mode (getOrDefault (nj_orgId j) u (nj_eventType j) w) = Realtime)"

lemma notify_one_prefs [simp]:
  "notification_preferences (notify_one clock now j u w) = notification_preferences w"
  by (simp add: notify_one_def Let_def)

lemma getOrDefault_cong:
  "notification_preferences w' = notification_preferences w \<Longrightarrow> getOrDefault g u ev w' = getOrDefault g u ev w"
  by (simp add: getOrDefault_def findPreference_def)

text \<open>The row an event makes.\<close>

definition row_of :: "notif_job \<Rightarrow> notification \<Rightarrow> bool" where
  "row_of j r = (n_org_id r = nj_orgId j \<and> n_type r = nj_eventType j \<and> n_entity_id r = nj_entityId j \<and>
     n_payload r = nj_payload j \<and> \<not> n_is_read r)"

lemma wants_cong:
  assumes "notification_preferences w' = notification_preferences w"
  shows "wants_inapp clock now j w' = wants_inapp clock now j w" "wants_email clock now j w' = wants_email clock now j w"
  using getOrDefault_cong [OF assms] by (simp_all add: fun_eq_iff wants_inapp_def wants_email_def reached_def)

definition email_request :: "notif_job \<Rightarrow> uuid \<Rightarrow> job" where
  "email_request j u = \<lparr>j_queue = ''emails'', j_name = ''send-notification-email'', j_data = email_job j u, j_delay = 0\<rparr>"

lemma two_guards: "A \<or> B \<Longrightarrow> (if A then x else if B then x else y) = x"
  by auto

lemma notify_one_eq:
  "notify_one clock now j u w =
     (let w1 = (if wants_inapp clock now j w u
                then snd (notif_create now (nj_orgId j) u (nj_eventType j) (nj_entityType j) (nj_entityId j)
                       (nj_actorUserId j) (nj_payload j) w)
                else w)
      in if wants_email clock now j w u then enqueue ''emails'' ''send-notification-email'' (email_job j u) 0 w1 else w1)"
proof (cases "reached clock now j w u")
  case True
  then have "\<not> (truthy (nj_actorUserId j) \<and> nj_actorUserId j = Some u)"
    and "\<not> isInQuietHours (map_option pg_time (np_quiet_hours_start (getOrDefault (nj_orgId j) u (nj_eventType j) w)))
        (map_option pg_time (np_quiet_hours_end (getOrDefault (nj_orgId j) u (nj_eventType j) w))) (clock now)"
    unfolding reached_def Let_def by (rule conjunct1, rule conjunct2)
  with True show ?thesis
    unfolding notify_one_def wants_inapp_def wants_email_def Let_def by (simp only: if_False simp_thms)
next
  case False
  then have "(truthy (nj_actorUserId j) \<and> nj_actorUserId j = Some u) \<or>
      isInQuietHours (map_option pg_time (np_quiet_hours_start (getOrDefault (nj_orgId j) u (nj_eventType j) w)))
        (map_option pg_time (np_quiet_hours_end (getOrDefault (nj_orgId j) u (nj_eventType j) w))) (clock now)"
    unfolding reached_def Let_def by argo
  then have "notify_one clock now j u w = w"
    unfolding notify_one_def Let_def by (rule two_guards)
  with False show ?thesis by (simp add: wants_inapp_def wants_email_def)
qed

lemma notify_one_effect:
  fixes w :: "'a notif_db_scheme"
  obtains r where "n_user_id r = u" and "row_of j r"
    and "notifications (notify_one clock now j u w) = notifications w @ (if wants_inapp clock now j w u then [r] else [])"
    and "pubsub (notify_one clock now j u w) = pubsub w @
      (if wants_inapp clock now j w u then [(notification_channel (nj_orgId j) u, notification_json r)] else [])"
    and "jobs (notify_one clock now j u w) = jobs w @ (if wants_email clock now j w u then [email_request j u] else [])"
proof (rule that)
  let ?r = "fst (notif_create now (nj_orgId j) u (nj_eventType j) (nj_entityType j) (nj_entityId j) (nj_actorUserId j) (nj_payload j) w)"
  show "n_user_id ?r = u" "row_of j ?r" by (simp_all add: notif_create_row row_of_def)
  show "notifications (notify_one clock now j u w) = notifications w @ (if wants_inapp clock now j w u then [?r] else [])"
    by (simp add: notify_one_eq enqueue_def Let_def)
  show "pubsub (notify_one clock now j u w) = pubsub w @
      (if wants_inapp clock now j w u then [(notification_channel (nj_orgId j) u, notification_json ?r)] else [])"
    by (simp add: notify_one_eq enqueue_def Let_def)
  show "jobs (notify_one clock now j u w) = jobs w @ (if wants_email clock now j w u then [email_request j u] else [])"
    by (simp add: notify_one_eq enqueue_def email_request_def Let_def)
qed

lemma fanout:
  fixes w :: "'a notif_db_scheme"
  shows "\<exists>new. notifications (fold (notify_one clock now j) ts w) = notifications w @ new \<and>
    map n_user_id new = filter (wants_inapp clock now j w) ts \<and> list_all (row_of j) new \<and>
    pubsub (fold (notify_one clock now j) ts w) =
      pubsub w @ map (\<lambda>r. (notification_channel (nj_orgId j) (n_user_id r), notification_json r)) new \<and>
    jobs (fold (notify_one clock now j) ts w) = jobs w @ map (email_request j) (filter (wants_email clock now j w) ts)"
proof (induction ts arbitrary: w)
  case (Cons t ts)
  obtain r where r: "n_user_id r = t" "row_of j r"
      "notifications (notify_one clock now j t w) = notifications w @ (if wants_inapp clock now j w t then [r] else [])"
      "pubsub (notify_one clock now j t w) = pubsub w @
        (if wants_inapp clock now j w t then [(notification_channel (nj_orgId j) t, notification_json r)] else [])"
      "jobs (notify_one clock now j t w) = jobs w @ (if wants_email clock now j w t then [email_request j t] else [])"
    by (rule notify_one_effect)
  have c: "wants_inapp clock now j (notify_one clock now j t w) = wants_inapp clock now j w"
      "wants_email clock now j (notify_one clock now j t w) = wants_email clock now j w"
    by (rule wants_cong; simp)+
  from Cons.IH [of "notify_one clock now j t w"] obtain new where
    "notifications (fold (notify_one clock now j) (t # ts) w) = notifications (notify_one clock now j t w) @ new"
    "map n_user_id new = filter (wants_inapp clock now j w) ts" "list_all (row_of j) new"
    "pubsub (fold (notify_one clock now j) (t # ts) w) = pubsub (notify_one clock now j t w) @
       map (\<lambda>r. (notification_channel (nj_orgId j) (n_user_id r), notification_json r)) new"
    "jobs (fold (notify_one clock now j) (t # ts) w) = jobs (notify_one clock now j t w) @
       map (email_request j) (filter (wants_email clock now j w) ts)"
    unfolding c by auto
  with r show ?case
    by (intro exI [of _ "(if wants_inapp clock now j w t then [r] else []) @ new"]) auto
qed simp

section \<open>Digests\<close>

lemma iso_date_day: "t div 86400000 = t' div 86400000 \<Longrightarrow> iso_date t = iso_date t'"
  by (simp only: iso_date_def)

lemma iso_date_examples: "iso_date 0 = ''1970-01-01''" "iso_date 1709164800000 = ''2024-02-29''" "iso_date 1735689599999 = ''2024-12-31''"
  by code_simp+

lemma digest_queues_one:
  assumes "redis_get t (digest_key i t) w = None" and "digest_pending t i w \<noteq> []" and "\<And>n d. render n d = Inr (h n, x n)"
  shows "fst (runSendUserDigestJob render t i e nm w) = Inr () \<and>
    length (jobs (snd (runSendUserDigestJob render t i e nm w))) = length (jobs w) + 1"
  using assms by (simp add: runSendUserDigestJob_def Let_def enqueue_def redis_setex_def)

section \<open>Example\<close>

definition ex_notif :: notif_db where
  "ex_notif = \<lparr>outbox_events = [], audit_logs = [], jobs = [], redis = (\<lambda>_. None), pubsub = [],
     entropy = (\<lambda>n. replicate n CHR ''x''), drawn = 1, users = [], organizations = [], org_memberships = [],
     workspaces = [],
     notification_preferences = [(default_pref ''p'' ''o1'' ''u2'' ''task.assigned'')
       \<lparr>np_quiet_hours_start := Some 1320, np_quiet_hours_end := Some 420\<rparr>],
     subscriptions = [], notifications = [], push_subscriptions = [], emails_sent = [], pushes_sent = []\<rparr>"

definition ex_notif_job :: notif_job where
  "ex_notif_job = \<lparr>nj_eventType = ''task.assigned'', nj_orgId = ''o1'', nj_entityType = ''task'', nj_entityId = ''t1'',
     nj_actorUserId = Some ''u1'', nj_targetUserIds = [''u1'', ''u2'', ''u3''], nj_payload = JObj [(''recipientEmail'', JStr ''a'')]\<rparr>"

definition ex_pending :: notif_db where
  "ex_pending = snd (notif_create 5 ''o1'' ''u3'' ''task.assigned'' ''task'' ''t1'' None (JObj []) ex_notif)"

definition ex_mailer :: mailer where
  "ex_mailer = \<lparr>ml_emailProvider = ''ses'', ml_send = (\<lambda>p m. if p = Ses then Inl (JsError ''down'') else Inr ()),
     ml_render = (\<lambda>n d. Inr (n, n))\<rparr>"

section \<open>The properties\<close>

text \<open>C27. Quiet hours are an arc of the clock: with a start and an end, also across midnight, the test holds
  exactly when the minutes passed since the start are fewer than the arc is long; an empty arc is never quiet.\<close>

theorem quiet_hours_are_an_arc:
  assumes "0 \<le> s" "s < 1440" "0 \<le> e" "e < 1440" and "h < 24" "m < 60"
  shows "isInQuietHours (Some (pg_time s)) (Some (pg_time e)) (h, m) \<longleftrightarrow>
    (int (60 * h + m) - s) mod 1440 < (e - s) mod 1440"
proof -
  let ?n = "60 * h + m"
  obtain a b where ab: "s = int a" "e = int b" using assms(1,3) by (metis nonneg_int_cases)
  have "(int ?n - s) mod 1440 = (if s \<le> int ?n then int ?n - s else int ?n - s + 1440)"
    using assms by (intro day_offset) auto
  moreover have "(e - s) mod 1440 = (if s \<le> e then e - s else e - s + 1440)"
    using assms by (intro day_offset) auto
  moreover have "isInQuietHours (Some (pg_time s)) (Some (pg_time e)) (h, m) \<longleftrightarrow>
      (if a \<le> b then a \<le> ?n \<and> ?n < b else a \<le> ?n \<or> ?n < b)"
    by (simp add: isInQuietHours_def clock_minutes_pg_time ab Let_def mult.commute)
  moreover have "int ?n < 1440" using assms(5,6) by linarith
  ultimately show ?thesis using assms(2,4) by (simp only: ab) (auto split: if_splits)
qed

theorem quiet_hours_are_an_arc_witness:
  "isInQuietHours (Some (pg_time 1320)) (Some (pg_time 420)) (23, 30) \<longleftrightarrow> (90 :: int) mod 1440 < (420 - 1320) mod 1440"
  using quiet_hours_are_an_arc [of 1320 420 23 30] by simp



text \<open>One digest per day: the job queues at most one e-mail and marks every notification it took into it; run
  again on the same date within 24 hours it does nothing.\<close>

theorem digest_once_per_day:
  assumes "redis_get t (digest_key i t) w = None" and "runSendUserDigestJob render t i e nm w = (Inr (), w')"
    and "t' < t + 86400000" and "iso_date t' = iso_date t"
  shows "runSendUserDigestJob render t' i e nm w' = (Inr (), w') \<and> length (jobs w') \<le> length (jobs w) + 1 \<and>
    filter (\<lambda>r. n_id r \<in> n_id ` set (digest_pending t i w) \<and> n_digest_sent_at r = None) (notifications w') = []"
proof -
  have key: "digest_key i t' = digest_key i t" using assms(4) by (simp add: digest_key_def)
  have set: "redis w' (digest_key i t) = Some (JStr ''1'', Some (t + 86400000))"
    using assms(1,2) by (auto simp: runSendUserDigestJob_def redis_setex_def Let_def split: if_splits sum.splits prod.splits)
  then have "redis_get t' (digest_key i t') w' \<noteq> None" using assms(3) by (simp add: redis_get_def live_at_def key)
  then have "runSendUserDigestJob render t' i e nm w' = (Inr (), w')" by (simp add: runSendUserDigestJob_def Let_def)
  moreover have "length (jobs w') \<le> length (jobs w) + 1"
    using assms(1,2) by (auto simp: runSendUserDigestJob_def redis_setex_def enqueue_def Let_def split: if_splits sum.splits prod.splits)
  moreover have "filter (\<lambda>r. n_id r \<in> n_id ` set (digest_pending t i w) \<and> n_digest_sent_at r = None) (notifications w') = []"
  proof (cases "digest_pending t i w = []")
    case False
    then have "notifications w' = update_where (\<lambda>r. n_id r \<in> n_id ` set (digest_pending t i w))
        (\<lambda>r. r\<lparr>n_digest_sent_at := Some t\<rparr>) (notifications w)"
      using assms(1,2) by (auto simp: runSendUserDigestJob_def redis_setex_def enqueue_def Let_def split: if_splits sum.splits prod.splits)
    then show ?thesis by (simp, intro filter_update_where_clears) auto
  qed simp
  ultimately show ?thesis by simp
qed

theorem digest_once_per_day_witness:
  "\<exists>w'. runSendUserDigestJob (\<lambda>n d. Inr (n, n)) 6 ''u3'' ''m'' ''n'' ex_pending = (Inr (), w') \<and>
     runSendUserDigestJob (\<lambda>n d. Inr (n, n)) 7 ''u3'' ''m'' ''n'' w' = (Inr (), w') \<and> length (jobs w') = 1"
proof -
  let ?w' = "snd (runSendUserDigestJob (\<lambda>n d. Inr (n, n)) 6 ''u3'' ''m'' ''n'' ex_pending)"
  have r: "redis_get 6 (digest_key ''u3'' 6) ex_pending = None"
    by (simp add: redis_get_def ex_pending_def ex_notif_def notif_create_def draw_def redis_publish_def Let_def)
  have p: "digest_pending 6 ''u3'' ex_pending \<noteq> []"
    by (simp add: digest_pending_def ex_pending_def ex_notif_def notif_create_def draw_def redis_publish_def Let_def)
  have j: "jobs ex_pending = []" by (simp add: ex_pending_def) (simp add: ex_notif_def)
  have f: "fst (runSendUserDigestJob (\<lambda>n d. Inr (n, n)) 6 ''u3'' ''m'' ''n'' ex_pending) = Inr ()"
    and l: "length (jobs ?w') = 1"
    using digest_queues_one [OF r p, where render = "\<lambda>n d. Inr (n, n)" and h = id and x = id] j by simp_all
  have s: "runSendUserDigestJob (\<lambda>n d. Inr (n, n)) 6 ''u3'' ''m'' ''n'' ex_pending = (Inr (), ?w')"
    by (rule prod_eqI) (simp_all only: f fst_conv snd_conv)
  have "iso_date 7 = iso_date 6" by (rule iso_date_day) simp
  then have "runSendUserDigestJob (\<lambda>n d. Inr (n, n)) 7 ''u3'' ''m'' ''n'' ?w' = (Inr (), ?w')"
    using digest_once_per_day [OF r s, of 7] by simp
  with s l show ?thesis by blast
qed



text \<open>The first change of a preference is lost: where a user has no row for an event type, updating the
  preference creates the default row and drops the given values.  So a valid unsubscribe link leaves the e-mails
  on when it is used first, and turns them off only when it is used again.\<close>

theorem first_unsubscribe_is_lost:
  assumes "findPreference g u ev w = None" and "ev \<noteq> ''''" and "tok = hmac (u @ '':'' @ g @ '':'' @ ev)" "tok \<noteq> ''''"
    and "unsubscribe hmac tok u g ev w = (r1, w1)" and "unsubscribe hmac tok u g ev w1 = (r2, w2)"
  shows "r1 = Inr () \<and> np_channel_email (getOrDefault g u ev w1) \<and>
    r2 = Inr () \<and> \<not> np_channel_email (getOrDefault g u ev w2)"
proof -
  let ?P = "\<lambda>p. np_org_id p = g \<and> np_user_id p = u \<and> np_event_type p = ev"
  let ?d = "no_pref_change\<lparr>pp_channel_email := Some False\<rparr>" and ?p = "default_pref (entropy w (drawn w)) g u ev"
  have P: "?P ?p" "?P (pref_set ?d ?p)" by (simp_all add: default_pref_def pref_set_def)
  have w1: "r1 = Inr ()" "notification_preferences w1 = notification_preferences w @ [?p]"
    using assms(1-5) by (auto simp: unsubscribe_def updatePreference_def upsertPreference_def no_pref_change_def draw_def Let_def)
  have f1: "findPreference g u ev w1 = Some ?p"
    using assms(1) P(1) by (simp add: findPreference_def w1 find_append)
  have w2: "r2 = Inr ()" "notification_preferences w2 = update_where ?P (pref_set ?d) (notification_preferences w1)"
    using assms(2,3,4,6) f1 by (auto simp: unsubscribe_def updatePreference_def upsertPreference_def no_pref_change_def)
  have "findPreference g u ev w2 = Some (pref_set ?d ?p)"
    using f1 P(2) unfolding findPreference_def w2 by (rule find_upsert)
  with f1 w1(1) w2(1) show ?thesis
    by (simp add: getOrDefault_def default_pref_def pref_set_def no_pref_change_def)
qed

theorem first_unsubscribe_is_lost_witness:
  "np_channel_email (getOrDefault ''o1'' ''u9'' ''task.assigned'' (snd (unsubscribe id ''u9:o1:task.assigned'' ''u9'' ''o1'' ''task.assigned'' ex_notif)))"
proof -
  have "findPreference ''o1'' ''u9'' ''task.assigned'' ex_notif = None"
    by (simp add: findPreference_def ex_notif_def default_pref_def)
  from first_unsubscribe_is_lost [OF this _ _ _ prod.collapse [symmetric] prod.collapse [symmetric],
      where tok = "''u9:o1:task.assigned''" and hmac = id]
  show ?thesis by simp
qed

end
