(* ===== verification/Org_Api.thy ===== *)
theory Org_Api
  imports Resource_Api Auth_Router Invitation Payment Notification
begin

text \<open>
  The routers of organizations, payments, notifications and push subscriptions with their schemas and casts
  (\<^verbatim>\<open>src/modules/organization/organization.router.ts\<close>, \<^verbatim>\<open>src/modules/payment/payment.router.ts\<close>,
  \<^verbatim>\<open>src/modules/notification/notification.router.ts\<close>, \<^verbatim>\<open>src/modules/notification/push.router.ts\<close>), and who may change
  memberships, invitations, payments and notifications.
\<close>

section \<open>Rows as JSON\<close>

definition json_time :: "timestamp option \<Rightarrow> json" where
  "json_time t = case_option JNull JNum t"

text \<open>The two counters of bytes are \<^verbatim>\<open>BIGINT\<close>, which the driver reads as texts.\<close>

definition org_json :: "org \<Rightarrow> json" where
  "org_json r = JObj
     [(''id'', JStr (o_id r)), (''name'', JStr (o_name r)), (''slug'', JStr (o_slug r)), (''status'', JStr (org_status_name (o_status r))),
      (''plan_tier'', JStr (plan_name (o_plan_tier r))), (''plan_started_at'', JNum (o_plan_started_at r)),
      (''plan_expires_at'', json_time (o_plan_expires_at r)), (''grace_period_ends_at'', json_time (o_grace_period_ends_at r)),
      (''offboarding_started_at'', json_time (o_offboarding_started_at r)), (''deleted_at'', json_time (o_deleted_at r)),
      (''max_members'', JNum (o_max_members r)), (''storage_quota_bytes'', JStr (show_nat (nat (o_storage_quota_bytes r)))),
      (''storage_used_bytes'', JStr (show_nat (nat (o_storage_used_bytes r)))), (''saml_enabled'', JBool (o_saml_enabled r)),
      (''saml_metadata_url'', json_opt (o_saml_metadata_url r)), (''mfa_required'', JBool (o_mfa_required r)),
      (''account_lockout_attempts'', JNum (o_account_lockout_attempts r)), (''retention_audit_days'', JNum (o_retention_audit_days r)),
      (''retention_chat_days'', case_option JNull JNum (o_retention_chat_days r)), (''timezone'', JStr (o_timezone r)),
      (''locale'', JStr (o_locale r)), (''created_at'', JNum (o_created_at r)), (''updated_at'', JNum (o_updated_at r)),
      (''version'', JNum (o_version r))]"

definition membership_json :: "membership \<Rightarrow> json" where
  "membership_json m = JObj
     [(''id'', JStr (m_id m)), (''org_id'', JStr (m_org_id m)), (''user_id'', JStr (m_user_id m)), (''role'', JStr (role_name (m_role m))),
      (''status'', JStr (case m_status m of MActive \<Rightarrow> ''active'' | MSuspended \<Rightarrow> ''suspended'' | MRemoved \<Rightarrow> ''removed'')),
      (''invited_by'', json_opt (m_invited_by m)), (''joined_at'', json_time (m_joined_at m)), (''removed_at'', json_time (m_removed_at m)),
      (''deleted_at'', json_time (m_deleted_at m)), (''created_at'', JNum (m_created_at m)), (''updated_at'', JNum (m_updated_at m))]"

text \<open>The row of an invitation has the hash of its token.\<close>

definition invitation_json :: "invitation \<Rightarrow> json" where
  "invitation_json i = JObj
     [(''id'', JStr (inv_id i)), (''org_id'', JStr (inv_org_id i)), (''invited_by'', JStr (inv_invited_by i)), (''email'', JStr (inv_email i)),
      (''role'', JStr (role_name (inv_role i))), (''token_hash'', JStr (inv_token_hash i)),
      (''status'', JStr (case inv_status i of InvPending \<Rightarrow> ''pending'' | InvAccepted \<Rightarrow> ''accepted'' | InvExpired \<Rightarrow> ''expired'' | InvRevoked \<Rightarrow> ''revoked'')),
      (''expires_at'', JNum (inv_expires_at i)), (''accepted_at'', json_time (inv_accepted_at i)), (''revoked_at'', json_time (inv_revoked_at i)),
      (''created_at'', JNum (inv_created_at i))]"

text \<open>\<^verbatim>\<open>sanitizeUser\<close> of the router: the whole row but for four columns.\<close>

definition me_json :: "user \<Rightarrow> json" where
  "me_json u = JObj
     [(''id'', JStr (u_id u)), (''email'', JStr (u_email u)), (''email_verified'', JBool (u_email_verified u)),
      (''email_verified_at'', json_time (u_email_verified_at u)), (''name'', JStr (u_name u)), (''avatar_url'', json_opt (u_avatar_url u)),
      (''phone'', json_opt (u_phone u)), (''totp_enabled'', JBool (u_totp_enabled u)), (''is_platform_admin'', JBool (u_is_platform_admin u)),
      (''status'', JStr (user_status_name (u_status u))), (''failed_login_attempts'', JNum (u_failed_login_attempts u)),
      (''locked_until'', json_time (u_locked_until u)), (''last_login_at'', json_time (u_last_login_at u)),
      (''password_changed_at'', json_time (u_password_changed_at u)), (''last_seen_at'', json_time (u_last_seen_at u)),
      (''deleted_at'', json_time (u_deleted_at u)), (''created_at'', JNum (u_created_at u)), (''updated_at'', JNum (u_updated_at u))]"

section \<open>Organizations\<close>

definition create_org_fields :: "(string \<times> schema) list" where
  "create_org_fields = [(''name'', ZString [Min 1, Max 255]), (''slug'', ZString [Min 2, Max 100, Slug]), (''timezone'', ZOptional (ZString [])),
     (''locale'', ZOptional (ZString []))]"

definition update_org_fields :: "(string \<times> schema) list" where
  "update_org_fields =
     [(''name'', ZOptional (ZString [Min 1, Max 255])), (''slug'', ZOptional (ZString [Min 2, Max 100, Slug])), (''timezone'', ZOptional (ZString [])),
      (''locale'', ZOptional (ZString [])), (''mfa_required'', ZOptional ZBoolean), (''account_lockout_attempts'', ZOptional (ZInt (Some 3) (Some 20))),
      (''version'', ZInt (Some 1) None)]"

definition suspend_fields :: "(string \<times> schema) list" where
  "suspend_fields = [(''reason'', ZString [Min 1, Max 500])]"

definition role_fields :: "(string \<times> schema) list" where
  "role_fields = [(''role'', ZEnum [''org_admin'', ''member'', ''guest''])]"

definition invite_fields :: "(string \<times> schema) list" where
  "invite_fields = [(''email'', ZString [Email]), (''role'', ZEnum [''org_admin'', ''member'', ''guest''])]"

definition accept_fields :: "(string \<times> schema) list" where
  "accept_fields = [(''token'', ZString [Min 1])]"

definition ROLE_NAMES :: "(string \<times> role) list" where
  "ROLE_NAMES = [(''org_admin'', OrgAdmin), (''member'', Member), (''guest'', Guest)]"

definition decode_create_org :: "json \<Rightarrow> create_org_input option" where
  "decode_create_org d = do {
     name \<leftarrow> required as_str ''name'' d;
     slug \<leftarrow> required as_str ''slug'' d;
     tz \<leftarrow> optional as_str ''timezone'' d;
     loc \<leftarrow> optional as_str ''locale'' d;
     Some \<lparr>ci_name = name, ci_slug = slug, ci_timezone = tz, ci_locale = loc\<rparr> }"

text \<open>The schema strips every column it does not name.\<close>

definition decode_update_org :: "json \<Rightarrow> (update_org_data \<times> int) option" where
  "decode_update_org d = do {
     name \<leftarrow> optional as_str ''name'' d;
     slug \<leftarrow> optional as_str ''slug'' d;
     tz \<leftarrow> optional as_str ''timezone'' d;
     loc \<leftarrow> optional as_str ''locale'' d;
     mfa \<leftarrow> optional as_bool ''mfa_required'' d;
     lockout \<leftarrow> optional as_int ''account_lockout_attempts'' d;
     version \<leftarrow> required as_int ''version'' d;
     Some (\<lparr>uo_name = name, uo_slug = slug, uo_timezone = tz, uo_locale = loc, uo_mfa_required = mfa, uo_account_lockout_attempts = lockout,
       uo_retention_chat_days = None, uo_saml_enabled = None, uo_saml_metadata_url = None, uo_max_members = None\<rparr>, version) }"

definition decode_invite :: "json \<Rightarrow> (string \<times> role) option" where
  "decode_invite d = do {
     email \<leftarrow> required as_str ''email'' d;
     role \<leftarrow> required (as_enum ROLE_NAMES) ''role'' d;
     Some (email, role) }"

text \<open>The check of the caller's role, which comes before the parameter of the path reaches the database.\<close>

definition role_check :: "org_context \<Rightarrow> 'w \<Rightarrow> unit outcome" where
  "role_check c w = (if admin_or_owner c then Inr () else Inl (ForbiddenError ''INSUFFICIENT_ROLE''))"

definition get_org_route :: "'a inv_db_scheme handler" where
  "get_org_route params rq meta u c w = answer_with (\<lambda>r. res_success meta (org_json r)) (read_only (getOrg (oc_orgId c)) w)"

definition update_org_route :: "http_env \<Rightarrow> 'a inv_db_scheme handler" where
  "update_org_route env params rq meta u c =
     validate (he_safeParse env) (ZObject update_org_fields) (rq_body rq) (\<lambda>d. cast_to decode_update_org d (\<lambda>(dta, version) w.
       answer_with (\<lambda>r. res_success meta (org_json r)) (update_org_handler (he_now env) c dta version w)))"

definition suspend_route :: "http_env \<Rightarrow> 'a inv_db_scheme handler" where
  "suspend_route env params rq meta u c =
     validate (he_safeParse env) (ZObject suspend_fields) (rq_body rq) (\<lambda>d. cast_to (required as_str ''reason'') d (\<lambda>reason w.
       answer_with (\<lambda>_. res_success meta (message_answer ''Organization suspended'')) (suspend_org_handler (he_now env) u c reason w)))"

definition reactivate_org_route :: "http_env \<Rightarrow> 'a inv_db_scheme handler" where
  "reactivate_org_route env params rq meta u c w =
     answer_with (\<lambda>_. res_success meta (message_answer ''Organization reactivated'')) (reactivate_org_handler (he_now env) u c w)"

definition members_route :: "'a inv_db_scheme handler" where
  "members_route params rq meta u c w = (res_success meta (JArr (map membership_json (findMembersByOrg (oc_orgId c) w))), w)"

definition update_role_route :: "http_env \<Rightarrow> 'a inv_db_scheme handler" where
  "update_role_route env params rq meta u c =
     validate (he_safeParse env) (ZObject role_fields) (rq_body rq) (\<lambda>d. cast_to (required (as_enum ROLE_NAMES) ''role'') d (\<lambda>role w.
       answer_with (\<lambda>m. res_success meta (membership_json m))
         (with_uuid env (params ''userId'') (role_check c) (update_role_handler (he_now env) c (params ''userId'') role) w)))"

definition remove_member_route :: "http_env \<Rightarrow> 'a inv_db_scheme handler" where
  "remove_member_route env params rq meta u c w =
     answer_with (\<lambda>_. res_success meta (message_answer ''Member removed''))
       (with_uuid env (params ''userId'') (role_check c) (remove_member_handler (he_now env) c (params ''userId'')) w)"

text \<open>\<open>sign\<close> is the HMAC of an invitation's payload.\<close>

definition invite_route :: "(json \<Rightarrow> string) \<Rightarrow> http_env \<Rightarrow> 'a inv_db_scheme handler" where
  "invite_route sign env params rq meta u c =
     validate (he_safeParse env) (ZObject invite_fields) (rq_body rq) (\<lambda>d. cast_to decode_invite d (\<lambda>(email, role) w.
       answer_with (\<lambda>i. res_created meta (invitation_json i)) (invite_handler (he_crypto env) sign (he_now env) u c email role w)))"

definition revoke_invitation_route :: "http_env \<Rightarrow> 'a inv_db_scheme handler" where
  "revoke_invitation_route env params rq meta u c w =
     answer_with (\<lambda>_. res_success meta (message_answer ''Invitation revoked''))
       (with_uuid env (params ''invitationId'') (role_check c) (revoke_invitation_handler (he_now env) u c (params ''invitationId'')) w)"

definition org_routes :: "(json \<Rightarrow> string) \<Rightarrow> http_env \<Rightarrow> 'a inv_db_scheme route list" where
  "org_routes sign env =
     [mk_route ''GET'' ''/orgs/:orgId'' False get_org_route,
      mk_route ''PATCH'' ''/orgs/:orgId'' True (update_org_route env),
      mk_route ''POST'' ''/orgs/:orgId/suspend'' False (suspend_route env),
      mk_route ''POST'' ''/orgs/:orgId/reactivate'' False (reactivate_org_route env),
      mk_route ''GET'' ''/orgs/:orgId/members'' False members_route,
      mk_route ''PATCH'' ''/orgs/:orgId/members/:userId/role'' True (update_role_route env),
      mk_route ''DELETE'' ''/orgs/:orgId/members/:userId'' False (remove_member_route env),
      mk_route ''POST'' ''/orgs/:orgId/invitations'' True (invite_route sign env),
      mk_route ''DELETE'' ''/orgs/:orgId/invitations/:invitationId'' False (revoke_invitation_route env)]"

text \<open>The four routes that need no organization: one's own account, a new organization, one's organizations, and an
  invitation, which needs no token.\<close>

definition with_user ::
    "http_env \<Rightarrow> http_request \<Rightarrow> (req_user \<Rightarrow> 'a dir_scheme \<Rightarrow> answer \<times> 'a dir_scheme) \<Rightarrow> 'a dir_scheme \<Rightarrow> answer \<times> 'a dir_scheme" where
  "with_user env rq h w =
     (case authenticate (he_crypto env) (he_keys env) (he_redis_up env) (he_now env) (rq_authorization rq) w of
        (Inl e, w1) \<Rightarrow> (error_answer e, w1) | (Inr u, w1) \<Rightarrow> h u w1)"

definition me_route :: "http_env \<Rightarrow> http_request \<Rightarrow> json \<Rightarrow> 'a dir_scheme \<Rightarrow> answer \<times> 'a dir_scheme" where
  "me_route env rq meta = with_user env rq (\<lambda>u w.
     case findUserById (ru_userId u) w of
       None \<Rightarrow> (error_answer (NotFoundError ''User''), w) | Some r \<Rightarrow> (res_success meta (me_json r), w))"

definition mine_json :: "org \<Rightarrow> json" where
  "mine_json r = JObj [(''id'', JStr (o_id r)), (''name'', JStr (o_name r)), (''slug'', JStr (o_slug r)),
     (''status'', JStr (org_status_name (o_status r))), (''plan_tier'', JStr (plan_name (o_plan_tier r)))]"

definition orgs_mine_route :: "http_env \<Rightarrow> http_request \<Rightarrow> json \<Rightarrow> 'a dir_scheme \<Rightarrow> answer \<times> 'a dir_scheme" where
  "orgs_mine_route env rq meta = with_user env rq (\<lambda>u w. (res_success meta (JArr (map mine_json (orgs_mine (ru_userId u) w))), w))"

definition create_org_route ::
    "http_env \<Rightarrow> http_request \<Rightarrow> json \<Rightarrow> idem_row list \<times> 'a dir_scheme \<Rightarrow> answer \<times> idem_row list \<times> 'a dir_scheme" where
  "create_org_route env rq meta st =
     (case authenticate (he_crypto env) (he_keys env) (he_redis_up env) (he_now env) (rq_authorization rq) (snd st) of
        (Inl e, w1) \<Rightarrow> (error_answer e, fst st, w1)
      | (Inr u, w1) \<Rightarrow>
          (case idempotencyMiddleware (hashToken (he_crypto env)) (he_now env)
                  \<lparr>ir_method = rq_method rq, ir_key = rq_idempotency_key rq, ir_userId = Some (ru_userId u),
                   ir_contextOrg = None, ir_userOrg = Some (ru_orgId u), ir_path = rq_path rq\<rparr>
                  (validate (he_safeParse env) (ZObject create_org_fields) (rq_body rq) (\<lambda>d. cast_to decode_create_org d (\<lambda>input w.
                     answer_with (\<lambda>r. res_created meta (org_json r)) (createOrg (he_now env) (ru_userId u) input w))))
                  (fst st, w1) of
             (Inl e, st') \<Rightarrow> (error_answer e, st') | (Inr a, st') \<Rightarrow> (a, st')))"

definition accept_route :: "http_env \<Rightarrow> http_request \<Rightarrow> json \<Rightarrow> 'a inv_db_scheme \<Rightarrow> answer \<times> 'a inv_db_scheme" where
  "accept_route env rq meta =
     validate (he_safeParse env) (ZObject accept_fields) (rq_body rq) (\<lambda>d. cast_to (required as_str ''token'') d (\<lambda>token w.
       answer_with (\<lambda>(t, i). res_success meta (JObj [(''tokens'', token_pair_json t), (''userId'', JStr i)]))
         (acceptInvitation (he_crypto env) (he_now env) token w)))"

section \<open>Payments\<close>

definition order_fields :: "(string \<times> schema) list" where
  "order_fields = [(''plan_tier'', ZEnum [''pro'', ''business'', ''enterprise'']), (''billing_cycle'', ZEnum [''monthly'', ''annual''])]"

definition verify_fields :: "(string \<times> schema) list" where
  "verify_fields = [(''razorpay_order_id'', ZString [Min 1]), (''razorpay_payment_id'', ZString [Min 1]), (''razorpay_signature'', ZString [Min 1])]"

definition decode_order :: "json \<Rightarrow> (string \<times> string) option" where
  "decode_order d = do {
     plan \<leftarrow> required as_str ''plan_tier'' d;
     cycle \<leftarrow> required as_str ''billing_cycle'' d;
     Some (plan, cycle) }"

definition decode_verify :: "json \<Rightarrow> (string \<times> string \<times> string) option" where
  "decode_verify d = do {
     orderId \<leftarrow> required as_str ''razorpay_order_id'' d;
     paymentId \<leftarrow> required as_str ''razorpay_payment_id'' d;
     signature \<leftarrow> required as_str ''razorpay_signature'' d;
     Some (orderId, paymentId, signature) }"

definition payment_status_name :: "payment_status \<Rightarrow> string" where
  "payment_status_name st = (case st of PCreated \<Rightarrow> ''created'' | PAuthorized \<Rightarrow> ''authorized'' | PCaptured \<Rightarrow> ''captured'' | PFailed \<Rightarrow> ''failed''
     | PRefunded \<Rightarrow> ''refunded'' | PDisputed \<Rightarrow> ''disputed'')"

text \<open>The rows as far as the program writes them: \<^verbatim>\<open>subscription_id\<close>, the trial and the metadata of a subscription are never set.\<close>

definition payment_json :: "payment \<Rightarrow> json" where
  "payment_json p = JObj
     [(''id'', JStr (p_id p)), (''org_id'', JStr (p_org_id p)), (''razorpay_order_id'', JStr (p_razorpay_order_id p)),
      (''razorpay_payment_id'', json_opt (p_razorpay_payment_id p)), (''amount_paise'', JNum (p_amount_paise p)), (''currency'', JStr (p_currency p)),
      (''status'', JStr (payment_status_name (p_status p))), (''failure_reason'', json_opt (p_failure_reason p)),
      (''captured_at'', json_time (p_captured_at p)), (''refunded_at'', json_time (p_refunded_at p)),
      (''idempotency_key'', JStr (p_idempotency_key p)), (''metadata'', p_metadata p), (''created_at'', JNum (p_created_at p)),
      (''updated_at'', JNum (p_updated_at p))]"

definition subscription_json :: "subscription \<Rightarrow> json" where
  "subscription_json b = JObj
     [(''id'', JStr (sb_id b)), (''org_id'', JStr (sb_org_id b)), (''razorpay_subscription_id'', json_opt (sb_razorpay_subscription_id b)),
      (''plan_tier'', JStr (plan_name (sb_plan_tier b))),
      (''status'', JStr (case sb_status b of SubActive \<Rightarrow> ''active'' | SubHalted \<Rightarrow> ''halted'' | SubCancelled \<Rightarrow> ''cancelled'' | SubExpired \<Rightarrow> ''expired''
         | SubPending \<Rightarrow> ''pending'')),
      (''current_period_start'', json_time (sb_current_period_start b)), (''current_period_end'', json_time (sb_current_period_end b)),
      (''cancel_at_period_end'', JBool (sb_cancel_at_period_end b)), (''cancelled_at'', json_time (sb_cancelled_at b))]"

text \<open>The world of the payment routes: a new order of Razorpay and its description, the HMAC of a signature, and
  \<^verbatim>\<open>Number\<close> on a text of the query, \<open>None\<close> where it is no integer.\<close>

record payment_api =
  pa_create_order :: "int \<Rightarrow> string \<Rightarrow> string outcome"
  pa_order_json :: "string \<Rightarrow> json"
  pa_hmac :: "string \<Rightarrow> string"
  pa_number :: "string \<Rightarrow> int option"

definition order_handler :: "payment_api \<Rightarrow> http_env \<Rightarrow> 'a pay_db_scheme handler" where
  "order_handler pa env params rq meta u c =
     validate (he_safeParse env) (ZObject order_fields) (rq_body rq) (\<lambda>d. cast_to decode_order d (\<lambda>(plan, cycle) w.
       if \<not> admin_or_owner c then (error_answer (ForbiddenError ''INSUFFICIENT_ROLE''), w)
       else answer_with (\<lambda>(orderId, p). res_created meta (JObj [(''order'', pa_order_json pa orderId), (''payment'', payment_json p)]))
              (createOrder (pa_create_order pa) (he_now env) (oc_orgId c) plan cycle (ru_userId u) w)))"

definition verify_payment_handler :: "payment_api \<Rightarrow> http_env \<Rightarrow> 'a pay_db_scheme handler" where
  "verify_payment_handler pa env params rq meta u c =
     validate (he_safeParse env) (ZObject verify_fields) (rq_body rq) (\<lambda>d. cast_to decode_verify d (\<lambda>(orderId, paymentId, signature) w.
       answer_with (\<lambda>p. res_success meta (payment_json p)) (verifyPayment (pa_hmac pa) (he_now env) (oc_orgId c) orderId paymentId signature w)))"

text \<open>A page is not validated: what is no number fails in the database, and so does a negative one.\<close>

definition query_number :: "payment_api \<Rightarrow> int \<Rightarrow> string \<Rightarrow> json \<Rightarrow> nat outcome" where
  "query_number pa dflt k q =
     (case json_field k q of
        None \<Rightarrow> Inr (nat dflt)
      | Some v \<Rightarrow> (case Option.bind (as_str v) (pa_number pa) of
                     None \<Rightarrow> Inl (PgError ''22P02'') | Some n \<Rightarrow> if n < 0 then Inl (PgError ''2201W'') else Inr (nat n)))"

definition list_payments_handler :: "payment_api \<Rightarrow> 'a pay_db_scheme handler" where
  "list_payments_handler pa params rq meta u c w =
     answer_with (\<lambda>ps. res_success meta (JArr (map payment_json ps)))
       (if \<not> admin_or_owner c then (Inl (ForbiddenError ''INSUFFICIENT_ROLE''), w)
        else case query_number pa 20 ''limit'' (rq_query rq) of
               Inl e \<Rightarrow> (Inl e, w)
             | Inr n \<Rightarrow> (case query_number pa 0 ''offset'' (rq_query rq) of
                          Inl e \<Rightarrow> (Inl e, w) | Inr m \<Rightarrow> (Inr (payment_findByOrg (oc_orgId c) n m w), w)))"

definition subscription_handler :: "'a pay_db_scheme handler" where
  "subscription_handler params rq meta u c w =
     answer_with (\<lambda>b. res_success meta (case_option JNull subscription_json b)) (read_only (sub_findByOrg (oc_orgId c)) w)"

definition payment_routes :: "payment_api \<Rightarrow> http_env \<Rightarrow> 'a pay_db_scheme route list" where
  "payment_routes pa env =
     [mk_route ''POST'' ''/orgs/:orgId/payments/orders'' True (order_handler pa env),
      mk_route ''POST'' ''/orgs/:orgId/payments/verify'' False (verify_payment_handler pa env),
      mk_route ''GET'' ''/orgs/:orgId/payments'' False (list_payments_handler pa),
      mk_route ''GET'' ''/orgs/:orgId/subscription'' False subscription_handler]"

section \<open>Notifications\<close>

definition notification_page_fields :: "(string \<times> schema) list" where
  "notification_page_fields =
     [(''unread_only'', ZOptional (ZEnum [''true'', ''false''])), (''limit'', ZOptional (ZCoerceInt (Some 1) (Some 200))),
      (''offset'', ZOptional (ZCoerceInt (Some 0) None))]"

definition preference_fields :: "(string \<times> schema) list" where
  "preference_fields =
     [(''channel_inapp'', ZOptional ZBoolean), (''channel_email'', ZOptional ZBoolean), (''channel_push'', ZOptional ZBoolean),
      (''digest_mode'', ZOptional (ZEnum [''realtime'', ''daily_digest''])),
      (''quiet_hours_start'', ZOptional (ZNullable (ZString []))), (''quiet_hours_end'', ZOptional (ZNullable (ZString [])))]"

definition unsubscribe_fields :: "(string \<times> schema) list" where
  "unsubscribe_fields = [(''token'', ZString [Min 1]), (''userId'', ZString [Uuid]), (''orgId'', ZString [Uuid]), (''eventType'', ZString [Min 1])]"

definition decode_notification_page :: "json \<Rightarrow> (bool \<times> nat \<times> nat) option" where
  "decode_notification_page d = do {
     unread \<leftarrow> optional as_str ''unread_only'' d;
     limit \<leftarrow> optional as_int ''limit'' d;
     offset \<leftarrow> optional as_int ''offset'' d;
     Some (unread = Some ''true'', nat (case_option 50 id limit), nat (case_option 0 id offset)) }"

definition DIGEST_NAMES :: "(string \<times> digest_mode) list" where
  "DIGEST_NAMES = [(''realtime'', Realtime), (''daily_digest'', DailyDigest)]"

definition decode_preference ::
    "json \<Rightarrow> (bool option \<times> bool option \<times> bool option \<times> digest_mode option \<times> string option option \<times> string option option) option" where
  "decode_preference d = do {
     inapp \<leftarrow> optional as_bool ''channel_inapp'' d;
     email \<leftarrow> optional as_bool ''channel_email'' d;
     push \<leftarrow> optional as_bool ''channel_push'' d;
     digest \<leftarrow> optional (as_enum DIGEST_NAMES) ''digest_mode'' d;
     from \<leftarrow> optional (as_nullable as_str) ''quiet_hours_start'' d;
     to \<leftarrow> optional (as_nullable as_str) ''quiet_hours_end'' d;
     Some (inapp, email, push, digest, from, to) }"

definition decode_unsubscribe :: "json \<Rightarrow> (string \<times> uuid \<times> uuid \<times> string) option" where
  "decode_unsubscribe d = do {
     token \<leftarrow> required as_str ''token'' d;
     userId \<leftarrow> required as_str ''userId'' d;
     orgId \<leftarrow> required as_str ''orgId'' d;
     eventType \<leftarrow> required as_str ''eventType'' d;
     Some (token, userId, orgId, eventType) }"

text \<open>How PostgreSQL reads a text as a \<^verbatim>\<open>TIME\<close>, in minutes; \<open>None\<close> when it refuses the text.\<close>

definition read_time :: "(string \<Rightarrow> int option) \<Rightarrow> string option option \<Rightarrow> int option option outcome" where
  "read_time pg_read v =
     (case v of None \<Rightarrow> Inr None | Some None \<Rightarrow> Inr (Some None)
      | Some (Some s) \<Rightarrow> (case pg_read s of None \<Rightarrow> Inl (PgError ''22007'') | Some t \<Rightarrow> Inr (Some (Some t))))"

definition preference_json :: "notif_pref \<Rightarrow> json" where
  "preference_json p = JObj
     [(''id'', JStr (np_id p)), (''org_id'', JStr (np_org_id p)), (''user_id'', JStr (np_user_id p)), (''event_type'', JStr (np_event_type p)),
      (''channel_inapp'', JBool (np_channel_inapp p)), (''channel_email'', JBool (np_channel_email p)), (''channel_push'', JBool (np_channel_push p)),
      (''digest_mode'', JStr (if np_digest_mode p = Realtime then ''realtime'' else ''daily_digest'')),
      (''quiet_hours_start'', case_option JNull (JStr \<circ> pg_time) (np_quiet_hours_start p)),
      (''quiet_hours_end'', case_option JNull (JStr \<circ> pg_time) (np_quiet_hours_end p))]"

definition list_notifications_handler :: "http_env \<Rightarrow> 'a notif_db_scheme handler" where
  "list_notifications_handler env params rq meta u c =
     validate (he_safeParse env) (ZObject notification_page_fields) (rq_query rq) (\<lambda>d. cast_to decode_notification_page d (\<lambda>(unread, n, m) w.
       (res_success meta (JArr (map notification_json (notif_findByUser (oc_orgId c) (ru_userId u) unread n m w))), w)))"

definition mark_read_handler :: "http_env \<Rightarrow> 'a notif_db_scheme handler" where
  "mark_read_handler env params rq meta u c w =
     answer_with (\<lambda>marked. res_success meta (message_answer (if marked then ''Marked as read'' else ''Already read or not found'')))
       (with_uuid env (params ''notificationId'') no_checks
          (\<lambda>w. case markRead (he_now env) (oc_orgId c) (ru_userId u) (params ''notificationId'') w of (b, w1) \<Rightarrow> (Inr b, w1)) w)"

definition mark_all_read_handler :: "http_env \<Rightarrow> 'a notif_db_scheme handler" where
  "mark_all_read_handler env params rq meta u c w =
     (case markAllRead (he_now env) (oc_orgId c) (ru_userId u) w of
        (n, w1) \<Rightarrow> (res_success meta (JObj [(''marked'', JNum (int n))]), w1))"

definition list_preferences_handler :: "'a notif_db_scheme handler" where
  "list_preferences_handler params rq meta u c w =
     (res_success meta (JArr (map preference_json (listPreferences (oc_orgId c) (ru_userId u) w))), w)"

definition update_preference_handler :: "(string \<Rightarrow> int option) \<Rightarrow> http_env \<Rightarrow> 'a notif_db_scheme handler" where
  "update_preference_handler pg_read env params rq meta u c =
     validate (he_safeParse env) (ZObject preference_fields) (rq_body rq) (\<lambda>d. cast_to decode_preference d (\<lambda>(inapp, email, push, digest, from, to) w.
       answer_with (\<lambda>p. res_success meta (preference_json p))
         (case read_time pg_read from of
            Inl e \<Rightarrow> (Inl e, w)
          | Inr start \<Rightarrow>
              (case read_time pg_read to of
                 Inl e \<Rightarrow> (Inl e, w)
               | Inr stop \<Rightarrow>
                   updatePreference (oc_orgId c) (ru_userId u) (params ''eventType'')
                     \<lparr>pp_channel_inapp = inapp, pp_channel_email = email, pp_channel_push = push, pp_digest_mode = digest,
                      pp_quiet_hours_start = start, pp_quiet_hours_end = stop\<rparr> w))))"

definition notification_routes :: "(string \<Rightarrow> int option) \<Rightarrow> http_env \<Rightarrow> 'a notif_db_scheme route list" where
  "notification_routes pg_read env =
     [mk_route ''GET'' ''/orgs/:orgId/notifications'' False (list_notifications_handler env),
      mk_route ''PATCH'' ''/orgs/:orgId/notifications/:notificationId/read'' False (mark_read_handler env),
      mk_route ''POST'' ''/orgs/:orgId/notifications/read-all'' False (mark_all_read_handler env),
      mk_route ''GET'' ''/orgs/:orgId/notification-preferences'' False list_preferences_handler,
      mk_route ''PATCH'' ''/orgs/:orgId/notification-preferences/:eventType'' False (update_preference_handler pg_read env)]"

text \<open>The link in an e-mail needs no token of a session.\<close>

definition unsubscribe_route :: "(string \<Rightarrow> string) \<Rightarrow> http_env \<Rightarrow> http_request \<Rightarrow> json \<Rightarrow> 'a dir_scheme \<Rightarrow> answer \<times> 'a dir_scheme" where
  "unsubscribe_route hmac env rq meta =
     validate (he_safeParse env) (ZObject unsubscribe_fields) (rq_query rq) (\<lambda>d. cast_to decode_unsubscribe d (\<lambda>(token, userId, orgId, eventType) w.
       answer_with (\<lambda>_. res_success meta (message_answer (''Unsubscribed from '' @ eventType @ '' emails'')))
         (unsubscribe hmac token userId orgId eventType w)))"

section \<open>Push subscriptions\<close>

text \<open>The bodies are not validated.  \<open>pg_text\<close> is how the driver passes a value on as a text (\<open>None\<close> is \<^verbatim>\<open>NULL\<close>); the
  three columns do not take \<^verbatim>\<open>NULL\<close>, and a body without \<^verbatim>\<open>keys\<close> makes the service throw.\<close>

definition subscribe_handler ::
    "(json option \<Rightarrow> string option) \<Rightarrow> http_request \<Rightarrow> json \<Rightarrow> req_user \<Rightarrow> 'a notif_db_scheme \<Rightarrow> answer \<times> 'a notif_db_scheme" where
  "subscribe_handler pg_text rq meta u w =
     answer_with (\<lambda>_. res_created meta (done_json ''subscribed''))
       (case json_field ''keys'' (rq_body rq) of
          None \<Rightarrow> (Inl (JsError ''TypeError''), w)
        | Some keys \<Rightarrow>
            if keys = JNull then (Inl (JsError ''TypeError''), w)
            else (case (pg_text (json_field ''endpoint'' (rq_body rq)), pg_text (json_field ''p256dh'' keys), pg_text (json_field ''auth'' keys)) of
                    (Some endpoint, Some p256dh, Some auth) \<Rightarrow> (Inr (), saveSubscription (ru_userId u) (ru_orgId u) endpoint p256dh auth w)
                  | _ \<Rightarrow> (Inl (PgError ''23502''), w)))"

text \<open>Comparing the endpoint with \<^verbatim>\<open>NULL\<close> deletes nothing.\<close>

definition unsubscribe_handler ::
    "(json option \<Rightarrow> string option) \<Rightarrow> http_request \<Rightarrow> json \<Rightarrow> req_user \<Rightarrow> 'a notif_db_scheme \<Rightarrow> answer \<times> 'a notif_db_scheme" where
  "unsubscribe_handler pg_text rq meta u w =
     (res_success meta (done_json ''unsubscribed''),
      case pg_text (json_field ''endpoint'' (rq_body rq)) of None \<Rightarrow> w | Some e \<Rightarrow> removeSubscription (ru_userId u) e w)"

text \<open>These routes do not look at the status of the organization.\<close>

definition push_route ::
    "(json option \<Rightarrow> string option) \<Rightarrow> http_env \<Rightarrow> http_request \<Rightarrow> json \<Rightarrow> idem_row list \<times> 'a notif_db_scheme
     \<Rightarrow> answer \<times> idem_row list \<times> 'a notif_db_scheme" where
  "push_route pg_text env rq meta st =
     (case authenticate (he_crypto env) (he_keys env) (he_redis_up env) (he_now env) (rq_authorization rq) (snd st) of
        (Inl e, w1) \<Rightarrow> (error_answer e, fst st, w1)
      | (Inr u, w1) \<Rightarrow>
          (case orgContextMiddleware (he_redis_up env) (he_now env) (Some u) (rq_org_id rq) w1 of
             (Inl e, w2) \<Rightarrow> (error_answer e, fst st, w2)
           | (Inr c, w2) \<Rightarrow>
               if rq_method rq = ''POST'' then
                 (case idempotencyMiddleware (hashToken (he_crypto env)) (he_now env) (idem_request_of rq u c)
                         (subscribe_handler pg_text rq meta u) (fst st, w2) of
                    (Inl e, st') \<Rightarrow> (error_answer e, st') | (Inr a, st') \<Rightarrow> (a, st'))
               else (let (a, w3) = unsubscribe_handler pg_text rq meta u w2 in (a, fst st, w3))))"

section \<open>Memberships and invitations belong to owners and administrators\<close>

lemma admin_or_owner_roles: "admin_or_owner c \<longleftrightarrow> oc_memberRole c \<in> set WEBHOOK_ROLES"
  by (auto simp: admin_or_owner_def WEBHOOK_ROLES_def)

lemma org_services_memberships:
  "org_memberships (snd (updateOrg now g d v w)) = org_memberships w" "org_memberships (snd (suspendOrg now g rs ac w)) = org_memberships w"
  "org_memberships (snd (reactivateOrg now g ac w)) = org_memberships w"
  by (auto simp: updateOrg_def org_update_def suspendOrg_def reactivateOrg_def and_then_def writeOrgEvent_def Let_def org_updateStatus_def
      split: option.splits prod.splits sum.splits if_splits)

lemma org_services_invitations:
  fixes w :: "'a inv_db_scheme"
  shows "invitations (snd (updateOrg now g d v w)) = invitations w" "invitations (snd (suspendOrg now g rs ac w)) = invitations w"
  "invitations (snd (reactivateOrg now g ac w)) = invitations w" "invitations (snd (updateRole now g i r w)) = invitations w"
  "invitations (removeMembership now g i w) = invitations w"
  by (auto simp: updateOrg_def org_update_def suspendOrg_def reactivateOrg_def updateRole_def removeMembership_def and_then_def writeOrgEvent_def
      Let_def org_updateStatus_def split: option.splits prod.splits sum.splits if_splits)

lemma membership_services_elsewhere:
  "filter (\<lambda>m. m_org_id m \<noteq> g) (org_memberships (snd (updateRole now g i r w))) = filter (\<lambda>m. m_org_id m \<noteq> g) (org_memberships w)"
  "filter (\<lambda>m. m_org_id m \<noteq> g) (org_memberships (removeMembership now g i w)) = filter (\<lambda>m. m_org_id m \<noteq> g) (org_memberships w)"
  by (auto simp: updateRole_def removeMembership_def Let_def intro!: filter_update_where_same)

lemma invite_memberships:
  fixes w :: "'a inv_db_scheme"
  shows "org_memberships (snd (invite cr sign now g by email r w)) = org_memberships w"
  "org_memberships (snd (revokeInvitation now g i by w)) = org_memberships w"
  by (auto simp: invite_def insert_invitation_def revokeInvitation_def writeInvitationEvent_def and_then_def Let_def draw_def
      split: option.splits prod.splits sum.splits if_splits)

lemma invitation_services_elsewhere:
  fixes w :: "'a inv_db_scheme"
  shows "filter (\<lambda>i. inv_org_id i \<noteq> g) (invitations (snd (invite cr sign now g by email r w))) = filter (\<lambda>i. inv_org_id i \<noteq> g) (invitations w)"
  "filter (\<lambda>i. inv_org_id i \<noteq> g) (invitations (snd (revokeInvitation now g i by w))) = filter (\<lambda>i. inv_org_id i \<noteq> g) (invitations w)"
  by (auto simp: invite_def insert_invitation_def revokeInvitation_def writeInvitationEvent_def and_then_def Let_def draw_def
      split: option.splits prod.splits sum.splits if_splits intro!: filter_update_where_same)

text \<open>What the routes do to the state, by the service they call.\<close>

lemma org_route_cases:
  fixes w :: "'a inv_db_scheme"
  assumes "r \<in> set (org_routes sign env)"
  obtains (same) "snd (ro_handler r params rq meta u c w) = w"
  | (settings) d v where "snd (ro_handler r params rq meta u c w) = snd (updateOrg (he_now env) (oc_orgId c) d v w)"
  | (suspend) reason where "snd (ro_handler r params rq meta u c w) = snd (suspendOrg (he_now env) (oc_orgId c) reason (Some (ru_userId u)) w)"
  | (reactivate) "snd (ro_handler r params rq meta u c w) = snd (reactivateOrg (he_now env) (oc_orgId c) (Some (ru_userId u)) w)"
  | (role) rl where "admin_or_owner c" "snd (ro_handler r params rq meta u c w) = snd (updateRole (he_now env) (oc_orgId c) (params ''userId'') rl w)"
  | (remove) "admin_or_owner c" "snd (ro_handler r params rq meta u c w) = removeMembership (he_now env) (oc_orgId c) (params ''userId'') w"
  | (invited) email rl where "admin_or_owner c"
      "snd (ro_handler r params rq meta u c w) = snd (invite (he_crypto env) sign (he_now env) (oc_orgId c) (ru_userId u) email rl w)"
  | (revoked) "admin_or_owner c"
      "snd (ro_handler r params rq meta u c w) = snd (revokeInvitation (he_now env) (oc_orgId c) (params ''invitationId'') (ru_userId u) w)"
proof -
  from assms consider "ro_handler r = get_org_route" | "ro_handler r = members_route" | "ro_handler r = update_org_route env"
    | "ro_handler r = suspend_route env" | "ro_handler r = reactivate_org_route env" | "ro_handler r = update_role_route env"
    | "ro_handler r = remove_member_route env" | "ro_handler r = invite_route sign env" | "ro_handler r = revoke_invitation_route env"
    by (auto simp: org_routes_def mk_route_def)
  then show thesis
  proof cases
    case 1
    then show thesis using same by (simp add: get_org_route_def read_only_def)
  next
    case 2
    then show thesis using same by (simp add: members_route_def)
  next
    case 3
    have "snd (update_org_route env params rq meta u c w) = w \<or>
        (\<exists>d v. snd (update_org_route env params rq meta u c w) = snd (updateOrg (he_now env) (oc_orgId c) d v w))"
      by (auto simp: update_org_route_def validate_def cast_to_def update_org_handler_def split: option.split)
    with 3 show thesis using same settings by auto
  next
    case 4
    have "snd (suspend_route env params rq meta u c w) = w \<or>
        (\<exists>x. snd (suspend_route env params rq meta u c w) = snd (suspendOrg (he_now env) (oc_orgId c) x (Some (ru_userId u)) w))"
      by (auto simp: suspend_route_def validate_def cast_to_def suspend_org_handler_def split: option.split)
    with 4 show thesis using same suspend by auto
  next
    case 5
    have "snd (reactivate_org_route env params rq meta u c w) = w \<or>
        snd (reactivate_org_route env params rq meta u c w) = snd (reactivateOrg (he_now env) (oc_orgId c) (Some (ru_userId u)) w)"
      by (simp add: reactivate_org_route_def reactivate_org_handler_def)
    with 5 show thesis using same reactivate by auto
  next
    case 6
    have "snd (update_role_handler (he_now env) c (params ''userId'') rl w) = w \<or>
        admin_or_owner c \<and> snd (update_role_handler (he_now env) c (params ''userId'') rl w) = snd (updateRole (he_now env) (oc_orgId c) (params ''userId'') rl w)" for rl
      by (auto simp: update_role_handler_def split: prod.splits option.splits)
    then have "snd (update_role_route env params rq meta u c w) = w \<or>
        (\<exists>rl. admin_or_owner c \<and> snd (update_role_route env params rq meta u c w) = snd (updateRole (he_now env) (oc_orgId c) (params ''userId'') rl w))"
      by (auto simp: update_role_route_def validate_def cast_to_def with_uuid_def split: option.split sum.split)
    with 6 show thesis using same role by auto
  next
    case 7
    have "snd (remove_member_route env params rq meta u c w) = w \<or>
        admin_or_owner c \<and> snd (remove_member_route env params rq meta u c w) = removeMembership (he_now env) (oc_orgId c) (params ''userId'') w"
      by (auto simp: remove_member_route_def remove_member_handler_def with_uuid_def split: sum.split)
    with 7 show thesis using same remove by auto
  next
    case 8
    have "snd (invite_route sign env params rq meta u c w) = w \<or>
        (\<exists>e rl. admin_or_owner c \<and> snd (invite_route sign env params rq meta u c w) =
           snd (invite (he_crypto env) sign (he_now env) (oc_orgId c) (ru_userId u) e rl w))"
      by (auto simp: invite_route_def validate_def cast_to_def invite_handler_def split: option.split)
    with 8 show thesis using same invited by auto
  next
    case 9
    have "snd (revoke_invitation_route env params rq meta u c w) = w \<or>
        admin_or_owner c \<and> snd (revoke_invitation_route env params rq meta u c w) =
          snd (revokeInvitation (he_now env) (oc_orgId c) (params ''invitationId'') (ru_userId u) w)"
      by (auto simp: revoke_invitation_route_def revoke_invitation_handler_def with_uuid_def split: sum.split)
    with 9 show thesis using same revoked by auto
  qed
qed

interpretation member_rows: tenant_rows "org_routes sign" "org_memberships :: 'a inv_db_scheme \<Rightarrow> _" m_org_id "\<lambda>g _. g"
  "\<lambda>r. r \<in> set WEBHOOK_ROLES" "\<lambda>_. True" for sign
proof
  fix r :: "'a inv_db_scheme route" and env params rq meta u c and w :: "'a inv_db_scheme"
  assume "r \<in> set (org_routes sign env)"
  then show "org_memberships (snd (ro_handler r params rq meta u c w)) = org_memberships w \<or>
      oc_memberRole c \<in> set WEBHOOK_ROLES \<and>
      filter (\<lambda>x. m_org_id x \<noteq> oc_orgId c) (org_memberships (snd (ro_handler r params rq meta u c w))) =
        filter (\<lambda>x. m_org_id x \<noteq> oc_orgId c) (org_memberships w)"
    by (cases rule: org_route_cases [where params = params and rq = rq and meta = meta and u = u and c = c and w = w])
       (simp_all add: org_services_memberships membership_services_elsewhere invite_memberships admin_or_owner_roles)
qed simp_all

interpretation invitation_rows: tenant_rows "org_routes sign" "invitations :: 'a inv_db_scheme \<Rightarrow> _" inv_org_id "\<lambda>g _. g"
  "\<lambda>r. r \<in> set WEBHOOK_ROLES" "\<lambda>_. True" for sign
proof
  fix r :: "'a inv_db_scheme route" and env params rq meta u c and w :: "'a inv_db_scheme"
  assume "r \<in> set (org_routes sign env)"
  then show "invitations (snd (ro_handler r params rq meta u c w)) = invitations w \<or>
      oc_memberRole c \<in> set WEBHOOK_ROLES \<and>
      filter (\<lambda>x. inv_org_id x \<noteq> oc_orgId c) (invitations (snd (ro_handler r params rq meta u c w))) =
        filter (\<lambda>x. inv_org_id x \<noteq> oc_orgId c) (invitations w)"
    by (cases rule: org_route_cases [where params = params and rq = rq and meta = meta and u = u and c = c and w = w])
       (simp_all add: org_services_invitations invitation_services_elsewhere admin_or_owner_roles)
qed simp_all

section \<open>Notifications belong to their user\<close>

lemma notification_route_cases:
  fixes w :: "'a notif_db_scheme"
  assumes "r \<in> set (notification_routes pg env)"
  obtains (same) "snd (ro_handler r params rq meta u c w) = w"
  | (mark_one) "snd (ro_handler r params rq meta u c w) = snd (markRead (he_now env) (oc_orgId c) (ru_userId u) (params ''notificationId'') w)"
  | (mark_all) "snd (ro_handler r params rq meta u c w) = snd (markAllRead (he_now env) (oc_orgId c) (ru_userId u) w)"
  | (preference) d where "snd (ro_handler r params rq meta u c w) = snd (updatePreference (oc_orgId c) (ru_userId u) (params ''eventType'') d w)"
proof -
  from assms consider "ro_handler r = list_notifications_handler env" | "ro_handler r = mark_read_handler env"
    | "ro_handler r = mark_all_read_handler env" | "ro_handler r = list_preferences_handler" | "ro_handler r = update_preference_handler pg env"
    by (auto simp: notification_routes_def mk_route_def)
  then show thesis
  proof cases
    case 1
    then show thesis using same by (auto simp: list_notifications_handler_def validate_def cast_to_def split: option.splits)
  next
    case 2
    then show thesis using same mark_one
      by (cases "he_pg_uuid env (params ''notificationId'')") (auto simp: mark_read_handler_def with_uuid_def no_checks_def split_def)
  next
    case 3
    then show thesis using mark_all by (simp add: mark_all_read_handler_def split_def)
  next
    case 4
    then show thesis using same by (simp add: list_preferences_handler_def)
  next
    case 5
    have "snd (update_preference_handler pg env params rq meta u c w) = w \<or>
        (\<exists>d. snd (update_preference_handler pg env params rq meta u c w) = snd (updatePreference (oc_orgId c) (ru_userId u) (params ''eventType'') d w))"
      by (auto simp: update_preference_handler_def validate_def cast_to_def split: option.split sum.split)
    with 5 show thesis using same preference by auto
  qed
qed

lemma preference_notifications: "notifications (snd (updatePreference g u ev d w)) = notifications w"
  by (auto simp: updatePreference_def upsertPreference_def draw_def Let_def split: option.splits)

lemma marks_elsewhere:
  "filter (\<lambda>x. (n_org_id x, n_user_id x) \<noteq> (g, u)) (notifications (snd (markRead now g u i w))) =
     filter (\<lambda>x. (n_org_id x, n_user_id x) \<noteq> (g, u)) (notifications w)"
  "filter (\<lambda>x. (n_org_id x, n_user_id x) \<noteq> (g, u)) (notifications (snd (markAllRead now g u w))) =
     filter (\<lambda>x. (n_org_id x, n_user_id x) \<noteq> (g, u)) (notifications w)"
  by (auto simp: markRead_def markAllRead_def mark_def Let_def intro!: filter_update_where_same)

interpretation notification_rows: tenant_rows "notification_routes pg" "notifications :: 'a notif_db_scheme \<Rightarrow> _"
  "\<lambda>n. (n_org_id n, n_user_id n)" Pair "\<lambda>_. True" "\<lambda>_. True" for pg
proof
  fix r :: "'a notif_db_scheme route" and env params rq meta u c and w :: "'a notif_db_scheme"
  assume "r \<in> set (notification_routes pg env)"
  then show "notifications (snd (ro_handler r params rq meta u c w)) = notifications w \<or>
      True \<and> filter (\<lambda>x. (n_org_id x, n_user_id x) \<noteq> (oc_orgId c, ru_userId u)) (notifications (snd (ro_handler r params rq meta u c w))) =
        filter (\<lambda>x. (n_org_id x, n_user_id x) \<noteq> (oc_orgId c, ru_userId u)) (notifications w)"
    by (cases rule: notification_route_cases [where params = params and rq = rq and meta = meta and u = u and c = c and w = w])
       (simp_all only: preference_notifications marks_elsewhere simp_thms)
qed simp_all

interpretation preference_rows: tenant_rows "notification_routes pg" "notification_preferences :: 'a notif_db_scheme \<Rightarrow> _"
  "\<lambda>n. (np_org_id n, np_user_id n)" Pair "\<lambda>_. True" "\<lambda>_. True" for pg
proof
  fix r :: "'a notif_db_scheme route" and env params rq meta u c and w :: "'a notif_db_scheme"
  assume "r \<in> set (notification_routes pg env)"
  then show "notification_preferences (snd (ro_handler r params rq meta u c w)) = notification_preferences w \<or>
      True \<and> filter (\<lambda>x. (np_org_id x, np_user_id x) \<noteq> (oc_orgId c, ru_userId u)) (notification_preferences (snd (ro_handler r params rq meta u c w))) =
        filter (\<lambda>x. (np_org_id x, np_user_id x) \<noteq> (oc_orgId c, ru_userId u)) (notification_preferences w)"
    by (cases rule: notification_route_cases [where params = params and rq = rq and meta = meta and u = u and c = c and w = w])
       (auto simp: updatePreference_def upsertPreference_def default_pref_def pref_set_def markRead_def markAllRead_def draw_def Let_def
         split: option.splits intro!: filter_update_where_same)
qed simp_all

section \<open>Payments belong to their organization\<close>

lemma createOrder_elsewhere:
  "filter (\<lambda>p. p_org_id p \<noteq> g) (payments (snd (createOrder co now g plan cyc u w))) = filter (\<lambda>p. p_org_id p \<noteq> g) (payments w)"
  by (auto simp: createOrder_def payment_create_def writePaymentEvent_def insert_outbox_def and_then_def draw_def Let_def
      split: option.splits sum.splits prod.splits if_splits)

lemma verifyPayment_elsewhere:
  assumes "distinct (map p_razorpay_order_id (payments w))"
  shows "filter (\<lambda>p. p_org_id p \<noteq> g) (payments (snd (verifyPayment hmac now g i j sig w))) = filter (\<lambda>p. p_org_id p \<noteq> g) (payments w)"
proof -
  obtain r w1 where u: "payment_updateStatus now i PCaptured (no_extra\<lparr>px_razorpay_payment_id := Some j, px_captured_at := Some now\<rparr>) w = (r, w1)"
    by fastforce
  have "payments (snd (verifyPayment hmac now g i j sig w)) = payments w \<or>
      (\<exists>p. findByOrderId i w = Some p \<and> p_org_id p = g \<and> payments (snd (verifyPayment hmac now g i j sig w)) = payments w1)"
    using u by (auto simp: verifyPayment_def and_then_def writePaymentEvent_def insert_outbox_def set_plan_def sub_upsert_def draw_def Let_def
        split: option.splits sum.splits prod.splits if_splits)
  moreover have "filter (\<lambda>p. p_org_id p \<noteq> g) (payments w1) = filter (\<lambda>p. p_org_id p \<noteq> g) (payments w)"
    if "findByOrderId i w = Some p" "p_org_id p = g" for p
  proof -
    have p: "p \<in> set (payments w)" "p_razorpay_order_id p = i" using that(1) by (auto simp: findByOrderId_def dest: find_SomeD)
    have "x = p" if "x \<in> set (payments w)" "p_razorpay_order_id x = i" for x
      using assms p that by (auto simp: distinct_map inj_on_def)
    then have "filter (\<lambda>p. p_org_id p \<noteq> g) (update_where (\<lambda>p. p_razorpay_order_id p = i) h ps) = filter (\<lambda>p. p_org_id p \<noteq> g) ps"
      if "set ps \<subseteq> set (payments w)" "\<And>p. p_org_id (h p) = p_org_id p" for ps h
      using that \<open>p_org_id p = g\<close> by (induction ps) auto
    from this [OF subset_refl] u show ?thesis
      by (auto simp: payment_updateStatus_def payment_set_def Let_def split: if_splits)
  qed
  ultimately show ?thesis by auto
qed

interpretation payment_rows: tenant_rows "payment_routes pa" "payments :: 'a pay_db_scheme \<Rightarrow> _" p_org_id "\<lambda>g _. g" "\<lambda>_. True"
  "\<lambda>w. distinct (map p_razorpay_order_id (payments w))" for pa
proof
  fix r :: "'a pay_db_scheme route" and env params rq meta u c and w :: "'a pay_db_scheme"
  assume r: "r \<in> set (payment_routes pa env)" and d: "distinct (map p_razorpay_order_id (payments w))"
  from r consider "ro_handler r = order_handler pa env" | "ro_handler r = verify_payment_handler pa env"
    | "ro_handler r = list_payments_handler pa" | "ro_handler r = subscription_handler"
    by (auto simp: payment_routes_def mk_route_def)
  then show "payments (snd (ro_handler r params rq meta u c w)) = payments w \<or>
      True \<and> filter (\<lambda>x. p_org_id x \<noteq> oc_orgId c) (payments (snd (ro_handler r params rq meta u c w))) =
        filter (\<lambda>x. p_org_id x \<noteq> oc_orgId c) (payments w)"
  proof cases
    case 1
    then show ?thesis by (auto simp: order_handler_def validate_def cast_to_def createOrder_elsewhere split: option.split)
  next
    case 2
    then show ?thesis using verifyPayment_elsewhere [OF d]
      by (auto simp: verify_payment_handler_def validate_def cast_to_def split: option.split)
  next
    case 3
    then show ?thesis by (auto simp: list_payments_handler_def split: sum.split)
  next
    case 4
    then show ?thesis by (simp add: subscription_handler_def read_only_def)
  qed
qed simp_all

section \<open>Isolation\<close>


text \<open>Nobody reads or changes the notifications and preferences of somebody else: a request to the notification routes
  touches rows of its sender in the organization it names only.\<close>

theorem notification_api_isolation:
  assumes "serve env (notification_routes pg env) rq (ks, w) = (a, ks', w')" and "\<And>i g. redis w (session_key i g) = None"
  shows "notifications w' = notifications w \<or>
      (\<exists>m. caller env rq w m \<and> filter (\<lambda>x. (n_org_id x, n_user_id x) \<noteq> (m_org_id m, m_user_id m)) (notifications w') =
         filter (\<lambda>x. (n_org_id x, n_user_id x) \<noteq> (m_org_id m, m_user_id m)) (notifications w))"
    and "notification_preferences w' = notification_preferences w \<or>
      (\<exists>m. caller env rq w m \<and> filter (\<lambda>x. (np_org_id x, np_user_id x) \<noteq> (m_org_id m, m_user_id m)) (notification_preferences w') =
         filter (\<lambda>x. (np_org_id x, np_user_id x) \<noteq> (m_org_id m, m_user_id m)) (notification_preferences w))"
  using notification_rows.only_own [OF assms(1) TrueI assms(2)] preference_rows.only_own [OF assms(1) TrueI assms(2)] by simp_all

text \<open>A request to the payment routes changes payments of the organization of its sender only.\<close>

theorem payment_api_isolation:
  assumes "serve env (payment_routes pa env) rq (ks, w) = (a, ks', w')" and "\<And>i g. redis w (session_key i g) = None"
    and "distinct (map p_razorpay_order_id (payments w))"
  shows "payments w' = payments w \<or>
      (\<exists>m. caller env rq w m \<and> filter (\<lambda>p. p_org_id p \<noteq> m_org_id m) (payments w') = filter (\<lambda>p. p_org_id p \<noteq> m_org_id m) (payments w))"
  using payment_rows.only_own [OF assms(1,3,2)] by simp

text \<open>A change of a preference that names no column always fails.\<close>

theorem empty_preference_fails: "\<exists>e. fst (updatePreference g u ev no_pref_change w) = Inl e"
  by (simp add: updatePreference_def upsertPreference_def)

section \<open>Example\<close>

definition ex_team :: inv_db where
  "ex_team = (ex_inv_db [ex_member ''g'' ''u1'' OrgOwner, ex_member ''g'' ''u2'' Member, ex_member ''k'' ''u2'' Member])\<lparr>redis := (\<lambda>_. None)\<rparr>"

definition ex_team_env :: http_env where
  "ex_team_env = \<lparr>he_crypto = ex_org_crypto, he_keys = ex_keys, he_redis_up = False, he_now = 0, he_safeParse = zod_safeParse,
     he_match = (\<lambda>pattern path. if pattern = ''/orgs/:orgId/members/:userId'' \<and> path = ''/orgs/g/members/u2'' then Some (\<lambda>_. ''u2'') else None),
     he_pg_uuid = (\<lambda>_. True)\<rparr>"

definition ex_team_request :: http_request where
  "ex_team_request = \<lparr>rq_method = ''DELETE'', rq_path = ''/orgs/g/members/u2'', rq_authorization = Some ''Bearer tok'',
     rq_org_id = Some ''g'', rq_idempotency_key = None, rq_correlation_id = None, rq_query = JObj [], rq_body = JObj []\<rparr>"

lemma ex_team_org:
  "orgMiddleware ex_org_crypto ex_keys False 0 (request.truncate ex_team_request) (ex_team\<lparr>drawn := n\<rparr>) =
     (Inr (\<lparr>ru_userId = ''u1'', ru_orgId = ''g'', ru_role = ''member'', ru_isPlatformAdmin = False, ru_jti = ''j0'',
            ru_exp = 900, ru_authTime = None, ru_mfaVerifiedAt = None\<rparr>,
           \<lparr>oc_orgId = ''g'', oc_orgStatus = ''active'', oc_memberRole = ''org_owner''\<rparr>), ex_team\<lparr>drawn := n\<rparr>)"
  by (simp add: orgMiddleware_def ex_team_request_def request.truncate_def authenticate_def verifyToken_def getPublicKey_def
      ex_keys_def registerPublicKey_def ex_org_crypto_def ex_crypto_def ex_org_claims_def ex_claims_def resolveUser_def
      ex_team_def ex_user_def new_user_def orgContextMiddleware_def resolveOrgContext_def
      member_and_status_def ex_member_def ex_org_def orgStatusMiddleware_def org_status_name_def role_name_def
      isSuspendedBypass_def WRITE_METHODS_def Let_def)

lemma ex_team_serve:
  "\<exists>a ks' w'. serve ex_team_env (org_routes (\<lambda>_. ''s'') ex_team_env) ex_team_request ([], ex_team) = (a, ks', w') \<and>
     map m_status (org_memberships w') = [MActive, MRemoved, MActive]"
proof -
  obtain meta n where m: "responseEnvelope 0 ex_team_request ex_team = (meta, ex_team\<lparr>drawn := n\<rparr>)"
    using responseEnvelope_draws by (metis surj_pair)
  have route: "find_route (he_match ex_team_env) ''DELETE'' ''/orgs/g/members/u2'' (org_routes (\<lambda>_. ''s'') ex_team_env) =
      Some (mk_route ''DELETE'' ''/orgs/:orgId/members/:userId'' False (remove_member_route ex_team_env), \<lambda>_. ''u2'')"
    by (simp add: org_routes_def mk_route_def ex_team_env_def)
  have rq: "rq_method ex_team_request = ''DELETE''" "rq_path ex_team_request = ''/orgs/g/members/u2''" by (simp_all add: ex_team_request_def)
  have env: "he_crypto ex_team_env = ex_org_crypto" "he_keys ex_team_env = ex_keys" "he_redis_up ex_team_env = False"
    "he_now ex_team_env = 0" "he_pg_uuid ex_team_env = (\<lambda>_. True)" by (simp_all add: ex_team_env_def)
  have removed: "map m_status (org_memberships (removeMembership 0 ''g'' ''u2'' (ex_team\<lparr>drawn := n\<rparr>))) = [MActive, MRemoved, MActive]"
    by (simp add: removeMembership_def live_membership_def ex_team_def ex_member_def)
  show ?thesis
    by (simp add: serve_def env m rq route run_route_def ex_team_org mk_route_def remove_member_route_def remove_member_handler_def
        admin_or_owner_def with_uuid_def split_def removed)
qed


end
