(* ===== verification/Outbox.thy ===== *)
theory Outbox
  imports Platform_Base "HOL-Library.Multiset"
begin

text \<open>
  \<^verbatim>\<open>src/shared/events/outbox-poller.ts\<close>: one poll cycle takes the distributed lock,
  reads a batch of pending events, publishes them to Redis one by one and only then
  marks them as published.  The environment decides which publish succeeds (\<open>ok\<close>)
  and whether the final \<^verbatim>\<open>UPDATE\<close> and \<^verbatim>\<open>COMMIT\<close> succeed (\<open>commit_ok\<close>).  The second
  half is the loop around the cycle: the state of the poller object and the delay it
  chooses.
\<close>

section \<open>The poll cycle\<close>

definition LOCK_KEY :: string where
  "LOCK_KEY = ''outbox:poller:lock''"

definition LOCK_TTL_SECONDS :: int where
  "LOCK_TTL_SECONDS = 10"

definition OUTBOX_CHANNEL :: string where
  "OUTBOX_CHANNEL = ''outbox:events''"

text \<open>\<^verbatim>\<open>JSON.stringify(event)\<close> of a row.  No statement of the program writes
  \<^verbatim>\<open>version\<close>, \<^verbatim>\<open>correlation_id\<close>, \<^verbatim>\<open>retry_count\<close> or \<^verbatim>\<open>last_error\<close>, so these columns
  have the defaults of the table's declaration.\<close>

definition outbox_status_json :: "outbox_status \<Rightarrow> json" where
  "outbox_status_json s = JStr (case s of OPending \<Rightarrow> ''pending'' | OPublished \<Rightarrow> ''published''
                                | OFailed \<Rightarrow> ''failed'')"

definition outbox_json :: "outbox_event \<Rightarrow> json" where
  "outbox_json e = JObj
     [(''id'', JStr (oe_id e)), (''org_id'', json_opt (oe_org_id e)),
      (''event_type'', JStr (oe_event_type e)), (''version'', JNum 1),
      (''entity_type'', JStr (oe_entity_type e)), (''entity_id'', JStr (oe_entity_id e)),
      (''actor_user_id'', json_opt (oe_actor_user_id e)), (''correlation_id'', JNull),
      (''payload'', oe_payload e), (''status'', outbox_status_json (oe_status e)),
      (''occurred_at'', JNum (oe_occurred_at e)),
      (''published_at'', (case oe_published_at e of None \<Rightarrow> JNull | Some t \<Rightarrow> JNum t)),
      (''retry_count'', JNum 0), (''last_error'', JNull),
      (''created_at'', JNum (oe_created_at e))]"

definition eligible :: "timestamp \<Rightarrow> outbox_event \<Rightarrow> bool" where
  "eligible now e = (oe_status e = OPending \<and> oe_occurred_at e < now - 100)"

definition pending_batch :: "timestamp \<Rightarrow> nat \<Rightarrow> outbox_event list \<Rightarrow> outbox_event list" where
  "pending_batch now batch es = take batch (sort_key oe_created_at (filter (eligible now) es))"

fun publish_all ::
    "(outbox_event \<Rightarrow> bool) \<Rightarrow> outbox_event list \<Rightarrow> 'a base_scheme \<Rightarrow> bool \<times> 'a base_scheme" where
  "publish_all ok [] w = (True, w)"
| "publish_all ok (e # es) w =
     (if ok e then publish_all ok es (redis_publish OUTBOX_CHANNEL (outbox_json e) w)
      else (False, w))"

definition mark_published :: "timestamp \<Rightarrow> outbox_event \<Rightarrow> outbox_event" where
  "mark_published now e = e\<lparr>oe_status := OPublished, oe_published_at := Some now\<rparr>"

definition pollCycle ::
    "nat \<Rightarrow> timestamp \<Rightarrow> (outbox_event \<Rightarrow> bool) \<Rightarrow> bool \<Rightarrow> 'a base_scheme \<Rightarrow> bool \<times> 'a base_scheme" where
  "pollCycle batch now ok commit_ok w =
     (let (instanceId, w0) = draw w;
          (locked, w1) = redis_setnx now LOCK_KEY (JStr instanceId) LOCK_TTL_SECONDS w0
      in if \<not> locked then (False, w1)
         else let events = pending_batch now batch (outbox_events w1)
      in if events = [] then (False, w1)
         else let (sent, w2) = publish_all ok events w1
      in if \<not> sent then (False, w2)
         else if \<not> commit_ok then (False, w2)
         else let ids = map oe_id events
      in (batch \<le> length events,
          w2\<lparr>outbox_events :=
               update_where (\<lambda>e. oe_id e \<in> set ids) (mark_published now) (outbox_events w2)\<rparr>))"

section \<open>The loop\<close>

record poller =
  running :: bool
  stopped :: bool
  consecutiveErrors :: nat

datatype cycle_result = CycleDone bool | CycleThrew

definition poller_start :: "poller \<Rightarrow> poller \<times> bool" where
  "poller_start p =
     (if running p then (p, False) else (p\<lparr>running := True, stopped := False\<rparr>, True))"

definition poller_request_stop :: "poller \<Rightarrow> poller" where
  "poller_request_stop p = p\<lparr>stopped := True\<rparr>"

definition poller_stop_done :: "poller \<Rightarrow> poller" where
  "poller_stop_done p = p\<lparr>running := False\<rparr>"

definition FULL_BATCH_DELAY_MS :: int where "FULL_BATCH_DELAY_MS = 10"
definition PARTIAL_BATCH_DELAY_MS :: int where "PARTIAL_BATCH_DELAY_MS = 5000"
definition MAX_BACKOFF_MS :: int where "MAX_BACKOFF_MS = 60000"

definition loop_delay :: "bool \<Rightarrow> nat \<Rightarrow> int" where
  "loop_delay isFull errs =
     (if isFull then FULL_BATCH_DELAY_MS
      else if errs > 0 then min (PARTIAL_BATCH_DELAY_MS * 2 ^ (errs - 1)) MAX_BACKOFF_MS
      else PARTIAL_BATCH_DELAY_MS)"

text \<open>What \<^verbatim>\<open>loop\<close> does when the cycle it started has settled: the new poller state
  and the delay of the next cycle, if one is scheduled.\<close>

definition poller_loop :: "poller \<Rightarrow> cycle_result \<Rightarrow> poller \<times> int option" where
  "poller_loop p res =
     (let (isFull, p1) = (case res of
             CycleDone full \<Rightarrow> (full, p\<lparr>consecutiveErrors := 0\<rparr>)
           | CycleThrew \<Rightarrow> (False, p\<lparr>consecutiveErrors := consecutiveErrors p + 1\<rparr>))
      in if stopped p1 then (p1, None)
         else (p1, Some (loop_delay isFull (consecutiveErrors p1))))"

section \<open>Facts on the pieces\<close>

lemma publish_all_frame:
  "publish_all ok es w = (b, w') \<Longrightarrow>
     outbox_events w' = outbox_events w \<and> redis w' = redis w \<and> drawn w' = drawn w \<and> entropy w' = entropy w"
  by (induction es arbitrary: w) (auto simp: redis_publish_def split: if_splits)

lemma publish_all_sent:
  "publish_all ok es w = (b, w') \<Longrightarrow>
     \<exists>ys zs. es = ys @ zs \<and> (b \<longrightarrow> zs = []) \<and>
       pubsub w' = pubsub w @ map (\<lambda>e. (OUTBOX_CHANNEL, outbox_json e)) ys"
proof (induction es arbitrary: w)
  case (Cons e es)
  show ?case
  proof (cases "ok e")
    case True
    with Cons.prems have "publish_all ok es (redis_publish OUTBOX_CHANNEL (outbox_json e) w) = (b, w')"
      by simp
    from Cons.IH [OF this] obtain ys zs where "es = ys @ zs" "b \<longrightarrow> zs = []"
      "pubsub w' = pubsub w @ map (\<lambda>e. (OUTBOX_CHANNEL, outbox_json e)) (e # ys)"
      by (auto simp: redis_publish_def)
    then show ?thesis by (intro exI [of _ "e # ys"] exI [of _ zs]) simp
  next
    case False
    with Cons.prems show ?thesis by (intro exI [of _ "[]"] exI [of _ "e # es"]) auto
  qed
qed simp

lemma publish_all_ok: "(\<And>e. e \<in> set es \<Longrightarrow> ok e) \<Longrightarrow> fst (publish_all ok es w)"
  by (induction es arbitrary: w) auto

lemma pending_batch_props:
  "set (pending_batch now b es) \<subseteq> {e \<in> set es. eligible now e}"
  "sorted (map oe_created_at (pending_batch now b es))"
  "length (pending_batch now b es) = min b (length (filter (eligible now) es))"
proof -
  show "set (pending_batch now b es) \<subseteq> {e \<in> set es. eligible now e}"
    by (auto simp: pending_batch_def dest!: in_set_takeD)
  show "sorted (map oe_created_at (pending_batch now b es))"
    by (simp add: pending_batch_def take_map [symmetric] sorted_wrt_take)
  show "length (pending_batch now b es) = min b (length (filter (eligible now) es))"
    by (simp add: pending_batch_def min.commute)
qed

lemma redis_setnx_frame:
  "redis_setnx now k v ttl w = (b, w') \<Longrightarrow>
     outbox_events w' = outbox_events w \<and> pubsub w' = pubsub w"
  by (auto simp: redis_setnx_def redis_setex_def split: option.splits)

text \<open>The three ways a cycle ends.\<close>

lemma pollCycle_cases:
  assumes "pollCycle batch now ok commit_ok w = (full, w')"
  obtains
    (idle) "outbox_events w' = outbox_events w" "pubsub w' = pubsub w" "\<not> full"
  | (unmarked) ys zs where "pending_batch now batch (outbox_events w) = ys @ zs"
      "outbox_events w' = outbox_events w" "\<not> full"
      "pubsub w' = pubsub w @ map (\<lambda>e. (OUTBOX_CHANNEL, outbox_json e)) ys"
  | (marked) "commit_ok" "full \<longleftrightarrow> batch \<le> length (pending_batch now batch (outbox_events w))"
      "pubsub w' = pubsub w @ map (\<lambda>e. (OUTBOX_CHANNEL, outbox_json e))
                               (pending_batch now batch (outbox_events w))"
      "outbox_events w' = update_where
         (\<lambda>e. oe_id e \<in> oe_id ` set (pending_batch now batch (outbox_events w)))
         (mark_published now) (outbox_events w)"
proof -
  obtain i w0 where d: "draw w = (i, w0)" by fastforce
  obtain lk w1 where l: "redis_setnx now LOCK_KEY (JStr i) LOCK_TTL_SECONDS w0 = (lk, w1)" by fastforce
  have fr: "outbox_events w1 = outbox_events w" "pubsub w1 = pubsub w"
    using redis_setnx_frame [OF l] d by (auto simp: draw_def)
  let ?b = "pending_batch now batch (outbox_events w)"
  obtain s w2 where p: "publish_all ok ?b w1 = (s, w2)" by fastforce
  note fr2 = publish_all_frame [OF p] and sent = publish_all_sent [OF p]
  show thesis
  proof (cases "lk \<and> ?b \<noteq> [] \<and> s \<and> commit_ok")
    case True
    with assms sent show thesis
      by (intro marked) (auto simp: pollCycle_def d l p fr fr2 Let_def)
  next
    case False
    show thesis
    proof (cases "lk \<and> ?b \<noteq> []")
      case True
      from sent obtain ys zs where yz: "?b = ys @ zs"
        "pubsub w2 = pubsub w @ map (\<lambda>e. (OUTBOX_CHANNEL, outbox_json e)) ys"
        using fr by auto
      have res: "w' = w2" "\<not> full"
        using assms True False by (auto simp: pollCycle_def d l p fr Let_def split: if_splits)
      show thesis
        by (rule unmarked [OF yz(1)]) (use res yz fr fr2 in auto)
    next
      case no: False
      then show thesis
        using assms fr by (intro idle) (auto simp: pollCycle_def d l p Let_def split: if_splits)
    qed
  qed
qed

lemma mark_published_simps [simp]:
  "oe_id (mark_published now e) = oe_id e"
  "oe_status (mark_published now e) = OPublished"
  "oe_payload (mark_published now e) = oe_payload e"
  "oe_created_at (mark_published now e) = oe_created_at e"
  "oe_occurred_at (mark_published now e) = oe_occurred_at e"
  by (simp_all add: mark_published_def)

section \<open>Counting what is pending\<close>

definition is_pending :: "outbox_event \<Rightarrow> bool" where
  "is_pending e = (oe_status e = OPending)"

definition n_pending :: "'a base_scheme \<Rightarrow> nat" where
  "n_pending w = length (filter is_pending (outbox_events w))"

lemma marked_pending:
  assumes "distinct (map oe_id es)" and "set b \<subseteq> {e \<in> set es. is_pending e}" and "distinct b"
  shows "length (filter is_pending (update_where (\<lambda>e. oe_id e \<in> oe_id ` set b) (mark_published now) es))
    = length (filter is_pending es) - length b"
proof -
  let ?P = "\<lambda>e. oe_id e \<in> oe_id ` set b"
  have only: "e \<in> set es \<Longrightarrow> ?P e \<longleftrightarrow> e \<in> set b" for e
    using assms(1,2) inj_on_key [OF assms(1)] by blast
  have "filter is_pending (update_where ?P (mark_published now) es)
      = filter (\<lambda>e. is_pending e \<and> \<not> ?P e) es"
    by (induction es) (auto simp: is_pending_def)
  moreover have "length (filter is_pending es) =
      length (filter (\<lambda>e. is_pending e \<and> ?P e) es) + length (filter (\<lambda>e. is_pending e \<and> \<not> ?P e) es)"
    using sum_length_filter_compl [of ?P "filter is_pending es"] by (simp add: conj_commute)
  moreover have "length (filter (\<lambda>e. is_pending e \<and> ?P e) es) = length b"
  proof -
    have "set (filter (\<lambda>e. is_pending e \<and> ?P e) es) = set b" using only assms(2) by auto
    moreover have "distinct (filter (\<lambda>e. is_pending e \<and> ?P e) es)"
      using assms(1) by (simp add: distinct_map)
    ultimately show ?thesis using assms(3) by (metis distinct_card)
  qed
  ultimately show ?thesis by simp
qed

lemma pending_batch_distinct:
  "distinct (map oe_id es) \<Longrightarrow> distinct (pending_batch now b es)"
  by (simp add: pending_batch_def distinct_map)

lemma pollCycle_ids: "map oe_id (outbox_events (snd (pollCycle batch now ok c w))) = map oe_id (outbox_events w)"
proof -
  obtain full w' where r: "pollCycle batch now ok c w = (full, w')" by fastforce
  then have "map oe_id (outbox_events w') = map oe_id (outbox_events w)"
    by (cases rule: pollCycle_cases) (auto simp: map_update_where_same)
  with r show ?thesis by simp
qed

text \<open>With the lock free and every call succeeding, a cycle clears a whole batch.\<close>

lemma pollCycle_progress:
  assumes free: "redis_get now LOCK_KEY w = None" and dis: "distinct (map oe_id (outbox_events w))"
    and w': "w' = snd (pollCycle batch now (\<lambda>_. True) True w)"
  shows "n_pending w' = n_pending w - min batch (length (filter (eligible now) (outbox_events w)))"
    and "redis w' LOCK_KEY = Some (JStr (entropy w (drawn w)), Some (now + 10000))"
proof -
  let ?b = "pending_batch now batch (outbox_events w)"
  obtain w0 where d: "draw w = (entropy w (drawn w), w0)" by (simp add: draw_def)
  then have w0: "outbox_events w0 = outbox_events w" "redis_get now LOCK_KEY w0 = None" "redis w0 = redis w"
    using free by (auto simp: draw_def redis_get_def)
  let ?w1 = "redis_setex now LOCK_KEY (JStr (entropy w (drawn w))) LOCK_TTL_SECONDS w0"
  have l: "redis_setnx now LOCK_KEY (JStr (entropy w (drawn w))) LOCK_TTL_SECONDS w0 = (True, ?w1)"
    by (simp add: redis_setnx_def w0)
  obtain s w2 where p: "publish_all (\<lambda>_. True) ?b ?w1 = (s, w2)" by fastforce
  have s: "s" using publish_all_ok [of ?b "\<lambda>_. True" ?w1] p by simp
  note fr = publish_all_frame [OF p]
  have w'_eq: "w' = (if ?b = [] then ?w1 else w2\<lparr>outbox_events := update_where
       (\<lambda>e. oe_id e \<in> oe_id ` set ?b) (mark_published now) (outbox_events w2)\<rparr>)"
    using s by (simp add: w' pollCycle_def d l p w0 Let_def)
  have sub: "set ?b \<subseteq> {e \<in> set (outbox_events w). is_pending e}"
    using pending_batch_props(1) by (auto simp: eligible_def is_pending_def)
  have len: "length ?b = min batch (length (filter (eligible now) (outbox_events w)))"
    by (rule pending_batch_props(3))
  show "n_pending w' = n_pending w - min batch (length (filter (eligible now) (outbox_events w)))"
  proof (cases "?b = []")
    case True
    then show ?thesis using w'_eq len w0 by (simp add: n_pending_def)
  next
    case False
    then show ?thesis
      using w'_eq marked_pending [OF dis sub pending_batch_distinct [OF dis], of now] fr w0 len
      by (simp add: n_pending_def)
  qed
  show "redis w' LOCK_KEY = Some (JStr (entropy w (drawn w)), Some (now + 10000))"
    using w'_eq fr by (auto simp: redis_setex_def LOCK_TTL_SECONDS_def)
qed

text \<open>A run of cycles at the given instants, with every call succeeding.\<close>

fun poll_run :: "nat \<Rightarrow> timestamp list \<Rightarrow> 'a base_scheme \<Rightarrow> 'a base_scheme" where
  "poll_run batch [] w = w"
| "poll_run batch (t # ts) w = poll_run batch ts (snd (pollCycle batch t (\<lambda>_. True) True w))"

definition all_eligible :: "timestamp \<Rightarrow> 'a base_scheme \<Rightarrow> bool" where
  "all_eligible now w = list_all (\<lambda>e. is_pending e \<longrightarrow> eligible now e) (outbox_events w)"

lemma all_eligible_filter:
  "all_eligible now w \<Longrightarrow> filter (eligible now) (outbox_events w) = filter is_pending (outbox_events w)"
  by (auto simp: all_eligible_def list_all_iff eligible_def is_pending_def intro: filter_cong)

lemma all_eligible_pollCycle:
  "all_eligible now w \<Longrightarrow> now \<le> t \<Longrightarrow> all_eligible t (snd (pollCycle batch now ok c w))"
proof -
  assume e: "all_eligible now w" and le: "now \<le> t"
  obtain full w' where r: "pollCycle batch now ok c w = (full, w')" by fastforce
  then have "all_eligible t w'"
    using e le
    by (cases rule: pollCycle_cases)
       (force simp: all_eligible_def list_all_iff eligible_def is_pending_def in_update_where
          split: if_splits)+
  with r show ?thesis by simp
qed

lemma poll_run_drains:
  assumes "distinct (map oe_id (outbox_events w))" and "all_eligible (hd (ts @ [0])) w"
    and "\<And>t. t \<in> set ts \<Longrightarrow> redis_get t LOCK_KEY w = None"
    and "sorted_wrt (\<lambda>s t. s + 10000 \<le> t) ts"
  shows "n_pending (poll_run batch ts w) = n_pending w - length ts * batch"
  using assms
proof (induction ts arbitrary: w)
  case (Cons t ts)
  let ?w' = "snd (pollCycle batch t (\<lambda>_. True) True w)"
  have free: "redis_get t LOCK_KEY w = None" using Cons.prems(3) by simp
  note prog = pollCycle_progress [OF free Cons.prems(1) refl, of batch]
  have elig: "filter (eligible t) (outbox_events w) = filter is_pending (outbox_events w)"
    using Cons.prems(2) by (simp add: all_eligible_filter)
  have step: "n_pending ?w' = n_pending w - batch"
    using prog(1) elig by (simp add: n_pending_def)
  have later: "\<And>u. u \<in> set ts \<Longrightarrow> t + 10000 \<le> u" using Cons.prems(4) by simp
  have IH: "n_pending (poll_run batch ts ?w') = n_pending ?w' - length ts * batch"
  proof (cases ts)
    case (Cons u us)
    show ?thesis
    proof (rule Cons.IH)
      show "distinct (map oe_id (outbox_events ?w'))" using Cons.prems(1) by (simp add: pollCycle_ids)
      show "all_eligible (hd (ts @ [0])) ?w'"
        using Cons.prems(2) later [of u] Cons by (auto intro!: all_eligible_pollCycle)
      show "redis_get v LOCK_KEY ?w' = None" if "v \<in> set ts" for v
        using prog(2) later [OF that] by (simp add: redis_get_def live_at_def)
      show "sorted_wrt (\<lambda>s t. s + 10000 \<le> t) ts" using Cons.prems(4) by simp
    qed
  qed simp
  then show ?case using step by simp
qed simp

section \<open>Properties\<close>

text \<open>C6. At-least-once publication: a poll cycle marks an event as published only if the
  event was pending and its message was sent to the outbox channel in that very cycle.
  If a publish or the commit fails, no event changes its status, so none is lost.\<close>

theorem outbox_published_only_if_sent:
  assumes "pollCycle batch now ok commit_ok w = (full, w')"
    and "distinct (map oe_id (outbox_events w))"
    and "e' \<in> set (outbox_events w')" and "oe_status e' = OPublished"
    and "e' \<notin> set (outbox_events w)"
  shows "\<exists>e \<in> set (outbox_events w). oe_status e = OPending \<and> e' = mark_published now e \<and>
           (OUTBOX_CHANNEL, outbox_json e) \<in> set (drop (length (pubsub w)) (pubsub w'))"
  using assms(1)
proof (cases rule: pollCycle_cases)
  case marked
  from assms(3,5) marked(4) obtain e b where e: "e \<in> set (outbox_events w)" "e' = mark_published now e"
      "b \<in> set (pending_batch now batch (outbox_events w))" "oe_id e = oe_id b"
    by (auto simp: in_update_where split: if_splits)
  with pending_batch_props(1) [of now batch "outbox_events w"] inj_on_key [OF assms(2)]
  have "e = b" and "oe_status e = OPending" by (auto simp: eligible_def)
  with e marked(3) show ?thesis by auto
qed (use assms(3,5) in auto)

definition ex_event :: "string \<Rightarrow> timestamp \<Rightarrow> outbox_event" where
  "ex_event i t = \<lparr>oe_id = i, oe_org_id = None, oe_event_type = ''task.created'',
     oe_entity_type = ''task'', oe_entity_id = i, oe_actor_user_id = None, oe_payload = JNull,
     oe_status = OPending, oe_occurred_at = t, oe_published_at = None, oe_created_at = t\<rparr>"

definition ex_base :: base where
  "ex_base = \<lparr>outbox_events = [ex_event ''e2'' 20, ex_event ''e1'' 10, ex_event ''e3'' 30],
     audit_logs = [], jobs = [], redis = (\<lambda>_. None), pubsub = [],
     entropy = (\<lambda>n. replicate n CHR ''x''), drawn = 0\<rparr>"

lemmas ex_base_eval =
  ex_base_def ex_event_def pollCycle_def draw_def redis_setnx_def redis_get_def redis_setex_def
  live_at_def pending_batch_def eligible_def LOCK_KEY_def LOCK_TTL_SECONDS_def redis_publish_def
  mark_published_def OUTBOX_CHANNEL_def Let_def

theorem outbox_published_only_if_sent_witness:
  "\<exists>e \<in> set (outbox_events ex_base). oe_status e = OPending \<and>
     mark_published 1000 (ex_event ''e1'' 10) = mark_published 1000 e \<and>
     (OUTBOX_CHANNEL, outbox_json e) \<in>
       set (drop (length (pubsub ex_base)) (pubsub (snd (pollCycle 2 1000 (\<lambda>_. True) True ex_base))))"
proof (rule outbox_published_only_if_sent [where commit_ok = True and ok = "\<lambda>_. True" and batch = 2])
  show "pollCycle 2 1000 (\<lambda>_. True) True ex_base =
      (fst (pollCycle 2 1000 (\<lambda>_. True) True ex_base), snd (pollCycle 2 1000 (\<lambda>_. True) True ex_base))"
    by simp
qed (simp_all add: ex_base_eval)

text \<open>Ordering and atomicity: the messages one cycle sends are a prefix, no longer than the
  batch, of the eligible events in order of creation, and the cycle marks either exactly
  the events it sent or none.\<close>

theorem outbox_sends_in_creation_order:
  assumes "pollCycle batch now ok commit_ok w = (full, w')"
  shows "\<exists>ys zs. sort_key oe_created_at (filter (eligible now) (outbox_events w)) = ys @ zs \<and>
     length ys \<le> batch \<and>
     pubsub w' = pubsub w @ map (\<lambda>e. (OUTBOX_CHANNEL, outbox_json e)) ys \<and>
     outbox_events w' \<in> {outbox_events w,
       update_where (\<lambda>e. oe_id e \<in> oe_id ` set ys) (mark_published now) (outbox_events w)}"
  using assms
proof (cases rule: pollCycle_cases)
  case idle
  then show ?thesis
    by (intro exI [of _ "[]"]
          exI [of _ "sort_key oe_created_at (filter (eligible now) (outbox_events w))"]) auto
next
  case (unmarked ys zs)
  let ?all = "sort_key oe_created_at (filter (eligible now) (outbox_events w))"
  have "?all = ys @ (zs @ drop batch ?all)"
    using unmarked(1) append_take_drop_id [of batch ?all] by (simp add: pending_batch_def)
  moreover have "length ys \<le> batch"
    using arg_cong [OF unmarked(1), of length] by (simp add: pending_batch_def)
  ultimately show ?thesis using unmarked by blast
next
  case marked
  let ?all = "sort_key oe_created_at (filter (eligible now) (outbox_events w))"
  have "?all = pending_batch now batch (outbox_events w) @ drop batch ?all"
    by (simp add: pending_batch_def)
  with marked show ?thesis
    by (intro exI [of _ "pending_batch now batch (outbox_events w)"] exI [of _ "drop batch ?all"])
       (simp add: pending_batch_props(3))
qed

theorem outbox_sends_in_creation_order_witness:
  "\<exists>ys zs. sort_key oe_created_at (filter (eligible 1000) (outbox_events ex_base)) = ys @ zs \<and>
     length ys \<le> 2 \<and>
     pubsub (snd (pollCycle 2 1000 (\<lambda>e. oe_id e \<noteq> ''e2'') True ex_base)) =
       pubsub ex_base @ map (\<lambda>e. (OUTBOX_CHANNEL, outbox_json e)) ys \<and>
     outbox_events (snd (pollCycle 2 1000 (\<lambda>e. oe_id e \<noteq> ''e2'') True ex_base)) \<in>
       {outbox_events ex_base, update_where (\<lambda>e. oe_id e \<in> oe_id ` set ys) (mark_published 1000)
                                 (outbox_events ex_base)}"
  by (rule outbox_sends_in_creation_order) (rule surjective_pairing)



text \<open>The lock outlives the cycle that took it: it is never released, so the cycle that
  the loop schedules 10 ms after a full batch finds it taken and does nothing.\<close>

theorem outbox_full_batch_retry_is_idle:
  assumes "pollCycle batch now ok commit_ok w = (True, w1)"
    and "pollCycle batch (now + loop_delay True errs) ok' commit_ok' w1 = (full, w2)"
  shows "\<not> full \<and> outbox_events w2 = outbox_events w1 \<and> pubsub w2 = pubsub w1"
proof -
  obtain i w0 where d: "draw w = (i, w0)" by fastforce
  obtain lk v where l: "redis_setnx now LOCK_KEY (JStr i) LOCK_TTL_SECONDS w0 = (lk, v)" by fastforce
  have lk: "lk" using assms(1) by (auto simp: pollCycle_def d l Let_def split: if_splits)
  then have v: "v = redis_setex now LOCK_KEY (JStr i) LOCK_TTL_SECONDS w0"
    using l by (auto simp: redis_setnx_def split: option.splits)
  obtain s v2 where p: "publish_all ok (pending_batch now batch (outbox_events v)) v = (s, v2)"
    by fastforce
  have "redis w1 = redis v"
    using assms(1) publish_all_frame [OF p] lk
    by (auto simp: pollCycle_def d l p Let_def split: if_splits)
  then have "redis_get (now + 10) LOCK_KEY w1 = Some (JStr i)"
    by (simp add: redis_get_def v redis_setex_def LOCK_TTL_SECONDS_def live_at_def)
  then show ?thesis
    using assms(2)
    by (auto simp: pollCycle_def loop_delay_def FULL_BATCH_DELAY_MS_def redis_setnx_def
        redis_get_def draw_def Let_def split: option.splits)
qed

theorem outbox_full_batch_retry_is_idle_witness:
  "let w1 = snd (pollCycle 2 1000 (\<lambda>_. True) True ex_base);
       (full, w2) = pollCycle 2 (1000 + loop_delay True 0) (\<lambda>_. True) True w1
   in \<not> full \<and> outbox_events w2 = outbox_events w1 \<and> pubsub w2 = pubsub w1"
proof -
  let ?w1 = "snd (pollCycle 2 1000 (\<lambda>_. True) True ex_base)"
  have "pollCycle 2 1000 (\<lambda>_. True) True ex_base = (True, ?w1)"
    by (simp add: ex_base_eval)
  from outbox_full_batch_retry_is_idle [OF this surjective_pairing, of 0 "\<lambda>_. True" True]
  show ?thesis by (simp add: Let_def case_prod_unfold)
qed

text \<open>Backoff: after an error-free cycle the delay is 10 ms or 5 s; after errors it
  doubles from 5 s, never decreases with further errors, and never exceeds a minute.\<close>

theorem loop_delay_backoff:
  "loop_delay False 0 = 5000 \<and> loop_delay False (Suc n) = min (5000 * 2 ^ n) 60000 \<and>
   loop_delay False n \<le> loop_delay False (Suc n) \<and>
   5000 \<le> loop_delay False n \<and> loop_delay False n \<le> 60000"
proof -
  have p: "(1 :: int) \<le> 2 ^ m" for m by simp
  have "5000 * (2 :: int) ^ (n - Suc 0) \<le> 5000 * 2 ^ n" by (simp add: power_increasing)
  then have "min (5000 * (2 :: int) ^ (n - Suc 0)) 60000 \<le> 5000 * 2 ^ n"
    by (rule min.coboundedI1)
  then show ?thesis
    using p [of n] p [of "n - 1"]
    by (auto simp: loop_delay_def PARTIAL_BATCH_DELAY_MS_def MAX_BACKOFF_MS_def)
qed

end
