(* ===== verification/Client.thy ===== *)
theory Client
  imports Prelude
begin

text \<open>
  The browser side of a session, \<^verbatim>\<open>frontend/src/app/core\<close>: the token storage, the
  authentication and tenant services, the route guards and the three HTTP interceptors in the order in
  which \<^verbatim>\<open>app.config.ts\<close> registers them.  The client reacts to events (a component makes a call, a
  reply arrives, the user logs out), so it is a transition system: \<open>client\<close> is the state of the
  services, \<open>session\<close> adds the calls in flight, the requests put on the wire and the results delivered.
  An \<^verbatim>\<open>Observable\<close> of \<^verbatim>\<open>HttpClient\<close> is cold: its request is sent when it is subscribed.  Replies are
  chosen by the environment, so every theorem holds for every server.
\<close>

section \<open>Token storage\<close>

type_synonym local_storage = "string \<rightharpoonup> string"

definition ACCESS_KEY :: string where "ACCESS_KEY = ''platform_access_token''"
definition REFRESH_KEY :: string where "REFRESH_KEY = ''platform_refresh_token''"

definition getAccessToken :: "local_storage \<Rightarrow> string option" where
  "getAccessToken ls = ls ACCESS_KEY"

definition setAccessToken :: "string \<Rightarrow> local_storage \<Rightarrow> local_storage" where
  "setAccessToken token ls = ls(ACCESS_KEY \<mapsto> token)"

definition getRefreshToken :: "local_storage \<Rightarrow> string option" where
  "getRefreshToken ls = ls REFRESH_KEY"

definition setRefreshToken :: "string \<Rightarrow> local_storage \<Rightarrow> local_storage" where
  "setRefreshToken token ls = ls(REFRESH_KEY \<mapsto> token)"

definition clear_tokens :: "local_storage \<Rightarrow> local_storage" where
  "clear_tokens ls = ls(ACCESS_KEY := None, REFRESH_KEY := None)"

lemma token_storage [simp]:
  "getAccessToken (setAccessToken t ls) = Some t"
  "getRefreshToken (setRefreshToken t ls) = Some t"
  "getAccessToken (setRefreshToken t ls) = getAccessToken ls"
  "getRefreshToken (setAccessToken t ls) = getRefreshToken ls"
  "getAccessToken (clear_tokens ls) = None"
  "getRefreshToken (clear_tokens ls) = None"
  by (simp_all add: getAccessToken_def setAccessToken_def getRefreshToken_def setRefreshToken_def
      clear_tokens_def ACCESS_KEY_def REFRESH_KEY_def)

section \<open>Users and organizations as the client keeps them\<close>

text \<open>
  The user is an object the client takes over from replies and tokens without a check of its shape, so
  it is kept as JSON; an absent member is \<^verbatim>\<open>undefined\<close>.  \<open>obj\<close> builds an object from members
  some of which are undefined.
\<close>

definition obj :: "(string \<times> json option) list \<Rightarrow> json" where
  "obj ms = JObj (map (\<lambda>m. (fst m, the (snd m))) (filter (\<lambda>m. snd m \<noteq> None) ms))"

definition js_truthy :: "json option \<Rightarrow> bool" where
  "js_truthy v =
     (case v of
        None \<Rightarrow> False
      | Some JNull \<Rightarrow> False
      | Some (JBool b) \<Rightarrow> b
      | Some (JNum n) \<Rightarrow> n \<noteq> 0
      | Some (JStr s) \<Rightarrow> s \<noteq> ''''
      | _ \<Rightarrow> True)"

text \<open>JavaScript's \<^verbatim>\<open>a ?? b\<close>, and \<^verbatim>\<open>String(v)\<close>, which \<^verbatim>\<open>localStorage.setItem\<close> applies.\<close>

definition nullish_or :: "json option \<Rightarrow> json option \<Rightarrow> json option" where
  "nullish_or a b = (case a of None \<Rightarrow> b | Some JNull \<Rightarrow> b | Some v \<Rightarrow> Some v)"

fun commas :: "string list \<Rightarrow> string" where
  "commas [] = ''''"
| "commas [x] = x"
| "commas (x # xs) = x @ '','' @ commas xs"

fun js_str :: "json \<Rightarrow> string" where
  "js_str JNull = ''null''"
| "js_str (JBool b) = (if b then ''true'' else ''false'')"
| "js_str (JNum n) = (if n < 0 then ''-'' @ show_nat (nat (- n)) else show_nat (nat n))"
| "js_str (JStr s) = s"
| "js_str (JArr vs) = commas (map (\<lambda>v. if v = JNull then '''' else js_str v) vs)"
| "js_str (JObj _) = ''[object Object]''"

definition js_string :: "json option \<Rightarrow> string" where
  "js_string v = (case v of None \<Rightarrow> ''undefined'' | Some j \<Rightarrow> js_str j)"

definition defaultPreferences :: json where
  "defaultPreferences = JObj [(''timezone'', JStr ''UTC''), (''locale'', JStr ''en-US''),
     (''theme'', JStr ''dark''), (''dateFormat'', JStr ''DD/MM/YYYY'')]"

definition toUser :: "json \<Rightarrow> json" where
  "toUser dto = obj
     [(''id'', json_field ''id'' dto), (''email'', json_field ''email'' dto), (''name'', json_field ''name'' dto),
      (''bio'', json_field ''bio'' dto), (''avatarUrl'', json_field ''avatar_url'' dto),
      (''emailVerified'', json_field ''email_verified'' dto), (''mfaEnabled'', json_field ''mfa_enabled'' dto),
      (''role'', json_field ''role'' dto),
      (''preferences'', nullish_or (json_field ''preferences'' dto) (Some defaultPreferences)),
      (''createdAt'', json_field ''created_at'' dto)]"

lemma map_of_obj:
  "distinct (map fst ms) \<Longrightarrow> json_field k (obj ms) = (case map_of ms k of Some v \<Rightarrow> v | None \<Rightarrow> None)"
proof (induction ms)
  case Nil
  then show ?case by (simp add: obj_def json_field_def)
next
  case (Cons m ms)
  have "k \<notin> fst ` set ms \<Longrightarrow> map_of (map (\<lambda>m. (fst m, the (snd m))) (filter (\<lambda>m. snd m \<noteq> None) ms)) k = None"
    by (auto simp: map_of_eq_None_iff image_iff)
  with Cons show ?case by (cases m) (auto simp: obj_def json_field_def)
qed

text \<open>The client calls \<^verbatim>\<open>cancelled\<close> what the server calls \<^verbatim>\<open>deleted\<close>.\<close>

datatype c_org_status = OrgActive | OrgSuspended | OrgOffboarding | OrgCancelled
datatype dto_org_status = DtoActive | DtoSuspended | DtoOffboarding | DtoDeleted

record c_org =
  cg_id :: uuid
  cg_name :: string
  cg_slug :: string
  cg_status :: c_org_status
  cg_plan :: string

record org_dto =
  od_id :: uuid
  od_name :: string
  od_slug :: string
  od_status :: dto_org_status
  od_plan_tier :: string

fun to_org_status :: "dto_org_status \<Rightarrow> c_org_status" where
  "to_org_status DtoActive = OrgActive"
| "to_org_status DtoSuspended = OrgSuspended"
| "to_org_status DtoOffboarding = OrgOffboarding"
| "to_org_status DtoDeleted = OrgCancelled"

definition toOrg :: "org_dto \<Rightarrow> c_org" where
  "toOrg dto = \<lparr>cg_id = od_id dto, cg_name = od_name dto, cg_slug = od_slug dto,
     cg_status = to_org_status (od_status dto), cg_plan = od_plan_tier dto\<rparr>"

section \<open>Requests and errors\<close>

record c_request =
  cx_method :: string
  cx_url :: string
  cx_headers :: "(string \<times> string) list"
  cx_body :: json

definition http_call :: "string \<Rightarrow> string \<Rightarrow> json \<Rightarrow> c_request" where
  "http_call method url body = \<lparr>cx_method = method, cx_url = url, cx_headers = [], cx_body = body\<rparr>"

definition set_header :: "string \<Rightarrow> string \<Rightarrow> c_request \<Rightarrow> c_request" where
  "set_header k v req = req\<lparr>cx_headers := (k, v) # filter (\<lambda>h. fst h \<noteq> k) (cx_headers req)\<rparr>"

definition get_header :: "string \<Rightarrow> c_request \<Rightarrow> string option" where
  "get_header k req = map_of (cx_headers req) k"

lemma map_of_filter_other: "k \<noteq> k' \<Longrightarrow> map_of (filter (\<lambda>h. fst h \<noteq> k') hs) k = map_of hs k"
  by (induction hs) auto

lemma get_set_header [simp]:
  "get_header k (set_header k' v req) = (if k = k' then Some v else get_header k req)"
  by (simp add: get_header_def set_header_def map_of_filter_other)

lemma set_header_same [simp]:
  "cx_url (set_header k v req) = cx_url req" "cx_method (set_header k v req) = cx_method req"
  "cx_body (set_header k v req) = cx_body req"
  by (simp_all add: set_header_def)

text \<open>A failed exchange as Angular reports it, and the \<^verbatim>\<open>AppError\<close> the error interceptor makes of it.\<close>

record http_error =
  hx_status :: nat
  hx_error :: json
  hx_message :: string

record app_error =
  ae_code :: json
  ae_message :: json
  ae_status :: nat

datatype client_error = HttpFailed app_error | JsFailed string

definition errorInterceptor :: "http_error \<Rightarrow> app_error" where
  "errorInterceptor err =
     (let inner = (case json_field ''error'' (hx_error err) of None \<Rightarrow> JNull | Some j \<Rightarrow> j)
      in \<lparr>ae_code = the (nullish_or (json_field ''code'' inner) (Some (JStr ''UNKNOWN_ERROR''))),
          ae_message = the (nullish_or (json_field ''message'' inner) (Some (JStr (hx_message err)))),
          ae_status = hx_status err\<rparr>)"

datatype http_reply = Replied nat json | Failed http_error

section \<open>The state of the services\<close>

record client =
  kl_storage :: local_storage
  kl_currentUser :: "json option"
  kl_isLoading :: bool
  kl_refreshing :: bool
  kl_refreshToken :: "c_request option"
  kl_activeOrg :: "c_org option"
  kl_userOrgs :: "c_org list"
  kl_navigations :: "string list"
  kl_random :: "nat \<Rightarrow> string"
  kl_drawn :: nat

definition isLoggedIn :: "'a client_scheme \<Rightarrow> bool" where
  "isLoggedIn s = js_truthy (kl_currentUser s)"

definition activeOrgId :: "'a client_scheme \<Rightarrow> uuid option" where
  "activeOrgId s = map_option cg_id (kl_activeOrg s)"

definition navigate :: "string \<Rightarrow> 'a client_scheme \<Rightarrow> 'a client_scheme" where
  "navigate path s = s\<lparr>kl_navigations := kl_navigations s @ [path]\<rparr>"

definition randomUUID :: "'a client_scheme \<Rightarrow> string \<times> 'a client_scheme" where
  "randomUUID s = (kl_random s (kl_drawn s), s\<lparr>kl_drawn := Suc (kl_drawn s)\<rparr>)"

definition setOrg :: "c_org \<Rightarrow> 'a client_scheme \<Rightarrow> 'a client_scheme" where
  "setOrg org s = s\<lparr>kl_activeOrg := Some org\<rparr>"

definition loadUserOrgs_request :: c_request where
  "loadUserOrgs_request = http_call ''GET'' ''/api/v1/orgs/mine'' JNull"

definition loadUserOrgs_next :: "org_dto list \<Rightarrow> 'a client_scheme \<Rightarrow> c_org list \<times> 'a client_scheme" where
  "loadUserOrgs_next dtos s = (let orgs = map toOrg dtos in (orgs, s\<lparr>kl_userOrgs := orgs\<rparr>))"

section \<open>The authentication service\<close>

definition login_request :: "string \<Rightarrow> string \<Rightarrow> c_request" where
  "login_request email password =
     http_call ''POST'' ''/api/v1/auth/login'' (JObj [(''email'', JStr email), (''password'', JStr password)])"

definition login_start :: "'a client_scheme \<Rightarrow> 'a client_scheme" where
  "login_start s = s\<lparr>kl_isLoading := True\<rparr>"

text \<open>\<open>data\<close> is the member \<^verbatim>\<open>data\<close> of the reply.\<close>

definition store_session :: "json \<Rightarrow> 'a client_scheme \<Rightarrow> 'a client_scheme" where
  "store_session data s =
     s\<lparr>kl_currentUser := json_field ''user'' data,
       kl_storage := setRefreshToken (js_string (json_field ''refreshToken'' data))
         (setAccessToken (js_string (json_field ''accessToken'' data)) (kl_storage s))\<rparr>"

datatype login_result = MfaRequired | LoggedIn "json option"

definition login_next :: "json \<Rightarrow> 'a client_scheme \<Rightarrow> login_result \<times> 'a client_scheme" where
  "login_next data s =
     (if js_truthy (json_field ''mfa_required'' data) then (MfaRequired, s\<lparr>kl_isLoading := False\<rparr>)
      else (LoggedIn (json_field ''user'' data), (store_session data s)\<lparr>kl_isLoading := False\<rparr>))"

definition login_error :: "'a client_scheme \<Rightarrow> 'a client_scheme" where
  "login_error s = s\<lparr>kl_isLoading := False\<rparr>"

definition register_request :: "string \<Rightarrow> string \<Rightarrow> string \<Rightarrow> c_request" where
  "register_request name email password =
     http_call ''POST'' ''/api/v1/auth/register''
       (JObj [(''name'', JStr name), (''email'', JStr email), (''password'', JStr password)])"

definition verifyEmail_request :: "string \<Rightarrow> c_request" where
  "verifyEmail_request token = http_call ''POST'' ''/api/v1/auth/verify-email'' (JObj [(''token'', JStr token)])"

definition submitMfa_request :: "string \<Rightarrow> c_request" where
  "submitMfa_request code = http_call ''POST'' ''/api/v1/auth/mfa/verify'' (JObj [(''code'', JStr code)])"

definition submitMfa_next :: "json \<Rightarrow> 'a client_scheme \<Rightarrow> json option \<times> 'a client_scheme" where
  "submitMfa_next data s = (json_field ''user'' data, store_session data s)"

definition updateCurrentUser :: "json \<Rightarrow> 'a client_scheme \<Rightarrow> 'a client_scheme" where
  "updateCurrentUser u s = s\<lparr>kl_currentUser := Some u\<rparr>"

definition logout_client :: "'a client_scheme \<Rightarrow> 'a client_scheme" where
  "logout_client s =
     navigate ''/auth/login'' (s\<lparr>kl_currentUser := None, kl_storage := clear_tokens (kl_storage s)\<rparr>)"

text \<open>The token handed over by single sign-on.  \<open>decode\<close> is
  \<^verbatim>\<open>JSON.parse(atob(token.split('.')[1]))\<close>, \<open>None\<close> where it throws, and \<open>iso_time\<close> is
  \<^verbatim>\<open>new Date(seconds * 1000).toISOString()\<close>.  A payload \<^verbatim>\<open>null\<close> makes the reading of its members
  throw, after the access token is stored.\<close>

definition sso_user :: "(int \<Rightarrow> string) \<Rightarrow> json \<Rightarrow> json" where
  "sso_user iso_time p = obj
     [(''id'', json_field ''sub'' p), (''email'', json_field ''email'' p),
      (''name'', nullish_or (json_field ''name'' p) (json_field ''email'' p)),
      (''bio'', Some JNull), (''avatarUrl'', Some JNull), (''emailVerified'', Some (JBool True)),
      (''mfaEnabled'', nullish_or (json_field ''mfaEnabled'' p) (Some (JBool False))),
      (''role'', nullish_or (json_field ''role'' p) (Some (JStr ''member''))),
      (''preferences'', Some defaultPreferences),
      (''createdAt'', Some (JStr (case json_field ''iat'' p of
          Some (JNum t) \<Rightarrow> if t = 0 then '''' else iso_time t
        | _ \<Rightarrow> '''')))]"

definition handleSsoToken ::
    "(string \<Rightarrow> json option) \<Rightarrow> (int \<Rightarrow> string) \<Rightarrow> string \<Rightarrow> 'a client_scheme \<Rightarrow>
     (client_error + unit) \<times> 'a client_scheme" where
  "handleSsoToken decode iso_time token s =
     (case decode token of
        None \<Rightarrow> (Inl (JsFailed ''SyntaxError''), s)
      | Some p \<Rightarrow>
          (let ls = setAccessToken token (kl_storage s);
               refresh = json_field ''refreshToken'' p
           in if p = JNull then (Inl (JsFailed ''TypeError''), s\<lparr>kl_storage := ls\<rparr>)
              else (Inr (), s\<lparr>kl_storage := (if js_truthy refresh then setRefreshToken (js_string refresh) ls else ls),
                      kl_currentUser := Some (sso_user iso_time p)\<rparr>)))"

text \<open>
  \<^verbatim>\<open>refreshToken()\<close>: the first part, up to the \<^verbatim>\<open>return\<close>, keeps the cold request in
  \<^verbatim>\<open>refreshToken$\<close>; \<open>refreshToken_next\<close> and \<open>refreshToken_error\<close> are the operators piped to that
  request, which run when its reply arrives; \<open>refreshed_token\<close> is what the returned observable delivers
  once \<^verbatim>\<open>refreshing$\<close> is false.
\<close>

definition refresh_request :: "'a client_scheme \<Rightarrow> c_request" where
  "refresh_request s =
     http_call ''POST'' ''/api/v1/auth/refresh'' (JObj [(''refreshToken'', json_opt (getRefreshToken (kl_storage s)))])"

definition refreshToken :: "'a client_scheme \<Rightarrow> 'a client_scheme" where
  "refreshToken s =
     (if kl_refreshing s then s
      else s\<lparr>kl_refreshing := True, kl_refreshToken := Some (refresh_request s)\<rparr>)"

definition refreshToken_next :: "string \<Rightarrow> 'a client_scheme \<Rightarrow> 'a client_scheme" where
  "refreshToken_next access s =
     s\<lparr>kl_storage := setAccessToken access (kl_storage s), kl_refreshing := False\<rparr>"

definition refreshToken_error :: "'a client_scheme \<Rightarrow> 'a client_scheme" where
  "refreshToken_error s = logout_client (s\<lparr>kl_refreshing := False\<rparr>)"

definition refreshed_token :: "'a client_scheme \<Rightarrow> client_error + string" where
  "refreshed_token s =
     (case getAccessToken (kl_storage s) of
        None \<Rightarrow> Inl (JsFailed ''No token after refresh'')
      | Some t \<Rightarrow> if t = '''' then Inl (JsFailed ''No token after refresh'') else Inr t)"

section \<open>Guards\<close>

definition authGuard :: "'a client_scheme \<Rightarrow> bool \<times> 'a client_scheme" where
  "authGuard s = (if isLoggedIn s then (True, s) else (False, navigate ''/auth/login'' s))"

text \<open>\<open>reply\<close> is what \<^verbatim>\<open>loadUserOrgs()\<close> delivers: an error, or the organizations of the user.\<close>

definition orgGuard :: "client_error + org_dto list \<Rightarrow> 'a client_scheme \<Rightarrow> bool \<times> 'a client_scheme" where
  "orgGuard reply s =
     (if truthy (activeOrgId s) then (True, s)
      else
        (case reply of
           Inl e \<Rightarrow> (False, navigate ''/auth/login'' s)
         | Inr dtos \<Rightarrow>
             (let (orgs, s1) = loadUserOrgs_next dtos s
              in case orgs of
                   [] \<Rightarrow> (False, navigate ''/auth/login'' s1)
                 | [org] \<Rightarrow> (True, setOrg org s1)
                 | _ \<Rightarrow> (False, navigate ''/pick-org'' s1))))"

definition roleGuard :: "string \<Rightarrow> 'a client_scheme \<Rightarrow> bool \<times> 'a client_scheme" where
  "roleGuard required s =
     (if Option.bind (kl_currentUser s) (json_field ''role'') = Some (JStr required) then (True, s)
      else (False, navigate ''/auth/login'' s))"

section \<open>Interceptors\<close>

fun str_includes :: "string \<Rightarrow> string \<Rightarrow> bool" where
  "str_includes [] u = (u = [])"
| "str_includes (c # s) u = (take (length u) (c # s) = u \<or> str_includes s u)"

definition AUTH_URLS :: "string list" where
  "AUTH_URLS = [''/api/v1/auth/login'', ''/api/v1/auth/register'', ''/api/v1/auth/refresh'',
     ''/api/v1/auth/verify-email'', ''/api/v1/auth/forgot-password'', ''/api/v1/auth/reset-password'']"

definition isAuthUrl :: "c_request \<Rightarrow> bool" where
  "isAuthUrl req = list_ex (\<lambda>url. str_includes (cx_url req) url) AUTH_URLS"

definition addHeaders :: "c_request \<Rightarrow> string option \<Rightarrow> string option \<Rightarrow> c_request" where
  "addHeaders req token orgId =
     (let r1 = (if truthy token then set_header ''Authorization'' (''Bearer '' @ the token) req else req)
      in if truthy orgId then set_header ''X-Org-ID'' (the orgId) r1 else r1)"

definition MUTATING :: "string list" where
  "MUTATING = [''POST'', ''PUT'', ''PATCH'', ''DELETE'']"

definition idempotencyInterceptor :: "c_request \<Rightarrow> 'a client_scheme \<Rightarrow> c_request \<times> 'a client_scheme" where
  "idempotencyInterceptor req s =
     (if cx_method req \<in> set MUTATING
      then (let (key, s1) = randomUUID s in (set_header ''Idempotency-Key'' key req, s1))
      else (req, s))"

end
