(* ===== verification/Client_Session.thy ===== *)
theory Client_Session
  imports Client
begin

text \<open>
  The interceptor chain of the client as a transition system.  A call of a component is numbered; it is
  in flight until its result is delivered.  \<^verbatim>\<open>jwtInterceptor\<close> is split where it waits: \<open>call_api\<close>
  is the part up to the first request, \<open>on_reply\<close> what runs when a reply arrives, \<open>on_token\<close> what runs
  when \<^verbatim>\<open>auth.refreshToken()\<close> delivers.  Each request passes \<^verbatim>\<open>idempotencyInterceptor\<close> on its way to
  the wire and each failure passes \<^verbatim>\<open>errorInterceptor\<close> on its way back, so the \<^verbatim>\<open>status\<close> that
  \<^verbatim>\<open>jwtInterceptor\<close> inspects is that of an \<^verbatim>\<open>AppError\<close>.
\<close>

section \<open>Calls\<close>

datatype flight = Plain | FirstTry c_request | WaitingForToken c_request | Retried c_request

datatype sender = Call nat | Refresh

record session = client +
  ss_flights :: "nat \<rightharpoonup> flight"
  ss_wire :: "(sender \<times> c_request) list"
  ss_results :: "nat \<rightharpoonup> client_error + json"
  ss_calls :: nat

definition transmit :: "sender \<Rightarrow> c_request \<Rightarrow> session \<Rightarrow> session" where
  "transmit from req s =
     (let (req', s1) = idempotencyInterceptor req s in s1\<lparr>ss_wire := ss_wire s1 @ [(from, req')]\<rparr>)"

definition set_flight :: "nat \<Rightarrow> flight \<Rightarrow> session \<Rightarrow> session" where
  "set_flight i f s = s\<lparr>ss_flights := (ss_flights s)(i \<mapsto> f)\<rparr>"

definition deliver :: "nat \<Rightarrow> client_error + json \<Rightarrow> session \<Rightarrow> session" where
  "deliver i r s = s\<lparr>ss_flights := (ss_flights s)(i := None), ss_results := (ss_results s)(i \<mapsto> r)\<rparr>"

definition call_api :: "c_request \<Rightarrow> session \<Rightarrow> session" where
  "call_api req s =
     (let i = ss_calls s; s1 = s\<lparr>ss_calls := Suc i\<rparr>
      in if isAuthUrl req then set_flight i Plain (transmit (Call i) req s1)
         else set_flight i (FirstTry req)
                (transmit (Call i) (addHeaders req (getAccessToken (kl_storage s)) (activeOrgId s)) s1))"

definition on_error :: "nat \<Rightarrow> flight \<Rightarrow> app_error \<Rightarrow> session \<Rightarrow> session" where
  "on_error i f e s =
     (case f of
        Plain \<Rightarrow> deliver i (Inl (HttpFailed e)) s
      | FirstTry req \<Rightarrow>
          if ae_status e \<noteq> 401 then deliver i (Inl (HttpFailed e)) s
          else set_flight i (WaitingForToken req) (refreshToken s)
      | WaitingForToken req \<Rightarrow> s
      | Retried req \<Rightarrow>
          deliver i (Inl (HttpFailed e)) (if ae_status e = 401 then logout_client s else s))"

definition on_reply :: "nat \<Rightarrow> flight \<Rightarrow> http_reply \<Rightarrow> session \<Rightarrow> session" where
  "on_reply i f reply s =
     (case reply of
        Replied status body \<Rightarrow> deliver i (Inr body) s
      | Failed err \<Rightarrow> on_error i f (errorInterceptor err) s)"

definition on_token :: "nat \<Rightarrow> c_request \<Rightarrow> session \<Rightarrow> session" where
  "on_token i req s =
     (case refreshed_token s of
        Inl e \<Rightarrow> deliver i (Inl e) s
      | Inr t \<Rightarrow> set_flight i (Retried req) (transmit (Call i) (addHeaders req (Some t) (activeOrgId s)) s))"

text \<open>A flight whose request is on the wire and not yet answered.\<close>

fun unanswered :: "flight \<Rightarrow> bool" where
  "unanswered (WaitingForToken _) = False"
| "unanswered _ = True"

section \<open>Events\<close>

text \<open>
  The reply to the refresh request reaches the operators piped to it (\<open>token_refreshed\<close>,
  \<open>refresh_failed\<close>) if that request was sent.  Requests of components carry no headers of their own.
\<close>

inductive session_step :: "session \<Rightarrow> session \<Rightarrow> bool" where
  called: "cx_headers req = [] \<Longrightarrow> session_step s (call_api req s)"
| replied: "ss_flights s i = Some f \<Longrightarrow> unanswered f \<Longrightarrow> session_step s (on_reply i f reply s)"
| token_ready: "ss_flights s i = Some (WaitingForToken req) \<Longrightarrow> \<not> kl_refreshing s \<Longrightarrow>
    session_step s (on_token i req s)"
| token_refreshed: "Refresh \<in> fst ` set (ss_wire s) \<Longrightarrow> session_step s (refreshToken_next access s)"
| refresh_failed: "Refresh \<in> fst ` set (ss_wire s) \<Longrightarrow> session_step s (refreshToken_error s)"
| login_started: "session_step s (login_start s)"
| login_succeeded: "session_step s (snd (login_next data s))"
| login_failed: "session_step s (login_error s)"
| mfa_submitted: "session_step s (snd (submitMfa_next data s))"
| signed_on: "session_step s (snd (handleSsoToken decode iso_time token s))"
| user_updated: "session_step s (updateCurrentUser u s)"
| logged_out: "session_step s (logout_client s)"
| org_chosen: "session_step s (setOrg org s)"
| orgs_loaded: "session_step s (snd (loadUserOrgs_next dtos s))"
| guarded: "session_step s (snd (authGuard s))"
| org_guarded: "session_step s (snd (orgGuard reply s))"
| role_guarded: "session_step s (snd (roleGuard role s))"

abbreviation session_steps :: "session \<Rightarrow> session \<Rightarrow> bool" where
  "session_steps \<equiv> session_step\<^sup>*\<^sup>*"

lemma steps_called: "session_steps s t \<Longrightarrow> cx_headers req = [] \<Longrightarrow> session_steps s (call_api req t)"
  by (erule rtranclp.rtrancl_into_rtrancl) (rule called)

definition new_session :: "local_storage \<Rightarrow> (nat \<Rightarrow> string) \<Rightarrow> session" where
  "new_session ls random =
     \<lparr>kl_storage = ls, kl_currentUser = None, kl_isLoading = False, kl_refreshing = False,
      kl_refreshToken = None, kl_activeOrg = None, kl_userOrgs = [], kl_navigations = [],
      kl_random = random, kl_drawn = 0, ss_flights = Map.empty, ss_wire = [], ss_results = Map.empty,
      ss_calls = 0\<rparr>"

section \<open>What an operation leaves alone\<close>

text \<open>\<open>calls_of s\<close> is the part of a session that only the interceptors touch.\<close>

definition calls_of where
  "calls_of s = (ss_flights s, ss_wire s, ss_results s, ss_calls s, kl_drawn s, kl_random s)"

lemmas client_defs = navigate_def setOrg_def loadUserOrgs_next_def login_start_def login_next_def
  login_error_def store_session_def submitMfa_next_def updateCurrentUser_def logout_client_def
  handleSsoToken_def refreshToken_def refreshToken_next_def refreshToken_error_def
  authGuard_def orgGuard_def roleGuard_def Let_def

lemma calls_of_service:
  "calls_of (login_start s) = calls_of s" "calls_of (snd (login_next data s)) = calls_of s"
  "calls_of (login_error s) = calls_of s" "calls_of (snd (submitMfa_next data s)) = calls_of s"
  "calls_of (snd (handleSsoToken decode iso_time token s)) = calls_of s"
  "calls_of (updateCurrentUser u s) = calls_of s" "calls_of (logout_client s) = calls_of s"
  "calls_of (setOrg org s) = calls_of s" "calls_of (snd (loadUserOrgs_next dtos s)) = calls_of s"
  "calls_of (snd (authGuard s)) = calls_of s" "calls_of (snd (orgGuard reply s)) = calls_of s"
  "calls_of (snd (roleGuard role s)) = calls_of s" "calls_of (refreshToken s) = calls_of s"
  "calls_of (refreshToken_next access s) = calls_of s" "calls_of (refreshToken_error s) = calls_of s"
  by (simp_all add: client_defs calls_of_def split: option.split sum.split list.split)

lemma refreshing_service:
  "kl_refreshing (login_start s) = kl_refreshing s" "kl_refreshing (snd (login_next data s)) = kl_refreshing s"
  "kl_refreshing (login_error s) = kl_refreshing s" "kl_refreshing (snd (submitMfa_next data s)) = kl_refreshing s"
  "kl_refreshing (snd (handleSsoToken decode iso_time token s)) = kl_refreshing s"
  "kl_refreshing (updateCurrentUser u s) = kl_refreshing s" "kl_refreshing (logout_client s) = kl_refreshing s"
  "kl_refreshing (setOrg org s) = kl_refreshing s" "kl_refreshing (snd (loadUserOrgs_next dtos s)) = kl_refreshing s"
  "kl_refreshing (snd (authGuard s)) = kl_refreshing s" "kl_refreshing (snd (orgGuard reply s)) = kl_refreshing s"
  "kl_refreshing (snd (roleGuard role s)) = kl_refreshing s"
  by (simp_all add: client_defs split: option.split sum.split list.split)


lemma calls_ofD:
  "calls_of s' = calls_of s \<Longrightarrow> ss_flights s' = ss_flights s \<and> ss_wire s' = ss_wire s \<and>
     ss_results s' = ss_results s \<and> ss_calls s' = ss_calls s \<and> kl_drawn s' = kl_drawn s \<and> kl_random s' = kl_random s"
  by (simp add: calls_of_def)

text \<open>The four kinds of event, as far as the calls are concerned.\<close>

lemma session_step_kinds:
  assumes "session_step s s'"
  obtains (service) "calls_of s' = calls_of s" "kl_refreshing s' = kl_refreshing s \<or> Refresh \<in> fst ` set (ss_wire s)"
  | (call) req where "cx_headers req = []" "s' = call_api req s"
  | (reply) i f r where "ss_flights s i = Some f" "unanswered f" "s' = on_reply i f r s"
  | (token) i req where "ss_flights s i = Some (WaitingForToken req)" "\<not> kl_refreshing s" "s' = on_token i req s"
  using assms by cases (metis calls_of_service refreshing_service)+

lemma transmit_simps [simp]:
  "ss_flights (transmit from req s) = ss_flights s" "ss_results (transmit from req s) = ss_results s"
  "ss_calls (transmit from req s) = ss_calls s" "kl_refreshing (transmit from req s) = kl_refreshing s"
  "kl_random (transmit from req s) = kl_random s"
  "fst ` set (ss_wire (transmit from req s)) = insert from (fst ` set (ss_wire s))"
  by (auto simp: transmit_def idempotencyInterceptor_def randomUUID_def)

lemma refreshToken_simps [simp]:
  "ss_flights (refreshToken s) = ss_flights s" "ss_results (refreshToken s) = ss_results s"
  "ss_calls (refreshToken s) = ss_calls s" "ss_wire (refreshToken s) = ss_wire s"
  "kl_drawn (refreshToken s) = kl_drawn s" "kl_random (refreshToken s) = kl_random s"
  "kl_refreshing (refreshToken s)"
  by (simp_all add: refreshToken_def)

lemma logout_client_simps [simp]:
  "ss_flights (logout_client s) = ss_flights s" "ss_results (logout_client s) = ss_results s"
  "ss_calls (logout_client s) = ss_calls s" "ss_wire (logout_client s) = ss_wire s"
  "kl_drawn (logout_client s) = kl_drawn s" "kl_random (logout_client s) = kl_random s"
  "kl_refreshing (logout_client s) = kl_refreshing s"
  by (simp_all add: logout_client_def navigate_def)

lemmas call_defs = call_api_def on_reply_def on_error_def on_token_def set_flight_def deliver_def Let_def

section \<open>A call that is answered 401 never ends\<close>

text \<open>
  The bookkeeping of the calls: no refresh request is ever on the wire, a call in flight has no result
  yet and its number was given out, and while a call waits for a token a refresh is in progress.
\<close>

definition bookkeeping :: "session \<Rightarrow> bool" where
  "bookkeeping s \<longleftrightarrow>
     Refresh \<notin> fst ` set (ss_wire s) \<and>
     (\<forall>i. ss_calls s \<le> i \<longrightarrow> ss_flights s i = None \<and> ss_results s i = None) \<and>
     (\<forall>i. ss_flights s i \<noteq> None \<longrightarrow> ss_results s i = None) \<and>
     (\<forall>i req. ss_flights s i = Some (WaitingForToken req) \<longrightarrow> kl_refreshing s)"

lemma bookkeeping_new: "bookkeeping (new_session ls random)"
  by (simp add: bookkeeping_def new_session_def)

lemma bookkeeping_step:
  assumes "session_step s s'" "bookkeeping s"
  shows "bookkeeping s'"
  using assms(1)
proof (cases rule: session_step_kinds)
  case service
  with assms(2) show ?thesis unfolding bookkeeping_def by (auto dest!: calls_ofD)
next
  case (call req)
  with assms(2) show ?thesis by (auto simp: bookkeeping_def call_defs)
next
  case (reply i f r)
  with assms(2) have "i < ss_calls s" unfolding bookkeeping_def by (metis not_le option.distinct(1))
  with reply assms(2) show ?thesis
    by (auto simp: bookkeeping_def call_defs split: http_reply.split flight.split)
next
  case (token i req)
  with assms(2) show ?thesis by (auto simp: bookkeeping_def)
qed

lemma bookkeeping_steps: "session_steps s s' \<Longrightarrow> bookkeeping s \<Longrightarrow> bookkeeping s'"
  by (induction rule: rtranclp_induct) (auto intro: bookkeeping_step)

lemma waiting_step:
  assumes "session_step s s'" "bookkeeping s" "ss_flights s i = Some (WaitingForToken req)"
  shows "ss_flights s' i = Some (WaitingForToken req)"
  using assms(1)
proof (cases rule: session_step_kinds)
  case service
  with assms(3) show ?thesis by (auto dest!: calls_ofD)
next
  case (call req)
  moreover from assms have "i \<noteq> ss_calls s" unfolding bookkeeping_def by (metis option.distinct(1) order_refl)
  ultimately show ?thesis using assms(3) by (auto simp: call_defs)
next
  case (reply j f r)
  with assms(3) have "j \<noteq> i" by auto
  with reply assms(3) show ?thesis by (auto simp: call_defs split: http_reply.split flight.split)
next
  case (token j req')
  with assms(2) show ?thesis by (auto simp: bookkeeping_def)
qed

lemma waiting_steps:
  assumes "session_steps s s'" "bookkeeping s" "ss_flights s i = Some (WaitingForToken req)"
  shows "ss_flights s' i = Some (WaitingForToken req)"
  using assms by (induction rule: rtranclp_induct) (auto intro: waiting_step bookkeeping_steps)


definition ex_session :: session where
  "ex_session = call_api (http_call ''GET'' ''/api/v1/orgs/o/tasks'' JNull)
     (new_session (setAccessToken ''expired'' Map.empty) (\<lambda>n. show_nat n))"


section \<open>Headers on the wire\<close>

text \<open>
  \<open>credentials s\<close> are the values of the two headers that \<open>addHeaders\<close> sets in the state \<open>s\<close>; an
  empty token or identifier is left out.
\<close>

definition present :: "string option \<Rightarrow> string option" where
  "present x = (if truthy x then x else None)"

definition credentials :: "'a client_scheme \<Rightarrow> string option \<times> string option" where
  "credentials s = (map_option (append ''Bearer '') (present (getAccessToken (kl_storage s))), present (activeOrgId s))"

lemma addHeaders_simps [simp]:
  "cx_url (addHeaders req t org) = cx_url req" "cx_method (addHeaders req t org) = cx_method req"
  "cx_body (addHeaders req t org) = cx_body req"
  "get_header ''Idempotency-Key'' (addHeaders req t org) = get_header ''Idempotency-Key'' req"
  by (simp_all add: addHeaders_def Let_def)

lemma addHeaders_sets:
  assumes "cx_headers req = []"
  shows "get_header ''Authorization'' (addHeaders req t org) = map_option (append ''Bearer '') (present t)"
    and "get_header ''X-Org-ID'' (addHeaders req t org) = present org"
  using assms by (cases t; cases org; simp add: addHeaders_def Let_def present_def get_header_def set_header_def)+

text \<open>What \<open>call_api\<close> puts on the wire.\<close>

lemma call_api_wire:
  assumes "cx_headers req = []"
  obtains req' where "ss_wire (call_api req s) = ss_wire s @ [(Call (ss_calls s), req')]"
    "cx_method req' = cx_method req" "cx_url req' = cx_url req" "cx_body req' = cx_body req"
    "(get_header ''Authorization'' req', get_header ''X-Org-ID'' req') =
       (if isAuthUrl req then (None, None) else credentials s)"
    "get_header ''Idempotency-Key'' req' =
       (if cx_method req \<in> set MUTATING then Some (kl_random s (kl_drawn s)) else None)"
    "kl_drawn (call_api req s) = (if cx_method req \<in> set MUTATING then Suc (kl_drawn s) else kl_drawn s)"
proof -
  define hd where "hd = (if isAuthUrl req then req else addHeaders req (getAccessToken (kl_storage s)) (activeOrgId s))"
  define req' where "req' = (if cx_method req \<in> set MUTATING then set_header ''Idempotency-Key'' (kl_random s (kl_drawn s)) hd else hd)"
  have "ss_wire (call_api req s) = ss_wire s @ [(Call (ss_calls s), req')]"
    "kl_drawn (call_api req s) = (if cx_method req \<in> set MUTATING then Suc (kl_drawn s) else kl_drawn s)"
    by (simp_all add: call_defs transmit_def idempotencyInterceptor_def randomUUID_def req'_def hd_def activeOrgId_def)
  moreover have "(get_header ''Authorization'' req', get_header ''X-Org-ID'' req') =
       (if isAuthUrl req then (None, None) else credentials s)"
    using assms addHeaders_sets [OF assms]
    by (simp add: req'_def hd_def credentials_def) (simp add: get_header_def)
  moreover have "get_header ''Idempotency-Key'' req' =
       (if cx_method req \<in> set MUTATING then Some (kl_random s (kl_drawn s)) else None)"
    using assms by (simp add: req'_def hd_def) (simp add: get_header_def)
  ultimately show thesis using that by (simp add: req'_def hd_def)
qed

definition wire_keys :: "session \<Rightarrow> string list" where
  "wire_keys s = List.map_filter (\<lambda>e. get_header ''Idempotency-Key'' (snd e)) (ss_wire s)"

definition well_addressed :: "c_request \<Rightarrow> bool" where
  "well_addressed req \<longleftrightarrow>
     (isAuthUrl req \<longrightarrow> get_header ''Authorization'' req = None \<and> get_header ''X-Org-ID'' req = None) \<and>
     (get_header ''Idempotency-Key'' req \<noteq> None \<longleftrightarrow> cx_method req \<in> set MUTATING)"

definition wire_ok :: "(nat \<Rightarrow> string) \<Rightarrow> session \<Rightarrow> bool" where
  "wire_ok random s \<longleftrightarrow>
     kl_random s = random \<and> list_all (\<lambda>e. well_addressed (snd e)) (ss_wire s) \<and>
     distinct (wire_keys s) \<and> set (wire_keys s) \<subseteq> random ` {..<kl_drawn s}"

lemma wire_ok_cong:
  "kl_random s' = kl_random s \<Longrightarrow> ss_wire s' = ss_wire s \<Longrightarrow> kl_drawn s' = kl_drawn s \<Longrightarrow>
     wire_ok random s' = wire_ok random s"
  by (simp add: wire_ok_def wire_keys_def)

lemma wire_ok_call:
  assumes "wire_ok random s" "inj random" "cx_headers req = []"
  shows "wire_ok random (call_api req s)"
  using assms(3)
proof (rule call_api_wire)
  fix req'
  assume wire: "ss_wire (call_api req s) = ss_wire s @ [(Call (ss_calls s), req')]"
    and same: "cx_method req' = cx_method req" "cx_url req' = cx_url req"
    and cred: "(get_header ''Authorization'' req', get_header ''X-Org-ID'' req') =
       (if isAuthUrl req then (None, None) else credentials s)"
    and key: "get_header ''Idempotency-Key'' req' =
       (if cx_method req \<in> set MUTATING then Some (kl_random s (kl_drawn s)) else None)"
    and drawn: "kl_drawn (call_api req s) = (if cx_method req \<in> set MUTATING then Suc (kl_drawn s) else kl_drawn s)"
  have keys: "wire_keys (call_api req s) = wire_keys s @ (case get_header ''Idempotency-Key'' req' of None \<Rightarrow> [] | Some k \<Rightarrow> [k])"
    by (simp add: wire_keys_def wire map_filter_def split: option.split)
  have rnd: "kl_random (call_api req s) = random"
    using assms(1) by (simp add: call_defs wire_ok_def)
  have "well_addressed req'"
    using cred key same by (auto simp: well_addressed_def isAuthUrl_def)
  moreover have "random (kl_drawn s) \<notin> random ` {..<kl_drawn s}"
    using assms(2) by (auto dest: injD)
  ultimately show ?thesis
    using assms(1) rnd unfolding wire_ok_def wire keys drawn key by (auto simp: less_Suc_eq)
qed

lemma wire_ok_step:
  assumes "session_step s s'" "wire_ok random s" "inj random" "bookkeeping s"
  shows "wire_ok random s'"
  using assms(1)
proof (cases rule: session_step_kinds)
  case service
  with assms(2) show ?thesis by (metis calls_ofD wire_ok_cong)
next
  case (call req)
  with assms show ?thesis by (simp add: wire_ok_call)
next
  case (reply i f r)
  with assms(2) show ?thesis
    by (simp add: call_defs split: http_reply.split flight.split) (auto simp: wire_ok_def wire_keys_def)
next
  case (token i req)
  with assms(4) show ?thesis by (auto simp: bookkeeping_def)
qed

text \<open>Whatever the components and the server do, the client never sends its token or the identifier
  of its organization to a URL of the list of authentication endpoints, it sends an idempotency key with
  the mutating requests and only with them, and no two requests carry the same key (given that
  \<^verbatim>\<open>crypto.randomUUID\<close> does not repeat).\<close>

theorem wire_headers:
  assumes "inj random" and "session_steps (new_session ls random) s"
  shows "list_all (\<lambda>e. well_addressed (snd e)) (ss_wire s) \<and> distinct (wire_keys s)"
proof -
  have "wire_ok random s \<and> bookkeeping s"
    using assms(2)
  proof (induction rule: rtranclp_induct)
    case base
    show ?case by (simp add: bookkeeping_new) (simp add: wire_ok_def wire_keys_def new_session_def map_filter_def)
  next
    case (step t s)
    then show ?case using assms(1) wire_ok_step bookkeeping_step by blast
  qed
  then show ?thesis by (simp add: wire_ok_def)
qed

lemma inj_show_nat: "inj show_nat"
  by (simp add: inj_def)

theorem wire_headers_witness:
  "distinct (wire_keys (call_api (http_call ''POST'' ''/api/v1/orgs/o/tasks'' JNull) ex_session))"
proof -
  have "session_steps (new_session (setAccessToken ''expired'' Map.empty) show_nat)
      (call_api (http_call ''POST'' ''/api/v1/orgs/o/tasks'' JNull) ex_session)"
    unfolding ex_session_def by (intro steps_called rtranclp.rtrancl_refl) (simp_all add: http_call_def)
  from wire_headers [OF inj_show_nat this] show ?thesis by blast
qed

section \<open>Changing the user\<close>

text \<open>
  \<^verbatim>\<open>logout()\<close> forgets the user and the tokens and nothing else.  When another user logs in in the
  same tab, the organization of the first is still the active one: the guard of the application lets the
  new user in without loading his organizations, and his requests name the other's organization.
\<close>

theorem next_user_inherits_organization:
  assumes "kl_activeOrg s = Some org" "cg_id org \<noteq> ''''" "\<not> js_truthy (json_field ''mfa_required'' data)"
  defines "t \<equiv> snd (login_next data (logout_client s))"
  shows "getAccessToken (kl_storage (logout_client s)) = None \<and> \<not> isLoggedIn (logout_client s)"
    and "orgGuard reply t = (True, t)" and "snd (credentials t) = Some (cg_id org)"
  using assms
  by (simp_all add: login_next_def logout_client_def navigate_def store_session_def orgGuard_def
      activeOrgId_def credentials_def present_def isLoggedIn_def js_truthy_def)

text \<open>The shell of the application opens for a logged-in user with an organization only.\<close>

theorem shell_opens_with_organization:
  assumes "fst (authGuard s)" "fst (orgGuard reply s)" "list_all (\<lambda>d. od_id d \<noteq> '''') (case reply of Inr ds \<Rightarrow> ds | Inl _ \<Rightarrow> [])"
  shows "isLoggedIn s \<and> truthy (activeOrgId (snd (orgGuard reply s)))"
  using assms
  by (auto simp: authGuard_def orgGuard_def loadUserOrgs_next_def setOrg_def activeOrgId_def toOrg_def
      Let_def split: if_splits sum.splits list.splits)

end
