(* ===== verification/Client_Services.thy ===== *)
theory Client_Services
  imports Client Task_Repository
begin

text \<open>
  The services of the client that hold what the user sees: \<^verbatim>\<open>TaskService\<close>, \<^verbatim>\<open>WorkspaceService\<close>,
  \<^verbatim>\<open>ChannelService\<close>, \<^verbatim>\<open>MessageService\<close>, \<^verbatim>\<open>NotificationService\<close>, \<^verbatim>\<open>UserService\<close>,
  \<^verbatim>\<open>ThemeService\<close> and \<^verbatim>\<open>SocketService\<close>.  A method that
  waits for a reply is split there: \<^verbatim>\<open>_request\<close> or \<^verbatim>\<open>_start\<close> is what runs at the call, \<^verbatim>\<open>_next\<close> and
  \<^verbatim>\<open>_error\<close> are the operators that run on the reply.  \<open>None\<close> in place of a request is the observable
  \<^verbatim>\<open>EMPTY\<close>.
\<close>

section \<open>What the client keeps of the server's rows\<close>

record c_task =
  tk_id :: uuid
  tk_orgId :: uuid
  tk_workspaceId :: uuid
  tk_title :: string
  tk_description :: json
  tk_status :: task_status
  tk_priority :: priority
  tk_assigneeIds :: "uuid list"
  tk_dueDate :: "string option"
  tk_version :: int
  tk_createdAt :: string
  tk_updatedAt :: string

text \<open>\<^verbatim>\<open>assignee_ids\<close> may be absent.\<close>

record task_dto =
  tq_id :: uuid
  tq_org_id :: uuid
  tq_workspace_id :: uuid
  tq_title :: string
  tq_description :: json
  tq_status :: task_status
  tq_priority :: priority
  tq_assignee_ids :: "uuid list option"
  tq_due_date :: "string option"
  tq_version :: int
  tq_created_at :: string
  tq_updated_at :: string

definition toTask :: "task_dto \<Rightarrow> c_task" where
  "toTask dto = \<lparr>tk_id = tq_id dto, tk_orgId = tq_org_id dto, tk_workspaceId = tq_workspace_id dto,
     tk_title = tq_title dto, tk_description = tq_description dto, tk_status = tq_status dto,
     tk_priority = tq_priority dto,
     tk_assigneeIds = (case tq_assignee_ids dto of None \<Rightarrow> [] | Some us \<Rightarrow> us),
     tk_dueDate = tq_due_date dto, tk_version = tq_version dto, tk_createdAt = tq_created_at dto,
     tk_updatedAt = tq_updated_at dto\<rparr>"

datatype c_ws_status = WsActive | WsArchived

record c_workspace =
  wk_id :: uuid
  wk_orgId :: uuid
  wk_name :: string
  wk_description :: "string option"
  wk_status :: c_ws_status
  wk_ownerUserId :: uuid
  wk_version :: int
  wk_createdAt :: string
  wk_updatedAt :: string

record workspace_dto =
  wd_id :: uuid
  wd_org_id :: uuid
  wd_name :: string
  wd_description :: "string option"
  wd_status :: c_ws_status
  wd_owner_user_id :: uuid
  wd_version :: int
  wd_created_at :: string
  wd_updated_at :: string

definition toWorkspace :: "workspace_dto \<Rightarrow> c_workspace" where
  "toWorkspace dto = \<lparr>wk_id = wd_id dto, wk_orgId = wd_org_id dto, wk_name = wd_name dto,
     wk_description = wd_description dto, wk_status = wd_status dto, wk_ownerUserId = wd_owner_user_id dto,
     wk_version = wd_version dto, wk_createdAt = wd_created_at dto, wk_updatedAt = wd_updated_at dto\<rparr>"

datatype c_channel_type = DirectType | GroupType

record c_channel =
  cc_id :: uuid
  cc_orgId :: uuid
  cc_workspaceId :: "uuid option"
  cc_type :: c_channel_type
  cc_name :: "string option"
  cc_createdAt :: string

record channel_dto =
  hd_id :: uuid
  hd_org_id :: uuid
  hd_workspace_id :: "uuid option"
  hd_type :: c_channel_type
  hd_name :: "string option"
  hd_created_at :: string

definition toChannel :: "channel_dto \<Rightarrow> c_channel" where
  "toChannel dto = \<lparr>cc_id = hd_id dto, cc_orgId = hd_org_id dto, cc_workspaceId = hd_workspace_id dto,
     cc_type = hd_type dto, cc_name = hd_name dto, cc_createdAt = hd_created_at dto\<rparr>"

record c_message =
  mg_id :: uuid
  mg_channelId :: uuid
  mg_senderUserId :: uuid
  mg_body :: string
  mg_clientMessageId :: string
  mg_createdAt :: string
  mg_attachments :: "uuid list"

record message_dto =
  md_id :: uuid
  md_channel_id :: uuid
  md_sender_user_id :: uuid
  md_body :: string
  md_client_message_id :: string
  md_created_at :: string
  md_attachments :: "uuid list option"

definition toMessage :: "message_dto \<Rightarrow> c_message" where
  "toMessage dto = \<lparr>mg_id = md_id dto, mg_channelId = md_channel_id dto,
     mg_senderUserId = md_sender_user_id dto, mg_body = md_body dto,
     mg_clientMessageId = md_client_message_id dto, mg_createdAt = md_created_at dto,
     mg_attachments = (case md_attachments dto of None \<Rightarrow> [] | Some as \<Rightarrow> as)\<rparr>"

record c_comment =
  ck_id :: uuid
  ck_taskId :: uuid
  ck_authorUserId :: uuid
  ck_body :: json
  ck_createdAt :: string

record comment_dto =
  kd_id :: uuid
  kd_task_id :: uuid
  kd_author_user_id :: uuid
  kd_body :: json
  kd_created_at :: string

definition toComment :: "comment_dto \<Rightarrow> c_comment" where
  "toComment dto = \<lparr>ck_id = kd_id dto, ck_taskId = kd_task_id dto, ck_authorUserId = kd_author_user_id dto,
     ck_body = kd_body dto, ck_createdAt = kd_created_at dto\<rparr>"

record c_notification =
  cn_id :: uuid
  cn_orgId :: uuid
  cn_userId :: uuid
  cn_type :: string
  cn_entityType :: string
  cn_entityId :: uuid
  cn_actorId :: uuid
  cn_payload :: json
  cn_isRead :: bool
  cn_readAt :: "string option"
  cn_createdAt :: string

record notification_dto =
  nd_id :: uuid
  nd_org_id :: uuid
  nd_user_id :: uuid
  nd_type :: string
  nd_entity_type :: string
  nd_entity_id :: uuid
  nd_actor_id :: uuid
  nd_payload :: json
  nd_is_read :: bool
  nd_read_at :: "string option"
  nd_created_at :: string

definition toNotification :: "notification_dto \<Rightarrow> c_notification" where
  "toNotification dto = \<lparr>cn_id = nd_id dto, cn_orgId = nd_org_id dto, cn_userId = nd_user_id dto,
     cn_type = nd_type dto, cn_entityType = nd_entity_type dto, cn_entityId = nd_entity_id dto,
     cn_actorId = nd_actor_id dto, cn_payload = nd_payload dto, cn_isRead = nd_is_read dto,
     cn_readAt = nd_read_at dto, cn_createdAt = nd_created_at dto\<rparr>"

section \<open>The state\<close>

record app = client +
  vw_tasks :: "c_task list"
  vw_tasks_loading :: bool
  vw_workspaces :: "c_workspace list"
  vw_ws_loading :: bool
  vw_activeWorkspace :: "c_workspace option"
  vw_channels :: "c_channel list"
  vw_ch_loading :: bool
  vw_messages :: "c_message list"
  vw_sending :: bool
  vw_notifications :: "c_notification list"
  vw_unreadCount :: int
  vw_notif_loading :: bool

text \<open>The organization in the path of a request; \<^verbatim>\<open>null\<close> prints as such.\<close>

definition org_path :: "'a client_scheme \<Rightarrow> string \<Rightarrow> string" where
  "org_path s rest =
     ''/api/v1/orgs/'' @ (case activeOrgId s of None \<Rightarrow> ''null'' | Some i \<Rightarrow> i) @ rest"

definition api_get :: "'a client_scheme \<Rightarrow> string \<Rightarrow> c_request" where
  "api_get s rest = http_call ''GET'' (org_path s rest) JNull"

section \<open>Tasks\<close>

fun status_str :: "task_status \<Rightarrow> string" where
  "status_str Todo = ''todo''"
| "status_str InProgress = ''in_progress''"
| "status_str InReview = ''in_review''"
| "status_str Done = ''done''"
| "status_str Cancelled = ''cancelled''"

fun priority_str :: "priority \<Rightarrow> string" where
  "priority_str Low = ''low''"
| "priority_str Medium = ''medium''"
| "priority_str High = ''high''"
| "priority_str Urgent = ''urgent''"

definition tasks_load_start :: "uuid \<Rightarrow> 'a app_scheme \<Rightarrow> c_request option \<times> 'a app_scheme" where
  "tasks_load_start workspaceId s =
     (if \<not> truthy (activeOrgId s) then (None, s)
      else (Some (api_get s (''/tasks?workspace_id='' @ workspaceId)), s\<lparr>vw_tasks_loading := True\<rparr>))"

definition tasks_load_next :: "task_dto list \<Rightarrow> 'a app_scheme \<Rightarrow> c_task list \<times> 'a app_scheme" where
  "tasks_load_next dtos s =
     (let tasks = map toTask dtos in (tasks, s\<lparr>vw_tasks := tasks, vw_tasks_loading := False\<rparr>))"

definition tasks_load_error :: "'a app_scheme \<Rightarrow> 'a app_scheme" where
  "tasks_load_error s = s\<lparr>vw_tasks_loading := False\<rparr>"

definition task_create_request ::
    "uuid \<Rightarrow> string \<Rightarrow> priority option \<Rightarrow> string option \<Rightarrow> 'a app_scheme \<Rightarrow> c_request" where
  "task_create_request workspaceId title prio dueDate s =
     http_call ''POST'' (org_path s ''/tasks'')
       (JObj [(''workspace_id'', JStr workspaceId), (''title'', JStr title),
         (''priority'', JStr (priority_str (case prio of None \<Rightarrow> Medium | Some p \<Rightarrow> p))),
         (''due_date'', json_opt dueDate), (''assignee_ids'', JArr [])])"

definition task_create_next :: "task_dto \<Rightarrow> 'a app_scheme \<Rightarrow> c_task \<times> 'a app_scheme" where
  "task_create_next dto s = (let task = toTask dto in (task, s\<lparr>vw_tasks := vw_tasks s @ [task]\<rparr>))"

definition addComment_request :: "uuid \<Rightarrow> (string \<times> json) list \<Rightarrow> uuid list \<Rightarrow> 'a app_scheme \<Rightarrow> c_request" where
  "addComment_request taskId body attachments s =
     http_call ''POST'' (org_path s (''/tasks/'' @ taskId @ ''/comments''))
       (JObj [(''body'', JObj (filter (\<lambda>m. fst m \<noteq> ''attachments'') body @
                 [(''attachments'', JArr (map JStr attachments))]))])"

definition set_status :: "uuid \<Rightarrow> task_status \<Rightarrow> c_task list \<Rightarrow> c_task list" where
  "set_status taskId st = map (\<lambda>t. if tk_id t = taskId then t\<lparr>tk_status := st\<rparr> else t)"

definition put_task :: "uuid \<Rightarrow> c_task \<Rightarrow> c_task list \<Rightarrow> c_task list" where
  "put_task taskId updated = map (\<lambda>t. if tk_id t = taskId then updated else t)"

definition updateStatus_start ::
    "uuid \<Rightarrow> task_status \<Rightarrow> int \<Rightarrow> 'a app_scheme \<Rightarrow> (c_task list \<times> c_request) \<times> 'a app_scheme" where
  "updateStatus_start taskId st version s =
     ((vw_tasks s, http_call ''PATCH'' (org_path s (''/tasks/'' @ taskId))
        (JObj [(''status'', JStr (status_str st)), (''version'', JNum version)])),
      s\<lparr>vw_tasks := set_status taskId st (vw_tasks s)\<rparr>)"

definition updateStatus_next :: "uuid \<Rightarrow> task_dto \<Rightarrow> 'a app_scheme \<Rightarrow> c_task \<times> 'a app_scheme" where
  "updateStatus_next taskId dto s =
     (let updated = toTask dto in (updated, s\<lparr>vw_tasks := put_task taskId updated (vw_tasks s)\<rparr>))"

definition updateStatus_error :: "c_task list \<Rightarrow> 'a app_scheme \<Rightarrow> 'a app_scheme" where
  "updateStatus_error snapshot s = s\<lparr>vw_tasks := snapshot\<rparr>"

section \<open>Workspaces\<close>

definition ws_load_start :: "'a app_scheme \<Rightarrow> c_request option \<times> 'a app_scheme" where
  "ws_load_start s =
     (if \<not> truthy (activeOrgId s) then (None, s)
      else (Some (api_get s ''/workspaces''), s\<lparr>vw_ws_loading := True\<rparr>))"

definition ws_load_next :: "workspace_dto list \<Rightarrow> 'a app_scheme \<Rightarrow> c_workspace list \<times> 'a app_scheme" where
  "ws_load_next dtos s =
     (let ws = map toWorkspace dtos in (ws, s\<lparr>vw_workspaces := ws, vw_ws_loading := False\<rparr>))"

definition ws_load_error :: "'a app_scheme \<Rightarrow> 'a app_scheme" where
  "ws_load_error s = s\<lparr>vw_ws_loading := False\<rparr>"

definition find_ws :: "uuid \<Rightarrow> c_workspace list \<Rightarrow> c_workspace option" where
  "find_ws i = List.find (\<lambda>w. wk_id w = i)"

text \<open>\<^verbatim>\<open>loadOne\<close>: \<open>Inl\<close> the workspace from the cache, or \<open>Inr\<close> what \<^verbatim>\<open>load()\<close> asks for.\<close>

definition loadOne_start :: "uuid \<Rightarrow> 'a app_scheme \<Rightarrow> (c_workspace + c_request option) \<times> 'a app_scheme" where
  "loadOne_start i s =
     (case find_ws i (vw_workspaces s) of
        Some w \<Rightarrow> (Inl w, s\<lparr>vw_activeWorkspace := Some w\<rparr>)
      | None \<Rightarrow> (let (req, s1) = ws_load_start s in (Inr req, s1)))"

definition loadOne_next :: "uuid \<Rightarrow> workspace_dto list \<Rightarrow> 'a app_scheme \<Rightarrow> (client_error + c_workspace) \<times> 'a app_scheme" where
  "loadOne_next i dtos s =
     (let s1 = snd (ws_load_next dtos s)
      in case find_ws i (vw_workspaces s1) of
           None \<Rightarrow> (Inl (JsFailed ''not found''), s1)
         | Some w \<Rightarrow> (Inr w, s1\<lparr>vw_activeWorkspace := Some w\<rparr>))"

definition ws_create_request :: "string \<Rightarrow> string option \<Rightarrow> 'a app_scheme \<Rightarrow> c_request" where
  "ws_create_request name description s =
     http_call ''POST'' (org_path s ''/workspaces'')
       (obj [(''name'', Some (JStr name)), (''description'', map_option JStr description)])"

definition ws_create_next :: "workspace_dto \<Rightarrow> 'a app_scheme \<Rightarrow> c_workspace \<times> 'a app_scheme" where
  "ws_create_next dto s = (let w = toWorkspace dto in (w, s\<lparr>vw_workspaces := vw_workspaces s @ [w]\<rparr>))"

section \<open>Channels and messages\<close>

definition channels_load_start :: "uuid \<Rightarrow> 'a app_scheme \<Rightarrow> c_request option \<times> 'a app_scheme" where
  "channels_load_start workspaceId s =
     (if \<not> truthy (activeOrgId s) then (None, s)
      else (Some (api_get s (''/channels?workspace_id='' @ workspaceId)), s\<lparr>vw_ch_loading := True\<rparr>))"

definition channels_load_next :: "channel_dto list \<Rightarrow> 'a app_scheme \<Rightarrow> c_channel list \<times> 'a app_scheme" where
  "channels_load_next dtos s =
     (let ch = map toChannel dtos in (ch, s\<lparr>vw_channels := ch, vw_ch_loading := False\<rparr>))"

definition channels_load_error :: "'a app_scheme \<Rightarrow> 'a app_scheme" where
  "channels_load_error s = s\<lparr>vw_ch_loading := False\<rparr>"

definition channel_create_request :: "string \<Rightarrow> uuid \<Rightarrow> 'a app_scheme \<Rightarrow> c_request" where
  "channel_create_request name workspaceId s =
     http_call ''POST'' (org_path s ''/channels/workspace'')
       (JObj [(''name'', JStr name), (''workspace_id'', JStr workspaceId)])"

definition channel_create_next :: "channel_dto \<Rightarrow> 'a app_scheme \<Rightarrow> c_channel \<times> 'a app_scheme" where
  "channel_create_next dto s = (let ch = toChannel dto in (ch, s\<lparr>vw_channels := vw_channels s @ [ch]\<rparr>))"

definition messages_load_request :: "uuid \<Rightarrow> 'a app_scheme \<Rightarrow> c_request option" where
  "messages_load_request channelId s =
     (if \<not> truthy (activeOrgId s) then None
      else Some (api_get s (''/channels/'' @ channelId @ ''/messages?limit=50'')))"

definition messages_load_next :: "message_dto list \<Rightarrow> 'a app_scheme \<Rightarrow> c_message list \<times> 'a app_scheme" where
  "messages_load_next dtos s = (let msgs = map toMessage dtos in (msgs, s\<lparr>vw_messages := msgs\<rparr>))"

definition send_start :: "uuid \<Rightarrow> string \<Rightarrow> uuid list \<Rightarrow> 'a app_scheme \<Rightarrow> c_request \<times> 'a app_scheme" where
  "send_start channelId body attachments s =
     (let (key, s1) = randomUUID (s\<lparr>vw_sending := True\<rparr>)
      in (http_call ''POST'' (org_path s (''/channels/'' @ channelId @ ''/messages''))
            (JObj [(''body'', JStr body), (''client_message_id'', JStr key),
               (''attachments'', JArr (map JStr attachments))]), s1))"

definition send_next :: "message_dto \<Rightarrow> 'a app_scheme \<Rightarrow> c_message \<times> 'a app_scheme" where
  "send_next dto s = (toMessage dto, s\<lparr>vw_sending := False\<rparr>)"

definition send_error :: "'a app_scheme \<Rightarrow> 'a app_scheme" where
  "send_error s = s\<lparr>vw_sending := False\<rparr>"

text \<open>The handler of a message that arrives on the socket while a channel is subscribed.\<close>

definition CHAT_EVENT :: string where "CHAT_EVENT = ''chat:message''"

definition message_arrived :: "uuid \<Rightarrow> message_dto \<Rightarrow> 'a app_scheme \<Rightarrow> 'a app_scheme" where
  "message_arrived channelId dto s =
     (if md_channel_id dto \<noteq> channelId then s
      else (let incoming = toMessage dto
            in if list_ex (\<lambda>m. mg_id m = mg_id incoming) (vw_messages s) then s
               else s\<lparr>vw_messages := vw_messages s @ [incoming]\<rparr>))"

section \<open>Notifications\<close>

definition unread :: "c_notification list \<Rightarrow> int" where
  "unread ns = int (length (filter (\<lambda>n. \<not> cn_isRead n) ns))"

definition notifs_load_start :: "nat \<Rightarrow> 'a app_scheme \<Rightarrow> c_request option \<times> 'a app_scheme" where
  "notifs_load_start limit s =
     (if \<not> truthy (activeOrgId s) then (None, s)
      else (Some (api_get s (''/notifications?limit='' @ show_nat limit)), s\<lparr>vw_notif_loading := True\<rparr>))"

definition notifs_load_next :: "notification_dto list \<Rightarrow> 'a app_scheme \<Rightarrow> c_notification list \<times> 'a app_scheme" where
  "notifs_load_next dtos s =
     (let items = map toNotification dtos
      in (items, s\<lparr>vw_notifications := items, vw_unreadCount := unread items, vw_notif_loading := False\<rparr>))"

definition notifs_load_error :: "'a app_scheme \<Rightarrow> 'a app_scheme" where
  "notifs_load_error s = s\<lparr>vw_notif_loading := False\<rparr>"

definition markRead_start :: "uuid \<Rightarrow> 'a app_scheme \<Rightarrow> (c_notification list \<times> c_request) \<times> 'a app_scheme" where
  "markRead_start i s =
     (let ns = map (\<lambda>n. if cn_id n = i then n\<lparr>cn_isRead := True\<rparr> else n) (vw_notifications s)
      in ((vw_notifications s, http_call ''PATCH'' (org_path s (''/notifications/'' @ i @ ''/read'')) (JObj [])),
          s\<lparr>vw_notifications := ns, vw_unreadCount := unread ns\<rparr>))"

definition markAllRead_start :: "'a app_scheme \<Rightarrow> (c_notification list \<times> c_request) \<times> 'a app_scheme" where
  "markAllRead_start s =
     ((vw_notifications s, http_call ''POST'' (org_path s ''/notifications/read-all'') (JObj [])),
      s\<lparr>vw_notifications := map (\<lambda>n. n\<lparr>cn_isRead := True\<rparr>) (vw_notifications s), vw_unreadCount := 0\<rparr>)"

text \<open>Both restore the list they found.\<close>

definition mark_error :: "c_notification list \<Rightarrow> 'a app_scheme \<Rightarrow> 'a app_scheme" where
  "mark_error snapshot s = s\<lparr>vw_notifications := snapshot, vw_unreadCount := unread snapshot\<rparr>"

definition notification_arrived :: "notification_dto \<Rightarrow> 'a app_scheme \<Rightarrow> 'a app_scheme" where
  "notification_arrived dto s =
     s\<lparr>vw_notifications := toNotification dto # vw_notifications s, vw_unreadCount := vw_unreadCount s + 1\<rparr>"

section \<open>The panel and the list of tasks\<close>

datatype tab = AllTab | UnreadTab | MentionsTab

definition MENTION_TYPES :: "string list" where
  "MENTION_TYPES = [''task.mentioned'', ''chat.mention'', ''comment.mentioned'']"

definition panel_unreadCount :: "'a app_scheme \<Rightarrow> int" where
  "panel_unreadCount s = unread (vw_notifications s)"

definition filtered :: "tab \<Rightarrow> 'a app_scheme \<Rightarrow> c_notification list" where
  "filtered tb s =
     (case tb of
        UnreadTab \<Rightarrow> filter (\<lambda>n. \<not> cn_isRead n) (vw_notifications s)
      | MentionsTab \<Rightarrow> filter (\<lambda>n. cn_type n \<in> set MENTION_TYPES) (vw_notifications s)
      | AllTab \<Rightarrow> vw_notifications s)"

definition STATUS_GROUPS :: "(task_status \<times> string) list" where
  "STATUS_GROUPS = [(Todo, ''Todo''), (InProgress, ''In Progress''), (InReview, ''In Review''),
     (Done, ''Done''), (Cancelled, ''Cancelled'')]"

definition tasksForStatus :: "task_status \<Rightarrow> 'a app_scheme \<Rightarrow> c_task list" where
  "tasksForStatus st s = filter (\<lambda>t. tk_status t = st) (vw_tasks s)"

end
