(* ===== verification/Client_Properties.thy ===== *)
theory Client_Properties
  imports Client_Services "HOL-Library.Multiset"
begin

text \<open>
  Properties of the client's services under every interleaving of user actions, replies and messages
  of the socket.  Optimistic updates (\<^verbatim>\<open>TaskService.updateStatus\<close>, \<^verbatim>\<open>NotificationService.markRead\<close>)
  share a contract, the locale \<open>optimistic\<close>.
\<close>

section \<open>Optimistic updates\<close>

text \<open>
  An operation that changes one item on the screen at once, keeps the list it found, and puts that list
  back when its request fails.
\<close>

locale optimistic =
  fixes view :: "'s \<Rightarrow> 'v list"
    and key :: "'v \<Rightarrow> uuid"
    and change :: "'v \<Rightarrow> 'v"
    and start :: "uuid \<Rightarrow> 's \<Rightarrow> 's"
    and rollback :: "'v list \<Rightarrow> 's \<Rightarrow> 's"
  assumes start_view: "view (start i s) = map (\<lambda>x. if key x = i then change x else x) (view s)"
    and rollback_view: "view (rollback xs s) = xs"
    and change_key: "key (change x) = key x"
begin

lemma same_keys: "map key (view (start i s)) = map key (view s)"
  by (simp add: start_view change_key)

lemma shown_at_once: "x \<in> set (view s) \<Longrightarrow> key x = i \<Longrightarrow> change x \<in> set (view (start i s))"
  by (force simp: start_view)

lemma others_unchanged:
  assumes "key x \<noteq> i"
  shows "x \<in> set (view (start i s)) \<longleftrightarrow> x \<in> set (view s)"
  using assms by (auto simp: start_view change_key image_iff split: if_splits)

lemma failure_undoes: "view (rollback (view s) (start i s)) = view s"
  by (rule rollback_view)

lemma failure_undoes_the_rest: "view (rollback (view s) (f (start i s))) = view s"
  by (rule rollback_view)

end

interpretation task_status_update: optimistic
  vw_tasks tk_id "\<lambda>t. t\<lparr>tk_status := st\<rparr>" "\<lambda>i s. snd (updateStatus_start i st version s)" updateStatus_error
  by unfold_locales (simp_all add: updateStatus_start_def updateStatus_error_def set_status_def)

interpretation notification_read: optimistic
  vw_notifications cn_id "\<lambda>n. n\<lparr>cn_isRead := True\<rparr>" "\<lambda>i s. snd (markRead_start i s)" mark_error
  by unfold_locales (simp_all add: markRead_start_def mark_error_def Let_def)

text \<open>A change of status that succeeds shows the row the server returned, and nothing else changes; one
  that fails leaves the tasks as they were.\<close>

theorem status_change:
  assumes "updateStatus_start i st version s = ((snapshot, req), s1)"
  shows "vw_tasks (updateStatus_error snapshot s1) = vw_tasks s"
    and "vw_tasks (snd (updateStatus_next i dto s1)) = map (\<lambda>t. if tk_id t = i then toTask dto else t) (vw_tasks s)"
    and "cx_body req = JObj [(''status'', JStr (status_str st)), (''version'', JNum version)]"
  using assms
  by (auto simp: updateStatus_start_def updateStatus_error_def updateStatus_next_def set_status_def put_task_def
      Let_def http_call_def)

text \<open>When two changes of different tasks overlap and the first fails, the second disappears from the
  screen although the server confirmed it: the list put back is the one from before both.\<close>

theorem confirmed_change_lost:
  assumes "updateStatus_start i st v s = ((snapshot, req), s1)"
    and "s2 = snd (updateStatus_next j dto (snd (updateStatus_start j st' v' s1)))"
  shows "vw_tasks (updateStatus_error snapshot s2) = vw_tasks s"
  using assms(1) by (simp add: updateStatus_start_def task_status_update.rollback_view)

section \<open>The board\<close>

text \<open>Every task the client holds is shown in exactly one group of the list: the groups, in the
  order of \<^verbatim>\<open>STATUS_GROUPS\<close>, are together a permutation of the tasks.\<close>

theorem board_shows_each_task_once:
  "mset (concat (map (\<lambda>g. tasksForStatus (fst g) s) STATUS_GROUPS)) = mset (vw_tasks s)"
proof -
  have "mset (filter (\<lambda>t. tk_status t = Todo) ts) + (mset (filter (\<lambda>t. tk_status t = InProgress) ts) +
      (mset (filter (\<lambda>t. tk_status t = InReview) ts) + (mset (filter (\<lambda>t. tk_status t = Done) ts) +
       mset (filter (\<lambda>t. tk_status t = Cancelled) ts)))) = mset ts" for ts :: "c_task list"
  proof (induction ts)
    case (Cons t ts)
    then show ?case by (cases "tk_status t") auto
  qed simp
  then show ?thesis by (simp add: STATUS_GROUPS_def tasksForStatus_def)
qed

section \<open>Events\<close>

text \<open>
  The open requests are kept with what their handlers remember: the snapshots of \<^verbatim>\<open>markRead\<close> and
  \<^verbatim>\<open>markAllRead\<close>, the task and the snapshot of \<^verbatim>\<open>updateStatus\<close>, the channel whose messages are
  subscribed.  Replies come in any order.
\<close>

record app_run = app +
  ar_marks :: "c_notification list list"
  ar_updates :: "(uuid \<times> c_task list) list"
  ar_channel :: "uuid option"

text \<open>
  The server sends a notification when it is created, unread, and lists messages with distinct
  identifiers.
\<close>

inductive app_step :: "app_run \<Rightarrow> app_run \<Rightarrow> bool" where
  tasks_asked: "app_step s (snd (tasks_load_start w s))"
| tasks_loaded: "app_step s (snd (tasks_load_next ts s))"
| tasks_failed: "app_step s (tasks_load_error s)"
| task_created: "app_step s (snd (task_create_next t s))"
| status_changed: "updateStatus_start i st v s = ((snap, req), s1) \<Longrightarrow>
    app_step s (s1\<lparr>ar_updates := (i, snap) # ar_updates s1\<rparr>)"
| status_confirmed: "(i, snap) \<in> set (ar_updates s) \<Longrightarrow>
    app_step s ((snd (updateStatus_next i t s))\<lparr>ar_updates := remove1 (i, snap) (ar_updates s)\<rparr>)"
| status_refused: "(i, snap) \<in> set (ar_updates s) \<Longrightarrow>
    app_step s ((updateStatus_error snap s)\<lparr>ar_updates := remove1 (i, snap) (ar_updates s)\<rparr>)"
| workspaces_asked: "app_step s (snd (ws_load_start s))"
| workspaces_loaded: "app_step s (snd (ws_load_next ws s))"
| workspaces_failed: "app_step s (ws_load_error s)"
| workspace_opened: "app_step s (snd (loadOne_start i s))"
| workspace_found: "app_step s (snd (loadOne_next i ws s))"
| workspace_created: "app_step s (snd (ws_create_next w s))"
| channels_asked: "app_step s (snd (channels_load_start w s))"
| channels_loaded: "app_step s (snd (channels_load_next cs s))"
| channels_failed: "app_step s (channels_load_error s)"
| channel_created: "app_step s (snd (channel_create_next c s))"
| channel_entered: "app_step s (s\<lparr>ar_channel := Some c\<rparr>)"
| channel_left: "app_step s (s\<lparr>ar_channel := None\<rparr>)"
| messages_loaded: "distinct (map md_id ms) \<Longrightarrow> app_step s (snd (messages_load_next ms s))"
| message_sent: "app_step s (snd (send_start c b as s))"
| message_confirmed: "app_step s (snd (send_next m s))"
| message_refused: "app_step s (send_error s)"
| message_received: "ar_channel s = Some c \<Longrightarrow> app_step s (message_arrived c m s)"
| notifications_asked: "app_step s (snd (notifs_load_start n s))"
| notifications_loaded: "app_step s (snd (notifs_load_next ns s))"
| notifications_failed: "app_step s (notifs_load_error s)"
| read_marked: "markRead_start i s = ((snap, req), s1) \<Longrightarrow> app_step s (s1\<lparr>ar_marks := snap # ar_marks s1\<rparr>)"
| all_marked: "markAllRead_start s = ((snap, req), s1) \<Longrightarrow> app_step s (s1\<lparr>ar_marks := snap # ar_marks s1\<rparr>)"
| mark_confirmed: "snap \<in> set (ar_marks s) \<Longrightarrow> app_step s (s\<lparr>ar_marks := remove1 snap (ar_marks s)\<rparr>)"
| mark_refused: "snap \<in> set (ar_marks s) \<Longrightarrow>
    app_step s ((mark_error snap s)\<lparr>ar_marks := remove1 snap (ar_marks s)\<rparr>)"
| notification_received: "\<not> nd_is_read n \<Longrightarrow> app_step s (notification_arrived n s)"

definition badges_agree :: "'a app_scheme \<Rightarrow> bool" where
  "badges_agree s \<longleftrightarrow> vw_unreadCount s = unread (vw_notifications s)"

definition messages_once :: "'a app_scheme \<Rightarrow> bool" where
  "messages_once s \<longleftrightarrow> distinct (map mg_id (vw_messages s))"

text \<open>The operations of the other services leave both alone.\<close>

definition shown :: "'a app_scheme \<Rightarrow> c_notification list \<times> int \<times> c_message list" where
  "shown s = (vw_notifications s, vw_unreadCount s, vw_messages s)"

lemmas task_service_defs = tasks_load_start_def tasks_load_next_def tasks_load_error_def task_create_next_def
  updateStatus_next_def updateStatus_error_def
lemmas other_service_defs = ws_load_start_def ws_load_next_def ws_load_error_def loadOne_start_def
  loadOne_next_def ws_create_next_def channels_load_start_def channels_load_next_def
  channels_load_error_def channel_create_next_def send_start_def send_next_def send_error_def
  notifs_load_start_def notifs_load_error_def randomUUID_def

lemma shown_cong: "shown s' = shown s \<Longrightarrow> (badges_agree s' \<longleftrightarrow> badges_agree s) \<and> (messages_once s' \<longleftrightarrow> messages_once s)"
  by (simp add: shown_def badges_agree_def messages_once_def)

lemma unread_Nil [simp]: "unread [] = 0"
  by (simp add: unread_def)

lemma unread_Cons [simp]: "unread (n # ns) = (if cn_isRead n then unread ns else unread ns + 1)"
  by (simp add: unread_def)

lemma unread_all_read [simp]: "unread (map (\<lambda>n. n\<lparr>cn_isRead := True\<rparr>) ns) = 0"
  by (induction ns) simp_all

lemma toMessage_id [simp]: "mg_id (toMessage m) = md_id m"
  by (simp add: toMessage_def)

lemma messages_arrived_once: "messages_once s \<Longrightarrow> messages_once (message_arrived c m s)"
  by (auto simp: messages_once_def message_arrived_def Let_def list_ex_iff image_iff)

lemma app_step_keeps:
  assumes "app_step s s'" "badges_agree s" "messages_once s"
  shows "badges_agree s' \<and> messages_once s'"
  using assms(1)
proof cases
  case (messages_loaded ms)
  with assms show ?thesis
    by (simp add: messages_load_next_def Let_def badges_agree_def messages_once_def comp_def toMessage_def)
next
  case (message_received c m)
  moreover have "badges_agree (message_arrived c m s) = badges_agree s"
    by (simp add: message_arrived_def Let_def badges_agree_def)
  ultimately show ?thesis using assms by (simp add: messages_arrived_once)
next
  case (notifications_loaded ns)
  with assms show ?thesis by (simp add: notifs_load_next_def Let_def badges_agree_def messages_once_def)
next
  case (read_marked i snap req s1)
  with assms show ?thesis by (auto simp: markRead_start_def Let_def badges_agree_def messages_once_def)
next
  case (all_marked snap req s1)
  with assms show ?thesis by (auto simp: markAllRead_start_def badges_agree_def messages_once_def)
next
  case (mark_refused snap)
  with assms show ?thesis by (simp add: mark_error_def badges_agree_def messages_once_def)
next
  case (notification_received n)
  with assms show ?thesis
    by (simp add: notification_arrived_def badges_agree_def messages_once_def toNotification_def)
next
  case (status_changed i st v snap req s1)
  then have "shown s' = shown s" by (auto simp: updateStatus_start_def shown_def)
  with assms show ?thesis using shown_cong by blast
qed (insert assms(2,3), simp_all add: task_service_defs other_service_defs badges_agree_def messages_once_def Let_def
      split: option.split)

definition fresh_app :: "app_run \<Rightarrow> bool" where
  "fresh_app s \<longleftrightarrow> vw_notifications s = [] \<and> vw_unreadCount s = 0 \<and> vw_messages s = [] \<and> ar_marks s = [] \<and>
     ar_updates s = [] \<and> ar_channel s = None"

text \<open>C37. Whatever the user does and in whatever order replies and messages arrive, failed requests and
  their rollbacks included, the number on the bell (\<^verbatim>\<open>unreadCount\<close>) is the number the panel computes,
  which is the number of entries under its tab of unread notifications, and no chat message is shown
  twice.\<close>

theorem badges_agree_always:
  assumes "fresh_app s" and "app_step\<^sup>*\<^sup>* s s'"
  shows "vw_unreadCount s' = panel_unreadCount s' \<and>
    panel_unreadCount s' = int (length (filtered UnreadTab s')) \<and> distinct (map mg_id (vw_messages s'))"
proof -
  from assms(2) have "badges_agree s' \<and> messages_once s'"
  proof (induction rule: rtranclp_induct)
    case base
    from assms(1) show ?case by (simp add: fresh_app_def badges_agree_def messages_once_def)
  next
    case (step t u)
    then show ?case using app_step_keeps by blast
  qed
  then show ?thesis
    by (simp add: badges_agree_def messages_once_def panel_unreadCount_def filtered_def unread_def)
qed

definition ex_app :: app_run where
  "ex_app = \<lparr>kl_storage = Map.empty, kl_currentUser = None, kl_isLoading = False, kl_refreshing = False,
     kl_refreshToken = None, kl_activeOrg = None, kl_userOrgs = [], kl_navigations = [],
     kl_random = (\<lambda>_. []), kl_drawn = 0, vw_tasks = [], vw_tasks_loading = False, vw_workspaces = [],
     vw_ws_loading = False, vw_activeWorkspace = None, vw_channels = [], vw_ch_loading = False,
     vw_messages = [], vw_sending = False, vw_notifications = [], vw_unreadCount = 0,
     vw_notif_loading = False, ar_marks = [], ar_updates = [], ar_channel = None\<rparr>"

definition ex_notification :: notification_dto where
  "ex_notification = \<lparr>nd_id = ''n1'', nd_org_id = ''o'', nd_user_id = ''u'', nd_type = ''chat.mention'',
     nd_entity_type = ''message'', nd_entity_id = ''m'', nd_actor_id = ''v'', nd_payload = JNull,
     nd_is_read = False, nd_read_at = None, nd_created_at = ''''\<rparr>"

theorem badges_agree_always_witness:
  "vw_unreadCount (notification_arrived ex_notification ex_app) = panel_unreadCount (notification_arrived ex_notification ex_app) \<and>
   vw_unreadCount (notification_arrived ex_notification ex_app) = 1"
proof -
  have "fresh_app ex_app" by (simp add: fresh_app_def ex_app_def)
  moreover have "app_step\<^sup>*\<^sup>* ex_app (notification_arrived ex_notification ex_app)"
    by (intro r_into_rtranclp notification_received) (simp add: ex_notification_def)
  ultimately have "vw_unreadCount (notification_arrived ex_notification ex_app) = panel_unreadCount (notification_arrived ex_notification ex_app)"
    using badges_agree_always by blast
  then show ?thesis by (simp add: notification_arrived_def ex_app_def)
qed

section \<open>The order of messages\<close>

text \<open>
  The server lists messages from the newest to the oldest, and the client shows them in that order; a
  message that arrives on the socket is put at the end, next to the oldest.
\<close>

theorem arrival_goes_to_the_old_end:
  assumes "vw_messages s = map toMessage (newest # older)" "md_channel_id m = c"
    and "md_id m \<notin> set (map md_id (newest # older))"
  shows "vw_messages (message_arrived c m s) = map toMessage (newest # older @ [m])"
  using assms by (auto simp: message_arrived_def Let_def list_ex_iff) (metis imageI)

text \<open>A reply to the request for another channel that comes late replaces the messages of the channel
  that was opened since.\<close>

theorem late_reply_shows_other_channel:
  assumes "s1 = snd (messages_load_next mine s)" "s2 = snd (messages_load_next theirs s1)"
  shows "vw_messages s2 = map toMessage theirs"
  using assms by (simp add: messages_load_next_def Let_def)

end
