(* ===== verification/Client_Upload.thy ===== *)
theory Client_Upload
  imports Client_Services File
begin

text \<open>
  The upload of files, \<^verbatim>\<open>core/services/file.service.ts\<close> and
  \<^verbatim>\<open>shared/components/file-upload\<close>: each selected file asks for a URL, is sent to the object store
  and polled until its scan is over.  \<open>phase\<close> is where the callbacks of the service stand, and each
  callback is a function from the phase to the updates it emits and the next phase; the component merges
  the updates into its list.
\<close>

section \<open>The service\<close>

datatype upload_state = UPending | UUploading | UScanning | UReady | URejected | UCancelled | UError

record c_file =
  cf_name :: string
  cf_type :: string
  cf_size :: int

record file_upload =
  fu_id :: uuid
  fu_file :: c_file
  fu_state :: upload_state
  fu_progress :: int
  fu_fileId :: "uuid option"
  fu_error :: "string option"
  fu_xhr :: bool

text \<open>A \<^verbatim>\<open>Partial<FileUpload>\<close>; the xhr is present or not.\<close>

record upload_update =
  pu_state :: "upload_state option"
  pu_progress :: "int option"
  pu_fileId :: "uuid option"
  pu_error :: "string option"
  pu_xhr :: bool

definition no_update :: upload_update where
  "no_update = \<lparr>pu_state = None, pu_progress = None, pu_fileId = None, pu_error = None, pu_xhr = False\<rparr>"

definition failed_update :: "upload_state \<Rightarrow> string \<Rightarrow> upload_update" where
  "failed_update st msg = no_update\<lparr>pu_state := Some st, pu_error := Some msg\<rparr>"

definition upload_request :: "c_file \<Rightarrow> 'a client_scheme \<Rightarrow> c_request" where
  "upload_request file s =
     http_call ''POST'' (org_path s ''/files/upload-url'')
       (JObj [(''filename'', JStr (cf_name file)),
         (''mimeType'', JStr (if cf_type file = '''' then ''application/octet-stream'' else cf_type file)),
         (''sizeBytes'', JNum (cf_size file))])"

definition poll_request :: "uuid \<Rightarrow> 'a client_scheme \<Rightarrow> c_request" where
  "poll_request fileId s = api_get s (''/files/'' @ fileId @ ''/download-url'')"

datatype phase = AskingUrl | Transferring uuid | Polling uuid | Ended

text \<open>
  The callbacks.  The error of a refused URL has passed the error interceptor, so it is an
  \<^verbatim>\<open>AppError\<close>, which has no member \<^verbatim>\<open>error\<close>, and the fallback text is taken.
  \<^verbatim>\<open>Math.round\<close> is computed exactly.
\<close>

datatype upload_event =
    UrlGranted uuid
  | UrlRefused client_error
  | Progress bool nat nat
  | Loaded nat
  | XhrError
  | XhrAborted
  | PollReplied nat
  | PollFailed nat

definition percent :: "nat \<Rightarrow> nat \<Rightarrow> int" where
  "percent loaded whole = (200 * int loaded + int whole) div (2 * int whole)"

fun on_event :: "phase \<Rightarrow> upload_event \<Rightarrow> (upload_update list \<times> phase) option" where
  "on_event AskingUrl (UrlGranted fileId) =
     Some ([no_update\<lparr>pu_state := Some UUploading, pu_progress := Some 0, pu_xhr := True\<rparr>], Transferring fileId)"
| "on_event AskingUrl (UrlRefused e) = Some ([failed_update UError ''Upload URL request failed''], Ended)"
| "on_event (Transferring fileId) (Progress computable loaded whole) =
     Some (if computable then [no_update\<lparr>pu_progress := Some (percent loaded whole)\<rparr>] else [], Transferring fileId)"
| "on_event (Transferring fileId) (Loaded status) =
     (if 200 \<le> status \<and> status < 300
      then Some ([no_update\<lparr>pu_state := Some UScanning, pu_progress := Some 100\<rparr>], Polling fileId)
      else Some ([failed_update UError (''S3 upload failed ('' @ show_nat status @ '')'')], Ended))"
| "on_event (Transferring fileId) XhrError = Some ([failed_update UError ''Network error during upload''], Ended)"
| "on_event (Transferring fileId) XhrAborted = Some ([no_update\<lparr>pu_state := Some UCancelled\<rparr>], Ended)"
| "on_event (Polling fileId) (PollReplied status) =
     (if status = 200 then Some ([no_update\<lparr>pu_state := Some UReady, pu_fileId := Some fileId\<rparr>], Ended)
      else Some ([], Polling fileId))"
| "on_event (Polling fileId) (PollFailed status) =
     Some ([if status = 422 then failed_update URejected ''File rejected by virus scan''
            else failed_update UError ''Scan check failed''], Ended)"
| "on_event _ _ = None"

section \<open>The component\<close>

definition PENDING_STATES :: "upload_state list" where
  "PENDING_STATES = [UUploading, UScanning, UError]"

record uploader =
  ul_uploads :: "file_upload list"
  ul_phases :: "uuid \<rightharpoonup> phase"
  ul_ready :: "uuid list"

definition hasPending :: "uploader \<Rightarrow> bool" where
  "hasPending u = list_ex (\<lambda>e. fu_state e \<in> set PENDING_STATES) (ul_uploads u)"

text \<open>\<^verbatim>\<open>{ ...u, ...update }\<close>.\<close>

definition merge :: "upload_update \<Rightarrow> file_upload \<Rightarrow> file_upload" where
  "merge p e = e\<lparr>fu_state := case_option (fu_state e) id (pu_state p),
     fu_progress := case_option (fu_progress e) id (pu_progress p),
     fu_fileId := (case pu_fileId p of None \<Rightarrow> fu_fileId e | Some i \<Rightarrow> Some i),
     fu_error := (case pu_error p of None \<Rightarrow> fu_error e | Some m \<Rightarrow> Some m),
     fu_xhr := (fu_xhr e \<or> pu_xhr p)\<rparr>"

definition new_upload :: "uuid \<Rightarrow> c_file \<Rightarrow> file_upload" where
  "new_upload i file = \<lparr>fu_id = i, fu_file = file, fu_state = UPending, fu_progress = 0, fu_fileId = None,
     fu_error = None, fu_xhr = False\<rparr>"

text \<open>One round of the loop of \<^verbatim>\<open>onFilesSelected\<close>; the identifier is \<^verbatim>\<open>crypto.randomUUID()\<close>.\<close>

definition select_file :: "uuid \<Rightarrow> c_file \<Rightarrow> uploader \<Rightarrow> uploader" where
  "select_file i file u =
     u\<lparr>ul_uploads := ul_uploads u @ [new_upload i file], ul_phases := (ul_phases u)(i \<mapsto> AskingUrl)\<rparr>"

definition onFilesSelected :: "(uuid \<times> c_file) list \<Rightarrow> uploader \<Rightarrow> uploader" where
  "onFilesSelected chosen u = fold (\<lambda>(i, f). select_file i f) chosen u"

text \<open>The subscriber of an upload.\<close>

definition on_update :: "uuid \<Rightarrow> upload_update \<Rightarrow> uploader \<Rightarrow> uploader" where
  "on_update i p u =
     u\<lparr>ul_uploads := map (\<lambda>e. if fu_id e = i then merge p e else e) (ul_uploads u),
       ul_ready := (case (pu_state p, pu_fileId p) of
          (Some UReady, Some f) \<Rightarrow> if f = '''' then ul_ready u else ul_ready u @ [f]
        | _ \<Rightarrow> ul_ready u)\<rparr>"

definition upload_callback :: "uuid \<Rightarrow> upload_event \<Rightarrow> uploader \<Rightarrow> uploader" where
  "upload_callback i ev u =
     (case Option.bind (ul_phases u i) (\<lambda>ph. on_event ph ev) of
        None \<Rightarrow> u
      | Some (ps, ph) \<Rightarrow> (fold (on_update i) ps u)\<lparr>ul_phases := (ul_phases u)(i \<mapsto> ph)\<rparr>)"

text \<open>\<^verbatim>\<open>xhr.abort()\<close> fires its event while the transfer runs and does nothing otherwise.\<close>

definition onCancel :: "uuid \<Rightarrow> uploader \<Rightarrow> uploader" where
  "onCancel i u =
     (case List.find (\<lambda>e. fu_id e = i) (ul_uploads u) of
        None \<Rightarrow> u
      | Some e \<Rightarrow> if fu_xhr e then upload_callback i XhrAborted u else u)"

definition onDismiss :: "uuid \<Rightarrow> uploader \<Rightarrow> uploader" where
  "onDismiss i u = u\<lparr>ul_uploads := filter (\<lambda>e. fu_id e \<noteq> i) (ul_uploads u)\<rparr>"

definition clearReady :: "uploader \<Rightarrow> uploader" where
  "clearReady u = u\<lparr>ul_uploads := filter (\<lambda>e. fu_state e \<noteq> UReady) (ul_uploads u)\<rparr>"

text \<open>The chip of an upload offers to dismiss it when it was rejected, was cancelled or failed.\<close>

definition dismissible :: "upload_state \<Rightarrow> bool" where
  "dismissible st \<longleftrightarrow> st \<in> {URejected, UCancelled, UError}"

inductive upload_step :: "uploader \<Rightarrow> uploader \<Rightarrow> bool" where
  selected: "ul_phases u i = None \<Longrightarrow> upload_step u (select_file i file u)"
| called_back: "case ev of Progress c l t \<Rightarrow> l \<le> t \<and> 0 < t | UrlGranted f \<Rightarrow> f \<noteq> '''' | _ \<Rightarrow> True \<Longrightarrow>
    upload_step u (upload_callback i ev u)"
| cancelled: "upload_step u (onCancel i u)"
| dismissed: "e \<in> set (ul_uploads u) \<Longrightarrow> dismissible (fu_state e) \<Longrightarrow> upload_step u (onDismiss (fu_id e) u)"
| cleared: "upload_step u (clearReady u)"

abbreviation no_uploads :: uploader where
  "no_uploads \<equiv> \<lparr>ul_uploads = [], ul_phases = Map.empty, ul_ready = []\<rparr>"

section \<open>Consistency of the list\<close>

text \<open>What the list shows agrees with where the callbacks stand.\<close>

fun matches :: "phase \<Rightarrow> file_upload \<Rightarrow> bool" where
  "matches AskingUrl e \<longleftrightarrow> fu_state e = UPending"
| "matches (Transferring f) e \<longleftrightarrow> fu_state e = UUploading \<and> fu_xhr e"
| "matches (Polling f) e \<longleftrightarrow> fu_state e = UScanning \<and> fu_progress e = 100"
| "matches Ended e \<longleftrightarrow> dismissible (fu_state e) \<or> fu_state e = UReady \<and> fu_fileId e \<noteq> None"

definition entry_ok :: "phase \<Rightarrow> file_upload \<Rightarrow> bool" where
  "entry_ok ph e \<longleftrightarrow> matches ph e \<and> 0 \<le> fu_progress e \<and> fu_progress e \<le> 100"

definition uploads_ok :: "uploader \<Rightarrow> bool" where
  "uploads_ok u \<longleftrightarrow> distinct (map fu_id (ul_uploads u)) \<and>
     (\<forall>e \<in> set (ul_uploads u). \<exists>ph. ul_phases u (fu_id e) = Some ph \<and> entry_ok ph e)"

definition real_event :: "upload_event \<Rightarrow> bool" where
  "real_event ev \<longleftrightarrow> (case ev of Progress c l t \<Rightarrow> l \<le> t \<and> 0 < t | UrlGranted f \<Rightarrow> f \<noteq> '''' | _ \<Rightarrow> True)"

lemma percent_bounds:
  assumes "l \<le> t" "0 < t"
  shows "0 \<le> percent l t" "percent l t \<le> 100"
proof -
  from assms(2) show "0 \<le> percent l t" by (simp add: percent_def pos_imp_zdiv_nonneg_iff)
  have "percent l t \<le> (201 * int t) div (2 * int t)"
    unfolding percent_def using assms by (intro zdiv_mono1) simp_all
  also have "(201 * int t) div (2 * int t) = 201 div 2"
    using assms(2) by (intro div_mult_mult2) simp
  finally show "percent l t \<le> 100" by simp
qed

lemma on_event_entry:
  assumes "on_event ph ev = Some (ps, ph')" "real_event ev" "entry_ok ph e"
  shows "entry_ok ph' (fold merge ps e)"
  using assms percent_bounds
  by (cases "(ph, ev)" rule: on_event.cases)
     (auto simp: entry_ok_def merge_def no_update_def failed_update_def real_event_def dismissible_def split: if_splits)

lemma merge_id [simp]: "fu_id (merge p e) = fu_id e"
  by (simp add: merge_def)

lemma fold_merge_id [simp]: "fu_id (fold merge ps e) = fu_id e"
  by (induction ps arbitrary: e) simp_all

lemma fold_on_update:
  "ul_uploads (fold (on_update i) ps u) = map (\<lambda>e. if fu_id e = i then fold merge ps e else e) (ul_uploads u)"
  by (induction ps arbitrary: u) (auto simp: on_update_def cong: if_cong)

lemma fold_merge_ids [simp]: "map (\<lambda>e. fu_id (if fu_id e = i then fold merge ps e else e)) es = map fu_id es"
  by auto

lemma fold_on_update_phases [simp]: "ul_phases (fold (on_update i) ps u) = ul_phases u"
  by (induction ps arbitrary: u) (simp_all add: on_update_def)

lemma callback_ok:
  assumes "uploads_ok u" "real_event ev"
  shows "uploads_ok (upload_callback i ev u)"
proof (cases "Option.bind (ul_phases u i) (\<lambda>ph. on_event ph ev)")
  case None
  with assms(1) show ?thesis by (simp add: upload_callback_def)
next
  case (Some r)
  obtain ps ph' where r: "r = (ps, ph')" by (cases r)
  with Some obtain ph where ph: "ul_phases u i = Some ph" "on_event ph ev = Some (ps, ph')"
    by (cases "ul_phases u i") auto
  have "uploads_ok ((fold (on_update i) ps u)\<lparr>ul_phases := (ul_phases u)(i \<mapsto> ph')\<rparr>)"
    using assms ph on_event_entry [OF ph(2) assms(2)]
    by (auto simp: uploads_ok_def fold_on_update comp_def)
  with Some r show ?thesis by (simp add: upload_callback_def)
qed

lemma uploads_ok_step: "upload_step u u' \<Longrightarrow> uploads_ok u \<Longrightarrow> uploads_ok u'"
proof (induction rule: upload_step.induct)
  case (selected u i chosen)
  then have "i \<notin> fu_id ` set (ul_uploads u)" by (auto simp: uploads_ok_def)
  with selected show ?case
    by (auto simp: uploads_ok_def select_file_def new_upload_def entry_ok_def)
next
  case (called_back ev u i)
  then show ?case by (simp add: callback_ok real_event_def)
next
  case (cancelled u i)
  then show ?case by (simp add: onCancel_def callback_ok real_event_def split: option.split)
next
  case (dismissed e u)
  then show ?case by (auto simp: uploads_ok_def onDismiss_def distinct_map_filter)
next
  case (cleared u)
  then show ?case by (auto simp: uploads_ok_def clearReady_def distinct_map_filter)
qed

text \<open>Whatever files are chosen, cancelled or dismissed and whatever the object store and the server
  reply, in whatever order, the list of uploads shows each file once, with a progress between 0 and 100
  and in the state its transfer is really in; one shown as ready has the identifier of its file.\<close>

theorem uploads_shown_as_they_are:
  assumes "upload_step\<^sup>*\<^sup>* no_uploads u"
  shows "distinct (map fu_id (ul_uploads u)) \<and>
    (\<forall>e \<in> set (ul_uploads u). \<exists>ph. ul_phases u (fu_id e) = Some ph \<and> matches ph e \<and>
       0 \<le> fu_progress e \<and> fu_progress e \<le> 100)"
proof -
  from assms have "uploads_ok u"
    by (induction rule: rtranclp_induct) (auto simp: uploads_ok_def [of no_uploads] intro: uploads_ok_step)
  then show ?thesis by (simp add: uploads_ok_def entry_ok_def)
qed

definition ex_upload :: uploader where
  "ex_upload = select_file ''c1'' \<lparr>cf_name = ''a.pdf'', cf_type = ''application/pdf'', cf_size = 10\<rparr> no_uploads"

theorem uploads_shown_as_they_are_witness:
  "distinct (map fu_id (ul_uploads ex_upload)) \<and> map fu_state (ul_uploads ex_upload) = [UPending]"
proof -
  have "upload_step\<^sup>*\<^sup>* no_uploads ex_upload"
    unfolding ex_upload_def by (intro r_into_rtranclp selected) simp
  from uploads_shown_as_they_are [OF this] show ?thesis
    by (simp add: ex_upload_def select_file_def new_upload_def)
qed

section \<open>Polling\<close>

lemma callback_phase:
  "ul_phases u i = Some ph \<Longrightarrow> on_event ph ev = Some (ps, ph') \<Longrightarrow> ul_phases (upload_callback i ev u) i = Some ph'"
  by (simp add: upload_callback_def)

text \<open>The polling goes on while the server replies that the scan is pending and ends with its first
  other reply; there is no limit on the number of polls.\<close>

theorem polling_ends_with_the_scan:
  assumes "ul_phases u i = Some (Polling f)" "final = PollReplied 200 \<or> final = PollFailed st"
  shows "ul_phases ((upload_callback i (PollReplied 202) ^^ n) u) i = Some (Polling f)"
    and "ul_phases (upload_callback i final ((upload_callback i (PollReplied 202) ^^ n) u)) i = Some Ended"
proof -
  show polling: "ul_phases ((upload_callback i (PollReplied 202) ^^ n) u) i = Some (Polling f)"
    using assms(1) by (induction n) (simp_all add: callback_phase)
  from assms(2) show "ul_phases (upload_callback i final ((upload_callback i (PollReplied 202) ^^ n) u)) i = Some Ended"
    using callback_phase [OF polling] by auto
qed

text \<open>What the download route answers to a poll.\<close>

definition download_reply :: "string option outcome \<Rightarrow> upload_event" where
  "download_reply r =
     (case r of
        Inr (Some url) \<Rightarrow> PollReplied 200
      | Inr None \<Rightarrow> PollReplied 202
      | Inl e \<Rightarrow> PollFailed (fst (errorHandlerMiddleware e)))"

lemma callback_uploads:
  assumes "ul_phases u i = Some ph" "on_event ph ev = Some (ps, ph')"
  shows "ul_uploads (upload_callback i ev u) = map (\<lambda>e. if fu_id e = i then fold merge ps e else e) (ul_uploads u)"
  using assms by (simp add: upload_callback_def fold_on_update)


definition ex_polling :: uploader where
  "ex_polling = upload_callback ''c1'' (Loaded 204) (upload_callback ''c1'' (UrlGranted ''a'') ex_upload)"

lemma ex_polling_ok: "uploads_ok ex_polling" "ul_phases ex_polling ''c1'' = Some (Polling ''a'')"
proof -
  have "uploads_ok ex_upload"
    by (simp add: ex_upload_def uploads_ok_def select_file_def new_upload_def entry_ok_def)
  then show "uploads_ok ex_polling" by (simp add: ex_polling_def callback_ok real_event_def)
  show "ul_phases ex_polling ''c1'' = Some (Polling ''a'')"
    by (simp add: ex_polling_def upload_callback_def ex_upload_def select_file_def)
qed

lemma ex_scanned_ok: "files_ok (ex_scanned None)"
  by (rule file_steps_ok [OF ex_history files_ok_initial [OF ex_file_initial]])


section \<open>Attachments still waiting for their URL\<close>

text \<open>
  A message cannot be sent while \<^verbatim>\<open>hasPending\<close> holds.  The list of states it looks for has the
  failed ones and not the first one: a failed upload blocks sending until it is dismissed, and a file
  just chosen does not, so the message goes out without it.
\<close>

theorem pending_upload_does_not_block:
  "\<not> hasPending no_uploads \<Longrightarrow> \<not> hasPending (select_file i file no_uploads)"
  by (simp add: hasPending_def select_file_def new_upload_def PENDING_STATES_def)

end
