(* ===== verification/Client_Components.thy ===== *)
theory Client_Components
  imports Client_Services Crypto
begin

text \<open>
  The remaining services of the client (\<^verbatim>\<open>UserService\<close>, \<^verbatim>\<open>ThemeService\<close>,
  \<^verbatim>\<open>PushNotificationService\<close>, \<^verbatim>\<open>SocketService\<close>) and the logic of its components: forms, the
  security and preference tabs, dialogs.  Templates are not modelled, except for the conditions under
  which they let the user act (a button that is disabled).
\<close>

section \<open>Forms\<close>

text \<open>Angular's validators: all but \<^verbatim>\<open>required\<close> accept the empty string.\<close>

definition v_required :: "string \<Rightarrow> bool" where "v_required v = (v \<noteq> '''')"
definition v_minLength :: "nat \<Rightarrow> string \<Rightarrow> bool" where "v_minLength n v = (v = '''' \<or> n \<le> length v)"
definition v_maxLength :: "nat \<Rightarrow> string \<Rightarrow> bool" where "v_maxLength n v = (length v \<le> n)"

definition all_digits :: "string \<Rightarrow> bool" where
  "all_digits v = list_all (\<lambda>c. 48 \<le> (of_char c :: nat) \<and> (of_char c :: nat) \<le> 57) v"

text \<open>
  The signals of a form: \<^verbatim>\<open>loading\<close> or \<^verbatim>\<open>saving\<close>, the one that tells success (\<^verbatim>\<open>success\<close>,
  \<^verbatim>\<open>sent\<close>, \<^verbatim>\<open>done\<close>, a dialog that closes), and \<^verbatim>\<open>error\<close>.
\<close>

record form =
  fm_busy :: bool
  fm_done :: bool
  fm_error :: "json option"

definition new_form :: form where
  "new_form = \<lparr>fm_busy = False, fm_done = False, fm_error = None\<rparr>"

text \<open>\<^verbatim>\<open>err.message ?? fallback\<close>.\<close>

definition error_text :: "app_error \<Rightarrow> string \<Rightarrow> json" where
  "error_text e fallback = the (nullish_or (Some (ae_message e)) (Some (JStr fallback)))"

definition submit_start :: "'a form_scheme \<Rightarrow> 'a form_scheme" where
  "submit_start s = s\<lparr>fm_error := None, fm_busy := True\<rparr>"

definition submit_next :: "'a form_scheme \<Rightarrow> 'a form_scheme" where
  "submit_next s = s\<lparr>fm_busy := False, fm_done := True\<rparr>"

definition submit_error :: "string \<Rightarrow> app_error \<Rightarrow> 'a form_scheme \<Rightarrow> 'a form_scheme" where
  "submit_error fallback e s = s\<lparr>fm_busy := False, fm_error := Some (error_text e fallback)\<rparr>"

subsection \<open>Login\<close>

record login_value =
  lv_email :: string
  lv_password :: string

definition login_valid :: "(string \<Rightarrow> bool) \<Rightarrow> login_value \<Rightarrow> bool" where
  "login_valid email_ok v =
     (v_required (lv_email v) \<and> email_ok (lv_email v) \<and> v_required (lv_password v) \<and> v_minLength 8 (lv_password v))"

definition login_submit :: "(string \<Rightarrow> bool) \<Rightarrow> login_value \<Rightarrow> form \<Rightarrow> c_request option \<times> form" where
  "login_submit email_ok v s =
     (if login_valid email_ok v then (Some (login_request (lv_email v) (lv_password v)), submit_start s)
      else (None, s))"

definition login_form_next :: "login_result \<Rightarrow> form \<Rightarrow> string \<times> form" where
  "login_form_next r s =
     ((case r of MfaRequired \<Rightarrow> ''/auth/mfa'' | LoggedIn u \<Rightarrow> ''/app''), s\<lparr>fm_busy := False\<rparr>)"

definition LOGIN_FAILED :: string where "LOGIN_FAILED = ''Login failed. Please try again.''"

subsection \<open>Registration, reset, forgotten password\<close>

record register_value =
  rv_name :: string
  rv_email :: string
  rv_password :: string
  rv_confirm :: string

definition passwordMatch :: "string \<Rightarrow> string \<Rightarrow> bool" where
  "passwordMatch pw cpw = (pw = cpw)"

definition register_valid :: "(string \<Rightarrow> bool) \<Rightarrow> register_value \<Rightarrow> bool" where
  "register_valid email_ok v =
     (v_required (rv_name v) \<and> v_minLength 2 (rv_name v) \<and> v_required (rv_email v) \<and> email_ok (rv_email v) \<and>
      v_required (rv_password v) \<and> v_minLength 8 (rv_password v) \<and> v_required (rv_confirm v) \<and>
      passwordMatch (rv_password v) (rv_confirm v))"

definition register_submit :: "(string \<Rightarrow> bool) \<Rightarrow> register_value \<Rightarrow> form \<Rightarrow> c_request option \<times> form" where
  "register_submit email_ok v s =
     (if register_valid email_ok v
      then (Some (register_request (rv_name v) (rv_email v) (rv_password v)), submit_start s)
      else (None, s))"

text \<open>\<open>token\<close> is the query parameter of the link.\<close>

definition reset_submit :: "string option \<Rightarrow> string \<times> string \<Rightarrow> form \<Rightarrow> c_request option \<times> form" where
  "reset_submit token v s =
     (let (password, confirm) = v
      in if v_required password \<and> v_minLength 8 password \<and> v_required confirm \<and> passwordMatch password confirm \<and> truthy token
         then (Some (http_call ''POST'' ''/api/v1/auth/reset-password''
                 (JObj [(''token'', json_opt token), (''password'', JStr password)])), submit_start s)
         else (None, s))"

definition forgot_submit :: "(string \<Rightarrow> bool) \<Rightarrow> string \<Rightarrow> form \<Rightarrow> c_request option \<times> form" where
  "forgot_submit email_ok email s =
     (if v_required email \<and> email_ok email
      then (Some (http_call ''POST'' ''/api/v1/auth/forgot-password'' (JObj [(''email'', JStr email)])), submit_start s)
      else (None, s))"

subsection \<open>Verification and single sign-on\<close>

datatype verify_status = VerifyLoading | VerifySuccess | VerifyError json | VerifyMissing

definition verify_init :: "string option \<Rightarrow> c_request option \<times> verify_status" where
  "verify_init token =
     (if truthy token then (Some (verifyEmail_request (the token)), VerifyLoading) else (None, VerifyMissing))"

definition verify_reply :: "app_error option \<Rightarrow> verify_status" where
  "verify_reply r = (case r of None \<Rightarrow> VerifySuccess | Some e \<Rightarrow> VerifyError (error_text e ''Verification failed.''))"

definition sso_init ::
    "(string \<Rightarrow> json option) \<Rightarrow> (int \<Rightarrow> string) \<Rightarrow> string option \<Rightarrow> 'a client_scheme \<Rightarrow> 'a client_scheme" where
  "sso_init decode iso_time token s =
     (if \<not> truthy token then navigate ''/auth/login'' s
      else (case handleSsoToken decode iso_time (the token) s of
              (Inl e, s1) \<Rightarrow> s1
            | (Inr _, s1) \<Rightarrow> navigate ''/app'' s1))"

subsection \<open>The code of the second factor\<close>

record mfa_state = form +
  mf_code :: string

definition mfa_submitCode :: "string \<Rightarrow> mfa_state \<Rightarrow> c_request \<times> mfa_state" where
  "mfa_submitCode code s = (submitMfa_request code, submit_start s)"

definition only_digits :: "string \<Rightarrow> string" where
  "only_digits v = filter (\<lambda>c. 48 \<le> (of_char c :: nat) \<and> (of_char c :: nat) \<le> 57) v"

definition onDigitInput :: "string \<Rightarrow> mfa_state \<Rightarrow> c_request option \<times> mfa_state" where
  "onDigitInput v s =
     (let digits = take 6 (only_digits v); s1 = s\<lparr>mf_code := digits\<rparr>
      in if length digits = 6 then (let (req, s2) = mfa_submitCode digits s1 in (Some req, s2)) else (None, s1))"

definition mfa_next :: "mfa_state \<Rightarrow> mfa_state" where
  "mfa_next s = s\<lparr>fm_busy := False\<rparr>"

definition mfa_error :: "app_error \<Rightarrow> mfa_state \<Rightarrow> mfa_state" where
  "mfa_error e s = (submit_error ''Invalid code. Please try again.'' e s)\<lparr>mf_code := ''''\<rparr>"

definition useBackupCode :: "string option \<Rightarrow> mfa_state \<Rightarrow> c_request option \<times> mfa_state" where
  "useBackupCode answer s =
     (if truthy answer then (let (req, s1) = mfa_submitCode (trim (the answer)) s in (Some req, s1)) else (None, s))"

subsection \<open>Dialogs\<close>

definition create_task_submit ::
    "uuid \<Rightarrow> string \<times> priority \<times> string \<Rightarrow> 'a app_scheme \<Rightarrow> form \<Rightarrow> c_request option \<times> form" where
  "create_task_submit workspaceId v a s =
     (let (title, prio, dueDate) = v
      in if v_required title \<and> v_maxLength 500 title
         then (Some (task_create_request workspaceId title (Some prio) (if dueDate = '''' then None else Some dueDate) a),
               submit_start s)
         else (None, s))"

definition create_workspace_submit :: "string \<times> string \<Rightarrow> 'a app_scheme \<Rightarrow> form \<Rightarrow> c_request option \<times> form" where
  "create_workspace_submit v a s =
     (let (name, description) = v
      in if v_required name \<and> v_maxLength 255 name
         then (Some (ws_create_request name (if description = '''' then None else Some description) a), submit_start s)
         else (None, s))"

definition create_channel_submit :: "uuid \<Rightarrow> string \<Rightarrow> 'a app_scheme \<Rightarrow> form \<Rightarrow> c_request option \<times> form" where
  "create_channel_submit workspaceId name a s =
     (if v_required name \<and> v_maxLength 255 name
      then (Some (channel_create_request name workspaceId a), submit_start s) else (None, s))"

section \<open>The user service and the settings\<close>

definition updateProfile_request :: "string \<Rightarrow> string option \<Rightarrow> c_request" where
  "updateProfile_request name bio =
     http_call ''PATCH'' ''/api/v1/me'' (JObj [(''name'', JStr name), (''bio'', json_opt bio)])"

text \<open>\<^verbatim>\<open>updateProfile\<close> and \<^verbatim>\<open>uploadAvatar\<close> take over the user the server returns.\<close>

definition user_returned :: "json \<Rightarrow> 'a client_scheme \<Rightarrow> json \<times> 'a client_scheme" where
  "user_returned dto s = (let u = toUser dto in (u, updateCurrentUser u s))"

definition uploadAvatar_request :: "json \<Rightarrow> c_request" where
  "uploadAvatar_request formData = http_call ''POST'' ''/api/v1/me/avatar'' formData"

definition changePassword_request :: "string \<Rightarrow> string \<Rightarrow> c_request" where
  "changePassword_request current new =
     http_call ''PATCH'' ''/api/v1/me/password'' (JObj [(''currentPassword'', JStr current), (''newPassword'', JStr new)])"

definition getSessions_request :: c_request where
  "getSessions_request = http_call ''GET'' ''/api/v1/me/sessions'' JNull"

definition revokeSession_request :: "string \<Rightarrow> c_request" where
  "revokeSession_request i = http_call ''DELETE'' (''/api/v1/me/sessions/'' @ i) JNull"

definition mfa_status_request :: c_request where
  "mfa_status_request = http_call ''GET'' ''/api/v1/me/mfa'' JNull"

definition setupMfa_request :: c_request where
  "setupMfa_request = http_call ''POST'' ''/api/v1/me/mfa/setup'' (JObj [])"

definition confirmMfa_request :: "string \<Rightarrow> c_request" where
  "confirmMfa_request code = http_call ''POST'' ''/api/v1/me/mfa/confirm'' (JObj [(''code'', JStr code)])"

definition disableMfa_request :: "string \<Rightarrow> c_request" where
  "disableMfa_request password = http_call ''DELETE'' ''/api/v1/me/mfa'' (JObj [(''password'', JStr password)])"

definition regenBackupCodes_request :: c_request where
  "regenBackupCodes_request = http_call ''POST'' ''/api/v1/me/mfa/backup-codes'' (JObj [])"

definition savePreferences_request :: "(string \<times> json) list \<Rightarrow> c_request" where
  "savePreferences_request prefs = http_call ''PATCH'' ''/api/v1/me/preferences'' (JObj prefs)"

text \<open>\<^verbatim>\<open>{ ...current, preferences: updated }\<close>.\<close>

definition with_member :: "string \<Rightarrow> json \<Rightarrow> json \<Rightarrow> json" where
  "with_member k v j = (case j of JObj ms \<Rightarrow> JObj (filter (\<lambda>m. fst m \<noteq> k) ms @ [(k, v)]) | _ \<Rightarrow> JObj [(k, v)])"

definition savePreferences_next :: "json \<Rightarrow> 'a client_scheme \<Rightarrow> 'a client_scheme" where
  "savePreferences_next updated s =
     (if js_truthy (kl_currentUser s)
      then updateCurrentUser (with_member ''preferences'' updated (the (kl_currentUser s))) s else s)"

subsection \<open>Profile\<close>

text \<open>The submission of the profile clears the mark of success of the one before.\<close>

definition profile_submit :: "string \<times> string \<Rightarrow> form \<Rightarrow> c_request option \<times> form" where
  "profile_submit v s =
     (let (name, bio) = v
      in if v_required name \<and> v_maxLength 255 name
         then (Some (updateProfile_request name (if bio = '''' then None else Some bio)),
               (submit_start s)\<lparr>fm_done := False\<rparr>)
         else (None, s))"

definition avatar_submit :: "json option \<Rightarrow> form \<Rightarrow> c_request option \<times> form" where
  "avatar_submit chosen s =
     (case chosen of None \<Rightarrow> (None, s) | Some d \<Rightarrow> (Some (uploadAvatar_request d), submit_start s))"

text \<open>The avatar has no mark of success.\<close>

definition avatar_next :: "form \<Rightarrow> form" where
  "avatar_next s = s\<lparr>fm_busy := False\<rparr>"

subsection \<open>Security\<close>

record c_session =
  cs_id :: string
  cs_deviceInfo :: string
  cs_ipAddress :: string
  cs_lastActive :: string
  cs_isCurrent :: bool

record mfa_status =
  ms_enabled :: bool
  ms_backupCodesRemaining :: nat

record security_tab = form +
  sc_sessions :: "c_session list"
  sc_mfaStatus :: "mfa_status option"
  sc_setupData :: "(string \<times> string) option"
  sc_backupCodes :: "string list option"
  sc_disableMfaConfirm :: bool

definition passwordsMatch :: "string \<Rightarrow> string \<Rightarrow> bool" where
  "passwordsMatch newPassword confirm = (newPassword = confirm)"

definition pw_valid :: "string \<times> string \<times> string \<Rightarrow> bool" where
  "pw_valid v = (let (current, new, confirm) = v in
     v_required current \<and> v_required new \<and> v_minLength 8 new \<and> v_required confirm \<and> passwordsMatch new confirm)"

definition submitPassword :: "string \<times> string \<times> string \<Rightarrow> security_tab \<Rightarrow> c_request option \<times> security_tab" where
  "submitPassword v s =
     (if pw_valid v then (Some (changePassword_request (fst v) (fst (snd v))), submit_start s) else (None, s))"

definition sessions_loaded :: "c_session list \<Rightarrow> security_tab \<Rightarrow> security_tab" where
  "sessions_loaded ss s = s\<lparr>sc_sessions := ss\<rparr>"

definition mfa_status_loaded :: "mfa_status \<Rightarrow> security_tab \<Rightarrow> security_tab" where
  "mfa_status_loaded m s = s\<lparr>sc_mfaStatus := Some m\<rparr>"

definition enableMfa_next :: "string \<times> string \<Rightarrow> security_tab \<Rightarrow> security_tab" where
  "enableMfa_next d s = s\<lparr>sc_setupData := Some d\<rparr>"

definition cancelSetup :: "security_tab \<Rightarrow> security_tab" where
  "cancelSetup s = s\<lparr>sc_setupData := None\<rparr>"

definition confirmMfa_next :: "string list \<Rightarrow> security_tab \<Rightarrow> security_tab" where
  "confirmMfa_next codes s =
     s\<lparr>sc_setupData := None, sc_backupCodes := Some codes,
       sc_mfaStatus := Some \<lparr>ms_enabled = True, ms_backupCodesRemaining = length codes\<rparr>\<rparr>"

definition askDisableMfa :: "security_tab \<Rightarrow> security_tab" where
  "askDisableMfa s = s\<lparr>sc_disableMfaConfirm := True\<rparr>"

definition disableMfa_next :: "security_tab \<Rightarrow> security_tab" where
  "disableMfa_next s =
     s\<lparr>sc_mfaStatus := Some \<lparr>ms_enabled = False, ms_backupCodesRemaining = 0\<rparr>, sc_disableMfaConfirm := False\<rparr>"

definition regenCodes_next :: "string list \<Rightarrow> security_tab \<Rightarrow> security_tab" where
  "regenCodes_next codes s = s\<lparr>sc_backupCodes := Some codes\<rparr>"

definition codesRead :: "security_tab \<Rightarrow> security_tab" where
  "codesRead s = s\<lparr>sc_backupCodes := None\<rparr>"

definition revokeSession_next :: "string \<Rightarrow> security_tab \<Rightarrow> security_tab" where
  "revokeSession_next i s = s\<lparr>sc_sessions := filter (\<lambda>x. cs_id x \<noteq> i) (sc_sessions s)\<rparr>"

definition revokeOthers :: "security_tab \<Rightarrow> c_request list" where
  "revokeOthers s = map (\<lambda>x. revokeSession_request (cs_id x)) (filter (\<lambda>x. \<not> cs_isCurrent x) (sc_sessions s))"

section \<open>Theme and preferences\<close>

text \<open>
  \<open>debounced d leave vs\<close> is what \<^verbatim>\<open>debounceTime(d)\<close> lets through of the values \<open>vs\<close>, each with the
  time it was set, for a subscription that ends at \<open>leave\<close> (\<open>None\<close> for one that does not end): a value
  passes \<open>d\<close> milliseconds after it was set if no other was set meanwhile.
\<close>

definition before :: "timestamp \<Rightarrow> timestamp option \<Rightarrow> bool" where
  "before t leave = (case leave of None \<Rightarrow> True | Some e \<Rightarrow> t < e)"

fun debounced :: "int \<Rightarrow> timestamp option \<Rightarrow> (timestamp \<times> 'v) list \<Rightarrow> 'v list" where
  "debounced d leave [] = []"
| "debounced d leave [(t, v)] = (if before (t + d) leave then [v] else [])"
| "debounced d leave ((t, v) # (t', v') # vs) =
     (if t + d \<le> t' \<and> before (t + d) leave then [v] else []) @ debounced d leave ((t', v') # vs)"

record theme_state =
  th_theme :: string
  th_attribute :: string
  th_storage :: local_storage
  th_applied :: "(timestamp \<times> string) list"

text \<open>\<open>prefers_dark\<close> is the media query.\<close>

definition theme_apply :: "bool \<Rightarrow> timestamp \<Rightarrow> string \<Rightarrow> bool \<Rightarrow> theme_state \<Rightarrow> theme_state" where
  "theme_apply prefers_dark now theme syncBackend s =
     s\<lparr>th_theme := theme, th_storage := (th_storage s)(''theme'' \<mapsto> theme),
       th_attribute := (if theme = ''system'' then (if prefers_dark then ''dark'' else ''light'') else theme),
       th_applied := (if syncBackend then th_applied s @ [(now, theme)] else th_applied s)\<rparr>"

definition applyStored :: "bool \<Rightarrow> timestamp \<Rightarrow> theme_state \<Rightarrow> theme_state" where
  "applyStored prefers_dark now s =
     theme_apply prefers_dark now (case th_storage s ''theme'' of None \<Rightarrow> ''dark'' | Some t \<Rightarrow> t) False s"

text \<open>What the theme service sends to the server, and what the preference tab does.\<close>

definition theme_requests :: "theme_state \<Rightarrow> c_request list" where
  "theme_requests s = map (\<lambda>t. savePreferences_request [(''theme'', JStr t)]) (debounced 1000 None (th_applied s))"

definition preference_requests :: "timestamp option \<Rightarrow> (timestamp \<times> (string \<times> json) list) list \<Rightarrow> c_request list" where
  "preference_requests leave changes = map savePreferences_request (debounced 1000 leave changes)"

section \<open>Notification preferences\<close>

datatype pref_channel = ChannelInapp | ChannelEmail | ChannelPush

record c_pref =
  cp_eventType :: string
  cp_channelInapp :: bool
  cp_channelEmail :: bool
  cp_channelPush :: bool

fun toggle_pref :: "pref_channel \<Rightarrow> c_pref \<Rightarrow> c_pref" where
  "toggle_pref ChannelInapp p = p\<lparr>cp_channelInapp := \<not> cp_channelInapp p\<rparr>"
| "toggle_pref ChannelEmail p = p\<lparr>cp_channelEmail := \<not> cp_channelEmail p\<rparr>"
| "toggle_pref ChannelPush p = p\<lparr>cp_channelPush := \<not> cp_channelPush p\<rparr>"

definition toggle :: "c_pref \<Rightarrow> pref_channel \<Rightarrow> 'a client_scheme \<Rightarrow> c_pref list \<Rightarrow> c_request \<times> c_pref list" where
  "toggle pref ch s prefs =
     (let updated = toggle_pref ch pref
      in (http_call ''PATCH'' (org_path s (''/notification-preferences/'' @ cp_eventType pref))
            (JObj [(''channel_inapp'', JBool (cp_channelInapp updated)), (''channel_email'', JBool (cp_channelEmail updated)),
               (''channel_push'', JBool (cp_channelPush updated))]),
          map (\<lambda>p. if cp_eventType p = cp_eventType pref then updated else p) prefs))"

section \<open>Push subscriptions\<close>

text \<open>\<^verbatim>\<open>atob\<close> and \<^verbatim>\<open>btoa\<close> are the base64 functions of \<open>Crypto\<close> on the codes of the characters.\<close>

definition replace_char :: "char \<Rightarrow> char \<Rightarrow> string \<Rightarrow> string" where
  "replace_char a b = map (\<lambda>c. if c = a then b else c)"

definition urlBase64ToUint8Array :: "string \<Rightarrow> nat list" where
  "urlBase64ToUint8Array s =
     (let padding = replicate ((4 - length s mod 4) mod 4) (CHR ''='');
          base64 = replace_char (CHR ''_'') (CHR ''/'') (replace_char (CHR ''-'') (CHR ''+'') (s @ padding))
      in b64_decode base64)"

definition arrayBufferToBase64 :: "nat list \<Rightarrow> string" where
  "arrayBufferToBase64 bs = b64_encode bs"

text \<open>The browser's subscription: its endpoint and its two keys.\<close>

record push_sub =
  ps_sub_endpoint :: string
  ps_sub_p256dh :: "nat list"
  ps_sub_auth :: "nat list"

definition subscribe_request :: "push_sub \<Rightarrow> c_request" where
  "subscribe_request sub =
     http_call ''POST'' ''/api/v1/push/subscribe''
       (JObj [(''endpoint'', JStr (ps_sub_endpoint sub)),
         (''keys'', JObj [(''p256dh'', JStr (arrayBufferToBase64 (ps_sub_p256dh sub))),
            (''auth'', JStr (arrayBufferToBase64 (ps_sub_auth sub)))])])"

text \<open>\<open>granted\<close> is the answer to the permission prompt, \<open>existing\<close> the subscription the browser has,
  \<open>fresh\<close> the one it makes for an application server key.\<close>

definition requestPermission ::
    "bool \<Rightarrow> push_sub option \<Rightarrow> (nat list \<Rightarrow> push_sub) \<Rightarrow> string \<Rightarrow> bool \<Rightarrow> (client_error + c_request) \<times> bool" where
  "requestPermission granted existing fresh vapidPublicKey permissionDenied =
     (if \<not> granted then (Inl (JsFailed ''Push permission denied''), True)
      else (Inr (subscribe_request (case existing of Some sub \<Rightarrow> sub | None \<Rightarrow> fresh (urlBase64ToUint8Array vapidPublicKey))),
            permissionDenied))"

definition unsubscribe_push :: "push_sub option \<Rightarrow> c_request" where
  "unsubscribe_push sub =
     http_call ''DELETE'' ''/api/v1/push/subscribe''
       (JObj [(''endpoint'', JStr (case sub of None \<Rightarrow> '''' | Some s \<Rightarrow> ps_sub_endpoint s))])"

section \<open>Sockets\<close>

record socket_state =
  so_socket :: "bool option"
  so_connected :: bool
  so_opened :: "string list"

text \<open>\<^verbatim>\<open>so_socket\<close> is the socket and whether it is connected, \<^verbatim>\<open>so_opened\<close> the tokens of the
  connections opened so far.\<close>

definition socket_connect :: "'a client_scheme \<Rightarrow> socket_state \<Rightarrow> socket_state" where
  "socket_connect c s =
     (if so_socket s = Some True then s
      else (case getAccessToken (kl_storage c) of
              None \<Rightarrow> s
            | Some t \<Rightarrow> if t = '''' then s else s\<lparr>so_socket := Some False, so_opened := so_opened s @ [t]\<rparr>))"

definition socket_event :: "bool \<Rightarrow> socket_state \<Rightarrow> socket_state" where
  "socket_event up s = (case so_socket s of None \<Rightarrow> s | Some _ \<Rightarrow> s\<lparr>so_socket := Some up, so_connected := up\<rparr>)"

definition socket_disconnect :: "socket_state \<Rightarrow> socket_state" where
  "socket_disconnect s = s\<lparr>so_socket := None, so_connected := False\<rparr>"

section \<open>Tasks, channels, files, notifications\<close>

text \<open>The comment box: nothing is sent for a blank text.\<close>

definition comment_submit :: "uuid \<Rightarrow> string \<Rightarrow> uuid list \<Rightarrow> 'a app_scheme \<Rightarrow> c_request option" where
  "comment_submit taskId body attachments a =
     (if trim body = '''' then None
      else Some (addComment_request taskId
             [(''ops'', JArr [JObj [(''insert'', JStr (trim body @ [CHR 0x0A]))]])] attachments a))"

text \<open>The line a message is written in: its text and the files attached.\<close>

record compose =
  cv_body :: string
  cv_attachments :: "uuid list"

definition attach_file :: "uuid \<Rightarrow> compose \<Rightarrow> compose" where
  "attach_file i c = c\<lparr>cv_attachments := cv_attachments c @ [i]\<rparr>"

definition channel_send :: "uuid \<Rightarrow> compose \<Rightarrow> 'a app_scheme \<Rightarrow> c_request option \<times> 'a app_scheme" where
  "channel_send channelId c a =
     (if v_required (cv_body c)
      then (let (req, a1) = send_start channelId (cv_body c) (cv_attachments c) a in (Some req, a1))
      else (None, a))"

definition channel_sent :: "compose \<Rightarrow> compose" where
  "channel_sent c = c\<lparr>cv_body := '''', cv_attachments := []\<rparr>"

definition channelName :: "uuid \<Rightarrow> 'a app_scheme \<Rightarrow> string" where
  "channelName channelId a =
     (case List.find (\<lambda>c. cc_id c = channelId) (vw_channels a) of
        None \<Rightarrow> '''' | Some c \<Rightarrow> (case cc_name c of None \<Rightarrow> '''' | Some n \<Rightarrow> n))"

definition toggleExpand :: "uuid \<Rightarrow> uuid option \<Rightarrow> uuid option" where
  "toggleExpand taskId expanded = (if expanded = Some taskId then None else Some taskId)"

definition selectOrg :: "c_org \<Rightarrow> 'a client_scheme \<Rightarrow> 'a client_scheme" where
  "selectOrg org s = navigate ''/app'' (setOrg org s)"

datatype c_scan_status = ScanIsPending | ScanIsClean | ScanIsQuarantined

record c_file_record =
  fc_id :: uuid
  fc_orgId :: uuid
  fc_filename :: string
  fc_mimeType :: string
  fc_sizeBytes :: int
  fc_scanStatus :: c_scan_status
  fc_createdAt :: string

record file_record_dto =
  fd_id :: uuid
  fd_org_id :: uuid
  fd_filename :: string
  fd_mime_type :: string
  fd_size_bytes :: int
  fd_scan_status :: c_scan_status
  fd_created_at :: string

definition toFileRecord :: "file_record_dto \<Rightarrow> c_file_record" where
  "toFileRecord dto = \<lparr>fc_id = fd_id dto, fc_orgId = fd_org_id dto, fc_filename = fd_filename dto,
     fc_mimeType = fd_mime_type dto, fc_sizeBytes = fd_size_bytes dto, fc_scanStatus = fd_scan_status dto,
     fc_createdAt = fd_created_at dto\<rparr>"

definition files_load_request :: "'a client_scheme \<Rightarrow> c_request" where
  "files_load_request s = api_get s ''/files?limit=20&offset=0''"

definition deleteFile_request :: "uuid \<Rightarrow> 'a client_scheme \<Rightarrow> c_request" where
  "deleteFile_request fileId s = http_call ''DELETE'' (org_path s (''/files/'' @ fileId)) JNull"

definition TYPE_LABELS :: "(string \<times> string) list" where
  "TYPE_LABELS = [(''task.assigned'', ''assigned you to''), (''task.mentioned'', ''mentioned you in task''),
     (''task.completed'', ''completed task''), (''chat.mention'', ''mentioned you in''),
     (''comment.created'', ''commented on'')]"

definition notification_label :: "c_notification \<Rightarrow> string" where
  "notification_label n =
     (case map_of TYPE_LABELS (cn_type n) of None \<Rightarrow> cn_type n | Some l \<Rightarrow> l) @ '' '' @
     js_string (nullish_or (json_field ''entityTitle'' (cn_payload n)) (Some (JStr (cn_entityId n))))"

text \<open>Where a click on a notification leads.\<close>

definition notification_target :: "c_notification \<Rightarrow> string list option" where
  "notification_target n =
     (let ws = json_field ''workspaceId'' (cn_payload n)
      in if cn_entityType n = ''task'' \<and> js_truthy ws then Some [''/app/workspaces'', js_string ws, ''tasks'']
         else if cn_entityType n = ''channel'' \<and> js_truthy ws
              then Some [''/app/workspaces'', js_string ws, ''chat'', cn_entityId n]
              else None)"

section \<open>Sizes and initials\<close>

text \<open>\<^verbatim>\<open>toFixed(1)\<close> of a quotient by a power of two, which a double holds exactly.\<close>

definition toFixed1 :: "nat \<Rightarrow> nat \<Rightarrow> string" where
  "toFixed1 n d =
     (let tenths = (20 * n + d) div (2 * d) in show_nat (tenths div 10) @ ''.'' @ show_nat (tenths mod 10))"

definition formatSize :: "nat \<Rightarrow> string" where
  "formatSize bytes =
     (if bytes < 1024 then show_nat bytes @ '' B''
      else if bytes < 1024 * 1024 then toFixed1 bytes 1024 @ '' KB''
      else toFixed1 bytes (1024 * 1024) @ '' MB'')"

definition upper_char :: "char \<Rightarrow> char" where
  "upper_char c = (let n = of_char c :: nat in if 97 \<le> n \<and> n \<le> 122 then char_of (n - 32) else c)"

text \<open>The initials of a name (upper case as for ASCII letters).\<close>

definition initials :: "string \<Rightarrow> string" where
  "initials name =
     (let s = map upper_char (concat (map (take 1) (take 2 (split_on (CHR '' '') name))))
      in if s = '''' then ''?'' else s)"

section \<open>One submission at a time\<close>

text \<open>
  A form seen from outside: the user submits (the button is disabled while the form is busy), a reply
  arrives.  The first component counts the requests of the form that are open.
\<close>

datatype 'v form_event = Submit 'v | Succeeded | Rejected app_error

definition form_step ::
    "('v \<Rightarrow> 's \<Rightarrow> c_request option \<times> 's) \<Rightarrow> ('s \<Rightarrow> 's) \<Rightarrow> (app_error \<Rightarrow> 's \<Rightarrow> 's) \<Rightarrow> ('s \<Rightarrow> bool) \<Rightarrow>
     'v form_event \<Rightarrow> nat \<times> 's \<Rightarrow> nat \<times> 's" where
  "form_step start ok fail busy ev ns =
     (let (n, s) = ns
      in case ev of
           Submit v \<Rightarrow> if busy s then ns
             else (case start v s of (None, s1) \<Rightarrow> (n, s1) | (Some req, s1) \<Rightarrow> (Suc n, s1))
         | Succeeded \<Rightarrow> if n = 0 then ns else (n - 1, ok s)
         | Rejected e \<Rightarrow> if n = 0 then ns else (n - 1, fail e s))"

locale submission =
  fixes start :: "'v \<Rightarrow> 's \<Rightarrow> c_request option \<times> 's"
    and ok :: "'s \<Rightarrow> 's"
    and fail :: "app_error \<Rightarrow> 's \<Rightarrow> 's"
    and busy :: "'s \<Rightarrow> bool"
    and failure :: "'s \<Rightarrow> json option"
  assumes start_invalid: "start v s = (None, s') \<Longrightarrow> busy s' = busy s"
    and start_valid: "start v s = (Some req, s') \<Longrightarrow> busy s' \<and> failure s' = None"
    and ok_idle: "\<not> busy (ok s)" "failure (ok s) = failure s"
    and fail_idle: "\<not> busy (fail e s)" "failure (fail e s) \<noteq> None"
begin

lemma busy_iff_open:
  assumes "n = (if busy s then 1 else 0)" "form_step start ok fail busy ev (n, s) = (n', s')"
  shows "n' = (if busy s' then 1 else 0)"
  using assms start_valid start_invalid ok_idle fail_idle
  by (auto simp: form_step_def split: form_event.splits if_splits prod.splits option.splits)

lemma busy_iff_open_run:
  "fst ns = (if busy (snd ns) then 1 else 0) \<Longrightarrow>
     fst (fold (form_step start ok fail busy) evs ns) =
     (if busy (snd (fold (form_step start ok fail busy) evs ns)) then 1 else 0)"
proof (induction evs arbitrary: ns)
  case (Cons ev evs)
  have "fst (form_step start ok fail busy ev ns) = (if busy (snd (form_step start ok fail busy ev ns)) then 1 else 0)"
    by (rule busy_iff_open [OF Cons.prems]) (simp only: prod.collapse)
  from Cons.IH [OF this] show ?case by simp
qed simp

lemma one_open:
  assumes "\<not> busy s" "fold (form_step start ok fail busy) evs (0, s) = (n, s')"
  shows "n = (if busy s' then 1 else 0)"
  using busy_iff_open_run [of "(0, s)" evs] assms by simp

lemma retry_clears: "start v (fail e s) = (Some req, s') \<Longrightarrow> failure s' = None"
  using start_valid by blast

end

lemmas submit_defs = submit_start_def submit_next_def submit_error_def

interpretation login_form: submission "login_submit email_ok" "\<lambda>s. snd (login_form_next r s)" "submit_error LOGIN_FAILED" fm_busy fm_error
  by unfold_locales (auto simp: login_submit_def login_form_next_def submit_defs split: if_splits)

interpretation register_form: submission "register_submit email_ok" submit_next "submit_error ''Registration failed. Please try again.''" fm_busy fm_error
  by unfold_locales (auto simp: register_submit_def submit_defs split: if_splits)

interpretation reset_form: submission "reset_submit token" submit_next "submit_error ''Failed to reset password.''" fm_busy fm_error
  by unfold_locales (auto simp: reset_submit_def submit_defs split: if_splits)

interpretation forgot_form: submission "forgot_submit email_ok" submit_next "submit_error ''Failed to send reset email.''" fm_busy fm_error
  by unfold_locales (auto simp: forgot_submit_def submit_defs split: if_splits)

interpretation task_form: submission "\<lambda>v. create_task_submit w v a" submit_next "submit_error ''Failed to create task''" fm_busy fm_error
  by unfold_locales (auto simp: create_task_submit_def submit_defs split: if_splits)

interpretation workspace_form: submission "\<lambda>v. create_workspace_submit v a" submit_next "submit_error ''Failed to create workspace''" fm_busy fm_error
  by unfold_locales (auto simp: create_workspace_submit_def submit_defs split: if_splits)

interpretation channel_form: submission "\<lambda>v. create_channel_submit w v a" submit_next "submit_error ''Failed to create channel''" fm_busy fm_error
  by unfold_locales (auto simp: create_channel_submit_def submit_defs split: if_splits)

interpretation profile_form: submission profile_submit submit_next "submit_error ''Failed to update profile''" fm_busy fm_error
  by unfold_locales (auto simp: profile_submit_def submit_defs split: if_splits)

interpretation password_form: submission submitPassword submit_next "submit_error ''Failed''" fm_busy fm_error
  by unfold_locales (auto simp: submitPassword_def submit_defs split: if_splits)

interpretation mfa_form: submission onDigitInput mfa_next mfa_error fm_busy fm_error
  by unfold_locales
    (auto simp: onDigitInput_def mfa_submitCode_def mfa_next_def mfa_error_def submit_defs Let_def split: if_splits)

text \<open>However the user clicks and whatever the server replies, the dialog that creates a task has at
  most one request open, and it shows that it is saving exactly while it has one.\<close>

theorem create_task_once:
  assumes "fold (form_step (\<lambda>v. create_task_submit w v a) submit_next (submit_error ''Failed to create task'') fm_busy) evs
      (0, new_form) = (n, s)"
  shows "n = (if fm_busy s then 1 else 0)"
  by (rule task_form.one_open [OF _ assms]) (simp add: new_form_def)

definition ex_task_events :: "(string \<times> priority \<times> string) form_event list" where
  "ex_task_events = [Submit (''t'', Medium, ''''), Submit (''t'', Medium, '''')]"

section \<open>What a tab leaves behind\<close>

lemma debounced_last: "vs \<noteq> [] \<Longrightarrow> last (debounced d None vs) = snd (last vs) \<and> debounced d None vs \<noteq> []"
  by (induction d "None :: timestamp option" vs rule: debounced.induct) (auto simp: before_def)

lemma debounced_subset: "set (debounced d leave vs) \<subseteq> snd ` set vs"
  by (induction d leave vs rule: debounced.induct) auto

text \<open>The last of the requests the theme service sends carries the theme that was applied last, so that
  is what the server keeps.\<close>

theorem last_theme_is_saved:
  assumes "th_applied s = vs @ [(t, theme)]"
  shows "last (theme_requests s) = savePreferences_request [(''theme'', JStr theme)]"
  using debounced_last [of "th_applied s" 1000] assms by (simp add: theme_requests_def last_map)

text \<open>The preference tab says that changes save automatically; a change made less than a second before
  the user leaves it is not sent.\<close>

theorem preferences_lost_on_leaving:
  assumes "e \<le> t + 1000"
  shows "preference_requests (Some e) [(t, prefs)] = []"
  using assms by (simp add: preference_requests_def before_def)

section \<open>Security tab\<close>

text \<open>\<^verbatim>\<open>Sign out everywhere else\<close> asks to revoke the other sessions and not the current one; when all
  the requests have succeeded, the current session is what the tab shows.\<close>

theorem revoke_others:
  assumes "distinct (map cs_id (sc_sessions s))"
  shows "\<forall>x \<in> set (sc_sessions s). revokeSession_request (cs_id x) \<in> set (revokeOthers s) \<longleftrightarrow> \<not> cs_isCurrent x"
    and "sc_sessions (fold revokeSession_next (map cs_id (filter (\<lambda>x. \<not> cs_isCurrent x) (sc_sessions s))) s) =
      filter cs_isCurrent (sc_sessions s)"
proof -
  have inj: "\<And>x y. x \<in> set (sc_sessions s) \<Longrightarrow> y \<in> set (sc_sessions s) \<Longrightarrow> cs_id x = cs_id y \<Longrightarrow> x = y"
    using assms by (auto intro: inj_on_key)
  have req: "revokeSession_request i = revokeSession_request j \<longleftrightarrow> i = j" for i j
    by (simp add: revokeSession_request_def http_call_def)
  show "\<forall>x \<in> set (sc_sessions s). revokeSession_request (cs_id x) \<in> set (revokeOthers s) \<longleftrightarrow> \<not> cs_isCurrent x"
    by (auto simp: revokeOthers_def req image_iff dest: inj)
  have fold_eq: "sc_sessions (fold revokeSession_next is t) = filter (\<lambda>x. cs_id x \<notin> set is) (sc_sessions t)" for "is" t
    by (induction "is" arbitrary: t) (auto simp: revokeSession_next_def intro: filter_cong)
  show "sc_sessions (fold revokeSession_next (map cs_id (filter (\<lambda>x. \<not> cs_isCurrent x) (sc_sessions s))) s) =
      filter cs_isCurrent (sc_sessions s)"
    unfolding fold_eq by (rule filter_cong) (auto dest: inj)
qed

text \<open>The mark of success of a changed password is never cleared: after a later attempt fails, the tab
  shows both.\<close>

theorem success_and_failure_shown:
  assumes "pw_valid v"
  shows "fm_done (submit_error ''Failed'' e (snd (submitPassword v (submit_next s)))) \<and>
    fm_error (submit_error ''Failed'' e (snd (submitPassword v (submit_next s)))) \<noteq> None"
  using assms by (simp add: submitPassword_def submit_defs)

text \<open>New backup codes replace the old ones, and the number of remaining codes shown is still the old one.\<close>

theorem regenerated_codes_not_counted:
  "sc_mfaStatus (codesRead (regenCodes_next codes s)) = sc_mfaStatus s"
  by (simp add: regenCodes_next_def codesRead_def)

theorem six_digits_are_sent:
  "fst (onDigitInput v s) = (if 6 \<le> length (only_digits v) then Some (submitMfa_request (take 6 (only_digits v))) else None)"
  by (simp add: onDigitInput_def mfa_submitCode_def Let_def)

section \<open>The key of the application server\<close>

text \<open>The URL-safe form of base64 without padding, in which the key is configured.\<close>

definition base64url :: "nat list \<Rightarrow> string" where
  "base64url bs =
     replace_char (CHR ''/'') (CHR ''_'') (replace_char (CHR ''+'') (CHR ''-'') (filter (\<lambda>c. c \<noteq> CHR ''='') (b64_encode bs)))"

lemma b64_padding:
  "list_all (\<lambda>x. x < 256) bs \<Longrightarrow>
     \<exists>k < 4. b64_encode bs = filter (\<lambda>c. c \<noteq> CHR ''='') (b64_encode bs) @ replicate k (CHR ''='') \<and>
       (length (filter (\<lambda>c. c \<noteq> CHR ''='') (b64_encode bs)) + k) mod 4 = 0"
proof (induction bs rule: b64_encode.induct)
  case (2 a)
  then have "a < 256" by simp
  note s = b64_sextets(1,4) [OF this zero_less_numeral zero_less_numeral]
  show ?case by (rule exI [of _ 2]) (simp add: b64_digit_char(2) [OF s(1)] b64_digit_char(2) [OF s(2)] numeral_2_eq_2)
next
  case (3 a b)
  then have "a < 256" "b < 256" by simp_all
  note s = b64_sextets(1,2,5) [OF this zero_less_numeral]
  show ?case
    by (rule exI [of _ 1]) (simp add: b64_digit_char(2) [OF s(1)] b64_digit_char(2) [OF s(2)] b64_digit_char(2) [OF s(3)])
next
  case (4 a b c rest)
  then have "a < 256" "b < 256" "c < 256" by simp_all
  note s = b64_sextets(1-3) [OF this]
  have m: "c mod 64 < 64" by simp
  from 4 obtain k where "k < 4" "b64_encode rest = filter (\<lambda>c. c \<noteq> CHR ''='') (b64_encode rest) @ replicate k (CHR ''='')"
    "(length (filter (\<lambda>c. c \<noteq> CHR ''='') (b64_encode rest)) + k) mod 4 = 0" by auto
  then show ?case
    by (intro exI [of _ k])
       (simp add: b64_digit_char(2) [OF s(1)] b64_digit_char(2) [OF s(2)] b64_digit_char(2) [OF s(3)] b64_digit_char(2) [OF m])
qed (rule exI [of _ 0], simp)

lemma b64_char_no_url:
  assumes "n < 64"
  shows "b64_char n \<noteq> CHR ''-''" "b64_char n \<noteq> CHR ''_''"
proof -
  have "(of_char (b64_char n) :: nat) \<noteq> of_char (CHR ''-'')" "(of_char (b64_char n) :: nat) \<noteq> of_char (CHR ''_'')"
    unfolding of_char_b64 [OF assms] by auto
  then show "b64_char n \<noteq> CHR ''-''" "b64_char n \<noteq> CHR ''_''" by auto
qed

lemma padding_length:
  assumes "k < 4" "(l + k) mod 4 = 0"
  shows "(4 - l mod 4) mod 4 = (k :: nat)"
proof -
  have "(l mod 4 + k) mod 4 = 0" using assms(2) by (simp add: mod_simps)
  moreover have "k = 0 \<or> k = 1 \<or> k = 2 \<or> k = 3" using assms(1) by arith
  moreover have "l mod 4 = 0 \<or> l mod 4 = 1 \<or> l mod 4 = 2 \<or> l mod 4 = 3" by arith
  ultimately show ?thesis by (elim disjE) simp_all
qed

definition url_char :: "char \<Rightarrow> char" where
  "url_char c = (if c = CHR ''+'' then CHR ''-'' else if c = CHR ''/'' then CHR ''_'' else c)"

definition url_inverse :: "char \<Rightarrow> char" where
  "url_inverse c = (if c = CHR ''-'' then CHR ''+'' else if c = CHR ''_'' then CHR ''/'' else c)"

lemma url_inverse_char: "c \<noteq> CHR ''-'' \<Longrightarrow> c \<noteq> CHR ''_'' \<Longrightarrow> url_inverse (url_char c) = c"
  by (simp add: url_inverse_def url_char_def)

lemma replace_twice: "replace_char a b (replace_char c d s) = map (\<lambda>x. if x = c then (if d = a then b else d) else if x = a then b else x) s"
  by (simp add: replace_char_def)

lemma base64url_map: "base64url bs = map url_char (filter (\<lambda>c. c \<noteq> CHR ''='') (b64_encode bs))"
  unfolding base64url_def replace_twice url_char_def by simp

lemma url_inverse_map:
  "replace_char (CHR ''_'') (CHR ''/'') (replace_char (CHR ''-'') (CHR ''+'') s) = map url_inverse s"
  unfolding replace_twice url_inverse_def by simp

text \<open>The client turns a public key configured as URL-safe base64, for any number of bytes, back into
  exactly those bytes: the padding it adds and the characters it replaces are the ones that were left
  out and changed.\<close>

theorem application_server_key_roundtrip:
  assumes "list_all (\<lambda>x. x < 256) bs"
  shows "urlBase64ToUint8Array (base64url bs) = bs"
proof -
  let ?body = "filter (\<lambda>c. c \<noteq> CHR ''='') (b64_encode bs)"
  obtain k where k: "k < 4" "b64_encode bs = ?body @ replicate k (CHR ''='')" "(length ?body + k) mod 4 = 0"
    using b64_padding [OF assms] by (elim exE conjE) (rule that)
  have "url_inverse (url_char c) = c" if "c \<in> set ?body" for c
  proof -
    from that obtain n where "n < 64" "c = b64_char n" using b64_encode_chars [OF assms, of c] by auto
    then show ?thesis using b64_char_no_url [of n] by (intro url_inverse_char) simp_all
  qed
  then have "map (url_inverse \<circ> url_char) ?body = ?body" by (intro map_idI) simp
  then have "replace_char (CHR ''_'') (CHR ''/'') (replace_char (CHR ''-'') (CHR ''+'')
      (base64url bs @ replicate k (CHR ''=''))) = ?body @ replicate k (CHR ''='')"
    by (simp add: base64url_map url_inverse_map) (simp add: url_inverse_def)
  moreover have "length (base64url bs) = length ?body" by (simp add: base64url_def replace_char_def)
  ultimately have "urlBase64ToUint8Array (base64url bs) = b64_decode (?body @ replicate k (CHR ''=''))"
    unfolding urlBase64ToUint8Array_def Let_def by (simp only: padding_length [OF k(1,3)])
  also have "\<dots> = bs" unfolding k(2) [symmetric] by (rule b64_decode_encode [OF assms])
  finally show ?thesis .
qed

theorem application_server_key_roundtrip_witness: "urlBase64ToUint8Array (base64url [4, 251, 255, 0]) = [4, 251, 255, 0]"
  by (rule application_server_key_roundtrip) simp

end
