(* ===== verification/Task_Router.thy ===== *)
theory Task_Router
  imports Http Task_System
begin

text \<open>
  \<^verbatim>\<open>src/modules/task/task.router.ts\<close>: the schemas, the handlers with their casts, and the table of
  routes in the order of registration.  A request is served through the whole chain of authentication,
  organization context, status, idempotency key and validation.  The lemmas show that a body that
  passes validation always has the type its handler casts it to.
\<close>

section \<open>Schemas\<close>

definition status_names :: "(string \<times> task_status) list" where
  "status_names = [(''todo'', Todo), (''in_progress'', InProgress), (''in_review'', InReview), (''done'', Done),
     (''cancelled'', Cancelled)]"

definition priority_names :: "(string \<times> priority) list" where
  "priority_names = [(''low'', Low), (''medium'', Medium), (''high'', High), (''urgent'', Urgent)]"

definition taskStatusEnum :: schema where
  "taskStatusEnum = ZEnum [''todo'', ''in_progress'', ''in_review'', ''done'', ''cancelled'']"

definition taskPriorityEnum :: schema where
  "taskPriorityEnum = ZEnum [''low'', ''medium'', ''high'', ''urgent'']"

definition create_fields :: "(string \<times> schema) list" where
  "create_fields =
     [(''workspace_id'', ZString [Uuid]),
      (''board_id'', ZOptional (ZNullable (ZString [Uuid]))),
      (''parent_task_id'', ZOptional (ZNullable (ZString [Uuid]))),
      (''title'', ZString [Min 1, Max 500]),
      (''description'', ZOptional (ZNullable ZRecord)),
      (''status'', ZOptional taskStatusEnum),
      (''priority'', ZOptional taskPriorityEnum),
      (''due_date'', ZOptional (ZNullable (ZString [DateTime]))),
      (''is_recurring'', ZOptional ZBoolean),
      (''recurrence_rule'', ZOptional (ZNullable (ZString []))),
      (''template_id'', ZOptional (ZNullable (ZString [Uuid]))),
      (''labels'', ZOptional (ZArray (ZString []) None None)),
      (''assignee_ids'', ZOptional (ZArray (ZString [Uuid]) None None))]"

definition createTaskSchema :: schema where
  "createTaskSchema = ZObject create_fields"

definition update_fields :: "(string \<times> schema) list" where
  "update_fields =
     [(''title'', ZOptional (ZString [Min 1, Max 500])),
      (''description'', ZOptional (ZNullable ZRecord)),
      (''status'', ZOptional taskStatusEnum),
      (''priority'', ZOptional taskPriorityEnum),
      (''due_date'', ZOptional (ZNullable (ZString [DateTime]))),
      (''board_id'', ZOptional (ZNullable (ZString [Uuid]))),
      (''labels'', ZOptional (ZArray (ZString []) None None)),
      (''is_recurring'', ZOptional ZBoolean),
      (''recurrence_rule'', ZOptional (ZNullable (ZString []))),
      (''assignee_ids'', ZOptional (ZArray (ZString [Uuid]) None None)),
      (''version'', ZInt (Some 1) None)]"

definition updateTaskSchema :: schema where
  "updateTaskSchema = ZObject update_fields"

definition list_fields :: "(string \<times> schema) list" where
  "list_fields = [(''workspace_id'', ZOptional (ZString [Uuid])), (''board_id'', ZOptional (ZString [Uuid])),
     (''status'', ZOptional taskStatusEnum)]"

definition listTasksQuerySchema :: schema where
  "listTasksQuerySchema = ZObject list_fields"

definition dependency_fields :: "(string \<times> schema) list" where
  "dependency_fields = [(''blocked_task_id'', ZString [Uuid])]"

definition bulk_status_fields :: "(string \<times> schema) list" where
  "bulk_status_fields = [(''task_ids'', ZArray (ZString [Uuid]) (Some 1) (Some 100)), (''status'', taskStatusEnum)]"

definition bulk_delete_fields :: "(string \<times> schema) list" where
  "bulk_delete_fields = [(''task_ids'', ZArray (ZString [Uuid]) (Some 1) (Some 100))]"

definition template_fields :: "(string \<times> schema) list" where
  "template_fields =
     [(''name'', ZString [Min 1, Max 255]),
      (''default_title'', ZOptional (ZNullable (ZString [Max 500]))),
      (''default_description'', ZOptional (ZNullable ZRecord)),
      (''default_priority'', ZOptional (ZNullable taskPriorityEnum)),
      (''default_labels'', ZOptional (ZArray (ZString []) None None))]"

definition comment_fields :: "(string \<times> schema) list" where
  "comment_fields = [(''body'', ZRecord), (''parent_comment_id'', ZOptional (ZNullable (ZString [Uuid])))]"

definition activity_fields :: "(string \<times> schema) list" where
  "activity_fields = [(''limit'', ZOptional (ZCoerceInt (Some 1) (Some 200))), (''offset'', ZOptional (ZCoerceInt (Some 0) None))]"

section \<open>Casts\<close>

text \<open>\<^verbatim>\<open>new Date(input.due_date)\<close> of a string that is given and not empty.\<close>

definition to_date :: "string option \<Rightarrow> timestamp option option" where
  "to_date s = (if truthy s then map_option Some (parse_datetime (the s)) else Some None)"

definition decode_create_task :: "json \<Rightarrow> create_task_input option" where
  "decode_create_task d = do {
     ws \<leftarrow> required as_str ''workspace_id'' d;
     board \<leftarrow> nullish_field as_str ''board_id'' d;
     parent \<leftarrow> nullish_field as_str ''parent_task_id'' d;
     title \<leftarrow> required as_str ''title'' d;
     descr \<leftarrow> nullish_field as_object ''description'' d;
     st \<leftarrow> optional (as_enum status_names) ''status'' d;
     prio \<leftarrow> optional (as_enum priority_names) ''priority'' d;
     due_text \<leftarrow> nullish_field as_str ''due_date'' d;
     due \<leftarrow> to_date due_text;
     recurring \<leftarrow> optional as_bool ''is_recurring'' d;
     rule \<leftarrow> nullish_field as_str ''recurrence_rule'' d;
     template \<leftarrow> nullish_field as_str ''template_id'' d;
     labels \<leftarrow> optional (as_list as_str) ''labels'' d;
     assignees \<leftarrow> optional (as_list as_str) ''assignee_ids'' d;
     Some \<lparr>ci_workspace_id = ws, ci_board_id = board, ci_parent_task_id = parent, ci_title = title,
       ci_description = descr, ci_status = st, ci_priority = prio, ci_due_date = due, ci_is_recurring = recurring,
       ci_recurrence_rule = rule, ci_template_id = template, ci_labels = labels, ci_assignee_ids = assignees\<rparr> }"

text \<open>Absent stays absent; \<^verbatim>\<open>null\<close> and the empty string clear the date.\<close>

definition to_date_patch :: "string option option \<Rightarrow> timestamp option option option" where
  "to_date_patch x = (case x of None \<Rightarrow> Some None | Some s \<Rightarrow> map_option Some (to_date s))"

definition decode_update_task :: "json \<Rightarrow> update_task_input option" where
  "decode_update_task d = do {
     title \<leftarrow> optional as_str ''title'' d;
     descr \<leftarrow> optional (as_nullable as_object) ''description'' d;
     st \<leftarrow> optional (as_enum status_names) ''status'' d;
     prio \<leftarrow> optional (as_enum priority_names) ''priority'' d;
     due_text \<leftarrow> optional (as_nullable as_str) ''due_date'' d;
     due \<leftarrow> to_date_patch due_text;
     board \<leftarrow> optional (as_nullable as_str) ''board_id'' d;
     labels \<leftarrow> optional (as_list as_str) ''labels'' d;
     recurring \<leftarrow> optional as_bool ''is_recurring'' d;
     rule \<leftarrow> optional (as_nullable as_str) ''recurrence_rule'' d;
     assignees \<leftarrow> optional (as_list as_str) ''assignee_ids'' d;
     v \<leftarrow> required as_int ''version'' d;
     Some \<lparr>ut_title = title, ut_description = descr, ut_status = st, ut_priority = prio, ut_due_date = due,
       ut_board_id = board, ut_labels = labels, ut_is_recurring = recurring, ut_recurrence_rule = rule,
       ui_assignee_ids = assignees, ui_version = v\<rparr> }"

definition decode_list_query :: "json \<Rightarrow> list_tasks_query option" where
  "decode_list_query d = do {
     ws \<leftarrow> optional as_str ''workspace_id'' d;
     board \<leftarrow> optional as_str ''board_id'' d;
     st \<leftarrow> optional (as_enum status_names) ''status'' d;
     Some \<lparr>q_workspace_id = ws, q_board_id = board, q_status = st\<rparr> }"

definition decode_bulk_status :: "json \<Rightarrow> (uuid list \<times> task_status) option" where
  "decode_bulk_status d = do {
     ids \<leftarrow> required (as_list as_str) ''task_ids'' d;
     st \<leftarrow> required (as_enum status_names) ''status'' d;
     Some (ids, st) }"

definition decode_template :: "json \<Rightarrow> create_template_input option" where
  "decode_template d = do {
     name \<leftarrow> required as_str ''name'' d;
     title \<leftarrow> nullish_field as_str ''default_title'' d;
     descr \<leftarrow> nullish_field as_object ''default_description'' d;
     prio \<leftarrow> nullish_field (as_enum priority_names) ''default_priority'' d;
     labels \<leftarrow> optional (as_list as_str) ''default_labels'' d;
     Some \<lparr>cti_name = name, cti_default_title = title, cti_default_description = descr, cti_default_priority = prio,
       cti_default_labels = labels\<rparr> }"

definition decode_comment :: "json \<Rightarrow> (json \<times> uuid option) option" where
  "decode_comment d = do {
     body \<leftarrow> required as_object ''body'' d;
     parent \<leftarrow> nullish_field as_str ''parent_comment_id'' d;
     Some (body, parent) }"

definition decode_page :: "json \<Rightarrow> (int \<times> int) option" where
  "decode_page d = do {
     limit \<leftarrow> optional as_int ''limit'' d;
     offset \<leftarrow> optional as_int ''offset'' d;
     Some (case_option 100 id limit, case_option 0 id offset) }"

section \<open>Rows as JSON\<close>

definition json_int :: "int option \<Rightarrow> json" where
  "json_int x = case_option JNull JNum x"

definition task_json :: "task \<Rightarrow> json" where
  "task_json t = JObj
     [(''id'', JStr (t_id t)), (''org_id'', JStr (t_org_id t)), (''workspace_id'', JStr (t_workspace_id t)),
      (''board_id'', json_opt (t_board_id t)), (''parent_task_id'', json_opt (t_parent_task_id t)),
      (''depth'', JNum (t_depth t)), (''title'', JStr (t_title t)),
      (''description'', case_option JNull id (t_description t)), (''status'', JStr (status_name (t_status t))),
      (''priority'', JStr (priority_name (t_priority t))), (''creator_id'', JStr (t_creator_id t)),
      (''due_date'', json_int (t_due_date t)), (''completed_at'', json_int (t_completed_at t)),
      (''is_recurring'', JBool (t_is_recurring t)), (''recurrence_rule'', json_opt (t_recurrence_rule t)),
      (''recurrence_parent_id'', json_opt (t_recurrence_parent_id t)), (''template_id'', json_opt (t_template_id t)),
      (''labels'', JArr (map JStr (t_labels t))), (''attachments_count'', JNum (t_attachments_count t)),
      (''deleted_at'', json_int (t_deleted_at t)), (''created_at'', JNum (t_created_at t)),
      (''updated_at'', JNum (t_updated_at t)), (''version'', JNum (t_version t))]"

definition dependency_json :: "task_dependency \<Rightarrow> json" where
  "dependency_json d = JObj
     [(''id'', JStr (td_id d)), (''org_id'', JStr (td_org_id d)), (''blocking_task_id'', JStr (td_blocking_task_id d)),
      (''blocked_task_id'', JStr (td_blocked_task_id d)), (''created_by'', JStr (td_created_by d)),
      (''created_at'', JNum (td_created_at d))]"

definition template_json :: "task_template \<Rightarrow> json" where
  "template_json t = JObj
     [(''id'', JStr (tt_id t)), (''org_id'', JStr (tt_org_id t)), (''name'', JStr (tt_name t)),
      (''default_title'', json_opt (tt_default_title t)),
      (''default_description'', case_option JNull id (tt_default_description t)),
      (''default_priority'', json_opt (map_option priority_name (tt_default_priority t))),
      (''default_labels'', JArr (map JStr (tt_default_labels t))), (''created_by'', JStr (tt_created_by t)),
      (''deleted_at'', json_int (tt_deleted_at t)), (''created_at'', JNum (tt_created_at t))]"

definition comment_json :: "comment \<Rightarrow> json" where
  "comment_json c = JObj
     [(''id'', JStr (c_id c)), (''org_id'', JStr (c_org_id c)), (''task_id'', JStr (c_task_id c)),
      (''author_id'', JStr (c_author_id c)), (''parent_comment_id'', json_opt (c_parent_comment_id c)),
      (''body'', c_body c), (''deleted_at'', json_int (c_deleted_at c)), (''created_at'', JNum (c_created_at c))]"

definition activity_json :: "activity \<Rightarrow> json" where
  "activity_json a = JObj
     [(''id'', JStr (ac_id a)), (''org_id'', JStr (ac_org_id a)), (''task_id'', JStr (ac_task_id a)),
      (''actor_id'', JStr (ac_actor_id a)), (''event_type'', JStr (ac_event_type a)), (''payload'', ac_payload a),
      (''created_at'', JNum (ac_created_at a))]"

definition message_json :: "string \<Rightarrow> json" where
  "message_json s = JObj [(''message'', JStr s)]"

section \<open>Handlers\<close>

definition create_task_handler :: "http_env \<Rightarrow> 'a work_db_scheme handler" where
  "create_task_handler env params rq meta u c =
     validate (he_safeParse env) createTaskSchema (rq_body rq) (\<lambda>d. cast_to decode_create_task d (\<lambda>input w.
       answer_with (\<lambda>t. res_created meta (task_json t)) (createTask (he_now env) (oc_orgId c) (ru_userId u) input w)))"

definition list_tasks_handler :: "http_env \<Rightarrow> 'a work_db_scheme handler" where
  "list_tasks_handler env params rq meta u c =
     validate (he_safeParse env) listTasksQuerySchema (rq_query rq) (\<lambda>d. cast_to decode_list_query d (\<lambda>q w.
       (res_success meta (JArr (map task_json (list_tasks_route (oc_orgId c) q w))), w)))"

definition get_task_handler :: "http_env \<Rightarrow> 'a work_db_scheme handler" where
  "get_task_handler env params rq meta u c w =
     answer_with (\<lambda>t. res_success meta (task_json t))
       (with_uuid env (params ''taskId'') no_checks (read_only (getTask (oc_orgId c) (params ''taskId''))) w)"

definition update_task_handler :: "http_env \<Rightarrow> 'a work_db_scheme handler" where
  "update_task_handler env params rq meta u c =
     validate (he_safeParse env) updateTaskSchema (rq_body rq) (\<lambda>d. cast_to decode_update_task d (\<lambda>input w.
       answer_with (\<lambda>t. res_success meta (task_json t))
         (with_uuid env (params ''taskId'') no_checks
            (updateTask (he_now env) (oc_orgId c) (params ''taskId'') (ru_userId u) input) w)))"

definition delete_task_handler :: "http_env \<Rightarrow> 'a work_db_scheme handler" where
  "delete_task_handler env params rq meta u c w =
     answer_with (\<lambda>_. res_success meta (message_json ''Task deleted''))
       (with_uuid env (params ''taskId'') no_checks
          (deleteTask (he_now env) (oc_orgId c) (params ''taskId'') (ru_userId u)) w)"

definition add_dependency_handler :: "http_env \<Rightarrow> 'a work_db_scheme handler" where
  "add_dependency_handler env params rq meta u c =
     validate (he_safeParse env) (ZObject dependency_fields) (rq_body rq) (\<lambda>d.
       cast_to (required as_str ''blocked_task_id'') d (\<lambda>blocked w.
         answer_with (\<lambda>x. res_created meta (dependency_json x))
           (with_uuid env (params ''taskId'') no_checks
              (addDependency (he_now env) (oc_orgId c) (params ''taskId'') blocked (ru_userId u)) w)))"

definition list_dependencies_handler :: "http_env \<Rightarrow> 'a work_db_scheme handler" where
  "list_dependencies_handler env params rq meta u c w =
     answer_with (\<lambda>ds. res_success meta (JArr (map dependency_json ds)))
       (with_uuid env (params ''taskId'') no_checks
          (read_only (\<lambda>w. Inr (listDependencies (oc_orgId c) (params ''taskId'') w))) w)"

definition remove_dependency_handler :: "http_env \<Rightarrow> 'a work_db_scheme handler" where
  "remove_dependency_handler env params rq meta u c w =
     answer_with (\<lambda>_. res_success meta (message_json ''Dependency removed''))
       (with_uuid env (params ''dependencyId'') no_checks
          (\<lambda>w. (Inr (), removeDependency (oc_orgId c) (params ''dependencyId'') w)) w)"

definition bulk_status_handler :: "http_env \<Rightarrow> 'a work_db_scheme handler" where
  "bulk_status_handler env params rq meta u c =
     validate (he_safeParse env) (ZObject bulk_status_fields) (rq_body rq) (\<lambda>d.
       cast_to decode_bulk_status d (\<lambda>(ids, st) w.
         answer_with (\<lambda>n. res_success meta (JObj [(''updated'', JNum (int n))]))
           (bulkUpdateStatus (he_now env) (oc_orgId c) (ru_userId u) ids st w)))"

definition bulk_delete_handler :: "http_env \<Rightarrow> 'a work_db_scheme handler" where
  "bulk_delete_handler env params rq meta u c =
     validate (he_safeParse env) (ZObject bulk_delete_fields) (rq_body rq) (\<lambda>d.
       cast_to (required (as_list as_str) ''task_ids'') d (\<lambda>ids w.
         answer_with (\<lambda>n. res_success meta (JObj [(''deleted'', JNum (int n))]))
           (bulkDelete (he_now env) (oc_orgId c) (ru_userId u) ids w)))"

definition create_template_handler :: "http_env \<Rightarrow> 'a work_db_scheme handler" where
  "create_template_handler env params rq meta u c =
     validate (he_safeParse env) (ZObject template_fields) (rq_body rq) (\<lambda>d. cast_to decode_template d (\<lambda>input w.
       answer_with (\<lambda>t. res_created meta (template_json t))
         (createTemplate (he_now env) (oc_orgId c) (ru_userId u) input w)))"

definition list_templates_handler :: "http_env \<Rightarrow> 'a work_db_scheme handler" where
  "list_templates_handler env params rq meta u c w =
     (res_success meta (JArr (map template_json (listTemplates (oc_orgId c) w))), w)"

definition delete_template_handler :: "http_env \<Rightarrow> 'a work_db_scheme handler" where
  "delete_template_handler env params rq meta u c w =
     answer_with (\<lambda>_. res_success meta (message_json ''Template deleted''))
       (with_uuid env (params ''templateId'') (assertAdminOrOwner (oc_orgId c) (ru_userId u))
          (deleteTemplate (he_now env) (oc_orgId c) (params ''templateId'') (ru_userId u)) w)"

definition create_comment_handler :: "http_env \<Rightarrow> 'a work_db_scheme handler" where
  "create_comment_handler env params rq meta u c =
     validate (he_safeParse env) (ZObject comment_fields) (rq_body rq) (\<lambda>d. cast_to decode_comment d (\<lambda>(body, parent) w.
       answer_with (\<lambda>x. res_created meta (comment_json x))
         (with_uuid env (params ''taskId'') (check_thread (oc_orgId c) parent)
            (createComment (he_now env) (oc_orgId c) (ru_userId u) (params ''taskId'') body parent) w)))"

definition list_comments_handler :: "http_env \<Rightarrow> 'a work_db_scheme handler" where
  "list_comments_handler env params rq meta u c w =
     answer_with (\<lambda>cs. res_success meta (JArr (map comment_json cs)))
       (with_uuid env (params ''taskId'') no_checks
          (read_only (\<lambda>w. Inr (listComments (oc_orgId c) (params ''taskId'') w))) w)"

definition delete_comment_handler :: "http_env \<Rightarrow> 'a work_db_scheme handler" where
  "delete_comment_handler env params rq meta u c w =
     answer_with (\<lambda>_. res_success meta (message_json ''Comment deleted''))
       (with_uuid env (params ''commentId'') no_checks
          (deleteComment (he_now env) (oc_orgId c) (params ''commentId'') (ru_userId u)) w)"

definition task_activity_handler :: "http_env \<Rightarrow> 'a work_db_scheme handler" where
  "task_activity_handler env params rq meta u c w =
     answer_with (\<lambda>xs. res_success meta (JArr (map activity_json xs)))
       (with_uuid env (params ''taskId'') no_checks
          (read_only (\<lambda>w. Inr (listForTask (oc_orgId c) (params ''taskId'') w))) w)"

definition org_activity_handler :: "http_env \<Rightarrow> 'a work_db_scheme handler" where
  "org_activity_handler env params rq meta u c =
     validate (he_safeParse env) (ZObject activity_fields) (rq_query rq) (\<lambda>d. cast_to decode_page d (\<lambda>(limit, offset) w.
       (res_success meta (JArr (map activity_json (listForOrg (oc_orgId c) (nat limit) (nat offset) w))), w)))"

definition task_routes :: "http_env \<Rightarrow> 'a work_db_scheme route list" where
  "task_routes env =
     [mk_route ''POST'' ''/orgs/:orgId/tasks'' True (create_task_handler env),
      mk_route ''GET'' ''/orgs/:orgId/tasks'' False (list_tasks_handler env),
      mk_route ''GET'' ''/orgs/:orgId/tasks/:taskId'' False (get_task_handler env),
      mk_route ''PATCH'' ''/orgs/:orgId/tasks/:taskId'' True (update_task_handler env),
      mk_route ''DELETE'' ''/orgs/:orgId/tasks/:taskId'' False (delete_task_handler env),
      mk_route ''POST'' ''/orgs/:orgId/tasks/:taskId/dependencies'' True (add_dependency_handler env),
      mk_route ''GET'' ''/orgs/:orgId/tasks/:taskId/dependencies'' False (list_dependencies_handler env),
      mk_route ''DELETE'' ''/orgs/:orgId/tasks/dependencies/:dependencyId'' False (remove_dependency_handler env),
      mk_route ''POST'' ''/orgs/:orgId/tasks/bulk/status'' True (bulk_status_handler env),
      mk_route ''DELETE'' ''/orgs/:orgId/tasks/bulk'' False (bulk_delete_handler env),
      mk_route ''POST'' ''/orgs/:orgId/task-templates'' True (create_template_handler env),
      mk_route ''GET'' ''/orgs/:orgId/task-templates'' False (list_templates_handler env),
      mk_route ''DELETE'' ''/orgs/:orgId/task-templates/:templateId'' False (delete_template_handler env),
      mk_route ''POST'' ''/orgs/:orgId/tasks/:taskId/comments'' True (create_comment_handler env),
      mk_route ''GET'' ''/orgs/:orgId/tasks/:taskId/comments'' False (list_comments_handler env),
      mk_route ''DELETE'' ''/orgs/:orgId/tasks/:taskId/comments/:commentId'' False (delete_comment_handler env),
      mk_route ''GET'' ''/orgs/:orgId/tasks/:taskId/activity'' False (task_activity_handler env),
      mk_route ''GET'' ''/orgs/:orgId/activity'' False (org_activity_handler env)]"

section \<open>Validated bodies have the types the services expect\<close>

lemma enum_names [casts]:
  "reads taskStatusEnum (as_enum status_names)" "reads taskPriorityEnum (as_enum priority_names)"
  unfolding taskStatusEnum_def taskPriorityEnum_def
  by (auto intro!: reads_enum simp: status_names_def priority_names_def)

lemma to_date_defined: "(\<And>s. x = Some s \<Longrightarrow> parse_datetime s \<noteq> None) \<Longrightarrow> to_date x \<noteq> None"
  by (auto simp: to_date_def truthy_def split: option.splits)

lemma create_task_decodes:
  assumes "conforms createTaskSchema d"
  shows "decode_create_task d \<noteq> None"
proof -
  have c: "conforms (ZObject create_fields) d" using assms by (simp add: createTaskSchema_def)
  note r = reads_required [OF _ c] and q = reads_optional_field [OF _ c] and n = reads_nullish [OF _ c]
  have 1: "required as_str ''workspace_id'' d \<noteq> None" "required as_str ''title'' d \<noteq> None"
    by (rule r, rule casts, simp add: create_fields_def, simp)+
  have 2: "nullish_field as_str ''board_id'' d \<noteq> None" "nullish_field as_str ''parent_task_id'' d \<noteq> None"
    "nullish_field as_object ''description'' d \<noteq> None" "nullish_field as_str ''due_date'' d \<noteq> None"
    "nullish_field as_str ''recurrence_rule'' d \<noteq> None" "nullish_field as_str ''template_id'' d \<noteq> None"
    by (rule n, rule casts, rule casts, rule casts, simp add: create_fields_def)+
  have 3: "optional (as_enum status_names) ''status'' d \<noteq> None" "optional (as_enum priority_names) ''priority'' d \<noteq> None"
    "optional as_bool ''is_recurring'' d \<noteq> None"
    by (rule q, rule casts, rule casts, simp add: create_fields_def)+
  have 4: "optional (as_list as_str) ''labels'' d \<noteq> None" "optional (as_list as_str) ''assignee_ids'' d \<noteq> None"
    by (rule q, rule casts, rule casts, rule casts, simp add: create_fields_def)+
  have 5: "to_date x \<noteq> None" if "nullish_field as_str ''due_date'' d = Some x" for x
    using that nullish_str [OF _ c, of "''due_date''" _ "[DateTime]" DateTime]
    by (intro to_date_defined) (simp add: create_fields_def)
  show ?thesis unfolding decode_create_task_def by (intro bind_defined 1 2 3 4 5) simp_all
qed

lemma update_task_decodes:
  assumes "conforms updateTaskSchema d"
  shows "decode_update_task d \<noteq> None"
proof -
  have c: "conforms (ZObject update_fields) d" using assms by (simp add: updateTaskSchema_def)
  note r = reads_required [OF _ c] and q = reads_optional_field [OF _ c]
  have 1: "required as_int ''version'' d \<noteq> None" by (rule r, rule casts, simp add: update_fields_def, simp)
  have 2: "optional as_str ''title'' d \<noteq> None" "optional (as_enum status_names) ''status'' d \<noteq> None"
    "optional (as_enum priority_names) ''priority'' d \<noteq> None" "optional as_bool ''is_recurring'' d \<noteq> None"
    by (rule q, rule casts, rule casts, simp add: update_fields_def)+
  have 3: "optional (as_nullable as_object) ''description'' d \<noteq> None" "optional (as_nullable as_str) ''due_date'' d \<noteq> None"
    "optional (as_nullable as_str) ''board_id'' d \<noteq> None" "optional (as_nullable as_str) ''recurrence_rule'' d \<noteq> None"
    "optional (as_list as_str) ''labels'' d \<noteq> None" "optional (as_list as_str) ''assignee_ids'' d \<noteq> None"
    by (rule q, rule casts, rule casts, rule casts, simp add: update_fields_def)+
  have 4: "to_date_patch x \<noteq> None" if "optional (as_nullable as_str) ''due_date'' d = Some x" for x
  proof (cases x)
    case (Some y)
    have "nullish_field as_str ''due_date'' d = Some y" using that Some by (simp add: nullish_field_def)
    then have "to_date y \<noteq> None"
      using nullish_str [OF _ c, of "''due_date''" _ "[DateTime]" DateTime]
      by (intro to_date_defined) (simp add: update_fields_def)
    with Some show ?thesis by (simp add: to_date_patch_def)
  qed (simp add: to_date_patch_def)
  show ?thesis unfolding decode_update_task_def by (intro bind_defined 1 2 3 4) simp_all
qed

lemma template_decodes:
  assumes c: "conforms (ZObject template_fields) d"
  shows "decode_template d \<noteq> None"
proof -
  have 1: "required as_str ''name'' d \<noteq> None"
    by (rule reads_required [OF _ c], rule casts, simp add: template_fields_def, simp)
  have 2: "nullish_field as_str ''default_title'' d \<noteq> None" "nullish_field as_object ''default_description'' d \<noteq> None"
    "nullish_field (as_enum priority_names) ''default_priority'' d \<noteq> None"
    by (rule reads_nullish [OF _ c], rule casts, rule casts, rule casts, simp add: template_fields_def)+
  have 3: "optional (as_list as_str) ''default_labels'' d \<noteq> None"
    by (rule reads_optional_field [OF _ c], rule casts, rule casts, rule casts, simp add: template_fields_def)
  show ?thesis unfolding decode_template_def by (intro bind_defined 1 2 3) simp_all
qed

lemma list_query_decodes:
  assumes "conforms listTasksQuerySchema d"
  shows "decode_list_query d \<noteq> None"
proof -
  have c: "conforms (ZObject list_fields) d" using assms by (simp add: listTasksQuerySchema_def)
  have 1: "optional as_str ''workspace_id'' d \<noteq> None" "optional as_str ''board_id'' d \<noteq> None"
    "optional (as_enum status_names) ''status'' d \<noteq> None"
    by (rule reads_optional_field [OF _ c], rule casts, rule casts, simp add: list_fields_def)+
  show ?thesis unfolding decode_list_query_def by (intro bind_defined 1) simp_all
qed

lemma small_bodies_decode:
  "conforms (ZObject dependency_fields) d \<Longrightarrow> required as_str ''blocked_task_id'' d \<noteq> None"
  "conforms (ZObject bulk_delete_fields) d \<Longrightarrow> required (as_list as_str) ''task_ids'' d \<noteq> None"
  by (rule reads_required, rule casts, assumption, simp add: dependency_fields_def, simp)
     (rule reads_required, rule casts, rule casts, assumption, simp add: bulk_delete_fields_def, simp)

lemma bulk_status_decodes:
  assumes c: "conforms (ZObject bulk_status_fields) d"
  shows "decode_bulk_status d \<noteq> None"
proof -
  have 1: "required (as_list as_str) ''task_ids'' d \<noteq> None"
    by (rule reads_required [OF _ c], rule casts, rule casts, simp add: bulk_status_fields_def, simp)
  have 2: "required (as_enum status_names) ''status'' d \<noteq> None"
    by (rule reads_required [OF _ c], rule casts, simp add: bulk_status_fields_def, simp add: taskStatusEnum_def)
  show ?thesis unfolding decode_bulk_status_def by (intro bind_defined 1 2) simp_all
qed

lemma comment_decodes:
  assumes c: "conforms (ZObject comment_fields) d"
  shows "decode_comment d \<noteq> None"
proof -
  have 1: "required as_object ''body'' d \<noteq> None"
    by (rule reads_required [OF _ c], rule casts, simp add: comment_fields_def, simp)
  have 2: "nullish_field as_str ''parent_comment_id'' d \<noteq> None"
    by (rule reads_nullish [OF _ c], rule casts, rule casts, rule casts, simp add: comment_fields_def)
  show ?thesis unfolding decode_comment_def by (intro bind_defined 1 2) simp_all
qed

lemma page_decodes:
  assumes c: "conforms (ZObject activity_fields) d"
  shows "decode_page d \<noteq> None"
proof -
  have 1: "optional as_int ''limit'' d \<noteq> None" "optional as_int ''offset'' d \<noteq> None"
    by (rule reads_optional_field [OF _ c], rule casts, rule casts, simp add: activity_fields_def)+
  show ?thesis unfolding decode_page_def by (intro bind_defined 1) simp_all
qed

end
