(* ===== verification/Task_Api.thy ===== *)
theory Task_Api
  imports Task_Router
begin

text \<open>
  The task routes composed with the middlewares and the services: what any request, whatever its
  method, path, headers and body, does to the tables of the task module.
\<close>

section \<open>What a call may change\<close>

text \<open>The types of the stored rows: what the schemas promise, and what the worker keeps of it.\<close>

definition typed_task :: "task \<Rightarrow> bool" where
  "typed_task t \<longleftrightarrow> 1 \<le> length (t_title t) \<and> length (t_title t) \<le> 500 \<and> is_uuid (t_workspace_id t) \<and>
     list_all is_uuid (case_option [] (\<lambda>b. [b]) (t_board_id t) @ case_option [] (\<lambda>p. [p]) (t_parent_task_id t) @
       case_option [] (\<lambda>x. [x]) (t_template_id t))"

definition typed_template :: "task_template \<Rightarrow> bool" where
  "typed_template t \<longleftrightarrow> 1 \<le> length (tt_name t) \<and> length (tt_name t) \<le> 255 \<and>
     case_option True (\<lambda>x. length x \<le> 500) (tt_default_title t)"

definition typed :: "'a work_db_scheme \<Rightarrow> bool" where
  "typed w \<longleftrightarrow> list_all typed_task (tasks w) \<and> list_all typed_template (task_templates w)"

text \<open>The rows of the other organizations.\<close>

definition rows_elsewhere ::
    "uuid \<Rightarrow> 'a work_db_scheme \<Rightarrow> task list \<times> task_dependency list \<times> task_template list \<times> comment list" where
  "rows_elsewhere g w =
     (filter (\<lambda>t. t_org_id t \<noteq> g) (tasks w), filter (\<lambda>d. td_org_id d \<noteq> g) (task_dependencies w),
      filter (\<lambda>t. tt_org_id t \<noteq> g) (task_templates w), filter (\<lambda>c. c_org_id c \<noteq> g) (comments w))"

definition unique_ids :: "'a work_db_scheme \<Rightarrow> bool" where
  "unique_ids w \<longleftrightarrow> distinct (map t_id (tasks w)) \<and> distinct (map c_id (comments w))"

definition good :: "uuid \<Rightarrow> 'a work_db_scheme \<Rightarrow> 'a work_db_scheme \<Rightarrow> bool" where
  "good g w w' \<longleftrightarrow> task_step w w' \<and> (typed w \<longrightarrow> typed w') \<and> (unique_ids w \<longrightarrow> rows_elsewhere g w' = rows_elsewhere g w)"

lemma goodI:
  assumes "task_step w w'" and "typed w \<Longrightarrow> typed w'" and "unique_ids w \<Longrightarrow> rows_elsewhere g w' = rows_elsewhere g w"
  shows "good g w w'"
  using assms by (simp add: good_def)

lemma good_same:
  assumes "tasks w' = tasks w" "task_dependencies w' = task_dependencies w" "task_templates w' = task_templates w"
    "comments w' = comments w" "entropy w' = entropy w" "drawn w \<le> drawn w'"
  shows "good g w w'"
  using assms by (intro goodI task_step.other) (simp_all add: typed_def rows_elsewhere_def)

lemma good_refl [simp]: "good g w w"
  by (rule good_same) simp_all

lemma good_answer: "good g w (snd r) \<Longrightarrow> good g w (snd (answer_with f r))"
  by (auto simp: answer_with_def split: prod.splits sum.splits)

lemma good_uuid: "good g w (snd (k w)) \<Longrightarrow> good g w (snd (with_uuid env p checks k w))"
  by (auto simp: with_uuid_def split: sum.splits)

lemma good_read: "good g w (snd (read_only f w))"
  by (simp add: read_only_def)

lemma good_validate:
  assumes "schema_validator sp" and "\<And>d i. conforms s d \<Longrightarrow> f d = Some i \<Longrightarrow> good g w (snd (k i w))"
  shows "good g w (snd (validate sp s j (\<lambda>d. cast_to f d k) w))"
  using assms(2) [OF schema_validator.sound [OF assms(1)]] by (simp add: validate_def cast_to_def split: option.splits)

section \<open>The services\<close>

lemma templates_comments_frame [simp]:
  "task_templates (snd (draw w)) = task_templates w"
  "task_templates (insert_outbox now g ev et eid ac pl w) = task_templates w"
  "task_templates (persistAuditLog now g ac aty ev et' eid' pl w) = task_templates w"
  "comments (persistAuditLog now g ac aty ev et' eid' pl w) = comments w"
  "task_templates (enqueue q n dt dl w) = task_templates w" "comments (enqueue q n dt dl w) = comments w"
  "task_templates (addAssignee now t u o' b w) = task_templates w"
  "task_templates (removeAssignee t u w) = task_templates w" "comments (removeAssignee t u w) = comments w"
  "task_templates (log_activity now h a ev i pl w) = task_templates w" "comments (log_activity now h a ev i pl w) = comments w"
  "task_templates (writeTaskEvent now ev h i aco pl w) = task_templates w" "comments (writeTaskEvent now ev h i aco pl w) = comments w"
  by (simp_all add: draw_def insert_outbox_def persistAuditLog_def enqueue_def addAssignee_def removeAssignee_def
      log_activity_def writeTaskEvent_def Let_def)

lemma assignees_templates_comments [simp]:
  "task_templates (add_assignees now t g u as w) = task_templates w"
  "comments (add_assignees now t g u as w) = comments w"
  by (induction "as" arbitrary: w) (simp_all add: add_assignees_def)

lemma removed_templates_comments [simp]:
  "task_templates (fold (\<lambda>a. removeAssignee t (ta_user_id a)) rs w) = task_templates w"
  "comments (fold (\<lambda>a. removeAssignee t (ta_user_id a)) rs w) = comments w"
  by (induction rs arbitrary: w) simp_all

lemma createTask_rest: "createTask now g u inp w = (res, w') \<Longrightarrow> task_templates w' = task_templates w \<and> comments w' = comments w"
  by (auto simp: createTask_def task_create_def Let_def draw_def split: sum.splits if_splits)

lemma updateTask_rest:
  "updateTask now g i u inp w = (res, w') \<Longrightarrow> task_templates w' = task_templates w \<and> comments w' = comments w"
  by (auto simp: updateTask_def task_update_def replace_assignees_def Let_def split: sum.splits if_splits option.splits)

lemma deleteTask_rest:
  "deleteTask now g i u w = (res, w') \<Longrightarrow> task_templates w' = task_templates w \<and> comments w' = comments w"
  by (auto simp: deleteTask_def task_cascadeSoftDelete_def Let_def split: if_splits option.splits)

lemma bulk_rest:
  "bulkUpdateStatus now g u ids st w = (res, w') \<Longrightarrow> task_templates w' = task_templates w \<and> comments w' = comments w"
  "bulkDelete now g u ids w = (res, w') \<Longrightarrow> task_templates w' = task_templates w \<and> comments w' = comments w"
  by (auto simp: bulkUpdateStatus_def bulkDelete_def withTransaction_def task_bulkUpdateStatus_def
      task_bulkSoftDelete_def split: if_splits sum.splits)

definition typed_create :: "create_task_input \<Rightarrow> bool" where
  "typed_create inp \<longleftrightarrow> 1 \<le> length (ci_title inp) \<and> length (ci_title inp) \<le> 500 \<and> is_uuid (ci_workspace_id inp) \<and>
     list_all is_uuid (case_option [] (\<lambda>b. [b]) (ci_board_id inp) @ case_option [] (\<lambda>p. [p]) (ci_parent_task_id inp) @
       case_option [] (\<lambda>x. [x]) (ci_template_id inp))"

lemma good_createTask:
  assumes "typed_create inp"
  shows "good g w (snd (createTask now g u inp w))"
proof -
  obtain res w' where c: "createTask now g u inp w = (res, w')" by fastforce
  note rest = createTask_rest [OF c]
  have "good g w w'" using c
  proof (cases rule: createTask_cases)
    case (rejected e)
    with rest show ?thesis by (intro good_same) simp_all
  next
    case (created d)
    have "typed_task (new_task now (entropy w (drawn w)) (create_data g u d inp))"
      using assms by (simp add: typed_task_def typed_create_def new_task_def create_data_def)
    with created rest show ?thesis
      by (intro goodI task_step.create [OF c]) (auto simp: typed_def rows_elsewhere_def new_task_def create_data_def)
  qed
  with c show ?thesis by simp
qed

definition typed_update :: "update_task_data \<Rightarrow> bool" where
  "typed_update d \<longleftrightarrow> case_option True (\<lambda>s. 1 \<le> length s \<and> length s \<le> 500) (ut_title d) \<and>
     (case ut_board_id d of Some (Some b) \<Rightarrow> is_uuid b | _ \<Rightarrow> True)"

lemma typed_task_set: "typed_update d \<Longrightarrow> typed_task t \<Longrightarrow> typed_task (task_set now d t)"
  by (auto simp: typed_task_def typed_update_def task_set_def patched_def split: option.splits)

lemma good_updateTask:
  assumes "typed_update (update_task_data.truncate inp)"
  shows "good g w (snd (updateTask now g i u inp w))"
proof -
  obtain res w' where c: "updateTask now g i u inp w = (res, w')" by fastforce
  note rest = updateTask_rest [OF c]
  let ?d = "update_task_data.truncate inp"
  have "good g w w'" using c
  proof (cases rule: updateTask_cases)
    case (accepted t t' w1)
    have ts: "tasks w1 = tasks w \<or> tasks w1 = update_where (task_at g i (ui_version inp)) (task_set now ?d) (tasks w)"
      and ds: "task_dependencies w1 = task_dependencies w"
      using accepted(5) by (auto simp: task_update_def split: if_splits option.splits)
    from ts have "typed w \<Longrightarrow> typed w'" and "rows_elsewhere g w' = rows_elsewhere g w"
      using accepted(7,8) ds rest typed_task_set [OF assms]
      by (auto simp: typed_def rows_elsewhere_def intro!: list_all_update_where filter_update_where_same simp: task_at_def)
    then show ?thesis by (intro goodI task_step.update [OF c])
  qed simp
  with c show ?thesis by simp
qed

lemma typed_task_bury: "typed_task t \<Longrightarrow> typed_task (task_bury now t)"
  by (simp add: typed_task_def task_bury_def)

lemma in_subtasks:
  "i \<in> set (subtasks n g ts work) \<Longrightarrow> (\<And>j. j \<in> set work \<Longrightarrow> \<exists>t \<in> set ts. t_id t = j \<and> t_org_id t = g) \<Longrightarrow>
     \<exists>t \<in> set ts. t_id t = i \<and> t_org_id t = g"
proof (induction n arbitrary: work)
  case (Suc n)
  have "\<exists>t \<in> set ts. t_id t = j \<and> t_org_id t = g" if "j \<in> set (child_ids g ts work)" for j
    using that by (auto simp: in_child_ids)
  with Suc show ?case by (auto split: if_splits)
qed simp

lemma cascade_elsewhere:
  assumes "distinct (map t_id (tasks w))"
  shows "filter (\<lambda>t. t_org_id t \<noteq> g) (tasks (task_cascadeSoftDelete now g i w)) = filter (\<lambda>t. t_org_id t \<noteq> g) (tasks w)"
proof -
  let ?subs = "subtasks CASCADE_ROUNDS g (tasks w) (child_ids g (tasks w) [i])"
  have own: "t_org_id t = g" if "t \<in> set (tasks w)" "t_id t \<in> set ?subs" for t
  proof -
    have "\<exists>s \<in> set (tasks w). t_id s = t_id t \<and> t_org_id s = g"
      by (rule in_subtasks [OF that(2)]) (auto simp: in_child_ids)
    with that(1) assms show ?thesis by (auto dest: map_inj_on simp: distinct_map inj_on_def)
  qed
  have "filter (\<lambda>t. t_org_id t \<noteq> g) (update_where (\<lambda>t. t_id t \<in> set ?subs) (task_bury now) ts) = filter (\<lambda>t. t_org_id t \<noteq> g) ts"
    if "set ts \<subseteq> set (tasks w)" for ts
    using that own by (induction ts) auto
  from this [OF subset_refl] show ?thesis
    unfolding task_cascadeSoftDelete_def Let_def by (simp, subst filter_update_where_same) simp_all
qed

lemma good_deleteTask: "good g w (snd (deleteTask now g i u w))"
proof -
  obtain res w' where c: "deleteTask now g i u w = (res, w')" by fastforce
  note rest = deleteTask_rest [OF c]
  have "good g w w'" using c
  proof (cases rule: deleteTask_cases)
    case (deleted t)
    have "typed w \<Longrightarrow> typed w'"
      using deleted(5) rest typed_task_bury
      by (auto simp: typed_def task_cascadeSoftDelete_def Let_def intro!: list_all_update_where)
    moreover have "unique_ids w \<Longrightarrow> rows_elsewhere g w' = rows_elsewhere g w"
      using deleted rest cascade_elsewhere [of w g now i] by (simp add: rows_elsewhere_def unique_ids_def)
    ultimately show ?thesis by (intro goodI task_step.delete [OF c])
  qed simp
  with c show ?thesis by simp
qed

lemma good_bulkUpdateStatus: "good g w (snd (bulkUpdateStatus now g u ids st w))"
proof -
  obtain res w' where c: "bulkUpdateStatus now g u ids st w = (res, w')" by fastforce
  have "typed_task t \<Longrightarrow> typed_task (t\<lparr>t_status := st, t_updated_at := now, t_completed_at := x\<rparr>)" for t x
    by (simp add: typed_task_def)
  with bulk_rest(1) [OF c] bulk_cases(1) [OF c] have "good g w w'"
    by (intro goodI task_step.bulk_status [OF c])
       (auto simp: typed_def rows_elsewhere_def task_bulkUpdateStatus_def in_bulk_def
          intro!: list_all_update_where filter_update_where_same)
  with c show ?thesis by simp
qed

lemma good_bulkDelete: "good g w (snd (bulkDelete now g u ids w))"
proof -
  obtain res w' where c: "bulkDelete now g u ids w = (res, w')" by fastforce
  with bulk_rest(2) [OF c] bulk_cases(2) [OF c] typed_task_bury have "good g w w'"
    by (intro goodI task_step.bulk_delete [OF c])
       (auto simp: typed_def rows_elsewhere_def task_bulkSoftDelete_def in_bulk_def
          intro!: list_all_update_where filter_update_where_same)
  with c show ?thesis by simp
qed

lemma good_dependencies:
  "good g w (snd (addDependency now g a b u w))" "good g w (removeDependency g i w)"
proof -
  obtain res w' where c: "addDependency now g a b u w = (res, w')" by fastforce
  then have "good g w w'"
    by (intro goodI task_step.add_dep [OF c])
       (auto simp: addDependency_def insertDependency_def draw_def typed_def rows_elsewhere_def Let_def split: sum.splits if_splits)
  with c show "good g w (snd (addDependency now g a b u w))" by simp
  show "good g w (removeDependency g i w)"
    by (intro goodI task_step.remove_dep)
       (auto simp: removeDependency_def deleteDependency_def delete_where_def typed_def rows_elsewhere_def intro: filter_cong)
qed

definition typed_template_input :: "create_template_input \<Rightarrow> bool" where
  "typed_template_input inp \<longleftrightarrow> 1 \<le> length (cti_name inp) \<and> length (cti_name inp) \<le> 255 \<and>
     case_option True (\<lambda>x. length x \<le> 500) (cti_default_title inp)"

lemma good_createTemplate: "typed_template_input inp \<Longrightarrow> good g w (snd (createTemplate now g u inp w))"
  by (intro goodI task_step.other)
     (auto simp: createTemplate_def draw_def typed_def typed_template_def typed_template_input_def rows_elsewhere_def Let_def
        split: sum.splits)

lemma good_deleteTemplate: "good g w (snd (deleteTemplate now g i u w))"
  by (intro goodI task_step.other)
     (auto simp: deleteTemplate_def typed_def typed_template_def rows_elsewhere_def Let_def split: sum.splits
        intro!: list_all_update_where filter_update_where_same)

lemma create_mentions_frame:
  "tasks (snd (create_mentions now g t c a hs w)) = tasks w \<and>
   task_dependencies (snd (create_mentions now g t c a hs w)) = task_dependencies w \<and>
   task_templates (snd (create_mentions now g t c a hs w)) = task_templates w \<and>
   comments (snd (create_mentions now g t c a hs w)) = comments w \<and>
   entropy (snd (create_mentions now g t c a hs w)) = entropy w \<and> drawn w \<le> drawn (snd (create_mentions now g t c a hs w))"
proof (induction hs arbitrary: w)
  case (Cons h hs)
  show ?case
  proof (cases "find_mentioned g h w")
    case (Some u)
    let ?w1 = "insert_outbox now (Some g) ''mention.created'' ''comment'' c (Some a)
       (JObj [(''orgId'', JStr g), (''taskId'', JStr t), (''commentId'', JStr c), (''mentionedUserId'', JStr (u_id u)), (''handle'', JStr h)]) w"
    have "drawn w \<le> drawn ?w1" by simp
    with Cons [of ?w1] Some show ?thesis by (simp add: Let_def split_def)
  qed (simp add: Cons)
qed simp

lemma good_createComment: "good g w (snd (createComment now g u t body p w))"
proof -
  let ?i = "entropy w (drawn w)"
  let ?c = "\<lparr>c_id = ?i, c_org_id = g, c_task_id = t, c_author_id = u, c_parent_comment_id = p, c_body = body,
    c_deleted_at = None, c_created_at = now\<rparr>"
  let ?w2 = "w\<lparr>drawn := Suc (drawn w), comments := comments w @ [?c]\<rparr>"
  let ?w3 = "insert_outbox now (Some g) ''comment.created'' ''comment'' ?i (Some u)
               (JObj [(''commentId'', JStr ?i), (''taskId'', JStr t), (''orgId'', JStr g)]) ?w2"
  have "snd (createComment now g u t body p w) = w \<or>
      snd (createComment now g u t body p w) = snd (create_mentions now g t ?i u (extractMentionHandles body) ?w3)"
    by (simp add: createComment_def parseAndCreate_def draw_def Let_def split_def split: sum.split)
  moreover note create_mentions_frame [of now g t ?i u "extractMentionHandles body" ?w3]
  ultimately show ?thesis
    by (intro goodI task_step.other) (auto simp: typed_def rows_elsewhere_def)
qed

lemma good_deleteComment: "good g w (snd (deleteComment now g i u w))"
proof (cases "find_comment g i w")
  case (Some c)
  then have c: "c \<in> set (comments w)" "c_id c = i" "c_org_id c = g" by (auto simp: find_comment_def dest: find_SomeD)
  have own: "c_org_id x = g" if "distinct (map c_id (comments w))" "x \<in> set (comments w)" "c_id x = i" for x
    using that c by (auto simp: distinct_map inj_on_def)
  have "filter (\<lambda>c. c_org_id c \<noteq> g) (update_where (\<lambda>c. c_id c = i) (\<lambda>c. c\<lparr>c_deleted_at := Some now\<rparr>) cs) =
      filter (\<lambda>c. c_org_id c \<noteq> g) cs" if "distinct (map c_id (comments w))" "set cs \<subseteq> set (comments w)" for cs
    using that(2) own [OF that(1)] by (induction cs) auto
  from this [OF _ subset_refl] show ?thesis
    by (intro goodI task_step.other) (auto simp: deleteComment_def Some typed_def rows_elsewhere_def unique_ids_def)
qed (simp add: deleteComment_def)

section \<open>Every route\<close>

lemma create_typed:
  assumes "conforms createTaskSchema d" and "decode_create_task d = Some inp"
  shows "typed_create inp"
proof -
  have c: "conforms (ZObject create_fields) d" using assms(1) by (simp add: createTaskSchema_def)
  have f: "required as_str ''workspace_id'' d = Some (ci_workspace_id inp)" "required as_str ''title'' d = Some (ci_title inp)"
    "nullish_field as_str ''board_id'' d = Some (ci_board_id inp)" "nullish_field as_str ''parent_task_id'' d = Some (ci_parent_task_id inp)"
    "nullish_field as_str ''template_id'' d = Some (ci_template_id inp)"
    using assms(2) by (auto simp: decode_create_task_def split: bind_splits)
  have "check_string (Min 1) (ci_title inp)" "check_string (Max 500) (ci_title inp)"
    by (rule required_str [OF f(2) c, of "[Min 1, Max 500]"], simp add: create_fields_def, simp)+
  moreover have "check_string Uuid (ci_workspace_id inp)"
    by (rule required_str [OF f(1) c, of "[Uuid]"]) (simp_all add: create_fields_def)
  moreover have uid: "check_string Uuid x"
    if "k \<in> {''board_id'', ''parent_task_id'', ''template_id''}" "nullish_field as_str k d = Some (Some x)" for k x
    by (rule nullish_str [OF that(2) c, of "[Uuid]"]) (use that(1) in \<open>auto simp: create_fields_def\<close>)
  ultimately show ?thesis
    using f uid [of "''board_id''"] uid [of "''parent_task_id''"] uid [of "''template_id''"]
    by (simp add: typed_create_def split: option.split)
qed

lemma update_typed:
  assumes "conforms updateTaskSchema d" and "decode_update_task d = Some inp"
  shows "typed_update (update_task_data.truncate inp)"
proof -
  have c: "conforms (ZObject update_fields) d" using assms(1) by (simp add: updateTaskSchema_def)
  have f: "optional as_str ''title'' d = Some (ut_title inp)" "optional (as_nullable as_str) ''board_id'' d = Some (ut_board_id inp)"
    using assms(2) by (auto simp: decode_update_task_def split: bind_splits)
  have "check_string (Min 1) s" "check_string (Max 500) s" if "ut_title inp = Some s" for s
    by (rule optional_str [OF _ c, of "''title''" _ "[Min 1, Max 500]"], use f that in simp, simp add: update_fields_def, simp)+
  moreover have "check_string Uuid b" if "ut_board_id inp = Some (Some b)" for b
    by (rule nullish_str [OF _ c, of "''board_id''" _ "[Uuid]"]) (use f that in \<open>simp_all add: nullish_field_def update_fields_def\<close>)
  ultimately show ?thesis by (auto simp: typed_update_def update_task_data.truncate_def split: option.splits)
qed

lemma template_typed:
  assumes c: "conforms (ZObject template_fields) d" and "decode_template d = Some inp"
  shows "typed_template_input inp"
proof -
  have f: "required as_str ''name'' d = Some (cti_name inp)" "nullish_field as_str ''default_title'' d = Some (cti_default_title inp)"
    using assms(2) by (auto simp: decode_template_def split: bind_splits)
  have "check_string (Min 1) (cti_name inp)" "check_string (Max 255) (cti_name inp)"
    by (rule required_str [OF f(1) c, of "[Min 1, Max 255]"], simp add: template_fields_def, simp)+
  moreover have "check_string (Max 500) s" if "cti_default_title inp = Some s" for s
    by (rule nullish_str [OF _ c, of "''default_title''" _ "[Max 500]"]) (use f that in \<open>simp_all add: template_fields_def\<close>)
  ultimately show ?thesis by (auto simp: typed_template_input_def split: option.splits)
qed

lemmas handler_defs =
  create_task_handler_def list_tasks_handler_def get_task_handler_def update_task_handler_def delete_task_handler_def
  add_dependency_handler_def list_dependencies_handler_def remove_dependency_handler_def bulk_status_handler_def
  bulk_delete_handler_def create_template_handler_def list_templates_handler_def delete_template_handler_def
  create_comment_handler_def list_comments_handler_def delete_comment_handler_def task_activity_handler_def
  org_activity_handler_def

lemma route_good:
  assumes v: "schema_validator (he_safeParse env)" and "r \<in> set (task_routes env)"
  shows "good (oc_orgId c) w (snd (ro_handler r params rq meta u c w))"
proof -
  have "r \<in> set (task_routes env) \<Longrightarrow> ?thesis"
    unfolding task_routes_def mk_route_def handler_defs
    by (auto intro!: good_validate [OF v] good_uuid good_createTask good_updateTask good_deleteTask good_dependencies
      good_bulkUpdateStatus good_bulkDelete good_createTemplate good_deleteTemplate good_createComment good_deleteComment
      create_typed update_typed template_typed good_answer good_read split: prod.splits)
  with assms(2) show ?thesis by blast
qed

lemma get_reads_only:
  assumes "r \<in> set (task_routes env)" and "ro_method r = ''GET''"
  shows "snd (ro_handler r params rq meta u c w) = w"
  using assms unfolding task_routes_def mk_route_def handler_defs
  by (auto intro!: snd_validate_read split: prod.splits)

section \<open>Properties\<close>

text \<open>The API as a transition system: a request to one of the routes, a run of the recurring-task worker, or
  anything that leaves the tables of tasks, dependencies and templates alone.\<close>

inductive api_step :: "idem_row list \<times> 'a work_db_scheme \<Rightarrow> idem_row list \<times> 'a work_db_scheme \<Rightarrow> bool" where
  request: "schema_validator (he_safeParse env) \<Longrightarrow> serve env (task_routes env) rq st = (a, st') \<Longrightarrow> api_step st st'"
| worker: "runRecurringTaskJob rr sd now p g w = (res, w') \<Longrightarrow> api_step (ks, w) (ks, w')"
| elsewhere: "tasks w' = tasks w \<Longrightarrow> task_dependencies w' = task_dependencies w \<Longrightarrow> task_templates w' = task_templates w \<Longrightarrow>
    entropy w' = entropy w \<Longrightarrow> drawn w \<le> drawn w' \<Longrightarrow> api_step (ks, w) (ks', w')"

lemma runRecurring_templates: "runRecurringTaskJob rr sd now p g w = (res, w') \<Longrightarrow> task_templates w' = task_templates w"
  by (auto simp: runRecurringTaskJob_def task_create_def draw_def Let_def split: option.splits if_splits)

lemma runRecurring_typed:
  assumes "runRecurringTaskJob rr sd now p g w = (res, w')" and "typed w"
  shows "typed w'"
  using assms(1)
proof (cases rule: runRecurringTaskJob_cases)
  case (spawned t due)
  have "typed_task t" using spawned(1) assms(2) by (auto simp: typed_def list_all_iff dest: task_findById_SomeD)
  then have "typed_task (new_task now (entropy w (drawn w)) (occurrence_of g t due))"
    by (simp add: typed_task_def new_task_def occurrence_of_def)
  with spawned assms runRecurring_templates [OF assms(1)] show ?thesis by (simp add: typed_def)
qed (use assms(2) runRecurring_templates [OF assms(1)] in \<open>simp add: typed_def\<close>)

interpretation task_api: api_invariant task_routes "\<lambda>w. task_inv w \<and> typed w"
proof
  fix w :: "'a work_db_scheme" and n f
  assume i: "task_inv w \<and> typed w" and n: "drawn w \<le> n"
  have "task_step w (w\<lparr>drawn := n, redis := f\<rparr>)" by (rule task_step.other) (use n in simp_all)
  with i show "task_inv (w\<lparr>drawn := n, redis := f\<rparr>) \<and> typed (w\<lparr>drawn := n, redis := f\<rparr>)"
    by (auto intro: task_step_inv simp: typed_def)
next
  fix env and r :: "'a work_db_scheme route" and w :: "'a work_db_scheme" and params rq meta u c
  assume "schema_validator (he_safeParse env)" "r \<in> set (task_routes env)" "task_inv w \<and> typed w"
  with route_good [of env r c w params rq meta u]
  show "task_inv (snd (ro_handler r params rq meta u c w)) \<and> typed (snd (ro_handler r params rq meta u c w))"
    by (auto simp: good_def intro: task_step_inv)
qed

lemma api_step_keeps:
  assumes "api_step st st'" and "task_inv (snd st)" and "typed (snd st)"
  shows "task_inv (snd st') \<and> typed (snd st')"
  using assms
proof (cases rule: api_step.cases)
  case (request env rq a)
  obtain ks w ks' w' where st: "st = (ks, w)" "st' = (ks', w')" by (cases st, cases st')
  have "task_inv w' \<and> typed w'"
    by (rule task_api.serve_keeps [OF request(1) request(2) [unfolded st]]) (use st assms(2,3) in simp)
  with st show ?thesis by simp
next
  case (worker rr sd now p g w res w' ks)
  with assms(2,3) runRecurring_typed [OF worker(3)] show ?thesis by (auto intro: task_step_inv task_step.recur)
next
  case (elsewhere w' w ks ks')
  with assms(2,3) show ?thesis by (auto intro: task_step_inv task_step.other simp: typed_def)
qed

text \<open>C32. Types of the stored rows: starting from empty tables, whatever requests are sent to the task routes, with
  whatever bodies, paths and headers, and whatever the worker does, every task has a title of 1 to 500
  characters and UUIDs for its workspace, board, parent and template, every template has a name of 1 to 255
  characters and a default title of at most 500, and the tables keep the tree, the acyclic dependencies and
  the unique occurrences.  This needs of zod only that the data of a successful parse has the form of the
  schema.\<close>

theorem task_api_types:
  assumes "api_step\<^sup>*\<^sup>* (ks, w0) (ks', w)" and "tasks w0 = []" "task_dependencies w0 = []" "task_templates w0 = []"
    and "inj (entropy w0)"
  shows "list_all typed_task (tasks w) \<and> list_all typed_template (task_templates w) \<and>
    task_tree (tasks w) \<and> (\<forall>g. acyclic (set (dep_edges g w))) \<and> dedup_ok (tasks w)"
proof -
  have "task_inv w0 \<and> typed w0"
    using assms(2-5) by (simp add: task_inv_def ids_drawn_def task_tree_def dedup_ok_def deps_acyclic_def dep_edges_def
        acyclic_def typed_def)
  with assms(1) have "task_inv (snd (ks', w)) \<and> typed (snd (ks', w))"
    by (induction rule: rtranclp_induct) (use api_step_keeps in auto)
  then show ?thesis by (simp add: task_inv_def deps_acyclic_def typed_def)
qed


text \<open>\<^verbatim>\<open>DELETE /orgs/:orgId/tasks/:taskId\<close> is registered before \<^verbatim>\<open>DELETE /orgs/:orgId/tasks/bulk\<close> and matches its
  path: the bulk deletion cannot be reached.  The request is served as the deletion of the task \<^verbatim>\<open>bulk\<close>, which is not
  a UUID; it is answered with an error and no task changes.\<close>

theorem bulk_delete_unreachable:
  fixes w :: "'a work_db_scheme"
  assumes "rq_method rq = ''DELETE''" and "he_match env ''/orgs/:orgId/tasks/:taskId'' (rq_path rq) = Some params"
    and "params ''taskId'' = ''bulk''" and "\<not> he_pg_uuid env ''bulk''"
    and "serve env (task_routes env) rq (ks, w) = (a, ks', w')"
  shows "(\<exists>e. a = Some (error_answer e)) \<and> ks' = ks \<and> tasks w' = tasks w"
proof -
  let ?h = "delete_task_handler env :: 'a work_db_scheme handler"
  have r: "find_route (he_match env) (rq_method rq) (rq_path rq) (task_routes env) =
      Some (mk_route ''DELETE'' ''/orgs/:orgId/tasks/:taskId'' False ?h, params)"
    using assms(1,2) by (simp add: task_routes_def mk_route_def)
  have d: "delete_task_handler env params rq meta u c w = (error_answer (PgError ''22P02''), w)" for meta u c and w :: "'a work_db_scheme"
    using assms(3,4) by (simp add: delete_task_handler_def with_uuid_def no_checks_def answer_with_def)
  obtain meta w0 where m: "responseEnvelope (he_now env) rq w = (meta, w0)" by fastforce
  obtain o1 w1 where mw: "orgMiddleware (he_crypto env) (he_keys env) (he_redis_up env) (he_now env) (request.truncate rq) w0 = (o1, w1)"
    by fastforce
  have t: "tasks w1 = tasks w" using responseEnvelope_draws [OF m] orgMiddleware_redis [OF mw] by auto
  have "run_route env (mk_route ''DELETE'' ''/orgs/:orgId/tasks/:taskId'' False ?h) params rq meta (ks, w0) =
      (error_answer (case o1 of Inl e \<Rightarrow> e | Inr _ \<Rightarrow> PgError ''22P02''), ks, w1)"
    by (simp add: run_route_def mw mk_route_def d split: sum.split prod.split)
  with assms(5) m r t show ?thesis by (auto simp: serve_def)
qed

section \<open>Example\<close>

definition ex_task_env :: http_env where
  "ex_task_env = \<lparr>he_crypto = ex_org_crypto, he_keys = ex_keys, he_redis_up = False, he_now = 0, he_safeParse = zod_safeParse,
     he_match = (\<lambda>pattern path. if pattern = ''/orgs/:orgId/tasks'' \<and> path = ''/orgs/g/tasks'' then Some (\<lambda>_. ''g'')
       else if pattern = ''/orgs/:orgId/tasks/:taskId'' \<and> path = ''/orgs/g/tasks/bulk'' then Some (\<lambda>k. if k = ''taskId'' then ''bulk'' else ''g'')
       else None),
     he_pg_uuid = is_uuid\<rparr>"

definition ex_task_request :: "string \<Rightarrow> http_request" where
  "ex_task_request title = \<lparr>rq_method = ''POST'', rq_path = ''/orgs/g/tasks'', rq_authorization = Some ''Bearer tok'',
     rq_org_id = Some ''g'', rq_idempotency_key = Some ''k'', rq_correlation_id = None, rq_query = JObj [],
     rq_body = JObj [(''workspace_id'', JStr ''11111111-2222-3333-4444-555555555555''), (''title'', JStr title)]\<rparr>"

definition ex_task_db :: work_db where
  "ex_task_db = (ex_work [])\<lparr>users := [ex_user], organizations := [ex_org ''g'' OrgActive],
     org_memberships := [ex_member ''g'' ''u1'' Member]\<rparr>"

lemma ex_task_org:
  "orgMiddleware ex_org_crypto ex_keys False 0 (request.truncate (ex_task_request title)) (ex_task_db\<lparr>drawn := n\<rparr>) =
     (Inr (\<lparr>ru_userId = ''u1'', ru_orgId = ''g'', ru_role = ''member'', ru_isPlatformAdmin = False, ru_jti = ''j0'',
            ru_exp = 900, ru_authTime = None, ru_mfaVerifiedAt = None\<rparr>,
           \<lparr>oc_orgId = ''g'', oc_orgStatus = ''active'', oc_memberRole = ''member''\<rparr>), ex_task_db\<lparr>drawn := n\<rparr>)"
  by (simp add: orgMiddleware_def ex_task_request_def request.truncate_def authenticate_def verifyToken_def getPublicKey_def
      ex_keys_def registerPublicKey_def ex_org_crypto_def ex_crypto_def ex_org_claims_def ex_claims_def resolveUser_def
      ex_task_db_def ex_work_def ex_user_def new_user_def orgContextMiddleware_def resolveOrgContext_def member_and_status_def
      ex_member_def ex_org_def orgStatusMiddleware_def org_status_name_def role_name_def isSuspendedBypass_def WRITE_METHODS_def Let_def)

lemma ex_task_uuid: "is_uuid ''11111111-2222-3333-4444-555555555555''"
  by code_simp

lemma ex_task_parse:
  "zod_safeParse createTaskSchema (rq_body (ex_task_request ''T'')) = Some (rq_body (ex_task_request ''T''))"
  by (simp add: zod_safeParse_def createTaskSchema_def create_fields_def ex_task_request_def taskStatusEnum_def taskPriorityEnum_def
      ex_task_uuid Let_def)

lemma ex_task_decode:
  "decode_create_task (rq_body (ex_task_request ''T'')) =
     Some (ex_input\<lparr>ci_workspace_id := ''11111111-2222-3333-4444-555555555555''\<rparr>)"
  by (simp add: decode_create_task_def ex_task_request_def ex_input_def required_def optional_def nullish_field_def json_field_def
      as_str_def to_date_def)

text \<open>The task the request creates.\<close>

definition ex_created :: task where
  "ex_created = new_task 0 ''xx'' (create_data ''g'' ''u1'' 0 (ex_input\<lparr>ci_workspace_id := ''11111111-2222-3333-4444-555555555555''\<rparr>))"

lemma ex_task_create:
  "tasks (snd (createTask 0 ''g'' ''u1'' (ex_input\<lparr>ci_workspace_id := ''11111111-2222-3333-4444-555555555555''\<rparr>) (ex_task_db\<lparr>drawn := 2\<rparr>))) = [ex_created]"
  "task_templates (snd (createTask 0 ''g'' ''u1'' (ex_input\<lparr>ci_workspace_id := ''11111111-2222-3333-4444-555555555555''\<rparr>) (ex_task_db\<lparr>drawn := 2\<rparr>))) = []"
  "task_dependencies (snd (createTask 0 ''g'' ''u1'' (ex_input\<lparr>ci_workspace_id := ''11111111-2222-3333-4444-555555555555''\<rparr>) (ex_task_db\<lparr>drawn := 2\<rparr>))) = []"
  by (simp_all add: createTask_def check_parent_def ex_input_def task_create_def new_task_def create_data_def dedup_conflict_def
      dedup_key_def draw_def ex_task_db_def ex_work_def ex_created_def Let_def numeral_2_eq_2)

lemma ex_task_serve:
  "\<exists>a ks' w'. serve ex_task_env (task_routes ex_task_env) (ex_task_request ''T'') ([], ex_task_db) = (a, ks', w') \<and>
     tasks w' = [ex_created] \<and> task_templates w' = [] \<and> task_dependencies w' = []"
proof -
  let ?rq = "ex_task_request ''T''"
  let ?w = "ex_task_db\<lparr>drawn := 2\<rparr>"
  have rq: "rq_method ?rq = ''POST''" "rq_path ?rq = ''/orgs/g/tasks''" "rq_idempotency_key ?rq = Some ''k''"
    by (simp_all add: ex_task_request_def)
  obtain meta where m: "responseEnvelope 0 ?rq ex_task_db = (meta, ?w)"
    by (simp add: responseEnvelope_def ex_task_request_def draw_def Let_def ex_task_db_def ex_work_def)
  have route: "find_route (he_match ex_task_env) ''POST'' ''/orgs/g/tasks'' (task_routes ex_task_env) =
      Some (mk_route ''POST'' ''/orgs/:orgId/tasks'' True (create_task_handler ex_task_env), \<lambda>_. ''g'')"
    by (simp add: task_routes_def mk_route_def ex_task_env_def)
  have env: "he_crypto ex_task_env = ex_org_crypto" "he_keys ex_task_env = ex_keys" "he_redis_up ex_task_env = False"
    "he_now ex_task_env = 0" "he_safeParse ex_task_env = zod_safeParse" by (simp_all add: ex_task_env_def)
  show ?thesis
    by (simp add: serve_def env m rq route run_route_def ex_task_org mk_route_def idempotencyMiddleware_def idem_request_of_def
       create_task_handler_def validate_def ex_task_parse cast_to_def ex_task_decode IDEMPOTENCY_METHODS_def or_else_def
       checkAndStore_def idem_lookup_def Let_def split_def ex_task_create)
qed

theorem task_api_types_witness:
  "\<exists>ks' w. api_step\<^sup>*\<^sup>* ([], ex_task_db) (ks', w) \<and> tasks w = [ex_created] \<and> typed_task ex_created \<and> task_tree (tasks w)"
proof -
  obtain a ks' w where s: "serve ex_task_env (task_routes ex_task_env) (ex_task_request ''T'') ([], ex_task_db) = (a, ks', w)"
    and t: "tasks w = [ex_created]" using ex_task_serve by blast
  have "schema_validator (he_safeParse ex_task_env)" using zod.schema_validator_axioms by (simp add: ex_task_env_def)
  then have r: "api_step\<^sup>*\<^sup>* ([], ex_task_db) (ks', w)" using s by (intro r_into_rtranclp api_step.request)
  from task_api_types [OF r] t have "typed_task ex_created \<and> task_tree (tasks w)"
    by (simp add: ex_task_db_def ex_work_def replicate_inj)
  with r t show ?thesis by blast
qed


theorem bulk_delete_unreachable_witness:
  "\<exists>e ks' w'. serve ex_task_env (task_routes ex_task_env)
      ((ex_task_request ''T'')\<lparr>rq_method := ''DELETE'', rq_path := ''/orgs/g/tasks/bulk''\<rparr>) ([], ex_work ex_three) =
     (Some (error_answer e), ks', w') \<and> tasks w' = ex_three"
proof -
  let ?rq = "(ex_task_request ''T'')\<lparr>rq_method := ''DELETE'', rq_path := ''/orgs/g/tasks/bulk''\<rparr>"
  obtain a ks' w' where s: "serve ex_task_env (task_routes ex_task_env) ?rq ([], ex_work ex_three) = (a, ks', w')"
    using prod_cases3 by blast
  have "he_match ex_task_env ''/orgs/:orgId/tasks/:taskId'' (rq_path ?rq) = Some (\<lambda>k. if k = ''taskId'' then ''bulk'' else ''g'')"
    "\<not> he_pg_uuid ex_task_env ''bulk''" by (simp_all add: ex_task_env_def is_uuid_def)
  from bulk_delete_unreachable [OF _ this(1) _ this(2) s] s show ?thesis by (auto simp: ex_work_def)
qed

end
