(* ===== verification/Chat.thy ===== *)
theory Chat
  imports Feature_Flag Interfaces
begin

text \<open>
  \<^verbatim>\<open>src/modules/chat\<close>: channels, their members, the per-channel sequences and messages, and the
  \<^verbatim>\<open>client:sync\<close> handler of \<^verbatim>\<open>src/shared/realtime/reconnect.handler.ts\<close>.
\<close>

section \<open>State\<close>

datatype channel_type = ChDirect | ChGroup

record channel =
  ch_id :: uuid
  ch_org_id :: uuid
  ch_type :: channel_type
  ch_name :: "string option"
  ch_created_by :: uuid
  ch_workspace_id :: "uuid option"
  ch_deleted_at :: "timestamp option"
  ch_created_at :: timestamp
  ch_updated_at :: timestamp

record channel_member =
  cm_channel_id :: uuid
  cm_user_id :: uuid
  cm_org_id :: uuid
  cm_last_read_sequence :: int
  cm_last_read_at :: "timestamp option"
  cm_joined_at :: timestamp
  cm_removed_at :: "timestamp option"

record direct_pair =
  dp_org_id :: uuid
  dp_user_a_id :: uuid
  dp_user_b_id :: uuid
  dp_channel_id :: uuid
  dp_created_at :: timestamp

record message =
  msg_id :: uuid
  msg_org_id :: uuid
  msg_channel_id :: uuid
  msg_sender_id :: uuid
  msg_client_message_id :: uuid
  msg_sequence_number :: int
  msg_body :: string
  msg_body_parsed :: "json option"
  msg_parent_message_id :: "uuid option"
  msg_is_edited :: bool
  msg_edit_history :: "json list"
  msg_deleted_at :: "timestamp option"
  msg_created_at :: timestamp

text \<open>A PostgreSQL sequence: the value \<^verbatim>\<open>nextval\<close> returns next.\<close>

record chat_db = flag_db +
  channels :: "channel list"
  channel_members :: "channel_member list"
  direct_channel_pairs :: "direct_pair list"
  chat_messages :: "message list"
  sequences :: "string \<Rightarrow> int option"

section \<open>Channel repository\<close>

definition channel_live :: "channel \<Rightarrow> bool" where
  "channel_live c = (ch_deleted_at c = None)"

definition channel_findById :: "uuid \<Rightarrow> 'a chat_db_scheme \<Rightarrow> channel option" where
  "channel_findById i w = List.find (\<lambda>c. ch_id c = i \<and> channel_live c) (channels w)"

definition channel_findByOrg :: "uuid \<Rightarrow> string option \<Rightarrow> 'a chat_db_scheme \<Rightarrow> channel list" where
  "channel_findByOrg orgId workspaceId w =
     sort_key ch_created_at
       (filter (\<lambda>c. ch_org_id c = orgId \<and> (truthy workspaceId \<longrightarrow> ch_workspace_id c = workspaceId) \<and> channel_live c) (channels w))"

definition channel_create ::
    "timestamp \<Rightarrow> uuid \<Rightarrow> channel_type \<Rightarrow> uuid \<Rightarrow> string option \<Rightarrow> uuid option \<Rightarrow> 'a chat_db_scheme \<Rightarrow> channel \<times> 'a chat_db_scheme" where
  "channel_create now orgId ty createdBy name workspaceId w =
     (let (i, w1) = draw w;
          c = \<lparr>ch_id = i, ch_org_id = orgId, ch_type = ty, ch_name = name, ch_created_by = createdBy,
               ch_workspace_id = workspaceId, ch_deleted_at = None, ch_created_at = now, ch_updated_at = now\<rparr>
      in (c, w1\<lparr>channels := channels w1 @ [c]\<rparr>))"

definition addMember :: "timestamp \<Rightarrow> uuid \<Rightarrow> uuid \<Rightarrow> uuid \<Rightarrow> 'a chat_db_scheme \<Rightarrow> 'a chat_db_scheme" where
  "addMember now channelId orgId userId w =
     (if list_ex (\<lambda>m. cm_channel_id m = channelId \<and> cm_user_id m = userId) (channel_members w) then w
      else w\<lparr>channel_members := channel_members w @
             [\<lparr>cm_channel_id = channelId, cm_user_id = userId, cm_org_id = orgId, cm_last_read_sequence = 0,
               cm_last_read_at = None, cm_joined_at = now, cm_removed_at = None\<rparr>]\<rparr>)"

definition isMember :: "uuid \<Rightarrow> uuid \<Rightarrow> 'a chat_db_scheme \<Rightarrow> bool" where
  "isMember channelId userId w =
     list_ex (\<lambda>m. cm_channel_id m = channelId \<and> cm_user_id m = userId \<and> cm_removed_at m = None) (channel_members w)"

definition getMembers :: "uuid \<Rightarrow> 'a chat_db_scheme \<Rightarrow> channel_member list" where
  "getMembers channelId w = filter (\<lambda>m. cm_channel_id m = channelId \<and> cm_removed_at m = None) (channel_members w)"

text \<open>The primary key, the unique channel and the check \<^verbatim>\<open>user_a_id < user_b_id\<close>.\<close>

definition insertDirectPair ::
    "timestamp \<Rightarrow> uuid \<Rightarrow> uuid \<Rightarrow> uuid \<Rightarrow> uuid \<Rightarrow> 'a chat_db_scheme \<Rightarrow> unit outcome \<times> 'a chat_db_scheme" where
  "insertDirectPair now orgId a b channelId w =
     (if \<not> a < b then (Inl (PgError ''23514''), w)
      else if list_ex (\<lambda>p. (dp_org_id p = orgId \<and> dp_user_a_id p = a \<and> dp_user_b_id p = b) \<or> dp_channel_id p = channelId)
                (direct_channel_pairs w)
      then (Inl (PgError ''23505''), w)
      else (Inr (), w\<lparr>direct_channel_pairs := direct_channel_pairs w @
              [\<lparr>dp_org_id = orgId, dp_user_a_id = a, dp_user_b_id = b, dp_channel_id = channelId, dp_created_at = now\<rparr>]\<rparr>))"

definition findDirectChannel :: "uuid \<Rightarrow> uuid \<Rightarrow> uuid \<Rightarrow> 'a chat_db_scheme \<Rightarrow> channel option" where
  "findDirectChannel orgId userAId userBId w =
     (let a = (if userAId < userBId then userAId else userBId);
          b = (if userAId < userBId then userBId else userAId)
      in List.find (\<lambda>c. channel_live c \<and>
           list_ex (\<lambda>p. dp_channel_id p = ch_id c \<and> dp_org_id p = orgId \<and> dp_user_a_id p = a \<and> dp_user_b_id p = b)
             (direct_channel_pairs w)) (channels w))"

definition updateLastRead :: "timestamp \<Rightarrow> uuid \<Rightarrow> uuid \<Rightarrow> int \<Rightarrow> 'a chat_db_scheme \<Rightarrow> 'a chat_db_scheme" where
  "updateLastRead now channelId userId sequence w =
     w\<lparr>channel_members := update_where (\<lambda>m. cm_channel_id m = channelId \<and> cm_user_id m = userId)
         (\<lambda>m. m\<lparr>cm_last_read_sequence := sequence, cm_last_read_at := Some now\<rparr>) (channel_members w)\<rparr>"

section \<open>Sequences\<close>

definition sequence_name :: "uuid \<Rightarrow> string" where
  "sequence_name channelId = ''channel_seq_'' @ map (\<lambda>c. if c = CHR ''-'' then CHR ''_'' else c) channelId"

text \<open>\<^verbatim>\<open>create_channel_sequence\<close> creates the sequence if it does not exist.\<close>

definition create_channel_sequence :: "uuid \<Rightarrow> 'a chat_db_scheme \<Rightarrow> 'a chat_db_scheme" where
  "create_channel_sequence channelId w =
     (if sequences w (sequence_name channelId) = None
      then w\<lparr>sequences := (sequences w)(sequence_name channelId \<mapsto> 1)\<rparr> else w)"

definition nextSequence :: "uuid \<Rightarrow> 'a chat_db_scheme \<Rightarrow> int outcome \<times> 'a chat_db_scheme" where
  "nextSequence channelId w =
     (case sequences w (sequence_name channelId) of
        None \<Rightarrow> (Inl (PgError ''42P01''), w)
      | Some n \<Rightarrow> (Inr n, w\<lparr>sequences := (sequences w)(sequence_name channelId \<mapsto> n + 1)\<rparr>))"

section \<open>Message repository\<close>

definition findByClientMessageId :: "uuid \<Rightarrow> uuid \<Rightarrow> 'a chat_db_scheme \<Rightarrow> message option" where
  "findByClientMessageId channelId clientMessageId w =
     List.find (\<lambda>m. msg_channel_id m = channelId \<and> msg_client_message_id m = clientMessageId) (chat_messages w)"

definition message_findById :: "uuid \<Rightarrow> uuid \<Rightarrow> 'a chat_db_scheme \<Rightarrow> message option" where
  "message_findById i channelId w = List.find (\<lambda>m. msg_id m = i \<and> msg_channel_id m = channelId) (chat_messages w)"

definition message_create ::
    "timestamp \<Rightarrow> uuid \<Rightarrow> uuid \<Rightarrow> uuid \<Rightarrow> uuid \<Rightarrow> int \<Rightarrow> string \<Rightarrow> json option \<Rightarrow> uuid option
     \<Rightarrow> 'a chat_db_scheme \<Rightarrow> message \<times> 'a chat_db_scheme" where
  "message_create now orgId channelId senderId clientMessageId sequenceNumber body bodyParsed parentMessageId w =
     (let (i, w1) = draw w;
          m = \<lparr>msg_id = i, msg_org_id = orgId, msg_channel_id = channelId, msg_sender_id = senderId,
               msg_client_message_id = clientMessageId, msg_sequence_number = sequenceNumber, msg_body = body,
               msg_body_parsed = bodyParsed, msg_parent_message_id = parentMessageId, msg_is_edited = False,
               msg_edit_history = [], msg_deleted_at = None, msg_created_at = now\<rparr>
      in (m, w1\<lparr>chat_messages := chat_messages w1 @ [m]\<rparr>))"

text \<open>The newest \<open>limit\<close> messages, oldest first.\<close>

definition listByChannel :: "uuid \<Rightarrow> nat \<Rightarrow> int option \<Rightarrow> 'a chat_db_scheme \<Rightarrow> message list" where
  "listByChannel channelId limit beforeSequence w =
     rev (take limit (rev (sort_key msg_sequence_number
       (filter (\<lambda>m. msg_channel_id m = channelId \<and> msg_deleted_at m = None \<and>
                  (case beforeSequence of None \<Rightarrow> True | Some b \<Rightarrow> msg_sequence_number m < b)) (chat_messages w)))))"

definition message_softDelete :: "timestamp \<Rightarrow> uuid \<Rightarrow> uuid \<Rightarrow> uuid \<Rightarrow> 'a chat_db_scheme \<Rightarrow> bool \<times> 'a chat_db_scheme" where
  "message_softDelete now orgId messageId senderId w =
     (let P = (\<lambda>m. msg_id m = messageId \<and> msg_org_id m = orgId \<and> msg_sender_id m = senderId \<and> msg_deleted_at m = None)
      in (list_ex P (chat_messages w),
          w\<lparr>chat_messages := update_where P (\<lambda>m. m\<lparr>msg_deleted_at := Some now\<rparr>) (chat_messages w)\<rparr>))"

section \<open>Channel service\<close>

definition writeChannelEvent :: "timestamp \<Rightarrow> uuid \<Rightarrow> uuid \<Rightarrow> uuid \<Rightarrow> json \<Rightarrow> 'a base_scheme \<Rightarrow> 'a base_scheme" where
  "writeChannelEvent now orgId channelId actor payload w =
     insert_outbox now (Some orgId) ''channel.created'' ''channel'' channelId (Some actor) payload w"

definition direct_tx :: "timestamp \<Rightarrow> uuid \<Rightarrow> uuid \<Rightarrow> uuid \<Rightarrow> 'a chat_db_scheme \<Rightarrow> channel outcome \<times> 'a chat_db_scheme" where
  "direct_tx now orgId creatorId otherUserId w =
     (let (c, w1) = channel_create now orgId ChDirect creatorId None None w;
          w2 = addMember now (ch_id c) orgId otherUserId (addMember now (ch_id c) orgId creatorId w1);
          a = (if creatorId < otherUserId then creatorId else otherUserId);
          b = (if creatorId < otherUserId then otherUserId else creatorId)
      in and_then (insertDirectPair now orgId a b (ch_id c) w2)
           (\<lambda>_ w3. (Inr c, create_channel_sequence (ch_id c) w3)))"

text \<open>The channel and whether it was created.\<close>

definition createDirect ::
    "timestamp \<Rightarrow> uuid \<Rightarrow> uuid \<Rightarrow> uuid \<Rightarrow> 'a chat_db_scheme \<Rightarrow> (channel \<times> bool) outcome \<times> 'a chat_db_scheme" where
  "createDirect now orgId creatorId otherUserId w =
     (if creatorId = otherUserId then (Inl (AppError 400 ''CANNOT_DM_SELF'' []), w)
      else case findMembership orgId creatorId w of
        None \<Rightarrow> (Inl (AppError 403 ''NOT_ORG_MEMBER'' []), w)
      | Some _ \<Rightarrow>
          (case findMembership orgId otherUserId w of
             None \<Rightarrow> (Inl (NotFoundError ''OtherUser''), w)
           | Some _ \<Rightarrow>
               (case withTransaction (direct_tx now orgId creatorId otherUserId) w of
                  (Inr c, w1) \<Rightarrow>
                    (Inr (c, True), writeChannelEvent now orgId (ch_id c) creatorId
                       (JObj [(''channelId'', JStr (ch_id c)), (''orgId'', JStr orgId), (''type'', JStr ''direct'')]) w1)
                | (Inl e, w1) \<Rightarrow>
                    (if e = PgError ''23505''
                     then (case findDirectChannel orgId creatorId otherUserId w1 of
                             Some c \<Rightarrow> (Inr (c, False), w1) | None \<Rightarrow> (Inl e, w1))
                     else (Inl e, w1)))))"

definition group_tx ::
    "timestamp \<Rightarrow> uuid \<Rightarrow> uuid \<Rightarrow> string \<Rightarrow> uuid option \<Rightarrow> uuid list \<Rightarrow> 'a chat_db_scheme \<Rightarrow> channel outcome \<times> 'a chat_db_scheme" where
  "group_tx now orgId creatorId name workspaceId members w =
     (let (c, w1) = channel_create now orgId ChGroup creatorId (Some name) workspaceId w;
          w2 = fold (addMember now (ch_id c) orgId) members w1
      in (Inr c, create_channel_sequence (ch_id c) w2))"

definition createGroup ::
    "flag_env \<Rightarrow> nat \<Rightarrow> timestamp \<Rightarrow> uuid \<Rightarrow> uuid \<Rightarrow> string \<Rightarrow> uuid list \<Rightarrow> 'a chat_db_scheme \<Rightarrow> channel outcome \<times> 'a chat_db_scheme" where
  "createGroup env p now orgId creatorId name memberIds w0 =
     (case isEnabled env p now orgId ''feature.chat'' w0 of
        (False, w) \<Rightarrow> (Inl (ForbiddenError ''FEATURE_NOT_ENABLED''), w)
      | (True, w) \<Rightarrow>
          (if length memberIds < 2 then (Inl (AppError 422 ''INSUFFICIENT_MEMBERS'' []), w)
           else let allMembers = rev (remdups (rev (creatorId # memberIds))) in
                case List.find (\<lambda>u. findMembership orgId u w = None) allMembers of
                  Some u \<Rightarrow> (Inl (AppError 422 ''MEMBER_NOT_IN_ORG'' [u]), w)
                | None \<Rightarrow>
                    and_then (withTransaction (group_tx now orgId creatorId name None allMembers) w)
                      (\<lambda>c w1. (Inr c, writeChannelEvent now orgId (ch_id c) creatorId
                         (JObj [(''channelId'', JStr (ch_id c)), (''orgId'', JStr orgId), (''type'', JStr ''group''),
                                (''name'', JStr name)]) w1))))"

definition getChannel :: "uuid \<Rightarrow> uuid \<Rightarrow> 'a chat_db_scheme \<Rightarrow> channel outcome" where
  "getChannel orgId channelId w =
     (case channel_findById channelId w of
        None \<Rightarrow> Inl (NotFoundError ''Channel'')
      | Some c \<Rightarrow> if ch_org_id c = orgId then Inr c else Inl (NotFoundError ''Channel''))"

definition listChannels :: "uuid \<Rightarrow> string option \<Rightarrow> 'a chat_db_scheme \<Rightarrow> channel list" where
  "listChannels orgId workspaceId w = channel_findByOrg orgId workspaceId w"

definition createWorkspaceChannel ::
    "timestamp \<Rightarrow> uuid \<Rightarrow> uuid \<Rightarrow> string \<Rightarrow> uuid \<Rightarrow> 'a chat_db_scheme \<Rightarrow> channel outcome \<times> 'a chat_db_scheme" where
  "createWorkspaceChannel now orgId creatorId name workspaceId w =
     (case findMembership orgId creatorId w of
        None \<Rightarrow> (Inl (AppError 403 ''NOT_ORG_MEMBER'' []), w)
      | Some _ \<Rightarrow>
          and_then (withTransaction (group_tx now orgId creatorId name (Some workspaceId) [creatorId]) w)
            (\<lambda>c w1. (Inr c, writeChannelEvent now orgId (ch_id c) creatorId
               (JObj [(''channelId'', JStr (ch_id c)), (''orgId'', JStr orgId), (''type'', JStr ''group''),
                      (''name'', JStr name), (''workspaceId'', JStr workspaceId)]) w1)))"

definition assertChannelMember :: "uuid \<Rightarrow> uuid \<Rightarrow> 'a chat_db_scheme \<Rightarrow> unit outcome" where
  "assertChannelMember channelId userId w =
     (if isMember channelId userId w then Inr () else Inl (AppError 403 ''NOT_CHANNEL_MEMBER'' []))"

section \<open>Message service\<close>

record send_input =
  si_channelId :: uuid
  si_senderId :: uuid
  si_body :: string
  si_bodyParsed :: "json option"
  si_clientMessageId :: uuid
  si_parentMessageId :: "uuid option"

definition check_thread_parent :: "send_input \<Rightarrow> 'a chat_db_scheme \<Rightarrow> unit outcome" where
  "check_thread_parent input w =
     (if \<not> truthy (si_parentMessageId input) then Inr ()
      else case message_findById (the (si_parentMessageId input)) (si_channelId input) w of
             None \<Rightarrow> Inl (NotFoundError ''ParentMessage'')
           | Some p \<Rightarrow>
               (if msg_deleted_at p \<noteq> None then Inl (AppError 422 ''PARENT_DELETED'' [])
                else if msg_parent_message_id p \<noteq> None then Inl (AppError 422 ''THREADING_DEPTH_EXCEEDED'' [])
                else Inr ()))"

definition message_send :: "timestamp \<Rightarrow> uuid \<Rightarrow> send_input \<Rightarrow> 'a chat_db_scheme \<Rightarrow> message outcome \<times> 'a chat_db_scheme" where
  "message_send now orgId input w =
     (if \<not> isMember (si_channelId input) (si_senderId input) w then (Inl (AppError 403 ''NOT_CHANNEL_MEMBER'' []), w)
      else case findByClientMessageId (si_channelId input) (si_clientMessageId input) w of
        Some m \<Rightarrow> (Inr m, w)
      | None \<Rightarrow>
          (case check_thread_parent input w of
             Inl e \<Rightarrow> (Inl e, w)
           | Inr _ \<Rightarrow>
               and_then (nextSequence (si_channelId input) w)
                 (\<lambda>n w1. let (m, w2) = message_create now orgId (si_channelId input) (si_senderId input)
                                   (si_clientMessageId input) n (si_body input) (si_bodyParsed input) (si_parentMessageId input) w1
                          in (Inr m, insert_outbox now (Some orgId) ''message.created'' ''message'' (msg_id m)
                                (Some (si_senderId input))
                                (JObj [(''messageId'', JStr (msg_id m)), (''channelId'', JStr (si_channelId input)),
                                       (''orgId'', JStr orgId), (''senderId'', JStr (si_senderId input)),
                                       (''sequenceNumber'', JStr (show_nat (nat n)))]) w2))))"

definition listMessages :: "uuid \<Rightarrow> uuid \<Rightarrow> nat \<Rightarrow> int option \<Rightarrow> 'a chat_db_scheme \<Rightarrow> message list outcome" where
  "listMessages channelId userId limit beforeSequence w =
     (if \<not> isMember channelId userId w then Inl (AppError 403 ''NOT_CHANNEL_MEMBER'' [])
      else Inr (listByChannel channelId limit beforeSequence w))"

definition deleteMessage :: "timestamp \<Rightarrow> uuid \<Rightarrow> uuid \<Rightarrow> uuid \<Rightarrow> 'a chat_db_scheme \<Rightarrow> unit outcome \<times> 'a chat_db_scheme" where
  "deleteMessage now orgId messageId userId w =
     (case message_softDelete now orgId messageId userId w of
        (False, w1) \<Rightarrow> (Inl (NotFoundError ''Message''), w1)
      | (True, w1) \<Rightarrow> (Inr (), w1))"

text \<open>\<^verbatim>\<open>client:sync\<close>: the messages emitted for each channel the client names, oldest first; it does not
  ask who is a member.\<close>

definition client_sync :: "(uuid \<times> int) list \<Rightarrow> 'a chat_db_scheme \<Rightarrow> (uuid \<times> message list) list" where
  "client_sync lastMessageSequences w =
     filter (\<lambda>(c, ms). ms \<noteq> [])
       (map (\<lambda>(channelId, lastSeq). (channelId, take 100 (sort_key msg_sequence_number
          (filter (\<lambda>m. msg_channel_id m = channelId \<and> lastSeq < msg_sequence_number m \<and> msg_deleted_at m = None) (chat_messages w)))))
        lastMessageSequences)"

section \<open>Frame lemmas\<close>

lemma chat_outbox_frame [simp]:
  "channels (insert_outbox now g ev et eid ac pl w) = channels w"
  "channel_members (insert_outbox now g ev et eid ac pl w) = channel_members w"
  "direct_channel_pairs (insert_outbox now g ev et eid ac pl w) = direct_channel_pairs w"
  "chat_messages (insert_outbox now g ev et eid ac pl w) = chat_messages w"
  "sequences (insert_outbox now g ev et eid ac pl w) = sequences w"
  by (simp_all add: insert_outbox_def draw_def)

lemma chat_isEnabled_frame [simp]:
  "channels (snd (isEnabled env p now g k w)) = channels w"
  "chat_messages (snd (isEnabled env p now g k w)) = chat_messages w"
  "sequences (snd (isEnabled env p now g k w)) = sequences w"
  by (simp_all add: isEnabled_def set_l1_def Let_def split: option.split prod.split)

lemma addMember_frame [simp]:
  "channels (addMember now c g u w) = channels w" "chat_messages (addMember now c g u w) = chat_messages w"
  "sequences (addMember now c g u w) = sequences w" "direct_channel_pairs (addMember now c g u w) = direct_channel_pairs w"
  "org_memberships (addMember now c g u w) = org_memberships w"
  by (simp_all add: addMember_def)

lemma fold_addMember_frame [simp]:
  "channels (fold (addMember now c g) us w) = channels w" "chat_messages (fold (addMember now c g) us w) = chat_messages w"
  "sequences (fold (addMember now c g) us w) = sequences w"
  by (induction us arbitrary: w) simp_all

lemma create_sequence_frame [simp]:
  "channels (create_channel_sequence c w) = channels w" "chat_messages (create_channel_sequence c w) = chat_messages w"
  "direct_channel_pairs (create_channel_sequence c w) = direct_channel_pairs w"
  "org_memberships (create_channel_sequence c w) = org_memberships w"
  by (simp_all add: create_channel_sequence_def)

lemma writeChannelEvent_frame [simp]:
  "channels (writeChannelEvent now g c a pl w) = channels w"
  "direct_channel_pairs (writeChannelEvent now g c a pl w) = direct_channel_pairs w"
  "chat_messages (writeChannelEvent now g c a pl w) = chat_messages w"
  "sequences (writeChannelEvent now g c a pl w) = sequences w"
  "org_memberships (writeChannelEvent now g c a pl w) = org_memberships w"
  by (simp_all add: writeChannelEvent_def)

section \<open>Order and threads\<close>

definition msg_before :: "message \<Rightarrow> message \<Rightarrow> bool" where
  "msg_before m m' = (msg_channel_id m = msg_channel_id m' \<longrightarrow> msg_sequence_number m < msg_sequence_number m')"

text \<open>
  Within a channel the sequence numbers increase in the order of insertion and stay below the value the
  sequence returns next; a client message id occurs once per channel; a reply has a parent in the same
  channel that is not itself a reply.
\<close>

definition chat_ok :: "'a chat_db_scheme \<Rightarrow> bool" where
  "chat_ok w =
     (sorted_wrt msg_before (chat_messages w) \<and>
      (\<forall>m \<in> set (chat_messages w). \<exists>n. sequences w (sequence_name (msg_channel_id m)) = Some n \<and> msg_sequence_number m < n) \<and>
      distinct (map (\<lambda>m. (msg_channel_id m, msg_client_message_id m)) (chat_messages w)) \<and>
      (\<forall>m \<in> set (chat_messages w). \<forall>i. msg_parent_message_id m = Some i \<longrightarrow>
         (\<exists>q \<in> set (chat_messages w). msg_id q = i \<and> msg_channel_id q = msg_channel_id m \<and> msg_parent_message_id q = None)))"

text \<open>An operation that adds no message and drops no sequence.\<close>

definition seq_ext :: "'a chat_db_scheme \<Rightarrow> 'a chat_db_scheme \<Rightarrow> bool" where
  "seq_ext w w' = (chat_messages w' = chat_messages w \<and> (\<forall>k n. sequences w k = Some n \<longrightarrow> sequences w' k = Some n))"

lemma seq_ext_refl [simp]: "seq_ext w w"
  by (simp add: seq_ext_def)

lemma seq_ext_write [simp]: "seq_ext w (writeChannelEvent now g c a pl w') = seq_ext w w'"
  by (simp add: seq_ext_def)

lemma chat_ok_frame: "chat_ok w \<Longrightarrow> seq_ext w w' \<Longrightarrow> chat_ok w'"
  by (simp add: chat_ok_def seq_ext_def) blast

lemma seq_ext_tx:
  "(\<And>r w'. fn w = (Inr r, w') \<Longrightarrow> seq_ext w w') \<Longrightarrow> withTransaction fn w = (res, w1) \<Longrightarrow> seq_ext w w1"
  by (auto simp: withTransaction_def split: prod.splits sum.splits)

lemma direct_tx_ext: "direct_tx now g u v w = (Inr c, w') \<Longrightarrow> seq_ext w w'"
  by (auto simp: direct_tx_def channel_create_def draw_def insertDirectPair_def Let_def seq_ext_def
      create_channel_sequence_def split: if_splits)

lemma group_tx_ext: "group_tx now g u name ws us w = (Inr c, w') \<Longrightarrow> seq_ext w w'"
  by (auto simp: group_tx_def channel_create_def draw_def Let_def create_channel_sequence_def seq_ext_def split: if_splits)

lemma createDirect_ext: "seq_ext w (snd (createDirect now g u v w))"
proof -
  obtain r w1 where t: "withTransaction (direct_tx now g u v) w = (r, w1)" by fastforce
  have "seq_ext w w1" by (rule seq_ext_tx [OF _ t]) (rule direct_tx_ext)
  then show ?thesis by (cases r) (simp_all add: createDirect_def t split: option.split)
qed

lemma createGroup_ext: "seq_ext w (snd (createGroup env p now g u name us w))"
proof -
  obtain b w0 where e: "isEnabled env p now g ''feature.chat'' w = (b, w0)" by fastforce
  let ?f = "group_tx now g u name None (rev (remdups (rev (u # us))))"
  obtain r w1 where t: "withTransaction ?f w0 = (r, w1)" by fastforce
  have "seq_ext w0 w1" by (rule seq_ext_tx [OF _ t]) (rule group_tx_ext)
  moreover have "chat_messages w0 = chat_messages w" "sequences w0 = sequences w"
    using chat_isEnabled_frame(2,3) [of env p now g "''feature.chat''" w] e by simp_all
  ultimately have "seq_ext w w1" "seq_ext w w0" by (simp_all add: seq_ext_def)
  then show ?thesis
    by (cases r; cases b) (simp_all add: createGroup_def e Let_def t [simplified] split: option.split)
qed

lemma createWorkspaceChannel_ext: "seq_ext w (snd (createWorkspaceChannel now g u name ws w))"
proof -
  obtain r w1 where t: "withTransaction (group_tx now g u name (Some ws) [u]) w = (r, w1)" by fastforce
  have "seq_ext w w1" by (rule seq_ext_tx [OF _ t]) (rule group_tx_ext)
  then show ?thesis by (cases r) (simp_all add: createWorkspaceChannel_def t split: option.split)
qed

lemma chat_ok_send:
  assumes ok: "chat_ok w" and par: "si_parentMessageId input \<noteq> Some ''''"
  shows "chat_ok (snd (message_send now g input w))"
proof (cases "isMember (si_channelId input) (si_senderId input) w \<and>
    findByClientMessageId (si_channelId input) (si_clientMessageId input) w = None \<and> check_thread_parent input w = Inr ()")
  case False
  then show ?thesis using ok by (auto simp: message_send_def split: option.split sum.split)
next
  case True
  let ?c = "si_channelId input"
  show ?thesis
  proof (cases "sequences w (sequence_name ?c)")
    case None
    with True ok show ?thesis by (simp add: message_send_def nextSequence_def)
  next
    case (Some n)
    have "\<exists>m. msg_channel_id m = ?c \<and> msg_sequence_number m = n \<and> msg_client_message_id m = si_clientMessageId input \<and>
        msg_parent_message_id m = si_parentMessageId input \<and>
        chat_messages (snd (message_send now g input w)) = chat_messages w @ [m] \<and>
        sequences (snd (message_send now g input w)) = (sequences w)(sequence_name ?c \<mapsto> n + 1)"
      using True Some by (simp add: message_send_def nextSequence_def message_create_def draw_def Let_def)
    then obtain m where fields: "msg_channel_id m = ?c" "msg_sequence_number m = n" "msg_client_message_id m = si_clientMessageId input"
        "msg_parent_message_id m = si_parentMessageId input"
      and w': "chat_messages (snd (message_send now g input w)) = chat_messages w @ [m]"
        "sequences (snd (message_send now g input w)) = (sequences w)(sequence_name ?c \<mapsto> n + 1)" by blast
    have bound: "\<exists>k. sequences w (sequence_name (msg_channel_id x)) = Some k \<and> msg_sequence_number x < k"
      if "x \<in> set (chat_messages w)" for x using ok that by (simp add: chat_ok_def)
    have new: "(?c, si_clientMessageId input) \<notin> (\<lambda>m. (msg_channel_id m, msg_client_message_id m)) ` set (chat_messages w)"
      using True by (auto simp: findByClientMessageId_def find_None_iff)
    have parent: "\<exists>q \<in> set (chat_messages w). msg_id q = i \<and> msg_channel_id q = ?c \<and> msg_parent_message_id q = None"
      if "si_parentMessageId input = Some i" for i
    proof -
      from True that par obtain q where q: "message_findById i ?c w = Some q" "msg_parent_message_id q = None"
        by (auto simp: check_thread_parent_def split: option.splits if_splits)
      from find_SomeD [OF q(1) [unfolded message_findById_def]] q(2) show ?thesis by blast
    qed
    have "msg_before x m" if "x \<in> set (chat_messages w)" for x
      using bound [OF that] Some fields by (auto simp: msg_before_def)
    moreover have "\<exists>k. ((sequences w)(sequence_name ?c \<mapsto> n + 1)) (sequence_name (msg_channel_id x)) = Some k \<and> msg_sequence_number x < k"
      if "x \<in> set (chat_messages w)" for x using bound [OF that] Some by auto
    ultimately show ?thesis
      using ok new parent unfolding chat_ok_def w'
      by (auto simp: sorted_wrt_append fields)
  qed
qed

lemma chat_ok_map:
  assumes "chat_ok w" and "chat_messages w' = map f (chat_messages w)" and "sequences w' = sequences w"
    and f: "\<And>m. msg_id (f m) = msg_id m \<and> msg_channel_id (f m) = msg_channel_id m \<and> msg_sequence_number (f m) = msg_sequence_number m \<and>
      msg_client_message_id (f m) = msg_client_message_id m \<and> msg_parent_message_id (f m) = msg_parent_message_id m"
  shows "chat_ok w'"
proof -
  have "msg_before (f m) (f m') = msg_before m m'" for m m' by (simp add: msg_before_def f)
  with assms(1) f show ?thesis unfolding chat_ok_def assms(2,3) by (simp add: sorted_wrt_map o_def)
qed

lemma chat_ok_delete: "chat_ok w \<Longrightarrow> chat_ok (snd (deleteMessage now g i u w))"
  by (rule chat_ok_map [of w _ "\<lambda>m. if msg_id m = i \<and> msg_org_id m = g \<and> msg_sender_id m = u \<and> msg_deleted_at m = None
        then m\<lparr>msg_deleted_at := Some now\<rparr> else m"])
     (auto simp: deleteMessage_def message_softDelete_def update_where_def Let_def split: bool.split)

inductive chat_step :: "chat_db \<Rightarrow> chat_db \<Rightarrow> bool" where
  direct: "chat_step w (snd (createDirect now g u v w))"
| group_channel: "chat_step w (snd (createGroup env p now g u name us w))"
| workspace_channel: "chat_step w (snd (createWorkspaceChannel now g u name ws w))"
| send: "si_parentMessageId input \<noteq> Some '''' \<Longrightarrow> chat_step w (snd (message_send now g input w))"
| delete: "chat_step w (snd (deleteMessage now g i u w))"
| read: "chat_step w (updateLastRead now c u n w)"

lemma chat_step_ok: "chat_step w w' \<Longrightarrow> chat_ok w \<Longrightarrow> chat_ok w'"
proof (induction rule: chat_step.induct)
  case (read w now c u n)
  then show ?case by (simp add: chat_ok_def updateLastRead_def)
qed (auto intro: chat_ok_send chat_ok_delete chat_ok_frame createDirect_ext createGroup_ext createWorkspaceChannel_ext)

lemma chat_steps_ok: "chat_step\<^sup>*\<^sup>* w w' \<Longrightarrow> chat_ok w \<Longrightarrow> chat_ok w'"
  by (induction rule: rtranclp_induct) (auto intro: chat_step_ok)

section \<open>Pages of messages\<close>

definition visible :: "uuid \<Rightarrow> 'a chat_db_scheme \<Rightarrow> message list" where
  "visible c w = filter (\<lambda>m. msg_channel_id m = c \<and> msg_deleted_at m = None) (chat_messages w)"

lemma visible_sorted: "chat_ok w \<Longrightarrow> sorted_wrt (\<lambda>m m'. msg_sequence_number m < msg_sequence_number m') (visible c w)"
proof -
  assume "chat_ok w"
  then have "sorted_wrt msg_before (visible c w)"
    by (auto simp: chat_ok_def visible_def intro: sorted_wrt_filter)
  then show ?thesis by (rule sorted_wrt_mono_rel [rotated]) (auto simp: visible_def msg_before_def)
qed

lemma sort_key_sorted_wrt: "sorted_wrt (\<lambda>x y. k x < (k y :: int)) xs \<Longrightarrow> sort_key k xs = xs"
  by (rule sort_key_id_if_sorted) (auto simp: sorted_map intro: sorted_wrt_mono_rel [rotated])

lemma filter_less_nth:
  "sorted_wrt (\<lambda>x y. k x < (k y :: int)) xs \<Longrightarrow> j < length xs \<Longrightarrow> filter (\<lambda>x. k x < k (xs ! j)) xs = take j xs"
proof (induction xs arbitrary: j)
  case (Cons x xs)
  show ?case
  proof (cases j)
    case 0
    with Cons.prems show ?thesis by (auto simp: filter_empty_conv)
  next
    case (Suc i)
    with Cons.prems have "k x < k (xs ! i)" by (auto dest: nth_mem)
    with Suc Cons show ?thesis by simp
  qed
qed simp

lemma rev_take_rev: "rev (take n (rev xs)) = drop (length xs - n) xs"
  by (metis rev_drop rev_rev_ident rev_swap take_rev drop_rev length_rev)

lemma listByChannel_pages:
  assumes "chat_ok w"
  shows "listByChannel c n None w = drop (length (visible c w) - n) (visible c w)"
    and "j < length (visible c w) \<Longrightarrow>
      listByChannel c n (Some (msg_sequence_number (visible c w ! j))) w = drop (j - n) (take j (visible c w))"
proof -
  let ?v = "visible c w"
  note s = visible_sorted [OF assms, of c]
  have split: "filter (\<lambda>m. msg_channel_id m = c \<and> msg_deleted_at m = None \<and> P m) (chat_messages w) = filter P ?v" for P
    by (simp add: visible_def)
  show "listByChannel c n None w = drop (length ?v - n) ?v"
    using sort_key_sorted_wrt [OF s] split [of "\<lambda>_. True"] by (simp add: listByChannel_def rev_take_rev)
  assume j: "j < length ?v"
  have f: "filter (\<lambda>m. msg_sequence_number m < msg_sequence_number (?v ! j)) ?v = take j ?v"
    by (rule filter_less_nth [OF s j])
  have "sort_key msg_sequence_number (take j ?v) = take j ?v"
    by (rule sort_key_sorted_wrt) (use s sorted_wrt_take in blast)
  with j show "listByChannel c n (Some (msg_sequence_number (?v ! j))) w = drop (j - n) (take j ?v)"
    by (simp add: listByChannel_def split f rev_take_rev)
qed

section \<open>Properties\<close>

interpretation channel_tenant: tenant_lookup channels ch_id ch_org_id channel_live getChannel "''Channel''"
proof
  fix g i r and s :: "'a chat_db_scheme"
  assume "getChannel g i s = Inr r"
  then show "r \<in> set (channels s) \<and> ch_id r = i \<and> ch_org_id r = g \<and> channel_live r"
    by (auto simp: getChannel_def channel_findById_def dest: find_SomeD split: option.splits if_splits)
next
  fix g i e and s :: "'a chat_db_scheme"
  assume "getChannel g i s = Inl e"
  then show "e = NotFoundError ''Channel''" by (simp add: getChannel_def split: option.splits if_splits)
next
  fix r and s :: "'a chat_db_scheme"
  assume "distinct (map ch_id (channels s))" "r \<in> set (channels s)" "channel_live r"
  then have "channel_findById (ch_id r) s = Some r"
    using find_by_key [of ch_id "channels s" r channel_live] by (simp add: channel_findById_def)
  then show "getChannel (ch_org_id r) (ch_id r) s = Inr r" by (simp add: getChannel_def)
qed

text \<open>Order and threads: in every state reached from no messages, the messages of a channel were given
  strictly increasing sequence numbers in the order they were stored, no client message id occurs twice in a
  channel, and every reply answers a message of the same channel that is not a reply itself.\<close>

theorem chat_invariant:
  assumes "chat_step\<^sup>*\<^sup>* w0 w" and "chat_messages w0 = []"
  shows "sorted_wrt (\<lambda>m m'. msg_channel_id m = msg_channel_id m' \<longrightarrow> msg_sequence_number m < msg_sequence_number m') (chat_messages w)
    \<and> distinct (map (\<lambda>m. (msg_channel_id m, msg_client_message_id m)) (chat_messages w))
    \<and> list_all (\<lambda>m. case msg_parent_message_id m of None \<Rightarrow> True
        | Some i \<Rightarrow> list_ex (\<lambda>q. msg_id q = i \<and> msg_channel_id q = msg_channel_id m \<and> msg_parent_message_id q = None) (chat_messages w))
      (chat_messages w)"
proof -
  have "chat_ok w0" using assms(2) by (simp add: chat_ok_def)
  with chat_steps_ok [OF assms(1)] have "chat_ok w" by blast
  then show ?thesis
    by (auto simp: chat_ok_def msg_before_def [abs_def] list_all_iff list_ex_iff split: option.split)
qed

text \<open>Paging: a member who lists the newest messages gets the last \<open>n\<close> visible ones in order, and listing
  before any message returns exactly the \<open>n\<close> visible messages that precede it, so that going back page by
  page neither skips nor repeats a message.\<close>

theorem message_pages:
  assumes "chat_step\<^sup>*\<^sup>* w0 w" and "chat_messages w0 = []" and "isMember c u w" and "j < length (visible c w)"
  shows "listMessages c u n None w = Inr (drop (length (visible c w) - n) (visible c w)) \<and>
    listMessages c u n (Some (msg_sequence_number (visible c w ! j))) w = Inr (drop (j - n) (take j (visible c w)))"
proof -
  have "chat_ok w0" using assms(2) by (simp add: chat_ok_def)
  with chat_steps_ok [OF assms(1)] have "chat_ok w" by blast
  from listByChannel_pages [OF this] assms(3,4) show ?thesis by (simp add: listMessages_def)
qed

text \<open>Sending is idempotent: after a message was accepted, sending to the same channel with the same client
  message id returns that message and changes nothing.\<close>

theorem message_send_once:
  assumes "message_send now g input w = (Inr m, w')"
    and "si_channelId input' = si_channelId input" "si_clientMessageId input' = si_clientMessageId input"
    and "isMember (si_channelId input) (si_senderId input') w'"
  shows "message_send now' g' input' w' = (Inr m, w')"
proof -
  have "findByClientMessageId (si_channelId input) (si_clientMessageId input) w' = Some m"
  proof (cases "findByClientMessageId (si_channelId input) (si_clientMessageId input) w")
    case (Some x)
    with assms(1) show ?thesis by (simp add: message_send_def split: if_splits)
  next
    case None
    with assms(1) show ?thesis
      by (auto simp: message_send_def and_then_def nextSequence_def message_create_def draw_def Let_def findByClientMessageId_def
          find_append split: if_splits sum.splits option.splits)
  qed
  with assms(2-4) show ?thesis by (simp add: message_send_def)
qed

text \<open>Synchronisation after a reconnect does not ask for membership: a user who may not list a channel
  receives its messages by naming the channel.\<close>

theorem client_sync_ignores_membership:
  assumes "m \<in> set (chat_messages w)" and "msg_channel_id m = c" and "msg_deleted_at m = None" and "s < msg_sequence_number m"
    and "\<not> isMember c u w"
  shows "listMessages c u n b w = Inl (AppError 403 ''NOT_CHANNEL_MEMBER'' []) \<and>
    (\<exists>ms. client_sync [(c, s)] w = [(c, ms)] \<and> ms \<noteq> [] \<and> set ms \<subseteq> set (chat_messages w))"
proof -
  define ms where "ms = sort_key msg_sequence_number
    (filter (\<lambda>m. msg_channel_id m = c \<and> s < msg_sequence_number m \<and> msg_deleted_at m = None) (chat_messages w))"
  have "m \<in> set ms" "set ms \<subseteq> set (chat_messages w)" using assms(1-4) by (auto simp: ms_def)
  then have "take 100 ms \<noteq> []" "set (take 100 ms) \<subseteq> set (chat_messages w)"
    using set_take_subset [of 100 ms] by auto
  then show ?thesis using assms(5) by (simp add: listMessages_def client_sync_def ms_def [symmetric])
qed

definition pair_exists :: "uuid \<Rightarrow> uuid \<Rightarrow> uuid \<Rightarrow> 'a chat_db_scheme \<Rightarrow> bool" where
  "pair_exists g u v w = list_ex (\<lambda>q. dp_org_id q = g \<and> dp_user_a_id q = min u v \<and> dp_user_b_id q = max u v) (direct_channel_pairs w)"

lemma lo_hi: "u \<noteq> (v :: string) \<Longrightarrow> (if u < v then u else v) = min u v \<and> (if u < v then v else u) = max u v \<and> min u v < max u v"
  by (auto simp: min_def max_def)

lemma direct_tx_existing:
  assumes "u \<noteq> v" and "pair_exists g u v w"
  shows "fst (direct_tx now g u v w) = Inl (PgError ''23505'')"
proof -
  have "list_ex (\<lambda>q. (dp_org_id q = g \<and> dp_user_a_id q = min u v \<and> dp_user_b_id q = max u v) \<or> dp_channel_id q = i) (direct_channel_pairs w)" for i
    using assms(2) by (auto simp: pair_exists_def list_ex_iff)
  then show ?thesis
    using lo_hi [OF assms(1)] by (simp add: direct_tx_def channel_create_def draw_def insertDirectPair_def Let_def)
qed

lemma createDirect_existing:
  assumes "findMembership g u w \<noteq> None" "findMembership g v w \<noteq> None" "u \<noteq> v" and "pair_exists g u v w"
    and "findDirectChannel g u v w = Some c"
  shows "createDirect now g u v w = (Inr (c, False), w)"
proof -
  obtain e w' where "direct_tx now g u v w = (e, w')" by fastforce
  with direct_tx_existing [OF assms(3,4), of now] have "withTransaction (direct_tx now g u v) w = (Inl (PgError ''23505''), w)"
    by (simp add: withTransaction_def)
  with assms show ?thesis by (auto simp: createDirect_def)
qed

text \<open>The tables after the transaction, for a new pair.\<close>

lemma direct_tx_fresh:
  assumes "u \<noteq> v" and "\<not> pair_exists g u v w"
    and "entropy w (drawn w) \<notin> dp_channel_id ` set (direct_channel_pairs w) \<union> cm_channel_id ` set (channel_members w)"
  shows "\<exists>c w1. direct_tx now g u v w = (Inr c, w1) \<and> ch_id c = entropy w (drawn w) \<and> channel_live c \<and>
    channels w1 = channels w @ [c] \<and> org_memberships w1 = org_memberships w \<and>
    direct_channel_pairs w1 = direct_channel_pairs w @ [\<lparr>dp_org_id = g, dp_user_a_id = min u v, dp_user_b_id = max u v,
      dp_channel_id = ch_id c, dp_created_at = now\<rparr>] \<and>
    isMember (ch_id c) u w1 \<and> isMember (ch_id c) v w1"
proof -
  let ?i = "entropy w (drawn w)"
  have 1: "\<not> list_ex (\<lambda>q. (dp_org_id q = g \<and> dp_user_a_id q = min u v \<and> dp_user_b_id q = max u v) \<or> dp_channel_id q = ?i) (direct_channel_pairs w)"
    using assms(2,3) by (auto simp: pair_exists_def list_ex_iff image_iff)
  have 2: "\<not> list_ex (\<lambda>m. cm_channel_id m = ?i \<and> cm_user_id m = x) (channel_members w)" for x
    using assms(3) by (auto simp: list_ex_iff image_iff)
  show ?thesis
    using 1 2 lo_hi [OF assms(1)] assms(1)
    by (simp add: direct_tx_def channel_create_def draw_def insertDirectPair_def Let_def addMember_def create_channel_sequence_def
        isMember_def channel_live_def)
qed

lemma findDirect_new:
  assumes "\<not> pair_exists g u v w" and "ch_id c \<notin> ch_id ` set (channels w)" and "channel_live c" and "u \<noteq> v"
    and "channels w1 = channels w @ [c]" and "direct_channel_pairs w1 = direct_channel_pairs w @ [\<lparr>dp_org_id = g,
      dp_user_a_id = min u v, dp_user_b_id = max u v, dp_channel_id = ch_id c, dp_created_at = now\<rparr>]"
  shows "findDirectChannel g u v w1 = Some c"
proof -
  let ?P = "\<lambda>x. channel_live x \<and> list_ex (\<lambda>q. dp_channel_id q = ch_id x \<and> dp_org_id q = g \<and> dp_user_a_id q = min u v \<and> dp_user_b_id q = max u v)
    (direct_channel_pairs w1)"
  have "List.find ?P (channels w) = None"
    using assms(1,2) by (auto simp: find_None_iff assms(6) pair_exists_def list_ex_iff)
  moreover have "?P c" using assms(3) by (simp add: assms(6))
  ultimately have "List.find ?P (channels w1) = Some c" by (simp add: assms(5) find_append)
  with lo_hi [OF assms(4)] show ?thesis by (simp add: findDirectChannel_def)
qed

text \<open>One direct channel per pair: creating a direct channel makes both users members of it, and creating
  it again, by either of the two, returns the same channel and leaves no trace.\<close>

theorem direct_channel_unique:
  assumes "findMembership g u w \<noteq> None" "findMembership g v w \<noteq> None" "u \<noteq> v" and "\<not> pair_exists g u v w"
    and "entropy w (drawn w) \<notin> ch_id ` set (channels w)"
    and "entropy w (drawn w) \<notin> dp_channel_id ` set (direct_channel_pairs w) \<union> cm_channel_id ` set (channel_members w)"
  shows "\<exists>c w1. createDirect now g u v w = (Inr (c, True), w1) \<and> isMember (ch_id c) u w1 \<and> isMember (ch_id c) v w1 \<and>
    createDirect now' g v u w1 = (Inr (c, False), w1) \<and> createDirect now' g u v w1 = (Inr (c, False), w1)"
proof -
  obtain c w1 where tx: "direct_tx now g u v w = (Inr c, w1)" "ch_id c = entropy w (drawn w)" "channel_live c"
    "channels w1 = channels w @ [c]" "org_memberships w1 = org_memberships w"
    "direct_channel_pairs w1 = direct_channel_pairs w @ [\<lparr>dp_org_id = g, dp_user_a_id = min u v, dp_user_b_id = max u v,
      dp_channel_id = ch_id c, dp_created_at = now\<rparr>]"
    "isMember (ch_id c) u w1" "isMember (ch_id c) v w1"
    using direct_tx_fresh [OF assms(3,4,6)] by blast
  define w2 where "w2 = writeChannelEvent now g (ch_id c) u
    (JObj [(''channelId'', JStr (ch_id c)), (''orgId'', JStr g), (''type'', JStr ''direct'')]) w1"
  have "createDirect now g u v w = (Inr (c, True), w2)"
    using assms(1-3) tx(1) by (auto simp: createDirect_def w2_def withTransaction_def)
  moreover have m: "isMember x y w2 = isMember x y w1" "findMembership g y w2 = findMembership g y w" for x y
    by (simp_all add: isMember_def w2_def writeChannelEvent_def findMembership_def tx)
  moreover have p: "pair_exists g u v w2" "pair_exists g v u w2"
    by (simp_all add: pair_exists_def w2_def tx min.commute max.commute)
  moreover have f: "findDirectChannel g u v w2 = Some c"
    using findDirect_new [OF assms(4) _ tx(3) assms(3), of w2] assms(5) tx(2,4,6) by (simp add: w2_def)
  moreover have "findDirectChannel g v u w2 = Some c"
    using f lo_hi [OF assms(3)] lo_hi [OF assms(3) [symmetric]]
    by (simp add: findDirectChannel_def min.commute max.commute)
  ultimately show ?thesis
    using createDirect_existing [of g u w2 v c now'] createDirect_existing [of g v w2 u c now'] assms(1-3) tx(7,8)
    by auto
qed

section \<open>Example\<close>

definition ex_chat_member :: "uuid \<Rightarrow> membership" where
  "ex_chat_member u = \<lparr>m_id = u, m_org_id = ''g'', m_user_id = u, m_role = Member, m_status = MActive, m_invited_by = None,
     m_joined_at = Some 0, m_removed_at = None, m_deleted_at = None, m_created_at = 0, m_updated_at = 0\<rparr>"

definition ex_chat0 :: chat_db where
  "ex_chat0 = flag_db.extend (ex_flag_db\<lparr>org_memberships := [ex_chat_member ''u'', ex_chat_member ''v'']\<rparr>)
     \<lparr>channels = [], channel_members = [], direct_channel_pairs = [], chat_messages = [], sequences = (\<lambda>_. None)\<rparr>"

definition ex_send :: "string \<Rightarrow> string \<Rightarrow> uuid option \<Rightarrow> send_input" where
  "ex_send k text par = \<lparr>si_channelId = '''', si_senderId = ''u'', si_body = text, si_bodyParsed = None,
     si_clientMessageId = k, si_parentMessageId = par\<rparr>"

definition ex_chat1 :: chat_db where
  "ex_chat1 = snd (createDirect 0 ''g'' ''u'' ''v'' ex_chat0)"

definition ex_chat2 :: chat_db where
  "ex_chat2 = snd (message_send 1 ''g'' (ex_send ''k1'' ''hello'' None) ex_chat1)"

definition ex_chat3 :: chat_db where
  "ex_chat3 = snd (message_send 2 ''g'' (ex_send ''k2'' ''again'' (Some ''aa'')) ex_chat2)"

lemma ex_chat0_simps [simp]:
  "chat_messages ex_chat0 = []" "channels ex_chat0 = []" "channel_members ex_chat0 = []" "direct_channel_pairs ex_chat0 = []"
  "sequences ex_chat0 = (\<lambda>_. None)" "org_memberships ex_chat0 = [ex_chat_member ''u'', ex_chat_member ''v'']"
  "entropy ex_chat0 = (\<lambda>n. replicate n CHR ''a'')" "drawn ex_chat0 = 0"
  by (simp_all add: ex_chat0_def flag_db.extend_def ex_flag_db_def)

lemma ex_chat1_simps [simp]:
  "chat_messages ex_chat1 = []" "isMember '''' ''u'' ex_chat1" "\<not> isMember '''' ''x'' ex_chat1" "sequences ex_chat1 (sequence_name '''') = Some 1"
  "entropy ex_chat1 = (\<lambda>n. replicate n CHR ''a'')" "drawn ex_chat1 = 2"
  by (simp_all add: ex_chat1_def createDirect_def findMembership_def ex_chat_member_def withTransaction_def direct_tx_def
      channel_create_def draw_def addMember_def insertDirectPair_def create_channel_sequence_def Let_def isMember_def
      writeChannelEvent_def insert_outbox_def)

lemma isMember_updates [simp]:
  "isMember c u (w\<lparr>chat_messages := ms\<rparr>) = isMember c u w" "isMember c u (w\<lparr>sequences := sq\<rparr>) = isMember c u w"
  "isMember c u (w\<lparr>drawn := d\<rparr>) = isMember c u w" "isMember c u (w\<lparr>outbox_events := es\<rparr>) = isMember c u w"
  by (simp_all add: isMember_def)

definition ex_message :: "uuid \<Rightarrow> string \<Rightarrow> int \<Rightarrow> string \<Rightarrow> uuid option \<Rightarrow> timestamp \<Rightarrow> message" where
  "ex_message i k n text par t = \<lparr>msg_id = i, msg_org_id = ''g'', msg_channel_id = '''', msg_sender_id = ''u'',
     msg_client_message_id = k, msg_sequence_number = n, msg_body = text, msg_body_parsed = None, msg_parent_message_id = par,
     msg_is_edited = False, msg_edit_history = [], msg_deleted_at = None, msg_created_at = t\<rparr>"

lemma ex_chat2_simps [simp]:
  "chat_messages ex_chat2 = [ex_message ''aa'' ''k1'' 1 ''hello'' None 1]" "isMember '''' x ex_chat2 = isMember '''' x ex_chat1"
  "sequences ex_chat2 (sequence_name '''') = Some 2" "entropy ex_chat2 = (\<lambda>n. replicate n CHR ''a'')" "drawn ex_chat2 = 4"
  by (simp_all add: ex_chat2_def message_send_def ex_send_def findByClientMessageId_def check_thread_parent_def nextSequence_def
      message_create_def draw_def Let_def insert_outbox_def ex_message_def numeral_eq_Suc)

lemma ex_send2:
  "message_send 2 ''g'' (ex_send ''k2'' ''again'' (Some ''aa'')) ex_chat2 =
     (Inr (ex_message ''aaaa'' ''k2'' 2 ''again'' (Some ''aa'') 2), ex_chat3)"
  by (simp add: ex_chat3_def message_send_def ex_send_def findByClientMessageId_def check_thread_parent_def nextSequence_def
      message_findById_def message_create_def draw_def Let_def ex_message_def numeral_eq_Suc)

lemma ex_chat3_simps [simp]:
  "chat_messages ex_chat3 = [ex_message ''aa'' ''k1'' 1 ''hello'' None 1, ex_message ''aaaa'' ''k2'' 2 ''again'' (Some ''aa'') 2]"
  "isMember '''' x ex_chat3 = isMember '''' x ex_chat1"
  by (simp_all add: ex_chat3_def message_send_def ex_send_def findByClientMessageId_def check_thread_parent_def nextSequence_def
      message_findById_def message_create_def draw_def Let_def insert_outbox_def ex_message_def numeral_eq_Suc)

lemma ex_chat_reached: "chat_step\<^sup>*\<^sup>* ex_chat0 ex_chat3"
proof -
  have "chat_step ex_chat0 ex_chat1" unfolding ex_chat1_def by (rule chat_step.direct)
  moreover have "chat_step ex_chat1 ex_chat2" unfolding ex_chat2_def by (rule chat_step.send) (simp add: ex_send_def)
  moreover have "chat_step ex_chat2 ex_chat3" unfolding ex_chat3_def by (rule chat_step.send) (simp add: ex_send_def)
  ultimately show ?thesis by (meson converse_rtranclp_into_rtranclp rtranclp.rtrancl_refl)
qed

theorem chat_invariant_witness:
  "map msg_sequence_number (chat_messages ex_chat3) = [1, 2] \<and>
   distinct (map (\<lambda>m. (msg_channel_id m, msg_client_message_id m)) (chat_messages ex_chat3))"
  using chat_invariant [OF ex_chat_reached] by (simp add: ex_message_def)

theorem message_pages_witness:
  "listMessages '''' ''u'' 1 None ex_chat3 = Inr [ex_message ''aaaa'' ''k2'' 2 ''again'' (Some ''aa'') 2] \<and>
   listMessages '''' ''u'' 1 (Some 2) ex_chat3 = Inr [ex_message ''aa'' ''k1'' 1 ''hello'' None 1]"
proof -
  have v: "visible '''' ex_chat3 = [ex_message ''aa'' ''k1'' 1 ''hello'' None 1, ex_message ''aaaa'' ''k2'' 2 ''again'' (Some ''aa'') 2]"
    by (simp add: visible_def ex_message_def)
  show ?thesis
    using message_pages [OF ex_chat_reached, of "''''" "''u''" 1 1] by (simp add: v ex_message_def)
qed

theorem message_send_once_witness:
  "message_send 9 ''g'' (ex_send ''k2'' ''other'' None) ex_chat3 =
     (Inr (ex_message ''aaaa'' ''k2'' 2 ''again'' (Some ''aa'') 2), ex_chat3)"
  by (rule message_send_once [OF ex_send2]) (simp_all add: ex_send_def)

theorem client_sync_ignores_membership_witness:
  "listMessages '''' ''x'' 50 None ex_chat3 = Inl (AppError 403 ''NOT_CHANNEL_MEMBER'' []) \<and>
   (\<exists>ms. client_sync [('''', 0)] ex_chat3 = [('''', ms)] \<and> ms \<noteq> [])"
  using client_sync_ignores_membership [of "ex_message ''aa'' ''k1'' 1 ''hello'' None 1" ex_chat3 "''''" 0 "''x''" 50 None]
  by (auto simp: ex_message_def)

theorem direct_channel_unique_witness:
  "\<exists>c w1. createDirect 0 ''g'' ''u'' ''v'' ex_chat0 = (Inr (c, True), w1) \<and> isMember (ch_id c) ''v'' w1 \<and>
    createDirect 5 ''g'' ''v'' ''u'' w1 = (Inr (c, False), w1)"
  using direct_channel_unique [of "''g''" "''u''" ex_chat0 "''v''" 0 5]
  by (auto simp: findMembership_def ex_chat_member_def pair_exists_def)

end
