(* ===== verification/Chat_Api.thy ===== *)
theory Chat_Api
  imports Http Chat
begin

text \<open>
  \<^verbatim>\<open>src/modules/chat/chat.router.ts\<close>: the routes with their schemas and casts, and the invariant of the
  messages under arbitrary requests.
\<close>

section \<open>Schemas and casts\<close>

definition direct_fields :: "(string \<times> schema) list" where
  "direct_fields = [(''other_user_id'', ZString [Uuid])]"

definition group_fields :: "(string \<times> schema) list" where
  "group_fields = [(''name'', ZString [Min 1, Max 255]), (''member_ids'', ZArray (ZString [Uuid]) (Some 2) None)]"

definition workspace_channel_fields :: "(string \<times> schema) list" where
  "workspace_channel_fields = [(''name'', ZString [Min 1, Max 255]), (''workspace_id'', ZString [Uuid])]"

definition message_fields :: "(string \<times> schema) list" where
  "message_fields =
     [(''body'', ZString [Min 1]),
      (''body_parsed'', ZOptional (ZNullable ZRecord)),
      (''client_message_id'', ZString [Uuid]),
      (''parent_message_id'', ZOptional (ZNullable (ZString [Uuid])))]"

definition message_page_fields :: "(string \<times> schema) list" where
  "message_page_fields =
     [(''limit'', ZOptional (ZCoerceInt (Some 1) (Some 200))), (''before_sequence'', ZOptional (ZCoerceInt None None))]"

definition decode_group :: "json \<Rightarrow> (string \<times> uuid list) option" where
  "decode_group d = do {
     name \<leftarrow> required as_str ''name'' d;
     members \<leftarrow> required (as_list as_str) ''member_ids'' d;
     Some (name, members) }"

definition decode_workspace_channel :: "json \<Rightarrow> (string \<times> uuid) option" where
  "decode_workspace_channel d = do {
     name \<leftarrow> required as_str ''name'' d;
     ws \<leftarrow> required as_str ''workspace_id'' d;
     Some (name, ws) }"

definition decode_message :: "uuid \<Rightarrow> uuid \<Rightarrow> json \<Rightarrow> send_input option" where
  "decode_message channelId senderId d = do {
     body \<leftarrow> required as_str ''body'' d;
     parsed \<leftarrow> nullish_field as_object ''body_parsed'' d;
     client \<leftarrow> required as_str ''client_message_id'' d;
     parent \<leftarrow> nullish_field as_str ''parent_message_id'' d;
     Some \<lparr>si_channelId = channelId, si_senderId = senderId, si_body = body, si_bodyParsed = parsed,
       si_clientMessageId = client, si_parentMessageId = parent\<rparr> }"

text \<open>The sequence number zero is falsy: it lists from the newest message.\<close>

definition decode_message_page :: "json \<Rightarrow> (nat \<times> int option) option" where
  "decode_message_page d = do {
     limit \<leftarrow> optional as_int ''limit'' d;
     before \<leftarrow> optional as_int ''before_sequence'' d;
     Some (nat (case_option 50 id limit), if before = Some 0 then None else before) }"

section \<open>Rows as JSON\<close>

definition channel_json :: "channel \<Rightarrow> json" where
  "channel_json c = JObj
     [(''id'', JStr (ch_id c)), (''org_id'', JStr (ch_org_id c)),
      (''type'', JStr (case ch_type c of ChDirect \<Rightarrow> ''direct'' | ChGroup \<Rightarrow> ''group'')), (''name'', json_opt (ch_name c)),
      (''created_by'', JStr (ch_created_by c)), (''workspace_id'', json_opt (ch_workspace_id c)),
      (''deleted_at'', case_option JNull JNum (ch_deleted_at c)), (''created_at'', JNum (ch_created_at c)),
      (''updated_at'', JNum (ch_updated_at c))]"

definition message_row_json :: "message \<Rightarrow> json" where
  "message_row_json m = JObj
     [(''id'', JStr (msg_id m)), (''org_id'', JStr (msg_org_id m)), (''channel_id'', JStr (msg_channel_id m)),
      (''sender_id'', JStr (msg_sender_id m)), (''client_message_id'', JStr (msg_client_message_id m)),
      (''sequence_number'', JStr (show_nat (nat (msg_sequence_number m)))), (''body'', JStr (msg_body m)),
      (''body_parsed'', case_option JNull id (msg_body_parsed m)), (''parent_message_id'', json_opt (msg_parent_message_id m)),
      (''is_edited'', JBool (msg_is_edited m)), (''edit_history'', JArr (msg_edit_history m)),
      (''deleted_at'', case_option JNull JNum (msg_deleted_at m)), (''created_at'', JNum (msg_created_at m))]"

section \<open>Handlers\<close>

text \<open>\<open>fenv\<close> and \<open>p\<close> are the environment and the process of the feature flags.\<close>

definition create_direct_handler :: "http_env \<Rightarrow> 'a chat_db_scheme handler" where
  "create_direct_handler env params rq meta u c =
     validate (he_safeParse env) (ZObject direct_fields) (rq_body rq) (\<lambda>d.
       cast_to (required as_str ''other_user_id'') d (\<lambda>other w.
         answer_with (\<lambda>(ch, created). if created then res_created meta (channel_json ch) else res_success meta (channel_json ch))
           (createDirect (he_now env) (oc_orgId c) (ru_userId u) other w)))"

definition create_group_handler :: "flag_env \<Rightarrow> nat \<Rightarrow> http_env \<Rightarrow> 'a chat_db_scheme handler" where
  "create_group_handler fenv p env params rq meta u c =
     validate (he_safeParse env) (ZObject group_fields) (rq_body rq) (\<lambda>d. cast_to decode_group d (\<lambda>(name, members) w.
       answer_with (\<lambda>ch. res_created meta (channel_json ch))
         (createGroup fenv p (he_now env) (oc_orgId c) (ru_userId u) name members w)))"

definition create_workspace_channel_handler :: "http_env \<Rightarrow> 'a chat_db_scheme handler" where
  "create_workspace_channel_handler env params rq meta u c =
     validate (he_safeParse env) (ZObject workspace_channel_fields) (rq_body rq) (\<lambda>d.
       cast_to decode_workspace_channel d (\<lambda>(name, ws) w.
         answer_with (\<lambda>ch. res_created meta (channel_json ch))
           (createWorkspaceChannel (he_now env) (oc_orgId c) (ru_userId u) name ws w)))"

text \<open>The query of the list is not validated: a workspace that is not a UUID fails in the database.\<close>

definition list_channels_handler :: "http_env \<Rightarrow> 'a chat_db_scheme handler" where
  "list_channels_handler env params rq meta u c w =
     (let ws = Option.bind (json_field ''workspace_id'' (rq_query rq)) as_str in
      answer_with (\<lambda>chs. res_success meta (JArr (map channel_json chs)))
        (if truthy ws
         then with_uuid env (the ws) no_checks (read_only (\<lambda>w. Inr (listChannels (oc_orgId c) ws w))) w
         else read_only (\<lambda>w. Inr (listChannels (oc_orgId c) ws w)) w))"

definition get_channel_handler :: "http_env \<Rightarrow> 'a chat_db_scheme handler" where
  "get_channel_handler env params rq meta u c w =
     answer_with (\<lambda>ch. res_success meta (channel_json ch))
       (with_uuid env (params ''channelId'') no_checks (read_only (getChannel (oc_orgId c) (params ''channelId''))) w)"

definition send_message_handler :: "http_env \<Rightarrow> 'a chat_db_scheme handler" where
  "send_message_handler env params rq meta u c =
     validate (he_safeParse env) (ZObject message_fields) (rq_body rq) (\<lambda>d.
       cast_to (decode_message (params ''channelId'') (ru_userId u)) d (\<lambda>input w.
         answer_with (\<lambda>m. res_created meta (message_row_json m))
           (with_uuid env (params ''channelId'') no_checks (message_send (he_now env) (oc_orgId c) input) w)))"

definition list_messages_handler :: "http_env \<Rightarrow> 'a chat_db_scheme handler" where
  "list_messages_handler env params rq meta u c =
     validate (he_safeParse env) (ZObject message_page_fields) (rq_query rq) (\<lambda>d.
       cast_to decode_message_page d (\<lambda>(limit, before) w.
         answer_with (\<lambda>ms. res_success meta (JArr (map message_row_json ms)))
           (with_uuid env (params ''channelId'') no_checks
              (read_only (listMessages (params ''channelId'') (ru_userId u) limit before)) w)))"

definition delete_message_handler :: "http_env \<Rightarrow> 'a chat_db_scheme handler" where
  "delete_message_handler env params rq meta u c w =
     answer_with (\<lambda>_. res_success meta (JObj [(''message'', JStr ''Message deleted'')]))
       (with_uuid env (params ''messageId'') no_checks
          (deleteMessage (he_now env) (oc_orgId c) (params ''messageId'') (ru_userId u)) w)"

definition chat_routes :: "flag_env \<Rightarrow> nat \<Rightarrow> http_env \<Rightarrow> 'a chat_db_scheme route list" where
  "chat_routes fenv p env =
     [mk_route ''POST'' ''/orgs/:orgId/channels/direct'' True (create_direct_handler env),
      mk_route ''POST'' ''/orgs/:orgId/channels/group'' True (create_group_handler fenv p env),
      mk_route ''POST'' ''/orgs/:orgId/channels/workspace'' True (create_workspace_channel_handler env),
      mk_route ''GET'' ''/orgs/:orgId/channels'' False (list_channels_handler env),
      mk_route ''GET'' ''/orgs/:orgId/channels/:channelId'' False (get_channel_handler env),
      mk_route ''POST'' ''/orgs/:orgId/channels/:channelId/messages'' True (send_message_handler env),
      mk_route ''GET'' ''/orgs/:orgId/channels/:channelId/messages'' False (list_messages_handler env),
      mk_route ''DELETE'' ''/orgs/:orgId/channels/:channelId/messages/:messageId'' False (delete_message_handler env)]"

section \<open>Validated bodies have the types the services expect\<close>

lemma direct_decodes: "conforms (ZObject direct_fields) d \<Longrightarrow> required as_str ''other_user_id'' d \<noteq> None"
  by (rule reads_required, rule casts, assumption, simp add: direct_fields_def, simp)

lemma group_decodes:
  assumes c: "conforms (ZObject group_fields) d"
  shows "decode_group d \<noteq> None"
proof -
  have 1: "required as_str ''name'' d \<noteq> None"
    by (rule reads_required [OF _ c], rule casts, simp add: group_fields_def, simp)
  have 2: "required (as_list as_str) ''member_ids'' d \<noteq> None"
    by (rule reads_required [OF _ c], rule casts, rule casts, simp add: group_fields_def, simp)
  show ?thesis unfolding decode_group_def by (intro bind_defined 1 2) simp_all
qed

lemma workspace_channel_decodes:
  assumes c: "conforms (ZObject workspace_channel_fields) d"
  shows "decode_workspace_channel d \<noteq> None"
proof -
  have 1: "required as_str ''name'' d \<noteq> None" "required as_str ''workspace_id'' d \<noteq> None"
    by (rule reads_required [OF _ c], rule casts, simp add: workspace_channel_fields_def, simp)+
  show ?thesis unfolding decode_workspace_channel_def by (intro bind_defined 1) simp_all
qed

lemma message_decodes:
  assumes c: "conforms (ZObject message_fields) d"
  shows "decode_message ch u d \<noteq> None"
proof -
  have 1: "required as_str ''body'' d \<noteq> None" "required as_str ''client_message_id'' d \<noteq> None"
    by (rule reads_required [OF _ c], rule casts, simp add: message_fields_def, simp)+
  have 2: "nullish_field as_object ''body_parsed'' d \<noteq> None" "nullish_field as_str ''parent_message_id'' d \<noteq> None"
    by (rule reads_nullish [OF _ c], rule casts, rule casts, rule casts, simp add: message_fields_def)+
  show ?thesis unfolding decode_message_def by (intro bind_defined 1 2) simp_all
qed

lemma message_page_decodes:
  assumes c: "conforms (ZObject message_page_fields) d"
  shows "decode_message_page d \<noteq> None"
proof -
  have 1: "optional as_int ''limit'' d \<noteq> None" "optional as_int ''before_sequence'' d \<noteq> None"
    by (rule reads_optional_field [OF _ c], rule casts, rule casts, simp add: message_page_fields_def)+
  show ?thesis unfolding decode_message_page_def by (intro bind_defined 1) simp_all
qed

text \<open>The schema excludes the empty parent, the one case in which a message could be stored without its thread
  being checked.\<close>

lemma message_parent:
  assumes c: "conforms (ZObject message_fields) d" and "decode_message ch u d = Some input"
  shows "si_parentMessageId input \<noteq> Some ''''"
proof
  assume "si_parentMessageId input = Some ''''"
  with assms(2) have "nullish_field as_str ''parent_message_id'' d = Some (Some '''')"
    by (auto simp: decode_message_def split: bind_splits)
  from nullish_str [OF this c, of "[Uuid]" Uuid] show False by (simp add: message_fields_def is_uuid_def)
qed

section \<open>The messages under arbitrary requests\<close>

lemmas chat_handler_defs =
  create_direct_handler_def create_group_handler_def create_workspace_channel_handler_def list_channels_handler_def
  get_channel_handler_def send_message_handler_def list_messages_handler_def delete_message_handler_def

lemma keeps_validate:
  assumes "schema_validator sp" and "\<And>d i. conforms s d \<Longrightarrow> f d = Some i \<Longrightarrow> P (snd (k i w))" and "P w"
  shows "P (snd (validate sp s j (\<lambda>d. cast_to f d k) w))"
  using assms(2) [OF schema_validator.sound [OF assms(1)]] assms(3) by (simp add: validate_def cast_to_def split: option.splits)

lemma keeps_uuid: "P w \<Longrightarrow> P (snd (k w)) \<Longrightarrow> P (snd (with_uuid env p checks k w))"
  by (auto simp: with_uuid_def split: sum.splits)

interpretation chat_api: api_invariant "chat_routes fenv p" "chat_ok :: chat_db \<Rightarrow> bool" for fenv p
proof
  fix w :: chat_db and n f
  assume "chat_ok w"
  then show "chat_ok (w\<lparr>drawn := n, redis := f\<rparr>)" by (simp add: chat_ok_def)
next
  fix env and r :: "chat_db route" and w :: chat_db and params rq meta u c
  assume v: "schema_validator (he_safeParse env)" and r: "r \<in> set (chat_routes fenv p env)" and ok: "chat_ok w"
  have step: "chat_step w w' \<Longrightarrow> chat_ok w'" for w' using ok by (rule chat_step_ok [rotated])
  from r show "chat_ok (snd (ro_handler r params rq meta u c w))"
    unfolding chat_routes_def mk_route_def chat_handler_defs
    by (auto intro!: keeps_validate [where P = chat_ok, OF v] keeps_uuid [where P = chat_ok] ok
          step [OF chat_step.direct] step [OF chat_step.group_channel] step [OF chat_step.workspace_channel]
          step [OF chat_step.send] step [OF chat_step.delete]
        simp: read_only_def Let_def split: prod.splits)
       (use message_parent in blast)
qed


text \<open>The API as a transition system: a request to one of the routes, or anything that leaves the messages and
  their sequences alone.\<close>

inductive chat_api_step :: "idem_row list \<times> chat_db \<Rightarrow> idem_row list \<times> chat_db \<Rightarrow> bool" where
  request: "schema_validator (he_safeParse env) \<Longrightarrow> serve env (chat_routes fenv p env) rq st = (a, st') \<Longrightarrow> chat_api_step st st'"
| elsewhere: "chat_messages w' = chat_messages w \<Longrightarrow> sequences w' = sequences w \<Longrightarrow> chat_api_step (ks, w) (ks', w')"

lemma chat_api_step_ok: "chat_api_step st st' \<Longrightarrow> chat_ok (snd st) \<Longrightarrow> chat_ok (snd st')"
proof (induction rule: chat_api_step.induct)
  case (request env fenv p rq st a st')
  then show ?case using chat_api.serve_keeps [of env fenv p rq "fst st" "snd st" a "fst st'" "snd st'"] by simp
qed (simp add: chat_ok_def)

text \<open>C35. Order and threads: whatever requests are sent to the chat routes, starting from no messages, the messages
  of a channel carry strictly increasing sequence numbers in the order they were stored, no client message id occurs
  twice in a channel, and every reply answers a message of the same channel that is not a reply itself.\<close>

theorem chat_api_invariant:
  assumes "chat_api_step\<^sup>*\<^sup>* (ks, w0) (ks', w)" and "chat_messages w0 = []"
  shows "sorted_wrt (\<lambda>m m'. msg_channel_id m = msg_channel_id m' \<longrightarrow> msg_sequence_number m < msg_sequence_number m') (chat_messages w)
    \<and> distinct (map (\<lambda>m. (msg_channel_id m, msg_client_message_id m)) (chat_messages w))
    \<and> list_all (\<lambda>m. case msg_parent_message_id m of None \<Rightarrow> True
        | Some i \<Rightarrow> list_ex (\<lambda>q. msg_id q = i \<and> msg_channel_id q = msg_channel_id m \<and> msg_parent_message_id q = None) (chat_messages w))
      (chat_messages w)"
proof -
  have "chat_ok (snd (ks, w0))" using assms(2) by (simp add: chat_ok_def)
  with assms(1) have "chat_ok (snd (ks', w))" by (induction rule: rtranclp_induct) (use chat_api_step_ok in auto)
  then show ?thesis
    by (auto simp: chat_ok_def msg_before_def [abs_def] list_all_iff list_ex_iff split: option.split)
qed


section \<open>Example\<close>

definition ex_chat_env :: http_env where
  "ex_chat_env = \<lparr>he_crypto = ex_org_crypto, he_keys = ex_keys, he_redis_up = False, he_now = 0, he_safeParse = zod_safeParse,
     he_match = (\<lambda>pattern path. if pattern = ''/orgs/:orgId/channels/:channelId/messages'' \<and> path = ''/orgs/g/channels/ch/messages''
       then Some (\<lambda>_. ''ch'') else None),
     he_pg_uuid = (\<lambda>_. True)\<rparr>"

definition ex_chat_request :: http_request where
  "ex_chat_request = \<lparr>rq_method = ''POST'', rq_path = ''/orgs/g/channels/ch/messages'', rq_authorization = Some ''Bearer tok'',
     rq_org_id = Some ''g'', rq_idempotency_key = Some ''k'', rq_correlation_id = None, rq_query = JObj [],
     rq_body = JObj [(''body'', JStr ''hello''), (''client_message_id'', JStr ''11111111-2222-3333-4444-555555555555'')]\<rparr>"

definition ex_chat_db :: chat_db where
  "ex_chat_db = flag_db.extend (ex_flag_db\<lparr>users := [ex_user], organizations := [ex_org ''g'' OrgActive],
       org_memberships := [ex_member ''g'' ''u1'' Member]\<rparr>)
     \<lparr>channels = [], channel_members = [\<lparr>cm_channel_id = ''ch'', cm_user_id = ''u1'', cm_org_id = ''g'', cm_last_read_sequence = 0,
        cm_last_read_at = None, cm_joined_at = 0, cm_removed_at = None\<rparr>], direct_channel_pairs = [], chat_messages = [],
      sequences = (\<lambda>_. Some 1)\<rparr>"

lemma ex_chat_org:
  "orgMiddleware ex_org_crypto ex_keys False 0 (request.truncate ex_chat_request) (ex_chat_db\<lparr>drawn := n\<rparr>) =
     (Inr (\<lparr>ru_userId = ''u1'', ru_orgId = ''g'', ru_role = ''member'', ru_isPlatformAdmin = False, ru_jti = ''j0'',
            ru_exp = 900, ru_authTime = None, ru_mfaVerifiedAt = None\<rparr>,
           \<lparr>oc_orgId = ''g'', oc_orgStatus = ''active'', oc_memberRole = ''member''\<rparr>), ex_chat_db\<lparr>drawn := n\<rparr>)"
  by (simp add: orgMiddleware_def ex_chat_request_def request.truncate_def authenticate_def verifyToken_def getPublicKey_def
      ex_keys_def registerPublicKey_def ex_org_crypto_def ex_crypto_def ex_org_claims_def ex_claims_def resolveUser_def
      ex_chat_db_def flag_db.extend_def ex_flag_db_def ex_user_def new_user_def orgContextMiddleware_def resolveOrgContext_def
      member_and_status_def ex_member_def ex_org_def orgStatusMiddleware_def org_status_name_def role_name_def
      isSuspendedBypass_def WRITE_METHODS_def Let_def)

lemma ex_chat_input:
  "zod_safeParse (ZObject message_fields) (rq_body ex_chat_request) = Some (rq_body ex_chat_request)"
  "decode_message ''ch'' ''u1'' (rq_body ex_chat_request) = Some \<lparr>si_channelId = ''ch'', si_senderId = ''u1'', si_body = ''hello'',
     si_bodyParsed = None, si_clientMessageId = ''11111111-2222-3333-4444-555555555555'', si_parentMessageId = None\<rparr>"
proof -
  have "is_uuid ''11111111-2222-3333-4444-555555555555''" by code_simp
  then show "zod_safeParse (ZObject message_fields) (rq_body ex_chat_request) = Some (rq_body ex_chat_request)"
    by (simp add: zod_safeParse_def message_fields_def ex_chat_request_def Let_def)
  show "decode_message ''ch'' ''u1'' (rq_body ex_chat_request) = Some \<lparr>si_channelId = ''ch'', si_senderId = ''u1'', si_body = ''hello'',
     si_bodyParsed = None, si_clientMessageId = ''11111111-2222-3333-4444-555555555555'', si_parentMessageId = None\<rparr>"
    by (simp add: decode_message_def ex_chat_request_def required_def optional_def nullish_field_def json_field_def as_str_def)
qed

lemma ex_chat_serve:
  "\<exists>a ks' w'. serve ex_chat_env (chat_routes ex_flag_env 0 ex_chat_env) ex_chat_request ([], ex_chat_db) = (a, ks', w') \<and>
     map (\<lambda>m. (msg_channel_id m, msg_sequence_number m, msg_body m)) (chat_messages w') = [(''ch'', 1, ''hello'')]"
proof -
  let ?w = "ex_chat_db\<lparr>drawn := 2\<rparr>"
  let ?input = "\<lparr>si_channelId = ''ch'', si_senderId = ''u1'', si_body = ''hello'', si_bodyParsed = None,
     si_clientMessageId = ''11111111-2222-3333-4444-555555555555'', si_parentMessageId = None\<rparr>"
  have rq: "rq_method ex_chat_request = ''POST''" "rq_path ex_chat_request = ''/orgs/g/channels/ch/messages''"
    "rq_idempotency_key ex_chat_request = Some ''k''" by (simp_all add: ex_chat_request_def)
  obtain meta where m: "responseEnvelope 0 ex_chat_request ex_chat_db = (meta, ?w)"
    by (simp add: responseEnvelope_def ex_chat_request_def draw_def Let_def ex_chat_db_def flag_db.extend_def ex_flag_db_def)
  have route: "find_route (he_match ex_chat_env) ''POST'' ''/orgs/g/channels/ch/messages'' (chat_routes ex_flag_env 0 ex_chat_env) =
      Some (mk_route ''POST'' ''/orgs/:orgId/channels/:channelId/messages'' True (send_message_handler ex_chat_env), \<lambda>_. ''ch'')"
    by (simp add: chat_routes_def mk_route_def ex_chat_env_def)
  have env: "he_crypto ex_chat_env = ex_org_crypto" "he_keys ex_chat_env = ex_keys" "he_redis_up ex_chat_env = False"
    "he_now ex_chat_env = 0" "he_safeParse ex_chat_env = zod_safeParse" "he_pg_uuid ex_chat_env = (\<lambda>_. True)"
    by (simp_all add: ex_chat_env_def)
  have sent: "map (\<lambda>m. (msg_channel_id m, msg_sequence_number m, msg_body m)) (chat_messages (snd (message_send 0 ''g'' ?input ?w))) =
      [(''ch'', 1, ''hello'')]"
    by (simp add: message_send_def isMember_def findByClientMessageId_def check_thread_parent_def nextSequence_def
        message_create_def draw_def ex_chat_db_def flag_db.extend_def ex_flag_db_def Let_def)
  show ?thesis
    by (simp add: serve_def env m rq route run_route_def ex_chat_org mk_route_def idempotencyMiddleware_def idem_request_of_def
       send_message_handler_def validate_def ex_chat_input cast_to_def IDEMPOTENCY_METHODS_def or_else_def with_uuid_def
       checkAndStore_def idem_lookup_def Let_def split_def sent [simplified split_def])
qed

theorem chat_api_invariant_witness:
  "\<exists>ks' w. chat_api_step\<^sup>*\<^sup>* ([], ex_chat_db) (ks', w) \<and> map msg_sequence_number (chat_messages w) = [1] \<and>
     distinct (map (\<lambda>m. (msg_channel_id m, msg_client_message_id m)) (chat_messages w))"
proof -
  obtain a ks' w where s: "serve ex_chat_env (chat_routes ex_flag_env 0 ex_chat_env) ex_chat_request ([], ex_chat_db) = (a, ks', w)"
    and t: "map (\<lambda>m. (msg_channel_id m, msg_sequence_number m, msg_body m)) (chat_messages w) = [(''ch'', 1, ''hello'')]"
    using ex_chat_serve by (elim exE conjE)
  have "schema_validator (he_safeParse ex_chat_env)" using zod.schema_validator_axioms by (simp add: ex_chat_env_def)
  then have r: "chat_api_step\<^sup>*\<^sup>* ([], ex_chat_db) (ks', w)" using s by (intro r_into_rtranclp chat_api_step.request)
  have "chat_messages ex_chat_db = []" by (simp add: ex_chat_db_def flag_db.extend_def)
  from chat_api_invariant [OF r this] r t show ?thesis by (auto intro!: exI [of _ ks'] exI [of _ w])
qed

end
