(* ===== verification/Search.thy ===== *)
theory Search
  imports Http Task_Repository Chat File
begin

text \<open>
  \<^verbatim>\<open>src/modules/search\<close>: the PostgreSQL provider, the Typesense provider, the service with its fallback, the
  index worker and the route.  The full-text ranks of PostgreSQL (integers stand for the floating-point
  ranks), the Typesense server and the circuit breaker are arguments; the state records the requests
  sent to Typesense.
\<close>

section \<open>State and parameters\<close>

datatype entity_type = ETask | EMessage | EFile | EUser

text \<open>A document as it is sent to a provider.\<close>

record search_document =
  sd_id :: uuid
  sd_org_id :: uuid
  sd_entity_type :: "entity_type option"
  sd_title :: "string option"
  sd_body :: "string option"
  sd_metadata :: "(string \<times> string) list"

record search_result =
  sr_id :: uuid
  sr_entity_type :: entity_type
  sr_score :: int

record search_options =
  so_query :: string
  so_orgId :: uuid
  so_entityTypes :: "entity_type list option"
  so_limit :: "nat option"
  so_offset :: "nat option"

record search_response =
  sp_results :: "search_result list"
  sp_total :: nat
  sp_degraded :: bool

datatype ts_request = CreateCollection string | Upsert string "(string \<times> string) list" | Delete string uuid

record search_db = dir +
  s_tasks :: "task list"
  s_messages :: "message list"
  s_files :: "file_row list"
  ts_log :: "ts_request list"
  ts_initialized :: bool

record ts_params =
  tp_q :: string
  tp_query_by :: string
  tp_filter_by :: string
  tp_per_page :: nat
  tp_page :: nat

text \<open>\<open>rank_task q t\<close> is the rank of a task whose vector matches the query, \<open>None\<close> when it does not match;
  \<open>hits\<close> the answer of Typesense, \<open>None\<close> when the request fails; \<open>breaker_ok\<close> whether the breaker lets the call
  through and it ends in time.\<close>

record search_env =
  sv_typesense :: bool
  rank_task :: "string \<Rightarrow> task \<Rightarrow> int option"
  rank_message :: "string \<Rightarrow> message \<Rightarrow> int option"
  hits :: "string \<Rightarrow> ts_params \<Rightarrow> (uuid \<times> int) list option"
  breaker_ok :: bool

section \<open>PostgreSQL\<close>

text \<open>\<^verbatim>\<open>s LIKE p\<close>: \<^verbatim>\<open>%\<close> stands for any string, \<^verbatim>\<open>_\<close> for any character, a backslash quotes the next character.\<close>

fun sql_like :: "string \<Rightarrow> string \<Rightarrow> bool" where
  "sql_like [] s = (s = [])"
| "sql_like (p # ps) s =
     (if p = CHR ''%'' then sql_like ps s \<or> (case s of [] \<Rightarrow> False | _ # cs \<Rightarrow> sql_like (p # ps) cs)
      else if p = CHR 0x5C \<and> ps \<noteq> [] then (case s of [] \<Rightarrow> False | c # cs \<Rightarrow> c = hd ps \<and> sql_like (tl ps) cs)
      else (case s of [] \<Rightarrow> False | c # cs \<Rightarrow> (p = CHR ''_'' \<or> c = p) \<and> sql_like ps cs))"

definition ilike :: "string \<Rightarrow> string \<Rightarrow> bool" where
  "ilike s p = sql_like (toLowerCase p) (toLowerCase s)"

definition ALL_TYPES :: "entity_type list" where
  "ALL_TYPES = [ETask, EMessage, EFile, EUser]"

text \<open>The rows of a query that match, best rank first.\<close>

definition ranked :: "('r \<Rightarrow> int option) \<Rightarrow> ('r \<Rightarrow> bool) \<Rightarrow> 'r list \<Rightarrow> 'r list" where
  "ranked rank P rs = sort_key (\<lambda>r. - the (rank r)) (filter (\<lambda>r. P r \<and> rank r \<noteq> None) rs)"

definition task_results :: "search_env \<Rightarrow> string \<Rightarrow> uuid \<Rightarrow> 'a search_db_scheme \<Rightarrow> search_result list" where
  "task_results env q orgId w =
     map (\<lambda>t. \<lparr>sr_id = t_id t, sr_entity_type = ETask, sr_score = the (rank_task env q t)\<rparr>)
       (ranked (rank_task env q) (\<lambda>t. t_org_id t = orgId \<and> t_deleted_at t = None) (s_tasks w))"

definition message_results :: "search_env \<Rightarrow> string \<Rightarrow> uuid \<Rightarrow> 'a search_db_scheme \<Rightarrow> search_result list" where
  "message_results env q orgId w =
     map (\<lambda>m. \<lparr>sr_id = msg_id m, sr_entity_type = EMessage, sr_score = the (rank_message env q m)\<rparr>)
       (ranked (rank_message env q) (\<lambda>m. msg_org_id m = orgId \<and> msg_deleted_at m = None) (s_messages w))"

definition file_results :: "string \<Rightarrow> uuid \<Rightarrow> 'a search_db_scheme \<Rightarrow> search_result list" where
  "file_results q orgId w =
     map (\<lambda>f. \<lparr>sr_id = f_id f, sr_entity_type = EFile, sr_score = 1\<rparr>)
       (filter (\<lambda>f. f_org_id f = orgId \<and> f_deleted_at f = None \<and> ilike (f_filename f) (CHR ''%'' # q @ ''%'')) (s_files w))"

text \<open>The join has one row for each active membership.\<close>

definition user_results :: "string \<Rightarrow> uuid \<Rightarrow> 'a search_db_scheme \<Rightarrow> search_result list" where
  "user_results q orgId w =
     concat (map (\<lambda>u. map (\<lambda>_. \<lparr>sr_id = u_id u, sr_entity_type = EUser, sr_score = 1\<rparr>)
         (filter (\<lambda>m. m_user_id m = u_id u \<and> m_org_id m = orgId \<and> m_status m = MActive \<and> m_deleted_at m = None)
            (org_memberships w)))
       (filter (\<lambda>u. ilike (u_name u) (CHR ''%'' # q @ ''%'') \<or> ilike (u_email u) (CHR ''%'' # q @ ''%'')) (users w)))"

definition type_results :: "search_env \<Rightarrow> string \<Rightarrow> uuid \<Rightarrow> 'a search_db_scheme \<Rightarrow> entity_type \<Rightarrow> search_result list" where
  "type_results env q orgId w ty =
     (case ty of ETask \<Rightarrow> task_results env q orgId w | EMessage \<Rightarrow> message_results env q orgId w
      | EFile \<Rightarrow> file_results q orgId w | EUser \<Rightarrow> user_results q orgId w)"

definition fts_search :: "search_env \<Rightarrow> search_options \<Rightarrow> 'a search_db_scheme \<Rightarrow> search_response" where
  "fts_search env opts w =
     (let limit = case_option 20 id (so_limit opts); offset = case_option 0 id (so_offset opts);
          types = case_option ALL_TYPES id (so_entityTypes opts);
          results = concat (map (\<lambda>ty. if ty \<in> set types
                       then limit_offset limit offset (type_results env (so_query opts) (so_orgId opts) w ty) else []) ALL_TYPES)
      in \<lparr>sp_results = take limit (sort_key (\<lambda>r. - sr_score r) results), sp_total = length results, sp_degraded = False\<rparr>)"

text \<open>\<^verbatim>\<open>reindexAll\<close>: the update of the messages writes the values they have.\<close>

definition fts_reindexAll :: "timestamp \<Rightarrow> uuid \<Rightarrow> 'a search_db_scheme \<Rightarrow> 'a search_db_scheme" where
  "fts_reindexAll now orgId w =
     w\<lparr>s_tasks := update_where (\<lambda>t. t_org_id t = orgId \<and> t_deleted_at t = None) (\<lambda>t. t\<lparr>t_updated_at := now\<rparr>) (s_tasks w)\<rparr>"

section \<open>Typesense\<close>

definition COLLECTIONS :: "string list" where
  "COLLECTIONS = [''tasks'', ''chat_messages'', ''files'', ''users'']"

definition collection_of :: "entity_type \<Rightarrow> string" where
  "collection_of ty = (case ty of ETask \<Rightarrow> ''tasks'' | EMessage \<Rightarrow> ''chat_messages'' | EFile \<Rightarrow> ''files'' | EUser \<Rightarrow> ''users'')"

text \<open>The first call of a provider object creates the collections; \<open>initialized\<close> is its flag.  The object of the
  service lives as long as the process; its flag is \<open>ts_initialized\<close>.\<close>

definition ensureCollections :: "bool \<Rightarrow> 'a search_db_scheme \<Rightarrow> 'a search_db_scheme" where
  "ensureCollections initialized w = (if initialized then w else w\<lparr>ts_log := ts_log w @ map CreateCollection COLLECTIONS\<rparr>)"

definition ts_upsertDocument :: "bool \<Rightarrow> search_document \<Rightarrow> 'a search_db_scheme \<Rightarrow> 'a search_db_scheme" where
  "ts_upsertDocument initialized doc w =
     (let w1 = ensureCollections initialized w; meta = (\<lambda>k. case_option '''' id (map_of (sd_metadata doc) k)) in
      case sd_entity_type doc of
        None \<Rightarrow> w1
      | Some ty \<Rightarrow>
          w1\<lparr>ts_log := ts_log w1 @ [Upsert (collection_of ty)
               [(''id'', sd_id doc), (''org_id'', sd_org_id doc), (''title'', case_option '''' id (sd_title doc)),
                (''body'', case_option '''' id (sd_body doc)), (''filename'', meta ''filename''), (''name'', meta ''name''),
                (''email'', meta ''email'')]]\<rparr>)"

definition ts_deleteDocument :: "bool \<Rightarrow> uuid \<Rightarrow> 'a search_db_scheme \<Rightarrow> 'a search_db_scheme" where
  "ts_deleteDocument initialized i w =
     (let w1 = ensureCollections initialized w in w1\<lparr>ts_log := ts_log w1 @ map (\<lambda>c. Delete c i) COLLECTIONS\<rparr>)"

definition query_by :: "entity_type \<Rightarrow> string" where
  "query_by ty = (case ty of ETask \<Rightarrow> ''title,body'' | EMessage \<Rightarrow> ''body'' | EFile \<Rightarrow> ''filename'' | EUser \<Rightarrow> ''name,email'')"

definition org_filter :: "uuid \<Rightarrow> string" where
  "org_filter orgId = ''org_id:='' @ orgId"

definition ts_params_of :: "search_options \<Rightarrow> entity_type \<Rightarrow> ts_params" where
  "ts_params_of opts ty =
     (let limit = case_option 20 id (so_limit opts); offset = case_option 0 id (so_offset opts) in
      \<lparr>tp_q = so_query opts, tp_query_by = query_by ty, tp_filter_by = org_filter (so_orgId opts), tp_per_page = limit,
       tp_page = offset div limit + 1\<rparr>)"

text \<open>The hits of one collection; a request that fails is logged and gives none.\<close>

definition ts_type_results :: "search_env \<Rightarrow> search_options \<Rightarrow> entity_type \<Rightarrow> search_result list" where
  "ts_type_results env opts ty =
     (case hits env (collection_of ty) (ts_params_of opts ty) of
        None \<Rightarrow> []
      | Some hs \<Rightarrow> map (\<lambda>(i, score). \<lparr>sr_id = i, sr_entity_type = ty, sr_score = score\<rparr>) hs)"

definition ts_search ::
    "search_env \<Rightarrow> search_options \<Rightarrow> 'a search_db_scheme \<Rightarrow> search_response \<times> 'a search_db_scheme" where
  "ts_search env opts w =
     (let results = concat (map (ts_type_results env opts) (case_option ALL_TYPES id (so_entityTypes opts)))
      in (\<lparr>sp_results = results, sp_total = length results, sp_degraded = False\<rparr>,
          (ensureCollections (ts_initialized w) w)\<lparr>ts_initialized := True\<rparr>))"

section \<open>Service, worker and route\<close>

text \<open>A call that the breaker refuses does not reach the provider.\<close>

definition search ::
    "search_env \<Rightarrow> search_options \<Rightarrow> 'a search_db_scheme \<Rightarrow> search_response \<times> 'a search_db_scheme" where
  "search env opts w =
     (if breaker_ok env then (if sv_typesense env then ts_search env opts w else (fts_search env opts w, w))
      else ((fts_search env opts w)\<lparr>sp_degraded := True\<rparr>, w))"

datatype index_action = IndexUpsert | IndexDelete

definition INDEX_IDEMPOTENCY_TTL :: int where
  "INDEX_IDEMPOTENCY_TTL = 5 * 60"

definition entity_name :: "entity_type \<Rightarrow> string" where
  "entity_name ty = (case ty of ETask \<Rightarrow> ''task'' | EMessage \<Rightarrow> ''message'' | EFile \<Rightarrow> ''file'' | EUser \<Rightarrow> ''user'')"

definition indexed_key :: "entity_type \<Rightarrow> uuid \<Rightarrow> index_action \<Rightarrow> string" where
  "indexed_key ty i act =
     ''search:indexed:'' @ entity_name ty @ '':'' @ i @ '':'' @ (case act of IndexUpsert \<Rightarrow> ''upsert'' | IndexDelete \<Rightarrow> ''delete'')"

text \<open>Each job makes a new provider.  The PostgreSQL provider has no index of its own, so both of its operations do
  nothing.\<close>

definition searchWorkerJob ::
    "search_env \<Rightarrow> timestamp \<Rightarrow> entity_type \<Rightarrow> uuid \<Rightarrow> uuid \<Rightarrow> index_action \<Rightarrow> search_document \<Rightarrow> 'a search_db_scheme
     \<Rightarrow> 'a search_db_scheme" where
  "searchWorkerJob env now ty i orgId act document w =
     (if redis_get now (indexed_key ty i act) w \<noteq> None then w
      else let doc = document\<lparr>sd_id := i, sd_org_id := orgId, sd_entity_type := Some ty\<rparr>;
               w1 = (if sv_typesense env
                     then (case act of IndexDelete \<Rightarrow> ts_deleteDocument False i w | IndexUpsert \<Rightarrow> ts_upsertDocument False doc w)
                     else w)
           in redis_setex now (indexed_key ty i act) (JStr ''1'') INDEX_IDEMPOTENCY_TTL w1)"

text \<open>The gauge \<^verbatim>\<open>search_index_lag_seconds\<close>: the age of the oldest pending event of the listed types, in milliseconds.\<close>

definition INDEXED_EVENTS :: "string list" where
  "INDEXED_EVENTS = [''task.created'', ''task.updated'', ''task.deleted'', ''message.created'', ''message.deleted'',
     ''file.confirmed'', ''file.deleted'']"

definition updateSearchIndexLag :: "timestamp \<Rightarrow> 'a base_scheme \<Rightarrow> int" where
  "updateSearchIndexLag now w =
     (case map oe_occurred_at (filter (\<lambda>e. oe_status e = OPending \<and> oe_event_type e \<in> set INDEXED_EVENTS) (outbox_events w)) of
        [] \<Rightarrow> 0 | t # ts \<Rightarrow> now - fold min ts t)"

definition entity_of_name :: "string \<Rightarrow> entity_type option" where
  "entity_of_name s = map_of [(''task'', ETask), (''message'', EMessage), (''file'', EFile), (''user'', EUser)] s"

definition search_fields :: "(string \<times> schema) list" where
  "search_fields =
     [(''q'', ZString [Min 1, Max 200]), (''entity_types'', ZOptional (ZString [])),
      (''limit'', ZDefault (ZCoerceInt (Some 1) (Some 100)) (JNum 20)), (''offset'', ZDefault (ZCoerceInt (Some 0) None) (JNum 0))]"

text \<open>An empty \<^verbatim>\<open>entity_types\<close> is falsy and searches everything; names that are not entity types are dropped.\<close>

definition decode_search :: "uuid \<Rightarrow> json \<Rightarrow> search_options option" where
  "decode_search orgId d = do {
     q \<leftarrow> required as_str ''q'' d;
     types \<leftarrow> optional as_str ''entity_types'' d;
     limit \<leftarrow> required as_int ''limit'' d;
     offset \<leftarrow> required as_int ''offset'' d;
     Some \<lparr>so_query = q, so_orgId = orgId,
       so_entityTypes = (if truthy types then Some (List.map_filter entity_of_name (split_on (CHR '','') (the types))) else None),
       so_limit = Some (nat limit), so_offset = Some (nat offset)\<rparr> }"

definition response_json :: "search_response \<Rightarrow> json" where
  "response_json r = JObj
     ([(''results'', JArr (map (\<lambda>x. JObj [(''id'', JStr (sr_id x)), (''entity_type'', JStr (entity_name (sr_entity_type x))),
        (''score'', JNum (sr_score x))]) (sp_results r))), (''total'', JNum (int (sp_total r)))] @
      (if sp_degraded r then [(''degraded'', JBool True)] else []))"

definition search_handler :: "search_env \<Rightarrow> http_env \<Rightarrow> 'a search_db_scheme handler" where
  "search_handler senv env params rq meta u c =
     validate (he_safeParse env) (ZObject search_fields) (rq_query rq) (\<lambda>d. cast_to (decode_search (oc_orgId c)) d (\<lambda>opts w.
       let (result, w1) = search senv opts w in
       (if sp_degraded result
        then (200, JObj [(''data'', response_json result), (''meta'', JObj [(''search_degraded'', JBool True)])])
        else res_success meta (response_json result), w1)))"

definition search_routes :: "search_env \<Rightarrow> http_env \<Rightarrow> 'a search_db_scheme route list" where
  "search_routes senv env = [mk_route ''GET'' ''/orgs/:orgId/search'' False (search_handler senv env)]"


section \<open>Results belong to the organization\<close>

text \<open>A result names a live row of the organization, or one of its active members.\<close>

definition owned :: "uuid \<Rightarrow> 'a search_db_scheme \<Rightarrow> search_result \<Rightarrow> bool" where
  "owned g w r =
     (case sr_entity_type r of
        ETask \<Rightarrow> list_ex (\<lambda>t. t_id t = sr_id r \<and> t_org_id t = g \<and> t_deleted_at t = None) (s_tasks w)
      | EMessage \<Rightarrow> list_ex (\<lambda>m. msg_id m = sr_id r \<and> msg_org_id m = g \<and> msg_deleted_at m = None) (s_messages w)
      | EFile \<Rightarrow> list_ex (\<lambda>f. f_id f = sr_id r \<and> f_org_id f = g \<and> f_deleted_at f = None) (s_files w)
      | EUser \<Rightarrow> list_ex (\<lambda>m. m_user_id m = sr_id r \<and> m_org_id m = g \<and> m_status m = MActive \<and> m_deleted_at m = None)
                  (org_memberships w))"

lemma type_results_owned: "r \<in> set (type_results env q g w ty) \<Longrightarrow> owned g w r \<and> sr_entity_type r = ty"
  by (cases ty) (auto simp: type_results_def task_results_def message_results_def file_results_def user_results_def
      owned_def ranked_def list_ex_iff)

lemma in_limit_offset: "r \<in> set (limit_offset n m rs) \<Longrightarrow> r \<in> set rs"
  by (auto simp: limit_offset_def dest: in_set_takeD in_set_dropD)

lemma fts_results_owned:
  assumes "r \<in> set (sp_results (fts_search env opts w))"
  shows "owned (so_orgId opts) w r \<and> sr_entity_type r \<in> set (case_option ALL_TYPES id (so_entityTypes opts))"
  using assms
  by (auto simp: fts_search_def Let_def ALL_TYPES_def dest!: in_set_takeD in_limit_offset type_results_owned split: if_splits)

lemma fts_results_bound:
  "length (sp_results (fts_search env opts w)) \<le> case_option 20 id (so_limit opts)"
  "sorted_wrt (\<lambda>a b. sr_score b \<le> sr_score a) (sp_results (fts_search env opts w))"
proof -
  show "length (sp_results (fts_search env opts w)) \<le> case_option 20 id (so_limit opts)"
    by (simp add: fts_search_def Let_def)
  have "sorted (map (\<lambda>r. - sr_score r) (sort_key (\<lambda>r. - sr_score r) xs))" for xs by simp
  then have "sorted_wrt (\<lambda>a b. sr_score b \<le> sr_score a) (sort_key (\<lambda>r. - sr_score r) xs)" for xs
    by (simp add: sorted_map)
  then show "sorted_wrt (\<lambda>a b. sr_score b \<le> sr_score a) (sp_results (fts_search env opts w))"
    unfolding fts_search_def Let_def search_response.select_convs by (rule sorted_wrt_take)
qed

section \<open>Properties\<close>


text \<open>Pages lose results: the limit is applied to every type and again to their union, the offset to every type only.
  With two types, what the first page cuts off is skipped by the second.\<close>

theorem search_pages_lose_results:
  assumes "file_results q g w = fs" "length fs = n" "0 < n" and "user_results q g w = us" "length us = n"
    and "opts = \<lparr>so_query = q, so_orgId = g, so_entityTypes = Some [EFile, EUser], so_limit = Some n, so_offset = Some 0\<rparr>"
  shows "sp_results (fts_search env opts w) = fs \<and> sp_results (fts_search env (opts\<lparr>so_offset := Some n\<rparr>) w) = []"
proof -
  have sc: "sr_score r = 1" if "r \<in> set (fs @ us)" for r
    using that assms(1,4) by (auto simp: file_results_def user_results_def)
  have "sorted (map (\<lambda>r. - sr_score r) (fs @ us))"
    using sc by (intro sorted_wrt_mono_rel [OF _ sorted_wrt_true] sorted_map [THEN iffD2]) auto
  then have "sort_key (\<lambda>r. - sr_score r) (fs @ us) = fs @ us" by (rule sort_key_id_if_sorted)
  with assms show ?thesis
    by (simp add: fts_search_def Let_def ALL_TYPES_def type_results_def limit_offset_def)
qed

text \<open>The index stays behind: a second change of an entity within five minutes of the first is not sent.\<close>

theorem search_index_misses_update:
  assumes "redis_get now (indexed_key ty i IndexUpsert) w = None" and "now \<le> now'" "now' < now + 300000"
    and "w1 = searchWorkerJob env now ty i g IndexUpsert doc1 w"
  shows "searchWorkerJob env now' ty i g IndexUpsert doc2 w1 = w1"
proof -
  have "redis_get now' (indexed_key ty i IndexUpsert) w1 = Some (JStr ''1'')"
    using assms by (simp add: searchWorkerJob_def redis_get_def redis_setex_def live_at_def INDEX_IDEMPOTENCY_TTL_def Let_def)
  then show ?thesis by (simp add: searchWorkerJob_def)
qed


section \<open>Example\<close>

definition ex_search_db :: search_db where
  "ex_search_db = dir.extend (dir.truncate (ex_flag_db\<lparr>users := [ex_user], org_memberships := [ex_member ''g'' ''u1'' Member]\<rparr>))
     \<lparr>s_tasks = [], s_messages = [], s_files = [(new_file 0 ''f1'' ''g'' ''u1'' ''a.txt'' ''k1'' ''t'' 1), (new_file 0 ''f2'' ''h'' ''u2'' ''a.txt'' ''k2'' ''t'' 1)],
      ts_log = [], ts_initialized = False\<rparr>"

definition ex_search_env :: "bool \<Rightarrow> search_env" where
  "ex_search_env ts = \<lparr>sv_typesense = ts, rank_task = (\<lambda>_ _. None), rank_message = (\<lambda>_ _. None),
     hits = (\<lambda>c ps. if tp_filter_by ps = ''org_id:=g'' then Some [(''d1'', 5)] else Some []), breaker_ok = True\<rparr>"

definition ex_search_options :: search_options where
  "ex_search_options = \<lparr>so_query = ''a'', so_orgId = ''g'', so_entityTypes = Some [EFile, EUser], so_limit = Some 1, so_offset = Some 0\<rparr>"

lemma ex_search_files:
  "file_results ''a'' ''g'' ex_search_db = [\<lparr>sr_id = ''f1'', sr_entity_type = EFile, sr_score = 1\<rparr>]"
  "user_results ''a'' ''g'' ex_search_db = [\<lparr>sr_id = ''u1'', sr_entity_type = EUser, sr_score = 1\<rparr>]"
proof -
  have "ilike ''a.txt'' ''%a%''" "ilike ''A'' ''%a%''" by code_simp+
  then show "file_results ''a'' ''g'' ex_search_db = [\<lparr>sr_id = ''f1'', sr_entity_type = EFile, sr_score = 1\<rparr>]"
    "user_results ''a'' ''g'' ex_search_db = [\<lparr>sr_id = ''u1'', sr_entity_type = EUser, sr_score = 1\<rparr>]"
    by (simp_all add: file_results_def user_results_def ex_search_db_def dir.defs ex_flag_db_def new_file_def ex_user_def
        new_user_def ex_member_def)
qed

theorem search_pages_lose_results_witness:
  "sp_results (fts_search (ex_search_env False) ex_search_options ex_search_db) = [\<lparr>sr_id = ''f1'', sr_entity_type = EFile, sr_score = 1\<rparr>] \<and>
   sp_results (fts_search (ex_search_env False) (ex_search_options\<lparr>so_offset := Some 1\<rparr>) ex_search_db) = []"
  using search_pages_lose_results [OF ex_search_files(1) _ _ ex_search_files(2), of 1 ex_search_options "ex_search_env False"]
  by (simp add: ex_search_options_def)


theorem search_index_misses_update_witness:
  "\<exists>w1. w1 = searchWorkerJob (ex_search_env True) 0 ETask ''t'' ''g'' IndexUpsert
       \<lparr>sd_id = ''x'', sd_org_id = ''x'', sd_entity_type = None, sd_title = Some ''old'', sd_body = None, sd_metadata = []\<rparr> ex_search_db \<and>
     length (ts_log w1) = 5 \<and>
     searchWorkerJob (ex_search_env True) 299999 ETask ''t'' ''g'' IndexUpsert
       \<lparr>sd_id = ''x'', sd_org_id = ''x'', sd_entity_type = None, sd_title = Some ''new'', sd_body = None, sd_metadata = []\<rparr> w1 = w1"
proof -
  have r: "redis_get 0 (indexed_key ETask ''t'' IndexUpsert) ex_search_db = None"
    by (simp add: redis_get_def ex_search_db_def dir.defs ex_flag_db_def)
  let ?d = "\<lambda>x. \<lparr>sd_id = ''x'', sd_org_id = ''x'', sd_entity_type = None, sd_title = Some x, sd_body = None, sd_metadata = []\<rparr>"
  have "length (ts_log (searchWorkerJob (ex_search_env True) 0 ETask ''t'' ''g'' IndexUpsert (?d ''old'') ex_search_db)) = 5"
    unfolding searchWorkerJob_def r by (simp add: ex_search_env_def ts_upsertDocument_def ensureCollections_def COLLECTIONS_def redis_setex_def
        ex_search_db_def dir.defs Let_def)
  with search_index_misses_update [OF r _ _ refl, of 299999 "ex_search_env True" "''g''" "?d ''new''" "?d ''old''"]
  show ?thesis by simp
qed

end
