(* ===== verification/Rate_Limiter.thy ===== *)
theory Rate_Limiter
  imports Platform_Base
begin

text \<open>
  The sliding-window rate limiters: \<^verbatim>\<open>src/shared/redis/rate-limiter.ts\<close> (HTTP, with its in-process
  fallback) and \<^verbatim>\<open>src/shared/realtime/rate-limiter.ts\<close> (Socket.IO events), over a model of the Redis
  sorted sets they use.  Both Redis limiters refine the same function of the history of requests; the
  bound on admitted requests is proved once, in the locale \<open>window_limiter\<close>, for all three.
\<close>

section \<open>Sorted sets\<close>

text \<open>A sorted set: its members with their scores, and the instant it expires at.\<close>

type_synonym zset = "(string \<times> timestamp) list \<times> timestamp option"

record limiter = base +
  zsets :: "string \<Rightarrow> zset option"
  fallbackStore :: "string \<Rightarrow> timestamp list option"

definition zset_at :: "timestamp \<Rightarrow> string \<Rightarrow> 'a limiter_scheme \<Rightarrow> zset" where
  "zset_at now k w =
     (case zsets w k of None \<Rightarrow> ([], None) | Some (ms, e) \<Rightarrow> if live_at now e then (ms, e) else ([], None))"

definition zcard :: "timestamp \<Rightarrow> string \<Rightarrow> 'a limiter_scheme \<Rightarrow> nat" where
  "zcard now k w = length (fst (zset_at now k w))"

text \<open>A lower bound of \<open>None\<close> is \<^verbatim>\<open>-inf\<close>; a set that becomes empty is removed with its expiry.\<close>

definition zremrangebyscore ::
    "timestamp \<Rightarrow> string \<Rightarrow> int option \<Rightarrow> int \<Rightarrow> 'a limiter_scheme \<Rightarrow> 'a limiter_scheme" where
  "zremrangebyscore now k lo hi w =
     (let (ms, e) = zset_at now k w;
          ms' = filter (\<lambda>(m, s). \<not> ((case lo of None \<Rightarrow> True | Some l \<Rightarrow> l \<le> s) \<and> s \<le> hi)) ms
      in w\<lparr>zsets := (zsets w)(k := (if ms' = [] then None else Some (ms', e)))\<rparr>)"

definition zadd :: "timestamp \<Rightarrow> string \<Rightarrow> int \<Rightarrow> string \<Rightarrow> 'a limiter_scheme \<Rightarrow> 'a limiter_scheme" where
  "zadd now k s m w =
     (let (ms, e) = zset_at now k w
      in w\<lparr>zsets := (zsets w)(k \<mapsto> (filter (\<lambda>(m', _). m' \<noteq> m) ms @ [(m, s)], e))\<rparr>)"

definition pexpire :: "timestamp \<Rightarrow> string \<Rightarrow> int \<Rightarrow> 'a limiter_scheme \<Rightarrow> 'a limiter_scheme" where
  "pexpire now k ms w =
     w\<lparr>zsets := (zsets w)(k := map_option (\<lambda>(z, _). (z, Some (now + ms))) (zsets w k))\<rparr>"

text \<open>The member \<^verbatim>\<open>`${now}-${Math.random()}`\<close>.\<close>

definition request_member :: "timestamp \<Rightarrow> string \<Rightarrow> string" where
  "request_member now r = show_nat (nat now) @ ''-'' @ r"

section \<open>The HTTP limiter\<close>

record limit_result =
  rl_allowed :: bool
  rl_remaining :: int
  rl_retryAfter :: int

definition limit_answer :: "nat \<Rightarrow> nat \<Rightarrow> int \<Rightarrow> limit_result" where
  "limit_answer count limit windowMs =
     \<lparr>rl_allowed = count < limit, rl_remaining = max 0 (int limit - int count - 1),
      rl_retryAfter = (if count < limit then 0 else (windowMs + 999) div 1000)\<rparr>"

definition checkLimitFallback ::
    "string \<Rightarrow> nat \<Rightarrow> int \<Rightarrow> timestamp \<Rightarrow> timestamp \<Rightarrow> 'a limiter_scheme \<Rightarrow> limit_result \<times> 'a limiter_scheme" where
  "checkLimitFallback key limit windowMs now windowStart w =
     (let timestamps = filter (\<lambda>ts. windowStart < ts) (case_option [] id (fallbackStore w key));
          count = length timestamps
      in (limit_answer count limit windowMs,
          if count < limit then w\<lparr>fallbackStore := (fallbackStore w)(key \<mapsto> timestamps @ [now])\<rparr> else w))"

text \<open>How the pipeline ends: with its results, with errors in place of results, or rejected.\<close>

datatype redis_exec = ExecOk | ExecErrors | ExecRejects

definition checkLimit ::
    "redis_exec \<Rightarrow> string \<Rightarrow> nat \<Rightarrow> int \<Rightarrow> timestamp \<Rightarrow> 'a limiter_scheme \<Rightarrow> limit_result \<times> 'a limiter_scheme" where
  "checkLimit mode key limit windowMs now w =
     (let windowStart = now - windowMs; redisKey = ''rl:'' @ key in
      case mode of
        ExecOk \<Rightarrow>
          (let w1 = zremrangebyscore now redisKey None windowStart w;
               count = zcard now redisKey w1;
               (r, w2) = draw w1;
               w3 = pexpire now redisKey windowMs (zadd now redisKey now (request_member now r) w2)
           in (limit_answer count limit windowMs, w3))
      | ExecErrors \<Rightarrow> (limit_answer 0 limit windowMs, w)
      | ExecRejects \<Rightarrow> checkLimitFallback key limit windowMs now windowStart w)"

text \<open>The headers of the answer, and the error of a refused request.\<close>

definition rateLimitMiddleware ::
    "redis_exec \<Rightarrow> string \<Rightarrow> nat \<Rightarrow> int \<Rightarrow> timestamp \<Rightarrow> 'a limiter_scheme
     \<Rightarrow> unit outcome \<times> (string \<times> int) list \<times> 'a limiter_scheme" where
  "rateLimitMiddleware mode key limit windowMs now w =
     (let (r, w1) = checkLimit mode key limit windowMs now w;
          headers = [(''X-RateLimit-Limit'', int limit), (''X-RateLimit-Remaining'', rl_remaining r),
                     (''X-RateLimit-Window'', (windowMs + 999) div 1000)]
      in if rl_allowed r then (Inr (), headers, w1)
         else (Inl TooManyRequestsError, headers @ [(''Retry-After'', rl_retryAfter r)], w1))"

text \<open>The limits in use: a key, a limit and a window.\<close>

type_synonym rate_limit = "string \<times> nat \<times> int"

definition authRateLimit :: "string \<Rightarrow> rate_limit" where
  "authRateLimit ip = (''auth:'' @ ip, 10, 60000)"

definition apiRateLimit :: "string option \<Rightarrow> string \<Rightarrow> rate_limit" where
  "apiRateLimit userId ip = (''api:user:'' @ case_option ip id userId, 300, 60000)"

definition apiTenantRateLimit :: "string option \<Rightarrow> rate_limit" where
  "apiTenantRateLimit orgId = (''api:tenant:'' @ case_option ''anonymous'' id orgId, 3000, 60000)"

definition registerRateLimit :: "string \<Rightarrow> rate_limit" where
  "registerRateLimit ip = (''register:'' @ ip, 5, 3600000)"

definition passwordResetRateLimit :: "string option \<Rightarrow> string \<Rightarrow> rate_limit" where
  "passwordResetRateLimit email ip = (''pwreset:'' @ case_option ip toLowerCase email, 5, 3600000)"

definition magicLinkRateLimit :: "string option \<Rightarrow> string \<Rightarrow> rate_limit" where
  "magicLinkRateLimit email ip = (''magiclink:'' @ case_option ip toLowerCase email, 5, 3600000)"

definition verifyEmailResendRateLimit :: "string option \<Rightarrow> string \<Rightarrow> rate_limit" where
  "verifyEmailResendRateLimit email ip = (''verifyresend:'' @ case_option ip toLowerCase email, 3, 3600000)"

definition socketRateLimit :: "string \<Rightarrow> rate_limit" where
  "socketRateLimit userId = (''socket:'' @ userId, 60, 10000)"

section \<open>The limiter of the socket events\<close>

definition checkRateLimit ::
    "redis_exec \<Rightarrow> string \<Rightarrow> nat \<Rightarrow> int \<Rightarrow> timestamp \<Rightarrow> 'a limiter_scheme \<Rightarrow> bool outcome \<times> 'a limiter_scheme" where
  "checkRateLimit mode key limit windowSeconds now w =
     (let windowMs = windowSeconds * 1000; windowStart = now - windowMs in
      case mode of
        ExecOk \<Rightarrow>
          (let w1 = zremrangebyscore now key (Some 0) windowStart w;
               (r, w2) = draw w1;
               w3 = zadd now key now (request_member now r) w2;
               count = zcard now key w3;
               w4 = pexpire now key ((windowSeconds + 1) * 1000) w3
           in (Inr (count \<le> limit), w4))
      | ExecErrors \<Rightarrow> (Inr False, w)
      | ExecRejects \<Rightarrow> (Inl (JsError ''Error''), w))"

section \<open>Histories of requests\<close>

text \<open>A history is the list of requests, each with its key and instant, oldest first; a run returns
  the decisions.\<close>

type_synonym history = "(string \<times> timestamp) list"

fun decisions :: "(string \<Rightarrow> timestamp \<Rightarrow> 's \<Rightarrow> bool \<times> 's) \<Rightarrow> history \<Rightarrow> 's \<Rightarrow> bool list \<times> 's" where
  "decisions f [] s = ([], s)"
| "decisions f ((k, t) # es) s =
     (let r = f k t s; rs = decisions f es (snd r) in (fst r # fst rs, snd rs))"

definition http_check :: "redis_exec \<Rightarrow> nat \<Rightarrow> int \<Rightarrow> string \<Rightarrow> timestamp \<Rightarrow> 'a limiter_scheme \<Rightarrow> bool \<times> 'a limiter_scheme" where
  "http_check mode limit windowMs k t w = (let (r, w1) = checkLimit mode k limit windowMs t w in (rl_allowed r, w1))"

definition socket_check :: "nat \<Rightarrow> int \<Rightarrow> string \<Rightarrow> timestamp \<Rightarrow> 'a limiter_scheme \<Rightarrow> bool \<times> 'a limiter_scheme" where
  "socket_check limit windowSeconds k t w =
     (let (r, w1) = checkRateLimit ExecOk k limit windowSeconds t w in (r = Inr True, w1))"

text \<open>The abstract limiter knows the history only: a request is admitted when fewer than \<open>limit\<close> requests
  with its key fall into the window before it.\<close>

definition recent :: "int \<Rightarrow> string \<Rightarrow> timestamp \<Rightarrow> history \<Rightarrow> nat" where
  "recent windowMs k t h = length (filter (\<lambda>(k', t'). k' = k \<and> t - windowMs < t') h)"

definition spec_check :: "nat \<Rightarrow> int \<Rightarrow> string \<Rightarrow> timestamp \<Rightarrow> history \<Rightarrow> bool \<times> history" where
  "spec_check limit windowMs k t h = (recent windowMs k t h < limit, h @ [(k, t)])"

lemma decisions_append:
  "decisions f (es @ es') s =
     (let r = decisions f es s; r' = decisions f es' (snd r) in (fst r @ fst r', snd r'))"
  by (induction es arbitrary: s) (auto simp: Let_def)

lemma length_decisions [simp]: "length (fst (decisions f es s)) = length es"
  by (induction es arbitrary: s) (auto simp: Let_def)

text \<open>A simulation between two step functions carries over to runs.\<close>

lemma decisions_simulate:
  assumes "R s s'" and "sorted (map snd es)" and "list_all (\<lambda>e. t0 \<le> snd e) es" and "Q s' t0"
    and step: "\<And>k t s s'. R s s' \<Longrightarrow> Q s' t \<Longrightarrow> fst (f k t s) = fst (g k t s') \<and> R (snd (f k t s)) (snd (g k t s')) \<and> Q (snd (g k t s')) t"
    and mono: "\<And>s t t'. Q s t \<Longrightarrow> t \<le> t' \<Longrightarrow> Q s t'"
  shows "fst (decisions f es s) = fst (decisions g es s')"
  using assms(1-4)
proof (induction es arbitrary: s s' t0)
  case (Cons e es)
  obtain k t where e: "e = (k, t)" by fastforce
  from Cons.prems(3,4) e mono have "Q s' t" by auto
  note st = step [OF Cons.prems(1) this, of k]
  have "fst (decisions f es (snd (f k t s))) = fst (decisions g es (snd (g k t s')))"
    using Cons.prems(2) st e by (intro Cons.IH [where ?t0.0 = t]) (auto simp: list_all_iff)
  with st e show ?case by (simp add: Let_def)
qed simp

section \<open>The Redis limiters refine the abstract one\<close>

text \<open>
  The sorted set of a key holds at least the requests of the last window, its members come from
  earlier draws, and it does not expire before all of them have left the window.
\<close>

definition key_rel :: "int \<Rightarrow> 'a limiter_scheme \<Rightarrow> zset \<Rightarrow> string \<Rightarrow> history \<Rightarrow> bool" where
  "key_rel windowMs w z k h =
     ((\<forall>t. (\<forall>(k', t') \<in> set h. t' \<le> t) \<longrightarrow>
        length (filter (\<lambda>(m, s). t - windowMs < s) (fst z)) = recent windowMs k t h) \<and>
      (\<forall>(m, s) \<in> set (fst z). 0 \<le> s \<and> (k, s) \<in> set h \<and> (\<exists>n i. i < drawn w \<and> m = request_member n (entropy w i)) \<and>
        (case snd z of None \<Rightarrow> True | Some x \<Rightarrow> s + windowMs \<le> x)))"

definition zset_rel :: "(string \<Rightarrow> string) \<Rightarrow> int \<Rightarrow> 'a limiter_scheme \<Rightarrow> history \<Rightarrow> bool" where
  "zset_rel key windowMs w h =
     (inj (entropy w) \<and> (\<forall>k. key_rel windowMs w (case_option ([], None) id (zsets w (key k))) k h))"

definition no_later :: "history \<Rightarrow> timestamp \<Rightarrow> bool" where
  "no_later h t = (0 \<le> t \<and> (\<forall>(k, t') \<in> set h. t' \<le> t))"

lemma request_member_inj: "request_member n r = request_member n' r' \<Longrightarrow> r = r'"
proof -
  have no_dash: "CHR ''-'' \<notin> set (show_nat n)" for n using show_nat_digits [of "CHR ''-''" n] by auto
  assume "request_member n r = request_member n' r'"
  then have "show_nat (nat n) @ CHR ''-'' # r = show_nat (nat n') @ CHR ''-'' # r'" by (simp add: request_member_def)
  from join_inj [OF no_dash no_dash this] show ?thesis by blast
qed

text \<open>What one pipeline leaves in the sorted set, and the cardinalities it sees.\<close>

lemma pipeline_effect:
  fixes w :: "'a limiter_scheme" and now :: timestamp
  assumes raw: "case_option ([], None) id (zsets w k) = (ms, e)"
    and ok: "\<forall>(m, s) \<in> set ms. 0 \<le> s \<and> (\<exists>n i. i < drawn w \<and> m = request_member n (entropy w i)) \<and>
      (case e of None \<Rightarrow> True | Some x \<Rightarrow> s + windowMs \<le> x)"
    and "inj (entropy w)" and lo: "lo = None \<or> lo = Some 0"
  defines "ms' \<equiv> filter (\<lambda>(m, s). now - windowMs < s) ms"
    and "w1 \<equiv> zremrangebyscore now k lo (now - windowMs) w"
    and "w2 \<equiv> zadd now k now (request_member now (entropy w (drawn w))) (snd (draw (zremrangebyscore now k lo (now - windowMs) w)))"
  shows "zcard now k w1 = length ms'" "zcard now k w2 = Suc (length ms')"
    "zsets (pexpire now k x w2) = (zsets w)(k \<mapsto> (ms' @ [(request_member now (entropy w (drawn w)), now)], Some (now + x)))"
proof -
  let ?m = "request_member now (entropy w (drawn w))"
  have dead: "ms' = []" if "\<not> live_at now e"
    using that ok by (cases e) (auto simp: ms'_def live_at_def filter_empty_conv)
  have flt: "filter (\<lambda>(m, s). \<not> ((case lo of None \<Rightarrow> True | Some l \<Rightarrow> l \<le> s) \<and> s \<le> now - windowMs)) ms = ms'"
    unfolding ms'_def by (rule filter_cong) (use ok lo in auto)
  have at: "zset_at now k w = (if live_at now e then (ms, e) else ([], None))"
    using raw by (auto simp: zset_at_def live_at_def split: option.splits)
  have fresh: "filter (\<lambda>(m', _). m' \<noteq> ?m) ms' = ms'"
  proof (rule filter_True, clarify)
    fix m s
    assume "(?m, s) \<in> set ms'"
    then obtain n i where "i < drawn w" "?m = request_member n (entropy w i)" using ok by (auto simp: ms'_def)
    with request_member_inj [of now _ n] assms(3) show False by (metis injD less_irrefl)
  qed
  have z1: "zsets w1 = (zsets w)(k := (if ms' = [] then None else Some (ms', e)))"
    using dead flt by (auto simp: w1_def zremrangebyscore_def at Let_def)
  then have at1: "fst (zset_at now k w1) = ms'"
    using dead by (auto simp: zset_at_def)
  then show "zcard now k w1 = length ms'" by (simp add: zcard_def)
  have live1: "live_at now (snd (zset_at now k w1))"
    using z1 by (auto simp: zset_at_def live_at_def)
  have d: "zset_at now k (snd (draw w1)) = zset_at now k w1" "zsets (snd (draw w1)) = zsets w1"
    by (simp_all add: zset_at_def draw_def)
  obtain e1 where at1': "zset_at now k w1 = (ms', e1)" "live_at now e1" using at1 live1 by (cases "zset_at now k w1") auto
  have z2: "zsets w2 = (zsets w)(k \<mapsto> (ms' @ [(?m, now)], e1))"
    by (simp add: w2_def w1_def [symmetric] zadd_def d at1' fresh z1)
  then show "zcard now k w2 = Suc (length ms')" using at1'(2) by (simp add: zcard_def zset_at_def)
  show "zsets (pexpire now k x w2) = (zsets w)(k \<mapsto> (ms' @ [(?m, now)], Some (now + x)))"
    by (simp add: pexpire_def z2)
qed

lemma recent_snoc [simp]:
  "recent windowMs k u (h @ [(k', t)]) = recent windowMs k u h + (if k' = k \<and> u - windowMs < t then 1 else 0)"
  by (simp add: recent_def)

lemma key_rel_other:
  assumes "key_rel windowMs w z k h" and "k' \<noteq> k" and "entropy w' = entropy w" and "drawn w \<le> drawn w'"
  shows "key_rel windowMs w' z k (h @ [(k', t)])"
  using assms by (fastforce simp: key_rel_def intro: less_le_trans)

lemma key_rel_same:
  assumes "key_rel windowMs w (ms, e) k h" and "no_later h t" and "entropy w' = entropy w" and "drawn w' = Suc (drawn w)"
    and "windowMs \<le> x"
  shows "key_rel windowMs w' (filter (\<lambda>(m, s). t - windowMs < s) ms @ [(request_member t (entropy w (drawn w)), t)], Some (t + x))
    k (h @ [(k, t)])"
proof -
  have "length (filter (\<lambda>(m, s). u - windowMs < s) (filter (\<lambda>(m, s). t - windowMs < s) ms)) = recent windowMs k u h"
    if "\<forall>(k', t') \<in> set h. t' \<le> u" "t \<le> u" for u
  proof -
    have "filter (\<lambda>(m, s). u - windowMs < s) (filter (\<lambda>(m, s). t - windowMs < s) ms) = filter (\<lambda>(m, s). u - windowMs < s) ms"
      using that(2) by (auto simp: filter_filter split_def intro: filter_cong)
    with assms(1) that show ?thesis by (simp add: key_rel_def)
  qed
  moreover have "0 \<le> s \<and> (k, s) \<in> set h \<and> (\<exists>n i. i < Suc (drawn w) \<and> m = request_member n (entropy w i)) \<and> s + windowMs \<le> t + x"
    if m: "(m, s) \<in> set ms" for m s
  proof -
    from assms(1) m obtain n i where "0 \<le> s" "(k, s) \<in> set h" "i < drawn w" "m = request_member n (entropy w i)"
      by (fastforce simp: key_rel_def)
    moreover from this assms(2) have "s \<le> t" by (auto simp: no_later_def)
    ultimately show ?thesis using assms(5) by (auto intro!: exI [of _ n] exI [of _ i])
  qed
  ultimately show ?thesis
    using assms(2-5) unfolding key_rel_def no_later_def
    by (auto simp only: fst_conv snd_conv set_append set_filter option.case list.set filter_append length_append recent_snoc
        filter.simps ball_Un split: if_splits) (auto simp: split_def)
qed

lemma zset_rel_step:
  fixes k :: string
  assumes rel: "zset_rel key windowMs w h" and nl: "no_later h t" and "inj key" and "windowMs \<le> x"
    and lo: "lo = None \<or> lo = Some 0"
  defines "w1 \<equiv> zremrangebyscore t (key k) lo (t - windowMs) w"
  defines "w2 \<equiv> zadd t (key k) t (request_member t (fst (draw w1))) (snd (draw w1))"
  shows "zcard t (key k) w1 = recent windowMs k t h" "zcard t (key k) w2 = Suc (recent windowMs k t h)"
    "zset_rel key windowMs (pexpire t (key k) x w2) (h @ [(k, t)])"
proof -
  obtain ms e where raw: "case_option ([], None) id (zsets w (key k)) = (ms, e)" by fastforce
  with rel have kr: "key_rel windowMs w (ms, e) k h" and inj: "inj (entropy w)"
    by (auto simp: zset_rel_def dest: spec [of _ k])
  have e1: "entropy w1 = entropy w" "drawn w1 = drawn w"
    by (simp_all add: w1_def zremrangebyscore_def Let_def split: prod.splits)
  then have w2: "w2 = zadd t (key k) t (request_member t (entropy w (drawn w))) (snd (draw w1))"
    by (simp add: w2_def)
  note eff = pipeline_effect [OF raw _ inj lo, of windowMs t, folded w1_def, folded w2]
  have ok: "\<forall>(m, s) \<in> set ms. 0 \<le> s \<and> (\<exists>n i. i < drawn w \<and> m = request_member n (entropy w i)) \<and>
      (case e of None \<Rightarrow> True | Some x \<Rightarrow> s + windowMs \<le> x)"
    using kr by (fastforce simp: key_rel_def)
  have c: "length (filter (\<lambda>(m, s). t - windowMs < s) ms) = recent windowMs k t h"
    using kr nl by (auto simp: key_rel_def no_later_def)
  from eff(1,2) [OF ok] c
  show "zcard t (key k) w1 = recent windowMs k t h" "zcard t (key k) w2 = Suc (recent windowMs k t h)"
    by simp_all
  have e2: "entropy (pexpire t (key k) x w2) = entropy w" "drawn (pexpire t (key k) x w2) = Suc (drawn w)"
    by (simp_all add: w2_def pexpire_def zadd_def e1 Let_def split: prod.splits)
  show "zset_rel key windowMs (pexpire t (key k) x w2) (h @ [(k, t)])"
    unfolding zset_rel_def e2 eff(3) [OF ok]
  proof (intro conjI allI inj)
    fix k'
    show "key_rel windowMs (pexpire t (key k) x w2) (case_option ([], None) id
      (((zsets w)(key k \<mapsto> (filter (\<lambda>(m, s). t - windowMs < s) ms @ [(request_member t (entropy w (drawn w)), t)], Some (t + x)))) (key k')))
      k' (h @ [(k, t)])"
      using key_rel_same [OF kr _ e2 assms(4)] nl key_rel_other [of windowMs w _ k' h k, OF _ _ e2(1)] e2(2) rel assms(3)
      by (cases "k' = k") (auto simp: no_later_def zset_rel_def inj_eq)
  qed
qed

lemma no_later_mono: "no_later h t \<Longrightarrow> t \<le> t' \<Longrightarrow> no_later h t'"
  by (fastforce simp: no_later_def)

lemma http_check_step:
  assumes "zset_rel ((@) ''rl:'') windowMs w h" and "no_later h t"
  shows "fst (http_check ExecOk limit windowMs k t w) = fst (spec_check limit windowMs k t h) \<and>
    zset_rel ((@) ''rl:'') windowMs (snd (http_check ExecOk limit windowMs k t w)) (snd (spec_check limit windowMs k t h)) \<and>
    no_later (snd (spec_check limit windowMs k t h)) t"
  using zset_rel_step [OF assms, of windowMs None k] assms(2)
  by (auto simp: http_check_def checkLimit_def spec_check_def Let_def limit_answer_def no_later_def inj_on_def split_def)

lemma socket_check_step:
  assumes "zset_rel (\<lambda>k. k) (windowSeconds * 1000) w h" and "no_later h t"
  shows "fst (socket_check limit windowSeconds k t w) = fst (spec_check limit (windowSeconds * 1000) k t h) \<and>
    zset_rel (\<lambda>k. k) (windowSeconds * 1000) (snd (socket_check limit windowSeconds k t w))
      (snd (spec_check limit (windowSeconds * 1000) k t h)) \<and>
    no_later (snd (spec_check limit (windowSeconds * 1000) k t h)) t"
  using zset_rel_step [OF assms, of "(windowSeconds + 1) * 1000" "Some 0" k] assms(2)
  by (auto simp: socket_check_def checkRateLimit_def spec_check_def Let_def no_later_def split_def)

definition fresh_limiter :: "'a limiter_scheme \<Rightarrow> bool" where
  "fresh_limiter w = (inj (entropy w) \<and> zsets w = (\<lambda>_. None) \<and> fallbackStore w = (\<lambda>_. None))"

definition timely :: "history \<Rightarrow> bool" where
  "timely es = (sorted (map snd es) \<and> list_all (\<lambda>e. 0 \<le> snd e) es)"

lemma zset_rel_fresh: "fresh_limiter w \<Longrightarrow> zset_rel key windowMs w []"
  by (simp add: zset_rel_def fresh_limiter_def key_rel_def recent_def)

lemma http_refines:
  "fresh_limiter w \<Longrightarrow> timely es \<Longrightarrow>
   fst (decisions (http_check ExecOk limit windowMs) es w) = fst (decisions (spec_check limit windowMs) es [])"
  by (rule decisions_simulate [where R = "zset_rel ((@) ''rl:'') windowMs" and Q = no_later and ?t0.0 = 0])
     (auto simp: timely_def zset_rel_fresh no_later_def [of "[]"] intro: no_later_mono dest: http_check_step)

lemma socket_refines:
  "fresh_limiter w \<Longrightarrow> timely es \<Longrightarrow>
   fst (decisions (socket_check limit windowSeconds) es w) = fst (decisions (spec_check limit (windowSeconds * 1000)) es [])"
  by (rule decisions_simulate [where R = "zset_rel (\<lambda>k. k) (windowSeconds * 1000)" and Q = no_later and ?t0.0 = 0])
     (auto simp: timely_def zset_rel_fresh no_later_def [of "[]"] intro: no_later_mono dest: socket_check_step)

lemma spec_run_history: "snd (decisions (spec_check limit windowMs) es h) = h @ es"
  by (induction es arbitrary: h) (auto simp: spec_check_def Let_def)

lemma spec_run_snoc:
  "fst (decisions (spec_check limit windowMs) (es @ [(k, t)]) []) =
     fst (decisions (spec_check limit windowMs) es []) @ [recent windowMs k t es < limit]"
  by (simp add: decisions_append Let_def spec_check_def [of limit windowMs k t] spec_run_history)

lemma spec_run_nth:
  "i < length es \<Longrightarrow> es ! i = (k, t) \<Longrightarrow>
   fst (decisions (spec_check limit windowMs) es []) ! i = (recent windowMs k t (take i es) < limit)"
proof (induction es rule: rev_induct)
  case (snoc e es)
  obtain k' t' where "e = (k', t')" by fastforce
  with snoc show ?case by (auto simp: spec_run_snoc nth_append less_Suc_eq)
qed simp

section \<open>The fallback counts admitted requests only\<close>

definition admit_check :: "nat \<Rightarrow> int \<Rightarrow> string \<Rightarrow> timestamp \<Rightarrow> history \<Rightarrow> bool \<times> history" where
  "admit_check limit windowMs k t h =
     (if recent windowMs k t h < limit then (True, h @ [(k, t)]) else (False, h))"

definition store_rel :: "int \<Rightarrow> 'a limiter_scheme \<Rightarrow> history \<Rightarrow> bool" where
  "store_rel windowMs w h =
     (\<forall>k t. (\<forall>(k', t') \<in> set h. t' \<le> t) \<longrightarrow>
        length (filter (\<lambda>s. t - windowMs < s) (case_option [] id (fallbackStore w k))) = recent windowMs k t h)"

lemma fallback_step:
  assumes "store_rel windowMs w h" and "no_later h t"
  shows "fst (http_check ExecRejects limit windowMs k t w) = fst (admit_check limit windowMs k t h) \<and>
    store_rel windowMs (snd (http_check ExecRejects limit windowMs k t w)) (snd (admit_check limit windowMs k t h)) \<and>
    no_later (snd (admit_check limit windowMs k t h)) t"
proof -
  let ?ts = "case_option [] id (fallbackStore w k)"
  have "length (filter (\<lambda>s. t - windowMs < s) ?ts) = recent windowMs k t h"
    using assms by (auto simp: store_rel_def no_later_def)
  moreover have "filter (\<lambda>s. u - windowMs < s) (filter (\<lambda>s. t - windowMs < s) ?ts) = filter (\<lambda>s. u - windowMs < s) ?ts"
    if "t \<le> u" for u
    using that by (auto simp: intro: filter_cong)
  ultimately show ?thesis
    using assms
    by (auto simp: http_check_def checkLimit_def checkLimitFallback_def admit_check_def Let_def limit_answer_def
        no_later_def store_rel_def)
qed

lemma fallback_refines:
  "fresh_limiter w \<Longrightarrow> timely es \<Longrightarrow>
   fst (decisions (http_check ExecRejects limit windowMs) es w) = fst (decisions (admit_check limit windowMs) es [])"
  by (rule decisions_simulate [where R = "store_rel windowMs" and Q = no_later and ?t0.0 = 0])
     (auto simp: timely_def store_rel_def [of _ _ "[]"] fresh_limiter_def recent_def no_later_def [of "[]"]
       intro: no_later_mono dest: fallback_step)

lemma admit_run_history:
  "snd (decisions (admit_check limit windowMs) es h) =
     h @ map fst (filter snd (zip es (fst (decisions (admit_check limit windowMs) es h))))"
  by (induction es arbitrary: h) (auto simp: admit_check_def Let_def)

section \<open>At most \<open>limit\<close> requests are admitted in any window\<close>

text \<open>How many requests with key \<open>k\<close> were admitted later than \<open>a\<close> and not after \<open>b\<close>.\<close>

definition admitted :: "string \<Rightarrow> timestamp \<Rightarrow> timestamp \<Rightarrow> history \<Rightarrow> bool list \<Rightarrow> nat" where
  "admitted k a b es bs = length (filter (\<lambda>((k', t), ok). ok \<and> k' = k \<and> a < t \<and> t \<le> b) (zip es bs))"

text \<open>A limiter whose decision on a request depends on the requests before it, and which admits one only if
  fewer than \<open>limit\<close> were admitted in the window that ends with it.\<close>

locale window_limiter =
  fixes decide :: "nat \<Rightarrow> int \<Rightarrow> history \<Rightarrow> 's \<Rightarrow> bool list" and ready :: "'s \<Rightarrow> bool"
  assumes decide_length: "length (decide limit windowMs es s) = length es"
    and decide_snoc: "ready s \<Longrightarrow> timely (es @ [(k, t)]) \<Longrightarrow>
      \<exists>b. decide limit windowMs (es @ [(k, t)]) s = decide limit windowMs es s @ [b] \<and>
        (b \<longrightarrow> admitted k (t - windowMs) t es (decide limit windowMs es s) < limit)"
begin

lemma window_bound:
  assumes "ready s" and "timely es"
  shows "admitted k a (a + windowMs) es (decide limit windowMs es s) \<le> limit"
  using assms(2)
proof (induction es rule: rev_induct)
  case Nil
  show ?case by (simp add: admitted_def)
next
  case (snoc e es)
  obtain k' t where e: "e = (k', t)" by fastforce
  let ?bs = "decide limit windowMs es s"
  obtain b where d: "decide limit windowMs (es @ [e]) s = ?bs @ [b]"
    and b: "b \<Longrightarrow> admitted k' (t - windowMs) t es ?bs < limit"
    using decide_snoc [OF assms(1), of es k' t limit windowMs] snoc.prems e by auto
  have old: "timely es" and last: "list_all (\<lambda>x. snd x \<le> t) es"
    using snoc.prems e by (auto simp: timely_def sorted_append list_all_iff)
  have last': "u \<le> t" if "x < length es" "es ! x = (k1, u)" for x k1 u
    using last nth_mem [OF that(1)] that(2) by (auto simp: list_all_iff)
  have split: "admitted k a (a + windowMs) (es @ [e]) (?bs @ [b]) =
      admitted k a (a + windowMs) es ?bs + (if b \<and> k' = k \<and> a < t \<and> t \<le> a + windowMs then 1 else 0)"
    by (simp add: admitted_def e decide_length)
  show ?case
  proof (cases "b \<and> k' = k \<and> a < t \<and> t \<le> a + windowMs")
    case True
    have "admitted k a (a + windowMs) es ?bs \<le> admitted k' (t - windowMs) t es ?bs"
      unfolding admitted_def length_filter_conv_card
      by (intro card_mono) (use True last' in \<open>auto simp: decide_length\<close>)
    with True b split d show ?thesis by simp
  next
    case False
    with split d snoc.IH [OF old] show ?thesis by auto
  qed
qed

end

text \<open>The three limiters of the program.\<close>

lemma admitted_le_recent:
  "length bs = length es \<Longrightarrow> admitted k (t - windowMs) t es bs \<le> recent windowMs k t es"
proof (induction es arbitrary: bs)
  case (Cons e es)
  then obtain b bs' where "bs = b # bs'" by (cases bs) auto
  with Cons.IH [of bs'] Cons.prems show ?case by (cases e) (auto simp: admitted_def recent_def)
qed (simp add: admitted_def)

lemma spec_decide_snoc:
  "\<exists>b. fst (decisions (spec_check limit windowMs) (es @ [(k, t)]) []) = fst (decisions (spec_check limit windowMs) es []) @ [b] \<and>
     (b \<longrightarrow> admitted k (t - windowMs) t es (fst (decisions (spec_check limit windowMs) es [])) < limit)"
  using admitted_le_recent [of "fst (decisions (spec_check limit windowMs) es [])" es k t windowMs]
  by (auto simp: spec_run_snoc)

lemma timely_prefix: "timely (es @ es') \<Longrightarrow> timely es"
  by (simp add: timely_def sorted_append)

interpretation http_limiter: window_limiter
  "\<lambda>limit windowMs es w. fst (decisions (http_check ExecOk limit windowMs) es w)" fresh_limiter
  by unfold_locales (simp, use spec_decide_snoc timely_prefix in \<open>auto simp: http_refines\<close>)

interpretation abstract_limiter: window_limiter
  "\<lambda>limit windowMs es w. fst (decisions (spec_check limit windowMs) es [])" "\<lambda>_. True"
  by unfold_locales (simp, use spec_decide_snoc in \<open>simp\<close>)

lemma admitted_eq_recent:
  assumes "length bs = length es" and "list_all (\<lambda>x. snd x \<le> t) es"
  shows "admitted k (t - windowMs) t es bs = recent windowMs k t (map fst (filter snd (zip es bs)))"
  using assms
proof (induction es arbitrary: bs)
  case (Cons e es)
  then obtain b bs' where "bs = b # bs'" by (cases bs) auto
  with Cons.IH [of bs'] Cons.prems show ?case by (cases e) (auto simp: admitted_def recent_def)
qed (simp add: admitted_def recent_def)

interpretation fallback_limiter: window_limiter
  "\<lambda>limit windowMs es w. fst (decisions (http_check ExecRejects limit windowMs) es w)" fresh_limiter
proof (unfold_locales, goal_cases)
  case (2 s es k t limit windowMs)
  let ?f = "admit_check limit windowMs"
  have l: "list_all (\<lambda>x. snd x \<le> t) es" using 2(2) by (auto simp: timely_def sorted_append list_all_iff)
  have "fst (decisions ?f (es @ [(k, t)]) []) = fst (decisions ?f es []) @
      [recent windowMs k t (map fst (filter snd (zip es (fst (decisions ?f es []))))) < limit]"
    using admit_run_history [of limit windowMs es "[]"]
    by (simp add: decisions_append Let_def admit_check_def [of limit windowMs k t])
  with admitted_eq_recent [OF _ l, of "fst (decisions ?f es [])" k windowMs] 2 timely_prefix [OF 2(2)] show ?case
    by (simp add: fallback_refines)
qed simp

section \<open>Properties\<close>

text \<open>C19. The Redis limiter implements the abstract sliding window: the decision on the i-th request of any
  history is whether fewer than \<open>limit\<close> of the requests before it carry its key and fall into the window.\<close>

theorem rate_limit_refines_history:
  assumes "fresh_limiter w" and "sorted (map snd es)" and "list_all (\<lambda>e. 0 \<le> snd e) es"
    and "i < length es" and "es ! i = (k, t)"
  shows "fst (decisions (http_check ExecOk limit windowMs) es w) ! i \<longleftrightarrow>
    length (filter (\<lambda>(k', t'). k' = k \<and> t - windowMs < t') (take i es)) < limit"
  using spec_run_nth [OF assms(4,5), of limit windowMs] http_refines [OF assms(1), of es limit windowMs] assms(2,3)
  by (simp add: timely_def recent_def)

text \<open>The limiter of the socket events, which adds before it counts, makes the same decisions as the
  HTTP limiter, which counts before it adds.\<close>

theorem socket_limiter_equivalent:
  assumes "fresh_limiter w" and "fresh_limiter w'" and "sorted (map snd es)" and "list_all (\<lambda>e. 0 \<le> snd e) es"
  shows "fst (decisions (socket_check limit windowSeconds) es w) =
    fst (decisions (http_check ExecOk limit (windowSeconds * 1000)) es w')"
  using assms by (simp add: socket_refines http_refines timely_def)

text \<open>C20. With Redis and with the in-process fallback alike, no window of the given length has more than
  \<open>limit\<close> admitted requests with one key.\<close>

theorem rate_limit_bound:
  assumes "fresh_limiter w" and "sorted (map snd es)" and "list_all (\<lambda>e. 0 \<le> snd e) es" and "mode \<noteq> ExecErrors"
  shows "length (filter (\<lambda>((k', t), ok). ok \<and> k' = k \<and> a < t \<and> t \<le> a + windowMs)
    (zip es (fst (decisions (http_check mode limit windowMs) es w)))) \<le> limit"
  using http_limiter.window_bound [OF assms(1), of es k a windowMs limit]
    fallback_limiter.window_bound [OF assms(1), of es k a windowMs limit] assms(2-4)
  by (cases mode) (auto simp: timely_def admitted_def)

section \<open>Refused requests count\<close>

text \<open>
  A client that repeats its request more often than the limit allows is admitted \<open>limit\<close> times and then,
  with Redis, never again, because the refused requests stay in the window; the fallback forgets them.
\<close>

lemma persistent_client_locked_out:
  assumes "fresh_limiter w" and "0 \<le> d" and "int limit * d < windowMs" and "limit \<le> i" and "i < n"
  shows "\<not> fst (decisions (http_check ExecOk limit windowMs) (map (\<lambda>j. (k, int j * d)) [0..<n]) w) ! i"
proof -
  let ?es = "map (\<lambda>j. (k, int j * d)) [0..<n]"
  have t: "timely ?es"
    using assms(2) by (auto simp: timely_def list_all_iff sorted_map o_def mult_right_mono intro!: sorted_wrt_mono_rel [OF _ sorted_upt])
  have "limit \<le> recent windowMs k (int i * d) (take i ?es)"
  proof -
    have "take i ?es = map (\<lambda>j. (k, int j * d)) [0..<i - limit] @ map (\<lambda>j. (k, int j * d)) [i - limit..<i]"
      using assms(4,5) upt_add_eq_append [of 0 "i - limit" limit] by (simp add: take_map flip: map_append)
    moreover have "int i * d - windowMs < int j * d" if "j \<in> {i - limit..<i}" for j
    proof -
      have "int (i - limit) * d \<le> int j * d" using that assms(2) by (intro mult_right_mono) auto
      moreover have "int (i - limit) * d = int i * d - int limit * d"
        using assms(4) by (simp add: of_nat_diff left_diff_distrib)
      ultimately show ?thesis using assms(3) by linarith
    qed
    ultimately show ?thesis using assms(4) by (simp add: recent_def o_def)
  qed
  with spec_run_nth [of i ?es k "int i * d" limit windowMs] http_refines [OF assms(1) t, of limit windowMs] assms(5)
  show ?thesis by simp
qed

section \<open>Example\<close>

definition ex_limiter :: limiter where
  "ex_limiter = \<lparr>outbox_events = [], audit_logs = [], jobs = [], redis = (\<lambda>_. None), pubsub = [],
     entropy = (\<lambda>n. replicate n CHR ''a''), drawn = 0, zsets = (\<lambda>_. None), fallbackStore = (\<lambda>_. None)\<rparr>"

definition ex_requests :: history where
  "ex_requests = [(''k'', 0), (''k'', 6000), (''j'', 7000), (''k'', 12000)]"

lemma ex_limiter_fresh: "fresh_limiter ex_limiter"
  by (auto simp: fresh_limiter_def ex_limiter_def inj_def dest: arg_cong [where f = length])

lemma ex_requests_timely: "sorted (map snd ex_requests)" "list_all (\<lambda>e. 0 \<le> snd e) ex_requests"
  by (simp_all add: ex_requests_def)

theorem rate_limit_refines_history_witness:
  "fst (decisions (http_check ExecOk 1 10000) ex_requests ex_limiter) ! 0 \<and>
   \<not> fst (decisions (http_check ExecOk 1 10000) ex_requests ex_limiter) ! 3"
  using rate_limit_refines_history [OF ex_limiter_fresh ex_requests_timely, of 0 "''k''" 0 1 10000]
    rate_limit_refines_history [OF ex_limiter_fresh ex_requests_timely, of 3 "''k''" 12000 1 10000]
  by (simp add: ex_requests_def)

theorem socket_limiter_equivalent_witness:
  "fst (decisions (socket_check 1 10) ex_requests ex_limiter) = [True, False, True, False]"
proof -
  have "fst (decisions (http_check ExecOk 1 (10 * 1000)) ex_requests ex_limiter) =
      fst (decisions (spec_check 1 (10 * 1000)) ex_requests [])"
    using http_refines [OF ex_limiter_fresh] ex_requests_timely by (simp add: timely_def)
  then show ?thesis
    using socket_limiter_equivalent [OF ex_limiter_fresh ex_limiter_fresh ex_requests_timely, of 1 10]
    by (simp add: ex_requests_def spec_check_def recent_def Let_def)
qed

theorem rate_limit_bound_witness:
  "length (filter (\<lambda>((k', t), ok). ok \<and> k' = ''k'' \<and> -1 < t \<and> t \<le> -1 + 10000)
    (zip ex_requests (fst (decisions (http_check ExecRejects 1 10000) ex_requests ex_limiter)))) \<le> 1 \<and>
   fst (decisions (http_check ExecRejects 1 10000) ex_requests ex_limiter) = [True, False, True, True]"
proof -
  have "fst (decisions (http_check ExecRejects 1 10000) ex_requests ex_limiter) =
      fst (decisions (admit_check 1 10000) ex_requests [])"
    using fallback_refines [OF ex_limiter_fresh] ex_requests_timely by (simp add: timely_def)
  then show ?thesis
    using rate_limit_bound [OF ex_limiter_fresh ex_requests_timely, of ExecRejects "''k''" "-1" 10000 1]
    by (simp add: ex_requests_def admit_check_def recent_def Let_def)
qed

end
