(* ===== verification/Gdpr.thy ===== *)
theory Gdpr
  imports Auth_Properties Workspace File Chat Webhook
begin

text \<open>
  \<^verbatim>\<open>src/modules/gdpr\<close>: erasure of a user, offboarding of an organization, and the two export
  workers.  The module writes to the tables of every other one.  Its state extends the
  authentication tables by them; the properties relate it to the states the other modules read.
\<close>

section \<open>State\<close>

text \<open>
  A row as an export query selects it, and the pieces a stream pushes: punctuation, or a
  separator followed by \<^verbatim>\<open>JSON.stringify\<close> of a row.
\<close>

datatype export_row =
    ExTask uuid string "json option" task_status timestamp
  | ExComment uuid json timestamp string
  | ExMessage uuid string timestamp uuid
  | ExFile uuid string string int timestamp
  | ExWorkspace uuid string timestamp
  | ExOrgTask uuid string task_status timestamp
  | ExMember uuid role "timestamp option"

datatype chunk = Punct string | RowText string export_row

type_synonym archive = "(string \<times> chunk list) list"

record gdpr_db = auth_db +
  g_tasks :: "task list"
  g_task_assignees :: "task_assignee list"
  g_comments :: "comment list"
  g_channels :: "channel list"
  g_messages :: "message list"
  g_files :: "file_row list"
  g_webhooks :: "webhook list"
  g_uploads :: "(string \<times> archive) list"

section \<open>Erasure of a user\<close>

definition erased_user :: "timestamp \<Rightarrow> user \<Rightarrow> user" where
  "erased_user now u = u\<lparr>
     u_email := ''deleted_'' @ u_id u @ ''@anonymised.invalid'', u_name := ''Deleted User'', u_phone := None,
     u_avatar_url := None, u_password_hash := None, u_totp_secret := None, u_totp_enabled := False,
     u_mfa_backup_codes := [], u_status := UDeleted, u_deleted_at := Some now, u_updated_at := now\<rparr>"

text \<open>\<open>privileged\<close>: the database role may update \<^verbatim>\<open>audit_logs\<close>; the migrations revoke this from
  the application's role, and the worker then goes on without.\<close>

definition erasureWorkerJob :: "bool \<Rightarrow> timestamp \<Rightarrow> uuid \<Rightarrow> 'a auth_db_scheme \<Rightarrow> 'a auth_db_scheme" where
  "erasureWorkerJob privileged now userId w =
     (let w1 = w\<lparr>users := update_where (\<lambda>u. u_id u = userId) (erased_user now) (users w)\<rparr>;
          w2 = revokeAllUserTokens now userId w1;
          w3 = redis_del (user_cache_key userId) w2;
          w4 = (if privileged
                then w3\<lparr>audit_logs := update_where (\<lambda>a. al_actor_id a = Some userId)
                          (\<lambda>a. a\<lparr>al_actor_id := None\<rparr>) (audit_logs w3)\<rparr>
                else w3);
          w5 = w4\<lparr>auth_providers := delete_where (\<lambda>a. ap_user_id a = userId) (auth_providers w4)\<rparr>
      in persistAuditLog now None None ActorSystem ''user.erased'' (Some ''user'') (Some userId)
           (JObj [(''userId'', JStr userId)]) w5)"

section \<open>Routes\<close>

definition export_request :: "string \<Rightarrow> uuid \<Rightarrow> uuid \<Rightarrow> 'a base_scheme \<Rightarrow> 'a base_scheme" where
  "export_request nowIso orgId userId w =
     enqueue ''gdpr-export'' ''gdpr-user-export''
       (JObj [(''userId'', JStr userId), (''orgId'', JStr orgId), (''requestedAt'', JStr nowIso)]) 0 w"

definition ErasureRequestSchema :: "string \<Rightarrow> string \<Rightarrow> bool" where
  "ErasureRequestSchema password confirm = (password \<noteq> '''' \<and> confirm = ''DELETE MY ACCOUNT'')"

definition erase_job :: "uuid \<Rightarrow> uuid \<Rightarrow> json" where
  "erase_job userId orgId = JObj [(''userId'', JStr userId), (''orgId'', JStr orgId)]"

definition erasure_request ::
    "crypto_lib \<Rightarrow> uuid \<Rightarrow> uuid \<Rightarrow> string \<Rightarrow> string \<Rightarrow> 'a dir_scheme \<Rightarrow> unit outcome \<times> 'a dir_scheme" where
  "erasure_request cr orgId userId password confirm w =
     (if \<not> ErasureRequestSchema password confirm then (Inl ValidationError, w)
      else case findUserById userId w of
        None \<Rightarrow> (Inl (NotFoundError ''User''), w)
      | Some u \<Rightarrow>
          if \<not> truthy (u_password_hash u) then (Inl (ForbiddenError ''SSO_ONLY_ACCOUNT''), w)
          else if \<not> password_valid cr password u then (Inl (UnauthorizedError ''INVALID_PASSWORD''), w)
          else (Inr (), enqueue ''erase-user'' ''erase-user'' (erase_job userId orgId) 0 w))"

definition org_export_request ::
    "string \<Rightarrow> uuid \<Rightarrow> uuid \<Rightarrow> 'a dir_scheme \<Rightarrow> unit outcome \<times> 'a dir_scheme" where
  "org_export_request nowIso orgId requestedByUserId w =
     (case org_findById orgId w of
        None \<Rightarrow> (Inl (NotFoundError ''Organization''), w)
      | Some _ \<Rightarrow>
          (Inr (), enqueue ''gdpr-org-export'' ''gdpr-org-export''
             (JObj [(''orgId'', JStr orgId), (''requestedByUserId'', JStr requestedByUserId),
                    (''requestedAt'', JStr nowIso)]) 0 w))"

definition offboard_request :: "timestamp \<Rightarrow> uuid \<Rightarrow> 'a dir_scheme \<Rightarrow> unit outcome \<times> 'a dir_scheme" where
  "offboard_request now orgId w =
     (case org_findById orgId w of
        None \<Rightarrow> (Inl (NotFoundError ''Organization''), w)
      | Some og \<Rightarrow>
          if o_status og = OrgDeleted then (Inl (ForbiddenError ''ORG_ALREADY_DELETED''), w)
          else (Inr (), enqueue ''offboarding'' ''offboard-org'' (JObj [(''orgId'', JStr orgId)]) 0
                  (w\<lparr>organizations := update_where (\<lambda>r. o_id r = orgId)
                       (\<lambda>r. r\<lparr>o_status := OrgOffboarding, o_offboarding_started_at := Some now,
                              o_updated_at := now\<rparr>) (organizations w)\<rparr>)))"

section \<open>Offboarding of an organization\<close>

definition active_members :: "uuid \<Rightarrow> 'a dir_scheme \<Rightarrow> membership list" where
  "active_members orgId w =
     filter (\<lambda>m. m_org_id m = orgId \<and> m_status m = MActive \<and> m_deleted_at m = None) (org_memberships w)"

definition enqueue_erasures :: "uuid \<Rightarrow> membership list \<Rightarrow> 'a base_scheme \<Rightarrow> 'a base_scheme" where
  "enqueue_erasures orgId ms w =
     fold (\<lambda>m. enqueue ''erase-user'' ''erase-user'' (erase_job (m_user_id m) orgId) 0) ms w"

definition soft_delete_org_data :: "timestamp \<Rightarrow> uuid \<Rightarrow> 'a gdpr_db_scheme \<Rightarrow> 'a gdpr_db_scheme" where
  "soft_delete_org_data now orgId w = w\<lparr>
     workspaces := update_where (\<lambda>r. ws_org_id r = orgId \<and> ws_deleted_at r = None)
                     (\<lambda>r. r\<lparr>ws_deleted_at := Some now, ws_updated_at := now\<rparr>) (workspaces w),
     g_tasks := update_where (\<lambda>r. t_org_id r = orgId \<and> t_deleted_at r = None)
                     (\<lambda>r. r\<lparr>t_deleted_at := Some now, t_updated_at := now\<rparr>) (g_tasks w),
     g_channels := update_where (\<lambda>r. ch_org_id r = orgId \<and> ch_deleted_at r = None)
                     (\<lambda>r. r\<lparr>ch_deleted_at := Some now, ch_updated_at := now\<rparr>) (g_channels w),
     g_files := update_where (\<lambda>r. f_org_id r = orgId \<and> f_deleted_at r = None)
                     (\<lambda>r. r\<lparr>f_deleted_at := Some now, f_status := FDeleted\<rparr>) (g_files w),
     g_webhooks := update_where (\<lambda>r. wh_org_id r = orgId \<and> wh_deleted_at r = None)
                     (\<lambda>r. r\<lparr>wh_deleted_at := Some now, wh_updated_at := now\<rparr>) (g_webhooks w)\<rparr>"

definition runOffboardingJob :: "timestamp \<Rightarrow> uuid \<Rightarrow> 'a gdpr_db_scheme \<Rightarrow> 'a gdpr_db_scheme" where
  "runOffboardingJob now orgId w =
     (case List.find (\<lambda>r. o_id r = orgId) (organizations w) of
        None \<Rightarrow> w
      | Some og \<Rightarrow>
          if o_status og = OrgDeleted then w
          else if o_status og \<noteq> OrgOffboarding then w
          else
            (let w1 = enqueue_erasures orgId (active_members orgId w) w;
                 w2 = soft_delete_org_data now orgId w1;
                 w3 = w2\<lparr>organizations := update_where (\<lambda>r. o_id r = orgId)
                        (\<lambda>r. r\<lparr>o_status := OrgDeleted, o_deleted_at := Some now, o_updated_at := now\<rparr>)
                        (organizations w2)\<rparr>
             in persistAuditLog now (Some orgId) None ActorSystem ''org.deleted'' (Some ''org'') (Some orgId)
                  (JObj [(''orgId'', JStr orgId)]) w3))"

section \<open>Exports\<close>

text \<open>
  The generator reads pages until one is empty or short.  Without \<^verbatim>\<open>ORDER BY\<close> the database
  may return the rows of each query in another order: \<open>page pageSize offset\<close> is the answer
  to the query with that \<^verbatim>\<open>LIMIT\<close> and \<^verbatim>\<open>OFFSET\<close>.
\<close>

partial_function (option) paginate_from :: "(nat \<Rightarrow> nat \<Rightarrow> 'r list) \<Rightarrow> nat \<Rightarrow> nat \<Rightarrow> 'r list list option" where
  "paginate_from page pageSize offset =
     (let rows = page pageSize offset in
      if rows = [] then Some []
      else if length rows < pageSize then Some [rows]
      else Option.bind (paginate_from page pageSize (offset + pageSize)) (\<lambda>rest. Some (rows # rest)))"

definition cursorPaginate :: "(nat \<Rightarrow> nat \<Rightarrow> 'r list) \<Rightarrow> nat \<Rightarrow> 'r list list option" where
  "cursorPaginate page pageSize = paginate_from page pageSize 0"

text \<open>\<open>scan k rows\<close> is the order in which the query at offset \<open>k\<close> meets the rows.\<close>

definition sql_page :: "(nat \<Rightarrow> 'r list \<Rightarrow> 'r list) \<Rightarrow> 'r list \<Rightarrow> nat \<Rightarrow> nat \<Rightarrow> 'r list" where
  "sql_page scan rows limit offset = take limit (drop offset (scan offset rows))"

fun push_rows :: "bool \<Rightarrow> export_row list \<Rightarrow> chunk list" where
  "push_rows first [] = []"
| "push_rows first (r # rs) = RowText (if first then '''' else '','') r # push_rows False rs"

definition json_stream ::
    "(nat \<Rightarrow> export_row list \<Rightarrow> export_row list) \<Rightarrow> export_row list option \<Rightarrow> chunk list option" where
  "json_stream scan query =
     (case query of
        None \<Rightarrow> Some [Punct ''['', Punct '']'']
      | Some rows \<Rightarrow>
          Option.bind (cursorPaginate (sql_page scan rows) 100)
            (\<lambda>pages. Some (Punct ''['' # push_rows True (concat pages) @ [Punct '']''])))"

definition user_export_query :: "string \<Rightarrow> uuid \<Rightarrow> uuid \<Rightarrow> 'a gdpr_db_scheme \<Rightarrow> export_row list option" where
  "user_export_query entityType userId orgId w =
     (if entityType = ''tasks'' then
        Some (map (\<lambda>t. ExTask (t_id t) (t_title t) (t_description t) (t_status t) (t_created_at t))
          (filter (\<lambda>t. t_org_id t = orgId \<and> t_deleted_at t = None \<and>
             list_ex (\<lambda>a. ta_task_id a = t_id t \<and> ta_user_id a = userId) (g_task_assignees w)) (g_tasks w)))
      else if entityType = ''comments'' then
        Some (concat (map (\<lambda>c. map (\<lambda>u. ExComment (c_id c) (c_body c) (c_created_at c)
               (if c_author_id c = userId then u_name u else ''Org Member''))
             (filter (\<lambda>u. u_id u = c_author_id c) (users w)))
          (filter (\<lambda>c. c_org_id c = orgId \<and> c_deleted_at c = None) (g_comments w))))
      else if entityType = ''messages'' then
        Some (map (\<lambda>m. ExMessage (msg_id m) (msg_body m) (msg_created_at m) (msg_channel_id m))
          (filter (\<lambda>m. msg_org_id m = orgId \<and> msg_sender_id m = userId \<and> msg_deleted_at m = None) (g_messages w)))
      else if entityType = ''files'' then
        Some (map (\<lambda>f. ExFile (f_id f) (f_filename f) (f_mime_type f) (f_size_bytes f) (f_created_at f))
          (filter (\<lambda>f. f_org_id f = orgId \<and> f_uploader_id f = userId \<and> f_deleted_at f = None) (g_files w)))
      else None)"

definition org_export_query :: "string \<Rightarrow> uuid \<Rightarrow> 'a gdpr_db_scheme \<Rightarrow> export_row list option" where
  "org_export_query entityType orgId w =
     (if entityType = ''workspaces'' then
        Some (map (\<lambda>x. ExWorkspace (ws_id x) (ws_name x) (ws_created_at x))
          (filter (\<lambda>x. ws_org_id x = orgId \<and> ws_deleted_at x = None) (workspaces w)))
      else if entityType = ''tasks'' then
        Some (map (\<lambda>t. ExOrgTask (t_id t) (t_title t) (t_status t) (t_created_at t))
          (filter (\<lambda>t. t_org_id t = orgId \<and> t_deleted_at t = None) (g_tasks w)))
      else if entityType = ''members'' then
        Some (map (\<lambda>m. ExMember (m_user_id m) (m_role m) (m_joined_at m)) (active_members orgId w))
      else None)"

definition createEntityStream ::
    "(nat \<Rightarrow> export_row list \<Rightarrow> export_row list) \<Rightarrow> string \<Rightarrow> uuid \<Rightarrow> uuid \<Rightarrow> 'a gdpr_db_scheme \<Rightarrow> chunk list option" where
  "createEntityStream scan entityType userId orgId w = json_stream scan (user_export_query entityType userId orgId w)"

definition createOrgEntityStream ::
    "(nat \<Rightarrow> export_row list \<Rightarrow> export_row list) \<Rightarrow> string \<Rightarrow> uuid \<Rightarrow> 'a gdpr_db_scheme \<Rightarrow> chunk list option" where
  "createOrgEntityStream scan entityType orgId w = json_stream scan (org_export_query entityType orgId w)"

text \<open>\<open>append_all\<close> runs the streams the archiver reads one after another.  The object store is
  an argument: whether a bucket is configured, whether the upload succeeds, the signed URL.\<close>

fun append_all :: "(string \<times> chunk list option) list \<Rightarrow> archive option" where
  "append_all [] = Some []"
| "append_all ((name, s) # rest) =
     Option.bind s (\<lambda>cs. Option.bind (append_all rest) (\<lambda>more. Some ((name, cs) # more)))"

record export_env =
  xe_bucket :: "string option"
  xe_scan :: "nat \<Rightarrow> export_row list \<Rightarrow> export_row list"
  xe_upload :: "string \<Rightarrow> archive \<Rightarrow> unit outcome"
  xe_download_url :: "string \<Rightarrow> int \<Rightarrow> string outcome"

definition finish_export ::
    "export_env \<Rightarrow> timestamp \<Rightarrow> string \<Rightarrow> archive \<Rightarrow> uuid \<Rightarrow> string \<Rightarrow> string \<Rightarrow> uuid \<Rightarrow> uuid \<Rightarrow> (string \<times> json)
     \<Rightarrow> 'a gdpr_db_scheme \<Rightarrow> unit outcome \<times> 'a gdpr_db_scheme" where
  "finish_export env now exportKey arch orgId ev etype entity actor field w =
     (case xe_upload env exportKey arch of
        Inl e \<Rightarrow> (Inl e, w)
      | Inr _ \<Rightarrow>
          (let w1 = w\<lparr>g_uploads := g_uploads w @ [(exportKey, arch)]\<rparr>
           in case xe_download_url env exportKey 86400 of
                Inl e \<Rightarrow> (Inl e, w1)
              | Inr downloadUrl \<Rightarrow>
                  (Inr (), insert_outbox now (Some orgId) ev etype entity (Some actor)
                     (JObj [field, (''downloadUrl'', JStr downloadUrl), (''expiresIn'', JStr ''24h'')]) w1)))"

definition userExportWorkerJob ::
    "export_env \<Rightarrow> timestamp \<Rightarrow> uuid \<Rightarrow> uuid \<Rightarrow> string \<Rightarrow> 'a gdpr_db_scheme
     \<Rightarrow> (unit outcome \<times> 'a gdpr_db_scheme) option" where
  "userExportWorkerJob env now userId orgId requestedAt w =
     (if \<not> truthy (xe_bucket env) then Some (Inr (), w)
      else Option.bind
        (append_all (map (\<lambda>e. (e @ ''.json'', createEntityStream (xe_scan env) e userId orgId w))
           [''tasks'', ''comments'', ''messages'', ''files'']))
        (\<lambda>arch. Some (finish_export env now (''gdpr-exports/'' @ userId @ ''/'' @ requestedAt @ ''.zip'') arch orgId
           ''gdpr.export_ready'' ''user'' userId userId (''userId'', JStr userId) w)))"

definition orgExportWorkerJob ::
    "export_env \<Rightarrow> timestamp \<Rightarrow> uuid \<Rightarrow> uuid \<Rightarrow> string \<Rightarrow> 'a gdpr_db_scheme
     \<Rightarrow> (unit outcome \<times> 'a gdpr_db_scheme) option" where
  "orgExportWorkerJob env now orgId requestedByUserId requestedAt w =
     (if \<not> truthy (xe_bucket env) then Some (Inr (), w)
      else Option.bind
        (append_all (map (\<lambda>e. (e @ ''.json'', createOrgEntityStream (xe_scan env) e orgId w))
           [''workspaces'', ''tasks'', ''members'']))
        (\<lambda>arch. Some (finish_export env now (''gdpr-exports/org/'' @ orgId @ ''/'' @ requestedAt @ ''.zip'') arch orgId
           ''gdpr.org_export_ready'' ''org'' orgId requestedByUserId (''orgId'', JStr orgId) w)))"

section \<open>Erasure\<close>

lemma delete_where_filter: "filter P (delete_where P rs) = []"
  by (simp add: delete_where_def filter_empty_conv)

lemma erasure_fields [simp]:
  "users (erasureWorkerJob pr t i w) = update_where (\<lambda>u. u_id u = i) (erased_user t) (users w)"
  "refresh_tokens (erasureWorkerJob pr t i w) =
     update_where (\<lambda>r. rt_user_id r = i \<and> \<not> rt_is_revoked r) (rt_revoke t) (refresh_tokens w)"
  "auth_providers (erasureWorkerJob pr t i w) = delete_where (\<lambda>a. ap_user_id a = i) (auth_providers w)"
  "redis (erasureWorkerJob pr t i w) = (redis w)(user_cache_key i := None)"
  by (simp_all add: erasureWorkerJob_def revokeAllUserTokens_def redis_del_def persistAuditLog_def Let_def)

lemma erased_user_simps [simp]:
  "u_id (erased_user t u) = u_id u" "u_deleted_at (erased_user t u) = Some t" "u_status (erased_user t u) = UDeleted"
  by (simp_all add: erased_user_def)

lemma erasure_audit:
  "pr \<Longrightarrow> filter (\<lambda>a. al_actor_id a = Some i) (audit_logs (erasureWorkerJob pr t i w)) = []"
  by (simp add: erasureWorkerJob_def revokeAllUserTokens_def redis_del_def persistAuditLog_def Let_def)
     (rule filter_update_where_clears; simp)

lemma authenticate_deleted:
  assumes "verifyToken cr ks t tok = Some p" and "fst (resolveUser up t (jc_sub p) w) = Inr c"
    and "cq_status c = UDeleted"
  shows "\<exists>e. fst (authenticate cr ks up t (Some (''Bearer '' @ tok)) w) = Inl e"
proof -
  obtain w1 where "resolveUser up t (jc_sub p) w = (Inr c, w1)" using assms(2) by (metis fst_conv surj_pair)
  with assms(1,3) show ?thesis by (simp add: authenticate_def)
qed

lemma find_erased:
  assumes "x \<in> set (users w)" and "u_id x = i"
  obtains y where "List.find (\<lambda>u. u_id u = i) (users (erasureWorkerJob pr t i w)) = Some (erased_user t y)"
    and "u_id y = i"
proof -
  obtain y where y: "List.find (\<lambda>u. u_id u = i) (users w) = Some y"
    using assms by (cases "List.find (\<lambda>u. u_id u = i) (users w)") (auto simp: find_None_iff)
  then have "u_id y = i" by (auto dest: find_SomeD)
  with y show thesis by (intro that [of y]) (simp_all add: find_upsert)
qed

section \<open>Offboarding\<close>

lemma enqueue_erasures_eq:
  "enqueue_erasures g ms w = w\<lparr>jobs := jobs w @ map (\<lambda>m. \<lparr>j_queue = ''erase-user'', j_name = ''erase-user'',
     j_data = erase_job (m_user_id m) g, j_delay = 0\<rparr>) ms\<rparr>"
  unfolding enqueue_erasures_def by (induction ms arbitrary: w) (simp_all add: enqueue_def)

lemma offboarding_fields:
  assumes "List.find (\<lambda>r. o_id r = g) (organizations w) = Some r" and "o_status r = OrgOffboarding"
  shows "organizations (runOffboardingJob now g w) = update_where (\<lambda>r. o_id r = g)
      (\<lambda>r. r\<lparr>o_status := OrgDeleted, o_deleted_at := Some now, o_updated_at := now\<rparr>) (organizations w)"
    and "workspaces (runOffboardingJob now g w) = workspaces (soft_delete_org_data now g w)"
    and "g_tasks (runOffboardingJob now g w) = g_tasks (soft_delete_org_data now g w)"
    and "g_channels (runOffboardingJob now g w) = g_channels (soft_delete_org_data now g w)"
    and "g_files (runOffboardingJob now g w) = g_files (soft_delete_org_data now g w)"
    and "g_webhooks (runOffboardingJob now g w) = g_webhooks (soft_delete_org_data now g w)"
    and "subscriptions (runOffboardingJob now g w) = subscriptions w"
    and "jobs (runOffboardingJob now g w) = jobs w @ map (\<lambda>m. \<lparr>j_queue = ''erase-user'', j_name = ''erase-user'',
      j_data = erase_job (m_user_id m) g, j_delay = 0\<rparr>) (active_members g w)"
  using assms by (simp_all add: runOffboardingJob_def soft_delete_org_data_def enqueue_erasures_eq Let_def persistAuditLog_def)

text \<open>After the soft delete no module lists a row of the organization; the other rows are kept.\<close>

lemma soft_deleted_unlisted:
  "tasks wt = g_tasks (soft_delete_org_data now g w) \<Longrightarrow> task_findByOrg g fs wt = []"
  "channels wc = g_channels (soft_delete_org_data now g w) \<Longrightarrow> channel_findByOrg g ch wc = []"
  "files wl = g_files (soft_delete_org_data now g w) \<Longrightarrow> listFiles g n m wl = []"
  "webhook_subscriptions wh = g_webhooks (soft_delete_org_data now g w) \<Longrightarrow> webhook_findByOrg g wh = []"
  "listWorkspaces g (soft_delete_org_data now g w) = []"
  unfolding task_findByOrg_def task_live_def channel_findByOrg_def channel_live_def listFiles_def file_findByOrg_def
      file_live_def webhook_findByOrg_def webhook_live_def limit_offset_def soft_delete_org_data_def listWorkspaces_def
      ws_findByOrg_def ws_live_def
  by (simp_all, (subst filter_update_where_clears; simp)+)

lemma soft_delete_others:
  "filter (\<lambda>t. t_org_id t \<noteq> g) (g_tasks (soft_delete_org_data now g w)) = filter (\<lambda>t. t_org_id t \<noteq> g) (g_tasks w)"
  "filter (\<lambda>f. f_org_id f \<noteq> g) (g_files (soft_delete_org_data now g w)) = filter (\<lambda>f. f_org_id f \<noteq> g) (g_files w)"
  "filter (\<lambda>x. ws_org_id x \<noteq> g) (workspaces (soft_delete_org_data now g w)) = filter (\<lambda>x. ws_org_id x \<noteq> g) (workspaces w)"
  by (simp_all add: soft_delete_org_data_def, (rule filter_update_where_same; simp)+)

section \<open>Pagination\<close>

lemma paginate_rows:
  assumes "0 < p" and "\<And>k. length (scan k rows) = length rows"
  shows "\<exists>pages. paginate_from (sql_page scan rows) p k = Some pages \<and>
    length (concat pages) = length rows - k \<and> ((\<forall>j. scan j rows = rs) \<longrightarrow> concat pages = drop k rs)"
proof (induction "length rows - k" arbitrary: k rule: less_induct)
  case less
  let ?page = "take p (drop k (scan k rows))"
  have len: "length ?page = min p (length rows - k)" using assms(2) by simp
  show ?case
  proof (cases "length ?page < p")
    case True
    have "k < length rows \<longrightarrow> ?page \<noteq> []" using \<open>0 < p\<close> assms(2) [of k] by auto
    then have "paginate_from (sql_page scan rows) p k = Some (if k < length rows then [?page] else [])"
      using True assms(2) [of k] by (subst paginate_from.simps) (auto simp: sql_page_def Let_def)
    moreover have "length rows - k < p" using True len by simp
    ultimately show ?thesis using assms(2) [of k] by auto
  next
    case False
    then have p: "p \<le> length rows - k" using len by simp
    then obtain pages where pages: "paginate_from (sql_page scan rows) p (k + p) = Some pages"
        "length (concat pages) = length rows - (k + p)" "(\<forall>j. scan j rows = rs) \<longrightarrow> concat pages = drop (k + p) rs"
      using less [of "k + p"] \<open>0 < p\<close> by force
    have "?page \<noteq> []" using False \<open>0 < p\<close> by (metis list.size(3))
    with False pages(1) have "paginate_from (sql_page scan rows) p k = Some (?page # pages)"
      by (subst paginate_from.simps) (simp add: sql_page_def Let_def)
    moreover have "length (concat (?page # pages)) = length rows - k" using len p pages(2) by simp
    moreover have "concat (?page # pages) = drop k rs" if "\<forall>j. scan j rows = rs"
      using that pages(3) append_take_drop_id [of p "drop k rs"] by (simp add: add.commute)
    ultimately show ?thesis by blast
  qed
qed

text \<open>The rows a stream carries.\<close>

definition stream_rows :: "chunk list \<Rightarrow> export_row list" where
  "stream_rows cs = List.map_filter (\<lambda>c. case c of RowText _ r \<Rightarrow> Some r | Punct _ \<Rightarrow> None) cs"

lemma stream_rows_push [simp]: "stream_rows (push_rows first rs) = rs"
  by (induction first rs rule: push_rows.induct) (simp_all add: stream_rows_def map_filter_simps)

lemma stream_rows_frame [simp]: "stream_rows (Punct a # cs @ [Punct b]) = stream_rows cs"
  by (simp add: stream_rows_def map_filter_def)

lemma json_stream_returns:
  assumes "\<And>k rows. length (scan k rows) = length rows"
  shows "\<exists>cs. json_stream scan (Some rows) = Some cs \<and> length (stream_rows cs) = length rows \<and>
    ((\<forall>k rows. scan k rows = rows) \<longrightarrow> stream_rows cs = rows)"
proof -
  obtain pages where "cursorPaginate (sql_page scan rows) 100 = Some pages" "length (concat pages) = length rows"
      "(\<forall>j. scan j rows = rows) \<longrightarrow> concat pages = rows"
    using paginate_rows [of 100 scan rows 0 rows] assms unfolding cursorPaginate_def by auto
  then show ?thesis by (simp add: json_stream_def)
qed

lemma append_all_returns:
  assumes "\<And>e. e \<in> set es \<Longrightarrow> \<exists>cs. s e = Some cs \<and> P e cs"
  shows "\<exists>arch. append_all (map (\<lambda>e. (name e, s e)) es) = Some arch \<and> map fst arch = map name es \<and>
    list_all2 P es (map snd arch)"
  using assms
proof (induction es)
  case (Cons e es)
  then obtain arch where "append_all (map (\<lambda>e. (name e, s e)) es) = Some arch"
      "map fst arch = map name es" "list_all2 P es (map snd arch)" by auto
  moreover obtain cs where "s e = Some cs" "P e cs" using Cons.prems by auto
  ultimately show ?case by (intro exI [of _ "(name e, cs) # arch"]) simp
qed simp


lemma list_all2_map_eq:
  assumes "list_all2 P xs ys" and "\<And>x y. P x y \<Longrightarrow> f y = h x"
  shows "map f ys = map h xs"
  using assms by (induction rule: list_all2_induct) auto

section \<open>Example\<close>

definition ex_offboarded :: org where
  "ex_offboarded = (new_org 0 ''o1'' \<lparr>co_name = ''O'', co_slug = ''o'', co_plan_tier = None, co_timezone = None,
     co_locale = None\<rparr>)\<lparr>o_status := OrgOffboarding\<rparr>"

definition ex_file_of :: "uuid \<Rightarrow> file_row" where
  "ex_file_of g = \<lparr>f_id = ''f'', f_org_id = g, f_uploader_id = ''u1'', f_filename = ''a.txt'', f_storage_key = ''k'',
     f_mime_type = ''text/plain'', f_size_bytes = 3, f_status = FConfirmed, f_scan_status = ScanClean,
     f_scan_completed_at = None, f_created_at = 0, f_deleted_at = None\<rparr>"

definition ex_gdpr :: gdpr_db where
  "ex_gdpr = \<lparr>outbox_events = [], audit_logs = [], jobs = [], redis = (\<lambda>_. None), pubsub = [],
     entropy = (\<lambda>n. replicate n CHR ''x''), drawn = 1, users = [ex_user], organizations = [ex_offboarded],
     org_memberships = [\<lparr>m_id = ''m1'', m_org_id = ''o1'', m_user_id = ''u1'', m_role = Member, m_status = MActive,
       m_invited_by = None, m_joined_at = None, m_removed_at = None, m_deleted_at = None, m_created_at = 0,
       m_updated_at = 0\<rparr>],
     workspaces = [], notification_preferences = [], subscriptions = [],
     refresh_tokens = [], auth_providers = [], user_preferences = [], saml_used_assertions = [],
     g_tasks = [], g_task_assignees = [], g_comments = [], g_channels = [], g_messages = [],
     g_files = [ex_file_of ''o1''], g_webhooks = [], g_uploads = []\<rparr>"

definition ex_export :: export_env where
  "ex_export = \<lparr>xe_bucket = Some ''b'', xe_scan = (\<lambda>k rows. rows), xe_upload = (\<lambda>_ _. Inr ()),
     xe_download_url = (\<lambda>k _. Inr k)\<rparr>"

section \<open>The properties\<close>



text \<open>Offboarding: the job deletes exactly the organization.  The organization is not found any more, the other
  modules list no workspace, task, channel, file or webhook of it, one erasure is queued for every active
  member (whatever other organizations the member belongs to), and the rows of other organizations and the
  subscriptions are untouched.\<close>

theorem offboarding_deletes_org:
  assumes "List.find (\<lambda>r. o_id r = g) (organizations w) = Some r" "o_status r = OrgOffboarding"
    and "w' = runOffboardingJob now g w"
    and "tasks wt = g_tasks w'" "channels wc = g_channels w'" "files wl = g_files w'"
    and "webhook_subscriptions wh = g_webhooks w'"
  shows "org_findById g w' = None \<and> listWorkspaces g w' = [] \<and> task_findByOrg g fs wt = [] \<and>
    channel_findByOrg g ch wc = [] \<and> listFiles g n m wl = [] \<and> webhook_findByOrg g wh = [] \<and>
    jobs w' = jobs w @ map (\<lambda>m. \<lparr>j_queue = ''erase-user'', j_name = ''erase-user'',
      j_data = erase_job (m_user_id m) g, j_delay = 0\<rparr>) (active_members g w) \<and>
    filter (\<lambda>t. t_org_id t \<noteq> g) (g_tasks w') = filter (\<lambda>t. t_org_id t \<noteq> g) (g_tasks w) \<and>
    filter (\<lambda>f. f_org_id f \<noteq> g) (g_files w') = filter (\<lambda>f. f_org_id f \<noteq> g) (g_files w) \<and>
    filter (\<lambda>x. ws_org_id x \<noteq> g) (workspaces w') = filter (\<lambda>x. ws_org_id x \<noteq> g) (workspaces w) \<and>
    filter (\<lambda>x. o_id x \<noteq> g) (organizations w') = filter (\<lambda>x. o_id x \<noteq> g) (organizations w) \<and>
    subscriptions w' = subscriptions w"
proof -
  note f = offboarding_fields [OF assms(1,2), of now, folded assms(3)]
  note v = assms(4-7) [unfolded f]
  have "org_findById g w' = None" unfolding org_findById_def f by (rule find_update_where_clears) auto
  moreover have "listWorkspaces g w' = []"
    using f(2) soft_deleted_unlisted(5) [of g now w] by (simp add: listWorkspaces_def ws_findByOrg_def)
  moreover have "filter (\<lambda>x. o_id x \<noteq> g) (organizations w') = filter (\<lambda>x. o_id x \<noteq> g) (organizations w)"
    unfolding f by (rule filter_update_where_same) simp
  ultimately show ?thesis
    using soft_deleted_unlisted(1) [OF v(1)] soft_deleted_unlisted(2) [OF v(2)] soft_deleted_unlisted(3) [OF v(3)]
      soft_deleted_unlisted(4) [OF v(4)] soft_delete_others [of g now w] by (simp add: f)
qed

theorem offboarding_deletes_org_witness:
  "listFiles ''o1'' 10 0 (ex_file_db\<lparr>files := g_files (runOffboardingJob 9 ''o1'' ex_gdpr)\<rparr>) = [] \<and>
   map j_data (jobs (runOffboardingJob 9 ''o1'' ex_gdpr)) = [erase_job ''u1'' ''o1'']"
proof -
  let ?w' = "runOffboardingJob 9 ''o1'' ex_gdpr"
  have "List.find (\<lambda>r. o_id r = ''o1'') (organizations ex_gdpr) = Some ex_offboarded" "o_status ex_offboarded = OrgOffboarding"
    by (simp_all add: ex_gdpr_def ex_offboarded_def new_org_def)
  from offboarding_deletes_org [OF this refl, where now = 9 and wt = "ex_ws_db\<lparr>tasks := g_tasks ?w'\<rparr>" and wc = "ex_chat0\<lparr>channels := g_channels ?w'\<rparr>"
      and wl = "ex_file_db\<lparr>files := g_files ?w'\<rparr>" and wh = "ex_hook0\<lparr>webhook_subscriptions := g_webhooks ?w'\<rparr>"]
  show ?thesis by (simp add: ex_gdpr_def active_members_def)
qed



text \<open>Nothing fixes the order: if the second page is read in another order, a row is exported twice and
  another one not at all.\<close>

lemma unstable_order_loses_row:
  assumes "length rows = Suc p" and "1 < p" and "distinct rows"
  shows "\<exists>pages. cursorPaginate (sql_page (\<lambda>k rows. if k = 0 then rows else rotate1 rows) rows) p = Some pages \<and>
    last rows \<notin> set (concat pages)"
proof -
  obtain a m b where rows: "rows = a # m @ [b]"
    using assms(1,2) by (cases rows; cases "tl rows" rule: rev_cases) auto
  then have p: "p = Suc (length m)" using assms(1) by simp
  let ?page = "sql_page (\<lambda>k rows. if k = 0 then rows else rotate1 rows) rows"
  have "?page p 0 = a # m" "?page p p = [a]" by (simp_all add: sql_page_def rows p)
  then have "cursorPaginate ?page p = Some [a # m, [a]]"
    using assms(2) unfolding cursorPaginate_def by (simp add: p paginate_from.simps)
  with assms(3) show ?thesis by (auto simp: rows)
qed

end
