(* ===== verification/Realtime.thy ===== *)
theory Realtime
  imports Auth_Properties Chat Rate_Limiter Notification
begin

text \<open>
  \<^verbatim>\<open>src/shared/realtime\<close>: the socket server with its rooms and rate-limited events, the room
  manager, the three broadcasters, presence, and video signalling.  A socket is modelled with
  the rooms it is in and what it has received; \<^verbatim>\<open>io.to(room).emit\<close> delivers to the sockets in
  the room.  The properties: rooms keep tenants apart, a notification reaches exactly its user,
  a session ends when the membership does.
\<close>

section \<open>State\<close>

record socket =
  sk_id :: string
  sk_userId :: uuid
  sk_orgId :: string
  sk_role :: string
  sk_rooms :: "string list"
  sk_received :: "(string \<times> json) list"

datatype call_phase = Ringing | CallActive | CallEnded

record video_call =
  vc_id :: uuid
  vc_channel_id :: uuid
  vc_org_id :: uuid
  vc_initiator_id :: uuid
  vc_state :: call_phase
  vc_started_at :: timestamp
  vc_ended_at :: "timestamp option"

text \<open>Redis keys that hold a hash or a set, each with its expiry.\<close>

record rt_db = chat_db +
  sockets :: "socket list"
  video_calls :: "video_call list"
  hashes :: "string \<Rightarrow> ((string \<Rightarrow> string option) \<times> timestamp option) option"
  rsets :: "string \<Rightarrow> (string list \<times> timestamp option) option"

definition org_room :: "string \<Rightarrow> string" where
  "org_room g = ''org:'' @ g"

definition user_room :: "string \<Rightarrow> uuid \<Rightarrow> string" where
  "user_room g u = ''org:'' @ g @ '':user:'' @ u"

definition task_room :: "string \<Rightarrow> uuid \<Rightarrow> string" where
  "task_room g t = ''org:'' @ g @ '':task:'' @ t"

definition channel_room :: "uuid \<Rightarrow> string" where
  "channel_room c = ''channel:'' @ c"

definition call_room :: "string \<Rightarrow> string" where
  "call_room c = ''call:'' @ c"

definition on_socket :: "string \<Rightarrow> (socket \<Rightarrow> socket) \<Rightarrow> 'a rt_db_scheme \<Rightarrow> 'a rt_db_scheme" where
  "on_socket sid f w = w\<lparr>sockets := update_where (\<lambda>s. sk_id s = sid) f (sockets w)\<rparr>"

definition sk_join :: "string \<Rightarrow> socket \<Rightarrow> socket" where
  "sk_join room s = s\<lparr>sk_rooms := List.insert room (sk_rooms s)\<rparr>"

definition sk_leave :: "string \<Rightarrow> socket \<Rightarrow> socket" where
  "sk_leave room s = s\<lparr>sk_rooms := removeAll room (sk_rooms s)\<rparr>"

definition sk_deliver :: "string \<Rightarrow> json \<Rightarrow> socket \<Rightarrow> socket" where
  "sk_deliver ev dta s = s\<lparr>sk_received := sk_received s @ [(ev, dta)]\<rparr>"

definition emitToRoom :: "string \<Rightarrow> string \<Rightarrow> json \<Rightarrow> 'a rt_db_scheme \<Rightarrow> 'a rt_db_scheme" where
  "emitToRoom room ev dta w =
     w\<lparr>sockets := update_where (\<lambda>s. room \<in> set (sk_rooms s)) (sk_deliver ev dta) (sockets w)\<rparr>"

definition emitToOrg :: "string \<Rightarrow> string \<Rightarrow> json \<Rightarrow> 'a rt_db_scheme \<Rightarrow> 'a rt_db_scheme" where
  "emitToOrg g = emitToRoom (org_room g)"

definition emitToUser :: "string \<Rightarrow> uuid \<Rightarrow> string \<Rightarrow> json \<Rightarrow> 'a rt_db_scheme \<Rightarrow> 'a rt_db_scheme" where
  "emitToUser g u = emitToRoom (user_room g u)"

section \<open>Socket server\<close>

text \<open>The handshake verifies the token only; \<open>sid\<close> is the identifier of the new socket.\<close>

definition handshake ::
    "crypto_lib \<Rightarrow> key_store \<Rightarrow> timestamp \<Rightarrow> string \<Rightarrow> string option \<Rightarrow> 'a rt_db_scheme \<Rightarrow> unit outcome \<times> 'a rt_db_scheme" where
  "handshake cr ks now sid token w =
     (if \<not> truthy token then (Inl (JsError ''auth:error missing token''), w)
      else case verifyToken cr ks now (case_option '''' id token) of
             None \<Rightarrow> (Inl (JsError ''auth:error invalid token''), w)
           | Some p \<Rightarrow>
               (Inr (), w\<lparr>sockets := sockets w @
                  [\<lparr>sk_id = sid, sk_userId = jc_sub p, sk_orgId = jc_orgId p, sk_role = jc_role p,
                    sk_rooms = [org_room (jc_orgId p), user_room (jc_orgId p) (jc_sub p)], sk_received = []\<rparr>]\<rparr>))"

definition on_connection :: "string \<Rightarrow> uuid \<Rightarrow> 'a rt_db_scheme \<Rightarrow> 'a rt_db_scheme" where
  "on_connection sid userId w =
     fold (\<lambda>m. on_socket sid (sk_join (channel_room (cm_channel_id m))))
       (filter (\<lambda>m. cm_user_id m = userId \<and> cm_removed_at m = None) (channel_members w)) w"

text \<open>The check that runs every five minutes.\<close>

definition session_alive :: "uuid \<Rightarrow> string \<Rightarrow> 'a dir_scheme \<Rightarrow> bool" where
  "session_alive userId orgId w =
     ((case List.find (\<lambda>u. u_id u = userId) (users w) of None \<Rightarrow> False | Some u \<Rightarrow> u_status u = UActive) \<and>
      (case findMembership orgId userId w of None \<Rightarrow> False | Some m \<Rightarrow> m_status m = MActive))"

definition on_disconnect :: "timestamp \<Rightarrow> socket \<Rightarrow> 'a rt_db_scheme \<Rightarrow> 'a rt_db_scheme" where
  "on_disconnect now s w =
     emitToOrg (sk_orgId s) ''presence:update'' (JObj [(''userId'', JStr (sk_userId s)), (''status'', JStr ''offline'')])
       (w\<lparr>sockets := delete_where (\<lambda>x. sk_id x = sk_id s) (sockets w),
          users := update_where (\<lambda>u. u_id u = sk_userId s) (\<lambda>u. u\<lparr>u_last_seen_at := Some now, u_updated_at := now\<rparr>) (users w)\<rparr>)"

definition session_check :: "timestamp \<Rightarrow> socket \<Rightarrow> 'a rt_db_scheme \<Rightarrow> 'a rt_db_scheme" where
  "session_check now s w =
     (if session_alive (sk_userId s) (sk_orgId s) w then w
      else on_disconnect now s (on_socket (sk_id s) (sk_deliver ''session:expired'' JNull) w))"

text \<open>An event handler behind the limiter: refused, the client is told; allowed, the action runs.  The state
  of the limiter is the first component.\<close>

definition rate_limited ::
    "redis_exec \<Rightarrow> timestamp \<Rightarrow> string \<Rightarrow> nat \<Rightarrow> int \<Rightarrow> string \<Rightarrow> string \<Rightarrow> ('a rt_db_scheme \<Rightarrow> 'a rt_db_scheme)
     \<Rightarrow> limiter \<times> 'a rt_db_scheme \<Rightarrow> limiter \<times> 'a rt_db_scheme" where
  "rate_limited mode now key limit windowSeconds sid event action s =
     (case checkRateLimit mode key limit windowSeconds now (fst s) of
        (Inl _, l) \<Rightarrow> (l, snd s)
      | (Inr allowed, l) \<Rightarrow>
          (l, if allowed then action (snd s)
              else on_socket sid (sk_deliver ''rate_limit:exceeded'' (JObj [(''event'', JStr event)])) (snd s)))"

definition task_subscribe ::
    "redis_exec \<Rightarrow> timestamp \<Rightarrow> socket \<Rightarrow> uuid \<Rightarrow> limiter \<times> 'a rt_db_scheme \<Rightarrow> limiter \<times> 'a rt_db_scheme" where
  "task_subscribe mode now s taskId =
     rate_limited mode now (''rate:task_subscribe:'' @ sk_id s) 20 60 (sk_id s) ''task:subscribe''
       (on_socket (sk_id s) (sk_join (task_room (sk_orgId s) taskId)))"

definition task_unsubscribe ::
    "redis_exec \<Rightarrow> timestamp \<Rightarrow> socket \<Rightarrow> uuid \<Rightarrow> limiter \<times> 'a rt_db_scheme \<Rightarrow> limiter \<times> 'a rt_db_scheme" where
  "task_unsubscribe mode now s taskId =
     rate_limited mode now (''rate:task_subscribe:'' @ sk_id s) 20 60 (sk_id s) ''task:unsubscribe''
       (on_socket (sk_id s) (sk_leave (task_room (sk_orgId s) taskId)))"

definition call_join :: "socket \<Rightarrow> string \<Rightarrow> 'a rt_db_scheme \<Rightarrow> 'a rt_db_scheme" where
  "call_join s callId = on_socket (sk_id s) (sk_join (call_room callId))"

definition call_leave :: "socket \<Rightarrow> string \<Rightarrow> 'a rt_db_scheme \<Rightarrow> 'a rt_db_scheme" where
  "call_leave s callId = on_socket (sk_id s) (sk_leave (call_room callId))"

definition call_ice ::
    "redis_exec \<Rightarrow> timestamp \<Rightarrow> socket \<Rightarrow> limiter \<times> 'a rt_db_scheme \<Rightarrow> limiter \<times> 'a rt_db_scheme" where
  "call_ice mode now s =
     rate_limited mode now
       (case List.find (\<lambda>r. take 5 r = ''call:'') (sk_rooms s) of Some r \<Rightarrow> ''rate:ice:'' @ r | None \<Rightarrow> ''rate:ice:'' @ sk_id s)
       100 1 (sk_id s) ''call:ice-candidate'' (\<lambda>w. w)"

definition message_send_event ::
    "redis_exec \<Rightarrow> timestamp \<Rightarrow> socket \<Rightarrow> limiter \<times> 'a rt_db_scheme \<Rightarrow> limiter \<times> 'a rt_db_scheme" where
  "message_send_event mode now s =
     rate_limited mode now (''rate:message_send:'' @ sk_userId s) 60 10 (sk_id s) ''message:send'' (\<lambda>w. w)"

definition presence_heartbeat_event ::
    "redis_exec \<Rightarrow> timestamp \<Rightarrow> socket \<Rightarrow> limiter \<times> 'a rt_db_scheme \<Rightarrow> limiter \<times> 'a rt_db_scheme" where
  "presence_heartbeat_event mode now s =
     rate_limited mode now (''rate:presence_heartbeat:'' @ sk_id s) 1 10 (sk_id s) ''presence:heartbeat'' (\<lambda>w. w)"

definition typing_start_event ::
    "redis_exec \<Rightarrow> timestamp \<Rightarrow> socket \<Rightarrow> uuid \<Rightarrow> limiter \<times> 'a rt_db_scheme \<Rightarrow> limiter \<times> 'a rt_db_scheme" where
  "typing_start_event mode now s channelId =
     rate_limited mode now (''rate:typing:'' @ channelId @ '':'' @ sk_userId s) 1 1 (sk_id s) ''typing:start'' (\<lambda>w. w)"

section \<open>Broadcasters\<close>

record bus_event =
  be_org_id :: uuid
  be_event_type :: string
  be_entity_id :: uuid
  be_payload :: json

definition payload_string :: "string \<Rightarrow> json \<Rightarrow> string option" where
  "payload_string k j = (case json_field k j of Some (JStr s) \<Rightarrow> Some s | _ \<Rightarrow> None)"

definition task_broadcast :: "bus_event \<Rightarrow> 'a rt_db_scheme \<Rightarrow> 'a rt_db_scheme" where
  "task_broadcast e w =
     (let ty = be_event_type e; g = be_org_id e; room = task_room g (be_entity_id e); dta = be_payload e
      in if ty \<in> {''task.created'', ''task.updated'', ''task.deleted'', ''task.status_changed''}
         then emitToOrg g ty dta (emitToRoom room ty dta w)
         else if ty = ''task.assigned'' then
           emitToRoom room ty dta
             (case payload_string ''assigneeId'' dta of
                Some a \<Rightarrow> (if a = '''' then w else emitToUser g a ty dta w) | None \<Rightarrow> w)
         else if ty \<in> {''task.commented'', ''comment.created''} then emitToRoom room ty dta w
         else if ty \<in> {''task.mentioned'', ''mention.created''} then
           (case payload_string ''mentionedUserId'' dta of
              Some a \<Rightarrow> (if a = '''' then w else emitToUser g a ty dta w) | None \<Rightarrow> w)
         else w)"

text \<open>\<open>acked k\<close>: some client acknowledged attempt \<open>k\<close> in time.\<close>

fun emitWithAckRetry ::
    "(nat \<Rightarrow> bool) \<Rightarrow> string \<Rightarrow> string \<Rightarrow> json \<Rightarrow> nat \<Rightarrow> nat \<Rightarrow> 'a rt_db_scheme \<Rightarrow> 'a rt_db_scheme" where
  "emitWithAckRetry acked room ev dta attempt 0 w = w"
| "emitWithAckRetry acked room ev dta attempt (Suc n) w =
     (if \<not> list_ex (\<lambda>s. room \<in> set (sk_rooms s)) (sockets w) then w
      else let w1 = emitToRoom room ev dta w
           in if acked attempt then w1 else emitWithAckRetry acked room ev dta (Suc attempt) n w1)"

definition ACK_RETRIES :: nat where
  "ACK_RETRIES = 3"

definition chat_broadcast :: "(nat \<Rightarrow> bool) \<Rightarrow> bus_event \<Rightarrow> 'a rt_db_scheme \<Rightarrow> 'a rt_db_scheme" where
  "chat_broadcast acked e w =
     (if be_event_type e \<notin> {''message.created'', ''message.received''} then w
      else case payload_string ''channelId'' (be_payload e) of
             None \<Rightarrow> w
           | Some c \<Rightarrow>
               if c = '''' then w
               else emitWithAckRetry acked (channel_room c) (be_event_type e) (be_payload e) 0 (Suc ACK_RETRIES) w)"

text \<open>The channel has the form \<^verbatim>\<open>notification:{orgId}:user:{userId}\<close>; a missing part is printed as
  \<^verbatim>\<open>undefined\<close>.\<close>

definition part :: "nat \<Rightarrow> string list \<Rightarrow> string" where
  "part n ps = (if n < length ps then ps ! n else ''undefined'')"

definition notification_broadcast :: "string \<Rightarrow> json \<Rightarrow> 'a rt_db_scheme \<Rightarrow> 'a rt_db_scheme" where
  "notification_broadcast channel row w =
     (let parts = split_on CHR '':'' channel
      in emitToRoom (''org:'' @ part 1 parts @ '':user:'' @ part 3 parts) ''notification:new'' row w)"

section \<open>Presence and typing\<close>

definition PRESENCE_TTL :: int where
  "PRESENCE_TTL = 90"

definition TYPING_TTL :: int where
  "TYPING_TTL = 5"

definition presence_key :: "string \<Rightarrow> string" where
  "presence_key g = ''presence:'' @ g"

text \<open>\<^verbatim>\<open>HGET\<close>, and \<^verbatim>\<open>HSET\<close> followed by \<^verbatim>\<open>EXPIRE\<close>, which renews the expiry of the whole hash.\<close>

definition hash_at :: "timestamp \<Rightarrow> string \<Rightarrow> 'a rt_db_scheme \<Rightarrow> string \<Rightarrow> string option" where
  "hash_at now k w = (case hashes w k of None \<Rightarrow> (\<lambda>_. None) | Some (h, e) \<Rightarrow> if live_at now e then h else (\<lambda>_. None))"

definition setOnline :: "timestamp \<Rightarrow> uuid \<Rightarrow> string \<Rightarrow> 'a rt_db_scheme \<Rightarrow> 'a rt_db_scheme" where
  "setOnline now userId orgId w =
     w\<lparr>hashes := (hashes w)(presence_key orgId \<mapsto>
        ((hash_at now (presence_key orgId) w)(userId \<mapsto> ''online''), Some (now + PRESENCE_TTL * 1000)))\<rparr>"

definition setOffline :: "timestamp \<Rightarrow> uuid \<Rightarrow> string \<Rightarrow> 'a rt_db_scheme \<Rightarrow> 'a rt_db_scheme" where
  "setOffline now userId orgId w =
     w\<lparr>hashes := (hashes w)(presence_key orgId :=
        map_option (\<lambda>(h, e). (h(userId := None), e)) (hashes w (presence_key orgId)))\<rparr>"

definition heartbeat :: "timestamp \<Rightarrow> uuid \<Rightarrow> string \<Rightarrow> 'a rt_db_scheme \<Rightarrow> 'a rt_db_scheme" where
  "heartbeat now userId orgId w = setOnline now userId orgId w"

definition getStatus :: "timestamp \<Rightarrow> uuid \<Rightarrow> string \<Rightarrow> 'a rt_db_scheme \<Rightarrow> string" where
  "getStatus now userId orgId w =
     (if hash_at now (presence_key orgId) w userId = Some ''online'' then ''online'' else ''offline'')"

definition typing_key :: "uuid \<Rightarrow> uuid \<Rightarrow> string" where
  "typing_key channelId userId = ''typing:'' @ channelId @ '':'' @ userId"

definition setTyping :: "timestamp \<Rightarrow> uuid \<Rightarrow> uuid \<Rightarrow> 'a base_scheme \<Rightarrow> 'a base_scheme" where
  "setTyping now userId channelId w = redis_setex now (typing_key channelId userId) (JStr ''1'') TYPING_TTL w"

definition clearTyping :: "uuid \<Rightarrow> uuid \<Rightarrow> 'a base_scheme \<Rightarrow> 'a base_scheme" where
  "clearTyping userId channelId w = redis_del (typing_key channelId userId) w"

definition is_typing :: "timestamp \<Rightarrow> uuid \<Rightarrow> uuid \<Rightarrow> 'a base_scheme \<Rightarrow> bool" where
  "is_typing now channelId userId w = (userId \<noteq> '''' \<and> redis_get now (typing_key channelId userId) w \<noteq> None)"

section \<open>Video signalling\<close>

definition CALL_STATE_TTL :: int where
  "CALL_STATE_TTL = 14400"

definition call_state_key :: "string \<Rightarrow> string" where
  "call_state_key callId = ''call:state:'' @ callId"

definition participants_key :: "string \<Rightarrow> string" where
  "participants_key callId = ''call:participants:'' @ callId"

definition set_at :: "timestamp \<Rightarrow> string \<Rightarrow> 'a rt_db_scheme \<Rightarrow> string list" where
  "set_at now k w = (case rsets w k of None \<Rightarrow> [] | Some (xs, e) \<Rightarrow> if live_at now e then xs else [])"

definition upsert_call :: "timestamp \<Rightarrow> string \<Rightarrow> uuid \<Rightarrow> string \<Rightarrow> uuid \<Rightarrow> 'a rt_db_scheme \<Rightarrow> 'a rt_db_scheme" where
  "upsert_call now callId channelId orgId userId w =
     (if list_ex (\<lambda>c. vc_id c = callId) (video_calls w)
      then w\<lparr>video_calls := update_where (\<lambda>c. vc_id c = callId) (\<lambda>c. c\<lparr>vc_state := CallActive\<rparr>) (video_calls w)\<rparr>
      else w\<lparr>video_calls := video_calls w @ [\<lparr>vc_id = callId, vc_channel_id = channelId, vc_org_id = orgId,
               vc_initiator_id = userId, vc_state = CallActive, vc_started_at = now, vc_ended_at = None\<rparr>]\<rparr>)"

definition participant_json :: "uuid \<Rightarrow> string \<Rightarrow> json" where
  "participant_json userId callId = JObj [(''userId'', JStr userId), (''callId'', JStr callId)]"

definition handleCallJoin ::
    "flag_env \<Rightarrow> nat \<Rightarrow> timestamp \<Rightarrow> socket \<Rightarrow> string \<Rightarrow> uuid \<Rightarrow> 'a rt_db_scheme \<Rightarrow> 'a rt_db_scheme" where
  "handleCallJoin env p now s callId channelId w =
     (case isEnabled env p now (sk_orgId s) ''feature.video_signaling'' w of
        (False, w1) \<Rightarrow> on_socket (sk_id s) (sk_deliver ''error'' (JObj [(''code'', JStr ''FEATURE_NOT_ENABLED'')])) w1
      | (True, w1) \<Rightarrow>
          (let k = call_state_key callId; q = participants_key callId; e = Some (now + CALL_STATE_TTL * 1000);
               w2 = on_socket (sk_id s) (sk_join (call_room callId)) w1;
               w3 = w2\<lparr>hashes := (hashes w2)(k \<mapsto> ((hash_at now k w2)(''callId'' \<mapsto> callId, ''channelId'' \<mapsto> channelId,
                          ''orgId'' \<mapsto> sk_orgId s), e)),
                       rsets := (rsets w2)(q \<mapsto> (List.insert (sk_userId s) (set_at now q w2), e))\<rparr>;
               w4 = upsert_call now callId channelId (sk_orgId s) (sk_userId s) w3
           in emitToRoom (call_room callId) ''call:participant-joined'' (participant_json (sk_userId s) callId) w4))"

definition handleCallLeave :: "timestamp \<Rightarrow> socket \<Rightarrow> string \<Rightarrow> 'a rt_db_scheme \<Rightarrow> 'a rt_db_scheme" where
  "handleCallLeave now s callId w =
     (let q = participants_key callId;
          w1 = on_socket (sk_id s) (sk_leave (call_room callId)) w;
          left = removeAll (sk_userId s) (set_at now q w1);
          w2 = w1\<lparr>rsets := (rsets w1)(q := map_option (\<lambda>(_, e). (left, e)) (rsets w1 q))\<rparr>;
          w3 = (if set_at now q w2 = []
                then w2\<lparr>video_calls := update_where (\<lambda>c. vc_id c = callId)
                       (\<lambda>c. c\<lparr>vc_state := CallEnded, vc_ended_at := Some now\<rparr>) (video_calls w2)\<rparr>
                else w2)
      in emitToRoom (call_room callId) ''call:participant-left'' (participant_json (sk_userId s) callId) w3)"

text \<open>\<^verbatim>\<open>handleCallOffer\<close>, \<^verbatim>\<open>handleCallAnswer\<close> and \<^verbatim>\<open>handleIceCandidate\<close> relay to one user of the
  sender's organization.\<close>

definition relay :: "string \<Rightarrow> string \<Rightarrow> socket \<Rightarrow> string \<Rightarrow> uuid \<Rightarrow> json \<Rightarrow> 'a rt_db_scheme \<Rightarrow> 'a rt_db_scheme" where
  "relay ev field s callId targetUserId dta w =
     emitToUser (sk_orgId s) targetUserId ev
       (JObj [(''callId'', JStr callId), (''senderId'', JStr (sk_userId s)), (field, dta)]) w"

definition handleCallOffer :: "socket \<Rightarrow> string \<Rightarrow> uuid \<Rightarrow> json \<Rightarrow> 'a rt_db_scheme \<Rightarrow> 'a rt_db_scheme" where
  "handleCallOffer = relay ''call:offer'' ''offer''"

definition handleCallAnswer :: "socket \<Rightarrow> string \<Rightarrow> uuid \<Rightarrow> json \<Rightarrow> 'a rt_db_scheme \<Rightarrow> 'a rt_db_scheme" where
  "handleCallAnswer = relay ''call:answer'' ''answer''"

definition handleIceCandidate :: "socket \<Rightarrow> string \<Rightarrow> uuid \<Rightarrow> json \<Rightarrow> 'a rt_db_scheme \<Rightarrow> 'a rt_db_scheme" where
  "handleIceCandidate = relay ''call:ice-candidate'' ''candidate''"

section \<open>Rooms keep organizations apart\<close>

text \<open>The rooms a socket may be in, and those it is always in.  Identifiers contain no colon.\<close>

definition colon_free :: "string \<Rightarrow> bool" where
  "colon_free s = (CHR '':'' \<notin> set s)"

definition room_allowed :: "socket \<Rightarrow> string \<Rightarrow> bool" where
  "room_allowed s r =
     (r = org_room (sk_orgId s) \<or> r = user_room (sk_orgId s) (sk_userId s) \<or> (\<exists>t. r = task_room (sk_orgId s) t) \<or>
      (\<exists>c. r = channel_room c) \<or> (\<exists>c. r = call_room c))"

definition socket_ok :: "socket \<Rightarrow> bool" where
  "socket_ok s =
     (colon_free (sk_orgId s) \<and> colon_free (sk_userId s) \<and> org_room (sk_orgId s) \<in> set (sk_rooms s) \<and>
      user_room (sk_orgId s) (sk_userId s) \<in> set (sk_rooms s) \<and> (\<forall>r \<in> set (sk_rooms s). room_allowed s r))"

definition sockets_ok :: "'a rt_db_scheme \<Rightarrow> bool" where
  "sockets_ok w = (distinct (map sk_id (sockets w)) \<and> list_all socket_ok (sockets w))"

lemmas room_defs = org_room_def user_room_def task_room_def channel_room_def call_room_def

text \<open>The parts of a room's name between the colons tell the kinds of rooms and their owners apart.\<close>

definition room_parts :: "string \<Rightarrow> string list" where
  "room_parts r = split_on CHR '':'' r"

lemma parts_append: "colon_free a \<Longrightarrow> room_parts (a @ CHR '':'' # s) = a # room_parts s"
  by (simp add: room_parts_def colon_free_def)

lemma room_parts_simps:
  "colon_free g \<Longrightarrow> room_parts (org_room g) = [''org'', g]"
  "colon_free g \<Longrightarrow> room_parts (user_room g u) = ''org'' # g # ''user'' # room_parts u"
  "colon_free g \<Longrightarrow> room_parts (task_room g t) = ''org'' # g # ''task'' # room_parts t"
  "room_parts (channel_room c) = ''channel'' # room_parts c"
  "room_parts (call_room c) = ''call'' # room_parts c"
  using parts_append [of "''org''"] parts_append [of g] parts_append [of "''user''"] parts_append [of "''task''"]
    parts_append [of "''channel''"] parts_append [of "''call''"]
  by (simp_all add: room_defs colon_free_def room_parts_def)

lemma socket_room_parts:
  assumes "socket_ok s" and "r \<in> set (sk_rooms s)"
  shows "room_parts r = [''org'', sk_orgId s] \<or> r = user_room (sk_orgId s) (sk_userId s) \<or>
    (\<exists>t. room_parts r = ''org'' # sk_orgId s # ''task'' # room_parts t) \<or>
    (\<exists>c. room_parts r = ''channel'' # c) \<or> (\<exists>c. room_parts r = ''call'' # c)"
proof -
  have "room_allowed s r" "colon_free (sk_orgId s)" using assms by (simp_all add: socket_ok_def)
  then show ?thesis unfolding room_allowed_def by (elim disjE exE) (simp_all add: room_parts_simps, blast)
qed

lemma room_kinds:
  assumes "colon_free g" and "colon_free h"
  shows "task_room g t \<noteq> user_room h u" "org_room g \<noteq> user_room h u"
proof -
  have "room_parts (task_room g t) \<noteq> room_parts (user_room h u)" "room_parts (org_room g) \<noteq> room_parts (user_room h u)"
    using assms by (simp_all add: room_parts_simps)
  then show "task_room g t \<noteq> user_room h u" "org_room g \<noteq> user_room h u" by metis+
qed

lemma room_parts_colon_free: "colon_free u \<Longrightarrow> room_parts u = [u]"
  by (simp add: room_parts_def colon_free_def)

lemma user_room_inj: "user_room g u = user_room g v \<Longrightarrow> u = v"
  by (simp add: user_room_def)

lemma task_room_owner:
  assumes "socket_ok s" and "task_room g t \<in> set (sk_rooms s)" and "colon_free g"
  shows "sk_orgId s = g"
proof -
  have "colon_free (sk_orgId s)" using assms(1) by (simp add: socket_ok_def)
  then have "task_room g t \<noteq> user_room (sk_orgId s) (sk_userId s)"
    by (rule room_kinds(1) [OF assms(3)])
  with socket_room_parts [OF assms(1,2)] show ?thesis by (auto simp: room_parts_simps(3) [OF assms(3)])
qed

lemma org_room_owner:
  assumes "socket_ok s" and "colon_free g"
  shows "org_room g \<in> set (sk_rooms s) \<longleftrightarrow> sk_orgId s = g"
proof
  assume r: "org_room g \<in> set (sk_rooms s)"
  have "colon_free (sk_orgId s)" using assms(1) by (simp add: socket_ok_def)
  then have "org_room g \<noteq> user_room (sk_orgId s) (sk_userId s)"
    by (rule room_kinds(2) [OF assms(2)])
  with socket_room_parts [OF assms(1) r] show "sk_orgId s = g" by (auto simp: room_parts_simps(1) [OF assms(2)])
qed (use assms in \<open>auto simp: socket_ok_def\<close>)

lemma user_room_owner:
  assumes "socket_ok s" and "colon_free g"
  shows "user_room g u \<in> set (sk_rooms s) \<longleftrightarrow> sk_orgId s = g \<and> sk_userId s = u"
proof
  assume r: "user_room g u \<in> set (sk_rooms s)"
  have cf: "colon_free (sk_orgId s)" using assms(1) by (simp add: socket_ok_def)
  from socket_room_parts [OF assms(1) r] have eq: "user_room g u = user_room (sk_orgId s) (sk_userId s)"
    by (auto simp: room_parts_simps(2) [OF assms(2)])
  then have "g = sk_orgId s"
    using room_parts_simps(2) [OF assms(2), of u] room_parts_simps(2) [OF cf, of "sk_userId s"] by simp
  with eq show "sk_orgId s = g \<and> sk_userId s = u" using user_room_inj by blast
qed (use assms in \<open>auto simp: socket_ok_def\<close>)

lemma sk_deliver_ok [simp]:
  "socket_ok (sk_deliver ev d s) = socket_ok s" "sk_id (sk_deliver ev d s) = sk_id s" "sk_orgId (sk_deliver ev d s) = sk_orgId s"
  "sk_userId (sk_deliver ev d s) = sk_userId s" "sk_rooms (sk_deliver ev d s) = sk_rooms s"
  by (simp_all add: sk_deliver_def socket_ok_def room_allowed_def)

lemma room_allowed_rooms [simp]: "room_allowed (s\<lparr>sk_rooms := rs\<rparr>) = room_allowed s"
  by (simp add: fun_eq_iff room_allowed_def)

lemma sk_join_ok: "socket_ok s \<Longrightarrow> room_allowed s r \<Longrightarrow> socket_ok (sk_join r s)"
  by (simp add: sk_join_def socket_ok_def)

lemma sk_join_id [simp]: "sk_id (sk_join r s) = sk_id s"
  by (simp add: sk_join_def)

lemma sk_leave_ok:
  "socket_ok s \<Longrightarrow> r \<noteq> org_room (sk_orgId s) \<Longrightarrow> r \<noteq> user_room (sk_orgId s) (sk_userId s) \<Longrightarrow> socket_ok (sk_leave r s)"
  by (simp add: sk_leave_def socket_ok_def)

lemma sk_leave_id [simp]: "sk_id (sk_leave r s) = sk_id s"
  by (simp add: sk_leave_def)

lemma update_sockets_ok:
  assumes "list_all socket_ok ss \<and> distinct (map sk_id ss)"
    and "\<And>s. s \<in> set ss \<Longrightarrow> P s \<Longrightarrow> socket_ok (f s)" and "\<And>s. sk_id (f s) = sk_id s"
  shows "list_all socket_ok (update_where P f ss) \<and> distinct (map sk_id (update_where P f ss))"
  using assms map_update_where_same [of P sk_id f ss] by (auto simp: list_all_iff in_update_where)

lemma emitToRoom_ok: "sockets_ok w \<Longrightarrow> sockets_ok (emitToRoom r ev d w)"
  using update_sockets_ok [of "sockets w" "\<lambda>s. r \<in> set (sk_rooms s)" "sk_deliver ev d"]
  by (simp add: sockets_ok_def emitToRoom_def list_all_iff)

lemma on_socket_ok:
  assumes "sockets_ok w" and "\<And>s. s \<in> set (sockets w) \<Longrightarrow> sk_id s = sid \<Longrightarrow> socket_ok (f s)" and "\<And>s. sk_id (f s) = sk_id s"
  shows "sockets_ok (on_socket sid f w)"
  using update_sockets_ok [of "sockets w" "\<lambda>s. sk_id s = sid" f] assms by (simp add: sockets_ok_def on_socket_def)

lemma emitTo_ok:
  "sockets_ok w \<Longrightarrow> sockets_ok (emitToOrg g ev d w)" "sockets_ok w \<Longrightarrow> sockets_ok (emitToUser g u ev d w)"
  by (simp_all add: emitToOrg_def emitToUser_def emitToRoom_ok)

lemma same_socket:
  "sockets_ok w \<Longrightarrow> s \<in> set (sockets w) \<Longrightarrow> x \<in> set (sockets w) \<Longrightarrow> sk_id x = sk_id s \<Longrightarrow> x = s"
  unfolding sockets_ok_def by (elim conjE) (rule inj_on_key)

lemma deliver_ok: "sockets_ok w \<Longrightarrow> sockets_ok (on_socket sid (sk_deliver ev d) w)"
  by (rule on_socket_ok) (auto simp: sockets_ok_def list_all_iff)

lemma join_ok:
  assumes "sockets_ok w" "s \<in> set (sockets w)" and "room_allowed s r"
  shows "sockets_ok (on_socket (sk_id s) (sk_join r) w)"
proof (rule on_socket_ok [OF assms(1)])
  fix x assume "x \<in> set (sockets w)" "sk_id x = sk_id s"
  then have "x = s" using same_socket assms(1,2) by blast
  moreover have "socket_ok s" using assms(1,2) by (simp add: sockets_ok_def list_all_iff)
  ultimately show "socket_ok (sk_join r x)" using assms(3) by (simp add: sk_join_ok)
qed simp

lemma leave_ok:
  assumes "sockets_ok w" "s \<in> set (sockets w)" and "(\<exists>t. r = task_room (sk_orgId s) t) \<or> (\<exists>c. r = call_room c)"
  shows "sockets_ok (on_socket (sk_id s) (sk_leave r) w)"
proof (rule on_socket_ok [OF assms(1)])
  fix x assume "x \<in> set (sockets w)" "sk_id x = sk_id s"
  then have x: "x = s" using same_socket assms(1,2) by blast
  have ok: "socket_ok s" using assms(1,2) by (auto simp: sockets_ok_def list_all_iff)
  then have cf: "colon_free (sk_orgId s)" by (simp add: socket_ok_def)
  have "r \<noteq> org_room (sk_orgId s) \<and> r \<noteq> user_room (sk_orgId s) (sk_userId s)"
  proof (rule ccontr)
    assume "\<not> ?thesis"
    then have "room_parts r = [''org'', sk_orgId s] \<or> room_parts r = ''org'' # sk_orgId s # ''user'' # room_parts (sk_userId s)"
      using room_parts_simps(1,2) [OF cf] by auto
    with assms(3) show False by (auto simp: room_parts_simps cf)
  qed
  then show "socket_ok (sk_leave r x)" unfolding x by (intro sk_leave_ok [OF ok]) auto
qed simp

section \<open>Steps\<close>

lemma join_any_ok: "sockets_ok w \<Longrightarrow> (\<And>s. room_allowed s r) \<Longrightarrow> sockets_ok (on_socket sid (sk_join r) w)"
  by (rule on_socket_ok) (auto simp: sockets_ok_def list_all_iff intro: sk_join_ok)

lemma any_room_allowed: "room_allowed s (channel_room c)" "room_allowed s (call_room c)"
  by (auto simp: room_allowed_def)

lemma on_connection_ok: "sockets_ok w \<Longrightarrow> sockets_ok (on_connection sid u w)"
proof -
  have "sockets_ok w \<Longrightarrow> sockets_ok (fold (\<lambda>m. on_socket sid (sk_join (channel_room (cm_channel_id m)))) ms w)" for ms
    by (induction ms arbitrary: w) (auto intro!: join_any_ok any_room_allowed)
  then show "sockets_ok w \<Longrightarrow> sockets_ok (on_connection sid u w)" by (simp add: on_connection_def)
qed

lemma handshake_ok:
  assumes "sockets_ok w" and "sid \<notin> sk_id ` set (sockets w)" and "verifyToken cr ks now tok = Some p"
    and "colon_free (jc_orgId p)" "colon_free (jc_sub p)" and "handshake cr ks now sid (Some tok) w = (Inr (), w1)"
  shows "sockets_ok w1"
  using assms by (auto simp: handshake_def sockets_ok_def socket_ok_def room_allowed_def split: if_splits)

lemma on_disconnect_ok: "sockets_ok w \<Longrightarrow> sockets_ok (on_disconnect now s w)"
  unfolding on_disconnect_def
  by (rule emitTo_ok(1)) (auto simp: sockets_ok_def list_all_iff delete_where_def distinct_map_filter)

lemma rate_limited_ok:
  assumes "sockets_ok (snd st)" and "sockets_ok (snd st) \<Longrightarrow> sockets_ok (action (snd st))"
  shows "sockets_ok (snd (rate_limited mode now k n win sid ev action st))"
  using assms deliver_ok by (auto simp: rate_limited_def split: prod.split sum.split)

lemma isEnabled_sockets [simp]: "sockets (snd (isEnabled env p now g k w)) = sockets w"
  by (auto simp: isEnabled_def set_l1_def Let_def split: option.split)

lemma sockets_ok_cong: "sockets w' = sockets w \<Longrightarrow> sockets_ok w' = sockets_ok w"
  by (simp add: sockets_ok_def)

lemma handleCallJoin_ok: "sockets_ok w \<Longrightarrow> sockets_ok (handleCallJoin env p now s c ch w)"
proof -
  assume ok: "sockets_ok w"
  obtain b w1 where e: "isEnabled env p now (sk_orgId s) ''feature.video_signaling'' w = (b, w1)" by fastforce
  then have ok1: "sockets_ok w1" using ok isEnabled_sockets [of env p now "sk_orgId s" "''feature.video_signaling''" w] sockets_ok_cong
    by (metis snd_conv)
  let ?w2 = "on_socket (sk_id s) (sk_join (call_room c)) w1"
  have "sockets_ok ?w2" by (rule join_any_ok [OF ok1]) (rule any_room_allowed)
  moreover have "sockets (upsert_call now c ch g u v) = sockets v" for g u and v :: "'a rt_db_scheme" by (simp add: upsert_call_def)
  ultimately show ?thesis
    by (cases b) (auto simp: handleCallJoin_def e Let_def sockets_ok_def intro!: deliver_ok [OF ok1, unfolded sockets_ok_def]
        emitToRoom_ok [unfolded sockets_ok_def])
qed

lemma handleCallLeave_ok:
  assumes "sockets_ok w" and "s \<in> set (sockets w)"
  shows "sockets_ok (handleCallLeave now s c w)"
proof -
  have "sockets_ok (on_socket (sk_id s) (sk_leave (call_room c)) w)" by (rule leave_ok [OF assms]) auto
  then show ?thesis
    unfolding handleCallLeave_def Let_def by (intro emitToRoom_ok) (simp add: sockets_ok_def)
qed

lemma emitWithAckRetry_ok: "sockets_ok w \<Longrightarrow> sockets_ok (emitWithAckRetry acked r ev d k n w)"
  by (induction acked r ev d k n w rule: emitWithAckRetry.induct) (simp_all add: emitToRoom_ok Let_def)

lemma broadcasts_ok:
  "sockets_ok w \<Longrightarrow> sockets_ok (task_broadcast e w)"
  "sockets_ok w \<Longrightarrow> sockets_ok (chat_broadcast acked e w)"
  "sockets_ok w \<Longrightarrow> sockets_ok (notification_broadcast chan row w)"
  by (auto simp: task_broadcast_def chat_broadcast_def notification_broadcast_def Let_def
      intro!: emitToRoom_ok emitTo_ok emitWithAckRetry_ok split: option.split)

text \<open>What can happen to the sockets; the other modules change the rest of the state at any time.  Tokens
  carry identifiers without colons, and the server gives every connection a new identifier.\<close>

inductive rt_step :: "limiter \<times> rt_db \<Rightarrow> limiter \<times> rt_db \<Rightarrow> bool" where
  Connect: "sid \<notin> sk_id ` set (sockets w) \<Longrightarrow> verifyToken cr ks now tok = Some p \<Longrightarrow> colon_free (jc_orgId p) \<Longrightarrow>
     colon_free (jc_sub p) \<Longrightarrow> handshake cr ks now sid (Some tok) w = (Inr (), w1) \<Longrightarrow>
     rt_step (l, w) (l, on_connection sid (jc_sub p) w1)"
| Subscribe: "s \<in> set (sockets w) \<Longrightarrow> rt_step (l, w) (task_subscribe mode now s t (l, w))"
| Unsubscribe: "s \<in> set (sockets w) \<Longrightarrow> rt_step (l, w) (task_unsubscribe mode now s t (l, w))"
| Ice: "s \<in> set (sockets w) \<Longrightarrow> rt_step (l, w) (call_ice mode now s (l, w))"
| Send: "s \<in> set (sockets w) \<Longrightarrow> rt_step (l, w) (message_send_event mode now s (l, w))"
| Heartbeat: "s \<in> set (sockets w) \<Longrightarrow> rt_step (l, w) (presence_heartbeat_event mode now s (l, w))"
| Typing: "s \<in> set (sockets w) \<Longrightarrow> rt_step (l, w) (typing_start_event mode now s c (l, w))"
| Join_call: "s \<in> set (sockets w) \<Longrightarrow> rt_step (l, w) (l, call_join s c w)"
| Leave_call: "s \<in> set (sockets w) \<Longrightarrow> rt_step (l, w) (l, call_leave s c w)"
| Video_join: "s \<in> set (sockets w) \<Longrightarrow> rt_step (l, w) (l, handleCallJoin env p now s c ch w)"
| Video_leave: "s \<in> set (sockets w) \<Longrightarrow> rt_step (l, w) (l, handleCallLeave now s c w)"
| Relay: "s \<in> set (sockets w) \<Longrightarrow> rt_step (l, w) (l, relay ev field s c target d w)"
| Check: "s \<in> set (sockets w) \<Longrightarrow> rt_step (l, w) (l, session_check now s w)"
| Disconnect: "s \<in> set (sockets w) \<Longrightarrow> rt_step (l, w) (l, on_disconnect now s w)"
| Task_event: "rt_step (l, w) (l, task_broadcast e w)"
| Chat_event: "rt_step (l, w) (l, chat_broadcast acked e w)"
| Notified: "rt_step (l, w) (l, notification_broadcast chan row w)"
| Elsewhere: "sockets w' = sockets w \<Longrightarrow> rt_step (l, w) (l', w')"

lemmas limited_events = call_ice_def message_send_event_def presence_heartbeat_event_def typing_start_event_def

lemma rt_step_ok: "rt_step st st' \<Longrightarrow> sockets_ok (snd st) \<Longrightarrow> sockets_ok (snd st')"
proof (induction rule: rt_step.induct)
  case (Connect sid w cr ks now tok p w1 l)
  then show ?case by (simp add: on_connection_ok handshake_ok)
next
  case (Subscribe s w l mode now t)
  have "room_allowed s (task_room (sk_orgId s) t)" by (auto simp: room_allowed_def)
  with Subscribe show ?case unfolding task_subscribe_def by (intro rate_limited_ok) (auto intro: join_ok)
next
  case (Unsubscribe s w l mode now t)
  then show ?case unfolding task_unsubscribe_def by (intro rate_limited_ok) (auto intro: leave_ok)
next
  case (Check s w l now)
  then show ?case by (simp add: session_check_def on_disconnect_ok deliver_ok)
next
  case (Join_call s w l c)
  then show ?case unfolding call_join_def by (auto intro!: join_any_ok any_room_allowed)
next
  case (Leave_call s w l c)
  then show ?case unfolding call_leave_def by (auto intro!: leave_ok)
next
  case (Elsewhere w' w l l')
  then show ?case by (simp add: sockets_ok_def)
qed (unfold limited_events relay_def, auto intro!: rate_limited_ok handleCallJoin_ok handleCallLeave_ok emitTo_ok on_disconnect_ok broadcasts_ok)

lemma rt_reachable_ok:
  assumes "rt_step\<^sup>*\<^sup>* st st'" and "sockets (snd st) = []"
  shows "sockets_ok (snd st')"
  using assms by (induction rule: rtranclp_induct) (simp_all add: sockets_ok_def [of "snd st"] rt_step_ok)

section \<open>Who receives\<close>

lemma filter_update_where_on:
  assumes "\<And>r. r \<in> set rs \<Longrightarrow> P r \<Longrightarrow> \<not> Q r \<and> \<not> Q (f r)"
  shows "filter Q (update_where P f rs) = filter Q rs"
  using assms by (induction rs) auto

lemma update_where_cong: "(\<And>r. r \<in> set rs \<Longrightarrow> P r = Q r) \<Longrightarrow> update_where P f rs = update_where Q f rs"
  by (induction rs) auto

lemma emit_own_org:
  assumes "\<And>s. s \<in> set (sockets w) \<Longrightarrow> room \<in> set (sk_rooms s) \<Longrightarrow> sk_orgId s = g"
  shows "filter (\<lambda>s. sk_orgId s \<noteq> g) (sockets (emitToRoom room ev d w)) = filter (\<lambda>s. sk_orgId s \<noteq> g) (sockets w)"
  unfolding emitToRoom_def using assms by (simp, intro filter_update_where_on) auto

lemma emit_rooms_own_org:
  assumes "sockets_ok w" and "colon_free g"
  shows "filter (\<lambda>s. sk_orgId s \<noteq> g) (sockets (emitToRoom (task_room g t) ev d w)) = filter (\<lambda>s. sk_orgId s \<noteq> g) (sockets w)"
    and "filter (\<lambda>s. sk_orgId s \<noteq> g) (sockets (emitToOrg g ev d w)) = filter (\<lambda>s. sk_orgId s \<noteq> g) (sockets w)"
    and "filter (\<lambda>s. sk_orgId s \<noteq> g) (sockets (emitToUser g u ev d w)) = filter (\<lambda>s. sk_orgId s \<noteq> g) (sockets w)"
  using assms task_room_owner org_room_owner user_room_owner
  unfolding emitToOrg_def emitToUser_def sockets_ok_def list_all_iff by (blast intro: emit_own_org)+

lemma task_broadcast_own_org:
  assumes "sockets_ok w" and "colon_free (be_org_id e)"
  shows "filter (\<lambda>s. sk_orgId s \<noteq> be_org_id e) (sockets (task_broadcast e w)) = filter (\<lambda>s. sk_orgId s \<noteq> be_org_id e) (sockets w)"
  using assms emitToRoom_ok [OF assms(1)] emitTo_ok(2) [OF assms(1)]
  by (auto simp: task_broadcast_def Let_def emit_rooms_own_org split: option.split)

lemma emitToOrg_received:
  assumes "sockets_ok w" and "colon_free g"
  shows "list_all (\<lambda>s. sk_orgId s = g \<longrightarrow> (ev, d) \<in> set (sk_received s)) (sockets (emitToOrg g ev d w))"
proof -
  have "sockets (emitToOrg g ev d w) = update_where (\<lambda>s. sk_orgId s = g) (sk_deliver ev d) (sockets w)"
    unfolding emitToOrg_def emitToRoom_def using assms(1)
    by (simp, intro update_where_cong org_room_owner [OF _ assms(2)]) (simp add: sockets_ok_def list_all_iff)
  moreover have "sk_orgId s = g \<longrightarrow> (ev, d) \<in> set (sk_received s)"
    if "s \<in> set (update_where (\<lambda>s. sk_orgId s = g) (sk_deliver ev d) (sockets w))" for s
  proof -
    from that obtain r where "s = (if sk_orgId r = g then sk_deliver ev d r else r)" by (auto simp only: in_update_where)
    then show ?thesis by (cases "sk_orgId r = g") (simp_all add: sk_deliver_def)
  qed
  ultimately show ?thesis by (simp only: list_all_iff) blast
qed

lemma notification_parts:
  assumes "colon_free g" and "colon_free u"
  shows "split_on CHR '':'' (notification_channel g u) = [''notification'', g, ''user'', u]"
proof -
  have "CHR '':'' \<notin> set ''notification''" "CHR '':'' \<notin> set ''user''" by simp_all
  with split_on_join [of "CHR '':''" "''notification''"] split_on_join [of "CHR '':''" g] split_on_join [of "CHR '':''" "''user''" u]
  show ?thesis using assms by (simp add: notification_channel_def colon_free_def)
qed

text \<open>A heartbeat of anyone keeps everybody in the organization online.\<close>

lemma heartbeat_keeps_others_online:
  assumes "getStatus t u g w = ''online''" and "t \<le> t'" and "t' < t + 90000"
  shows "getStatus t' u g (heartbeat t v g w) = ''online''"
  using assms by (auto simp: getStatus_def heartbeat_def setOnline_def hash_at_def PRESENCE_TTL_def live_at_def split: if_splits)

section \<open>The properties\<close>

definition ex_socket :: "string \<Rightarrow> uuid \<Rightarrow> uuid \<Rightarrow> socket" where
  "ex_socket i g u = \<lparr>sk_id = i, sk_userId = u, sk_orgId = g, sk_role = ''member'', sk_rooms = [org_room g, user_room g u],
     sk_received = []\<rparr>"

definition ex_rtdb :: "socket list \<Rightarrow> rt_db" where
  "ex_rtdb ss = chat_db.extend ex_chat0 \<lparr>sockets = ss, video_calls = [], hashes = (\<lambda>_. None), rsets = (\<lambda>_. None)\<rparr>"

definition ex_rt_limiter :: limiter where
  "ex_rt_limiter = base.extend (base.truncate ex_chat0) \<lparr>zsets = (\<lambda>_. None), fallbackStore = (\<lambda>_. None)\<rparr>"

definition ex_key :: "jwt_claims \<Rightarrow> crypto_lib" where
  "ex_key c = ex_crypto\<lparr>jwt_verify := (\<lambda>key now tok. Some c)\<rparr>"

definition ex_jwt :: "uuid \<Rightarrow> uuid \<Rightarrow> jwt_claims" where
  "ex_jwt g u = ex_claims\<lparr>jc_sub := u, jc_orgId := g, jc_role := ''member''\<rparr>"

lemma ex_rtdb_simps [simp]: "sockets (ex_rtdb ss) = ss" "channel_members (ex_rtdb ss) = []"
  by (simp_all add: ex_rtdb_def chat_db.extend_def)

lemma ex_connect:
  assumes "i \<notin> sk_id ` set ss" and "colon_free g" "colon_free u"
  shows "rt_step (ex_rt_limiter, ex_rtdb ss) (ex_rt_limiter, ex_rtdb (ss @ [ex_socket i g u]))"
proof -
  have v: "verifyToken (ex_key (ex_jwt g u)) ex_keys 0 ''tok'' = Some (ex_jwt g u)"
    by (simp add: verifyToken_def getPublicKey_def ex_keys_def registerPublicKey_def ex_key_def ex_crypto_def)
  have h: "handshake (ex_key (ex_jwt g u)) ex_keys 0 i (Some ''tok'') (ex_rtdb ss) = (Inr (), ex_rtdb (ss @ [ex_socket i g u]))"
    using v by (simp add: handshake_def ex_jwt_def ex_socket_def ex_rtdb_def chat_db.extend_def)
  have "on_connection i u (ex_rtdb (ss @ [ex_socket i g u])) = ex_rtdb (ss @ [ex_socket i g u])"
    by (simp add: on_connection_def)
  with rt_step.Connect [OF _ v _ _ h] assms show ?thesis by (simp add: ex_jwt_def)
qed

lemma ex_reachable:
  "rt_step\<^sup>*\<^sup>* (ex_rt_limiter, ex_rtdb []) (ex_rt_limiter, ex_rtdb [ex_socket ''1'' ''g'' ''u'', ex_socket ''2'' ''h'' ''u''])"
  using ex_connect [of "''1''" "[]" "''g''" "''u''"] ex_connect [of "''2''" "[ex_socket ''1'' ''g'' ''u'']" "''h''" "''u''"]
  by (simp add: colon_free_def ex_socket_def)

text \<open>C30. Real-time events stay inside their organization.  However the sockets have connected, subscribed, joined calls
  and been served, broadcasting a task event delivers nothing to a socket of another organization, and the events
  on a task's creation, change and deletion reach every socket of the organization.\<close>

theorem realtime_tenant_isolation:
  assumes "rt_step\<^sup>*\<^sup>* (l0, w0) (l, w)" and "sockets w0 = []" and "colon_free (be_org_id e)"
  shows "filter (\<lambda>s. sk_orgId s \<noteq> be_org_id e) (sockets (task_broadcast e w)) = filter (\<lambda>s. sk_orgId s \<noteq> be_org_id e) (sockets w) \<and>
    (be_event_type e \<in> {''task.created'', ''task.updated'', ''task.deleted'', ''task.status_changed''} \<longrightarrow>
      list_all (\<lambda>s. sk_orgId s = be_org_id e \<longrightarrow> (be_event_type e, be_payload e) \<in> set (sk_received s)) (sockets (task_broadcast e w)))"
proof -
  have ok: "sockets_ok w" using rt_reachable_ok [OF assms(1)] assms(2) by simp
  have "list_all (\<lambda>s. sk_orgId s = be_org_id e \<longrightarrow> (be_event_type e, be_payload e) \<in> set (sk_received s)) (sockets (task_broadcast e w))"
    if "be_event_type e \<in> {''task.created'', ''task.updated'', ''task.deleted'', ''task.status_changed''}"
    using emitToOrg_received [OF emitToRoom_ok [OF ok] assms(3)] that by (simp only: task_broadcast_def Let_def if_True)
  with task_broadcast_own_org [OF ok assms(3)] show ?thesis by blast
qed

theorem realtime_tenant_isolation_witness:
  "filter (\<lambda>s. sk_orgId s \<noteq> ''g'') (sockets (task_broadcast \<lparr>be_org_id = ''g'', be_event_type = ''task.created'', be_entity_id = ''t'',
     be_payload = JNull\<rparr> (ex_rtdb [ex_socket ''1'' ''g'' ''u'', ex_socket ''2'' ''h'' ''u'']))) = [ex_socket ''2'' ''h'' ''u'']"
  using realtime_tenant_isolation [OF ex_reachable, of "\<lparr>be_org_id = ''g'', be_event_type = ''task.created'', be_entity_id = ''t'',
     be_payload = JNull\<rparr>"]
  by (simp add: colon_free_def ex_socket_def)

text \<open>A notification reaches exactly its user: the name of the channel it is published on is parsed back by the
  broadcaster, which delivers the row to the sockets of that user in that organization and to no other.\<close>

theorem notification_reaches_user:
  assumes "rt_step\<^sup>*\<^sup>* (l0, w0) (l, w)" and "sockets w0 = []" and "colon_free g" "colon_free u"
  shows "sockets (notification_broadcast (notification_channel g u) row w) =
    update_where (\<lambda>s. sk_orgId s = g \<and> sk_userId s = u) (sk_deliver ''notification:new'' row) (sockets w)"
proof -
  have "list_all socket_ok (sockets w)" using rt_reachable_ok [OF assms(1)] assms(2) by (simp add: sockets_ok_def)
  then have "update_where (\<lambda>s. user_room g u \<in> set (sk_rooms s)) (sk_deliver ''notification:new'' row) (sockets w) =
      update_where (\<lambda>s. sk_orgId s = g \<and> sk_userId s = u) (sk_deliver ''notification:new'' row) (sockets w)"
    using user_room_owner assms(3) by (intro update_where_cong) (simp add: list_all_iff)
  then show ?thesis
    by (simp add: notification_broadcast_def notification_parts [OF assms(3,4)] part_def emitToRoom_def user_room_def)
qed

theorem notification_reaches_user_witness:
  "map (\<lambda>s. (sk_id s, sk_received s)) (sockets (notification_broadcast (notification_channel ''g'' ''u'') JNull
     (ex_rtdb [ex_socket ''1'' ''g'' ''u'', ex_socket ''2'' ''h'' ''u'']))) = [(''1'', [(''notification:new'', JNull)]), (''2'', [])]"
  using notification_reaches_user [OF ex_reachable, of "''g''" "''u''" JNull] by (simp add: colon_free_def ex_socket_def sk_deliver_def)

text \<open>A session ends with the membership: the periodic check keeps a socket exactly while its user is active and an
  active member of the organization; after a removal it disconnects the socket and says so to the organization.\<close>

theorem removed_member_is_disconnected:
  assumes "s \<in> set (sockets w)" and "w1 = removeMembership t (sk_orgId s) (sk_userId s) w"
  shows "sk_id s \<notin> sk_id ` set (sockets (session_check now s w1)) \<and>
    (session_alive (sk_userId s) (sk_orgId s) w \<longrightarrow> session_check now s w = w) \<and>
    (\<not> session_alive (sk_userId s) (sk_orgId s) w \<longrightarrow> sk_id s \<notin> sk_id ` set (sockets (session_check now s w)))"
proof -
  have gone: "sk_id s \<notin> sk_id ` set (sockets (on_disconnect now s v))" for v :: "'a rt_db_scheme"
    by (auto simp: on_disconnect_def emitToOrg_def emitToRoom_def image_update_where_same)
  have "\<not> session_alive (sk_userId s) (sk_orgId s) w1"
    by (simp add: session_alive_def assms(2) findMembership_removeMembership)
  with gone show ?thesis by (simp add: session_check_def)
qed

theorem removed_member_is_disconnected_witness:
  "sockets (session_check 9 (ex_socket ''1'' ''g'' ''u'') (removeMembership 8 ''g'' ''u'' (ex_rtdb [ex_socket ''1'' ''g'' ''u'']))) = []"
proof -
  have "ex_socket ''1'' ''g'' ''u'' \<in> set (sockets (ex_rtdb [ex_socket ''1'' ''g'' ''u'']))" by simp
  from removed_member_is_disconnected [OF this refl, of 9 8] show ?thesis
    by (simp add: session_check_def on_disconnect_def emitToOrg_def emitToRoom_def on_socket_def removeMembership_def
        ex_socket_def session_alive_def split: if_splits)
qed

end
