(* ===== verification/Cleanup.thy ===== *)
theory Cleanup
  imports Saml Invitation Idempotency Chat Notification
begin

text \<open>
  \<^verbatim>\<open>src/shared/jobs/cleanup.worker.ts\<close>: the hourly job that expires invitations, purges old keys,
  events and assertions, and manages the monthly partitions and the sequences.  It runs on the tables
  of several modules; the state extends the one of the invitations by them.  Every statement is in a
  \<^verbatim>\<open>try\<close> block: \<open>ok n\<close> says whether statement \<open>n\<close> succeeds.
\<close>

section \<open>State and calendar\<close>

text \<open>A monthly partition of a table, with the bounds of its values.\<close>

record partition =
  pt_table :: string
  pt_label :: string
  pt_from :: string
  pt_to :: string

record cleanup_db = inv_db +
  cl_idempotency_keys :: "idem_row list"
  cl_channels :: "channel list"
  cl_sequences :: "string \<Rightarrow> int option"
  cl_partitions :: "partition list"

text \<open>The local calendar of the server: months are counted from year 0, \<open>12 * year + month\<close>.\<close>

record calendar =
  cal_month :: "timestamp \<Rightarrow> nat"
  cal_first :: "nat \<Rightarrow> timestamp"
  cal_minus_days :: "timestamp \<Rightarrow> int \<Rightarrow> timestamp"

definition month_label :: "nat \<Rightarrow> string" where
  "month_label n = show_nat (n div 12) @ ''_'' @ two_digits (n mod 12 + 1)"

section \<open>Purges\<close>

definition expire_invitations :: "timestamp \<Rightarrow> 'a inv_db_scheme \<Rightarrow> 'a inv_db_scheme" where
  "expire_invitations now w = w\<lparr>invitations :=
     update_where (\<lambda>i. inv_status i = InvPending \<and> inv_expires_at i < now) (\<lambda>i. i\<lparr>inv_status := InvExpired\<rparr>) (invitations w)\<rparr>"

definition purge_idempotency :: "timestamp \<Rightarrow> 'a cleanup_db_scheme \<Rightarrow> 'a cleanup_db_scheme" where
  "purge_idempotency now w = w\<lparr>cl_idempotency_keys := delete_where (\<lambda>k. ik_expires_at k < now) (cl_idempotency_keys w)\<rparr>"

definition purge_published :: "timestamp \<Rightarrow> 'a base_scheme \<Rightarrow> 'a base_scheme" where
  "purge_published now w = w\<lparr>outbox_events := delete_where
     (\<lambda>e. oe_status e = OPublished \<and> (case oe_published_at e of None \<Rightarrow> False | Some t \<Rightarrow> t < now - 604800000)) (outbox_events w)\<rparr>"

definition purge_failed :: "timestamp \<Rightarrow> 'a base_scheme \<Rightarrow> 'a base_scheme" where
  "purge_failed now w = w\<lparr>outbox_events := delete_where
     (\<lambda>e. oe_status e = OFailed \<and> oe_created_at e < now - 2592000000) (outbox_events w)\<rparr>"

definition purge_assertions :: "timestamp \<Rightarrow> 'a auth_db_scheme \<Rightarrow> 'a auth_db_scheme" where
  "purge_assertions now w = w\<lparr>saml_used_assertions := delete_where (\<lambda>(_, _, e). e < now - 86400000) (saml_used_assertions w)\<rparr>"

section \<open>Partitions and sequences\<close>

definition add_partition :: "calendar \<Rightarrow> string \<Rightarrow> nat \<Rightarrow> 'a cleanup_db_scheme \<Rightarrow> 'a cleanup_db_scheme" where
  "add_partition cal table m w =
     (if list_ex (\<lambda>p. pt_table p = table \<and> pt_label p = month_label m) (cl_partitions w) then w
      else w\<lparr>cl_partitions := cl_partitions w @
             [\<lparr>pt_table = table, pt_label = month_label m, pt_from = iso_date (cal_first cal m),
               pt_to = iso_date (cal_first cal (m + 1))\<rparr>]\<rparr>)"

definition createNextPartitions :: "(nat \<Rightarrow> bool) \<Rightarrow> calendar \<Rightarrow> timestamp \<Rightarrow> 'a cleanup_db_scheme \<Rightarrow> 'a cleanup_db_scheme" where
  "createNextPartitions ok cal now w =
     fold (\<lambda>i w. let m = cal_month cal now + i
                 in if ok i then add_partition cal ''audit_logs'' m (add_partition cal ''chat_messages'' m w) else w)
       [1, 2] w"

definition min_retention :: "'a dir_scheme \<Rightarrow> int" where
  "min_retention w =
     (case map o_retention_audit_days (filter (\<lambda>r. o_status r = OrgActive \<or> o_status r = OrgSuspended) (organizations w)) of
        [] \<Rightarrow> 90 | d # ds \<Rightarrow> fold min ds d)"

text \<open>Dropping a partition removes the rows of its month.\<close>

definition drop_audit_partition :: "calendar \<Rightarrow> nat \<Rightarrow> 'a cleanup_db_scheme \<Rightarrow> 'a cleanup_db_scheme" where
  "drop_audit_partition cal m w =
     w\<lparr>audit_logs := delete_where (\<lambda>a. month_label (cal_month cal (al_occurred_at a)) = month_label m) (audit_logs w),
       cl_partitions := delete_where (\<lambda>p. pt_table p = ''audit_logs'' \<and> pt_label p = month_label m) (cl_partitions w)\<rparr>"

fun drop_loop :: "(nat \<Rightarrow> bool) \<Rightarrow> calendar \<Rightarrow> nat \<Rightarrow> nat \<Rightarrow> nat \<Rightarrow> 'a cleanup_db_scheme \<Rightarrow> 'a cleanup_db_scheme" where
  "drop_loop ok cal cutoff i 0 w = w"
| "drop_loop ok cal cutoff i (Suc n) w =
     (if ok i then drop_loop ok cal cutoff (Suc i) n (drop_audit_partition cal (cutoff - i) w) else w)"

definition cutoff_month :: "calendar \<Rightarrow> timestamp \<Rightarrow> 'a dir_scheme \<Rightarrow> nat" where
  "cutoff_month cal now w = cal_month cal (cal_minus_days cal now (min_retention w))"

definition dropExpiredAuditLogPartitions ::
    "(nat \<Rightarrow> bool) \<Rightarrow> calendar \<Rightarrow> timestamp \<Rightarrow> 'a cleanup_db_scheme \<Rightarrow> 'a cleanup_db_scheme" where
  "dropExpiredAuditLogPartitions ok cal now w = drop_loop ok cal (cutoff_month cal now w) 1 24 w"

definition drop_sequence :: "(uuid \<Rightarrow> bool) \<Rightarrow> channel \<Rightarrow> 'a cleanup_db_scheme \<Rightarrow> 'a cleanup_db_scheme" where
  "drop_sequence ok c w =
     (if ok (ch_id c) then w\<lparr>cl_sequences := (cl_sequences w)(sequence_name (ch_id c) := None)\<rparr> else w)"

definition dropDeletedChannelSequences :: "(uuid \<Rightarrow> bool) \<Rightarrow> timestamp \<Rightarrow> 'a cleanup_db_scheme \<Rightarrow> 'a cleanup_db_scheme" where
  "dropDeletedChannelSequences ok now w =
     fold (drop_sequence ok)
       (filter (\<lambda>c. case ch_deleted_at c of None \<Rightarrow> False | Some t \<Rightarrow> t < now - 2592000000) (cl_channels w)) w"

section \<open>The job\<close>

record cleanup_env =
  ce_ok :: "nat \<Rightarrow> bool"
  ce_partition_ok :: "nat \<Rightarrow> bool"
  ce_drop_ok :: "nat \<Rightarrow> bool"
  ce_sequence_ok :: "uuid \<Rightarrow> bool"
  ce_calendar :: calendar

definition try_statement :: "bool \<Rightarrow> ('s \<Rightarrow> 's) \<Rightarrow> 's \<Rightarrow> 's" where
  "try_statement b f w = (if b then f w else w)"

definition runCleanupJob :: "cleanup_env \<Rightarrow> timestamp \<Rightarrow> 'a cleanup_db_scheme \<Rightarrow> 'a cleanup_db_scheme" where
  "runCleanupJob env now w =
     (let w1 = try_statement (ce_ok env 1) (expire_invitations now) w;
          w2 = try_statement (ce_ok env 2) (purge_idempotency now) w1;
          w3 = try_statement (ce_ok env 3) (purge_published now) w2;
          w4 = try_statement (ce_ok env 4) (purge_failed now) w3;
          w5 = try_statement (ce_ok env 5) (purge_assertions now) w4;
          w6 = createNextPartitions (ce_partition_ok env) (ce_calendar env) now w5;
          w7 = dropExpiredAuditLogPartitions (ce_drop_ok env) (ce_calendar env) now w6
      in dropDeletedChannelSequences (ce_sequence_ok env) now w7)"

section \<open>Frame lemmas\<close>

lemma purges_frame [simp]:
  "saml_used_assertions (expire_invitations now w) = saml_used_assertions w"
  "audit_logs (expire_invitations now w) = audit_logs w" "organizations (expire_invitations now w) = organizations w"
  by (simp_all add: expire_invitations_def)

lemma add_partition_frame [simp]:
  "saml_used_assertions (add_partition cal tb m w) = saml_used_assertions w" "audit_logs (add_partition cal tb m w) = audit_logs w"
  "organizations (add_partition cal tb m w) = organizations w"
  by (simp_all add: add_partition_def)

lemma drop_loop_frame [simp]:
  "saml_used_assertions (drop_loop ok cal c i n w) = saml_used_assertions w"
  by (induction ok cal c i n w rule: drop_loop.induct) (simp_all add: drop_audit_partition_def)

lemma fold_drop_sequence [simp]:
  "saml_used_assertions (fold (drop_sequence ok) cs w) = saml_used_assertions w" "audit_logs (fold (drop_sequence ok) cs w) = audit_logs w"
  by (induction cs arbitrary: w) (simp_all add: drop_sequence_def)

lemma drop_sequences_frame [simp]:
  "saml_used_assertions (dropDeletedChannelSequences ok now w) = saml_used_assertions w"
  "audit_logs (dropDeletedChannelSequences ok now w) = audit_logs w"
  by (simp_all add: dropDeletedChannelSequences_def)

lemma cleanup_assertions:
  "saml_used_assertions (runCleanupJob env now w) =
     (if ce_ok env 5 then delete_where (\<lambda>(_, _, e). e < now - 86400000) (saml_used_assertions w) else saml_used_assertions w)"
  by (simp add: runCleanupJob_def try_statement_def purge_idempotency_def purge_published_def purge_failed_def purge_assertions_def
      createNextPartitions_def dropExpiredAuditLogPartitions_def Let_def)

section \<open>Months\<close>

lemma month_label_inj: "month_label m = month_label n \<Longrightarrow> m = n"
proof -
  assume eq: "month_label m = month_label n"
  have us: "CHR ''_'' \<notin> set (show_nat k)" for k using show_nat_digits [of "CHR ''_''" k] by auto
  have "show_nat (m div 12) = show_nat (n div 12) \<and> two_digits (m mod 12 + 1) = two_digits (n mod 12 + 1)"
    using join_inj [OF us us, of "m div 12" "two_digits (m mod 12 + 1)" "n div 12" "two_digits (n mod 12 + 1)"] eq
    by (simp add: month_label_def)
  then have "m div 12 = n div 12" "m mod 12 = n mod 12" using read_two_digits by (simp, metis add_right_cancel)
  then show ?thesis by (metis div_mult_mod_eq)
qed

lemma drop_loop_audit:
  assumes "\<And>j. j < i + n \<Longrightarrow> j \<ge> i \<Longrightarrow> ok j" and "i + n \<le> Suc c"
  shows "audit_logs (drop_loop ok cal c i n w) =
    filter (\<lambda>a. \<not> (c < cal_month cal (al_occurred_at a) + i + n \<and> cal_month cal (al_occurred_at a) + i \<le> c)) (audit_logs w)"
  using assms
proof (induction n arbitrary: i w)
  case (Suc n)
  let ?k = "\<lambda>a. cal_month cal (al_occurred_at a)"
  have "audit_logs (drop_loop ok cal c i (Suc n) w) =
      filter (\<lambda>a. \<not> (c < ?k a + Suc i + n \<and> ?k a + Suc i \<le> c)) (filter (\<lambda>a. ?k a \<noteq> c - i) (audit_logs w))"
    using Suc.prems Suc.IH [of "Suc i" "drop_audit_partition cal (c - i) w"]
    by (auto simp: drop_audit_partition_def delete_where_def dest: month_label_inj intro!: filter_cong)
  also have "\<dots> = filter (\<lambda>a. \<not> (c < ?k a + i + Suc n \<and> ?k a + i \<le> c)) (audit_logs w)"
    unfolding filter_filter using Suc.prems(2) by (intro filter_cong) auto
  finally show ?case .
qed simp

lemma cutoff_month_cong: "organizations w' = organizations w \<Longrightarrow> cutoff_month cal now w' = cutoff_month cal now w"
  by (simp add: cutoff_month_def min_retention_def)

text \<open>The rows the job drops: those of the 24 months before the month of the cutoff.\<close>

lemma cleanup_audit:
  assumes "\<And>i. ce_drop_ok env i" and "c = cutoff_month (ce_calendar env) now w" and "24 \<le> c"
  shows "audit_logs (runCleanupJob env now w) =
    filter (\<lambda>a. \<not> (c - 24 \<le> cal_month (ce_calendar env) (al_occurred_at a) \<and> cal_month (ce_calendar env) (al_occurred_at a) < c)) (audit_logs w)"
proof -
  let ?k = "\<lambda>a. cal_month (ce_calendar env) (al_occurred_at a)"
  define v where "v = createNextPartitions (ce_partition_ok env) (ce_calendar env) now
    (try_statement (ce_ok env 5) (purge_assertions now) (try_statement (ce_ok env 4) (purge_failed now)
      (try_statement (ce_ok env 3) (purge_published now) (try_statement (ce_ok env 2) (purge_idempotency now)
        (try_statement (ce_ok env 1) (expire_invitations now) w)))))"
  have v: "audit_logs v = audit_logs w" "organizations v = organizations w"
    by (simp_all add: v_def createNextPartitions_def try_statement_def purge_idempotency_def purge_published_def purge_failed_def
        purge_assertions_def Let_def)
  have "audit_logs (runCleanupJob env now w) = audit_logs (drop_loop (ce_drop_ok env) (ce_calendar env) c 1 24 v)"
    unfolding runCleanupJob_def Let_def drop_sequences_frame dropExpiredAuditLogPartitions_def v_def [symmetric]
      cutoff_month_cong [OF v(2)] assms(2) by (rule refl)
  also have "\<dots> = filter (\<lambda>a. \<not> (c < ?k a + 1 + 24 \<and> ?k a + 1 \<le> c)) (audit_logs w)"
    using assms by (subst drop_loop_audit) (auto simp: v)
  also have "\<dots> = filter (\<lambda>a. \<not> (c - 24 \<le> ?k a \<and> ?k a < c)) (audit_logs w)"
    using assms(3) by (intro filter_cong) auto
  finally show ?thesis .
qed

text \<open>With the shortest retention of all organizations as the cutoff, an organization with a longer one loses
  rows it has to keep.\<close>

lemma min_retention_le:
  assumes "r \<in> set (organizations w)" and "o_status r = OrgActive \<or> o_status r = OrgSuspended"
  shows "min_retention w \<le> o_retention_audit_days r"
proof -
  have le: "fold min ds d \<le> d \<and> (\<forall>x \<in> set ds. fold min ds d \<le> x)" for d :: int and ds
  proof (induction ds arbitrary: d)
    case (Cons x ds)
    from Cons [of "min x d"] have "fold min ds (min x d) \<le> x" "fold min ds (min x d) \<le> d" by linarith+
    with Cons [of "min x d"] show ?case by simp
  qed simp
  let ?ds = "map o_retention_audit_days (filter (\<lambda>r. o_status r = OrgActive \<or> o_status r = OrgSuspended) (organizations w))"
  have "o_retention_audit_days r \<in> set ?ds" using assms by auto
  then show ?thesis using le unfolding min_retention_def by (cases ?ds) auto
qed

section \<open>Histories of SAML callbacks and cleanups\<close>

text \<open>Callbacks of any organization and cleanup runs, in any order.\<close>

datatype saml_event = Callback uuid string timestamp | Clean cleanup_env timestamp

fun saml_time :: "saml_event \<Rightarrow> timestamp" where
  "saml_time (Callback g resp t) = t"
| "saml_time (Clean env t) = t"

fun saml_event_step :: "saml_lib \<Rightarrow> crypto_lib \<Rightarrow> flag_env \<Rightarrow> nat \<Rightarrow> saml_event \<Rightarrow> flag_db \<times> cleanup_db \<Rightarrow> flag_db \<times> cleanup_db" where
  "saml_event_step lib cr env proc (Callback g resp t) s = snd (handleCallback lib cr env proc t g resp s)"
| "saml_event_step lib cr env proc (Clean ce t) s = (fst s, runCleanupJob ce t (snd s))"

lemma callback_keeps_used:
  "set (saml_used_assertions (snd s)) \<subseteq> set (saml_used_assertions (snd (snd (handleCallback lib cr env proc t g resp s))))"
  using saml_accept_used(1) by (fastforce simp: handleCallback_def Let_def split: prod.split option.split)

lemma used_assertion_stays:
  assumes "(a, g, e) \<in> set (saml_used_assertions (snd s))" and "list_all (\<lambda>ev. saml_time ev < e + 86400000) evs"
  shows "(a, g, e) \<in> set (saml_used_assertions (snd (fold (saml_event_step lib cr env proc) evs s)))"
  using assms
proof (induction evs arbitrary: s)
  case (Cons ev evs)
  have "(a, g, e) \<in> set (saml_used_assertions (snd (saml_event_step lib cr env proc ev s)))"
  proof (cases ev)
    case (Callback h resp t)
    then show ?thesis using Cons.prems(1) callback_keeps_used [of s lib cr env proc t h resp] by auto
  next
    case (Clean ce t)
    then show ?thesis using Cons.prems by (auto simp: cleanup_assertions)
  qed
  with Cons show ?case by simp
qed simp

lemma callback_accepted:
  assumes "handleCallback lib cr env proc t g resp s = (Inr tk, s')"
  obtains c p where "sl_validate lib c (saml_audience c) t resp = Some p"
    and "saml_accept cr t g p (snd s) = (Inr tk, snd s')"
  using assms by (auto simp: handleCallback_def Let_def split: prod.splits option.splits if_splits)

section \<open>Example\<close>

definition ex_calendar :: calendar where
  "ex_calendar = \<lparr>cal_month = (\<lambda>t. nat (t div 2592000000)), cal_first = (\<lambda>n. int n * 2592000000),
     cal_minus_days = (\<lambda>t d. t - d * 86400000)\<rparr>"

definition ex_cleanup_env :: cleanup_env where
  "ex_cleanup_env = \<lparr>ce_ok = (\<lambda>_. True), ce_partition_ok = (\<lambda>_. True), ce_drop_ok = (\<lambda>_. True), ce_sequence_ok = (\<lambda>_. True),
     ce_calendar = ex_calendar\<rparr>"

definition ex_audit :: "timestamp \<Rightarrow> audit_row" where
  "ex_audit t = \<lparr>al_org_id = None, al_actor_id = None, al_actor_type = ActorSystem, al_event_type = ''e'', al_entity_type = None,
     al_entity_id = None, al_payload = JNull, al_occurred_at = t\<rparr>"

definition ex_saml_org :: org where
  "ex_saml_org = (new_org 0 ''g'' \<lparr>co_name = ''O'', co_slug = ''o'', co_plan_tier = None, co_timezone = None,
     co_locale = None\<rparr>)\<lparr>o_saml_enabled := True, o_saml_metadata_url := Some ''{}''\<rparr>"

definition ex_cleanup_db :: cleanup_db where
  "ex_cleanup_db = auth_db.extend (ex_auth\<lparr>organizations := [ex_saml_org], audit_logs := [ex_audit 51840000000, ex_audit 93312000000]\<rparr>)
     \<lparr>invitations = [], cl_idempotency_keys = [], cl_channels = [], cl_sequences = (\<lambda>_. None), cl_partitions = []\<rparr>"

definition ex_saml_lib :: saml_lib where
  "ex_saml_lib = \<lparr>sl_parse = (\<lambda>_. Some \<lparr>sc_entryPoint = ''e'', sc_issuer = ''i'', sc_cert = ''c'', sc_audience = None\<rparr>),
     sl_validate = (\<lambda>c aud t r. if t < 1000 then Some \<lparr>sp_ID = Some r, sp_id = None, sp_notOnOrAfter = Some 1000,
       sp_sessionNotOnOrAfter = None, sp_email = Some ''A@x.io'', sp_nameID = None, sp_displayName = None, sp_cn = None\<rparr> else None)\<rparr>"

definition ex_sso :: flag_db where
  "ex_sso = snd (createFlag True 0 0 ''feature.sso'' None None (Some [''g'']) None ex_flag_db)"

lemma ex_sso_enabled: "fst (isEnabled ex_flag_env 0 5 ''g'' ''feature.sso'' ex_sso)"
  by (simp add: ex_sso_def createFlag_def ex_flag_db_def ex_flag_env_def isEnabled_def draw_def invalidateFlag_def clear_l1_def set_l1_def
      resolve_row_def resolveFlag_def Let_def)

lemma ex_saml_accept: "\<exists>tk w'. saml_accept ex_crypto 5 ''g'' \<lparr>sp_ID = Some ''r'', sp_id = None, sp_notOnOrAfter = Some 1000,
       sp_sessionNotOnOrAfter = None, sp_email = Some ''A@x.io'', sp_nameID = None, sp_displayName = None, sp_cn = None\<rparr> ex_cleanup_db = (Inr tk, w')"
proof -
  have "trim (toLowerCase ''A@x.io'') = ''a@x.io''" by code_simp
  then show ?thesis
    by (simp add: saml_accept_def nullish_def use_assertion_def ex_cleanup_db_def auth_db.extend_def ex_auth_def saml_user_def findAuthProvider_def
        findUserByEmail_def ex_email ex_user_def new_user_def user_live_def createAuthProvider_def draw_def saml_session_def issueTokenPair_def
        generateAccessToken_def createRefreshToken_def persistAuditLog_def hashToken_def ex_crypto_def ex_rt_def active_role_def Let_def)
qed

lemma ex_saml_login: "\<exists>tk s'. handleCallback ex_saml_lib ex_crypto ex_flag_env 0 5 ''g'' ''r'' (ex_sso, ex_cleanup_db) = (Inr tk, s')"
proof -
  obtain f where f: "isEnabled ex_flag_env 0 5 ''g'' ''feature.sso'' ex_sso = (True, f)"
    using ex_sso_enabled by (metis prod.collapse)
  obtain tk w' where "saml_accept ex_crypto 5 ''g'' \<lparr>sp_ID = Some ''r'', sp_id = None, sp_notOnOrAfter = Some 1000,
       sp_sessionNotOnOrAfter = None, sp_email = Some ''A@x.io'', sp_nameID = None, sp_displayName = None, sp_cn = None\<rparr> ex_cleanup_db = (Inr tk, w')"
    using ex_saml_accept by blast
  moreover have "\<exists>c. getOrgSamlConfig ex_saml_lib ''g'' ex_cleanup_db = Some c"
    by (simp add: getOrgSamlConfig_def org_findById_def ex_cleanup_db_def auth_db.extend_def ex_auth_def ex_saml_org_def new_org_def ex_saml_lib_def)
  ultimately show ?thesis by (auto simp: handleCallback_def f ex_saml_lib_def)
qed

section \<open>The properties\<close>


text \<open>Retention of the audit log: when its statements succeed, the cleanup job deletes exactly the rows of the 24 calendar
  months before the month of the cutoff, which lies as many days back as the shortest retention of an active or
  suspended organization; so a row from the cutoff on is always kept.\<close>

theorem audit_retention_exact:
  assumes "\<And>i. ce_drop_ok env i" and "c = cutoff_month (ce_calendar env) now w" and "24 \<le> c"
    and "\<And>t t'. t \<le> t' \<Longrightarrow> cal_month (ce_calendar env) t \<le> cal_month (ce_calendar env) t'"
    and "a \<in> set (audit_logs w)" "cal_minus_days (ce_calendar env) now (min_retention w) \<le> al_occurred_at a"
  shows "audit_logs (runCleanupJob env now w) = filter (\<lambda>a. \<not> (c - 24 \<le> cal_month (ce_calendar env) (al_occurred_at a) \<and>
      cal_month (ce_calendar env) (al_occurred_at a) < c)) (audit_logs w) \<and>
    a \<in> set (audit_logs (runCleanupJob env now w))"
proof -
  have "c \<le> cal_month (ce_calendar env) (al_occurred_at a)" using assms(2,4,6) by (simp add: cutoff_month_def)
  with assms(5) show ?thesis by (simp add: cleanup_audit [OF assms(1-3)])
qed

theorem audit_retention_exact_witness:
  "audit_logs (runCleanupJob ex_cleanup_env 124848000000 ex_cleanup_db) = [ex_audit 93312000000]"
proof -
  have db: "audit_logs ex_cleanup_db = [ex_audit 51840000000, ex_audit 93312000000]" "organizations ex_cleanup_db = [ex_saml_org]"
    by (simp_all add: ex_cleanup_db_def auth_db.extend_def ex_auth_def)
  have m: "min_retention ex_cleanup_db = 365" by (simp add: min_retention_def db ex_saml_org_def new_org_def)
  have c: "36 = cutoff_month (ce_calendar ex_cleanup_env) 124848000000 ex_cleanup_db"
    by (simp add: cutoff_month_def m ex_cleanup_env_def ex_calendar_def)
  have "audit_logs (runCleanupJob ex_cleanup_env 124848000000 ex_cleanup_db) = filter (\<lambda>a. \<not> (36 - 24 \<le> cal_month (ce_calendar ex_cleanup_env)
      (al_occurred_at a) \<and> cal_month (ce_calendar ex_cleanup_env) (al_occurred_at a) < 36)) (audit_logs ex_cleanup_db)"
    by (rule audit_retention_exact [where a = "ex_audit 93312000000", OF _ c, THEN conjunct1])
       (simp_all add: ex_cleanup_env_def ex_calendar_def db m ex_audit_def nat_mono zdiv_mono1)
  then show ?thesis by (simp add: db ex_cleanup_env_def ex_calendar_def ex_audit_def)
qed


end
