(* ===== verification/Spec2Isabelle.thy ===== *)
theory Spec2Isabelle
  imports Org_Api Outbox Client_Session Client_Properties Client_Upload Client_Components Task_Api Chat_Api Search Workspace Invitation Payment File Rate_Limiter Idempotency Feature_Flag Chat Webhook Gdpr Realtime Cleanup
begin

text \<open>
  A verification library for the multi-tenant collaborative work platform: a TypeScript server (Express,
  PostgreSQL, Redis, BullMQ, Socket.IO) whose organizations share one database and must not see each
  other.  Paths below are relative to \<^verbatim>\<open>src/src\<close>.

  \<^bold>\<open>The program.\<close>  A request passes the middlewares of \<^verbatim>\<open>shared\<close> (JWT, organization context,
  status of the organization, rate limit, idempotency key), then a route of one of the modules
  under \<^verbatim>\<open>modules\<close>, which calls a service, which calls repositories.  Services write rows to the
  \<^verbatim>\<open>outbox_events\<close> table; a poller publishes them on Redis, from where broadcasters forward them to
  sockets and workers act on them (notifications, e-mails, webhooks, search).  Periodic workers create
  recurring tasks, scan uploads, send digests, end grace periods, purge old rows, and erase users and
  organizations.

  \<^bold>\<open>How it is modelled.\<close>  A table is the list of its rows in insertion order, a row is a
  \<^verbatim>\<open>record\<close> with one field per column the program uses, and the state is an extensible record: \<open>base\<close>
  (outbox, audit log, queues, Redis keys, entropy) is extended by \<open>dir\<close> (users, organizations,
  memberships, workspaces, preferences, subscriptions), and this by the tables of each module
  (\<open>work_db\<close>, \<open>auth_db\<close>, \<open>pay_db\<close>, \<open>file_db\<close>, \<open>flag_db\<close>, \<open>notif_db\<close>, and from these
  \<open>chat_db\<close>, \<open>rt_db\<close>, \<open>webhook_db\<close>, \<open>inv_db\<close>, \<open>cleanup_db\<close>, \<open>gdpr_db\<close>), so that an operation of a
  lower layer runs unchanged in every state above it.  Reads are functions of the state; an
  \<^verbatim>\<open>async\<close> function that may throw returns an outcome, \<open>Inl\<close> an error or \<open>Inr\<close> a value, with the new
  state.  \<open>withTransaction\<close> undoes the writes of a body that throws; outside of it the writes made
  before an error stay.  Constraints of the schema that the code relies on raise PostgreSQL errors by
  their code (23505, 23514, 22P02, 42703).  Time is an argument in milliseconds, randomness is drawn
  from a stream in the state, and a failure of Redis, of the database or of a remote service is an
  argument, so that each theorem quantifies over all of them.  Concurrency appears as arbitrary
  sequences of operations (\<^verbatim>\<open>inductive\<close> step relations), and inside an operation where the code
  interleaves with others (the two reads of an idempotency key, the pages of an export, the attempts of
  an acknowledged emission).

  \<^bold>\<open>Theories.\<close>
  \<^item> \<open>Prelude\<close>: identifiers, JSON, \<^verbatim>\<open>shared/errors\<close>, the SQL forms with their lemmas, string helpers.
    \<open>Platform_Base\<close>: outbox, audit log, queues, \<^verbatim>\<open>shared/redis/cache.ts\<close>.  \<open>Directory\<close>: the repositories
    of organizations and memberships.  \<open>Interfaces\<close>: the contracts shared by components as locales
    (\<open>tenant_lookup\<close>, \<open>versioned_store\<close>, \<open>one_time_token\<close>, \<open>fresh_insert\<close>), each interpreted on the
    operations of the components that provide it.
  \<^item> \<open>Outbox\<close>: \<^verbatim>\<open>shared/events/outbox-poller.ts\<close>, the cycle with its lock and the loop around it.
    Events are published only if sent, in order of creation, and the queue drains.
  \<^item> \<open>Task_Repository\<close>, \<open>Task_Tree\<close>, \<open>Task\<close>, \<open>Task_Dependency\<close>, \<open>Task_Extras\<close>, \<open>Task_System\<close>:
    \<^verbatim>\<open>modules/task\<close>.  The tree of subtasks and its cascade, the transition table, the optimistic lock,
    the depth-first search for cycles, bulk operations, templates, comments, the recurring worker, and
    the invariant of the whole module as a transition system.  \<open>Workspace\<close>: \<^verbatim>\<open>modules/workspace\<close>.
  \<^item> \<open>Auth_Repository\<close>, \<open>Auth\<close>, \<open>Auth_Properties\<close>, \<open>Saml\<close>: \<^verbatim>\<open>modules/auth\<close> and
    \<^verbatim>\<open>shared/auth-middleware/jwt.middleware.ts\<close>.  Rotation and reuse of refresh tokens, lockout, reset,
    logout, tokens that work once.
  \<^item> \<open>Organization\<close>, \<open>Org_Access\<close>, \<open>Invitation\<close>: \<^verbatim>\<open>modules/organization\<close>,
    \<^verbatim>\<open>modules/platform-admin\<close>, the middlewares for context, status and role.
  \<^item> \<open>Payment\<close>: \<^verbatim>\<open>modules/payment\<close>.  \<open>File\<close>: \<^verbatim>\<open>modules/file\<close>, with the accounting of storage as
    the invariant of a transition system.
  \<^item> \<open>Rate_Limiter\<close>: both sliding windows over Redis sorted sets refine one function of the history;
    the bound is proved once in the locale \<open>window_limiter\<close>.  \<open>Idempotency\<close>: \<^verbatim>\<open>shared/idempotency\<close>.
    \<open>Feature_Flag\<close>: \<^verbatim>\<open>modules/feature-flag\<close>, the two caches refine the table.  \<open>Crypto\<close>:
    \<^verbatim>\<open>shared/crypto\<close> with base64.
  \<^item> \<open>Chat\<close>: \<^verbatim>\<open>modules/chat\<close> and the \<^verbatim>\<open>client:sync\<close> handler.  \<open>Webhook\<close>: \<^verbatim>\<open>modules/webhook\<close>.
    \<open>Notification\<close>: \<^verbatim>\<open>modules/notification\<close> with its three workers.  \<open>Realtime\<close>:
    \<^verbatim>\<open>shared/realtime\<close>, sockets, rooms and broadcasters as a transition system.
  \<^item> \<open>Gdpr\<close>: \<^verbatim>\<open>modules/gdpr\<close>, which writes to the tables of every module.  \<open>Cleanup\<close>:
    \<^verbatim>\<open>shared/jobs/cleanup.worker.ts\<close>.
  \<^item> This theory: isolation of the lookups of several modules.

  \<^bold>\<open>Bounds.\<close>  The recursive query of \<^verbatim>\<open>cascadeSoftDelete\<close> is a fixed number of rounds
  (\<open>CASCADE_ROUNDS\<close>); under the invariant on depths two rounds reach every descendant, which
  \<open>deleteTask_cascades\<close> states as an equality.  The search for cycles terminates by a measure on
  the tasks not visited.  The loop over the pages of an export may not end for an arbitrary reader,
  so it is a \<^verbatim>\<open>partial_function\<close>; \<open>user_export_returns\<close> shows that it does return on the tables.
  \<^verbatim>\<open>emitWithAckRetry\<close> makes at most four attempts, as in the code.

  \<^bold>\<open>Parameters.\<close>  Third-party code is an argument of the definitions that use it: SHA-256, HMAC,
  bcrypt, AES-GCM, JWT, TOTP (the record \<open>crypto_lib\<close>), Google's token check, passport-saml, rrule,
  Razorpay, the object store, file-type detection and ClamAV, ipaddr.js, URL parsing, DNS and HTTP,
  the template engine, e-mail providers, web push, and time zones.  What a theorem
  needs of one of them is among its hypotheses.

  \<^bold>\<open>Not modelled.\<close>  The Angular client under \<^verbatim>\<open>src/frontend\<close>; the start-up of the two processes
  (\<^verbatim>\<open>app.ts\<close>, \<^verbatim>\<open>worker.ts\<close>), configuration, logging, metrics and tracing; the OpenAPI generator and
  seed scripts; the storage, e-mail and search adapters, which translate to a remote service; the
  circuit breakers of opossum; BullMQ's retries and scheduling; foreign keys and column
  lengths of the schema (identifiers passed as foreign keys are assumed to name rows); replica lag
  (a replica read sees the committed state); message texts of errors, which decide nothing.
\<close>

section \<open>Tenant isolation of lookups\<close>

text \<open>C7. Tenant isolation of lookups: a task, a workspace or a task template that belongs to another
  organization is answered exactly as one that does not exist.\<close>

theorem foreign_rows_hidden:
  assumes "distinct (map t_id (tasks w))" and "distinct (map ws_id (workspaces w))"
    and "distinct (map tt_id (task_templates w))"
    and "t \<in> set (tasks w)" "t_org_id t \<noteq> g" and "r \<in> set (workspaces w)" "ws_org_id r \<noteq> g"
    and "p \<in> set (task_templates w)" "tt_org_id p \<noteq> g"
  shows "getTask g (t_id t) w = Inl (NotFoundError ''Task'') \<and>
    getWorkspace g (ws_id r) w = Inl (NotFoundError ''Workspace'') \<and>
    getTemplate g (tt_id p) w = Inl (NotFoundError ''TaskTemplate'')"
  using task_tenant.foreign_row_hidden [OF assms(1,4,5)] workspace_tenant.foreign_row_hidden [OF assms(2,6,7)]
    template_tenant.foreign_row_hidden [OF assms(3,8,9)] by simp

theorem foreign_rows_hidden_witness:
  "\<exists>w :: work_db. getTask ''h'' ''a'' w = Inl (NotFoundError ''Task'') \<and> getTask ''g'' ''a'' w \<noteq> Inl (NotFoundError ''Task'') \<and>
     getWorkspace ''h'' ''ws'' w = Inl (NotFoundError ''Workspace'') \<and>
     getTemplate ''h'' ''tt'' w = Inl (NotFoundError ''TaskTemplate'')"
proof -
  let ?p = "\<lparr>tt_id = ''tt'', tt_org_id = ''g'', tt_name = ''N'', tt_default_title = None, tt_default_description = None,
    tt_default_priority = None, tt_default_labels = [], tt_created_by = ''u'', tt_deleted_at = None, tt_created_at = 0\<rparr>"
  let ?w = "(ex_work ex_three)\<lparr>workspaces := [ex_workspace ''ws'' ''g''], task_templates := [?p]\<rparr>"
  have i: "t_id (ex_task ''a'' None 0) = ''a''" "ws_id (ex_workspace ''ws'' ''g'') = ''ws''" "tt_id ?p = ''tt''"
    by (simp_all add: ex_task_def ex_workspace_def)
  have "distinct (map t_id (tasks ?w))" "distinct (map ws_id (workspaces ?w))" "distinct (map tt_id (task_templates ?w))"
    "ex_task ''a'' None 0 \<in> set (tasks ?w)" "t_org_id (ex_task ''a'' None 0) \<noteq> ''h''"
    "ex_workspace ''ws'' ''g'' \<in> set (workspaces ?w)" "ws_org_id (ex_workspace ''ws'' ''g'') \<noteq> ''h''"
    "?p \<in> set (task_templates ?w)" "tt_org_id ?p \<noteq> ''h''"
    by (simp_all add: ex_work_def ex_three_def ex_task_def ex_workspace_def)
  from foreign_rows_hidden [OF this]
  have "getTask ''h'' ''a'' ?w = Inl (NotFoundError ''Task'') \<and> getWorkspace ''h'' ''ws'' ?w = Inl (NotFoundError ''Workspace'') \<and>
      getTemplate ''h'' ''tt'' ?w = Inl (NotFoundError ''TaskTemplate'')" unfolding i by simp
  moreover have "getTask ''g'' ''a'' ?w = Inr (ex_task ''a'' None 0)"
    by (simp add: getTask_def task_findById_def ex_work_def ex_three_def ex_task_def task_live_def)
  ultimately show ?thesis by (intro exI [of _ ?w]) simp
qed

end
